(* ===== verification/Prelude.thy ===== *)
theory Prelude
  imports Main "HOL-Library.Word" "HOL-Library.List_Lexorder" "HOL-Library.Char_ord"
    "HOL-Library.Product_Lexorder" "HOL-Library.Option_ord" "HOL-Library.Code_Target_Nat"
begin

text \<open>
  Shared vocabulary of the development.

  \<^item> Results: Rust's \<open>Result<T, E>\<close> is the sum \<open>'e + 'a\<close> (\<open>Inl\<close> the error); \<open>and_then\<close> is the
    \<open>?\<close> operator, \<open>for_each\<close>, \<open>fold_result\<close> and \<open>collect_results\<close> are the fallible loops.
  \<^item> Slices: \<open>windows2_any\<close> is \<open>.windows(2).any(..)\<close>.
  \<^item> \<open>BTreeMap\<close>: a strictly sorted association list, behind the locale \<open>ordered_map\<close>;
    \<open>BTreeSet\<close>: a strictly sorted list.
  \<^item> Graph facts shared by the schedulers: the mark-on-push worklist closure and the existence
    of a ready node in a finite acyclic graph.
  Strings are byte lists (a Rust \<open>str\<close> is its UTF-8 bytes), compared lexicographically as
  \<open>Ord for str\<close> does.
\<close>

named_theorems result_simps \<open>inversion of fallible computations\<close>
named_theorems bt_simps \<open>laws of the ordered map\<close>

type_synonym u64 = "64 word"
type_synonym u32 = "32 word"
type_synonym u16 = "16 word"

section \<open>Fallible computations\<close>

definition and_then :: "'e + 'a \<Rightarrow> ('a \<Rightarrow> 'e + 'b) \<Rightarrow> 'e + 'b" where
  "and_then m f = (case m of Inl e \<Rightarrow> Inl e | Inr x \<Rightarrow> f x)"

definition map_err :: "('e \<Rightarrow> 'f) \<Rightarrow> 'e + 'a \<Rightarrow> 'f + 'a" where
  "map_err g m = (case m of Inl e \<Rightarrow> Inl (g e) | Inr x \<Rightarrow> Inr x)"

definition ok_or :: "'e \<Rightarrow> 'a option \<Rightarrow> 'e + 'a" where
  "ok_or e m = (case m of None \<Rightarrow> Inl e | Some x \<Rightarrow> Inr x)"

definition is_ok :: "'e + 'a \<Rightarrow> bool" where
  "is_ok m = (case m of Inl _ \<Rightarrow> False | Inr _ \<Rightarrow> True)"

definition is_some_and :: "('a \<Rightarrow> bool) \<Rightarrow> 'a option \<Rightarrow> bool" where
  "is_some_and P m = (case m of None \<Rightarrow> False | Some x \<Rightarrow> P x)"

definition is_none_or :: "('a \<Rightarrow> bool) \<Rightarrow> 'a option \<Rightarrow> bool" where
  "is_none_or P m = (case m of None \<Rightarrow> True | Some x \<Rightarrow> P x)"

fun for_each :: "('a \<Rightarrow> 'e + unit) \<Rightarrow> 'a list \<Rightarrow> 'e + unit" where
  "for_each f [] = Inr ()"
| "for_each f (x # xs) = and_then (f x) (\<lambda>_. for_each f xs)"

fun fold_result :: "('s \<Rightarrow> 'a \<Rightarrow> 'e + 's) \<Rightarrow> 's \<Rightarrow> 'a list \<Rightarrow> 'e + 's" where
  "fold_result f s [] = Inr s"
| "fold_result f s (x # xs) = and_then (f s x) (\<lambda>s'. fold_result f s' xs)"

fun collect_results :: "('a \<Rightarrow> 'e + 'b) \<Rightarrow> 'a list \<Rightarrow> 'e + 'b list" where
  "collect_results f [] = Inr []"
| "collect_results f (x # xs) =
     and_then (f x) (\<lambda>y. and_then (collect_results f xs) (\<lambda>ys. Inr (y # ys)))"

lemma and_then_simps [simp]:
  "and_then (Inl e) f = Inl e" "and_then (Inr x) f = f x"
  by (simp_all add: and_then_def)

lemma and_then_Inr [result_simps]:
  "and_then m f = Inr y \<longleftrightarrow> (\<exists>x. m = Inr x \<and> f x = Inr y)"
  by (cases m) auto

lemma and_then_Inl [result_simps]:
  "and_then m f = Inl e \<longleftrightarrow> m = Inl e \<or> (\<exists>x. m = Inr x \<and> f x = Inl e)"
  by (cases m) auto

lemma map_err_simps [simp]:
  "map_err g (Inl e) = Inl (g e)" "map_err g (Inr x) = Inr x"
  by (simp_all add: map_err_def)

lemma map_err_Inr [result_simps]: "map_err g m = Inr y \<longleftrightarrow> m = Inr y"
  by (cases m) auto

lemma map_err_Inl [result_simps]: "map_err g m = Inl e \<longleftrightarrow> (\<exists>e'. m = Inl e' \<and> e = g e')"
  by (cases m) auto

lemma ok_or_simps [simp]: "ok_or e None = Inl e" "ok_or e (Some x) = Inr x"
  by (simp_all add: ok_or_def)

lemma ok_or_Inr [result_simps]: "ok_or e m = Inr y \<longleftrightarrow> m = Some y"
  by (cases m) auto

lemma is_ok_simps [simp]: "is_ok (Inl e) = False" "is_ok (Inr x) = True"
  by (simp_all add: is_ok_def)

lemma is_ok_iff [result_simps]: "is_ok m \<longleftrightarrow> (\<exists>x. m = Inr x)"
  by (cases m) auto

lemma is_some_and_simps [simp]:
  "is_some_and P None = False" "is_some_and P (Some x) = P x"
  by (simp_all add: is_some_and_def)

lemma is_none_or_simps [simp]:
  "is_none_or P None = True" "is_none_or P (Some x) = P x"
  by (simp_all add: is_none_or_def)

lemma is_some_and_iff: "is_some_and P m \<longleftrightarrow> (\<exists>x. m = Some x \<and> P x)"
  by (cases m) auto

lemma is_none_or_iff: "is_none_or P m \<longleftrightarrow> (\<forall>x. m = Some x \<longrightarrow> P x)"
  by (cases m) auto

lemma if_Inl_Inr [result_simps]:
  "(if c then Inl e else r) = Inr y \<longleftrightarrow> \<not> c \<and> r = Inr y"
  by auto

lemma for_each_Inr [result_simps]:
  "for_each f xs = Inr u \<longleftrightarrow> (\<forall>x \<in> set xs. f x = Inr ())"
  by (induction xs) (auto simp: and_then_Inr)

lemma for_each_Inl: "for_each f xs = Inl e \<Longrightarrow> \<exists>x \<in> set xs. f x = Inl e"
  by (induction xs) (auto simp: and_then_Inl)

lemma collect_results_Inr [result_simps]:
  "collect_results f xs = Inr ys \<longleftrightarrow> list_all2 (\<lambda>x y. f x = Inr y) xs ys"
  by (induction xs arbitrary: ys) (auto simp: and_then_Inr list_all2_Cons1)

lemma collect_results_Inl: "collect_results f xs = Inl e \<Longrightarrow> \<exists>x \<in> set xs. f x = Inl e"
  by (induction xs) (auto simp: and_then_Inl)

lemma collect_results_total:
  assumes "\<And>x. x \<in> set xs \<Longrightarrow> f x = Inr (g x)"
  shows "collect_results f xs = Inr (map g xs)"
  using assms by (induction xs) auto

lemma and_then_cong [fundef_cong]:
  "m = m' \<Longrightarrow> (\<And>x. m' = Inr x \<Longrightarrow> f x = f' x) \<Longrightarrow> and_then m f = and_then m' f'"
  by (cases m') auto

lemma fold_result_invariant:
  assumes "fold_result f s xs = Inr s'" "I seen s"
    and "\<And>seen s x s'. I seen s \<Longrightarrow> f s x = Inr s' \<Longrightarrow> I (seen @ [x]) s'"
  shows "I (seen @ xs) s'"
  using assms(1,2)
proof (induction xs arbitrary: s seen)
  case (Cons x xs)
  then obtain t where "f s x = Inr t" "fold_result f t xs = Inr s'" by (auto simp: and_then_Inr)
  with Cons.IH [of t "seen @ [x]"] Cons.prems assms(3) show ?case by simp
qed simp

text \<open>A computation whose only error is \<open>e\<close>; the rules follow the structure of the code.\<close>

definition fails_with :: "'e \<Rightarrow> 'e + 'a \<Rightarrow> bool" where
  "fails_with e m \<longleftrightarrow> (\<forall>e'. m = Inl e' \<longrightarrow> e' = e)"

named_theorems error_intros \<open>introduction rules for fails_with\<close>

lemma fails_withD: "fails_with e m \<Longrightarrow> m = Inl e' \<Longrightarrow> e' = e"
  by (simp add: fails_with_def)

lemma fails_with_Inr [error_intros]: "fails_with e (Inr x)"
  by (simp add: fails_with_def)

lemma fails_with_Inl [error_intros]: "fails_with e (Inl e)"
  by (simp add: fails_with_def)

lemma fails_with_and_then [error_intros]:
  "fails_with e m \<Longrightarrow> (\<And>x. m = Inr x \<Longrightarrow> fails_with e (f x)) \<Longrightarrow> fails_with e (and_then m f)"
  by (auto simp: fails_with_def and_then_Inl)

lemma fails_with_if [error_intros]:
  "(c \<Longrightarrow> fails_with e a) \<Longrightarrow> (\<not> c \<Longrightarrow> fails_with e b) \<Longrightarrow> fails_with e (if c then a else b)"
  by simp

lemma fails_with_ok_or [error_intros]: "fails_with e (ok_or e m)"
  by (cases m) (auto simp: fails_with_def)

lemma fails_with_map_err [error_intros]: "fails_with e (map_err (\<lambda>_. e) m)"
  by (cases m) (auto simp: fails_with_def)

lemma fails_with_for_each [error_intros]:
  "(\<And>x. x \<in> set xs \<Longrightarrow> fails_with e (f x)) \<Longrightarrow> fails_with e (for_each f xs)"
  by (auto simp: fails_with_def dest: for_each_Inl)

lemma fails_with_collect [error_intros]:
  "(\<And>x. x \<in> set xs \<Longrightarrow> fails_with e (f x)) \<Longrightarrow> fails_with e (collect_results f xs)"
  by (auto simp: fails_with_def dest: collect_results_Inl)

lemma fails_with_fold [error_intros]:
  "(\<And>s x. x \<in> set xs \<Longrightarrow> fails_with e (f s x)) \<Longrightarrow> fails_with e (fold_result f s xs)"
  by (induction xs arbitrary: s) (auto intro!: error_intros)

lemma fails_with_option [error_intros]:
  "(m = None \<Longrightarrow> fails_with e a) \<Longrightarrow> (\<And>x. m = Some x \<Longrightarrow> fails_with e (f x)) \<Longrightarrow>
     fails_with e (case m of None \<Rightarrow> a | Some x \<Rightarrow> f x)"
  by (cases m) auto

section \<open>Adjacent pairs and sortedness\<close>

fun windows2_any :: "('a \<Rightarrow> 'a \<Rightarrow> bool) \<Rightarrow> 'a list \<Rightarrow> bool" where
  "windows2_any P (x # y # zs) = (P x y \<or> windows2_any P (y # zs))"
| "windows2_any P xs = False"

lemma windows2_any_ge [simp]:
  fixes f :: "'a \<Rightarrow> 'k :: linorder"
  shows "windows2_any (\<lambda>a b. f a \<ge> f b) xs \<longleftrightarrow> \<not> sorted_wrt (<) (map f xs)"
proof (induction "\<lambda>a b. f a \<ge> f b" xs rule: windows2_any.induct)
  case (1 x y zs)
  have "sorted_wrt (<) (f x # map f (y # zs)) \<longleftrightarrow> f x < f y \<and> sorted_wrt (<) (map f (y # zs))"
    by (auto dest: less_trans)
  with "1.hyps" show ?case by auto
qed simp_all

lemma sorted_less_distinct: "sorted_wrt (<) (xs :: 'k :: linorder list) \<Longrightarrow> distinct xs"
  using strict_sorted_iff by auto

lemma sorted_less_filter: "sorted_wrt (<) (map f xs) \<Longrightarrow> sorted_wrt (<) (map f (filter P xs))"
  by (induction xs) auto

lemma sorted_snoc_last:
  fixes f :: "'a \<Rightarrow> 'k :: linorder"
  shows "sorted_wrt (<) (map f xs) \<Longrightarrow> (xs \<noteq> [] \<Longrightarrow> f (last xs) < f y) \<Longrightarrow>
    sorted_wrt (<) (map f (xs @ [y]))"
proof (induction xs)
  case (Cons x xs)
  show ?case
  proof (cases "xs = []")
    case False
    then have "f x < f (last xs)" using Cons.prems(1) by simp
    with False Cons show ?thesis by (auto dest: less_trans)
  qed (use Cons in simp)
qed simp

section \<open>Checked machine arithmetic\<close>

definition checked_add :: "'w :: len word \<Rightarrow> 'w word \<Rightarrow> 'w word option" where
  "checked_add a b = (if unat a + unat b < 2 ^ LENGTH('w) then Some (a + b) else None)"

definition saturating_add_usize :: "nat \<Rightarrow> nat \<Rightarrow> nat" where
  "saturating_add_usize a b = min (a + b) (2 ^ 64 - 1)"

lemma unat_add_no_overflow:
  fixes a b :: "'w :: len word"
  shows "unat a + unat b < 2 ^ LENGTH('w) \<Longrightarrow> unat (a + b) = unat a + unat b"
  by (simp add: unat_word_ariths)

lemma checked_add_Some:
  fixes a b :: "'w :: len word"
  shows "checked_add a b = Some c \<Longrightarrow> unat c = unat a + unat b"
  by (auto simp: checked_add_def unat_add_no_overflow split: if_splits)

lemma checked_add_None:
  fixes a b :: "'w :: len word"
  shows "checked_add a b = None \<longleftrightarrow> 2 ^ LENGTH('w) \<le> unat a + unat b"
  by (auto simp: checked_add_def)

section \<open>\<open>BTreeMap\<close> as a strictly sorted association list\<close>

type_synonym ('k, 'v) btree_map = "('k \<times> 'v) list"
type_synonym 'k btree_set = "'k list"

abbreviation bt_empty :: "('k, 'v) btree_map" where
  "bt_empty \<equiv> []"

fun bt_insert :: "'k :: linorder \<Rightarrow> 'v \<Rightarrow> ('k, 'v) btree_map \<Rightarrow> ('k, 'v) btree_map" where
  "bt_insert k v [] = [(k, v)]"
| "bt_insert k v ((k', v') # m) =
     (if k < k' then (k, v) # (k', v') # m
      else if k = k' then (k, v) # m
      else (k', v') # bt_insert k v m)"

fun bt_remove :: "'k :: linorder \<Rightarrow> ('k, 'v) btree_map \<Rightarrow> ('k, 'v) btree_map" where
  "bt_remove k [] = []"
| "bt_remove k ((k', v') # m) = (if k = k' then m else (k', v') # bt_remove k m)"

definition bt_get :: "('k, 'v) btree_map \<Rightarrow> 'k \<Rightarrow> 'v option" where
  "bt_get m k = map_of m k"

definition bt_keys :: "('k, 'v) btree_map \<Rightarrow> 'k list" where
  "bt_keys m = map fst m"

definition bt_values :: "('k, 'v) btree_map \<Rightarrow> 'v list" where
  "bt_values m = map snd m"

definition bt_contains :: "('k, 'v) btree_map \<Rightarrow> 'k \<Rightarrow> bool" where
  "bt_contains m k = (bt_get m k \<noteq> None)"

definition bt_wf :: "('k :: linorder, 'v) btree_map \<Rightarrow> bool" where
  "bt_wf m = sorted_wrt (<) (bt_keys m)"

text \<open>\<open>iter.collect::<BTreeMap<_, _>>()\<close>: later entries replace earlier ones.\<close>

definition bt_collect :: "('k :: linorder \<times> 'v) list \<Rightarrow> ('k, 'v) btree_map" where
  "bt_collect ps = foldl (\<lambda>m (k, v). bt_insert k v m) bt_empty ps"

text \<open>The interface a client of \<open>BTreeMap\<close> relies on.\<close>

locale ordered_map =
  fixes empty :: "'m"
    and insert_key :: "'k :: linorder \<Rightarrow> 'v \<Rightarrow> 'm \<Rightarrow> 'm"
    and remove_key :: "'k \<Rightarrow> 'm \<Rightarrow> 'm"
    and get :: "'m \<Rightarrow> 'k \<Rightarrow> 'v option"
    and keys :: "'m \<Rightarrow> 'k list"
    and wf_map :: "'m \<Rightarrow> bool"
  assumes wf_empty: "wf_map empty"
    and wf_insert: "wf_map m \<Longrightarrow> wf_map (insert_key k v m)"
    and wf_remove: "wf_map m \<Longrightarrow> wf_map (remove_key k m)"
    and get_empty: "get empty k = None"
    and get_insert: "get (insert_key k v m) k' = (if k' = k then Some v else get m k')"
    and get_remove: "wf_map m \<Longrightarrow> get (remove_key k m) k' = (if k' = k then None else get m k')"
    and keys_get: "k \<in> set (keys m) \<longleftrightarrow> get m k \<noteq> None"
    and keys_sorted: "wf_map m \<Longrightarrow> sorted_wrt (<) (keys m)"
begin

lemma wf_foldl_insert:
  "wf_map m \<Longrightarrow> wf_map (foldl (\<lambda>m (k, v). insert_key k v m) m ps)"
  by (induction ps arbitrary: m) (auto intro: wf_insert)

lemma get_foldl_insert:
  "get (foldl (\<lambda>m (k, v). insert_key k v m) m ps) k =
     (case map_of (rev ps) k of Some v \<Rightarrow> Some v | None \<Rightarrow> get m k)"
proof (induction ps arbitrary: m)
  case (Cons p ps)
  then show ?case
    by (cases p) (auto simp: get_insert map_add_def split: option.splits)
qed (simp)

lemma keys_foldl_insert:
  "set (keys (foldl (\<lambda>m (k, v). insert_key k v m) m ps)) = set (keys m) \<union> fst ` set ps"
proof -
  have "k \<in> set (keys (foldl (\<lambda>m (k, v). insert_key k v m) m ps)) \<longleftrightarrow>
      k \<in> set (keys m) \<union> fst ` set ps" for k
    using map_of_eq_None_iff [of "rev ps" k]
    by (auto simp: keys_get get_foldl_insert split: option.splits)
  then show ?thesis by blast
qed

lemma length_keys_collect:
  "length (keys (foldl (\<lambda>m (k, v). insert_key k v m) empty ps)) = card (fst ` set ps)"
proof -
  let ?m = "foldl (\<lambda>m (k, v). insert_key k v m) empty ps"
  have "distinct (keys ?m)"
    using keys_sorted [OF wf_foldl_insert [OF wf_empty]] by (rule sorted_less_distinct)
  then have "length (keys ?m) = card (set (keys ?m))"
    by (rule distinct_card [symmetric])
  moreover have "set (keys empty) = {}"
    using keys_get [of _ empty] get_empty by (simp add: set_eq_iff)
  ultimately show ?thesis by (simp add: keys_foldl_insert)
qed

lemma collect_no_duplicate:
  "length (keys (foldl (\<lambda>m (k, v). insert_key k v m) empty ps)) = length ps \<longleftrightarrow>
     distinct (map fst ps)"
proof -
  have "card (fst ` set ps) = length ps \<longleftrightarrow> distinct (map fst ps)"
    by (metis card_distinct distinct_card length_map list.set_map)
  then show ?thesis by (simp add: length_keys_collect)
qed

end

lemma bt_keys_simps [simp]: "bt_keys [] = []" "bt_keys (p # m) = fst p # bt_keys m"
  by (simp_all add: bt_keys_def)

lemma bt_keys_insert [simp]: "set (bt_keys (bt_insert k v m)) = insert k (set (bt_keys m))"
  by (induction k v m rule: bt_insert.induct) (simp_all add: insert_commute)

lemma bt_get_insert [bt_simps, simp]:
  "bt_get (bt_insert k v m) k' = (if k' = k then Some v else bt_get m k')"
  by (induction m) (auto simp: bt_get_def)

lemma bt_wf_Cons: "bt_wf ((k, v) # m) \<longleftrightarrow> (\<forall>k' \<in> set (bt_keys m). k < k') \<and> bt_wf m"
  by (simp add: bt_wf_def)

lemma bt_wf_empty [bt_simps, simp]: "bt_wf []"
  by (simp add: bt_wf_def)

lemma bt_wf_insert [bt_simps, simp]: "bt_wf m \<Longrightarrow> bt_wf (bt_insert k v m)"
  by (induction k v m rule: bt_insert.induct)
    (auto simp: bt_wf_Cons dest: less_trans split: if_splits)

lemma bt_get_empty [bt_simps, simp]: "bt_get [] k = None"
  by (simp add: bt_get_def)

lemma bt_keys_get: "k \<in> set (bt_keys m) \<longleftrightarrow> bt_get m k \<noteq> None"
  by (auto simp: bt_keys_def bt_get_def map_of_eq_None_iff)

lemma bt_keys_contains [bt_simps]: "k \<in> set (bt_keys m) \<longleftrightarrow> bt_contains m k"
  by (simp add: bt_keys_get bt_contains_def)

lemma bt_keys_remove_subset: "set (bt_keys (bt_remove k m)) \<subseteq> set (bt_keys m)"
  by (induction k m rule: bt_remove.induct) auto

lemma bt_wf_remove [bt_simps, simp]: "bt_wf m \<Longrightarrow> bt_wf (bt_remove k m)"
proof (induction m)
  case (Cons p m)
  then show ?case
    using bt_keys_remove_subset [of k m] by (cases p) (auto simp: bt_wf_Cons)
qed simp

lemma bt_get_remove [bt_simps]:
  "bt_wf m \<Longrightarrow> bt_get (bt_remove k m) k' = (if k' = k then None else bt_get m k')"
proof (induction m)
  case (Cons p m)
  obtain k0 v0 where p: "p = (k0, v0)" by (cases p)
  have "k0 \<notin> set (bt_keys m)" using Cons.prems p by (auto simp: bt_wf_Cons)
  then have "bt_get m k0 = None" by (simp add: bt_keys_get)
  with Cons p show ?case by (auto simp: bt_wf_Cons bt_get_def)
qed (simp add: bt_get_def)

interpretation bt: ordered_map "[]" bt_insert bt_remove bt_get bt_keys bt_wf
  by unfold_locales (simp_all add: bt_get_remove bt_keys_get, simp add: bt_wf_def)

lemma bt_collect_wf [bt_simps, simp]: "bt_wf (bt_collect ps)"
  unfolding bt_collect_def by (rule bt.wf_foldl_insert) simp

lemma bt_collect_get: "bt_get (bt_collect ps) k = map_of (rev ps) k"
  unfolding bt_collect_def by (simp add: bt.get_foldl_insert split: option.splits)

lemma bt_collect_keys [simp]: "set (bt_keys (bt_collect ps)) = fst ` set ps"
  unfolding bt_collect_def by (simp add: bt.keys_foldl_insert)

lemma bt_collect_length: "length (bt_collect ps) = length ps \<longleftrightarrow> distinct (map fst ps)"
  using bt.collect_no_duplicate [of ps] by (simp add: bt_collect_def bt_keys_def)

lemma map_of_rev_distinct: "distinct (map fst ps) \<Longrightarrow> map_of (rev ps) k = map_of ps k"
  by (rule map_of_eqI [THEN fun_cong]) (auto simp: rev_map [symmetric] map_of_is_SomeI)

lemma bt_collect_get_distinct:
  "distinct (map fst ps) \<Longrightarrow> bt_get (bt_collect ps) k = map_of ps k"
  by (simp add: bt_collect_get map_of_rev_distinct)

lemma bt_insert_last: "\<forall>k' \<in> set (bt_keys m). k' < k \<Longrightarrow> bt_insert k v m = m @ [(k, v)]"
  by (induction k v m rule: bt_insert.induct) auto

lemma bt_collect_sorted:
  assumes "sorted_wrt (<) (map fst ps)"
  shows "bt_collect ps = ps"
  using assms
proof (induction ps rule: rev_induct)
  case (snoc p ps)
  then have "bt_collect ps = ps" by (simp add: sorted_wrt_append)
  moreover have "\<forall>k \<in> set (bt_keys ps). k < fst p"
    using snoc.prems by (auto simp: sorted_wrt_append bt_keys_def)
  ultimately show ?case
    by (simp add: bt_collect_def bt_insert_last split_beta)
qed (simp add: bt_collect_def)

lemma bt_get_graph:
  "distinct (map f xs) \<Longrightarrow> bt_get (map (\<lambda>x. (f x, g x)) xs) k = Some v \<longleftrightarrow>
     (\<exists>x \<in> set xs. f x = k \<and> g x = v)"
  unfolding bt_get_def by (subst map_of_eq_Some_iff) (auto simp: comp_def)

lemma bt_keys_graph [simp]: "bt_keys (map (\<lambda>x. (f x, g x)) xs) = map f xs"
  by (simp add: bt_keys_def)

section \<open>The \<open>previous\<close> loop idiom\<close>

text \<open>
  Several validators walk a list with a \<open>previous\<close> key and reject the list unless keys increase
  strictly: \<open>previous.is_some_and(|value| value >= key)\<close>.
\<close>

definition out_of_order :: "'k :: linorder option \<Rightarrow> 'k \<Rightarrow> bool" where
  "out_of_order previous key = is_some_and (\<lambda>p. p \<ge> key) previous"

lemma out_of_order_simps [simp]:
  "\<not> out_of_order None k" "out_of_order (Some p) k \<longleftrightarrow> p \<ge> k"
  by (simp_all add: out_of_order_def)

lemma previous_loop_from:
  fixes key :: "'a \<Rightarrow> 'k :: linorder"
  assumes step: "\<And>p x s'. f p x = Inr s' \<longleftrightarrow> P x \<and> \<not> out_of_order p (key x) \<and> s' = Some (key x)"
  shows "(\<exists>s'. fold_result f p xs = Inr s') \<longleftrightarrow>
    (\<forall>x \<in> set xs. P x) \<and> sorted_wrt (<) (map key xs) \<and>
    (case (p, xs) of (Some k, x # _) \<Rightarrow> k < key x | _ \<Rightarrow> True)"
proof (induction xs arbitrary: p)
  case (Cons x xs)
  have "(\<exists>s'. fold_result f p (x # xs) = Inr s') \<longleftrightarrow>
      P x \<and> \<not> out_of_order p (key x) \<and> (\<exists>s'. fold_result f (Some (key x)) xs = Inr s')"
    by (auto simp: and_then_Inr step)
  also have "\<dots> \<longleftrightarrow> P x \<and> \<not> out_of_order p (key x) \<and> (\<forall>y \<in> set xs. P y) \<and>
      sorted_wrt (<) (map key xs) \<and> (case xs of y # _ \<Rightarrow> key x < key y | [] \<Rightarrow> True)"
    using Cons.IH [of "Some (key x)"] by (auto split: list.splits)
  also have "sorted_wrt (<) (map key xs) \<and> (case xs of y # _ \<Rightarrow> key x < key y | [] \<Rightarrow> True) \<longleftrightarrow>
      sorted_wrt (<) (map key (x # xs))"
    by (cases xs) (auto dest: less_trans)
  finally show ?case
    by (cases p) auto
qed (auto split: option.splits)

lemma previous_loop:
  fixes key :: "'a \<Rightarrow> 'k :: linorder"
  assumes "\<And>p x s'. f p x = Inr s' \<longleftrightarrow> P x \<and> \<not> out_of_order p (key x) \<and> s' = Some (key x)"
  shows "(\<exists>s'. fold_result f None xs = Inr s') \<longleftrightarrow>
    (\<forall>x \<in> set xs. P x) \<and> sorted_wrt (<) (map key xs)"
  using previous_loop_from [where p = None, OF assms] by simp

section \<open>Binary search\<close>

text \<open>
  The loop of \<open>slice::binary_search_by\<close> of the standard library: \<open>size\<close> (here \<open>len\<close>) halves while \<open>base\<close> moves to
  the middle element unless that element is greater than the one sought.
\<close>

function bsearch_base :: "('a \<Rightarrow> 'k :: linorder) \<Rightarrow> 'k \<Rightarrow> 'a list \<Rightarrow> nat \<Rightarrow> nat \<Rightarrow> nat" where
  "bsearch_base key x xs base len =
     (if len > 1 then
        (let half = len div 2; mid = base + half in
         bsearch_base key x xs (if key (xs ! mid) > x then base else mid) (len - half))
      else base)"
  by pat_completeness auto
termination
  by (relation "measure (\<lambda>(key, x, xs, base, len). len)") auto

declare bsearch_base.simps [simp del]

definition binary_search_by :: "('a \<Rightarrow> 'k :: linorder) \<Rightarrow> 'k \<Rightarrow> 'a list \<Rightarrow> nat option" where
  "binary_search_by key x xs =
     (if xs = [] then None
      else (let i = bsearch_base key x xs 0 (length xs) in
            if key (xs ! i) = x then Some i else None))"

lemma bsearch_base_spec:
  assumes "sorted_wrt (<) (map key xs)" "base + len \<le> length xs" "len > 0"
    and "\<And>j. j < length xs \<Longrightarrow> key (xs ! j) = x \<Longrightarrow> base \<le> j \<and> j < base + len"
  shows "bsearch_base key x xs base len < length xs \<and>
    (\<forall>j < length xs. key (xs ! j) = x \<longrightarrow> j = bsearch_base key x xs base len)"
  using assms
proof (induction key x xs base len rule: bsearch_base.induct)
  case (1 key x xs base len)
  show ?case
  proof (cases "len > 1")
    case True
    let ?mid = "base + len div 2"
    let ?base = "if key (xs ! ?mid) > x then base else ?mid"
    have mid: "?mid < length xs" using "1.prems"(2) True by simp
    have range: "?base \<le> j \<and> j < ?base + (len - len div 2)"
      if j: "j < length xs" "key (xs ! j) = x" for j
    proof (cases "key (xs ! ?mid) > x")
      case True
      have "j < ?mid"
      proof (rule ccontr)
        assume "\<not> j < ?mid"
        then have "?mid = j \<or> key (xs ! ?mid) < key (xs ! j)"
          using sorted_wrt_nth_less [OF "1.prems"(1), of ?mid j] j(1) mid
          by (cases "?mid = j") auto
        with j(2) True show False by auto
      qed
      with True "1.prems"(4) [OF j] show ?thesis by auto
    next
      case False
      have "?mid \<le> j"
      proof (rule ccontr)
        assume "\<not> ?mid \<le> j"
        then have "key (xs ! j) < key (xs ! ?mid)"
          using sorted_wrt_nth_less [OF "1.prems"(1), of j ?mid] mid by auto
        with j(2) False show False by auto
      qed
      with False "1.prems"(4) [OF j] show ?thesis by auto
    qed
    have "?base + (len - len div 2) \<le> length xs" "len - len div 2 > 0"
      using "1.prems"(2) True by auto
    from "1.IH" [OF True refl refl "1.prems"(1) this range] True show ?thesis
      by (simp add: bsearch_base.simps [of key x xs base len] Let_def)
  next
    case False
    with "1.prems" show ?thesis
      by (force simp: bsearch_base.simps [of key x xs base len])
  qed
qed

lemma binary_search_by_Some:
  assumes "sorted_wrt (<) (map key xs)"
  shows "binary_search_by key x xs = Some i \<longleftrightarrow> i < length xs \<and> key (xs ! i) = x"
proof (cases "xs = []")
  case False
  with bsearch_base_spec [OF assms, of 0 "length xs" x] show ?thesis
    by (auto simp: binary_search_by_def Let_def)
qed (simp add: binary_search_by_def)

lemma binary_search_by_member:
  assumes "sorted_wrt (<) (map key xs)"
  shows "binary_search_by key x xs \<noteq> None \<longleftrightarrow> x \<in> key ` set xs"
proof -
  have "binary_search_by key x xs \<noteq> None \<longleftrightarrow> (\<exists>i. binary_search_by key x xs = Some i)"
    by simp
  also have "\<dots> \<longleftrightarrow> (\<exists>i < length xs. key (xs ! i) = x)"
    by (simp add: binary_search_by_Some [OF assms])
  also have "\<dots> \<longleftrightarrow> x \<in> key ` set xs"
    by (metis (no_types, lifting) image_iff in_set_conv_nth)
  finally show ?thesis .
qed

section \<open>Finding by a unique key\<close>

lemma find_key_Some:
  assumes "distinct (map f xs)"
  shows "List.find (\<lambda>y. f y = k) xs = Some x \<longleftrightarrow> x \<in> set xs \<and> f x = k"
  using assms by (induction xs) (auto intro: image_eqI)

lemma find_key_None: "List.find (\<lambda>y. f y = k) xs = None \<longleftrightarrow> k \<notin> f ` set xs"
  by (induction xs) auto

end
