(* ===== verification/Contract.thy ===== *)
theory Contract
  imports Prelude
begin

text \<open>
  The contract layer of \<open>crates/core/src/plugin/mod.rs\<close> and the error type of
  \<open>crates/core/src/lib.rs\<close>.

  \<^item> \<open>use_error\<close> has one constructor per machine-readable error code; \<open>error_code\<close> gives the code
    string of the source. The human-readable message, suggestion and details of \<open>UseError\<close> are
    diagnostics that no modelled code branches on, and are left out.
  \<^item> \<open>externals\<close> collects the third-party functions the contracts call: the \<open>semver\<close> crate, the
    \<open>url\<close> crate and SHA-256. It is an argument of every definition that reaches them; later
    theories extend it with the serde encoding of their own contracts.
\<close>

datatype (plugins only: code size) use_error =
    PackageIdInvalid
  | PackageDependencyInvalid
  | PermissionInvalid
  | CatalogInvalid
  | CatalogProvenanceInvalid
  | CatalogPlanEvidenceMissing
  | PackageLockInvalid
  | PackageDependencyIncompatible
  | PackageResolutionLimit
  | PackageResolutionInvalid
  | PackageDependencyMissing
  | PackageRegistryAmbiguous
  | PackageDependencyConflict
  | PackageDependencyCycle
  | InstallationIdInvalid
  | InstallationIdentityMismatch
  | SnapshotInvalid
  | SnapshotGenerationChanged
  | SnapshotGenerationExhausted
  | SnapshotDependencyDisabled
  | PlanInvalid
  | PlanMismatch
  | PlanExpired
  | PlanDenied
  | SurfaceGraphInvalid
  | LifecycleInvalid
  | LifecycleOperationInvalid
  | LifecycleOperationConflict
  | OkfContractInvalid
  | OkfPathEscape
  | OkfBundleInvalid
  | OkfLimitExceeded
  | OkfContractMismatch
  | PlanConfirmationInvalid
  | PlanConfirmationRequired
  | PlanConfirmationMismatch
  | InstalledPlanEvidenceInvalid
  | LifecycleRecordInvalid
  | LifecycleBusy
  | LifecycleOperationMissing
  | LifecycleOwnershipMismatch
  | LifecyclePathInvalid
  | LifecycleIo
  | GrantInvalid
  | GrantCeilingMismatch
  | GrantExceedsCeiling
  | GrantNotActive
  | GrantExpired
  | GrantSnapshotInvalid
  | GrantChangesInvalid
  | GrantChangesRevisionExhausted
  | GrantChangesGenerationExhausted
  | GrantChangesPlanMismatch
  | GrantChangesConfirmationMismatch
  | GrantProposalInvalid
  | GrantProposalNotActive
  | GrantProposalExpired
  | GrantConfirmationInvalid
  | GrantConfirmationRequired
  | GrantConfirmationMismatch
  | McpEndpointGrantInvalid
  | ControlInputInvalid
  | ControlConflict
  | ControlCorrupt
  | ControlGenerationExhausted
  | ControlGenerationChanged
  | ControlReconciliationRequired
  | ControlIdentityMismatch
  | ControlIo
  | RuntimeProviderSelectionInvalid
  | PackageGraphInvalid

primrec error_code :: "use_error \<Rightarrow> string" where
  "error_code PackageIdInvalid = ''use.plugin.package_id_invalid''"
| "error_code PackageDependencyInvalid = ''use.plugin.package_dependency_invalid''"
| "error_code PermissionInvalid = ''use.plugin.permission_invalid''"
| "error_code CatalogInvalid = ''use.plugin.catalog_invalid''"
| "error_code CatalogProvenanceInvalid = ''use.plugin.catalog_provenance_invalid''"
| "error_code CatalogPlanEvidenceMissing = ''use.plugin.catalog_plan_evidence_missing''"
| "error_code PackageLockInvalid = ''use.plugin.package_lock_invalid''"
| "error_code PackageDependencyIncompatible = ''use.plugin.package_dependency_incompatible''"
| "error_code PackageResolutionLimit = ''use.plugin.package_resolution_limit''"
| "error_code PackageResolutionInvalid = ''use.plugin.package_resolution_invalid''"
| "error_code PackageDependencyMissing = ''use.plugin.package_dependency_missing''"
| "error_code PackageRegistryAmbiguous = ''use.plugin.package_registry_ambiguous''"
| "error_code PackageDependencyConflict = ''use.plugin.package_dependency_conflict''"
| "error_code PackageDependencyCycle = ''use.plugin.package_dependency_cycle''"
| "error_code InstallationIdInvalid = ''use.installation.id_invalid''"
| "error_code InstallationIdentityMismatch = ''use.installation.identity_mismatch''"
| "error_code SnapshotInvalid = ''use.installation.snapshot_invalid''"
| "error_code SnapshotGenerationChanged = ''use.installation.snapshot_generation_changed''"
| "error_code SnapshotGenerationExhausted = ''use.installation.snapshot_generation_exhausted''"
| "error_code SnapshotDependencyDisabled = ''use.installation.snapshot_dependency_disabled''"
| "error_code PlanInvalid = ''use.plugin.plan_invalid''"
| "error_code PlanMismatch = ''use.plugin.plan_mismatch''"
| "error_code PlanExpired = ''use.plugin.plan_expired''"
| "error_code PlanDenied = ''use.plugin.plan_denied''"
| "error_code SurfaceGraphInvalid = ''use.surface_graph.invalid''"
| "error_code LifecycleInvalid = ''use.plugin.lifecycle_invalid''"
| "error_code LifecycleOperationInvalid = ''use.plugin.lifecycle_operation_invalid''"
| "error_code LifecycleOperationConflict = ''use.plugin.lifecycle_operation_conflict''"
| "error_code OkfContractInvalid = ''use.okf.contract_invalid''"
| "error_code OkfPathEscape = ''use.okf.path_escape''"
| "error_code OkfBundleInvalid = ''use.okf.bundle_invalid''"
| "error_code OkfLimitExceeded = ''use.okf.limit_exceeded''"
| "error_code OkfContractMismatch = ''use.okf.contract_mismatch''"
| "error_code PlanConfirmationInvalid = ''use.plugin.plan_confirmation_invalid''"
| "error_code PlanConfirmationRequired = ''use.plugin.plan_confirmation_required''"
| "error_code PlanConfirmationMismatch = ''use.plugin.plan_confirmation_mismatch''"
| "error_code InstalledPlanEvidenceInvalid = ''use.plugin.installed_plan_evidence_invalid''"
| "error_code LifecycleRecordInvalid = ''use.plugin.lifecycle_record_invalid''"
| "error_code LifecycleBusy = ''use.plugin.lifecycle_busy''"
| "error_code LifecycleOperationMissing = ''use.plugin.lifecycle_operation_missing''"
| "error_code LifecycleOwnershipMismatch = ''use.plugin.lifecycle_ownership_mismatch''"
| "error_code LifecyclePathInvalid = ''use.plugin.lifecycle_path_invalid''"
| "error_code LifecycleIo = ''use.plugin.lifecycle_io''"
| "error_code GrantInvalid = ''use.plugin.grant_invalid''"
| "error_code GrantCeilingMismatch = ''use.plugin.grant_ceiling_mismatch''"
| "error_code GrantExceedsCeiling = ''use.plugin.grant_exceeds_ceiling''"
| "error_code GrantNotActive = ''use.plugin.grant_not_active''"
| "error_code GrantExpired = ''use.plugin.grant_expired''"
| "error_code GrantSnapshotInvalid = ''use.plugin.grant_snapshot_invalid''"
| "error_code GrantChangesInvalid = ''use.plugin.grant_changes_invalid''"
| "error_code GrantChangesRevisionExhausted = ''use.plugin.grant_changes_revision_exhausted''"
| "error_code GrantChangesGenerationExhausted = ''use.plugin.grant_changes_generation_exhausted''"
| "error_code GrantChangesPlanMismatch = ''use.plugin.grant_changes_plan_mismatch''"
| "error_code GrantChangesConfirmationMismatch = ''use.plugin.grant_changes_confirmation_mismatch''"
| "error_code GrantProposalInvalid = ''use.plugin.grant_proposal_invalid''"
| "error_code GrantProposalNotActive = ''use.plugin.grant_proposal_not_active''"
| "error_code GrantProposalExpired = ''use.plugin.grant_proposal_expired''"
| "error_code GrantConfirmationInvalid = ''use.plugin.grant_confirmation_invalid''"
| "error_code GrantConfirmationRequired = ''use.plugin.grant_confirmation_required''"
| "error_code GrantConfirmationMismatch = ''use.plugin.grant_confirmation_mismatch''"
| "error_code McpEndpointGrantInvalid = ''use.plugin.mcp_endpoint_grant_invalid''"
| "error_code ControlInputInvalid = ''use.control_store.input_invalid''"
| "error_code ControlConflict = ''use.control_store.conflict''"
| "error_code ControlCorrupt = ''use.control_store.corrupt''"
| "error_code ControlGenerationExhausted = ''use.control_store.generation_exhausted''"
| "error_code ControlGenerationChanged = ''use.control_store.generation_changed''"
| "error_code ControlReconciliationRequired = ''use.control_store.reconciliation_required''"
| "error_code ControlIdentityMismatch = ''use.control_store.identity_mismatch''"
| "error_code ControlIo = ''use.control_store.io''"
| "error_code RuntimeProviderSelectionInvalid = ''use.plugin.runtime.provider_selection_invalid''"
| "error_code PackageGraphInvalid = ''use.plugin.package_graph_invalid''"

type_synonym 'a use_result = "use_error + 'a"

text \<open>The components of a parsed URL the contracts look at.\<close>

record url_parts =
  url_scheme :: string
  url_host :: "string option"
  url_username :: string
  url_password :: "string option"
  url_query :: "string option"
  url_fragment :: "string option"
  url_as_str :: string

text \<open>
  \<open>'v\<close> is \<open>semver::Version\<close>, \<open>'r\<close> is \<open>semver::VersionReq\<close>; \<open>version_le\<close> is the derived total order of
  \<open>Version\<close>, the \<open>_string\<close> functions are \<open>Display\<close>. \<open>sha256_hex\<close> is the lower-case hexadecimal
  SHA-256 digest of a byte string.
\<close>

record ('v, 'r) externals =
  version_parse :: "string \<Rightarrow> 'v option"
  version_string :: "'v \<Rightarrow> string"
  version_le :: "'v \<Rightarrow> 'v \<Rightarrow> bool"
  req_parse :: "string \<Rightarrow> 'r option"
  req_string :: "'r \<Rightarrow> string"
  req_matches :: "'r \<Rightarrow> 'v \<Rightarrow> bool"
  url_parse :: "string \<Rightarrow> url_parts option"
  sha256_hex :: "string \<Rightarrow> string"

definition MAX_PLUGIN_CONTRACT_BYTES :: nat where
  "MAX_PLUGIN_CONTRACT_BYTES = 512 * 1024"

definition MAX_PLUGIN_PLAN_ITEMS :: nat where
  "MAX_PLUGIN_PLAN_ITEMS = 512"

text \<open>
  \<open>parse_contract\<close> bounds the input, decodes it (\<open>serde_json::from_slice\<close>, the argument \<open>decode\<close>)
  and validates the contract; \<open>canonical_json\<close> encodes (\<open>serde\<close> with the canonical formatter, the
  argument \<open>encode\<close>) and bounds the output.
\<close>

definition parse_contract ::
  "(string \<Rightarrow> 'a option) \<Rightarrow> use_error \<Rightarrow> ('a \<Rightarrow> unit use_result) \<Rightarrow> string \<Rightarrow> 'a use_result" where
  "parse_contract decode err validate input =
     (if input = [] \<or> length input > MAX_PLUGIN_CONTRACT_BYTES then Inl err
      else and_then (ok_or err (decode input)) (\<lambda>contract.
           and_then (validate contract) (\<lambda>_. Inr contract)))"

definition canonical_json :: "('a \<Rightarrow> string option) \<Rightarrow> use_error \<Rightarrow> 'a \<Rightarrow> string use_result" where
  "canonical_json encode err value =
     and_then (ok_or err (encode value)) (\<lambda>bytes.
       if length bytes > MAX_PLUGIN_CONTRACT_BYTES then Inl err else Inr bytes)"

definition canonical_digest :: "('v, 'r, 'x) externals_scheme \<Rightarrow> string \<Rightarrow> string" where
  "canonical_digest X bytes = ''sha256:'' @ sha256_hex X bytes"

text \<open>Encoding and then decoding a validated contract gives it back, when the codec does.\<close>

lemma parse_canonical_json:
  assumes "canonical_json encode err c = Inr bytes" and "bytes \<noteq> []"
    and "decode bytes = Some c" and "validate c = Inr ()"
  shows "parse_contract decode err validate bytes = Inr c"
  using assms
  by (auto simp: parse_contract_def canonical_json_def result_simps split: if_splits)

lemma parse_contract_valid:
  "parse_contract decode err validate input = Inr c \<Longrightarrow> validate c = Inr ()"
  by (auto simp: parse_contract_def result_simps split: if_splits)

end
