(* ===== verification/Validation.thy ===== *)
theory Validation
  imports Contract
begin

text \<open>
  The lexical checks of \<open>crates/core/src/plugin/validation.rs\<close>, over the byte-level view of Rust
  strings, together with the parts of the standard library they use: ASCII classes, \<open>split\<close>,
  \<open>strip_prefix\<close>, the UTF-8 view of \<open>chars\<close>, and \<open>IpAddr::from_str\<close>.
\<close>

section \<open>Bytes and strings of the standard library\<close>

abbreviation byte :: "char \<Rightarrow> nat" where
  "byte c \<equiv> of_char c"

definition is_ascii_lowercase :: "char \<Rightarrow> bool" where
  "is_ascii_lowercase c = (97 \<le> byte c \<and> byte c \<le> 122)"

definition is_ascii_uppercase :: "char \<Rightarrow> bool" where
  "is_ascii_uppercase c = (65 \<le> byte c \<and> byte c \<le> 90)"

definition is_ascii_digit :: "char \<Rightarrow> bool" where
  "is_ascii_digit c = (48 \<le> byte c \<and> byte c \<le> 57)"

definition is_ascii_alphanumeric :: "char \<Rightarrow> bool" where
  "is_ascii_alphanumeric c = (is_ascii_lowercase c \<or> is_ascii_uppercase c \<or> is_ascii_digit c)"

definition is_ascii_graphic :: "char \<Rightarrow> bool" where
  "is_ascii_graphic c = (33 \<le> byte c \<and> byte c \<le> 126)"

definition first_byte :: "(char \<Rightarrow> bool) \<Rightarrow> string \<Rightarrow> bool" where
  "first_byte P s = (case s of [] \<Rightarrow> False | c # _ \<Rightarrow> P c)"

definition starts_with :: "string \<Rightarrow> string \<Rightarrow> bool" where
  "starts_with p s = (take (length p) s = p)"

definition ends_with :: "string \<Rightarrow> string \<Rightarrow> bool" where
  "ends_with p s = starts_with (rev p) (rev s)"

definition strip_prefix :: "string \<Rightarrow> string \<Rightarrow> string option" where
  "strip_prefix p s = (if starts_with p s then Some (drop (length p) s) else None)"

fun split_on :: "char \<Rightarrow> string \<Rightarrow> string list" where
  "split_on sep [] = [[]]"
| "split_on sep (c # s) =
     (if c = sep then [] # split_on sep s
      else (case split_on sep s of [] \<Rightarrow> [[c]] | w # ws \<Rightarrow> (c # w) # ws))"

fun split_once :: "char \<Rightarrow> string \<Rightarrow> (string \<times> string) option" where
  "split_once sep [] = None"
| "split_once sep (c # s) =
     (if c = sep then Some ([], s) else map_option (\<lambda>(a, b). (c # a, b)) (split_once sep s))"

fun contains_str :: "string \<Rightarrow> string \<Rightarrow> bool" where
  "contains_str p [] = (p = [])"
| "contains_str p (c # s) = (starts_with p (c # s) \<or> contains_str p s)"

text \<open>Code points of a UTF-8 string, as \<open>str::chars\<close> yields them.\<close>

fun utf8_chars :: "string \<Rightarrow> nat list" where
  "utf8_chars [] = []"
| "utf8_chars (a # s) =
     (if byte a < 128 then byte a # utf8_chars s
      else if byte a < 224 then
        (case s of b # s' \<Rightarrow> ((byte a mod 32) * 64 + byte b mod 64) # utf8_chars s' | _ \<Rightarrow> [])
      else if byte a < 240 then
        (case s of b # c # s' \<Rightarrow>
           ((byte a mod 16) * 4096 + (byte b mod 64) * 64 + byte c mod 64) # utf8_chars s'
         | _ \<Rightarrow> [])
      else
        (case s of b # c # d # s' \<Rightarrow>
           ((byte a mod 8) * 262144 + (byte b mod 64) * 4096 + (byte c mod 64) * 64 + byte d mod 64)
             # utf8_chars s'
         | _ \<Rightarrow> []))"

definition char_is_control :: "nat \<Rightarrow> bool" where
  "char_is_control c = (c < 32 \<or> (127 \<le> c \<and> c < 160))"

definition char_is_whitespace :: "nat \<Rightarrow> bool" where
  "char_is_whitespace c =
     ((9 \<le> c \<and> c \<le> 13) \<or> c = 32 \<or> c = 133 \<or> c = 160 \<or> c = 5760 \<or> (8192 \<le> c \<and> c \<le> 8202)
      \<or> c = 8232 \<or> c = 8233 \<or> c = 8239 \<or> c = 8287 \<or> c = 12288)"

definition is_trimmed :: "string \<Rightarrow> bool" where
  "is_trimmed s =
     (let cs = utf8_chars s in
      rev (dropWhile char_is_whitespace (rev (dropWhile char_is_whitespace cs))) = cs)"

section \<open>\<open>IpAddr::from_str\<close>\<close>

definition digit_value :: "nat \<Rightarrow> char \<Rightarrow> nat option" where
  "digit_value radix c =
     (let v = (if is_ascii_digit c then Some (byte c - 48)
               else if 97 \<le> byte c \<and> byte c \<le> 102 then Some (byte c - 87)
               else if 65 \<le> byte c \<and> byte c \<le> 70 then Some (byte c - 55)
               else None)
      in case v of None \<Rightarrow> None | Some n \<Rightarrow> if n < radix then Some n else None)"

definition read_number ::
  "nat \<Rightarrow> nat \<Rightarrow> bool \<Rightarrow> nat \<Rightarrow> string \<Rightarrow> (nat \<times> string) option" where
  "read_number radix max_digits allow_zero_prefix bound s =
     (let ds = takeWhile (\<lambda>c. digit_value radix c \<noteq> None) s;
          value = foldl (\<lambda>n c. n * radix + (case digit_value radix c of Some d \<Rightarrow> d | None \<Rightarrow> 0)) 0 ds
      in if ds = [] \<or> length ds > max_digits \<or> value \<ge> bound
            \<or> (\<not> allow_zero_prefix \<and> byte (hd ds) = 48 \<and> length ds > 1)
         then None else Some (value, drop (length ds) s))"

definition read_char :: "nat \<Rightarrow> string \<Rightarrow> string option" where
  "read_char b s = (case s of c # s' \<Rightarrow> if byte c = b then Some s' else None | [] \<Rightarrow> None)"

definition read_separator ::
  "nat \<Rightarrow> nat \<Rightarrow> (string \<Rightarrow> ('a \<times> string) option) \<Rightarrow> string \<Rightarrow> ('a \<times> string) option" where
  "read_separator sep index inner s =
     (if index > 0 then Option.bind (read_char sep s) inner else inner s)"

fun read_ipv4_groups :: "nat \<Rightarrow> nat \<Rightarrow> string \<Rightarrow> (nat list \<times> string) option" where
  "read_ipv4_groups index 0 s = Some ([], s)"
| "read_ipv4_groups index (Suc n) s =
     Option.bind (read_separator 46 index (read_number 10 3 False 256) s) (\<lambda>(g, s').
       Option.bind (read_ipv4_groups (Suc index) n s') (\<lambda>(gs, s''). Some (g # gs, s'')))"

definition read_ipv4_addr :: "string \<Rightarrow> (nat list \<times> string) option" where
  "read_ipv4_addr s = read_ipv4_groups 0 4 s"

text \<open>
  \<open>read_groups index left\<close> reads up to \<open>left\<close> 16-bit groups, trying an embedded IPv4 address while at
  least two groups remain; the flag says that one ended the run.
\<close>

fun read_ipv6_groups :: "nat \<Rightarrow> nat \<Rightarrow> string \<Rightarrow> nat list \<times> bool \<times> string" where
  "read_ipv6_groups index 0 s = ([], False, s)"
| "read_ipv6_groups index (Suc left) s =
     (case (if left > 0 then read_separator 58 index read_ipv4_addr s else None) of
        Some (gs, s') \<Rightarrow> ([gs ! 0 * 256 + gs ! 1, gs ! 2 * 256 + gs ! 3], True, s')
      | None \<Rightarrow>
          (case read_separator 58 index (read_number 16 4 True 65536) s of
             None \<Rightarrow> ([], False, s)
           | Some (g, s') \<Rightarrow>
               (case read_ipv6_groups (Suc index) left s' of (gs, v4, s'') \<Rightarrow> (g # gs, v4, s''))))"

definition read_ipv6_addr :: "string \<Rightarrow> (nat list \<times> string) option" where
  "read_ipv6_addr s =
     (case read_ipv6_groups 0 8 s of (head, head_ipv4, s1) \<Rightarrow>
        if length head = 8 then Some (head, s1)
        else if head_ipv4 then None
        else Option.bind (Option.bind (read_char 58 s1) (read_char 58)) (\<lambda>s2.
          case read_ipv6_groups 0 (7 - length head) s2 of (tail, _, s3) \<Rightarrow>
            Some (head @ replicate (8 - length head - length tail) 0 @ tail, s3)))"

text \<open>An address: four octets, or eight 16-bit groups.\<close>

definition parse_ip_addr :: "string \<Rightarrow> nat list option" where
  "parse_ip_addr s =
     (case (case read_ipv4_addr s of Some r \<Rightarrow> Some r | None \<Rightarrow> read_ipv6_addr s) of
        Some (addr, []) \<Rightarrow> Some addr
      | _ \<Rightarrow> None)"

definition ip_is_loopback :: "nat list \<Rightarrow> bool" where
  "ip_is_loopback addr =
     (if length addr = 4 then addr ! 0 = 127 else addr = [0, 0, 0, 0, 0, 0, 0, 1])"

section \<open>The validators\<close>

definition valid_segment :: "string \<Rightarrow> bool" where
  "valid_segment value =
     (value \<noteq> [] \<and> length value \<le> 63 \<and> first_byte is_ascii_lowercase value \<and>
      (\<forall>c \<in> set value. is_ascii_lowercase c \<or> is_ascii_digit c \<or> c = CHR ''-''))"

definition valid_catalog_text :: "string \<Rightarrow> nat \<Rightarrow> bool" where
  "valid_catalog_text value max_bytes =
     (value \<noteq> [] \<and> length value \<le> max_bytes \<and>
      \<not> (\<exists>c \<in> set (utf8_chars value). char_is_control c) \<and> is_trimmed value)"

definition valid_tag :: "string \<Rightarrow> bool" where
  "valid_tag value =
     (value \<noteq> [] \<and> length value \<le> 64 \<and>
      first_byte (\<lambda>c. is_ascii_lowercase c \<or> is_ascii_digit c) value \<and>
      (\<forall>c \<in> set value. is_ascii_lowercase c \<or> is_ascii_digit c \<or> c \<in> set ''-._''))"

definition valid_permission_name :: "string \<Rightarrow> bool" where
  "valid_permission_name value =
     (value \<noteq> [] \<and> length value \<le> 128 \<and>
      first_byte (\<lambda>c. is_ascii_lowercase c \<or> is_ascii_digit c) value \<and>
      (\<forall>c \<in> set value. is_ascii_lowercase c \<or> is_ascii_digit c \<or> c \<in> set ''-._/'') \<and>
      \<not> (\<exists>segment \<in> set (split_on (CHR ''/'') value). segment \<in> {[], ''.'', ''..''}))"

definition valid_machine_id :: "string \<Rightarrow> bool" where
  "valid_machine_id value =
     (value \<noteq> [] \<and> length value \<le> 256 \<and> first_byte is_ascii_alphanumeric value \<and>
      (\<forall>c \<in> set value. is_ascii_alphanumeric c \<or> c \<in> set ''-._:/@''))"

definition valid_portable_scope_path :: "string \<Rightarrow> bool" where
  "valid_portable_scope_path value =
     (value = ''.'' \<or>
      (value \<noteq> [] \<and> length value \<le> 1024 \<and> \<not> starts_with ''/'' value \<and>
       char_of (92 :: nat) \<notin> set value \<and>
       (\<forall>c \<in> set value. is_ascii_alphanumeric c \<or> c \<in> set ''/._-'') \<and>
       (\<forall>segment \<in> set (split_on (CHR ''/'') value). segment \<notin> {[], ''.'', ''..''})))"

definition valid_dns_name :: "string \<Rightarrow> bool" where
  "valid_dns_name value =
     (if value = [] \<or> length value > 253 \<or> ends_with ''.'' value then False
      else if parse_ip_addr value \<noteq> None then True
      else (\<forall>label \<in> set (split_on (CHR ''.'') value).
              label \<noteq> [] \<and> length label \<le> 63 \<and>
              (\<forall>c \<in> set label. is_ascii_lowercase c \<or> is_ascii_digit c \<or> c = CHR ''-'') \<and>
              \<not> starts_with ''-'' label \<and> \<not> ends_with ''-'' label))"

definition valid_http_path :: "string \<Rightarrow> bool" where
  "valid_http_path value =
     (starts_with ''/'' value \<and> length value \<le> 1024 \<and> \<not> contains_str ''//'' value \<and>
      (\<forall>c \<in> set value. is_ascii_graphic c \<and> c \<noteq> CHR ''?'' \<and> c \<noteq> CHR ''#'' \<and> c \<noteq> char_of (92 :: nat)) \<and>
      \<not> (\<exists>segment \<in> set (split_on (CHR ''/'') value). segment \<in> {''.'', ''..''}))"

definition valid_sha256 :: "string \<Rightarrow> bool" where
  "valid_sha256 value =
     is_some_and (\<lambda>digest. length digest = 64 \<and>
         (\<forall>c \<in> set digest. is_ascii_digit c \<or> (97 \<le> byte c \<and> byte c \<le> 102)))
       (strip_prefix ''sha256:'' value)"

definition valid_repository_url :: "('v, 'r, 'x) externals_scheme \<Rightarrow> string \<Rightarrow> bool" where
  "valid_repository_url X value =
     (case url_parse X value of
        None \<Rightarrow> False
      | Some url \<Rightarrow>
          length value \<le> 2048 \<and> url_scheme url = ''https'' \<and> url_host url \<noteq> None \<and>
          url_username url = [] \<and> url_password url = None \<and> url_query url = None \<and>
          url_fragment url = None \<and> url_as_str url = value)"

definition to_ascii_lowercase :: "string \<Rightarrow> string" where
  "to_ascii_lowercase s = map (\<lambda>c. if is_ascii_uppercase c then char_of (byte c + 32) else c) s"

definition valid_registry_url :: "('v, 'r, 'x) externals_scheme \<Rightarrow> string \<Rightarrow> bool" where
  "valid_registry_url X value =
     (case url_parse X value of
        None \<Rightarrow> False
      | Some url \<Rightarrow>
          (let secure = (url_scheme url = ''https'');
               loopback_http = (url_scheme url = ''http'' \<and>
                 is_some_and (\<lambda>host. to_ascii_lowercase host = ''localhost'' \<or>
                                is_some_and ip_is_loopback (parse_ip_addr host)) (url_host url))
           in length value \<le> 2048 \<and> (secure \<or> loopback_http) \<and> url_host url \<noteq> None \<and>
              url_username url = [] \<and> url_password url = None \<and> url_query url = None \<and>
              url_fragment url = None \<and> url_as_str url = value))"

definition valid_spdx_expression :: "string \<Rightarrow> bool" where
  "valid_spdx_expression value =
     (value \<noteq> [] \<and> length value \<le> 256 \<and>
      (\<forall>c \<in> set value. is_ascii_alphanumeric c \<or> c \<in> set ''-+().: ''))"

definition valid_target :: "string \<Rightarrow> bool" where
  "valid_target value =
     (value \<noteq> [] \<and> length value \<le> 64 \<and> first_byte is_ascii_lowercase value \<and>
      (\<forall>c \<in> set value. is_ascii_lowercase c \<or> is_ascii_digit c \<or> c \<in> set ''-_''))"

definition valid_target_name :: "string \<Rightarrow> bool" where
  "valid_target_name value =
     (value \<noteq> [] \<and> length value \<le> 2048 \<and> \<not> starts_with ''/'' value \<and>
      char_of (92 :: nat) \<notin> set value \<and> (\<forall>c \<in> set value. is_ascii_graphic c) \<and>
      (\<forall>segment \<in> set (split_on (CHR ''/'') value). segment \<notin> {[], ''.'', ''..''}) \<and>
      (let name = last (split_on (CHR ''/'') value) in
       ends_with ''.tar.gz'' name \<or> ends_with ''.tgz'' name \<or> ends_with ''.zip'' name))"

definition strictly_sorted_unique :: "'a :: linorder list \<Rightarrow> bool" where
  "strictly_sorted_unique values = (\<not> windows2_any (\<lambda>a b. a \<ge> b) values)"

section \<open>Splitting and joining\<close>

fun join_with :: "char \<Rightarrow> string list \<Rightarrow> string" where
  "join_with sep [] = []"
| "join_with sep [w] = w"
| "join_with sep (w # ws) = w @ sep # join_with sep ws"

lemma split_on_nonempty [simp]: "split_on sep s \<noteq> []"
  by (induction s) (auto split: list.splits)

lemma join_split [simp]: "join_with sep (split_on sep s) = s"
proof (induction s)
  case (Cons c s)
  obtain w ws where sp: "split_on sep s = w # ws"
    using split_on_nonempty by (cases "split_on sep s") auto
  have j: "join_with sep ([] # w # ws) = sep # join_with sep (w # ws)" by simp
  have "join_with sep ((c # w) # ws) = c # join_with sep (w # ws)" by (cases ws) auto
  with Cons sp j show ?case by auto
qed simp

lemma split_on_append: "split_on sep (q @ sep # r) = split_on sep q @ split_on sep r"
proof (induction q)
  case (Cons c q)
  obtain w ws where "split_on sep q = w # ws"
    using split_on_nonempty by (cases "split_on sep q") auto
  with Cons show ?case by auto
qed simp

lemma join_append:
  "xs \<noteq> [] \<Longrightarrow> ys \<noteq> [] \<Longrightarrow> join_with sep (xs @ ys) = join_with sep xs @ sep # join_with sep ys"
proof (induction sep xs rule: join_with.induct)
  case (2 sep w)
  then show ?case by (cases ys) auto
qed auto

text \<open>A string extends another at a separator exactly when its segments extend the other's.\<close>

lemma extends_at_separator_iff:
  "(\<exists>r. p = q @ sep # r) \<longleftrightarrow> (\<exists>ws. ws \<noteq> [] \<and> split_on sep p = split_on sep q @ ws)"
proof
  assume "\<exists>r. p = q @ sep # r"
  then show "\<exists>ws. ws \<noteq> [] \<and> split_on sep p = split_on sep q @ ws"
    by (auto simp: split_on_append)
next
  assume "\<exists>ws. ws \<noteq> [] \<and> split_on sep p = split_on sep q @ ws"
  then obtain ws where ws: "ws \<noteq> []" "split_on sep p = split_on sep q @ ws" by blast
  have "p = join_with sep (split_on sep q @ ws)"
    using ws(2) join_split [of sep p] by simp
  then show "\<exists>r. p = q @ sep # r" using ws(1) by (simp add: join_append)
qed

lemma split_on_inject: "split_on sep p = split_on sep q \<longleftrightarrow> p = q"
  by (metis join_split)

lemma split_once_Some:
  "split_once sep s = Some (a, b) \<longleftrightarrow> s = a @ sep # b \<and> sep \<notin> set a"
proof (induction s arbitrary: a)
  case step: (Cons c s)
  show ?case
  proof (cases "c = sep")
    case True
    then show ?thesis by (cases a) auto
  next
    case False
    show ?thesis
    proof (cases a)
      case (Cons x a')
      then show ?thesis using False step.IH [of a'] by auto
    qed (use False in auto)
  qed
qed simp

lemma starts_with_iff: "starts_with p s \<longleftrightarrow> (\<exists>r. s = p @ r)"
  by (auto simp: starts_with_def) (metis append_take_drop_id)

lemma strip_prefix_Some: "strip_prefix p s = Some r \<longleftrightarrow> s = p @ r"
  by (auto simp: strip_prefix_def starts_with_iff)

lemma strictly_sorted_unique_iff [simp]:
  "strictly_sorted_unique xs \<longleftrightarrow> sorted_wrt (<) xs"
  using windows2_any_ge [of "\<lambda>x. x" xs] by (simp add: strictly_sorted_unique_def)

end
