(* ===== verification/Graph.thy ===== *)
theory Graph
  imports Prelude
begin

text \<open>
  Sets and dependency graphs shared by the package lock, the resolver, the installation snapshot
  and the surface scheduler: \<open>BTreeSet\<close> as a strictly sorted list, the mark-on-push worklist
  loop (\<open>while let Some(x) = pending.pop()\<close> with \<open>if set.insert(d) { pending.push(d) }\<close>) and the
  fact that a finite acyclic graph always has a node whose dependencies are all outside a given
  nonempty set.
\<close>

section \<open>\<open>BTreeSet\<close>\<close>

fun bs_insert :: "'k :: linorder \<Rightarrow> 'k btree_set \<Rightarrow> 'k btree_set" where
  "bs_insert x [] = [x]"
| "bs_insert x (y # ys) =
     (if x < y then x # y # ys else if x = y then y # ys else y # bs_insert x ys)"

definition bs_extend :: "'k :: linorder btree_set \<Rightarrow> 'k list \<Rightarrow> 'k btree_set" where
  "bs_extend s xs = foldl (\<lambda>s x. bs_insert x s) s xs"

definition bs_collect :: "'k :: linorder list \<Rightarrow> 'k btree_set" where
  "bs_collect xs = bs_extend [] xs"

lemma set_bs_insert [simp]: "set (bs_insert x s) = insert x (set s)"
  by (induction x s rule: bs_insert.induct) (simp_all add: insert_commute)

lemma sorted_bs_insert [simp]: "sorted_wrt (<) s \<Longrightarrow> sorted_wrt (<) (bs_insert x s)"
  by (induction x s rule: bs_insert.induct) (auto dest: less_trans split: if_splits)

lemma bs_insert_member: "sorted_wrt (<) s \<Longrightarrow> x \<in> set s \<Longrightarrow> bs_insert x s = s"
  by (induction x s rule: bs_insert.induct) auto

lemma set_bs_extend [simp]: "set (bs_extend s xs) = set s \<union> set xs"
  unfolding bs_extend_def by (induction xs arbitrary: s) auto

lemma sorted_bs_extend [simp]: "sorted_wrt (<) s \<Longrightarrow> sorted_wrt (<) (bs_extend s xs)"
  unfolding bs_extend_def by (induction xs arbitrary: s) auto

lemma set_bs_collect [simp]: "set (bs_collect xs) = set xs"
  by (simp add: bs_collect_def)

lemma sorted_bs_collect [simp]: "sorted_wrt (<) (bs_collect xs)"
  by (simp add: bs_collect_def)

lemma sorted_less_length: "sorted_wrt (<) (s :: 'k :: linorder list) \<Longrightarrow> length s = card (set s)"
  by (simp add: distinct_card sorted_less_distinct)

lemma length_bs_collect: "length (bs_collect xs) = card (set xs)"
  by (simp add: sorted_less_length)

lemma bs_collect_distinct: "length (bs_collect xs) = length xs \<longleftrightarrow> distinct xs"
  unfolding length_bs_collect by (metis card_distinct distinct_card)

lemma sorted_less_unique:
  assumes "sorted_wrt (<) (xs :: 'k :: linorder list)" "sorted_wrt (<) ys" "set xs = set ys"
  shows "xs = ys"
  using assms strict_sorted_equal by blast

lemma bs_collect_sorted: "sorted_wrt (<) xs \<Longrightarrow> bs_collect xs = xs"
  by (rule sorted_less_unique) simp_all

section \<open>Dependency edges of a map\<close>

text \<open>The edge relation of a map whose values name their successors.\<close>

definition edges :: "('v \<Rightarrow> 'k list) \<Rightarrow> ('k, 'v) btree_map \<Rightarrow> ('k \<times> 'k) set" where
  "edges succs m = {(k, d). \<exists>v. bt_get m k = Some v \<and> d \<in> set (succs v)}"

lemma edges_iff: "(k, d) \<in> edges succs m \<longleftrightarrow> (\<exists>v. bt_get m k = Some v \<and> d \<in> set (succs v))"
  by (simp add: edges_def)

lemma edges_domain: "(k, d) \<in> edges succs m \<Longrightarrow> k \<in> set (bt_keys m)"
  by (auto simp: edges_iff bt_keys_get)

section \<open>A ready node exists in a finite acyclic graph\<close>

lemma finite_acyclic_ready:
  assumes "finite R" "R \<noteq> {}" "acyclic E"
  shows "\<exists>x \<in> R. \<forall>d. (x, d) \<in> E \<longrightarrow> d \<notin> R"
proof -
  let ?D = "{(d, x). (x, d) \<in> E \<and> x \<in> R \<and> d \<in> R}"
  have "acyclic (E\<inverse>)" using assms(3) by simp
  moreover have "?D \<subseteq> E\<inverse>" by auto
  ultimately have "acyclic ?D" by (rule acyclic_subset)
  moreover have "finite ?D"
    by (rule finite_subset [of _ "R \<times> R"]) (use assms(1) in auto)
  ultimately have "wf ?D" by (simp add: finite_acyclic_wf)
  from assms(2) obtain r where "r \<in> R" by auto
  from \<open>wf ?D\<close> \<open>r \<in> R\<close> show ?thesis
  proof (rule wfE_min)
    fix x assume "x \<in> R" and min: "\<And>d. (d, x) \<in> ?D \<Longrightarrow> d \<notin> R"
    then show ?thesis by blast
  qed
qed

lemma rank_acyclic:
  fixes rank :: "'k \<Rightarrow> nat"
  assumes "\<And>x d. (x, d) \<in> E \<Longrightarrow> rank d < rank x"
  shows "acyclic E"
proof -
  have "E \<subseteq> (measure rank)\<inverse>" using assms by auto
  moreover have "acyclic ((measure rank)\<inverse>)"
    by (simp add: acyclic_converse wf_acyclic)
  ultimately show ?thesis by (rule acyclic_subset [rotated])
qed

lemma ImageE_closed: "E `` X \<subseteq> X \<Longrightarrow> x \<in> X \<Longrightarrow> (x, y) \<in> E\<^sup>* \<Longrightarrow> y \<in> X"
  by (erule rtrancl_induct) auto

text \<open>The measure of the round-based schedulers: completing ready nodes shrinks the rest.\<close>

lemma shrinking_rest: "R \<subseteq> A - C \<Longrightarrow> R \<noteq> {} \<Longrightarrow> A - (C \<union> R) \<subset> A - C"
  by auto

section \<open>Worklist closure\<close>

fun push_new :: "'k :: linorder list \<Rightarrow> 'k btree_set \<Rightarrow> 'k list \<Rightarrow> 'k btree_set \<times> 'k list" where
  "push_new [] marked pending = (marked, pending)"
| "push_new (d # ds) marked pending =
     (if d \<in> set marked then push_new ds marked pending
      else push_new ds (bs_insert d marked) (d # pending))"

lemma push_new_sets:
  "push_new ds marked pending = (marked', pending') \<Longrightarrow>
     set marked' = set marked \<union> set ds \<and>
     set pending' = set pending \<union> (set ds - set marked)"
  by (induction ds marked pending rule: push_new.induct) (auto split: if_splits)

lemma push_new_nothing:
  "push_new ds marked pending = (marked', pending') \<Longrightarrow> set ds \<subseteq> set marked \<Longrightarrow>
     marked' = marked \<and> pending' = pending"
  by (induction ds marked pending rule: push_new.induct) (auto split: if_splits)

lemma push_new_sorted:
  "push_new ds marked pending = (marked', pending') \<Longrightarrow> sorted_wrt (<) marked \<Longrightarrow>
     sorted_wrt (<) marked'"
  by (induction ds marked pending rule: push_new.induct) (auto split: if_splits)

text \<open>
  \<open>pending\<close> is the Rust \<open>Vec\<close> used as a stack, its top first. The error \<open>e\<close> is the one the caller
  raises when a pending key is missing from the map.
\<close>

function worklist_closure ::
  "'e \<Rightarrow> ('v \<Rightarrow> 'k :: linorder list) \<Rightarrow> ('k, 'v) btree_map \<Rightarrow> 'k btree_set \<Rightarrow> 'k list
     \<Rightarrow> 'e + 'k btree_set" where
  "worklist_closure e succs m marked [] = Inr marked"
| "worklist_closure e succs m marked (k # pending) =
     (case bt_get m k of
        None \<Rightarrow> Inl e
      | Some v \<Rightarrow>
          (case push_new (succs v) marked pending of
             (marked', pending') \<Rightarrow> worklist_closure e succs m marked' pending'))"
  by pat_completeness auto

termination
proof (relation "inv_image (finite_psubset <*lex*> less_than)
    (\<lambda>(e, succs, m, marked, pending). ((\<Union>p \<in> set m. set (succs (snd p))) - set marked, length pending))")
  show "wf (inv_image (finite_psubset <*lex*> less_than)
    (\<lambda>(e, succs, m, marked, pending).
      ((\<Union>p \<in> set m. set (succs (snd p))) - set marked, length pending)))"
    by (simp add: wf_lex_prod)
next
  fix e and succs :: "'v \<Rightarrow> 'k :: linorder list" and m :: "('k, 'v) btree_map"
    and marked k pending v marked' pending'
  assume v: "bt_get m k = Some v"
    and eq: "(marked', pending') = push_new (succs v) marked pending"
  let ?U = "\<Union>p \<in> set m. set (succs (snd p))"
  note sets = push_new_sets [OF eq [symmetric]]
  have sub: "set (succs v) \<subseteq> ?U"
    using v by (force simp: bt_get_def dest: map_of_SomeD)
  show "((e, succs, m, marked', pending'), (e, succs, m, marked, k # pending))
     \<in> inv_image (finite_psubset <*lex*> less_than)
       (\<lambda>(e, succs, m, marked, pending).
         ((\<Union>p \<in> set m. set (succs (snd p))) - set marked, length pending))"
  proof (cases "set (succs v) \<subseteq> set marked")
    case True
    with push_new_nothing [OF eq [symmetric]] show ?thesis
      by simp
  next
    case False
    with sets sub have "?U - set marked' \<subset> ?U - set marked" by auto
    then show ?thesis by (simp add: finite_psubset_def)
  qed
qed

definition closure_inv ::
  "('v \<Rightarrow> 'k :: linorder list) \<Rightarrow> ('k, 'v) btree_map \<Rightarrow> 'k set \<Rightarrow> 'k btree_set \<Rightarrow> 'k list \<Rightarrow> bool" where
  "closure_inv succs m roots marked pending \<longleftrightarrow>
     roots \<subseteq> set marked \<and> set pending \<subseteq> set marked \<and>
     set marked \<subseteq> (edges succs m)\<^sup>* `` roots \<and>
     (\<forall>k \<in> set marked - set pending. bt_contains m k \<and> edges succs m `` {k} \<subseteq> set marked)"

lemma closure_inv_step:
  assumes inv: "closure_inv succs m roots marked (k # pending)" and v: "bt_get m k = Some v"
    and push: "push_new (succs v) marked pending = (marked', pending')"
  shows "closure_inv succs m roots marked' pending'"
proof -
  note sets = push_new_sets [OF push]
  have edge: "edges succs m `` {k} = set (succs v)"
    using v by (auto simp: edges_iff)
  have k: "k \<in> (edges succs m)\<^sup>* `` roots"
    using inv by (auto simp: closure_inv_def)
  have "set (succs v) \<subseteq> (edges succs m)\<^sup>* `` roots"
  proof
    fix d assume "d \<in> set (succs v)"
    then have "(k, d) \<in> edges succs m" using edge by auto
    with k show "d \<in> (edges succs m)\<^sup>* `` roots" by (auto intro: rtrancl_into_rtrancl)
  qed
  moreover have "bt_contains m k" using v by (simp add: bt_contains_def)
  ultimately show ?thesis
    using inv sets edge unfolding closure_inv_def by auto
qed

lemma worklist_closure_spec:
  assumes "closure_inv succs m roots marked pending"
    and "worklist_closure e succs m marked pending = Inr marked'"
  shows "set marked' = (edges succs m)\<^sup>* `` roots"
    and "set marked' \<subseteq> set (bt_keys m)"
proof -
  have "set marked' = (edges succs m)\<^sup>* `` roots \<and> set marked' \<subseteq> set (bt_keys m)"
    using assms
  proof (induction e succs m marked pending rule: worklist_closure.induct)
    case (1 e succs m marked)
    then have inv: "closure_inv succs m roots marked []" and eq: "marked' = marked" by auto
    have "edges succs m `` set marked \<subseteq> set marked"
      using inv by (auto simp: closure_inv_def)
    then have "(edges succs m)\<^sup>* `` roots \<subseteq> set marked"
      using inv ImageE_closed [of "edges succs m" "set marked"] by (auto simp: closure_inv_def)
    with inv have "set marked = (edges succs m)\<^sup>* `` roots"
      by (simp add: closure_inv_def subset_antisym)
    moreover have "set marked \<subseteq> set (bt_keys m)"
      using inv by (simp add: closure_inv_def bt_keys_contains subset_iff)
    ultimately show ?case using eq by simp
  next
    case (2 e succs m marked k pending)
    from "2.prems"(2) obtain v where v: "bt_get m k = Some v"
      by (cases "bt_get m k") auto
    obtain mk pd where push: "push_new (succs v) marked pending = (mk, pd)"
      by (cases "push_new (succs v) marked pending")
    from "2.prems"(2) v push have "worklist_closure e succs m mk pd = Inr marked'" by simp
    then show ?case
      by (rule "2.IH" [OF v push [symmetric] closure_inv_step [OF "2.prems"(1) v push]])
  qed
  then show "set marked' = (edges succs m)\<^sup>* `` roots" "set marked' \<subseteq> set (bt_keys m)"
    by blast+
qed

lemma worklist_closure_total:
  assumes "closure_inv succs m roots marked pending"
    and "(edges succs m)\<^sup>* `` roots \<subseteq> set (bt_keys m)"
  shows "\<exists>marked'. worklist_closure e succs m marked pending = Inr marked'"
  using assms
proof (induction e succs m marked pending rule: worklist_closure.induct)
  case (2 e succs m marked k pending)
  from "2.prems" have "k \<in> set (bt_keys m)" by (auto simp: closure_inv_def)
  then obtain v where v: "bt_get m k = Some v" by (auto simp: bt_keys_get)
  obtain mk pd where push: "push_new (succs v) marked pending = (mk, pd)"
    by (cases "push_new (succs v) marked pending")
  have "\<exists>marked'. worklist_closure e succs m mk pd = Inr marked'"
    by (rule "2.IH" [OF v push [symmetric] closure_inv_step [OF "2.prems"(1) v push]
        "2.prems"(2)])
  with v push show ?case by simp
qed simp

lemma worklist_closure_sorted:
  "worklist_closure e succs m marked pending = Inr marked' \<Longrightarrow> sorted_wrt (<) marked \<Longrightarrow>
     sorted_wrt (<) marked'"
  by (induction e succs m marked pending rule: worklist_closure.induct)
    (force split: option.splits prod.splits dest: push_new_sorted)+

lemma closure_inv_start: "set marked = roots \<Longrightarrow> set pending = roots \<Longrightarrow>
    closure_inv succs m roots marked pending"
  by (auto simp: closure_inv_def)

section \<open>Grounded nodes\<close>

text \<open>
  A node is grounded when every chain of dependencies from it ends: it lies in the accessible part
  of the converse of the edge relation. Loops that only admit a node once its dependencies are
  admitted produce grounded nodes, and a graph all of whose nodes are grounded is acyclic.
\<close>

abbreviation grounded :: "('k \<times> 'k) set \<Rightarrow> 'k set" where
  "grounded E \<equiv> Wellfounded.acc (E\<inverse>)"

lemma groundedI: "(\<And>d. (x, d) \<in> E \<Longrightarrow> d \<in> grounded E) \<Longrightarrow> x \<in> grounded E"
  by (rule accI) auto

lemma grounded_acyclic:
  assumes "\<And>x d. (x, d) \<in> E \<Longrightarrow> x \<in> grounded E"
  shows "acyclic E"
proof -
  have "x \<in> grounded E" for x
  proof (rule accI)
    fix d assume d: "(d, x) \<in> E\<inverse>"
    then have "x \<in> grounded E" using assms by simp
    then show "d \<in> grounded E" using d by (rule acc_downward)
  qed
  then have "wf (E\<inverse>)" by (intro acc_wfI) blast
  then show ?thesis by (metis acyclic_converse wf_acyclic)
qed

section \<open>Dependency-first orders\<close>

definition deps_first :: "('k \<times> 'k) set \<Rightarrow> 'k list \<Rightarrow> bool" where
  "deps_first E xs \<longleftrightarrow> (\<forall>us x vs. xs = us @ x # vs \<longrightarrow> E `` {x} \<subseteq> set us)"

lemma deps_first_Nil [simp]: "deps_first E []"
  by (simp add: deps_first_def)

lemma deps_first_snoc: "deps_first E (xs @ [y]) \<longleftrightarrow> deps_first E xs \<and> E `` {y} \<subseteq> set xs"
proof
  assume all: "deps_first E (xs @ [y])"
  have "deps_first E xs"
    unfolding deps_first_def
  proof (intro allI impI)
    fix us x vs assume "xs = us @ x # vs"
    then have "xs @ [y] = us @ x # (vs @ [y])" by simp
    with all show "E `` {x} \<subseteq> set us" unfolding deps_first_def by blast
  qed
  with all show "deps_first E xs \<and> E `` {y} \<subseteq> set xs" unfolding deps_first_def by blast
next
  assume both: "deps_first E xs \<and> E `` {y} \<subseteq> set xs"
  show "deps_first E (xs @ [y])"
    unfolding deps_first_def
  proof (intro allI impI)
    fix us x vs assume eq: "xs @ [y] = us @ x # vs"
    show "E `` {x} \<subseteq> set us"
    proof (cases vs rule: rev_cases)
      case (snoc ws w)
      with eq have "xs = us @ x # ws" by simp
      with both show ?thesis unfolding deps_first_def by blast
    qed (use eq both in auto)
  qed
qed

lemma deps_first_append:
  "deps_first E xs \<Longrightarrow> (\<And>y. y \<in> set ys \<Longrightarrow> E `` {y} \<subseteq> set xs) \<Longrightarrow> deps_first E (xs @ ys)"
proof (induction ys rule: rev_induct)
  case (snoc y ys)
  then have "deps_first E (xs @ ys)" "E `` {y} \<subseteq> set (xs @ ys)" by auto
  then show ?case using deps_first_snoc [of E "xs @ ys" y] by simp
qed simp

lemma deps_first_grounded: "deps_first E xs \<Longrightarrow> set xs \<subseteq> grounded E"
proof (induction xs rule: rev_induct)
  case (snoc y ys)
  then have "set ys \<subseteq> grounded E" "E `` {y} \<subseteq> set ys" by (simp_all add: deps_first_snoc)
  have "y \<in> grounded E"
  proof (rule groundedI)
    fix d assume "(y, d) \<in> E"
    with \<open>E `` {y} \<subseteq> set ys\<close> have "d \<in> set ys" by blast
    with \<open>set ys \<subseteq> grounded E\<close> show "d \<in> grounded E" by (rule subsetD)
  qed
  with \<open>set ys \<subseteq> grounded E\<close> show ?case by simp
qed simp

lemma deps_first_acyclic:
  assumes "deps_first E xs" "Domain E \<subseteq> set xs"
  shows "acyclic E"
proof (rule grounded_acyclic)
  fix x d assume "(x, d) \<in> E"
  then have "x \<in> set xs" using assms(2) by (auto dest: DomainI)
  then show "x \<in> grounded E" using deps_first_grounded [OF assms(1)] by (rule rev_subsetD)
qed

lemma deps_first_nth:
  assumes "deps_first E xs" "i < length xs" "(xs ! i, d) \<in> E"
  shows "\<exists>j < i. xs ! j = d"
proof -
  have "xs = take i xs @ xs ! i # drop (Suc i) xs" using assms(2) by (simp add: id_take_nth_drop)
  with assms(1,3) have "d \<in> set (take i xs)" unfolding deps_first_def by blast
  with assms(2) show ?thesis by (auto simp: in_set_conv_nth)
qed

end
