(* ===== verification/Identity.thy ===== *)
theory Identity
  imports Validation Graph
begin

text \<open>
  Identities: the surface references of \<open>crates/core/src/plugin/mod.rs\<close> with their derived order,
  the package identity of \<open>identity.rs\<close>, the installation identity of \<open>installation.rs\<close> and the
  versioned package dependency of \<open>package_dependency.rs\<close>. Methods are named
  \<open><type>_<method>\<close>; record fields carry a short prefix of their type, since several structs of the
  source share field names.
\<close>

section \<open>Surface references\<close>

datatype PluginSurfaceKind = KFlow | KMcp | KOkf | KSkill | KTool | KUi

primrec surface_kind_rank :: "PluginSurfaceKind \<Rightarrow> nat" where
  "surface_kind_rank KFlow = 0"
| "surface_kind_rank KMcp = 1"
| "surface_kind_rank KOkf = 2"
| "surface_kind_rank KSkill = 3"
| "surface_kind_rank KTool = 4"
| "surface_kind_rank KUi = 5"

lemma surface_kind_rank_inject: "surface_kind_rank a = surface_kind_rank b \<Longrightarrow> a = b"
  by (cases a; cases b) simp_all

instantiation PluginSurfaceKind :: linorder
begin

definition less_eq_PluginSurfaceKind :: "PluginSurfaceKind \<Rightarrow> PluginSurfaceKind \<Rightarrow> bool" where
  "less_eq_PluginSurfaceKind a b = (surface_kind_rank a \<le> surface_kind_rank b)"

definition less_PluginSurfaceKind :: "PluginSurfaceKind \<Rightarrow> PluginSurfaceKind \<Rightarrow> bool" where
  "less_PluginSurfaceKind a b = (surface_kind_rank a < surface_kind_rank b)"

instance
  by standard
    (auto simp: less_eq_PluginSurfaceKind_def less_PluginSurfaceKind_def
      dest: surface_kind_rank_inject)

end

text \<open>The struct is a one-constructor datatype, so that its derived order can be an instance.\<close>

datatype PluginSurfaceRef = SurfaceRef (sr_kind: PluginSurfaceKind) (sr_id: string)

instantiation PluginSurfaceRef :: linorder
begin

definition less_eq_PluginSurfaceRef :: "PluginSurfaceRef \<Rightarrow> PluginSurfaceRef \<Rightarrow> bool" where
  "less_eq_PluginSurfaceRef a b = ((sr_kind a, sr_id a) \<le> (sr_kind b, sr_id b))"

definition less_PluginSurfaceRef :: "PluginSurfaceRef \<Rightarrow> PluginSurfaceRef \<Rightarrow> bool" where
  "less_PluginSurfaceRef a b = ((sr_kind a, sr_id a) < (sr_kind b, sr_id b))"

instance
proof
  fix a b c :: PluginSurfaceRef
  show "a < b \<longleftrightarrow> a \<le> b \<and> \<not> b \<le> a"
    by (simp add: less_eq_PluginSurfaceRef_def less_PluginSurfaceRef_def less_le_not_le)
  show "a \<le> a" by (simp add: less_eq_PluginSurfaceRef_def)
  show "a \<le> b \<Longrightarrow> b \<le> c \<Longrightarrow> a \<le> c"
    unfolding less_eq_PluginSurfaceRef_def by (rule order_trans)
  show "a \<le> b \<Longrightarrow> b \<le> a \<Longrightarrow> a = b"
    unfolding less_eq_PluginSurfaceRef_def
    by (cases a; cases b) (metis PluginSurfaceRef.sel order_antisym prod.inject)
  show "a \<le> b \<or> b \<le> a"
    unfolding less_eq_PluginSurfaceRef_def by (rule linear)
qed

end

datatype ToolWorkloadClass = Service | Task

section \<open>Package identity\<close>

definition PluginPackageId_is_valid :: "string \<Rightarrow> bool" where
  "PluginPackageId_is_valid value =
     (case split_once (CHR ''/'') value of
        None \<Rightarrow> False
      | Some (publisher, name) \<Rightarrow>
          CHR ''/'' \<notin> set name \<and> valid_segment publisher \<and> valid_segment name)"

definition PluginPackageId_parse :: "string \<Rightarrow> string use_result" where
  "PluginPackageId_parse value =
     (if \<not> PluginPackageId_is_valid value then Inl PackageIdInvalid else Inr value)"

definition PluginPackageId_component_id :: "string \<Rightarrow> string" where
  "PluginPackageId_component_id value = ''use/'' @ value"

definition valid_package_id :: "string \<Rightarrow> bool" where
  "valid_package_id value = PluginPackageId_is_valid value"

section \<open>Installation identity\<close>

datatype InstallationKind = User | Workspace

primrec InstallationKind_as_str :: "InstallationKind \<Rightarrow> string" where
  "InstallationKind_as_str User = ''user''"
| "InstallationKind_as_str Workspace = ''workspace''"

record InstallationId =
  inst_kind :: InstallationKind
  inst_id :: string

definition MAX_INSTALLATION_ID_BYTES :: nat where
  "MAX_INSTALLATION_ID_BYTES = 256"

definition InstallationId_validate :: "InstallationId \<Rightarrow> unit use_result" where
  "InstallationId_validate self =
     (if inst_id self = [] \<or> length (inst_id self) > MAX_INSTALLATION_ID_BYTES
         \<or> \<not> first_byte is_ascii_alphanumeric (inst_id self)
         \<or> \<not> (\<forall>c \<in> set (inst_id self). is_ascii_alphanumeric c \<or> c \<in> set ''-._:/@'')
      then Inl InstallationIdInvalid else Inr ())"

definition InstallationId_new :: "InstallationKind \<Rightarrow> string \<Rightarrow> InstallationId use_result" where
  "InstallationId_new kind ident =
     (let installation = \<lparr>inst_kind = kind, inst_id = ident\<rparr> in
      and_then (InstallationId_validate installation) (\<lambda>_. Inr installation))"

definition InstallationId_ensure_same :: "InstallationId \<Rightarrow> InstallationId \<Rightarrow> unit use_result" where
  "InstallationId_ensure_same self candidate =
     (if \<not> is_ok (InstallationId_validate self) \<or> \<not> is_ok (InstallationId_validate candidate)
         \<or> self \<noteq> candidate
      then Inl InstallationIdentityMismatch else Inr ())"

text \<open>The bytes fed to the SHA-256 state by \<open>storage_key\<close>.\<close>

definition storage_key_bytes :: "InstallationId \<Rightarrow> string" where
  "storage_key_bytes self =
     ''a3s.use.installation-id.v1'' @ [char_of (0 :: nat)]
       @ InstallationKind_as_str (inst_kind self) @ [char_of (0 :: nat)] @ inst_id self"

definition InstallationId_storage_key ::
  "('v, 'r, 'x) externals_scheme \<Rightarrow> InstallationId \<Rightarrow> string use_result" where
  "InstallationId_storage_key X self =
     and_then (InstallationId_validate self) (\<lambda>_. Inr (sha256_hex X (storage_key_bytes self)))"

section \<open>Versioned package dependencies\<close>

record PluginPackageDependency =
  pd_package_id :: string
  pd_version_requirement :: string

definition MAX_VERSION_REQUIREMENT_BYTES :: nat where
  "MAX_VERSION_REQUIREMENT_BYTES = 256"

definition MAX_PLUGIN_PACKAGE_DEPENDENCIES :: nat where
  "MAX_PLUGIN_PACKAGE_DEPENDENCIES = 128"

definition PluginPackageDependency_validate ::
  "('v, 'r, 'x) externals_scheme \<Rightarrow> PluginPackageDependency \<Rightarrow> unit use_result" where
  "PluginPackageDependency_validate X self =
     (if \<not> valid_package_id (pd_package_id self) \<or> pd_version_requirement self = []
         \<or> length (pd_version_requirement self) > MAX_VERSION_REQUIREMENT_BYTES
      then Inl PackageDependencyInvalid
      else and_then (ok_or PackageDependencyInvalid (req_parse X (pd_version_requirement self)))
        (\<lambda>requirement.
           if req_string X requirement \<noteq> pd_version_requirement self
           then Inl PackageDependencyInvalid else Inr ()))"

definition PluginPackageDependency_new ::
  "('v, 'r, 'x) externals_scheme \<Rightarrow> string \<Rightarrow> string \<Rightarrow> PluginPackageDependency use_result" where
  "PluginPackageDependency_new X package_id version_requirement =
     (let dependency = \<lparr>pd_package_id = package_id, pd_version_requirement = version_requirement\<rparr> in
      and_then (PluginPackageDependency_validate X dependency) (\<lambda>_. Inr dependency))"

definition PluginPackageDependency_validate_set ::
  "('v, 'r, 'x) externals_scheme \<Rightarrow> string \<Rightarrow> PluginPackageDependency list \<Rightarrow> unit use_result" where
  "PluginPackageDependency_validate_set X owner_package_id dependencies =
     (if \<not> valid_package_id owner_package_id
         \<or> length dependencies > MAX_PLUGIN_PACKAGE_DEPENDENCIES
      then Inl PackageDependencyInvalid
      else and_then
        (fold_result (\<lambda>previous dependency.
           and_then (PluginPackageDependency_validate X dependency) (\<lambda>_.
             if pd_package_id dependency = owner_package_id
                \<or> out_of_order previous (pd_package_id dependency)
             then Inl PackageDependencyInvalid
             else Inr (Some (pd_package_id dependency))))
          None dependencies)
        (\<lambda>_. Inr ()))"

definition PluginPackageDependency_matches ::
  "('v, 'r, 'x) externals_scheme \<Rightarrow> PluginPackageDependency \<Rightarrow> string \<Rightarrow> bool use_result" where
  "PluginPackageDependency_matches X self version =
     and_then (PluginPackageDependency_validate X self) (\<lambda>_.
     and_then (ok_or PackageDependencyInvalid (version_parse X version)) (\<lambda>parsed_version.
       if version_string X parsed_version \<noteq> version then Inl PackageDependencyInvalid
       else and_then (ok_or PackageDependencyInvalid (req_parse X (pd_version_requirement self)))
         (\<lambda>requirement. Inr (req_matches X requirement parsed_version))))"

definition PluginPackageDependency_parsed_requirement ::
  "('v, 'r, 'x) externals_scheme \<Rightarrow> PluginPackageDependency \<Rightarrow> 'r use_result" where
  "PluginPackageDependency_parsed_requirement X self =
     and_then (PluginPackageDependency_validate X self) (\<lambda>_.
       ok_or PackageDependencyInvalid (req_parse X (pd_version_requirement self)))"

section \<open>Lemmas\<close>

lemma valid_package_id_iff:
  "valid_package_id value \<longleftrightarrow>
     (\<exists>publisher name. value = publisher @ CHR ''/'' # name \<and>
        valid_segment publisher \<and> valid_segment name)"
proof -
  have no_slash: "CHR ''/'' \<notin> set s" if "valid_segment s" for s
    using that
    by (auto simp: valid_segment_def is_ascii_lowercase_def is_ascii_digit_def)
  show ?thesis
  proof
    assume "valid_package_id value"
    then show "\<exists>publisher name. value = publisher @ CHR ''/'' # name \<and>
        valid_segment publisher \<and> valid_segment name"
      by (fastforce simp: valid_package_id_def PluginPackageId_is_valid_def split_once_Some
          split: option.splits)
  next
    assume "\<exists>publisher name. value = publisher @ CHR ''/'' # name \<and>
        valid_segment publisher \<and> valid_segment name"
    then obtain p n where v: "value = p @ CHR ''/'' # n" "valid_segment p" "valid_segment n"
      by blast
    then have "split_once (CHR ''/'') value = Some (p, n)"
      by (simp add: split_once_Some no_slash)
    with v show "valid_package_id value"
      by (simp add: valid_package_id_def PluginPackageId_is_valid_def no_slash)
  qed
qed

lemma InstallationId_validate_chars:
  "InstallationId_validate i = Inr () \<Longrightarrow> c \<in> set (inst_id i) \<Longrightarrow> 45 \<le> byte c"
  by (auto simp: InstallationId_validate_def is_ascii_alphanumeric_def is_ascii_lowercase_def
      is_ascii_uppercase_def is_ascii_digit_def split: if_splits)

lemma storage_key_bytes_inject: "storage_key_bytes a = storage_key_bytes b \<longleftrightarrow> a = b"
proof -
  have "InstallationKind_as_str ka @ char_of (0 :: nat) # ia =
      InstallationKind_as_str kb @ char_of (0 :: nat) # ib \<longleftrightarrow> ka = kb \<and> ia = ib" for ka kb ia ib
    by (cases ka; cases kb) simp_all
  then show ?thesis
    by (cases a; cases b) (simp add: storage_key_bytes_def)
qed

lemma dependency_validate_parse:
  "PluginPackageDependency_validate X d = Inr () \<Longrightarrow>
     valid_package_id (pd_package_id d) \<and>
     (\<exists>r. req_parse X (pd_version_requirement d) = Some r \<and>
        req_string X r = pd_version_requirement d)"
  by (auto simp: PluginPackageDependency_validate_def result_simps split: if_splits)

lemma dependency_validate_set_iff:
  "PluginPackageDependency_validate_set X owner deps = Inr () \<longleftrightarrow>
     valid_package_id owner \<and> length deps \<le> MAX_PLUGIN_PACKAGE_DEPENDENCIES \<and>
     (\<forall>d \<in> set deps. PluginPackageDependency_validate X d = Inr () \<and> pd_package_id d \<noteq> owner) \<and>
     sorted_wrt (<) (map pd_package_id deps)"
proof -
  let ?f = "\<lambda>previous dependency.
     and_then (PluginPackageDependency_validate X dependency) (\<lambda>_.
       if pd_package_id dependency = owner \<or> out_of_order previous (pd_package_id dependency)
       then Inl PackageDependencyInvalid else Inr (Some (pd_package_id dependency)))"
  have "(\<exists>s'. fold_result ?f None deps = Inr s') \<longleftrightarrow>
      (\<forall>d \<in> set deps. PluginPackageDependency_validate X d = Inr () \<and> pd_package_id d \<noteq> owner) \<and>
      sorted_wrt (<) (map pd_package_id deps)"
    by (rule previous_loop) (auto simp: result_simps)
  then show ?thesis
    by (auto simp: PluginPackageDependency_validate_set_def result_simps)
qed

end
