(* ===== verification/Permission.thy ===== *)
theory Permission
  imports Identity
begin

text \<open>
  Permission ceilings, \<open>crates/core/src/plugin/permission.rs\<close>: the canonical-form validators and the
  comparison \<open>is_within\<close>. The abstract specification is \<open>authorizes\<close>, the set of concrete requests a
  ceiling lets a surface make; \<open>is_within\<close> is proved to be exactly inclusion of those sets.
\<close>

section \<open>Data\<close>

datatype FilesystemScope = PluginData | Temporary | WorkspaceScope
datatype FilesystemAccess = Read | ReadWrite
datatype HttpMethod = Delete | Get | Patch | Post | Put

primrec filesystem_scope_rank :: "FilesystemScope \<Rightarrow> nat" where
  "filesystem_scope_rank PluginData = 0"
| "filesystem_scope_rank Temporary = 1"
| "filesystem_scope_rank WorkspaceScope = 2"

primrec filesystem_access_rank :: "FilesystemAccess \<Rightarrow> nat" where
  "filesystem_access_rank Read = 0"
| "filesystem_access_rank ReadWrite = 1"

primrec http_method_rank :: "HttpMethod \<Rightarrow> nat" where
  "http_method_rank Delete = 0"
| "http_method_rank Get = 1"
| "http_method_rank Patch = 2"
| "http_method_rank Post = 3"
| "http_method_rank Put = 4"

record FilesystemPermission =
  fp_scope :: FilesystemScope
  fp_path :: string
  fp_access :: FilesystemAccess

record NetworkEgressPermission =
  ne_host :: string
  ne_ports :: "u16 list"

record ResourcePermissionCeiling =
  rc_cpu_millis :: u64
  rc_memory_bytes :: u64
  rc_pids :: u32
  rc_ephemeral_storage_bytes :: u64
  rc_task_timeout_ms :: "u64 option"
  rc_max_stdout_bytes :: "u64 option"
  rc_max_stderr_bytes :: "u64 option"

record UiHttpPermission =
  uh_tool_id :: string
  uh_methods :: "HttpMethod list"
  uh_path_prefixes :: "string list"

record SurfacePermissionCeiling =
  sp_surface :: PluginSurfaceRef
  sp_native_execution :: bool
  sp_child_process :: bool
  sp_filesystem :: "FilesystemPermission list"
  sp_network_egress :: "NetworkEgressPermission list"
  sp_private_service :: bool
  sp_secrets :: "string list"
  sp_resources :: "ResourcePermissionCeiling option"
  sp_ui_http :: "UiHttpPermission list"

record PluginPermissionCeiling =
  pc_schema :: string
  pc_surfaces :: "SurfacePermissionCeiling list"

text \<open>The derived lexicographic orders, as the key tuples they compare.\<close>

definition filesystem_key :: "FilesystemPermission \<Rightarrow> nat \<times> string \<times> nat" where
  "filesystem_key p =
     (filesystem_scope_rank (fp_scope p), fp_path p, filesystem_access_rank (fp_access p))"

definition network_key :: "NetworkEgressPermission \<Rightarrow> string \<times> u16 list" where
  "network_key p = (ne_host p, ne_ports p)"

section \<open>Validation\<close>

definition PLUGIN_PERMISSION_SCHEMA :: string where
  "PLUGIN_PERMISSION_SCHEMA = ''a3s.use.plugin-permissions.v1''"

definition MAX_SURFACE_PERMISSIONS :: nat where "MAX_SURFACE_PERMISSIONS = 256"
definition MAX_ITEMS_PER_PERMISSION :: nat where "MAX_ITEMS_PER_PERMISSION = 256"
definition MAX_RESOURCE_BYTES :: u64 where "MAX_RESOURCE_BYTES = 16 * 1024 * 1024 * 1024 * 1024"
definition MAX_TASK_TIMEOUT_MS :: u64 where "MAX_TASK_TIMEOUT_MS = 24 * 60 * 60 * 1000"
definition MAX_CAPTURE_BYTES :: u64 where "MAX_CAPTURE_BYTES = 16 * 1024 * 1024 * 1024"

lemma permission_bounds_values [code]:
  "MAX_RESOURCE_BYTES = 17592186044416" "MAX_TASK_TIMEOUT_MS = 86400000"
  "MAX_CAPTURE_BYTES = 17179869184"
  by (simp_all add: MAX_RESOURCE_BYTES_def MAX_TASK_TIMEOUT_MS_def MAX_CAPTURE_BYTES_def)

definition ResourcePermissionCeiling_validate :: "ResourcePermissionCeiling \<Rightarrow> unit use_result" where
  "ResourcePermissionCeiling_validate self =
     (if rc_cpu_millis self = 0 \<or> rc_cpu_millis self > 1000000
         \<or> rc_memory_bytes self = 0 \<or> rc_memory_bytes self > MAX_RESOURCE_BYTES
         \<or> rc_pids self = 0 \<or> rc_pids self > 1000000
         \<or> rc_ephemeral_storage_bytes self = 0 \<or> rc_ephemeral_storage_bytes self > MAX_RESOURCE_BYTES
         \<or> is_some_and (\<lambda>value. value = 0 \<or> value > MAX_TASK_TIMEOUT_MS) (rc_task_timeout_ms self)
         \<or> is_some_and (\<lambda>value. value = 0 \<or> value > MAX_CAPTURE_BYTES) (rc_max_stdout_bytes self)
         \<or> is_some_and (\<lambda>value. value = 0 \<or> value > MAX_CAPTURE_BYTES) (rc_max_stderr_bytes self)
      then Inl PermissionInvalid else Inr ())"

definition UiHttpPermission_validate :: "UiHttpPermission \<Rightarrow> unit use_result" where
  "UiHttpPermission_validate self =
     (if \<not> valid_segment (uh_tool_id self)
         \<or> uh_methods self = [] \<or> length (uh_methods self) > 16
         \<or> \<not> strictly_sorted_unique (map http_method_rank (uh_methods self))
         \<or> uh_path_prefixes self = [] \<or> length (uh_path_prefixes self) > 64
         \<or> \<not> strictly_sorted_unique (uh_path_prefixes self)
         \<or> (\<exists>path \<in> set (uh_path_prefixes self). \<not> valid_http_path path)
      then Inl PermissionInvalid else Inr ())"

definition SurfacePermissionCeiling_validate :: "SurfacePermissionCeiling \<Rightarrow> unit use_result" where
  "SurfacePermissionCeiling_validate self =
     (if \<not> valid_segment (sr_id (sp_surface self))
         \<or> sr_kind (sp_surface self) \<in> {KFlow, KOkf, KSkill}
         \<or> length (sp_filesystem self) > MAX_ITEMS_PER_PERMISSION
         \<or> length (sp_network_egress self) > MAX_ITEMS_PER_PERMISSION
         \<or> length (sp_secrets self) > MAX_ITEMS_PER_PERMISSION
         \<or> length (sp_ui_http self) > MAX_ITEMS_PER_PERMISSION
         \<or> \<not> strictly_sorted_unique (map filesystem_key (sp_filesystem self))
         \<or> \<not> strictly_sorted_unique (map network_key (sp_network_egress self))
         \<or> \<not> strictly_sorted_unique (sp_secrets self)
         \<or> windows2_any (\<lambda>a b. uh_tool_id a \<ge> uh_tool_id b) (sp_ui_http self)
      then Inl PermissionInvalid else
      and_then (for_each (\<lambda>filesystem.
          if \<not> valid_portable_scope_path (fp_path filesystem) then Inl PermissionInvalid else Inr ())
        (sp_filesystem self)) (\<lambda>_.
      and_then (for_each (\<lambda>egress.
          if \<not> valid_dns_name (ne_host egress) \<or> ne_ports egress = [] \<or> length (ne_ports egress) > 16
             \<or> 0 \<in> set (ne_ports egress) \<or> \<not> strictly_sorted_unique (ne_ports egress)
          then Inl PermissionInvalid else Inr ())
        (sp_network_egress self)) (\<lambda>_.
      if (\<exists>secret \<in> set (sp_secrets self). \<not> valid_permission_name secret)
      then Inl PermissionInvalid else
      and_then (case sp_resources self of
          None \<Rightarrow> Inr () | Some resources \<Rightarrow> ResourcePermissionCeiling_validate resources) (\<lambda>_.
      and_then (for_each UiHttpPermission_validate (sp_ui_http self)) (\<lambda>_.
      and_then (case sr_kind (sp_surface self) of
          KUi \<Rightarrow>
            if sp_native_execution self \<or> sp_child_process self \<or> sp_filesystem self \<noteq> []
               \<or> sp_network_egress self \<noteq> [] \<or> sp_private_service self \<or> sp_secrets self \<noteq> []
               \<or> sp_resources self \<noteq> None
            then Inl PermissionInvalid else Inr ()
        | KTool \<Rightarrow>
            if sp_ui_http self \<noteq> [] \<or> sp_resources self = None
            then Inl PermissionInvalid else Inr ()
        | KMcp \<Rightarrow>
            if sp_ui_http self \<noteq> [] \<or> sp_resources self = None
            then Inl PermissionInvalid else Inr ()
        | KFlow \<Rightarrow> Inl PermissionInvalid
        | KOkf \<Rightarrow> Inl PermissionInvalid
        | KSkill \<Rightarrow> Inl PermissionInvalid) (\<lambda>_.
      if \<not> sp_native_execution self \<and> \<not> sp_child_process self \<and> sp_filesystem self = []
         \<and> sp_network_egress self = [] \<and> \<not> sp_private_service self \<and> sp_secrets self = []
         \<and> sp_resources self = None \<and> sp_ui_http self = []
      then Inl PermissionInvalid else Inr ()))))))"

definition PluginPermissionCeiling_validate :: "PluginPermissionCeiling \<Rightarrow> unit use_result" where
  "PluginPermissionCeiling_validate self =
     (if pc_schema self \<noteq> PLUGIN_PERMISSION_SCHEMA
         \<or> length (pc_surfaces self) > MAX_SURFACE_PERMISSIONS
         \<or> windows2_any (\<lambda>a b. sp_surface a \<ge> sp_surface b) (pc_surfaces self)
      then Inl PermissionInvalid
      else for_each SurfacePermissionCeiling_validate (pc_surfaces self))"

text \<open>The canonical encoding of a ceiling is the serde derive of the struct, an argument.\<close>

record ('v, 'r) permission_externals = "('v, 'r) externals" +
  ceiling_json :: "PluginPermissionCeiling \<Rightarrow> string option"

definition PluginPermissionCeiling_canonical_bytes ::
  "('v, 'r, 'x) permission_externals_scheme \<Rightarrow> PluginPermissionCeiling \<Rightarrow> string use_result" where
  "PluginPermissionCeiling_canonical_bytes X self =
     and_then (PluginPermissionCeiling_validate self) (\<lambda>_.
       canonical_json (ceiling_json X) PermissionInvalid self)"

definition PluginPermissionCeiling_descriptor_digest ::
  "('v, 'r, 'x) permission_externals_scheme \<Rightarrow> PluginPermissionCeiling \<Rightarrow> string use_result" where
  "PluginPermissionCeiling_descriptor_digest X self =
     and_then (PluginPermissionCeiling_canonical_bytes X self) (\<lambda>bytes.
       Inr (canonical_digest X bytes))"

section \<open>Comparison\<close>

definition path_is_within :: "string \<Rightarrow> string \<Rightarrow> bool" where
  "path_is_within path parent =
     (parent = ''.'' \<or> path = parent \<or>
      is_some_and (starts_with ''/'') (strip_prefix parent path))"

definition http_path_is_within :: "string \<Rightarrow> string \<Rightarrow> bool" where
  "http_path_is_within path prefix =
     (prefix = ''/'' \<or> path = prefix \<or>
      is_some_and (starts_with ''/'') (strip_prefix prefix path))"

definition optional_limit_is_within :: "u64 option \<Rightarrow> u64 option \<Rightarrow> bool" where
  "optional_limit_is_within granted ceiling =
     is_none_or (\<lambda>granted. is_some_and (\<lambda>ceiling. granted \<le> ceiling) ceiling) granted"

definition filesystem_is_within :: "FilesystemPermission \<Rightarrow> FilesystemPermission list \<Rightarrow> bool" where
  "filesystem_is_within granted ceiling =
     (\<exists>allowed \<in> set ceiling.
        fp_scope granted = fp_scope allowed \<and> path_is_within (fp_path granted) (fp_path allowed) \<and>
        (case (fp_access granted, fp_access allowed) of
           (Read, _) \<Rightarrow> True | (ReadWrite, ReadWrite) \<Rightarrow> True | _ \<Rightarrow> False))"

definition network_is_within :: "NetworkEgressPermission \<Rightarrow> NetworkEgressPermission list \<Rightarrow> bool" where
  "network_is_within granted ceiling =
     (\<forall>port \<in> set (ne_ports granted). \<exists>allowed \<in> set ceiling.
        ne_host allowed = ne_host granted \<and>
        binary_search_by (\<lambda>p. p) port (ne_ports allowed) \<noteq> None)"

fun resources_are_within ::
  "ResourcePermissionCeiling option \<Rightarrow> ResourcePermissionCeiling option \<Rightarrow> bool" where
  "resources_are_within None _ = True"
| "resources_are_within (Some _) None = False"
| "resources_are_within (Some granted) (Some ceiling) =
     (rc_cpu_millis granted \<le> rc_cpu_millis ceiling \<and>
      rc_memory_bytes granted \<le> rc_memory_bytes ceiling \<and>
      rc_pids granted \<le> rc_pids ceiling \<and>
      rc_ephemeral_storage_bytes granted \<le> rc_ephemeral_storage_bytes ceiling \<and>
      optional_limit_is_within (rc_task_timeout_ms granted) (rc_task_timeout_ms ceiling) \<and>
      optional_limit_is_within (rc_max_stdout_bytes granted) (rc_max_stdout_bytes ceiling) \<and>
      optional_limit_is_within (rc_max_stderr_bytes granted) (rc_max_stderr_bytes ceiling))"

definition ui_http_is_within :: "UiHttpPermission \<Rightarrow> UiHttpPermission list \<Rightarrow> bool" where
  "ui_http_is_within granted ceiling =
     is_some_and (\<lambda>allowed.
         (\<forall>m \<in> set (uh_methods granted).
            binary_search_by http_method_rank (http_method_rank m) (uh_methods allowed) \<noteq> None) \<and>
         (\<forall>path \<in> set (uh_path_prefixes granted).
            \<exists>prefix \<in> set (uh_path_prefixes allowed). http_path_is_within path prefix))
       (List.find (\<lambda>allowed. uh_tool_id allowed = uh_tool_id granted) ceiling)"

definition surface_is_within :: "SurfacePermissionCeiling \<Rightarrow> SurfacePermissionCeiling \<Rightarrow> bool" where
  "surface_is_within granted ceiling =
     ((\<not> sp_native_execution granted \<or> sp_native_execution ceiling) \<and>
      (\<not> sp_child_process granted \<or> sp_child_process ceiling) \<and>
      (\<not> sp_private_service granted \<or> sp_private_service ceiling) \<and>
      (\<forall>permission \<in> set (sp_filesystem granted).
         filesystem_is_within permission (sp_filesystem ceiling)) \<and>
      (\<forall>permission \<in> set (sp_network_egress granted).
         network_is_within permission (sp_network_egress ceiling)) \<and>
      (\<forall>secret \<in> set (sp_secrets granted).
         binary_search_by (\<lambda>s. s) secret (sp_secrets ceiling) \<noteq> None) \<and>
      resources_are_within (sp_resources granted) (sp_resources ceiling) \<and>
      (\<forall>permission \<in> set (sp_ui_http granted).
         ui_http_is_within permission (sp_ui_http ceiling)))"

definition PluginPermissionCeiling_is_within ::
  "PluginPermissionCeiling \<Rightarrow> PluginPermissionCeiling \<Rightarrow> bool use_result" where
  "PluginPermissionCeiling_is_within self ceiling =
     and_then (PluginPermissionCeiling_validate self) (\<lambda>_.
     and_then (PluginPermissionCeiling_validate ceiling) (\<lambda>_.
       Inr (\<forall>granted \<in> set (pc_surfaces self).
              is_some_and (surface_is_within granted)
                (List.find (\<lambda>allowed. sp_surface allowed = sp_surface granted)
                   (pc_surfaces ceiling)))))"

section \<open>Specification: the authority a ceiling confers\<close>

text \<open>
  A request is one concrete thing a surface may ask of its host. \<open>surface_authorizes\<close> says which
  requests a surface ceiling admits, in terms of path segments and set membership rather than of
  string prefixes and binary search.
\<close>

datatype authority_request =
    ReqNative
  | ReqChild
  | ReqPrivateService
  | ReqFile FilesystemScope string FilesystemAccess
  | ReqEgress string u16
  | ReqSecret string
  | ReqCpu u64
  | ReqMemory u64
  | ReqPids u32
  | ReqStorage u64
  | ReqTimeout u64
  | ReqStdout u64
  | ReqStderr u64
  | ReqHttp string HttpMethod string

definition segments_extend :: "string \<Rightarrow> string \<Rightarrow> bool" where
  "segments_extend parent path =
     (\<exists>ws. split_on (CHR ''/'') path = split_on (CHR ''/'') parent @ ws)"

definition file_authorized ::
  "FilesystemPermission list \<Rightarrow> FilesystemScope \<Rightarrow> string \<Rightarrow> FilesystemAccess \<Rightarrow> bool" where
  "file_authorized ps scope path access =
     (\<exists>p \<in> set ps. fp_scope p = scope \<and> (fp_path p = ''.'' \<or> segments_extend (fp_path p) path) \<and>
        (access = Read \<or> fp_access p = ReadWrite))"

definition http_authorized :: "UiHttpPermission list \<Rightarrow> string \<Rightarrow> HttpMethod \<Rightarrow> string \<Rightarrow> bool" where
  "http_authorized bs tool m path =
     (\<exists>b \<in> set bs. uh_tool_id b = tool \<and> m \<in> set (uh_methods b) \<and>
        (\<exists>prefix \<in> set (uh_path_prefixes b). prefix = ''/'' \<or> segments_extend prefix path))"

definition egress_authorized :: "NetworkEgressPermission list \<Rightarrow> string \<Rightarrow> u16 \<Rightarrow> bool" where
  "egress_authorized ns host port = (\<exists>n \<in> set ns. ne_host n = host \<and> port \<in> set (ne_ports n))"

primrec surface_authorizes :: "SurfacePermissionCeiling \<Rightarrow> authority_request \<Rightarrow> bool" where
  "surface_authorizes c ReqNative = sp_native_execution c"
| "surface_authorizes c ReqChild = sp_child_process c"
| "surface_authorizes c ReqPrivateService = sp_private_service c"
| "surface_authorizes c (ReqFile scope path access) =
     file_authorized (sp_filesystem c) scope path access"
| "surface_authorizes c (ReqEgress host port) = egress_authorized (sp_network_egress c) host port"
| "surface_authorizes c (ReqSecret s) = (s \<in> set (sp_secrets c))"
| "surface_authorizes c (ReqCpu n) = is_some_and (\<lambda>r. n \<le> rc_cpu_millis r) (sp_resources c)"
| "surface_authorizes c (ReqMemory n) = is_some_and (\<lambda>r. n \<le> rc_memory_bytes r) (sp_resources c)"
| "surface_authorizes c (ReqPids n) = is_some_and (\<lambda>r. n \<le> rc_pids r) (sp_resources c)"
| "surface_authorizes c (ReqStorage n) =
     is_some_and (\<lambda>r. n \<le> rc_ephemeral_storage_bytes r) (sp_resources c)"
| "surface_authorizes c (ReqTimeout n) =
     is_some_and (\<lambda>r. is_some_and ((\<le>) n) (rc_task_timeout_ms r)) (sp_resources c)"
| "surface_authorizes c (ReqStdout n) =
     is_some_and (\<lambda>r. is_some_and ((\<le>) n) (rc_max_stdout_bytes r)) (sp_resources c)"
| "surface_authorizes c (ReqStderr n) =
     is_some_and (\<lambda>r. is_some_and ((\<le>) n) (rc_max_stderr_bytes r)) (sp_resources c)"
| "surface_authorizes c (ReqHttp tool m path) = http_authorized (sp_ui_http c) tool m path"

definition authorizes ::
  "PluginPermissionCeiling \<Rightarrow> PluginSurfaceRef \<Rightarrow> authority_request \<Rightarrow> bool" where
  "authorizes c surface r =
     (\<exists>p \<in> set (pc_surfaces c). sp_surface p = surface \<and> surface_authorizes p r)"

text \<open>
  The contract of a comparison that is exact for what its operands permit: it is reflexive and
  transitive on well-formed operands, and mutual comparison means equal authority.
\<close>

locale exact_comparison =
  fixes ok :: "'p \<Rightarrow> bool"
    and within :: "'p \<Rightarrow> 'p \<Rightarrow> bool"
    and permits :: "'p \<Rightarrow> 'q \<Rightarrow> bool"
  assumes exact: "ok a \<Longrightarrow> ok b \<Longrightarrow> within a b \<longleftrightarrow> (\<forall>r. permits a r \<longrightarrow> permits b r)"
begin

lemma within_refl: "ok a \<Longrightarrow> within a a"
  by (simp add: exact)

lemma within_trans: "ok a \<Longrightarrow> ok b \<Longrightarrow> ok c \<Longrightarrow> within a b \<Longrightarrow> within b c \<Longrightarrow> within a c"
  by (simp add: exact)

lemma within_both: "ok a \<Longrightarrow> ok b \<Longrightarrow> within a b \<and> within b a \<longleftrightarrow> permits a = permits b"
  by (auto simp: exact fun_eq_iff)

end

section \<open>The comparison is exactly inclusion of authority\<close>

lemma segments_extend_iff:
  "segments_extend parent path \<longleftrightarrow> path = parent \<or> (\<exists>r. path = parent @ CHR ''/'' # r)"
proof -
  have "segments_extend parent path \<longleftrightarrow>
      split_on (CHR ''/'') path = split_on (CHR ''/'') parent \<or>
      (\<exists>ws. ws \<noteq> [] \<and> split_on (CHR ''/'') path = split_on (CHR ''/'') parent @ ws)"
    unfolding segments_extend_def by (metis append_Nil2)
  then show ?thesis by (simp add: split_on_inject extends_at_separator_iff)
qed

lemma segments_extend_refl [simp]: "segments_extend p p"
  by (simp add: segments_extend_iff)

lemma segments_extend_trans:
  "segments_extend a b \<Longrightarrow> segments_extend b c \<Longrightarrow> segments_extend a c"
  by (auto simp: segments_extend_def)

lemma prefix_check_iff:
  "path = parent \<or> is_some_and (starts_with ''/'') (strip_prefix parent path) \<longleftrightarrow>
     segments_extend parent path"
proof -
  have "is_some_and (starts_with ''/'') (strip_prefix parent path) \<longleftrightarrow>
      (\<exists>r. path = parent @ CHR ''/'' # r)"
    by (auto simp: is_some_and_iff strip_prefix_Some starts_with_iff)
  then show ?thesis by (simp add: segments_extend_iff)
qed

lemma path_is_within_iff:
  "path_is_within path parent \<longleftrightarrow> parent = ''.'' \<or> segments_extend parent path"
  unfolding path_is_within_def prefix_check_iff by simp

lemma http_path_is_within_iff:
  "http_path_is_within path prefix \<longleftrightarrow> prefix = ''/'' \<or> segments_extend prefix path"
  unfolding http_path_is_within_def prefix_check_iff by simp

lemma segments_extend_dot: "segments_extend parent ''.'' \<Longrightarrow> parent = ''.''"
  by (cases parent) (auto simp: segments_extend_iff)

lemma segments_extend_root: "segments_extend parent ''/'' \<Longrightarrow> parent \<noteq> [] \<Longrightarrow> parent = ''/''"
  by (cases parent) (auto simp: segments_extend_iff)

lemma filesystem_is_within_iff:
  "filesystem_is_within p c \<longleftrightarrow>
     (\<exists>q \<in> set c. fp_scope p = fp_scope q \<and>
        (fp_path q = ''.'' \<or> segments_extend (fp_path q) (fp_path p)) \<and>
        (fp_access p = Read \<or> fp_access q = ReadWrite))"
  unfolding filesystem_is_within_def path_is_within_iff
  by (intro bex_cong refl conj_cong) (simp split: FilesystemAccess.splits)

lemma filesystem_within_iff:
  "(\<forall>p \<in> set g. filesystem_is_within p c) \<longleftrightarrow>
     (\<forall>s path a. file_authorized g s path a \<longrightarrow> file_authorized c s path a)"
proof (intro iffI ballI allI impI)
  fix s path a
  assume within: "\<forall>p \<in> set g. filesystem_is_within p c" and "file_authorized g s path a"
  then obtain p where p: "p \<in> set g" "fp_scope p = s" "fp_path p = ''.'' \<or> segments_extend (fp_path p) path"
    "a = Read \<or> fp_access p = ReadWrite"
    unfolding file_authorized_def by blast
  from within p(1) obtain q where q: "q \<in> set c" "fp_scope p = fp_scope q"
    "fp_path q = ''.'' \<or> segments_extend (fp_path q) (fp_path p)"
    "fp_access p = Read \<or> fp_access q = ReadWrite"
    unfolding filesystem_is_within_iff by blast
  have "fp_path q = ''.'' \<or> segments_extend (fp_path q) path"
    using p(3) q(3) segments_extend_trans [of "fp_path q" "fp_path p" path]
    by (auto dest: segments_extend_dot)
  with p q show "file_authorized c s path a" by (auto simp: file_authorized_def)
next
  fix p assume all: "\<forall>s path a. file_authorized g s path a \<longrightarrow> file_authorized c s path a"
    and "p \<in> set g"
  then have "file_authorized g (fp_scope p) (fp_path p) (fp_access p)"
    unfolding file_authorized_def by (intro bexI [of _ p]) (cases "fp_access p", simp_all)
  with all have "file_authorized c (fp_scope p) (fp_path p) (fp_access p)" by blast
  then show "filesystem_is_within p c"
    unfolding file_authorized_def filesystem_is_within_iff by (elim bexE, intro bexI) auto
qed

lemma binary_search_id:
  "sorted_wrt (<) xs \<Longrightarrow> binary_search_by (\<lambda>p. p) x xs \<noteq> None \<longleftrightarrow> x \<in> set xs"
  using binary_search_by_member [of "\<lambda>p. p" xs x] by simp

lemma network_within_iff:
  assumes "\<forall>n \<in> set c. sorted_wrt (<) (ne_ports n)"
  shows "(\<forall>p \<in> set g. network_is_within p c) \<longleftrightarrow>
     (\<forall>host port. egress_authorized g host port \<longrightarrow> egress_authorized c host port)"
proof -
  have "network_is_within p c \<longleftrightarrow>
      (\<forall>port \<in> set (ne_ports p). egress_authorized c (ne_host p) port)" for p
    using assms binary_search_id unfolding network_is_within_def egress_authorized_def by metis
  then have "(\<forall>p \<in> set g. network_is_within p c) \<longleftrightarrow>
      (\<forall>p \<in> set g. \<forall>port \<in> set (ne_ports p). egress_authorized c (ne_host p) port)"
    by simp
  also have "\<dots> \<longleftrightarrow> (\<forall>host port. egress_authorized g host port \<longrightarrow> egress_authorized c host port)"
    unfolding egress_authorized_def [of g] by blast
  finally show ?thesis .
qed

lemma http_method_rank_inject: "http_method_rank a = http_method_rank b \<longleftrightarrow> a = b"
  by (cases a; cases b) simp_all

definition http_sorted :: "UiHttpPermission list \<Rightarrow> bool" where
  "http_sorted c \<longleftrightarrow> distinct (map uh_tool_id c) \<and>
     (\<forall>b \<in> set c. sorted_wrt (<) (map http_method_rank (uh_methods b)) \<and>
        uh_methods b \<noteq> [] \<and> uh_path_prefixes b \<noteq> [] \<and> [] \<notin> set (uh_path_prefixes b))"

lemma ui_http_is_within_iff:
  assumes "http_sorted c"
  shows "ui_http_is_within p c \<longleftrightarrow>
    (\<exists>b \<in> set c. uh_tool_id b = uh_tool_id p \<and> set (uh_methods p) \<subseteq> set (uh_methods b) \<and>
       (\<forall>path \<in> set (uh_path_prefixes p). \<exists>prefix \<in> set (uh_path_prefixes b).
          prefix = ''/'' \<or> segments_extend prefix path))"
proof -
  have "binary_search_by http_method_rank (http_method_rank m) (uh_methods b) \<noteq> None \<longleftrightarrow>
      m \<in> set (uh_methods b)" if "b \<in> set c" for b m
    using that assms binary_search_by_member [of http_method_rank "uh_methods b"]
    by (auto simp: http_sorted_def http_method_rank_inject image_iff)
  moreover have "distinct (map uh_tool_id c)" using assms by (simp add: http_sorted_def)
  ultimately show ?thesis
    unfolding ui_http_is_within_def is_some_and_iff http_path_is_within_iff subset_iff Bex_def [of "set c"]
    by (intro ex_cong1) (simp add: find_key_Some Ball_def cong: conj_cong del: not_None_eq)
qed

lemma http_within_iff:
  assumes g: "http_sorted g" and c: "http_sorted c"
  shows "(\<forall>p \<in> set g. ui_http_is_within p c) \<longleftrightarrow>
    (\<forall>tool m path. http_authorized g tool m path \<longrightarrow> http_authorized c tool m path)"
proof (intro iffI ballI allI impI)
  fix tool m path
  assume within: "\<forall>p \<in> set g. ui_http_is_within p c" and "http_authorized g tool m path"
  then obtain p prefix where p: "p \<in> set g" "uh_tool_id p = tool" "m \<in> set (uh_methods p)"
    "prefix \<in> set (uh_path_prefixes p)" "prefix = ''/'' \<or> segments_extend prefix path"
    unfolding http_authorized_def by blast
  from within p(1) obtain b where b: "b \<in> set c" "uh_tool_id b = uh_tool_id p"
    "set (uh_methods p) \<subseteq> set (uh_methods b)"
    "\<forall>path \<in> set (uh_path_prefixes p). \<exists>prefix \<in> set (uh_path_prefixes b).
       prefix = ''/'' \<or> segments_extend prefix path"
    unfolding ui_http_is_within_iff [OF c] by blast
  from b(4) p(4) obtain q where q: "q \<in> set (uh_path_prefixes b)"
    "q = ''/'' \<or> segments_extend q prefix" by blast
  have "q \<noteq> []" using q(1) b(1) c by (auto simp: http_sorted_def)
  then have "q = ''/'' \<or> segments_extend q path"
    using p(5) q(2) segments_extend_trans [of q prefix path] by (auto dest: segments_extend_root)
  with b p q(1) show "http_authorized c tool m path" unfolding http_authorized_def by blast
next
  fix p assume all: "\<forall>tool m path. http_authorized g tool m path \<longrightarrow> http_authorized c tool m path"
    and p: "p \<in> set g"
  have auth: "\<exists>b \<in> set c. uh_tool_id b = uh_tool_id p \<and> m \<in> set (uh_methods b) \<and>
      (\<exists>prefix \<in> set (uh_path_prefixes b). prefix = ''/'' \<or> segments_extend prefix path)"
    if "m \<in> set (uh_methods p)" "path \<in> set (uh_path_prefixes p)" for m path
  proof -
    have "http_authorized g (uh_tool_id p) m path"
      unfolding http_authorized_def using that p segments_extend_refl [of path] by blast
    with all show ?thesis unfolding http_authorized_def [of c] by blast
  qed
  from g p obtain m0 path0 where "m0 \<in> set (uh_methods p)" "path0 \<in> set (uh_path_prefixes p)"
    by (metis http_sorted_def hd_in_set)
  with auth obtain b where b: "b \<in> set c" "uh_tool_id b = uh_tool_id p" by blast
  have "b' = b" if "b' \<in> set c" "uh_tool_id b' = uh_tool_id p" for b'
    using that b c by (auto simp: http_sorted_def distinct_map inj_on_def)
  with auth have auth': "m \<in> set (uh_methods b) \<and>
      (\<exists>prefix \<in> set (uh_path_prefixes b). prefix = ''/'' \<or> segments_extend prefix path)"
    if "m \<in> set (uh_methods p)" "path \<in> set (uh_path_prefixes p)" for m path
    using that by metis
  have "set (uh_methods p) \<subseteq> set (uh_methods b)" using auth' \<open>path0 \<in> _\<close> by blast
  moreover have "\<forall>path \<in> set (uh_path_prefixes p). \<exists>prefix \<in> set (uh_path_prefixes b).
      prefix = ''/'' \<or> segments_extend prefix path"
    using auth' \<open>m0 \<in> _\<close> by blast
  ultimately show "ui_http_is_within p c"
    unfolding ui_http_is_within_iff [OF c] using b by auto
qed

lemma optional_limit_iff:
  "optional_limit_is_within g c \<longleftrightarrow> (\<forall>n. is_some_and ((\<le>) n) g \<longrightarrow> is_some_and ((\<le>) n) c)"
  by (cases g; cases c) (auto simp: optional_limit_is_within_def intro: order_trans)

lemma resources_within_iff:
  "resources_are_within g c \<longleftrightarrow>
     (\<forall>n. is_some_and (\<lambda>r. n \<le> rc_cpu_millis r) g \<longrightarrow> is_some_and (\<lambda>r. n \<le> rc_cpu_millis r) c) \<and>
     (\<forall>n. is_some_and (\<lambda>r. n \<le> rc_memory_bytes r) g \<longrightarrow> is_some_and (\<lambda>r. n \<le> rc_memory_bytes r) c) \<and>
     (\<forall>n. is_some_and (\<lambda>r. n \<le> rc_pids r) g \<longrightarrow> is_some_and (\<lambda>r. n \<le> rc_pids r) c) \<and>
     (\<forall>n. is_some_and (\<lambda>r. n \<le> rc_ephemeral_storage_bytes r) g \<longrightarrow>
          is_some_and (\<lambda>r. n \<le> rc_ephemeral_storage_bytes r) c) \<and>
     (\<forall>n. is_some_and (\<lambda>r. is_some_and ((\<le>) n) (rc_task_timeout_ms r)) g \<longrightarrow>
          is_some_and (\<lambda>r. is_some_and ((\<le>) n) (rc_task_timeout_ms r)) c) \<and>
     (\<forall>n. is_some_and (\<lambda>r. is_some_and ((\<le>) n) (rc_max_stdout_bytes r)) g \<longrightarrow>
          is_some_and (\<lambda>r. is_some_and ((\<le>) n) (rc_max_stdout_bytes r)) c) \<and>
     (\<forall>n. is_some_and (\<lambda>r. is_some_and ((\<le>) n) (rc_max_stderr_bytes r)) g \<longrightarrow>
          is_some_and (\<lambda>r. is_some_and ((\<le>) n) (rc_max_stderr_bytes r)) c)"
proof (cases g)
  case (Some a)
  show ?thesis
  proof (cases c)
    case None
    have "\<exists>n. n \<le> rc_cpu_millis a" by blast
    with None Some show ?thesis by auto
  next
    case (Some b)
    have le: "x \<le> y \<longleftrightarrow> (\<forall>n. n \<le> x \<longrightarrow> n \<le> y)" for x y :: "'w :: len word"
      by (auto intro: order_trans)
    show ?thesis
      unfolding \<open>g = Some a\<close> Some resources_are_within.simps is_some_and_simps optional_limit_iff
        le [of "rc_cpu_millis a"] le [of "rc_memory_bytes a"] le [of "rc_pids a"]
        le [of "rc_ephemeral_storage_bytes a"] ..
  qed
qed simp

lemma surface_validate_shape:
  assumes "SurfacePermissionCeiling_validate s = Inr ()"
  shows "\<forall>n \<in> set (sp_network_egress s). sorted_wrt (<) (ne_ports n) \<and> ne_ports n \<noteq> []"
    and "sorted_wrt (<) (sp_secrets s)"
    and "http_sorted (sp_ui_http s)"
    and "sp_native_execution s \<or> sp_child_process s \<or> sp_filesystem s \<noteq> [] \<or> sp_network_egress s \<noteq> []
      \<or> sp_private_service s \<or> sp_secrets s \<noteq> [] \<or> sp_resources s \<noteq> None \<or> sp_ui_http s \<noteq> []"
proof -
  note parts = assms [unfolded SurfacePermissionCeiling_validate_def if_Inl_Inr and_then_Inr
      for_each_Inr]
  show "\<forall>n \<in> set (sp_network_egress s). sorted_wrt (<) (ne_ports n) \<and> ne_ports n \<noteq> []"
    using parts by simp
  show "sorted_wrt (<) (sp_secrets s)" using parts by simp
  show "sp_native_execution s \<or> sp_child_process s \<or> sp_filesystem s \<noteq> [] \<or> sp_network_egress s \<noteq> []
      \<or> sp_private_service s \<or> sp_secrets s \<noteq> [] \<or> sp_resources s \<noteq> None \<or> sp_ui_http s \<noteq> []"
    using parts by (elim conjE exE) argo
  have "sorted_wrt (<) (map uh_tool_id (sp_ui_http s))" using parts by simp
  moreover have "\<forall>b \<in> set (sp_ui_http s). UiHttpPermission_validate b = Inr ()"
    using parts by simp
  moreover have "\<not> valid_http_path []" by (simp add: valid_http_path_def starts_with_def)
  ultimately show "http_sorted (sp_ui_http s)"
    unfolding http_sorted_def UiHttpPermission_validate_def if_Inl_Inr
    by (auto dest: sorted_less_distinct)
qed

lemma surface_is_within_iff:
  assumes g: "SurfacePermissionCeiling_validate g = Inr ()"
    and c: "SurfacePermissionCeiling_validate c = Inr ()"
  shows "surface_is_within g c \<longleftrightarrow> (\<forall>r. surface_authorizes g r \<longrightarrow> surface_authorizes c r)"
proof -
  note cs = surface_validate_shape [OF c] and gs = surface_validate_shape [OF g]
  have all: "(\<forall>r. P r) \<longleftrightarrow> P ReqNative \<and> P ReqChild \<and> P ReqPrivateService \<and>
      (\<forall>s path a. P (ReqFile s path a)) \<and> (\<forall>h p. P (ReqEgress h p)) \<and> (\<forall>s. P (ReqSecret s)) \<and>
      ((\<forall>n. P (ReqCpu n)) \<and> (\<forall>n. P (ReqMemory n)) \<and> (\<forall>n. P (ReqPids n)) \<and>
       (\<forall>n. P (ReqStorage n)) \<and> (\<forall>n. P (ReqTimeout n)) \<and> (\<forall>n. P (ReqStdout n)) \<and>
       (\<forall>n. P (ReqStderr n))) \<and> (\<forall>t m p. P (ReqHttp t m p))" for P
    by (metis authority_request.exhaust)
  have net: "(\<forall>p \<in> set (sp_network_egress g). network_is_within p (sp_network_egress c)) \<longleftrightarrow>
      (\<forall>h p. egress_authorized (sp_network_egress g) h p \<longrightarrow> egress_authorized (sp_network_egress c) h p)"
    using cs(1) by (intro network_within_iff) blast
  have sec: "(\<forall>s \<in> set (sp_secrets g). binary_search_by (\<lambda>s. s) s (sp_secrets c) \<noteq> None) \<longleftrightarrow>
      (\<forall>s. s \<in> set (sp_secrets g) \<longrightarrow> s \<in> set (sp_secrets c))"
    using binary_search_id [OF cs(2)] by (simp del: not_None_eq) blast
  show ?thesis
    unfolding all surface_authorizes.simps surface_is_within_def filesystem_within_iff net sec
      resources_within_iff http_within_iff [OF gs(3) cs(3)]
    by argo
qed

lemma surface_some_authority:
  assumes "SurfacePermissionCeiling_validate s = Inr ()"
  shows "\<exists>r. surface_authorizes s r"
proof -
  note shape = surface_validate_shape [OF assms]
  have "surface_authorizes s (ReqFile (fp_scope p) (fp_path p) Read)" if "p \<in> set (sp_filesystem s)" for p
    using that segments_extend_refl by (fastforce simp: file_authorized_def)
  moreover have "surface_authorizes s (ReqEgress (ne_host n) (hd (ne_ports n)))"
    if "n \<in> set (sp_network_egress s)" for n
    using that shape(1) by (auto simp: egress_authorized_def)
  moreover have "surface_authorizes s (ReqCpu 0)" if "sp_resources s = Some r" for r
    using that by simp
  moreover have "surface_authorizes s (ReqHttp (uh_tool_id b) (hd (uh_methods b)) (hd (uh_path_prefixes b)))"
    if "b \<in> set (sp_ui_http s)" for b
    using that shape(3) segments_extend_refl
    unfolding surface_authorizes.simps http_authorized_def http_sorted_def by (metis hd_in_set)
  ultimately show ?thesis
    using shape(4) surface_authorizes.simps(1-3,6) by (metis hd_in_set not_None_eq)
qed

lemma ceiling_validate_shape:
  assumes "PluginPermissionCeiling_validate c = Inr ()"
  shows "distinct (map sp_surface (pc_surfaces c))"
    and "p \<in> set (pc_surfaces c) \<Longrightarrow> SurfacePermissionCeiling_validate p = Inr ()"
  using assms unfolding PluginPermissionCeiling_validate_def if_Inl_Inr for_each_Inr
  by (auto dest: sorted_less_distinct)

lemma ceiling_is_within_value:
  assumes "PluginPermissionCeiling_validate g = Inr ()" "PluginPermissionCeiling_validate c = Inr ()"
  shows "PluginPermissionCeiling_is_within g c = Inr (\<forall>p \<in> set (pc_surfaces g).
      \<exists>q \<in> set (pc_surfaces c). sp_surface q = sp_surface p \<and> surface_is_within p q)"
  using assms find_key_Some [OF ceiling_validate_shape(1) [OF assms(2)]]
  by (auto simp: PluginPermissionCeiling_is_within_def is_some_and_iff)

lemma ceiling_is_within_exact:
  assumes g: "PluginPermissionCeiling_validate g = Inr ()"
    and c: "PluginPermissionCeiling_validate c = Inr ()"
  shows "PluginPermissionCeiling_is_within g c = Inr True \<longleftrightarrow>
    (\<forall>r. case r of (s, q) \<Rightarrow> authorizes g s q \<longrightarrow> authorizes c s q)"
proof -
  have "(\<exists>q \<in> set (pc_surfaces c). sp_surface q = sp_surface p \<and> surface_is_within p q) \<longleftrightarrow>
      (\<forall>r. surface_authorizes p r \<longrightarrow> authorizes c (sp_surface p) r)" if p: "p \<in> set (pc_surfaces g)" for p
  proof -
    have uniq: "a = b" if "a \<in> set (pc_surfaces c)" "b \<in> set (pc_surfaces c)"
      "sp_surface a = sp_surface b" for a b
      using that ceiling_validate_shape(1) [OF c] by (auto simp: distinct_map inj_on_def)
    obtain r0 where "surface_authorizes p r0"
      using surface_some_authority ceiling_validate_shape(2) [OF g p] by blast
    have "(\<forall>r. surface_authorizes p r \<longrightarrow> authorizes c (sp_surface p) r) \<longleftrightarrow>
        (\<exists>q \<in> set (pc_surfaces c). sp_surface q = sp_surface p \<and>
           (\<forall>r. surface_authorizes p r \<longrightarrow> surface_authorizes q r))"
    proof
      assume all: "\<forall>r. surface_authorizes p r \<longrightarrow> authorizes c (sp_surface p) r"
      with \<open>surface_authorizes p r0\<close> obtain q where q: "q \<in> set (pc_surfaces c)"
        "sp_surface q = sp_surface p" unfolding authorizes_def by blast
      have "surface_authorizes q r" if "surface_authorizes p r" for r
      proof -
        from all that obtain q' where "q' \<in> set (pc_surfaces c)" "sp_surface q' = sp_surface p"
          "surface_authorizes q' r" unfolding authorizes_def by blast
        with uniq [OF this(1) q(1)] q(2) show ?thesis by simp
      qed
      with q show "\<exists>q \<in> set (pc_surfaces c). sp_surface q = sp_surface p \<and>
           (\<forall>r. surface_authorizes p r \<longrightarrow> surface_authorizes q r)" by blast
    qed (auto simp: authorizes_def)
    with surface_is_within_iff [OF ceiling_validate_shape(2) [OF g p] ceiling_validate_shape(2) [OF c]]
    show ?thesis by blast
  qed
  then have "PluginPermissionCeiling_is_within g c = Inr True \<longleftrightarrow>
      (\<forall>p \<in> set (pc_surfaces g). \<forall>r. surface_authorizes p r \<longrightarrow> authorizes c (sp_surface p) r)"
    by (simp add: ceiling_is_within_value [OF g c])
  also have "\<dots> \<longleftrightarrow> (\<forall>r. case r of (s, q) \<Rightarrow> authorizes g s q \<longrightarrow> authorizes c s q)"
    unfolding authorizes_def [of g] by auto
  finally show ?thesis .
qed

interpretation surface_comparison: exact_comparison
  "\<lambda>s. SurfacePermissionCeiling_validate s = Inr ()" surface_is_within surface_authorizes
  by unfold_locales (rule surface_is_within_iff)

interpretation ceiling_comparison: exact_comparison
  "\<lambda>c. PluginPermissionCeiling_validate c = Inr ()"
  "\<lambda>g c. PluginPermissionCeiling_is_within g c = Inr True"
  "\<lambda>c (s, r). authorizes c s r"
proof unfold_locales
  fix a b :: PluginPermissionCeiling
  assume "PluginPermissionCeiling_validate a = Inr ()" "PluginPermissionCeiling_validate b = Inr ()"
  then show "PluginPermissionCeiling_is_within a b = Inr True \<longleftrightarrow>
      (\<forall>r. (case r of (s, q) \<Rightarrow> authorizes a s q) \<longrightarrow> (case r of (s, q) \<Rightarrow> authorizes b s q))"
    by (subst ceiling_is_within_exact) auto
qed

lemma ceiling_validate_error: "PluginPermissionCeiling_validate c = Inl e \<Longrightarrow> e = PermissionInvalid"
proof -
  have "fails_with PermissionInvalid (UiHttpPermission_validate b)"
    "fails_with PermissionInvalid (ResourcePermissionCeiling_validate r)" for b r
    unfolding UiHttpPermission_validate_def ResourcePermissionCeiling_validate_def
    by (intro error_intros)+
  then have "fails_with PermissionInvalid (SurfacePermissionCeiling_validate s)" for s
    unfolding SurfacePermissionCeiling_validate_def
    by (cases "sr_kind (sp_surface s)"; simp only: PluginSurfaceKind.case) (intro error_intros; assumption)+
  then have "fails_with PermissionInvalid (PluginPermissionCeiling_validate c)" for c
    unfolding PluginPermissionCeiling_validate_def by (intro error_intros)
  then show "PluginPermissionCeiling_validate c = Inl e \<Longrightarrow> e = PermissionInvalid"
    by (rule fails_withD)
qed

section \<open>Properties\<close>

text \<open>
  C1: comparing two permission ceilings decides exactly whether every concrete request the first
  ceiling admits (native execution, child process, file access at a path, egress to a host and port,
  secret, resource amount, HTTP method and path on a Tool) is also admitted by the second; it fails,
  with the permission error, exactly when one of the ceilings is not canonical.
\<close>

theorem is_within_is_authority_inclusion:
  "PluginPermissionCeiling_is_within g c =
     (if PluginPermissionCeiling_validate g = Inr () \<and> PluginPermissionCeiling_validate c = Inr ()
      then Inr ({(s, r). authorizes g s r} \<subseteq> {(s, r). authorizes c s r})
      else Inl PermissionInvalid)"
proof (cases "PluginPermissionCeiling_validate g = Inr () \<and> PluginPermissionCeiling_validate c = Inr ()")
  case True
  then obtain b where b: "PluginPermissionCeiling_is_within g c = Inr b"
    using ceiling_is_within_value by blast
  with True ceiling_is_within_exact [of g c] show ?thesis by auto
next
  case False
  then show ?thesis
    unfolding PluginPermissionCeiling_is_within_def
    by (cases "PluginPermissionCeiling_validate g"; cases "PluginPermissionCeiling_validate c")
      (auto dest: ceiling_validate_error)
qed

end
