(* ===== verification/Okf.thy ===== *)
theory Okf
  imports Permission
begin

text \<open>
  Open Knowledge Format bundles, \<open>crates/core/src/okf\<close>: the bundle contract and its limits
  (\<open>mod.rs\<close>), the framing of a bundle's content digest, and the resolution of paths and references
  inside a bundle (\<open>path.rs\<close>).
\<close>

section \<open>Paths\<close>

definition MAX_OKF_PATH_BYTES :: nat where "MAX_OKF_PATH_BYTES = 1024"

definition has_control :: "string \<Rightarrow> bool" where
  "has_control s = (\<exists>c \<in> set (utf8_chars s). char_is_control c)"

definition normalize_declared_path :: "string \<Rightarrow> string use_result" where
  "normalize_declared_path value =
     (if value = [] \<or> length value > MAX_OKF_PATH_BYTES \<or> starts_with ''/'' value \<or> ends_with ''/'' value
         \<or> char_of (92 :: nat) \<in> set value \<or> has_control value
      then Inl OkfPathEscape
      else and_then
        (fold_result (\<lambda>segments segment.
            if segment = [] \<or> segment \<in> {''.'', ''..''} then Inl OkfPathEscape
            else Inr (segments @ [segment]))
          [] (split_on (CHR ''/'') value))
        (\<lambda>segments. Inr (join_with (CHR ''/'') segments)))"

definition normalize_bundle_root :: "string \<Rightarrow> string use_result" where
  "normalize_bundle_root value = normalize_declared_path value"

definition normalize_bundle_file_path :: "string \<Rightarrow> string use_result" where
  "normalize_bundle_file_path value = normalize_declared_path value"

text \<open>\<open>str::trim\<close>: a UTF-8 string cut into its characters, without those that are white space at the ends.\<close>

definition utf8_width :: "char \<Rightarrow> nat" where
  "utf8_width a = (if byte a < 128 then 1 else if byte a < 224 then 2 else if byte a < 240 then 3 else 4)"

function utf8_pieces :: "string \<Rightarrow> string list" where
  "utf8_pieces [] = []"
| "utf8_pieces (a # s) =
     (a # take (utf8_width a - 1) s) # utf8_pieces (drop (utf8_width a - 1) s)"
  by pat_completeness auto
termination
  by (relation "measure length") auto

definition trim :: "string \<Rightarrow> string" where
  "trim s =
     (let blank = (\<lambda>piece. \<exists>c \<in> set (utf8_chars piece). char_is_whitespace c)
      in concat (rev (dropWhile blank (rev (dropWhile blank (utf8_pieces s))))))"

record ('v, 'r) okf_externals = "('v, 'r) permission_externals" +
  percent_decode_utf8 :: "string \<Rightarrow> string option"

definition resolve_segments :: "string list \<Rightarrow> string list \<Rightarrow> string list use_result" where
  "resolve_segments segments decoded =
     fold_result (\<lambda>segments segment.
         if segment \<in> {[], ''.''} then Inr segments
         else if segment = ''..'' then
           (if segments = [] then Inl OkfPathEscape else Inr (butlast segments))
         else Inr (segments @ [segment]))
       segments decoded"

definition resolve_decoded :: "string \<Rightarrow> string \<Rightarrow> string option use_result" where
  "resolve_decoded source_path decoded =
     (let absolute = starts_with ''/'' decoded;
          trailing_slash = ends_with ''/'' decoded;
          base = (if absolute then [] else butlast (split_on (CHR ''/'') source_path))
      in and_then (resolve_segments base (split_on (CHR ''/'') decoded)) (\<lambda>segments.
           let segments = (if trailing_slash \<or> segments = [] then segments @ [''index.md''] else segments);
               resolved = join_with (CHR ''/'') segments
           in if length resolved > MAX_OKF_PATH_BYTES then Inl OkfPathEscape
              else Inr (Some resolved)))"

definition resolve_reference ::
  "('v, 'r, 'x) okf_externals_scheme \<Rightarrow> string \<Rightarrow> string \<Rightarrow> bool \<Rightarrow> string option use_result" where
  "resolve_reference X source_path raw_target allow_scope_descriptor =
     (let target = trim raw_target in
      if target = [] \<or> starts_with ''#'' target then Inr None
      else if starts_with ''//'' target then Inr None
      else if char_of (92 :: nat) \<in> set target \<or> has_control target then Inl OkfPathEscape
      else (case url_parse X target of
        Some url \<Rightarrow>
          if url_scheme url \<in> {''data'', ''file'', ''javascript''} then Inl OkfBundleInvalid else Inr None
      | None \<Rightarrow>
          if allow_scope_descriptor \<and> (\<exists>c \<in> set (utf8_chars target). char_is_whitespace c)
             \<and> \<not> starts_with ''.'' target \<and> \<not> starts_with ''/'' target
          then Inr None
          else
            (let encoded_path = takeWhile (\<lambda>c. c \<noteq> CHR ''?'' \<and> c \<noteq> CHR ''#'') target in
             if encoded_path = [] then Inr None
             else and_then (ok_or OkfPathEscape (percent_decode_utf8 X encoded_path)) (\<lambda>decoded.
               if char_of (92 :: nat) \<in> set decoded \<or> has_control decoded then Inl OkfPathEscape
               else resolve_decoded source_path decoded))))"

section \<open>The bundle contract\<close>

datatype OkfFormatVersion = V0_2

primrec OkfFormatVersion_as_str :: "OkfFormatVersion \<Rightarrow> string" where
  "OkfFormatVersion_as_str V0_2 = ''0.2''"

record OkfBundleLimits =
  ol_max_files :: u64
  ol_max_concepts :: u64
  ol_max_expanded_bytes :: u64
  ol_max_document_bytes :: u64
  ol_max_links_per_document :: u64

record OkfBundleContract =
  ob_schema :: string
  ob_format_version :: OkfFormatVersion
  ob_root :: string
  ob_content_digest :: string
  ob_concept_count :: u64
  ob_file_count :: u64
  ob_expanded_bytes :: u64
  ob_limits :: OkfBundleLimits

definition OKF_BUNDLE_CONTRACT_SCHEMA :: string where
  "OKF_BUNDLE_CONTRACT_SCHEMA = ''a3s.use.okf-bundle.v1''"

definition OKF_CONTRACT_MAX_BYTES :: nat where "OKF_CONTRACT_MAX_BYTES = 128 * 1024"
definition MAX_OKF_FILES :: u64 where "MAX_OKF_FILES = 4096"
definition MAX_OKF_CONCEPTS :: u64 where "MAX_OKF_CONCEPTS = 4096"
definition MAX_OKF_EXPANDED_BYTES :: u64 where "MAX_OKF_EXPANDED_BYTES = 512 * 1024 * 1024"
definition MAX_OKF_DOCUMENT_BYTES :: u64 where "MAX_OKF_DOCUMENT_BYTES = 8 * 1024 * 1024"
definition MAX_OKF_LINKS_PER_DOCUMENT :: u64 where "MAX_OKF_LINKS_PER_DOCUMENT = 16384"

definition OkfBundleLimits_default :: OkfBundleLimits where
  "OkfBundleLimits_default =
     \<lparr>ol_max_files = 256, ol_max_concepts = 64, ol_max_expanded_bytes = 64 * 1024 * 1024,
      ol_max_document_bytes = 1024 * 1024, ol_max_links_per_document = 2048\<rparr>"

definition OkfBundleLimits_validate :: "OkfBundleLimits \<Rightarrow> unit use_result" where
  "OkfBundleLimits_validate self =
     (if ol_max_files self = 0 \<or> ol_max_files self > MAX_OKF_FILES
         \<or> ol_max_concepts self = 0 \<or> ol_max_concepts self > ol_max_files self
         \<or> ol_max_concepts self > MAX_OKF_CONCEPTS
         \<or> ol_max_expanded_bytes self = 0 \<or> ol_max_expanded_bytes self > MAX_OKF_EXPANDED_BYTES
         \<or> ol_max_document_bytes self = 0 \<or> ol_max_document_bytes self > ol_max_expanded_bytes self
         \<or> ol_max_document_bytes self > MAX_OKF_DOCUMENT_BYTES
         \<or> ol_max_links_per_document self = 0
         \<or> ol_max_links_per_document self > MAX_OKF_LINKS_PER_DOCUMENT
      then Inl OkfContractInvalid else Inr ())"

definition OkfBundleContract_validate :: "OkfBundleContract \<Rightarrow> unit use_result" where
  "OkfBundleContract_validate self =
     and_then (OkfBundleLimits_validate (ob_limits self)) (\<lambda>_.
       if ob_schema self \<noteq> OKF_BUNDLE_CONTRACT_SCHEMA then Inl OkfContractInvalid
       else and_then (normalize_bundle_root (ob_root self)) (\<lambda>normalized_root.
         if normalized_root \<noteq> ob_root self then Inl OkfContractInvalid
         else if \<not> valid_sha256 (ob_content_digest self)
            \<or> ob_concept_count self = 0 \<or> ob_file_count self < ob_concept_count self
            \<or> ob_file_count self > ol_max_files (ob_limits self)
            \<or> ob_concept_count self > ol_max_concepts (ob_limits self)
            \<or> ob_expanded_bytes self = 0
            \<or> ob_expanded_bytes self > ol_max_expanded_bytes (ob_limits self)
         then Inl OkfContractInvalid else Inr ()))"

text \<open>The bytes \<open>content_digest\<close> feeds to SHA-256: every path and content behind its length.\<close>

definition u64_be_bytes :: "nat \<Rightarrow> string" where
  "u64_be_bytes n = map (\<lambda>i. char_of ((n div 256 ^ (7 - i)) mod 256)) [0..<8]"

definition frame_file :: "string \<times> string \<Rightarrow> string" where
  "frame_file file =
     u64_be_bytes (length (fst file)) @ fst file @ u64_be_bytes (length (snd file)) @ snd file"

definition content_digest_bytes :: "(string, string) btree_map \<Rightarrow> string" where
  "content_digest_bytes files =
     ''a3s-use-okf-expanded-bundle-v1'' @ [char_of (0 :: nat)] @ concat (map frame_file files)"

definition content_digest ::
  "('v, 'r, 'x) externals_scheme \<Rightarrow> (string, string) btree_map \<Rightarrow> string" where
  "content_digest X files = ''sha256:'' @ sha256_hex X (content_digest_bytes files)"

section \<open>Lemmas\<close>

lemma split_on_single: "sep \<notin> set w \<Longrightarrow> split_on sep w = [w]"
  by (induction w) auto

lemma join_split_inverse:
  "ws \<noteq> [] \<Longrightarrow> (\<And>w. w \<in> set ws \<Longrightarrow> sep \<notin> set w) \<Longrightarrow> split_on sep (join_with sep ws) = ws"
  by (induction sep ws rule: join_with.induct) (simp_all add: split_on_append split_on_single)

lemma split_on_no_sep: "w \<in> set (split_on sep s) \<Longrightarrow> sep \<notin> set w"
  by (induction s arbitrary: w) (auto split: if_splits list.splits)

lemma normalize_declared_path_segments:
  "normalize_declared_path p = Inr q \<longleftrightarrow>
     q = p \<and> p \<noteq> [] \<and> length p \<le> MAX_OKF_PATH_BYTES \<and> \<not> starts_with ''/'' p \<and> \<not> ends_with ''/'' p \<and>
     char_of (92 :: nat) \<notin> set p \<and> \<not> has_control p \<and>
     set (split_on (CHR ''/'') p) \<inter> {[], ''.'', ''..''} = {}"
proof -
  let ?f = "\<lambda>segments segment. if segment = [] \<or> segment \<in> {''.'', ''..''} then Inl OkfPathEscape
      else Inr (segments @ [segment])"
  have "fold_result ?f acc ss = Inr r \<longleftrightarrow> r = acc @ ss \<and> set ss \<inter> {[], ''.'', ''..''} = {}" for acc ss r
    by (induction ss arbitrary: acc) auto
  then show ?thesis
    by (auto simp: normalize_declared_path_def result_simps)
qed

definition plain_segments :: "string list \<Rightarrow> bool" where
  "plain_segments ss \<longleftrightarrow>
     (\<forall>s \<in> set ss. s \<notin> {[], ''.'', ''..''} \<and> CHR ''/'' \<notin> set s)"

lemma resolve_segments_plain:
  assumes "resolve_segments base decoded = Inr segments" "plain_segments base"
    and "\<forall>s \<in> set decoded. CHR ''/'' \<notin> set s"
  shows "plain_segments segments"
  using assms unfolding resolve_segments_def
proof (induction decoded arbitrary: base)
  case (Cons d ds)
  have "plain_segments (butlast base)" "plain_segments (base @ [d])" if "d \<notin> {[], ''.'', ''..''}"
    using Cons.prems that by (auto simp: plain_segments_def dest: in_set_butlastD)
  moreover have "plain_segments (butlast base)"
    using Cons.prems by (auto simp: plain_segments_def dest: in_set_butlastD)
  ultimately show ?case
    using Cons.prems Cons.IH by (auto split: if_splits)
qed simp

lemma resolve_decoded_shape:
  assumes "resolve_decoded source decoded = Inr (Some resolved)"
    and "plain_segments (split_on (CHR ''/'') source)"
  shows "\<exists>segments. plain_segments segments \<and> segments \<noteq> [] \<and>
    resolved = join_with (CHR ''/'') segments \<and> length resolved \<le> MAX_OKF_PATH_BYTES"
proof -
  let ?base = "if starts_with ''/'' decoded then [] else butlast (split_on (CHR ''/'') source)"
  from assms(1) obtain segments where
    seg: "resolve_segments ?base (split_on (CHR ''/'') decoded) = Inr segments"
    and res: "resolved = join_with (CHR ''/'')
       (if ends_with ''/'' decoded \<or> segments = [] then segments @ [''index.md''] else segments)"
      "length resolved \<le> MAX_OKF_PATH_BYTES"
    unfolding resolve_decoded_def Let_def and_then_Inr if_Inl_Inr by auto
  have "plain_segments ?base"
    using assms(2) by (auto simp: plain_segments_def dest: in_set_butlastD)
  from resolve_segments_plain [OF seg this] have "plain_segments segments"
    using split_on_no_sep by blast
  then have "plain_segments (if ends_with ''/'' decoded \<or> segments = [] then segments @ [''index.md'']
      else segments)"
    by (auto simp: plain_segments_def)
  moreover have "(if ends_with ''/'' decoded \<or> segments = [] then segments @ [''index.md'']
      else segments) \<noteq> []" by simp
  ultimately show ?thesis using res by blast
qed

lemma resolve_reference_shape:
  assumes "resolve_reference X source target allow = Inr (Some resolved)"
    and "normalize_declared_path source = Inr source"
  shows "plain_segments (split_on (CHR ''/'') resolved) \<and> length resolved \<le> MAX_OKF_PATH_BYTES"
proof -
  from assms(1) obtain decoded where "resolve_decoded source decoded = Inr (Some resolved)"
    unfolding resolve_reference_def Let_def
    by (simp add: and_then_Inr split: if_split_asm option.split_asm) (elim exE conjE, simp, elim conjE)
  moreover have "plain_segments (split_on (CHR ''/'') source)"
    unfolding plain_segments_def
  proof (intro ballI conjI)
    fix s assume s: "s \<in> set (split_on (CHR ''/'') source)"
    then show "CHR ''/'' \<notin> set s" by (rule split_on_no_sep)
    have "set (split_on (CHR ''/'') source) \<inter> {[], ''.'', ''..''} = {}"
      using assms(2) unfolding normalize_declared_path_segments by (elim conjE)
    with s show "s \<notin> {[], ''.'', ''..''}" by (meson disjoint_iff)
  qed
  ultimately obtain segments where "plain_segments segments" "segments \<noteq> []"
    "resolved = join_with (CHR ''/'') segments" "length resolved \<le> MAX_OKF_PATH_BYTES"
    using resolve_decoded_shape by blast
  then show ?thesis
    by (simp add: join_split_inverse plain_segments_def)
qed

lemma u64_be_bytes_length [simp]: "length (u64_be_bytes n) = 8"
  by (simp add: u64_be_bytes_def)

lemma digits_determine:
  fixes n m b :: nat
  shows "(\<And>i. i < k \<Longrightarrow> n div b ^ i mod b = m div b ^ i mod b) \<Longrightarrow> n mod b ^ k = m mod b ^ k"
proof (induction k)
  case (Suc k)
  have "x mod b ^ Suc k = b ^ k * (x div b ^ k mod b) + x mod b ^ k" for x
    by (metis mod_mult2_eq power_Suc2)
  with Suc show ?case by simp
qed simp

lemma u64_be_bytes_inject:
  assumes "u64_be_bytes n = u64_be_bytes m" "n < 2 ^ 64" "m < 2 ^ 64"
  shows "n = m"
proof -
  have "n div 256 ^ i mod 256 = m div 256 ^ i mod 256" if "i < 8" for i
  proof -
    have "u64_be_bytes x ! (7 - i) = char_of (x div 256 ^ i mod 256)" for x
    proof -
      have "7 - i < length [0..<8]" using that by simp
      then have "u64_be_bytes x ! (7 - i) = char_of (x div 256 ^ (7 - [0..<8] ! (7 - i)) mod 256)"
        unfolding u64_be_bytes_def by (rule nth_map)
      also have "[0..<8] ! (7 - i) = 7 - i" using that nth_upt [of 0 "7 - i" 8] by simp
      also have "7 - (7 - i) = i" using that by simp
      finally show ?thesis .
    qed
    with assms(1) have "(char_of (n div 256 ^ i mod 256) :: char) = char_of (m div 256 ^ i mod 256)"
      by metis
    then have "(byte (char_of (n div 256 ^ i mod 256)) :: nat) = byte (char_of (m div 256 ^ i mod 256))"
      by simp
    then show ?thesis by (simp only: of_char_of mod_mod_trivial)
  qed
  then have "n mod 256 ^ 8 = m mod 256 ^ 8" by (rule digits_determine)
  with assms show ?thesis by simp
qed

lemma frame_file_inject:
  assumes "frame_file a @ r = frame_file b @ q"
    and "length (fst a) < 2 ^ 64" "length (snd a) < 2 ^ 64"
    and "length (fst b) < 2 ^ 64" "length (snd b) < 2 ^ 64"
  shows "a = b \<and> r = q"
proof -
  have len: "length (fst a) = length (fst b)"
    using assms by (auto simp: frame_file_def dest: u64_be_bytes_inject)
  then have "fst a = fst b" and rest: "u64_be_bytes (length (snd a)) @ snd a @ r =
      u64_be_bytes (length (snd b)) @ snd b @ q"
    using assms(1) by (auto simp: frame_file_def)
  from rest assms have "length (snd a) = length (snd b)"
    by (auto dest: u64_be_bytes_inject)
  with rest have "snd a = snd b \<and> r = q" by simp
  with \<open>fst a = fst b\<close> show ?thesis by (simp add: prod_eq_iff)
qed

lemma frames_inject:
  assumes "concat (map frame_file fs) = concat (map frame_file gs)"
    and "\<forall>f \<in> set fs \<union> set gs. length (fst f) < 2 ^ 64 \<and> length (snd f) < 2 ^ 64"
  shows "fs = gs"
  using assms
proof (induction fs arbitrary: gs)
  case Nil
  then show ?case by (cases gs) (auto simp: frame_file_def u64_be_bytes_def)
next
  case (Cons f fs)
  show ?case
  proof (cases gs)
    case Nil
    with Cons.prems show ?thesis by (auto simp: frame_file_def u64_be_bytes_def)
  next
    case gs: (Cons g gs')
    with Cons.prems have "f = g \<and> concat (map frame_file fs) = concat (map frame_file gs')"
      by (intro frame_file_inject) auto
    with Cons gs show ?thesis by simp
  qed
qed

section \<open>Properties\<close>

text \<open>
  C14: a reference in a bundle document that resolves to a bundle target stays inside the bundle:
  whatever \<open>..\<close>, absolute or percent-encoded path it was written with, the resolved path is
  relative, within the size bound and has no empty, \<open>.\<close> or \<open>..\<close> segment.
\<close>

theorem resolve_reference_stays_inside:
  assumes "normalize_declared_path source = Inr source"
    and "resolve_reference X source target allow = Inr (Some resolved)"
  shows "set (split_on (CHR ''/'') resolved) \<inter> {[], ''.'', ''..''} = {} \<and>
    \<not> starts_with ''/'' resolved \<and> length resolved \<le> MAX_OKF_PATH_BYTES"
proof -
  note shape = resolve_reference_shape [OF assms(2,1)]
  then have "set (split_on (CHR ''/'') resolved) \<inter> {[], ''.'', ''..''} = {}"
    by (auto simp: plain_segments_def)
  moreover from this have "\<not> starts_with ''/'' resolved"
    by (auto simp: starts_with_iff)
  ultimately show ?thesis using shape by blast
qed

definition witness_okf_externals :: "(string, string) okf_externals" where
  "witness_okf_externals =
     \<lparr>version_parse = Some, version_string = (\<lambda>v. v), version_le = (\<le>), req_parse = Some,
      req_string = (\<lambda>r. r), req_matches = (=), url_parse = (\<lambda>_. None), sha256_hex = (\<lambda>s. s),
      ceiling_json = (\<lambda>_. None), percent_decode_utf8 = Some\<rparr>"

theorem resolve_reference_stays_inside_witness:
  "resolve_reference witness_okf_externals ''guide/a.md'' ''../b.md#x'' False = Inr (Some ''b.md'') \<and>
   set (split_on (CHR ''/'') ''b.md'') \<inter> {[], ''.'', ''..''} = {}"
proof -
  have r: "resolve_reference witness_okf_externals ''guide/a.md'' ''../b.md#x'' False = Inr (Some ''b.md'')"
    by code_simp
  have "normalize_declared_path ''guide/a.md'' = Inr ''guide/a.md''" by code_simp
  from resolve_reference_stays_inside [OF this r] r show ?thesis by blast
qed

text \<open>
  C15: the byte string hashed into a bundle's content digest determines the bundle: no two different
  sequences of files (paths and contents of machine-representable length) are framed alike.
\<close>

theorem content_digest_framing_injective:
  assumes "content_digest_bytes fs = content_digest_bytes gs"
    and "\<forall>f \<in> set fs \<union> set gs. length (fst f) < 2 ^ 64 \<and> length (snd f) < 2 ^ 64"
  shows "fs = gs"
  using assms by (intro frames_inject) (simp_all add: content_digest_bytes_def)

theorem content_digest_framing_injective_witness:
  "content_digest_bytes [(''a'', ''bc'')] \<noteq> content_digest_bytes [(''ab'', ''c'')]"
  using content_digest_framing_injective [of "[(''a'', ''bc'')]" "[(''ab'', ''c'')]"] by auto

end
