(* ===== verification/Catalog.thy ===== *)
theory Catalog
  imports Okf
begin

text \<open>
  The signed catalog, \<open>crates/core/src/plugin/catalog.rs\<close>, \<open>catalog_selection.rs\<close> and
  \<open>catalog_trust.rs\<close>: the catalog record with its surfaces and their dependencies, its validation,
  the resolution of a surface selection to its dependency closure, and the provenance that binds a
  record to verified registry metadata.
\<close>

section \<open>Data\<close>

datatype PluginReleaseChannel = Beta | Nightly | Stable

primrec PluginReleaseChannel_as_str :: "PluginReleaseChannel \<Rightarrow> string" where
  "PluginReleaseChannel_as_str Beta = ''beta''"
| "PluginReleaseChannel_as_str Nightly = ''nightly''"
| "PluginReleaseChannel_as_str Stable = ''stable''"

datatype CatalogMcpTransport = Stdio | StreamableHttp | HostGrant

record CatalogSurface =
  cs_kind :: PluginSurfaceKind
  cs_id :: string
  cs_optional :: bool
  cs_workload :: "ToolWorkloadClass option"
  cs_mcp_transport :: "CatalogMcpTransport option"
  cs_mcp_tool_count :: "u32 option"
  cs_okf_bundle :: "OkfBundleContract option"
  cs_requires :: "PluginSurfaceRef list"

record CatalogArchive =
  ca_target_name :: string
  ca_length :: u64
  ca_sha256 :: string

record CatalogPlanningTarget =
  ct_target_name :: string
  ct_length :: u64
  ct_sha256 :: string

record CatalogPackage =
  cp_expanded_bytes :: u64
  cp_file_count :: u64
  cp_sha256 :: "string option"
  cp_manifest_sha256 :: "string option"

datatype CatalogAvailability =
    Available
  | Deprecated string "string option"
  | Withdrawn string "string option"

record PluginCatalogRecord =
  cr_schema :: string
  cr_package_id :: string
  cr_display_name :: string
  cr_description :: string
  cr_publisher :: string
  cr_keywords :: "string list"
  cr_categories :: "string list"
  cr_version :: string
  cr_channel :: PluginReleaseChannel
  cr_requires_use :: string
  cr_dependencies :: "PluginPackageDependency list"
  cr_target :: string
  cr_surfaces :: "CatalogSurface list"
  cr_permission_ceiling :: PluginPermissionCeiling
  cr_permission_ceiling_digest :: string
  cr_planning :: "CatalogPlanningTarget option"
  cr_archive :: CatalogArchive
  cr_package :: CatalogPackage
  cr_license :: string
  cr_repository :: string
  cr_availability :: CatalogAvailability

record VerifiedCatalogProvenance =
  vp_registry_name :: string
  vp_registry_url :: string
  vp_root_sha256 :: string
  vp_root_version :: u64
  vp_timestamp_version :: u64
  vp_snapshot_version :: u64
  vp_targets_version :: u64
  vp_catalog_record_digest :: string

record VerifiedPluginCatalogRecord =
  vr_record :: PluginCatalogRecord
  vr_provenance :: VerifiedCatalogProvenance

record ('v, 'r) catalog_externals = "('v, 'r) okf_externals" +
  surface_json :: "CatalogSurface \<Rightarrow> string option"
  record_json :: "PluginCatalogRecord \<Rightarrow> string option"
  verified_json :: "VerifiedPluginCatalogRecord \<Rightarrow> string option"

definition PLUGIN_CATALOG_SCHEMA_V3 :: string where
  "PLUGIN_CATALOG_SCHEMA_V3 = ''a3s.use.plugin-catalog.v3''"

definition MAX_CATALOG_SURFACES :: nat where "MAX_CATALOG_SURFACES = 256"
definition MAX_REMOTE_ARCHIVE_BYTES :: u64 where "MAX_REMOTE_ARCHIVE_BYTES = 512 * 1024 * 1024"
definition MAX_PLANNING_TARGET_BYTES :: u64 where "MAX_PLANNING_TARGET_BYTES = 512 * 1024"
definition MAX_EXPANDED_PACKAGE_BYTES :: u64 where "MAX_EXPANDED_PACKAGE_BYTES = 1024 * 1024 * 1024"
definition MAX_PACKAGE_FILES :: u64 where "MAX_PACKAGE_FILES = 10000"

lemma catalog_bounds_values [code]:
  "MAX_REMOTE_ARCHIVE_BYTES = 536870912" "MAX_PLANNING_TARGET_BYTES = 524288"
  "MAX_EXPANDED_PACKAGE_BYTES = 1073741824"
  by (simp_all add: MAX_REMOTE_ARCHIVE_BYTES_def MAX_PLANNING_TARGET_BYTES_def
      MAX_EXPANDED_PACKAGE_BYTES_def)

section \<open>Validation of the parts\<close>

definition CatalogSurface_reference :: "CatalogSurface \<Rightarrow> PluginSurfaceRef" where
  "CatalogSurface_reference self = SurfaceRef (cs_kind self) (cs_id self)"

definition CatalogSurface_validate :: "CatalogSurface \<Rightarrow> unit use_result" where
  "CatalogSurface_validate self =
     (if \<not> valid_segment (cs_id self) then Inl CatalogInvalid
      else if (case cs_kind self of
          KTool \<Rightarrow> cs_workload self \<noteq> None \<and> cs_mcp_transport self = None
            \<and> cs_mcp_tool_count self = None \<and> cs_okf_bundle self = None
        | KMcp \<Rightarrow> cs_workload self = None \<and> cs_mcp_transport self \<noteq> None
            \<and> is_none_or (\<lambda>count. count \<le> 10000) (cs_mcp_tool_count self)
            \<and> cs_okf_bundle self = None
        | KOkf \<Rightarrow> cs_workload self = None \<and> cs_mcp_transport self = None
            \<and> cs_mcp_tool_count self = None
            \<and> is_some_and (\<lambda>bundle. is_ok (OkfBundleContract_validate bundle)) (cs_okf_bundle self)
        | _ \<Rightarrow> cs_workload self = None \<and> cs_mcp_transport self = None
            \<and> cs_mcp_tool_count self = None \<and> cs_okf_bundle self = None)
      then Inr () else Inl CatalogInvalid)"

definition CatalogArchive_validate ::
  "CatalogArchive \<Rightarrow> string \<Rightarrow> string \<Rightarrow> PluginReleaseChannel \<Rightarrow> string \<Rightarrow> unit use_result" where
  "CatalogArchive_validate self package_id version channel target =
     (let prefix = ''extensions/'' @ package_id @ ''/'' @ version @ ''/''
            @ PluginReleaseChannel_as_str channel @ ''/'' @ target @ ''/'' in
      if ca_length self = 0 \<or> ca_length self > MAX_REMOTE_ARCHIVE_BYTES
         \<or> \<not> valid_sha256 (ca_sha256 self) \<or> \<not> valid_target_name (ca_target_name self)
         \<or> \<not> starts_with prefix (ca_target_name self)
      then Inl CatalogInvalid else Inr ())"

definition CatalogPlanningTarget_validate ::
  "CatalogPlanningTarget \<Rightarrow> string \<Rightarrow> string \<Rightarrow> PluginReleaseChannel \<Rightarrow> string \<Rightarrow> unit use_result" where
  "CatalogPlanningTarget_validate self package_id version channel target =
     (let expected_target_name = ''extensions/'' @ package_id @ ''/'' @ version @ ''/''
            @ PluginReleaseChannel_as_str channel @ ''/'' @ target @ ''/planning-v1.json'' in
      if ct_length self = 0 \<or> ct_length self > MAX_PLANNING_TARGET_BYTES
         \<or> \<not> valid_sha256 (ct_sha256 self) \<or> ct_target_name self \<noteq> expected_target_name
      then Inl CatalogInvalid else Inr ())"

definition CatalogPackage_validate :: "CatalogPackage \<Rightarrow> unit use_result" where
  "CatalogPackage_validate self =
     (if cp_expanded_bytes self = 0 \<or> cp_expanded_bytes self > MAX_EXPANDED_PACKAGE_BYTES
         \<or> cp_file_count self = 0 \<or> cp_file_count self > MAX_PACKAGE_FILES
         \<or> is_some_and (\<lambda>value. \<not> valid_sha256 value) (cp_sha256 self)
         \<or> is_some_and (\<lambda>value. \<not> valid_sha256 value) (cp_manifest_sha256 self)
         \<or> cp_sha256 self = None \<or> cp_manifest_sha256 self = None
      then Inl CatalogInvalid else Inr ())"

fun CatalogAvailability_validate ::
  "('v, 'r, 'x) externals_scheme \<Rightarrow> CatalogAvailability \<Rightarrow> string \<Rightarrow> unit use_result" where
  "CatalogAvailability_validate X Available package_id = Inr ()"
| "CatalogAvailability_validate X (Deprecated message replacement) package_id =
     (if \<not> valid_catalog_text message 1024
         \<or> is_some_and (\<lambda>value. value = package_id \<or> \<not> valid_package_id value) replacement
      then Inl CatalogInvalid else Inr ())"
| "CatalogAvailability_validate X (Withdrawn reason advisory_url) package_id =
     (if \<not> valid_catalog_text reason 1024
         \<or> is_some_and (\<lambda>value. \<not> valid_repository_url X value) advisory_url
      then Inl CatalogInvalid else Inr ())"

section \<open>Surface dependencies\<close>

definition valid_surface_dependency :: "PluginSurfaceKind \<Rightarrow> PluginSurfaceKind \<Rightarrow> bool" where
  "valid_surface_dependency owner required =
     (case owner of
        KFlow \<Rightarrow> required \<in> {KTool, KMcp, KOkf}
      | KSkill \<Rightarrow> required \<in> {KFlow, KTool, KMcp, KOkf}
      | KUi \<Rightarrow> required \<in> {KFlow, KSkill, KTool, KMcp}
      | KTool \<Rightarrow> False | KMcp \<Rightarrow> False | KOkf \<Rightarrow> False)"

text \<open>
  One pass of the loop of \<open>validate_surface_dependencies\<close>, and the loop. The \<open>BTreeSet\<close> of resolved
  references is only asked for membership and size, and is a set here.
\<close>

definition resolve_pass :: "CatalogSurface list \<Rightarrow> PluginSurfaceRef set \<Rightarrow> PluginSurfaceRef set" where
  "resolve_pass surfaces resolved =
     foldl (\<lambda>resolved surface.
         if (\<forall>required \<in> set (cs_requires surface). required \<in> resolved)
         then insert (CatalogSurface_reference surface) resolved else resolved)
       resolved surfaces"

lemma resolve_pass_bounds:
  "resolved \<subseteq> resolve_pass surfaces resolved \<and>
   resolve_pass surfaces resolved \<subseteq> resolved \<union> CatalogSurface_reference ` set surfaces"
proof -
  have "resolved \<subseteq> foldl (\<lambda>resolved surface.
         if (\<forall>required \<in> set (cs_requires surface). required \<in> resolved)
         then insert (CatalogSurface_reference surface) resolved else resolved) resolved ss \<and>
     foldl (\<lambda>resolved surface.
         if (\<forall>required \<in> set (cs_requires surface). required \<in> resolved)
         then insert (CatalogSurface_reference surface) resolved else resolved) resolved ss
       \<subseteq> resolved \<union> CatalogSurface_reference ` set ss" for ss
    by (induction ss rule: rev_induct) auto
  then show ?thesis by (simp add: resolve_pass_def)
qed

function acyclic_loop :: "CatalogSurface list \<Rightarrow> PluginSurfaceRef set \<Rightarrow> unit use_result" where
  "acyclic_loop surfaces resolved =
     (let before = card resolved; resolved' = resolve_pass surfaces resolved in
      if card resolved' = length surfaces then Inr ()
      else if card resolved' = before then Inl CatalogInvalid
      else acyclic_loop surfaces resolved')"
  by pat_completeness auto
termination
proof (relation "measure (\<lambda>(surfaces, resolved).
    card (CatalogSurface_reference ` set surfaces - resolved))")
  fix surfaces resolved before resolved'
  assume "before = card resolved" "resolved' = resolve_pass surfaces resolved" "card resolved' \<noteq> before"
  then have "resolved \<noteq> resolved'" by auto
  with resolve_pass_bounds [of resolved surfaces] \<open>resolved' = _\<close>
  have "CatalogSurface_reference ` set surfaces - resolved' \<subset> CatalogSurface_reference ` set surfaces - resolved"
    by auto
  then have "card (CatalogSurface_reference ` set surfaces - resolved')
      < card (CatalogSurface_reference ` set surfaces - resolved)"
    by (intro psubset_card_mono) simp_all
  then show "((surfaces, resolved'), surfaces, resolved) \<in> measure (\<lambda>(surfaces, resolved).
    card (CatalogSurface_reference ` set surfaces - resolved))" by simp
qed simp

declare acyclic_loop.simps [simp del]

definition validate_surface_dependencies ::
  "CatalogSurface list \<Rightarrow> PluginSurfaceRef set \<Rightarrow> unit use_result" where
  "validate_surface_dependencies surfaces surface_refs =
     and_then (for_each (\<lambda>surface.
         if length (cs_requires surface) > MAX_CATALOG_SURFACES
            \<or> \<not> strictly_sorted_unique (cs_requires surface)
            \<or> (\<exists>required \<in> set (cs_requires surface).
                 required = CatalogSurface_reference surface \<or> required \<notin> surface_refs
                 \<or> \<not> valid_surface_dependency (cs_kind surface) (sr_kind required))
         then Inl CatalogInvalid else Inr ()) surfaces)
       (\<lambda>_. acyclic_loop surfaces {})"

section \<open>The catalog record\<close>

text \<open>The state of the surface loop of \<open>PluginCatalogRecord::validate\<close>.\<close>

record surface_scan =
  ss_surface_refs :: "PluginSurfaceRef set"
  ss_tool_classes :: "(string, ToolWorkloadClass) btree_map"
  ss_mcp_transports :: "(string, CatalogMcpTransport) btree_map"
  ss_previous :: "PluginSurfaceRef option"

definition surface_scan_start :: surface_scan where
  "surface_scan_start =
     \<lparr>ss_surface_refs = {}, ss_tool_classes = [], ss_mcp_transports = [], ss_previous = None\<rparr>"

definition scan_surface :: "surface_scan \<Rightarrow> CatalogSurface \<Rightarrow> surface_scan use_result" where
  "scan_surface scan surface =
     and_then (CatalogSurface_validate surface) (\<lambda>_.
       let reference = SurfaceRef (cs_kind surface) (cs_id surface) in
       if out_of_order (ss_previous scan) reference \<or> reference \<in> ss_surface_refs scan
       then Inl CatalogInvalid
       else Inr \<lparr>ss_surface_refs = insert reference (ss_surface_refs scan),
         ss_tool_classes = (case cs_workload surface of
             None \<Rightarrow> ss_tool_classes scan
           | Some workload \<Rightarrow> bt_insert (cs_id surface) workload (ss_tool_classes scan)),
         ss_mcp_transports = (case cs_mcp_transport surface of
             None \<Rightarrow> ss_mcp_transports scan
           | Some transport \<Rightarrow> bt_insert (cs_id surface) transport (ss_mcp_transports scan)),
         ss_previous = Some reference\<rparr>)"

definition scan_surfaces :: "CatalogSurface list \<Rightarrow> surface_scan use_result" where
  "scan_surfaces surfaces = fold_result scan_surface surface_scan_start surfaces"

definition long_running_resources :: "ResourcePermissionCeiling option \<Rightarrow> bool" where
  "long_running_resources resources =
     is_some_and (\<lambda>value. rc_task_timeout_ms value = None \<and> rc_max_stdout_bytes value = None
                     \<and> rc_max_stderr_bytes value = None) resources"

definition validate_ui_binding ::
  "CatalogSurface list \<Rightarrow> surface_scan \<Rightarrow> SurfacePermissionCeiling \<Rightarrow> UiHttpPermission \<Rightarrow> unit use_result" where
  "validate_ui_binding surfaces scan permission binding =
     (if bt_get (ss_tool_classes scan) (uh_tool_id binding) \<noteq> Some Service then Inl CatalogInvalid
      else if \<not> is_some_and (\<lambda>surface. SurfaceRef KTool (uh_tool_id binding) \<in> set (cs_requires surface))
                (List.find (\<lambda>surface. CatalogSurface_reference surface = sp_surface permission) surfaces)
      then Inl CatalogInvalid else Inr ())"

definition workload_matches :: "surface_scan \<Rightarrow> SurfacePermissionCeiling \<Rightarrow> bool" where
  "workload_matches scan permission =
     (let resources = sp_resources permission in
      case sr_kind (sp_surface permission) of
        KTool \<Rightarrow>
          (case bt_get (ss_tool_classes scan) (sr_id (sp_surface permission)) of
             Some Task \<Rightarrow> \<not> sp_private_service permission \<and>
               is_some_and (\<lambda>value. rc_task_timeout_ms value \<noteq> None \<and> rc_max_stdout_bytes value \<noteq> None
                               \<and> rc_max_stderr_bytes value \<noteq> None) resources
           | Some Service \<Rightarrow> \<not> sp_native_execution permission \<and> sp_private_service permission
               \<and> long_running_resources resources
           | None \<Rightarrow> False)
      | KMcp \<Rightarrow>
          (case bt_get (ss_mcp_transports scan) (sr_id (sp_surface permission)) of
             Some Stdio \<Rightarrow> sp_native_execution permission \<and> \<not> sp_private_service permission
               \<and> long_running_resources resources
           | Some StreamableHttp \<Rightarrow> \<not> sp_native_execution permission \<and> sp_private_service permission
               \<and> long_running_resources resources
           | Some HostGrant \<Rightarrow> \<not> sp_native_execution permission \<and> \<not> sp_private_service permission
               \<and> long_running_resources resources \<and> sp_network_egress permission \<noteq> []
           | None \<Rightarrow> False)
      | KUi \<Rightarrow> True
      | KFlow \<Rightarrow> False | KOkf \<Rightarrow> False | KSkill \<Rightarrow> False)"

definition validate_permission ::
  "CatalogSurface list \<Rightarrow> surface_scan \<Rightarrow> SurfacePermissionCeiling \<Rightarrow> unit use_result" where
  "validate_permission surfaces scan permission =
     (if sp_surface permission \<notin> ss_surface_refs scan then Inl CatalogInvalid
      else and_then (for_each (validate_ui_binding surfaces scan permission) (sp_ui_http permission)) (\<lambda>_.
        if workload_matches scan permission then Inr () else Inl CatalogInvalid))"

definition is_executable :: "CatalogSurface \<Rightarrow> bool" where
  "is_executable surface = (cs_kind surface \<in> {KTool, KMcp})"

definition validate_identity :: "('v, 'r, 'x) catalog_externals_scheme \<Rightarrow> PluginCatalogRecord \<Rightarrow> bool" where
  "validate_identity X self = (\<not>
     (cr_schema self \<noteq> PLUGIN_CATALOG_SCHEMA_V3
      \<or> \<not> valid_package_id (cr_package_id self)
      \<or> \<not> valid_catalog_text (cr_display_name self) 128
      \<or> \<not> valid_catalog_text (cr_description self) 2048
      \<or> \<not> valid_segment (cr_publisher self)
      \<or> hd (split_on (CHR ''/'') (cr_package_id self)) \<noteq> cr_publisher self
      \<or> length (cr_keywords self) > 64
      \<or> length (cr_categories self) > 64
      \<or> \<not> strictly_sorted_unique (cr_keywords self)
      \<or> \<not> strictly_sorted_unique (cr_categories self)
      \<or> (\<exists>value \<in> set (cr_keywords self). \<not> valid_tag value)
      \<or> (\<exists>value \<in> set (cr_categories self). \<not> valid_tag value)
      \<or> (case version_parse X (cr_version self) of
           None \<Rightarrow> True | Some version \<Rightarrow> version_string X version \<noteq> cr_version self)
      \<or> req_parse X (cr_requires_use self) = None
      \<or> \<not> valid_target (cr_target self)
      \<or> cr_surfaces self = []
      \<or> length (cr_surfaces self) > MAX_CATALOG_SURFACES))"

definition PluginCatalogRecord_validate ::
  "('v, 'r, 'x) catalog_externals_scheme \<Rightarrow> PluginCatalogRecord \<Rightarrow> unit use_result" where
  "PluginCatalogRecord_validate X self =
     (if \<not> validate_identity X self then Inl CatalogInvalid
      else if \<not> is_ok (PluginPackageDependency_validate_set X (cr_package_id self) (cr_dependencies self))
      then Inl CatalogInvalid
      else
      and_then (scan_surfaces (cr_surfaces self)) (\<lambda>scan.
      and_then (validate_surface_dependencies (cr_surfaces self) (ss_surface_refs scan)) (\<lambda>_.
      and_then (map_err (\<lambda>_. CatalogInvalid)
        (PluginPermissionCeiling_validate (cr_permission_ceiling self))) (\<lambda>_.
      and_then (PluginPermissionCeiling_descriptor_digest X (cr_permission_ceiling self)) (\<lambda>digest.
      if digest \<noteq> cr_permission_ceiling_digest self then Inl CatalogInvalid
      else
      and_then (for_each (validate_permission (cr_surfaces self) scan)
        (pc_surfaces (cr_permission_ceiling self))) (\<lambda>_.
      and_then (for_each (\<lambda>surface.
          if is_executable surface \<and>
             \<not> (\<exists>permission \<in> set (pc_surfaces (cr_permission_ceiling self)).
                  sr_kind (sp_surface permission) = cs_kind surface
                  \<and> sr_id (sp_surface permission) = cs_id surface)
          then Inl CatalogInvalid else Inr ()) (cr_surfaces self)) (\<lambda>_.
      and_then (CatalogArchive_validate (cr_archive self) (cr_package_id self) (cr_version self)
        (cr_channel self) (cr_target self)) (\<lambda>_.
      and_then (case (cr_planning self, \<exists>surface \<in> set (cr_surfaces self). is_executable surface) of
            (Some planning, True) \<Rightarrow>
              CatalogPlanningTarget_validate planning (cr_package_id self) (cr_version self)
                (cr_channel self) (cr_target self)
          | (None, False) \<Rightarrow> Inr ()
          | _ \<Rightarrow> Inl CatalogInvalid) (\<lambda>_.
      and_then (CatalogPackage_validate (cr_package self)) (\<lambda>_.
      if \<not> valid_spdx_expression (cr_license self) \<or> \<not> valid_repository_url X (cr_repository self)
      then Inl CatalogInvalid
      else CatalogAvailability_validate X (cr_availability self) (cr_package_id self)))))))))))"

definition PluginCatalogRecord_canonical_bytes ::
  "('v, 'r, 'x) catalog_externals_scheme \<Rightarrow> PluginCatalogRecord \<Rightarrow> string use_result" where
  "PluginCatalogRecord_canonical_bytes X self =
     and_then (PluginCatalogRecord_validate X self) (\<lambda>_. canonical_json (record_json X) CatalogInvalid self)"

definition PluginCatalogRecord_descriptor_digest ::
  "('v, 'r, 'x) catalog_externals_scheme \<Rightarrow> PluginCatalogRecord \<Rightarrow> string use_result" where
  "PluginCatalogRecord_descriptor_digest X self =
     and_then (PluginCatalogRecord_canonical_bytes X self) (\<lambda>bytes. Inr (canonical_digest X bytes))"

definition CatalogSurface_descriptor_digest ::
  "('v, 'r, 'x) catalog_externals_scheme \<Rightarrow> CatalogSurface \<Rightarrow> string use_result" where
  "CatalogSurface_descriptor_digest X self =
     and_then (CatalogSurface_validate self) (\<lambda>_.
     and_then (canonical_json (surface_json X) CatalogInvalid self) (\<lambda>bytes.
       Inr (canonical_digest X bytes)))"

definition PluginCatalogRecord_is_package_plan_ready :: "PluginCatalogRecord \<Rightarrow> bool" where
  "PluginCatalogRecord_is_package_plan_ready self = (cr_schema self = PLUGIN_CATALOG_SCHEMA_V3)"

section \<open>Surface selection\<close>

definition required_by ::
  "(PluginSurfaceRef, CatalogSurface) btree_map \<Rightarrow> PluginSurfaceRef set \<Rightarrow> PluginSurfaceRef set" where
  "required_by available selected =
     (\<Union>surface \<in> selected.
        case bt_get available surface of None \<Rightarrow> {} | Some s \<Rightarrow> set (cs_requires s))"

function selection_loop ::
  "(PluginSurfaceRef, CatalogSurface) btree_map \<Rightarrow> PluginSurfaceRef set \<Rightarrow> PluginSurfaceRef set" where
  "selection_loop available selected =
     (let before = card selected; selected' = selected \<union> required_by available selected in
      if card selected' = before then selected' else selection_loop available selected')"
  by pat_completeness auto
termination
proof (relation "measure (\<lambda>(available, selected).
    card ((\<Union>p \<in> set available. set (cs_requires (snd p))) - selected))")
  fix available :: "(PluginSurfaceRef, CatalogSurface) btree_map" and selected before selected'
  let ?U = "\<Union>p \<in> set available. set (cs_requires (snd p))"
  assume "before = card selected" and eq: "selected' = selected \<union> required_by available selected"
    and "card selected' \<noteq> before"
  then have "selected \<noteq> selected'" by auto
  moreover have "required_by available selected \<subseteq> ?U"
    by (force simp: required_by_def bt_get_def split: option.splits dest: map_of_SomeD)
  ultimately have "?U - selected' \<subset> ?U - selected" using eq by auto
  then show "((available, selected'), available, selected) \<in> measure (\<lambda>(available, selected).
    card ((\<Union>p \<in> set available. set (cs_requires (snd p))) - selected))"
    by (simp add: psubset_card_mono)
qed simp

declare selection_loop.simps [simp del]

definition PluginCatalogRecord_resolve_surfaces ::
  "('v, 'r, 'x) catalog_externals_scheme \<Rightarrow> PluginCatalogRecord \<Rightarrow> PluginSurfaceRef list
     \<Rightarrow> CatalogSurface list use_result" where
  "PluginCatalogRecord_resolve_surfaces X self requested =
     and_then (PluginCatalogRecord_validate X self) (\<lambda>_.
     if length requested > MAX_CATALOG_SURFACES then Inl CatalogInvalid
     else
       (let available = bt_collect (map (\<lambda>surface. (CatalogSurface_reference surface, surface))
              (cr_surfaces self));
            requested_set = bs_collect requested
        in if length requested_set \<noteq> length requested
              \<or> (\<exists>surface \<in> set requested_set. \<not> bt_contains available surface)
           then Inl CatalogInvalid
           else
             (let selected = selection_loop available
                (set (map CatalogSurface_reference (filter (\<lambda>surface. \<not> cs_optional surface)
                   (cr_surfaces self)) @ requested_set))
              in Inr (filter (\<lambda>surface. CatalogSurface_reference surface \<in> selected)
                   (cr_surfaces self)))))"

section \<open>Provenance\<close>

definition VerifiedCatalogProvenance_validate ::
  "('v, 'r, 'x) externals_scheme \<Rightarrow> VerifiedCatalogProvenance \<Rightarrow> unit use_result" where
  "VerifiedCatalogProvenance_validate X self =
     (if \<not> valid_segment (vp_registry_name self) \<or> \<not> valid_registry_url X (vp_registry_url self)
         \<or> \<not> valid_sha256 (vp_root_sha256 self) \<or> vp_root_version self = 0
         \<or> vp_timestamp_version self = 0 \<or> vp_snapshot_version self = 0
         \<or> vp_targets_version self = 0 \<or> \<not> valid_sha256 (vp_catalog_record_digest self)
      then Inl CatalogProvenanceInvalid else Inr ())"

definition VerifiedPluginCatalogRecord_validate ::
  "('v, 'r, 'x) catalog_externals_scheme \<Rightarrow> VerifiedPluginCatalogRecord \<Rightarrow> unit use_result" where
  "VerifiedPluginCatalogRecord_validate X self =
     and_then (map_err (\<lambda>_. CatalogProvenanceInvalid) (PluginCatalogRecord_validate X (vr_record self))) (\<lambda>_.
     and_then (VerifiedCatalogProvenance_validate X (vr_provenance self)) (\<lambda>_.
     and_then (PluginCatalogRecord_descriptor_digest X (vr_record self)) (\<lambda>digest.
       if digest \<noteq> vp_catalog_record_digest (vr_provenance self) then Inl CatalogProvenanceInvalid
       else Inr ())))"

definition VerifiedPluginCatalogRecord_new ::
  "('v, 'r, 'x) catalog_externals_scheme \<Rightarrow> PluginCatalogRecord \<Rightarrow> VerifiedCatalogProvenance
     \<Rightarrow> VerifiedPluginCatalogRecord use_result" where
  "VerifiedPluginCatalogRecord_new X rec provenance =
     (let verified = \<lparr>vr_record = rec, vr_provenance = provenance\<rparr> in
      and_then (VerifiedPluginCatalogRecord_validate X verified) (\<lambda>_. Inr verified))"

definition VerifiedPluginCatalogRecord_descriptor_digest ::
  "('v, 'r, 'x) catalog_externals_scheme \<Rightarrow> VerifiedPluginCatalogRecord \<Rightarrow> string use_result" where
  "VerifiedPluginCatalogRecord_descriptor_digest X self =
     and_then (VerifiedPluginCatalogRecord_validate X self) (\<lambda>_.
     and_then (canonical_json (verified_json X) CatalogProvenanceInvalid self) (\<lambda>bytes.
       Inr (canonical_digest X bytes)))"

section \<open>Lemmas: the acyclicity loop\<close>

definition surface_depends :: "CatalogSurface list \<Rightarrow> (PluginSurfaceRef \<times> PluginSurfaceRef) set" where
  "surface_depends surfaces =
     {(a, b). \<exists>s \<in> set surfaces. a = CatalogSurface_reference s \<and> b \<in> set (cs_requires s)}"

abbreviation surface_references :: "CatalogSurface list \<Rightarrow> PluginSurfaceRef set" where
  "surface_references surfaces \<equiv> CatalogSurface_reference ` set surfaces"

lemma resolve_pass_adds:
  assumes "s \<in> set surfaces" "set (cs_requires s) \<subseteq> resolved"
  shows "CatalogSurface_reference s \<in> resolve_pass surfaces resolved"
proof -
  from assms(1) obtain us vs where split: "surfaces = us @ s # vs" by (auto dest: split_list)
  have "resolve_pass surfaces resolved =
      resolve_pass vs (resolve_pass [s] (resolve_pass us resolved))"
    by (simp add: resolve_pass_def split)
  moreover have "set (cs_requires s) \<subseteq> resolve_pass us resolved"
    using assms(2) resolve_pass_bounds by blast
  then have "CatalogSurface_reference s \<in> resolve_pass [s] (resolve_pass us resolved)"
    by (auto simp: resolve_pass_def [of "[s]"])
  ultimately show ?thesis using resolve_pass_bounds by blast
qed

lemma resolve_pass_grounded:
  assumes "distinct (map CatalogSurface_reference surfaces)"
    and "resolved \<subseteq> grounded (surface_depends surfaces)"
  shows "resolve_pass surfaces resolved \<subseteq> grounded (surface_depends surfaces)"
proof -
  let ?E = "surface_depends surfaces"
  have "foldl (\<lambda>resolved surface.
         if (\<forall>required \<in> set (cs_requires surface). required \<in> resolved)
         then insert (CatalogSurface_reference surface) resolved else resolved) resolved ss
       \<subseteq> grounded ?E" if "set ss \<subseteq> set surfaces" for ss
    using that
  proof (induction ss rule: rev_induct)
    case (snoc s ss)
    have "CatalogSurface_reference s \<in> grounded ?E" if "set (cs_requires s) \<subseteq> grounded ?E"
    proof (rule groundedI)
      fix d assume "(CatalogSurface_reference s, d) \<in> ?E"
      then obtain t where "t \<in> set surfaces" "CatalogSurface_reference t = CatalogSurface_reference s"
        "d \<in> set (cs_requires t)" by (auto simp: surface_depends_def)
      moreover have "s \<in> set surfaces" using snoc.prems by simp
      ultimately have "t = s" using assms(1) by (auto simp: distinct_map inj_on_def)
      with \<open>d \<in> set (cs_requires t)\<close> that show "d \<in> grounded ?E" by auto
    qed
    with snoc show ?case by auto
  qed (use assms(2) in simp)
  then show ?thesis by (simp add: resolve_pass_def)
qed

lemma acyclic_loop_iff:
  assumes "distinct (map CatalogSurface_reference surfaces)"
    and "\<forall>s \<in> set surfaces. set (cs_requires s) \<subseteq> surface_references surfaces"
    and "resolved \<subseteq> surface_references surfaces"
    and "resolved \<subseteq> grounded (surface_depends surfaces)"
  shows "acyclic_loop surfaces resolved = Inr () \<longleftrightarrow> acyclic (surface_depends surfaces)"
  using assms
proof (induction surfaces resolved rule: acyclic_loop.induct)
  case (1 surfaces resolved)
  let ?E = "surface_depends surfaces" and ?refs = "surface_references surfaces"
  let ?next = "resolve_pass surfaces resolved"
  have sub: "?next \<subseteq> ?refs" "resolved \<subseteq> ?next"
    using resolve_pass_bounds [of resolved surfaces] "1.prems"(3) by auto
  have ground: "?next \<subseteq> grounded ?E"
    by (rule resolve_pass_grounded [OF "1.prems"(1,4)])
  have len: "card ?refs = length surfaces"
    using "1.prems"(1) by (metis distinct_card length_map list.set_map)
  consider "card ?next = length surfaces" | "card ?next \<noteq> length surfaces" "card ?next = card resolved"
    | "card ?next \<noteq> length surfaces" "card ?next \<noteq> card resolved" by blast
  then show ?case
  proof cases
    case 1
    then have "?next = ?refs" using sub len by (metis List.finite_set card_subset_eq finite_imageI)
    then have "acyclic ?E"
      using ground by (intro grounded_acyclic) (auto simp: surface_depends_def)
    with 1 show ?thesis by (simp add: acyclic_loop.simps)
  next
    case 2
    have "finite ?next" using sub(1) by (rule finite_subset) simp
    then have same: "?next = resolved" using 2(2) sub(2) by (metis card_subset_eq)
    have "\<not> acyclic ?E"
    proof
      assume "acyclic ?E"
      moreover have "?refs - resolved \<noteq> {}" using 2(1) same len sub(1) by auto
      ultimately obtain x where x: "x \<in> ?refs - resolved" "\<forall>d. (x, d) \<in> ?E \<longrightarrow> d \<notin> ?refs - resolved"
        using finite_acyclic_ready [of "?refs - resolved" ?E] by auto
      then obtain s where s: "s \<in> set surfaces" "x = CatalogSurface_reference s" by auto
      have "set (cs_requires s) \<subseteq> resolved"
      proof
        fix d assume d: "d \<in> set (cs_requires s)"
        with s have "(x, d) \<in> ?E" by (auto simp: surface_depends_def)
        with x(2) s(1) d "1.prems"(2) show "d \<in> resolved" by blast
      qed
      from resolve_pass_adds [OF s(1) this] same s(2) x(1) show False by simp
    qed
    with 2 show ?thesis by (simp add: acyclic_loop.simps)
  next
    case 3
    with "1.IH" [OF refl refl 3 "1.prems"(1,2) sub(1) ground]
    show ?thesis by (simp add: acyclic_loop.simps [of surfaces resolved] Let_def)
  qed
qed

lemma validate_surface_dependencies_iff:
  assumes "distinct (map CatalogSurface_reference surfaces)"
  shows "validate_surface_dependencies surfaces (surface_references surfaces) = Inr () \<longleftrightarrow>
    (\<forall>s \<in> set surfaces. length (cs_requires s) \<le> MAX_CATALOG_SURFACES \<and>
       sorted_wrt (<) (cs_requires s) \<and>
       (\<forall>r \<in> set (cs_requires s). r \<noteq> CatalogSurface_reference s \<and> r \<in> surface_references surfaces \<and>
          valid_surface_dependency (cs_kind s) (sr_kind r))) \<and>
    acyclic (surface_depends surfaces)"
proof -
  let ?local = "\<forall>s \<in> set surfaces. length (cs_requires s) \<le> MAX_CATALOG_SURFACES \<and>
       sorted_wrt (<) (cs_requires s) \<and>
       (\<forall>r \<in> set (cs_requires s). r \<noteq> CatalogSurface_reference s \<and> r \<in> surface_references surfaces \<and>
          valid_surface_dependency (cs_kind s) (sr_kind r))"
  have "validate_surface_dependencies surfaces (surface_references surfaces) = Inr () \<longleftrightarrow>
      ?local \<and> acyclic_loop surfaces {} = Inr ()"
    unfolding validate_surface_dependencies_def and_then_Inr for_each_Inr if_Inl_Inr
    by (auto simp: not_less)
  moreover have "acyclic_loop surfaces {} = Inr () \<longleftrightarrow> acyclic (surface_depends surfaces)" if ?local
    using that by (intro acyclic_loop_iff [OF assms]) auto
  ultimately show ?thesis by blast
qed

section \<open>Lemmas: the surface scan\<close>

lemma scan_surface_step:
  assumes "scan_surface scan surface = Inr scan'"
  shows "CatalogSurface_validate surface = Inr ()"
    and "\<not> out_of_order (ss_previous scan) (CatalogSurface_reference surface)"
    and "ss_previous scan' = Some (CatalogSurface_reference surface)"
    and "ss_surface_refs scan' = insert (CatalogSurface_reference surface) (ss_surface_refs scan)"
    and "ss_tool_classes scan' = (case cs_workload surface of None \<Rightarrow> ss_tool_classes scan
       | Some w \<Rightarrow> bt_insert (cs_id surface) w (ss_tool_classes scan))"
    and "ss_mcp_transports scan' = (case cs_mcp_transport surface of None \<Rightarrow> ss_mcp_transports scan
       | Some t \<Rightarrow> bt_insert (cs_id surface) t (ss_mcp_transports scan))"
  using assms
  by (auto simp: scan_surface_def Let_def CatalogSurface_reference_def and_then_Inr if_Inl_Inr)

definition scan_inv :: "CatalogSurface list \<Rightarrow> surface_scan \<Rightarrow> bool" where
  "scan_inv seen scan \<longleftrightarrow>
     (\<forall>s \<in> set seen. CatalogSurface_validate s = Inr ()) \<and>
     sorted_wrt (<) (map CatalogSurface_reference seen) \<and>
     ss_previous scan = (if seen = [] then None else Some (CatalogSurface_reference (last seen))) \<and>
     ss_surface_refs scan = surface_references seen \<and>
     (\<forall>i w. bt_get (ss_tool_classes scan) i = Some w \<longleftrightarrow>
        (\<exists>s \<in> set seen. CatalogSurface_reference s = SurfaceRef KTool i \<and> cs_workload s = Some w)) \<and>
     (\<forall>i t. bt_get (ss_mcp_transports scan) i = Some t \<longleftrightarrow>
        (\<exists>s \<in> set seen. CatalogSurface_reference s = SurfaceRef KMcp i \<and> cs_mcp_transport s = Some t))"

lemma surface_validate_kinds:
  assumes "CatalogSurface_validate s = Inr ()"
  shows "cs_workload s \<noteq> None \<longleftrightarrow> cs_kind s = KTool" "cs_mcp_transport s \<noteq> None \<longleftrightarrow> cs_kind s = KMcp"
  using assms unfolding CatalogSurface_validate_def
  by (cases "cs_kind s"; simp split: if_splits)+

lemma scan_inv_step:
  assumes inv: "scan_inv seen scan" and step: "scan_surface scan s = Inr scan'"
  shows "scan_inv (seen @ [s]) scan'"
proof -
  note st = scan_surface_step [OF step]
  let ?ref = "CatalogSurface_reference"
  have "sorted_wrt (<) (map ?ref (seen @ [s]))"
    using inv st(2) by (intro sorted_snoc_last) (auto simp: scan_inv_def not_le)
  then have fresh: "?ref t \<noteq> ?ref s" if "t \<in> set seen" for t
    using that by (auto simp: sorted_wrt_append)
  have kinds: "cs_workload s = Some w \<Longrightarrow> cs_kind s = KTool"
    "cs_mcp_transport s = Some t \<Longrightarrow> cs_kind s = KMcp" for w t
    using surface_validate_kinds [OF st(1)] by auto
  have "bt_get (ss_tool_classes scan') i = Some w \<longleftrightarrow>
      (\<exists>t \<in> set (seen @ [s]). ?ref t = SurfaceRef KTool i \<and> cs_workload t = Some w)" for i w
    using inv fresh kinds(1) unfolding st(5) scan_inv_def
    by (cases "cs_workload s") (auto simp: CatalogSurface_reference_def)
  moreover have "bt_get (ss_mcp_transports scan') i = Some t \<longleftrightarrow>
      (\<exists>u \<in> set (seen @ [s]). ?ref u = SurfaceRef KMcp i \<and> cs_mcp_transport u = Some t)" for i t
    using inv fresh kinds(2) unfolding st(6) scan_inv_def
    by (cases "cs_mcp_transport s") (auto simp: CatalogSurface_reference_def)
  ultimately show ?thesis
    using inv \<open>sorted_wrt (<) (map ?ref (seen @ [s]))\<close> st(1,3,4) by (simp add: scan_inv_def)
qed

lemma scan_surfaces_inv:
  assumes "scan_surfaces surfaces = Inr scan"
  shows "scan_inv surfaces scan"
proof -
  have "scan_inv [] surface_scan_start" by (simp add: scan_inv_def surface_scan_start_def)
  from fold_result_invariant [OF assms [unfolded scan_surfaces_def], of scan_inv, OF this scan_inv_step]
  show ?thesis by simp
qed

section \<open>Lemmas: the selection loop\<close>

lemma required_by_image: "required_by available selected = edges cs_requires available `` selected"
proof -
  have "(case bt_get available k of None \<Rightarrow> {} | Some s \<Rightarrow> set (cs_requires s)) =
      edges cs_requires available `` {k}" for k
    by (cases "bt_get available k") (auto simp: edges_iff)
  then show ?thesis unfolding required_by_def by blast
qed

lemma selection_loop_closure:
  "finite selected \<Longrightarrow>
     selection_loop available selected = (edges cs_requires available)\<^sup>* `` selected"
proof (induction available selected rule: selection_loop.induct)
  case (1 available selected)
  let ?E = "edges cs_requires available" and ?next = "selected \<union> required_by available selected"
  have fin: "finite ?next"
    using "1.prems" by (auto simp: required_by_def split: option.splits)
  show ?case
  proof (cases "card ?next = card selected")
    case True
    then have "?next = selected" using fin by (metis card_subset_eq sup_ge1)
    then have "?E `` selected \<subseteq> selected" by (auto simp: required_by_image)
    then have "?E\<^sup>* `` selected = selected" using ImageE_closed [of ?E selected] by auto
    with True \<open>?next = selected\<close> show ?thesis by (simp add: selection_loop.simps)
  next
    case False
    have "?E\<^sup>* `` ?next = ?E\<^sup>* `` selected"
      unfolding required_by_image by (auto intro: converse_rtrancl_into_rtrancl)
    with False "1.IH" [OF refl refl False fin] show ?thesis
      by (simp add: selection_loop.simps [of available selected] Let_def)
  qed
qed

lemma edges_collect:
  assumes "distinct (map CatalogSurface_reference surfaces)"
  shows "edges cs_requires (bt_collect (map (\<lambda>s. (CatalogSurface_reference s, s)) surfaces)) =
    surface_depends surfaces"
proof -
  have d: "distinct (map fst (map (\<lambda>s. (CatalogSurface_reference s, s)) surfaces))"
    using assms by (simp add: comp_def)
  have "bt_get (bt_collect (map (\<lambda>s. (CatalogSurface_reference s, s)) surfaces)) k = Some s \<longleftrightarrow>
      s \<in> set surfaces \<and> CatalogSurface_reference s = k" for k s
    using d by (auto simp: bt_collect_get_distinct)
  then show ?thesis by (auto simp: edges_def surface_depends_def)
qed

section \<open>Consequences of record validity\<close>

lemma record_validate_parts:
  assumes "PluginCatalogRecord_validate X r = Inr ()"
  obtains scan where "validate_identity X r"
    and "PluginPackageDependency_validate_set X (cr_package_id r) (cr_dependencies r) = Inr ()"
    and "scan_surfaces (cr_surfaces r) = Inr scan"
    and "validate_surface_dependencies (cr_surfaces r) (ss_surface_refs scan) = Inr ()"
    and "PluginPermissionCeiling_validate (cr_permission_ceiling r) = Inr ()"
    and "PluginPermissionCeiling_descriptor_digest X (cr_permission_ceiling r)
           = Inr (cr_permission_ceiling_digest r)"
    and "\<forall>p \<in> set (pc_surfaces (cr_permission_ceiling r)).
           validate_permission (cr_surfaces r) scan p = Inr ()"
    and "\<forall>s \<in> set (cr_surfaces r). is_executable s \<longrightarrow>
           (\<exists>p \<in> set (pc_surfaces (cr_permission_ceiling r)). sp_surface p = CatalogSurface_reference s)"
proof -
  have ref: "sr_kind (sp_surface p) = cs_kind s \<and> sr_id (sp_surface p) = cs_id s \<longleftrightarrow>
      sp_surface p = CatalogSurface_reference s" for p s
    by (cases "sp_surface p") (simp add: CatalogSurface_reference_def)
  note parts = assms [unfolded PluginCatalogRecord_validate_def if_Inl_Inr and_then_Inr
      map_err_Inr for_each_Inr is_ok_iff ref]
  then show thesis by (elim conjE exE) (rule that; simp)
qed

lemma record_surfaces_distinct:
  assumes "PluginCatalogRecord_validate X r = Inr ()"
  shows "sorted_wrt (<) (map CatalogSurface_reference (cr_surfaces r))"
    and "distinct (map CatalogSurface_reference (cr_surfaces r))"
proof -
  from assms obtain scan where "scan_surfaces (cr_surfaces r) = Inr scan"
    by (rule record_validate_parts)
  then show "sorted_wrt (<) (map CatalogSurface_reference (cr_surfaces r))"
    using scan_surfaces_inv by (simp add: scan_inv_def)
  then show "distinct (map CatalogSurface_reference (cr_surfaces r))"
    by (rule sorted_less_distinct)
qed

text \<open>The permission shape each kind of executable surface must have.\<close>

definition without_task_limits :: "SurfacePermissionCeiling \<Rightarrow> bool" where
  "without_task_limits p \<longleftrightarrow> (\<exists>r. sp_resources p = Some r \<and> rc_task_timeout_ms r = None \<and> rc_max_stdout_bytes r = None \<and>
     rc_max_stderr_bytes r = None)"

definition ceiling_fits :: "CatalogSurface \<Rightarrow> SurfacePermissionCeiling \<Rightarrow> bool" where
  "ceiling_fits s p =
     (case (cs_workload s, cs_mcp_transport s) of
        (Some Task, _) \<Rightarrow> \<not> sp_private_service p \<and>
          (\<exists>r. sp_resources p = Some r \<and> rc_task_timeout_ms r \<noteq> None \<and> rc_max_stdout_bytes r \<noteq> None \<and>
             rc_max_stderr_bytes r \<noteq> None)
      | (Some Service, _) \<Rightarrow> \<not> sp_native_execution p \<and> sp_private_service p \<and> without_task_limits p
      | (_, Some Stdio) \<Rightarrow> sp_native_execution p \<and> \<not> sp_private_service p \<and> without_task_limits p
      | (_, Some StreamableHttp) \<Rightarrow> \<not> sp_native_execution p \<and> sp_private_service p \<and> without_task_limits p
      | (_, Some HostGrant) \<Rightarrow> \<not> sp_native_execution p \<and> \<not> sp_private_service p \<and> without_task_limits p \<and>
          sp_network_egress p \<noteq> []
      | (None, None) \<Rightarrow> cs_kind s \<notin> {KTool, KMcp})"

lemma workload_matches_fits:
  assumes inv: "scan_inv surfaces scan" and s: "s \<in> set surfaces"
    and ref: "sp_surface p = CatalogSurface_reference s" and m: "workload_matches scan p"
  shows "ceiling_fits s p"
proof -
  have valid: "CatalogSurface_validate s = Inr ()" using inv s by (simp add: scan_inv_def)
  have tool: "bt_get (ss_tool_classes scan) (cs_id s) = Some w" if "cs_workload s = Some w" for w
    using inv s that surface_validate_kinds(1) [OF valid]
    by (auto simp: scan_inv_def CatalogSurface_reference_def)
  have mcp: "bt_get (ss_mcp_transports scan) (cs_id s) = Some t" if "cs_mcp_transport s = Some t" for t
    using inv s that surface_validate_kinds(2) [OF valid]
    by (auto simp: scan_inv_def CatalogSurface_reference_def)
  show ?thesis
  proof (cases "cs_workload s")
    case (Some w)
    then have "cs_kind s = KTool" using surface_validate_kinds(1) [OF valid] by simp
    with m tool [OF Some] Some ref show ?thesis
      by (cases w) (auto simp: workload_matches_def ceiling_fits_def without_task_limits_def long_running_resources_def
          CatalogSurface_reference_def is_some_and_iff)
  next
    case None
    show ?thesis
    proof (cases "cs_mcp_transport s")
      case (Some t)
      then have "cs_kind s = KMcp" using surface_validate_kinds(2) [OF valid] by simp
      with m mcp [OF Some] Some None ref show ?thesis
        by (cases t) (auto simp: workload_matches_def ceiling_fits_def without_task_limits_def long_running_resources_def
            CatalogSurface_reference_def is_some_and_iff)
    qed (use None surface_validate_kinds [OF valid] in \<open>simp add: ceiling_fits_def\<close>)
  qed
qed

lemma resolve_surfaces_closure:
  "PluginCatalogRecord_resolve_surfaces X r requested = Inr selected \<longleftrightarrow>
     PluginCatalogRecord_validate X r = Inr () \<and> length requested \<le> MAX_CATALOG_SURFACES \<and>
     distinct requested \<and> set requested \<subseteq> set (map CatalogSurface_reference (cr_surfaces r)) \<and>
     selected = filter (\<lambda>s. CatalogSurface_reference s \<in>
       (surface_depends (cr_surfaces r))\<^sup>* ``
         ({CatalogSurface_reference m | m. m \<in> set (cr_surfaces r) \<and> \<not> cs_optional m} \<union> set requested))
       (cr_surfaces r)"
proof (cases "PluginCatalogRecord_validate X r = Inr ()")
  case True
  let ?av = "bt_collect (map (\<lambda>s. (CatalogSurface_reference s, s)) (cr_surfaces r))"
  have contains: "bt_contains ?av k \<longleftrightarrow> k \<in> surface_references (cr_surfaces r)" for k
    unfolding bt_keys_contains [symmetric] by (auto simp: image_iff)
  have start: "set (map CatalogSurface_reference (filter (\<lambda>s. \<not> cs_optional s) (cr_surfaces r))
      @ bs_collect requested) =
    {CatalogSurface_reference m | m. m \<in> set (cr_surfaces r) \<and> \<not> cs_optional m} \<union> set requested"
    by auto
  have "selection_loop ?av S = (surface_depends (cr_surfaces r))\<^sup>* `` S" if "finite S" for S
    using selection_loop_closure [OF that, of ?av] edges_collect record_surfaces_distinct(2) [OF True]
    by simp
  with True contains show ?thesis
    unfolding PluginCatalogRecord_resolve_surfaces_def and_then_Inr Let_def if_Inl_Inr start
    by (auto simp: bs_collect_distinct)
qed (auto simp: PluginCatalogRecord_resolve_surfaces_def and_then_Inr)

section \<open>Properties\<close>

text \<open>
  C13: the dependency check of a catalog's surfaces accepts exactly the surface lists whose
  dependencies are well-formed (sorted, bounded, to other declared surfaces of a permitted kind) and
  form an acyclic graph, whatever the order of the surfaces; the loop always ends.
\<close>

theorem surface_dependencies_accepts_exactly_acyclic:
  assumes "distinct (map CatalogSurface_reference surfaces)"
  shows "validate_surface_dependencies surfaces (set (map CatalogSurface_reference surfaces)) = Inr () \<longleftrightarrow>
    (\<forall>s \<in> set surfaces. length (cs_requires s) \<le> MAX_CATALOG_SURFACES \<and>
       sorted_wrt (<) (cs_requires s) \<and>
       (\<forall>r \<in> set (cs_requires s). r \<noteq> CatalogSurface_reference s \<and>
          r \<in> set (map CatalogSurface_reference surfaces) \<and>
          valid_surface_dependency (cs_kind s) (sr_kind r))) \<and>
    acyclic (surface_depends surfaces)"
  using validate_surface_dependencies_iff [OF assms] by simp

definition witness_surface ::
  "PluginSurfaceKind \<Rightarrow> string \<Rightarrow> bool \<Rightarrow> PluginSurfaceRef list \<Rightarrow> CatalogSurface" where
  "witness_surface kind i opt deps =
     \<lparr>cs_kind = kind, cs_id = i, cs_optional = opt, cs_workload = None, cs_mcp_transport = None,
      cs_mcp_tool_count = None, cs_okf_bundle = None, cs_requires = deps\<rparr>"

theorem surface_dependencies_accepts_exactly_acyclic_witness:
  "acyclic (surface_depends
     [witness_surface KFlow ''a'' False [], witness_surface KSkill ''b'' False [SurfaceRef KFlow ''a''],
      witness_surface KUi ''c'' False [SurfaceRef KFlow ''a'', SurfaceRef KSkill ''b'']])"
proof -
  let ?ss = "[witness_surface KFlow ''a'' False [], witness_surface KSkill ''b'' False [SurfaceRef KFlow ''a''],
      witness_surface KUi ''c'' False [SurfaceRef KFlow ''a'', SurfaceRef KSkill ''b'']]"
  have "distinct (map CatalogSurface_reference ?ss)" by code_simp
  moreover have "validate_surface_dependencies ?ss (set (map CatalogSurface_reference ?ss)) = Inr ()"
    by code_simp
  ultimately show ?thesis
    using surface_dependencies_accepts_exactly_acyclic [of ?ss] by blast
qed

text \<open>
  C12: resolving a surface selection succeeds exactly for a valid record and a duplicate-free, bounded
  request of declared surfaces, and then selects, in catalog order, exactly the surfaces reachable by
  dependencies from the mandatory and the requested ones.
\<close>

theorem resolve_surfaces_is_dependency_closure:
  "PluginCatalogRecord_resolve_surfaces X r requested = Inr selected \<longleftrightarrow>
     PluginCatalogRecord_validate X r = Inr () \<and> length requested \<le> MAX_CATALOG_SURFACES \<and>
     distinct requested \<and> set requested \<subseteq> set (map CatalogSurface_reference (cr_surfaces r)) \<and>
     selected = filter (\<lambda>s. CatalogSurface_reference s \<in>
       (surface_depends (cr_surfaces r))\<^sup>* ``
         ({CatalogSurface_reference m | m. m \<in> set (cr_surfaces r) \<and> \<not> cs_optional m} \<union> set requested))
       (cr_surfaces r)"
  by (rule resolve_surfaces_closure)

text \<open>
  in a valid catalog record every executable surface (Tool or MCP) has exactly one permission
  ceiling, and that ceiling has the shape of the surface's workload: bounded Tasks without a private
  service, and, with resources but without Task limits, private-service Tool Services without native
  execution, native stdio MCP servers, private-service HTTP servers, and host-granted endpoints that
  declare the hosts they may reach.
\<close>

theorem executable_surfaces_have_fitting_ceiling:
  assumes "PluginCatalogRecord_validate X r = Inr ()"
    and "s \<in> set (cr_surfaces r)" and "cs_kind s \<in> {KTool, KMcp}"
  shows "(\<exists>!p. p \<in> set (pc_surfaces (cr_permission_ceiling r)) \<and> sp_surface p = CatalogSurface_reference s) \<and>
    (\<forall>p \<in> set (pc_surfaces (cr_permission_ceiling r)). sp_surface p = CatalogSurface_reference s \<longrightarrow> ceiling_fits s p)"
proof -
  from assms(1) obtain scan where scan: "scan_surfaces (cr_surfaces r) = Inr scan"
    and ceil: "PluginPermissionCeiling_validate (cr_permission_ceiling r) = Inr ()"
    and perms: "\<forall>p \<in> set (pc_surfaces (cr_permission_ceiling r)).
           validate_permission (cr_surfaces r) scan p = Inr ()"
    and exec: "\<forall>s \<in> set (cr_surfaces r). is_executable s \<longrightarrow>
           (\<exists>p \<in> set (pc_surfaces (cr_permission_ceiling r)). sp_surface p = CatalogSurface_reference s)"
    by (rule record_validate_parts)
  have "is_executable s" using assms(3) by (simp add: is_executable_def)
  with exec assms(2) obtain p where p: "p \<in> set (pc_surfaces (cr_permission_ceiling r))"
    "sp_surface p = CatalogSurface_reference s" by blast
  from perms p(1) have "workload_matches scan p"
    by (auto simp: validate_permission_def and_then_Inr split: if_splits)
  with workload_matches_fits [OF scan_surfaces_inv [OF scan] assms(2) p(2)] have "ceiling_fits s p" .
  moreover have "q = p" if "q \<in> set (pc_surfaces (cr_permission_ceiling r))"
    "sp_surface q = CatalogSurface_reference s" for q
    using that p ceiling_validate_shape(1) [OF ceil] by (auto simp: distinct_map inj_on_def)
  ultimately show ?thesis using p by blast
qed

text \<open>
  A concrete record and concrete stand-ins for the external functions, used by the witnesses here and
  in the theories that build on the catalog. Versions are compared as strings, a requirement is \<open>*\<close> or
  an exact version, every URL is an \<open>https\<close> one and the digest is constant.
\<close>

definition zero_digest :: string where
  "zero_digest = ''sha256:'' @ replicate 64 (CHR ''0'')"

definition witness_externals_with :: "'x \<Rightarrow> (string, string, 'x) catalog_externals_scheme" where
  "witness_externals_with rest =
     \<lparr>version_parse = Some, version_string = (\<lambda>v. v), version_le = (\<le>), req_parse = Some,
      req_string = (\<lambda>r. r), req_matches = (\<lambda>r v. r = ''*'' \<or> r = v),
      url_parse = (\<lambda>u. Some \<lparr>url_scheme = ''https'', url_host = Some ''h'', url_username = [],
        url_password = None, url_query = None, url_fragment = None, url_as_str = u\<rparr>),
      sha256_hex = (\<lambda>_. replicate 64 (CHR ''0'')), ceiling_json = (\<lambda>_. Some ''c''),
      percent_decode_utf8 = Some, surface_json = (\<lambda>_. Some ''s''), record_json = (\<lambda>_. Some ''r''),
      verified_json = (\<lambda>_. Some ''v''), \<dots> = rest\<rparr>"

abbreviation witness_externals :: "(string, string) catalog_externals" where
  "witness_externals \<equiv> witness_externals_with ()"

definition witness_tool :: CatalogSurface where
  "witness_tool = (witness_surface KTool ''scan'' False []) \<lparr>cs_workload := Some Task\<rparr>"

definition witness_task_ceiling :: PluginPermissionCeiling where
  "witness_task_ceiling =
     \<lparr>pc_schema = PLUGIN_PERMISSION_SCHEMA, pc_surfaces =
        [\<lparr>sp_surface = SurfaceRef KTool ''scan'', sp_native_execution = True, sp_child_process = False,
          sp_filesystem = [], sp_network_egress = [], sp_private_service = False, sp_secrets = [],
          sp_resources = Some \<lparr>rc_cpu_millis = 10, rc_memory_bytes = 20, rc_pids = 1,
             rc_ephemeral_storage_bytes = 5, rc_task_timeout_ms = Some 7, rc_max_stdout_bytes = Some 8,
             rc_max_stderr_bytes = Some 9\<rparr>,
          sp_ui_http = []\<rparr>]\<rparr>"

definition witness_record :: "string \<Rightarrow> string \<Rightarrow> PluginPackageDependency list \<Rightarrow> PluginCatalogRecord" where
  "witness_record name version deps =
     \<lparr>cr_schema = PLUGIN_CATALOG_SCHEMA_V3, cr_package_id = ''acme/'' @ name, cr_display_name = ''Name'',
      cr_description = ''Text'', cr_publisher = ''acme'', cr_keywords = [], cr_categories = [],
      cr_version = version, cr_channel = Stable, cr_requires_use = ''*'', cr_dependencies = deps,
      cr_target = ''linux'', cr_surfaces = [witness_surface KSkill ''help'' False []],
      cr_permission_ceiling = \<lparr>pc_schema = PLUGIN_PERMISSION_SCHEMA, pc_surfaces = []\<rparr>,
      cr_permission_ceiling_digest = zero_digest, cr_planning = None,
      cr_archive = \<lparr>ca_target_name = ''extensions/acme/'' @ name @ ''/'' @ version
         @ ''/stable/linux/a.zip'', ca_length = 1, ca_sha256 = zero_digest\<rparr>,
      cr_package = \<lparr>cp_expanded_bytes = 1, cp_file_count = 1, cp_sha256 = Some zero_digest,
         cp_manifest_sha256 = Some zero_digest\<rparr>,
      cr_license = ''MIT'', cr_repository = ''https://h'', cr_availability = Available\<rparr>"

definition witness_tool_record :: PluginCatalogRecord where
  "witness_tool_record = (witness_record ''a'' ''1.0.0'' [])
     \<lparr>cr_surfaces := [witness_tool], cr_permission_ceiling := witness_task_ceiling,
      cr_planning := Some \<lparr>ct_target_name = ''extensions/acme/a/1.0.0/stable/linux/planning-v1.json'',
        ct_length = 1, ct_sha256 = zero_digest\<rparr>\<rparr>"

theorem executable_surfaces_have_fitting_ceiling_witness:
  "\<exists>!p. p \<in> set (pc_surfaces witness_task_ceiling) \<and> sp_surface p = CatalogSurface_reference witness_tool"
proof -
  have "PluginCatalogRecord_validate witness_externals witness_tool_record = Inr ()"
    by code_simp
  from executable_surfaces_have_fitting_ceiling [OF this, of witness_tool] show ?thesis
    by (simp add: witness_tool_record_def witness_tool_def witness_surface_def)
qed

end
