(* ===== verification/Package_Lock.thy ===== *)
theory Package_Lock
  imports Catalog
begin

text \<open>
  The package lock, \<open>crates/core/src/plugin/package_lock.rs\<close>: the content-addressed closure of one
  package operation, its validation, and the install and removal orders. The checks of a lock against
  an operation plan are in the theory of plans.
\<close>

section \<open>Data\<close>

record PluginPackageLockHost =
  plh_target :: string
  plh_use_version :: string

record LockedPluginPackageDependency =
  ld_package_id :: string
  ld_version_requirement :: string
  ld_version :: string

record LockedPluginPackage =
  lp_catalog :: VerifiedPluginCatalogRecord
  lp_dependencies :: "LockedPluginPackageDependency list"

record PluginPackageLock =
  pl_schema :: string
  pl_root_package_id :: string
  pl_host :: PluginPackageLockHost
  pl_packages :: "LockedPluginPackage list"

record ('v, 'r) lock_externals = "('v, 'r) catalog_externals" +
  lock_json :: "PluginPackageLock \<Rightarrow> string option"

type_synonym lock_index = "(string, LockedPluginPackage) btree_map"

definition PLUGIN_PACKAGE_LOCK_SCHEMA :: string where
  "PLUGIN_PACKAGE_LOCK_SCHEMA = ''a3s.use.plugin-package-lock.v1''"

section \<open>Operations\<close>

definition PluginPackageLockHost_validate ::
  "('v, 'r, 'x) externals_scheme \<Rightarrow> PluginPackageLockHost \<Rightarrow> unit use_result" where
  "PluginPackageLockHost_validate X self =
     and_then (ok_or PackageLockInvalid (version_parse X (plh_use_version self))) (\<lambda>version.
       if plh_target self = ''any'' \<or> \<not> valid_target (plh_target self)
          \<or> version_string X version \<noteq> plh_use_version self
       then Inl PackageLockInvalid else Inr ())"

definition PluginPackageLockHost_new ::
  "('v, 'r, 'x) externals_scheme \<Rightarrow> string \<Rightarrow> string \<Rightarrow> PluginPackageLockHost use_result" where
  "PluginPackageLockHost_new X target use_version =
     (let host = \<lparr>plh_target = target, plh_use_version = use_version\<rparr> in
      and_then (PluginPackageLockHost_validate X host) (\<lambda>_. Inr host))"

definition PluginPackageLockHost_parsed_use_version ::
  "('v, 'r, 'x) externals_scheme \<Rightarrow> PluginPackageLockHost \<Rightarrow> 'v use_result" where
  "PluginPackageLockHost_parsed_use_version X self =
     and_then (PluginPackageLockHost_validate X self) (\<lambda>_.
       ok_or PackageLockInvalid (version_parse X (plh_use_version self)))"

definition LockedPluginPackage_package_id :: "LockedPluginPackage \<Rightarrow> string" where
  "LockedPluginPackage_package_id self = cr_package_id (vr_record (lp_catalog self))"

definition LockedPluginPackage_version :: "LockedPluginPackage \<Rightarrow> string" where
  "LockedPluginPackage_version self = cr_version (vr_record (lp_catalog self))"

definition dependency_ids :: "LockedPluginPackage \<Rightarrow> string list" where
  "dependency_ids package = map ld_package_id (lp_dependencies package)"

fun is_withdrawn :: "CatalogAvailability \<Rightarrow> bool" where
  "is_withdrawn (Withdrawn _ _) = True"
| "is_withdrawn _ = False"

text \<open>The first loop of \<open>validate\<close>: every node is a compatible release, in increasing ID order.\<close>

definition lock_node ::
  "('v, 'r, 'x) lock_externals_scheme \<Rightarrow> PluginPackageLockHost \<Rightarrow> 'v
     \<Rightarrow> lock_index \<times> string option \<Rightarrow> LockedPluginPackage \<Rightarrow> (lock_index \<times> string option) use_result" where
  "lock_node X host host_version state package =
     (let by_id = fst state; previous = snd state; rec = vr_record (lp_catalog package) in
      and_then (map_err (\<lambda>_. PackageLockInvalid)
        (VerifiedPluginCatalogRecord_validate X (lp_catalog package))) (\<lambda>_.
      if cr_schema rec \<noteq> PLUGIN_CATALOG_SCHEMA_V3
         \<or> is_withdrawn (cr_availability rec)
         \<or> (cr_target rec \<noteq> ''any'' \<and> cr_target rec \<noteq> plh_target host)
         \<or> \<not> (case req_parse X (cr_requires_use rec) of
                None \<Rightarrow> False | Some requirement \<Rightarrow> req_matches X requirement host_version)
         \<or> out_of_order previous (cr_package_id rec)
      then Inl PackageLockInvalid
      else if bt_contains by_id (cr_package_id rec) then Inl PackageLockInvalid
      else Inr (bt_insert (cr_package_id rec) package by_id, Some (cr_package_id rec))))"

text \<open>The second loop: every edge names the selected version and meets the signed requirement.\<close>

definition lock_edge ::
  "('v, 'r, 'x) lock_externals_scheme \<Rightarrow> lock_index
     \<Rightarrow> LockedPluginPackageDependency \<times> PluginPackageDependency \<Rightarrow> unit use_result" where
  "lock_edge X by_id pair =
     (let edge = fst pair; requirement = snd pair in
      and_then (ok_or PackageLockInvalid (bt_get by_id (ld_package_id edge))) (\<lambda>selected.
      and_then (ok_or PackageLockInvalid (version_parse X (LockedPluginPackage_version selected)))
        (\<lambda>selected_version.
      and_then (ok_or PackageLockInvalid (req_parse X (ld_version_requirement edge)))
        (\<lambda>parsed_requirement.
      if ld_package_id edge \<noteq> pd_package_id requirement
         \<or> ld_version_requirement edge \<noteq> pd_version_requirement requirement
         \<or> ld_version edge \<noteq> LockedPluginPackage_version selected
         \<or> version_string X selected_version \<noteq> ld_version edge
         \<or> req_string X parsed_requirement \<noteq> ld_version_requirement edge
         \<or> \<not> req_matches X parsed_requirement selected_version
      then Inl PackageLockInvalid else Inr ()))))"

definition lock_edges ::
  "('v, 'r, 'x) lock_externals_scheme \<Rightarrow> lock_index \<Rightarrow> LockedPluginPackage \<Rightarrow> unit use_result" where
  "lock_edges X by_id package =
     (let signed = cr_dependencies (vr_record (lp_catalog package)) in
      if length (lp_dependencies package) \<noteq> length signed
         \<or> windows2_any (\<lambda>a b. ld_package_id a \<ge> ld_package_id b) (lp_dependencies package)
      then Inl PackageLockInvalid
      else for_each (lock_edge X by_id) (zip (lp_dependencies package) signed))"

definition PluginPackageLock_reachable_packages ::
  "PluginPackageLock \<Rightarrow> lock_index \<Rightarrow> string btree_set use_result" where
  "PluginPackageLock_reachable_packages self by_id =
     worklist_closure PackageLockInvalid dependency_ids by_id
       [pl_root_package_id self] [pl_root_package_id self]"

definition ready_packages :: "lock_index \<Rightarrow> string set \<Rightarrow> string list" where
  "ready_packages by_id completed =
     map fst (filter (\<lambda>(package_id, package). package_id \<notin> completed \<and>
         (\<forall>dependency \<in> set (lp_dependencies package). ld_package_id dependency \<in> completed)) by_id)"

definition complete_ready ::
  "(string, nat) btree_map \<Rightarrow> string list \<Rightarrow> string set \<times> nat list
     \<Rightarrow> (string set \<times> nat list) use_result" where
  "complete_ready indices ready state =
     fold_result (\<lambda>state package_id.
         and_then (ok_or PackageLockInvalid (bt_get indices package_id)) (\<lambda>index.
           Inr (insert package_id (fst state), snd state @ [index])))
       state ready"

lemma complete_ready_result:
  "complete_ready indices ready (completed, order) = Inr state \<Longrightarrow>
     fst state = completed \<union> set ready \<and>
     snd state = order @ map (\<lambda>p. the (bt_get indices p)) ready"
  unfolding complete_ready_def
  by (induction ready arbitrary: completed order) (auto simp: and_then_Inr ok_or_Inr)

function topological_loop ::
  "lock_index \<Rightarrow> (string, nat) btree_map \<Rightarrow> nat \<Rightarrow> string set \<times> nat list \<Rightarrow> nat list use_result" where
  "topological_loop by_id indices count state =
     (if length (snd state) < count then
        (let ready = ready_packages by_id (fst state) in
         if ready = [] then Inl PackageLockInvalid
         else and_then (complete_ready indices ready state) (\<lambda>state'. topological_loop by_id indices count state'))
      else Inr (snd state))"
  by pat_completeness auto
termination
proof (relation "measure (\<lambda>(by_id, indices, count, state). card (set (bt_keys by_id) - fst state))")
  fix by_id :: lock_index and indices :: "(string, nat) btree_map" and count state ready state'
  assume ready: "ready = ready_packages by_id (fst state)" "ready \<noteq> []"
    and "complete_ready indices ready state = Inr state'"
  then have "fst state' = fst state \<union> set ready"
    by (metis complete_ready_result prod.collapse)
  moreover have "set ready \<subseteq> set (bt_keys by_id) - fst state"
    by (auto simp: ready(1) ready_packages_def bt_keys_def)
  moreover have "set ready \<noteq> {}" using ready(2) by simp
  ultimately have "set (bt_keys by_id) - fst state' \<subset> set (bt_keys by_id) - fst state"
    using shrinking_rest [of "set ready" "set (bt_keys by_id)" "fst state"] by simp
  then show "((by_id, indices, count, state'), by_id, indices, count, state)
      \<in> measure (\<lambda>(by_id, indices, count, state). card (set (bt_keys by_id) - fst state))"
    by (simp add: psubset_card_mono)
qed simp

declare topological_loop.simps [simp del]

definition PluginPackageLock_topological_indices ::
  "PluginPackageLock \<Rightarrow> lock_index \<Rightarrow> nat list use_result" where
  "PluginPackageLock_topological_indices self by_id =
     topological_loop by_id
       (bt_collect (map (\<lambda>(index, package). (LockedPluginPackage_package_id package, index))
          (List.enumerate 0 (pl_packages self))))
       (length (pl_packages self)) ({}, [])"

definition PluginPackageLock_validate ::
  "('v, 'r, 'x) lock_externals_scheme \<Rightarrow> PluginPackageLock \<Rightarrow> unit use_result" where
  "PluginPackageLock_validate X self =
     (if pl_schema self \<noteq> PLUGIN_PACKAGE_LOCK_SCHEMA \<or> \<not> valid_package_id (pl_root_package_id self)
         \<or> pl_packages self = [] \<or> length (pl_packages self) > MAX_PLUGIN_PLAN_ITEMS
      then Inl PackageLockInvalid
      else
      and_then (PluginPackageLockHost_validate X (pl_host self)) (\<lambda>_.
      and_then (PluginPackageLockHost_parsed_use_version X (pl_host self)) (\<lambda>host_version.
      and_then (fold_result (lock_node X (pl_host self) host_version) ([], None) (pl_packages self))
        (\<lambda>(by_id, _).
      if \<not> bt_contains by_id (pl_root_package_id self) then Inl PackageLockInvalid
      else
      and_then (for_each (lock_edges X by_id) (pl_packages self)) (\<lambda>_.
      and_then (PluginPackageLock_reachable_packages self by_id) (\<lambda>reachable.
      if length reachable \<noteq> length (pl_packages self) then Inl PackageLockInvalid
      else and_then (PluginPackageLock_topological_indices self by_id) (\<lambda>_. Inr ())))))))"

definition PluginPackageLock_descriptor_digest ::
  "('v, 'r, 'x) lock_externals_scheme \<Rightarrow> PluginPackageLock \<Rightarrow> string use_result" where
  "PluginPackageLock_descriptor_digest X self =
     and_then (PluginPackageLock_validate X self) (\<lambda>_.
     and_then (canonical_json (lock_json X) PackageLockInvalid self) (\<lambda>bytes.
       Inr (canonical_digest X bytes)))"

definition PluginPackageLock_package :: "PluginPackageLock \<Rightarrow> string \<Rightarrow> LockedPluginPackage option" where
  "PluginPackageLock_package self package_id =
     List.find (\<lambda>package. LockedPluginPackage_package_id package = package_id) (pl_packages self)"

definition PluginPackageLock_install_order ::
  "('v, 'r, 'x) lock_externals_scheme \<Rightarrow> PluginPackageLock \<Rightarrow> LockedPluginPackage list use_result" where
  "PluginPackageLock_install_order X self =
     and_then (PluginPackageLock_validate X self) (\<lambda>_.
       let by_id = bt_collect (map (\<lambda>package. (LockedPluginPackage_package_id package, package))
             (pl_packages self))
       in and_then (PluginPackageLock_topological_indices self by_id) (\<lambda>indices.
            Inr (map (\<lambda>index. pl_packages self ! index) indices)))"

definition PluginPackageLock_removal_order ::
  "('v, 'r, 'x) lock_externals_scheme \<Rightarrow> PluginPackageLock \<Rightarrow> LockedPluginPackage list use_result" where
  "PluginPackageLock_removal_order X self =
     and_then (PluginPackageLock_install_order X self) (\<lambda>order. Inr (rev order))"

definition lock_dependency ::
  "(string, VerifiedPluginCatalogRecord) btree_map \<Rightarrow> PluginPackageDependency
     \<Rightarrow> LockedPluginPackageDependency use_result" where
  "lock_dependency selected dependency =
     and_then (ok_or PackageLockInvalid
       (map_option (\<lambda>rec. cr_version (vr_record rec)) (bt_get selected (pd_package_id dependency))))
       (\<lambda>version. Inr \<lparr>ld_package_id = pd_package_id dependency,
          ld_version_requirement = pd_version_requirement dependency, ld_version = version\<rparr>)"

definition lock_package ::
  "(string, VerifiedPluginCatalogRecord) btree_map \<Rightarrow> VerifiedPluginCatalogRecord
     \<Rightarrow> LockedPluginPackage use_result" where
  "lock_package selected catalog =
     and_then (collect_results (lock_dependency selected) (cr_dependencies (vr_record catalog)))
       (\<lambda>dependencies. Inr \<lparr>lp_catalog = catalog, lp_dependencies = dependencies\<rparr>)"

definition PluginPackageLock_from_selected ::
  "('v, 'r, 'x) lock_externals_scheme \<Rightarrow> string \<Rightarrow> PluginPackageLockHost
     \<Rightarrow> (string, VerifiedPluginCatalogRecord) btree_map \<Rightarrow> PluginPackageLock use_result" where
  "PluginPackageLock_from_selected X root_package_id host selected =
     and_then (collect_results (lock_package selected) (bt_values selected)) (\<lambda>packages.
       let lock = \<lparr>pl_schema = PLUGIN_PACKAGE_LOCK_SCHEMA, pl_root_package_id = root_package_id,
             pl_host = host, pl_packages = packages\<rparr>
       in and_then (PluginPackageLock_validate X lock) (\<lambda>_. Inr lock))"

section \<open>Lemmas: topological order\<close>

abbreviation package_ids :: "LockedPluginPackage list \<Rightarrow> string list" where
  "package_ids packages \<equiv> map LockedPluginPackage_package_id packages"

abbreviation index_of :: "LockedPluginPackage list \<Rightarrow> lock_index" where
  "index_of packages \<equiv> map (\<lambda>p. (LockedPluginPackage_package_id p, p)) packages"

definition lock_depends :: "LockedPluginPackage list \<Rightarrow> (string \<times> string) set" where
  "lock_depends packages =
     {(a, b). \<exists>p \<in> set packages. a = LockedPluginPackage_package_id p \<and> b \<in> set (dependency_ids p)}"

lemma edges_index_of:
  "distinct (package_ids packages) \<Longrightarrow> edges dependency_ids (index_of packages) = lock_depends packages"
  by (auto simp: edges_def lock_depends_def bt_get_graph)

lemma lock_depends_package:
  assumes "distinct (package_ids packages)" "p \<in> set packages"
  shows "lock_depends packages `` {LockedPluginPackage_package_id p} = set (dependency_ids p)"
  using assms by (auto simp: lock_depends_def distinct_map inj_on_def)

lemma ready_packages_set:
  assumes "distinct (package_ids packages)"
  shows "set (ready_packages (index_of packages) completed) =
    {k \<in> set (package_ids packages). k \<notin> completed \<and> lock_depends packages `` {k} \<subseteq> completed}"
proof -
  have "set (ready_packages (index_of packages) completed) =
      {LockedPluginPackage_package_id p | p. p \<in> set packages \<and>
        LockedPluginPackage_package_id p \<notin> completed \<and> set (dependency_ids p) \<subseteq> completed}"
    by (force simp: ready_packages_def dependency_ids_def filter_map comp_def)
  also have "\<dots> = {k \<in> set (package_ids packages). k \<notin> completed \<and> lock_depends packages `` {k} \<subseteq> completed}"
    using lock_depends_package [OF assms] by auto
  finally show ?thesis .
qed

lemma ready_packages_distinct:
  "distinct (package_ids packages) \<Longrightarrow> distinct (ready_packages (index_of packages) completed)"
proof -
  assume "distinct (package_ids packages)"
  then have "distinct (map fst (index_of packages))" by (simp add: comp_def)
  then show ?thesis unfolding ready_packages_def by (rule distinct_map_filter)
qed

text \<open>The state of the loop: the identities completed so far, in an order with dependencies first.\<close>

definition topo_inv ::
  "LockedPluginPackage list \<Rightarrow> (string, nat) btree_map \<Rightarrow> string list \<Rightarrow> string set \<times> nat list \<Rightarrow> bool" where
  "topo_inv packages indices ids state \<longleftrightarrow>
     fst state = set ids \<and> snd state = map (\<lambda>p. the (bt_get indices p)) ids \<and> distinct ids \<and>
     set ids \<subseteq> set (package_ids packages) \<and> deps_first (lock_depends packages) ids"

lemma topo_inv_step:
  assumes d: "distinct (package_ids packages)" and inv: "topo_inv packages indices ids state"
    and step: "complete_ready indices (ready_packages (index_of packages) (fst state)) state = Inr state'"
  shows "topo_inv packages indices (ids @ ready_packages (index_of packages) (fst state)) state'"
proof -
  let ?ready = "ready_packages (index_of packages) (fst state)"
  have "fst state' = fst state \<union> set ?ready"
    "snd state' = snd state @ map (\<lambda>p. the (bt_get indices p)) ?ready"
    using complete_ready_result [of indices ?ready "fst state" "snd state" state'] step by simp_all
  moreover have "deps_first (lock_depends packages) (ids @ ?ready)"
    using inv ready_packages_set [OF d] by (intro deps_first_append) (auto simp: topo_inv_def)
  moreover have "distinct (ids @ ?ready)"
    using inv ready_packages_set [OF d] ready_packages_distinct [OF d] by (auto simp: topo_inv_def)
  ultimately show ?thesis
    using inv ready_packages_set [OF d] by (auto simp: topo_inv_def)
qed

lemma topo_inv_complete:
  assumes "distinct (package_ids packages)" "topo_inv packages indices ids state"
    and "\<not> length (snd state) < length packages"
  shows "set ids = set (package_ids packages)"
proof (rule card_subset_eq)
  have "card (set ids) = length ids" using assms(2) by (simp add: topo_inv_def distinct_card)
  moreover have "card (set (package_ids packages)) = length packages"
    using distinct_card [OF assms(1)] by simp
  moreover have "card (set ids) \<le> card (set (package_ids packages))"
    using assms(2) by (intro card_mono) (auto simp: topo_inv_def)
  ultimately show "card (set ids) = card (set (package_ids packages))"
    using assms(2,3) by (simp add: topo_inv_def)
qed (use assms(2) in \<open>auto simp: topo_inv_def\<close>)

lemma topological_loop_sound:
  assumes "distinct (package_ids packages)" "topo_inv packages indices ids state"
    and "topological_loop (index_of packages) indices (length packages) state = Inr order"
  shows "\<exists>ids. order = map (\<lambda>p. the (bt_get indices p)) ids \<and> distinct ids \<and>
    set ids = set (package_ids packages) \<and> deps_first (lock_depends packages) ids"
  using assms
proof (induction "index_of packages" indices "length packages" state arbitrary: ids
    rule: topological_loop.induct)
  case (1 indices state)
  let ?ready = "ready_packages (index_of packages) (fst state)"
  show ?case
  proof (cases "length (snd state) < length packages")
    case True
    with "1.prems"(3) obtain state' where ready: "?ready \<noteq> []"
      and step: "complete_ready indices ?ready state = Inr state'"
      and rest: "topological_loop (index_of packages) indices (length packages) state' = Inr order"
      by (subst (asm) topological_loop.simps) (auto simp: Let_def and_then_Inr split: if_splits)
    show ?thesis
      by (rule "1.hyps" [OF True refl ready step "1.prems"(1) topo_inv_step [OF "1.prems"(1,2) step] rest])
  next
    case False
    with "1.prems" topo_inv_complete [OF "1.prems"(1,2) False] show ?thesis
      by (subst (asm) topological_loop.simps) (auto simp: topo_inv_def)
  qed
qed

lemma complete_ready_total:
  assumes "\<forall>k \<in> set ready. bt_get indices k \<noteq> None"
  shows "\<exists>state'. complete_ready indices ready state = Inr state'"
  using assms unfolding complete_ready_def
  by (induction ready arbitrary: state) (auto simp: and_then_Inr ok_or_Inr)

lemma topological_loop_total:
  assumes "distinct (package_ids packages)" "topo_inv packages indices ids state"
    and "\<forall>k \<in> set (package_ids packages). bt_get indices k \<noteq> None"
    and "Range (lock_depends packages) \<subseteq> set (package_ids packages)" "acyclic (lock_depends packages)"
  shows "\<exists>order. topological_loop (index_of packages) indices (length packages) state = Inr order"
  using assms
proof (induction "index_of packages" indices "length packages" state arbitrary: ids
    rule: topological_loop.induct)
  case (1 indices state)
  let ?ready = "ready_packages (index_of packages) (fst state)"
  let ?K = "set (package_ids packages)" and ?E = "lock_depends packages"
  show ?case
  proof (cases "length (snd state) < length packages")
    case True
    have "?K - set ids \<noteq> {}"
    proof
      assume "?K - set ids = {}"
      then have "card ?K \<le> card (set ids)" by (intro card_mono) auto
      moreover have "card ?K = length packages" using distinct_card [OF "1.prems"(1)] by simp
      moreover have "card (set ids) = length (snd state)"
        using "1.prems"(2) by (simp add: topo_inv_def distinct_card)
      ultimately show False using True by simp
    qed
    then obtain x where x: "x \<in> ?K - set ids" "\<forall>d. (x, d) \<in> ?E \<longrightarrow> d \<notin> ?K - set ids"
      using finite_acyclic_ready [of "?K - set ids" ?E] "1.prems"(5) by auto
    then have "?E `` {x} \<subseteq> set ids" using "1.prems"(4) by blast
    with x(1) have "x \<in> set ?ready"
      using "1.prems"(2) by (simp add: ready_packages_set [OF "1.prems"(1)] topo_inv_def)
    then have ready: "?ready \<noteq> []" by auto
    have "\<forall>k \<in> set ?ready. bt_get indices k \<noteq> None"
      using "1.prems"(3) unfolding ready_packages_set [OF "1.prems"(1)] by blast
    then obtain state' where step: "complete_ready indices ?ready state = Inr state'"
      using complete_ready_total by blast
    from "1.hyps" [OF True refl ready step "1.prems"(1) topo_inv_step [OF "1.prems"(1,2) step]
        "1.prems"(3-5)]
    show ?thesis using True ready step by (subst topological_loop.simps) simp
  qed (subst topological_loop.simps, simp)
qed

section \<open>Lemmas: validity\<close>

definition node_ok ::
  "('v, 'r, 'x) lock_externals_scheme \<Rightarrow> PluginPackageLockHost \<Rightarrow> LockedPluginPackage \<Rightarrow> bool" where
  "node_ok X host p \<longleftrightarrow>
     VerifiedPluginCatalogRecord_validate X (lp_catalog p) = Inr () \<and>
     \<not> is_withdrawn (cr_availability (vr_record (lp_catalog p))) \<and>
     cr_target (vr_record (lp_catalog p)) \<in> {''any'', plh_target host} \<and>
     (\<exists>v r. version_parse X (plh_use_version host) = Some v \<and>
        req_parse X (cr_requires_use (vr_record (lp_catalog p))) = Some r \<and> req_matches X r v)"

definition edge_ok ::
  "('v, 'r, 'x) lock_externals_scheme \<Rightarrow> LockedPluginPackage list
     \<Rightarrow> LockedPluginPackageDependency \<Rightarrow> PluginPackageDependency \<Rightarrow> bool" where
  "edge_ok X packages e d \<longleftrightarrow>
     ld_package_id e = pd_package_id d \<and> ld_version_requirement e = pd_version_requirement d \<and>
     (\<exists>q \<in> set packages. \<exists>v r. LockedPluginPackage_package_id q = pd_package_id d \<and>
        ld_version e = LockedPluginPackage_version q \<and>
        version_parse X (LockedPluginPackage_version q) = Some v \<and>
        version_string X v = LockedPluginPackage_version q \<and>
        req_parse X (pd_version_requirement d) = Some r \<and>
        req_string X r = pd_version_requirement d \<and> req_matches X r v)"

lemma lock_edge_iff:
  assumes "distinct (package_ids packages)"
  shows "lock_edge X (index_of packages) (e, d) = Inr () \<longleftrightarrow> edge_ok X packages e d"
  unfolding lock_edge_def edge_ok_def Let_def and_then_Inr ok_or_Inr if_Inl_Inr fst_conv snd_conv
    bt_get_graph [OF assms]
  by auto

lemma lock_node_step:
  assumes host: "version_parse X (plh_use_version host) = Some v"
  shows "lock_node X host v (by_id, previous) p = Inr state' \<longleftrightarrow>
    node_ok X host p \<and> \<not> out_of_order previous (LockedPluginPackage_package_id p) \<and>
    \<not> bt_contains by_id (LockedPluginPackage_package_id p) \<and>
    state' = (bt_insert (LockedPluginPackage_package_id p) p by_id, Some (LockedPluginPackage_package_id p))"
proof -
  have schema: "cr_schema (vr_record (lp_catalog p)) = PLUGIN_CATALOG_SCHEMA_V3"
    if "VerifiedPluginCatalogRecord_validate X (lp_catalog p) = Inr ()"
    using that unfolding VerifiedPluginCatalogRecord_validate_def and_then_Inr map_err_Inr
      PluginCatalogRecord_validate_def if_Inl_Inr validate_identity_def by blast
  have req: "(case req_parse X q of None \<Rightarrow> False | Some r \<Rightarrow> req_matches X r v) \<longleftrightarrow>
      (\<exists>v r. version_parse X (plh_use_version host) = Some v \<and> req_parse X q = Some r \<and> req_matches X r v)" for q
    using host by (cases "req_parse X q") simp_all
  show ?thesis
    unfolding lock_node_def Let_def and_then_Inr map_err_Inr if_Inl_Inr req fst_conv snd_conv
      LockedPluginPackage_package_id_def node_ok_def
    using schema by auto
qed

definition nodes_inv :: "('v, 'r, 'x) lock_externals_scheme \<Rightarrow> PluginPackageLockHost
    \<Rightarrow> LockedPluginPackage list \<Rightarrow> lock_index \<times> string option \<Rightarrow> bool" where
  "nodes_inv X host seen state \<longleftrightarrow>
     (\<forall>p \<in> set seen. node_ok X host p) \<and> sorted_wrt (<) (package_ids seen) \<and>
     state = (index_of seen, if seen = [] then None else Some (LockedPluginPackage_package_id (last seen)))"

lemma lock_nodes_sound:
  assumes host: "version_parse X (plh_use_version host) = Some v"
    and fold: "fold_result (lock_node X host v) ([], None) packages = Inr state"
  shows "nodes_inv X host packages state"
proof -
  have "nodes_inv X host (seen @ [p]) state'"
    if inv: "nodes_inv X host seen state" and step: "lock_node X host v state p = Inr state'"
    for seen state p state'
  proof -
    let ?id = "LockedPluginPackage_package_id"
    from inv have st: "state = (index_of seen, if seen = [] then None else Some (?id (last seen)))"
      by (simp add: nodes_inv_def)
    note parts = step [unfolded st lock_node_step [OF host]]
    then have "sorted_wrt (<) (package_ids (seen @ [p]))"
      using inv by (intro sorted_snoc_last) (auto simp: nodes_inv_def not_le split: if_splits)
    moreover from this have "bt_insert (?id p) p (index_of seen) = index_of (seen @ [p])"
      by (subst bt_insert_last) (auto simp: sorted_wrt_append)
    ultimately show ?thesis using inv parts by (auto simp: nodes_inv_def)
  qed
  from fold_result_invariant [OF fold, of "nodes_inv X host" "[]", OF _ this] show ?thesis
    by (simp add: nodes_inv_def)
qed

lemma lock_nodes_complete:
  assumes host: "version_parse X (plh_use_version host) = Some v"
    and "\<forall>p \<in> set packages. node_ok X host p" "sorted_wrt (<) (package_ids packages)"
  shows "\<exists>previous. fold_result (lock_node X host v) ([], None) packages = Inr (index_of packages, previous)"
proof -
  have "\<exists>previous. fold_result (lock_node X host v)
      (index_of seen, if seen = [] then None else Some (LockedPluginPackage_package_id (last seen))) rest
      = Inr (index_of (seen @ rest), previous)"
    if "\<forall>p \<in> set rest. node_ok X host p" "sorted_wrt (<) (package_ids (seen @ rest))" for seen rest
    using that
  proof (induction rest arbitrary: seen)
    case (Cons p rest)
    let ?id = "LockedPluginPackage_package_id"
    have less: "\<forall>q \<in> set seen. ?id q < ?id p" using Cons.prems(2) by (auto simp: sorted_wrt_append)
    then have "\<not> bt_contains (index_of seen) (?id p)"
      by (auto simp: bt_keys_contains [symmetric])
    moreover have "bt_insert (?id p) p (index_of seen) = index_of (seen @ [p])"
      using less by (subst bt_insert_last) auto
    moreover have "\<not> out_of_order (if seen = [] then None else Some (?id (last seen))) (?id p)"
      using less by (auto simp: not_le)
    ultimately have "lock_node X host v (index_of seen, if seen = [] then None else Some (?id (last seen))) p
        = Inr (index_of (seen @ [p]), Some (?id p))"
      using Cons.prems(1) by (simp add: lock_node_step [OF host])
    with Cons.IH [of "seen @ [p]"] Cons.prems show ?case by simp
  qed simp
  from this [of packages "[]"] assms(2,3) show ?thesis by simp
qed

lemma lock_nodes_iff:
  assumes "version_parse X (plh_use_version host) = Some v"
  shows "(\<exists>previous. fold_result (lock_node X host v) ([], None) packages = Inr (by_id, previous)) \<longleftrightarrow>
    (\<forall>p \<in> set packages. node_ok X host p) \<and> sorted_wrt (<) (package_ids packages) \<and>
    by_id = index_of packages"
  using lock_nodes_sound [OF assms] lock_nodes_complete [OF assms]
  by (fastforce simp: nodes_inv_def)

lemma lock_edges_iff:
  assumes "distinct (package_ids packages)" "node_ok X host p"
  shows "lock_edges X (index_of packages) p = Inr () \<longleftrightarrow>
    list_all2 (edge_ok X packages) (lp_dependencies p) (cr_dependencies (vr_record (lp_catalog p)))"
proof -
  let ?signed = "cr_dependencies (vr_record (lp_catalog p))"
  have "PluginCatalogRecord_validate X (vr_record (lp_catalog p)) = Inr ()"
    using assms(2) by (auto simp: node_ok_def VerifiedPluginCatalogRecord_validate_def and_then_Inr map_err_Inr)
  then have sorted: "sorted_wrt (<) (map pd_package_id ?signed)"
    by (rule record_validate_parts) (simp add: dependency_validate_set_iff)
  have ids: "map ld_package_id (lp_dependencies p) = map pd_package_id ?signed"
    if "list_all2 (edge_ok X packages) (lp_dependencies p) ?signed"
    using that by (auto simp: list_all2_conv_all_nth edge_ok_def intro!: nth_equalityI)
  have "lock_edges X (index_of packages) p = Inr () \<longleftrightarrow>
      sorted_wrt (<) (map ld_package_id (lp_dependencies p)) \<and>
      list_all2 (edge_ok X packages) (lp_dependencies p) ?signed"
    unfolding lock_edges_def Let_def if_Inl_Inr for_each_Inr list_all2_iff
    using lock_edge_iff [OF assms(1)] by auto
  with sorted ids show ?thesis by auto
qed

lemma edges_range:
  assumes "\<forall>p \<in> set packages.
    list_all2 (edge_ok X packages) (lp_dependencies p) (cr_dependencies (vr_record (lp_catalog p)))"
  shows "Range (lock_depends packages) \<subseteq> set (package_ids packages)"
proof
  fix b assume "b \<in> Range (lock_depends packages)"
  then obtain p e where p: "p \<in> set packages" "e \<in> set (lp_dependencies p)" "b = ld_package_id e"
    by (auto simp: lock_depends_def dependency_ids_def)
  with assms obtain d where "edge_ok X packages e d"
    by (metis in_set_conv_nth list_all2_conv_all_nth)
  with p(3) show "b \<in> set (package_ids packages)" by (force simp: edge_ok_def)
qed

lemma reachable_iff:
  assumes d: "distinct (package_ids (pl_packages l))"
    and root: "pl_root_package_id l \<in> set (package_ids (pl_packages l))"
    and range: "Range (lock_depends (pl_packages l)) \<subseteq> set (package_ids (pl_packages l))"
  shows "\<exists>reachable. PluginPackageLock_reachable_packages l (index_of (pl_packages l)) = Inr reachable \<and>
    (length reachable = length (pl_packages l) \<longleftrightarrow>
     (lock_depends (pl_packages l))\<^sup>* `` {pl_root_package_id l} = set (package_ids (pl_packages l)))"
proof -
  let ?E = "lock_depends (pl_packages l)" and ?K = "set (package_ids (pl_packages l))"
    and ?root = "pl_root_package_id l" and ?m = "index_of (pl_packages l)"
  have E: "edges dependency_ids ?m = ?E" by (rule edges_index_of [OF d])
  have start: "closure_inv dependency_ids ?m {?root} [?root] [?root]"
    by (rule closure_inv_start) simp_all
  have "?E\<^sup>* `` {?root} \<subseteq> ?K"
  proof
    fix k assume "k \<in> ?E\<^sup>* `` {?root}"
    then have "(?root, k) \<in> ?E\<^sup>*" by simp
    then show "k \<in> ?K" using root range by (cases rule: rtranclE) auto
  qed
  then have "(edges dependency_ids ?m)\<^sup>* `` {?root} \<subseteq> set (bt_keys ?m)" by (simp add: E)
  from worklist_closure_total [where e = PackageLockInvalid, OF start this] obtain reachable where
    eq: "worklist_closure PackageLockInvalid dependency_ids ?m [?root] [?root] = Inr reachable" by (elim exE)
  have set: "set reachable = ?E\<^sup>* `` {?root}" "set reachable \<subseteq> ?K"
    using worklist_closure_spec [OF start eq] by (simp_all add: E)
  have "length reachable = card (set reachable)"
    using worklist_closure_sorted [OF eq] by (simp add: sorted_less_length)
  moreover have "length (pl_packages l) = card ?K" using distinct_card [OF d] by simp
  ultimately have "length reachable = length (pl_packages l) \<longleftrightarrow> set reachable = ?K"
    using set(2) by (metis List.finite_set card_subset_eq)
  with eq set(1) show ?thesis by (auto simp: PluginPackageLock_reachable_packages_def)
qed

lemma package_index:
  assumes "sorted_wrt (<) (package_ids packages)" "i < length packages"
  shows "bt_get (bt_collect (map (\<lambda>(index, package). (LockedPluginPackage_package_id package, index))
      (List.enumerate 0 packages))) (LockedPluginPackage_package_id (packages ! i)) = Some i"
proof -
  let ?ps = "map (\<lambda>(index, package). (LockedPluginPackage_package_id package, index))
      (List.enumerate 0 packages)"
  have ids: "map fst ?ps = package_ids packages"
    by (rule nth_equalityI) (simp_all add: nth_enumerate_eq)
  then have "bt_collect ?ps = ?ps" using assms(1) by (simp add: bt_collect_sorted)
  moreover have "map_of ?ps (LockedPluginPackage_package_id (packages ! i)) = Some i"
  proof (rule map_of_is_SomeI)
    show "distinct (map fst ?ps)" using ids sorted_less_distinct [OF assms(1)] by simp
    have "?ps ! i = (LockedPluginPackage_package_id (packages ! i), i)"
      using assms(2) by (simp add: nth_enumerate_eq)
    then show "(LockedPluginPackage_package_id (packages ! i), i) \<in> set ?ps"
      using assms(2) nth_mem [of i ?ps] by simp
  qed
  ultimately show ?thesis by (simp add: bt_get_def)
qed

lemma topological_indices_iff:
  assumes sorted: "sorted_wrt (<) (package_ids (pl_packages l))"
    and range: "Range (lock_depends (pl_packages l)) \<subseteq> set (package_ids (pl_packages l))"
  shows "(\<exists>order. PluginPackageLock_topological_indices l (index_of (pl_packages l)) = Inr order) \<longleftrightarrow>
    acyclic (lock_depends (pl_packages l))"
proof -
  let ?P = "pl_packages l"
  let ?idx = "bt_collect (map (\<lambda>(index, package). (LockedPluginPackage_package_id package, index))
      (List.enumerate 0 ?P))"
  have d: "distinct (package_ids ?P)" by (rule sorted_less_distinct [OF sorted])
  have inv: "topo_inv ?P ?idx [] ({}, [])" by (simp add: topo_inv_def)
  have idx: "\<forall>k \<in> set (package_ids ?P). bt_get ?idx k \<noteq> None"
  proof
    fix k assume "k \<in> set (package_ids ?P)"
    then obtain i where "i < length ?P" "k = LockedPluginPackage_package_id (?P ! i)"
      by (auto simp: in_set_conv_nth)
    then show "bt_get ?idx k \<noteq> None" using package_index [OF sorted] by simp
  qed
  have dom: "Domain (lock_depends ?P) \<subseteq> set (package_ids ?P)" by (auto simp: lock_depends_def)
  show ?thesis
    unfolding PluginPackageLock_topological_indices_def
  proof
    assume "\<exists>order. topological_loop (index_of ?P) ?idx (length ?P) ({}, []) = Inr order"
    then obtain ids where "set ids = set (package_ids ?P)" "deps_first (lock_depends ?P) ids"
      using topological_loop_sound [OF d inv] by blast
    then show "acyclic (lock_depends ?P)" using dom by (intro deps_first_acyclic [of _ ids]) simp_all
  next
    assume "acyclic (lock_depends ?P)"
    then show "\<exists>order. topological_loop (index_of ?P) ?idx (length ?P) ({}, []) = Inr order"
      by (rule topological_loop_total [OF d inv idx range])
  qed
qed

lemma host_validate_version:
  "PluginPackageLockHost_validate X host = Inr () \<Longrightarrow>
     \<exists>v. version_parse X (plh_use_version host) = Some v \<and>
       PluginPackageLockHost_parsed_use_version X host = Inr v"
  by (auto simp: PluginPackageLockHost_validate_def PluginPackageLockHost_parsed_use_version_def
      and_then_Inr ok_or_Inr)

lemma lock_validate_iff:
  "PluginPackageLock_validate X l = Inr () \<longleftrightarrow>
     pl_schema l = PLUGIN_PACKAGE_LOCK_SCHEMA \<and> valid_package_id (pl_root_package_id l) \<and>
     length (pl_packages l) \<le> MAX_PLUGIN_PLAN_ITEMS \<and>
     PluginPackageLockHost_validate X (pl_host l) = Inr () \<and>
     (\<forall>p \<in> set (pl_packages l). node_ok X (pl_host l) p) \<and>
     sorted_wrt (<) (package_ids (pl_packages l)) \<and>
     (\<forall>p \<in> set (pl_packages l).
        list_all2 (edge_ok X (pl_packages l)) (lp_dependencies p) (cr_dependencies (vr_record (lp_catalog p)))) \<and>
     (lock_depends (pl_packages l))\<^sup>* `` {pl_root_package_id l} = set (package_ids (pl_packages l)) \<and>
     acyclic (lock_depends (pl_packages l))"
  (is "_ \<longleftrightarrow> ?head \<and> ?root \<and> ?len \<and> ?host \<and> ?nodes \<and> ?sorted \<and> ?edges \<and> ?reach \<and> ?acyc")
proof -
  let ?P = "pl_packages l" and ?m = "index_of (pl_packages l)"
  have "PluginPackageLock_validate X l = Inr () \<longleftrightarrow>
      ?head \<and> ?root \<and> ?P \<noteq> [] \<and> ?len \<and> ?host \<and> ?nodes \<and> ?sorted \<and>
      pl_root_package_id l \<in> set (package_ids ?P) \<and>
      (\<forall>p \<in> set ?P. lock_edges X ?m p = Inr ()) \<and>
      (\<exists>r. PluginPackageLock_reachable_packages l ?m = Inr r \<and> length r = length ?P) \<and>
      (\<exists>order. PluginPackageLock_topological_indices l ?m = Inr order)"
  proof (cases ?host)
    case True
    then obtain v where v: "version_parse X (plh_use_version (pl_host l)) = Some v"
      "PluginPackageLockHost_parsed_use_version X (pl_host l) = Inr v"
      using host_validate_version by blast
    have "PluginPackageLock_validate X l = Inr () \<longleftrightarrow> ?head \<and> ?root \<and> ?P \<noteq> [] \<and> ?len \<and>
      (\<exists>by_id. (\<exists>previous. fold_result (lock_node X (pl_host l) v) ([], None) ?P = Inr (by_id, previous)) \<and>
        bt_contains by_id (pl_root_package_id l) \<and> (\<forall>p \<in> set ?P. lock_edges X by_id p = Inr ()) \<and>
        (\<exists>r. PluginPackageLock_reachable_packages l by_id = Inr r \<and> length r = length ?P) \<and>
        (\<exists>order. PluginPackageLock_topological_indices l by_id = Inr order))"
      by (auto simp: PluginPackageLock_validate_def if_Inl_Inr and_then_Inr for_each_Inr True v(2)
          split: prod.splits)
    then show ?thesis
      unfolding lock_nodes_iff [OF v(1)] by (auto simp: True bt_keys_contains [symmetric])
  qed (simp add: PluginPackageLock_validate_def and_then_Inr if_Inl_Inr)
  also have "\<dots> \<longleftrightarrow> ?head \<and> ?root \<and> ?len \<and> ?host \<and> ?nodes \<and> ?sorted \<and> ?edges \<and> ?reach \<and> ?acyc"
  proof (cases "?nodes \<and> ?sorted")
    case True
    then have d: "distinct (package_ids ?P)" by (simp add: sorted_less_distinct)
    have edges: "(\<forall>p \<in> set ?P. lock_edges X ?m p = Inr ()) \<longleftrightarrow> ?edges"
      using lock_edges_iff [OF d] True by blast
    have root: "?reach \<Longrightarrow> pl_root_package_id l \<in> set (package_ids ?P)" by blast
    have "?edges \<Longrightarrow> pl_root_package_id l \<in> set (package_ids ?P) \<Longrightarrow>
        (\<exists>r. PluginPackageLock_reachable_packages l ?m = Inr r \<and> length r = length ?P) \<longleftrightarrow> ?reach"
      using reachable_iff [OF d _ edges_range] by fastforce
    moreover have "?edges \<Longrightarrow> (\<exists>order. PluginPackageLock_topological_indices l ?m = Inr order) \<longleftrightarrow> ?acyc"
      using True edges_range by (intro topological_indices_iff) blast+
    moreover have "pl_root_package_id l \<in> set (package_ids ?P) \<Longrightarrow> ?P \<noteq> []" by auto
    ultimately show ?thesis using edges root by blast
  qed blast
  finally show ?thesis .
qed

lemma install_order_spec:
  assumes valid: "PluginPackageLock_validate X l = Inr ()"
  shows "\<exists>order. PluginPackageLock_install_order X l = Inr order \<and> distinct order \<and>
    set order = set (pl_packages l) \<and> deps_first (lock_depends (pl_packages l)) (package_ids order)"
proof -
  let ?P = "pl_packages l" and ?id = LockedPluginPackage_package_id
  let ?idx = "bt_collect (map (\<lambda>(index, package). (?id package, index)) (List.enumerate 0 ?P))"
  note v = valid [unfolded lock_validate_iff]
  then have sorted: "sorted_wrt (<) (package_ids ?P)" by blast
  then have d: "distinct (package_ids ?P)" by (rule sorted_less_distinct)
  have collect: "bt_collect (index_of ?P) = index_of ?P"
    using sorted by (simp add: bt_collect_sorted comp_def)
  have "acyclic (lock_depends ?P)" "Range (lock_depends ?P) \<subseteq> set (package_ids ?P)"
    using v edges_range by blast+
  then obtain indices where ind: "PluginPackageLock_topological_indices l (index_of ?P) = Inr indices"
    using topological_indices_iff [OF sorted] by blast
  have "topo_inv ?P ?idx [] ({}, [])" by (simp add: topo_inv_def)
  from topological_loop_sound [OF d this ind [unfolded PluginPackageLock_topological_indices_def]]
  obtain ids where ids: "indices = map (\<lambda>p. the (bt_get ?idx p)) ids" "distinct ids"
    "set ids = set (package_ids ?P)" "deps_first (lock_depends ?P) ids" by blast
  let ?order = "map (\<lambda>index. ?P ! index) indices"
  have at: "?P ! the (bt_get ?idx (?id p)) = p" if "p \<in> set ?P" for p
    using that package_index [OF sorted] by (auto simp: in_set_conv_nth)
  have "package_ids ?order = map (\<lambda>k. ?id (?P ! the (bt_get ?idx k))) ids"
    by (simp add: ids(1))
  also have "\<dots> = ids"
    using ids(3) at by (intro map_idI) auto
  finally have order_ids: "package_ids ?order = ids" .
  then have "distinct ?order" using ids(2) by (metis distinct_map)
  moreover have "set ?order = set ?P"
    using ids(3) at by (auto simp: ids(1) image_image image_def)
  moreover have "PluginPackageLock_install_order X l = Inr ?order"
    using valid ind collect by (simp add: PluginPackageLock_install_order_def)
  ultimately show ?thesis using ids(4) order_ids by auto
qed

section \<open>Properties\<close>

text \<open>
  What a lock promises, stated without loops: its nodes are compatible, non-withdrawn releases with
  verified evidence; every signed dependency is met by the locked node of that name; the nodes are
  exactly the dependency closure of the root; and the dependencies are acyclic.
\<close>

definition lock_consistent :: "('v, 'r, 'x) lock_externals_scheme \<Rightarrow> PluginPackageLock \<Rightarrow> bool" where
  "lock_consistent X l \<longleftrightarrow>
     pl_schema l = PLUGIN_PACKAGE_LOCK_SCHEMA \<and> valid_package_id (pl_root_package_id l) \<and>
     length (pl_packages l) \<le> MAX_PLUGIN_PLAN_ITEMS \<and>
     PluginPackageLockHost_validate X (pl_host l) = Inr () \<and>
     (\<forall>p \<in> set (pl_packages l). node_ok X (pl_host l) p \<and>
        list_all2 (edge_ok X (pl_packages l)) (lp_dependencies p)
          (cr_dependencies (vr_record (lp_catalog p)))) \<and>
     sorted_wrt (<) (map LockedPluginPackage_package_id (pl_packages l)) \<and>
     (lock_depends (pl_packages l))\<^sup>* `` {pl_root_package_id l} =
       set (map LockedPluginPackage_package_id (pl_packages l)) \<and>
     acyclic (lock_depends (pl_packages l))"

text \<open>C4: lock validation accepts exactly the consistent locks.\<close>

theorem lock_validate_exact:
  "PluginPackageLock_validate X l = Inr () \<longleftrightarrow> lock_consistent X l"
  unfolding lock_validate_iff lock_consistent_def by blast

text \<open>
  C11: every valid lock has an install order; it lists each locked package exactly once, after all of
  its dependencies, and the removal order is its reverse, so that no package is removed before a
  package that depends on it.
\<close>

theorem install_order_dependencies_first:
  assumes "PluginPackageLock_validate X l = Inr ()"
  shows "\<exists>order. PluginPackageLock_install_order X l = Inr order \<and>
    PluginPackageLock_removal_order X l = Inr (rev order) \<and>
    distinct order \<and> set order = set (pl_packages l) \<and>
    (\<forall>i < length order. \<forall>d \<in> set (dependency_ids (order ! i)).
       \<exists>j < i. LockedPluginPackage_package_id (order ! j) = d)"
proof -
  from install_order_spec [OF assms] obtain order where o: "PluginPackageLock_install_order X l = Inr order"
    "distinct order" "set order = set (pl_packages l)"
    "deps_first (lock_depends (pl_packages l)) (package_ids order)" by blast
  have "\<exists>j < i. LockedPluginPackage_package_id (order ! j) = d"
    if i: "i < length order" and d: "d \<in> set (dependency_ids (order ! i))" for i d
  proof -
    have "(package_ids order ! i, d) \<in> lock_depends (pl_packages l)"
      using i d o(3) by (force simp: lock_depends_def)
    from deps_first_nth [OF o(4) _ this] i show ?thesis by auto
  qed
  with o show ?thesis by (auto simp: PluginPackageLock_removal_order_def)
qed

abbreviation witness_lock_externals :: "(string, string) lock_externals" where
  "witness_lock_externals \<equiv> witness_externals_with (lock_externals_ext (\<lambda>_. Some ''l'') ())"

definition witness_dependency :: "string \<Rightarrow> PluginPackageDependency" where
  "witness_dependency name = \<lparr>pd_package_id = ''acme/'' @ name, pd_version_requirement = ''*''\<rparr>"

definition witness_verified :: "string \<Rightarrow> string \<Rightarrow> PluginPackageDependency list \<Rightarrow> VerifiedPluginCatalogRecord" where
  "witness_verified name version deps =
     \<lparr>vr_record = witness_record name version deps, vr_provenance =
        \<lparr>vp_registry_name = ''main'', vp_registry_url = ''https://h'', vp_root_sha256 = zero_digest,
         vp_root_version = 1, vp_timestamp_version = 1, vp_snapshot_version = 1, vp_targets_version = 1,
         vp_catalog_record_digest = zero_digest\<rparr>\<rparr>"

definition witness_lock :: PluginPackageLock where
  "witness_lock =
     \<lparr>pl_schema = PLUGIN_PACKAGE_LOCK_SCHEMA, pl_root_package_id = ''acme/a'',
      pl_host = \<lparr>plh_target = ''linux'', plh_use_version = ''1.0.0''\<rparr>,
      pl_packages =
        [\<lparr>lp_catalog = witness_verified ''a'' ''1.0.0'' [witness_dependency ''b''],
          lp_dependencies = [\<lparr>ld_package_id = ''acme/b'', ld_version_requirement = ''*'',
            ld_version = ''2.0.0''\<rparr>]\<rparr>,
         \<lparr>lp_catalog = witness_verified ''b'' ''2.0.0'' [], lp_dependencies = []\<rparr>]\<rparr>"

lemma witness_lock_valid: "PluginPackageLock_validate witness_lock_externals witness_lock = Inr ()"
  by code_simp

theorem install_order_dependencies_first_witness:
  "\<exists>order. PluginPackageLock_install_order witness_lock_externals witness_lock = Inr order \<and>
     set order = set (pl_packages witness_lock)"
  using install_order_dependencies_first [OF witness_lock_valid] by blast

end
