(* ===== verification/Package_Resolution.thy ===== *)
theory Package_Resolution
  imports Package_Lock
begin

text \<open>
  The dependency resolver, \<open>crates/core/src/plugin/package_resolution.rs\<close>: a bounded backtracking
  search for one version per package that satisfies every signed requirement, started from an exact
  root and a set of verified candidates. Mutable search state is passed explicitly: \<open>attempts\<close> is
  threaded through every call, while \<open>selected\<close> and the depth-first search's \<open>visiting\<close> set are passed
  by value, since the code undoes its change to them before it returns a failure (respectively a
  verdict).
\<close>

section \<open>Data\<close>

type_synonym selection = "(string, VerifiedPluginCatalogRecord) btree_map"

record 'r Constraint =
  con_required_by :: string
  con_requirement :: 'r

datatype ResolutionFailure =
    Missing string
  | Incompatible string
  | Conflict string
  | Cycle
  | Limit

datatype Ordering = Less | Equal | Greater

definition MAX_PLUGIN_RESOLUTION_CANDIDATES :: nat where
  "MAX_PLUGIN_RESOLUTION_CANDIDATES = 16384"

definition MAX_PLUGIN_RESOLUTION_ATTEMPTS :: nat where
  "MAX_PLUGIN_RESOLUTION_ATTEMPTS = 65536"

section \<open>Candidates\<close>

definition validate_candidate ::
  "('v, 'r, 'x) lock_externals_scheme \<Rightarrow> VerifiedPluginCatalogRecord \<Rightarrow> unit use_result" where
  "validate_candidate X candidate =
     and_then (map_err (\<lambda>_. PackageResolutionInvalid) (VerifiedPluginCatalogRecord_validate X candidate)) (\<lambda>_.
       if cr_schema (vr_record candidate) \<noteq> PLUGIN_CATALOG_SCHEMA_V3 then Inl PackageResolutionInvalid
       else Inr ())"

definition is_host_compatible ::
  "('v, 'r, 'x) lock_externals_scheme \<Rightarrow> VerifiedPluginCatalogRecord \<Rightarrow> PluginPackageLockHost
     \<Rightarrow> bool use_result" where
  "is_host_compatible X candidate host =
     and_then (ok_or PackageResolutionInvalid (req_parse X (cr_requires_use (vr_record candidate))))
       (\<lambda>requirement.
          if cr_target (vr_record candidate) = ''any'' \<or> cr_target (vr_record candidate) = plh_target host
          then and_then (PluginPackageLockHost_parsed_use_version X host) (\<lambda>version.
                 Inr (req_matches X requirement version))
          else Inr False)"

definition channel_rank :: "VerifiedPluginCatalogRecord \<Rightarrow> nat" where
  "channel_rank rec = (case cr_channel (vr_record rec) of Stable \<Rightarrow> 0 | Beta \<Rightarrow> 1 | Nightly \<Rightarrow> 2)"

definition target_rank :: "VerifiedPluginCatalogRecord \<Rightarrow> nat" where
  "target_rank rec = (if cr_target (vr_record rec) = ''any'' then 1 else 0)"

definition compare_keys :: "'k :: linorder \<Rightarrow> 'k \<Rightarrow> Ordering" where
  "compare_keys a b = (if a < b then Less else if a = b then Equal else Greater)"

fun compare_versions :: "('v, 'r, 'x) externals_scheme \<Rightarrow> 'v option \<Rightarrow> 'v option \<Rightarrow> Ordering" where
  "compare_versions X None None = Equal"
| "compare_versions X None (Some b) = Less"
| "compare_versions X (Some a) None = Greater"
| "compare_versions X (Some a) (Some b) =
     (if a = b then Equal else if version_le X a b then Less else Greater)"

definition then_with :: "Ordering \<Rightarrow> Ordering \<Rightarrow> Ordering" where
  "then_with a b = (if a = Equal then b else a)"

definition compare_candidates ::
  "('v, 'r, 'x) lock_externals_scheme \<Rightarrow> VerifiedPluginCatalogRecord \<Rightarrow> VerifiedPluginCatalogRecord
     \<Rightarrow> Ordering" where
  "compare_candidates X left right =
     then_with (compare_versions X (version_parse X (cr_version (vr_record right)))
                  (version_parse X (cr_version (vr_record left))))
       (then_with (compare_keys (channel_rank left) (channel_rank right))
         (then_with (compare_keys (target_rank left) (target_rank right))
           (compare_keys (vp_catalog_record_digest (vr_provenance left))
             (vp_catalog_record_digest (vr_provenance right)))))"

text \<open>\<open>slice::sort_by\<close>, a stable sort.\<close>

fun insert_by :: "('a \<Rightarrow> 'a \<Rightarrow> Ordering) \<Rightarrow> 'a \<Rightarrow> 'a list \<Rightarrow> 'a list" where
  "insert_by compare x [] = [x]"
| "insert_by compare x (y # ys) =
     (if compare x y = Greater then y # insert_by compare x ys else x # y # ys)"

definition sort_by :: "('a \<Rightarrow> 'a \<Rightarrow> Ordering) \<Rightarrow> 'a list \<Rightarrow> 'a list" where
  "sort_by compare xs = foldr (insert_by compare) xs []"

text \<open>\<open>entry(key).or_default().push(value)\<close>.\<close>

definition bt_push :: "'k :: linorder \<Rightarrow> 'a \<Rightarrow> ('k, 'a list) btree_map \<Rightarrow> ('k, 'a list) btree_map" where
  "bt_push k x m = bt_insert k ((case bt_get m k of None \<Rightarrow> [] | Some xs \<Rightarrow> xs) @ [x]) m"

definition registry_identity :: "VerifiedCatalogProvenance \<Rightarrow> string \<times> string \<times> string" where
  "registry_identity provenance =
     (vp_registry_name provenance, vp_registry_url provenance, vp_root_sha256 provenance)"

definition compatible_candidates ::
  "('v, 'r, 'x) lock_externals_scheme \<Rightarrow> PluginPackageLockHost
     \<Rightarrow> (string, VerifiedPluginCatalogRecord list) btree_map \<Rightarrow> string
     \<Rightarrow> ResolutionFailure + VerifiedPluginCatalogRecord list" where
  "compatible_candidates X host candidates package_id =
     (case bt_get candidates package_id of
        None \<Rightarrow> Inl (Missing package_id)
      | Some records \<Rightarrow>
          (let registries = bs_collect (map (\<lambda>rec. registry_identity (vr_provenance rec)) records) in
           if length registries > 1 then Inl (Incompatible (''registry-ambiguous:'' @ package_id))
           else
             (let compatible = filter (\<lambda>rec.
                    \<not> is_withdrawn (cr_availability (vr_record rec)) \<and>
                    is_host_compatible X rec host = Inr True) records
              in if compatible = [] then Inl (Incompatible package_id) else Inr compatible)))"

section \<open>Constraints\<close>

definition collect_constraint ::
  "('v, 'r, 'x) externals_scheme \<Rightarrow> string \<Rightarrow> (string, 'r Constraint list) btree_map \<Rightarrow> PluginPackageDependency
     \<Rightarrow> ResolutionFailure + (string, 'r Constraint list) btree_map" where
  "collect_constraint X package_id constraints dependency =
     and_then (map_err (\<lambda>_. Conflict (pd_package_id dependency))
       (PluginPackageDependency_parsed_requirement X dependency)) (\<lambda>requirement.
         Inr (bt_push (pd_package_id dependency)
           \<lparr>con_required_by = package_id, con_requirement = requirement\<rparr> constraints))"

definition collect_constraints ::
  "('v, 'r, 'x) externals_scheme \<Rightarrow> selection \<Rightarrow> ResolutionFailure + (string, 'r Constraint list) btree_map" where
  "collect_constraints X selected =
     and_then (fold_result (\<lambda>constraints (package_id, rec).
         fold_result (collect_constraint X package_id) constraints (cr_dependencies (vr_record rec)))
       [] selected) (\<lambda>constraints.
     if saturating_add_usize (length constraints) 1 > MAX_PLUGIN_PLAN_ITEMS then Inl Limit
     else Inr (map (\<lambda>(k, values). (k, sort_key con_required_by values)) constraints))"

definition validate_selected_versions ::
  "('v, 'r, 'x) externals_scheme \<Rightarrow> selection \<Rightarrow> (string, 'r Constraint list) btree_map
     \<Rightarrow> ResolutionFailure + unit" where
  "validate_selected_versions X selected constraints =
     for_each (\<lambda>(package_id, requirements).
         case bt_get selected package_id of
           None \<Rightarrow> Inr ()
         | Some rec \<Rightarrow>
             and_then (ok_or (Conflict package_id) (version_parse X (cr_version (vr_record rec)))) (\<lambda>version.
               if (\<exists>constraint \<in> set requirements. \<not> req_matches X (con_requirement constraint) version)
               then Inl (Conflict package_id) else Inr ()))
       constraints"

section \<open>Cycle detection\<close>

definition record_dependencies :: "VerifiedPluginCatalogRecord \<Rightarrow> string list" where
  "record_dependencies rec = map pd_package_id (cr_dependencies (vr_record rec))"

function visit :: "selection \<Rightarrow> string set \<Rightarrow> string set \<Rightarrow> string \<Rightarrow> bool \<times> string set"
  and visit_any :: "selection \<Rightarrow> string set \<Rightarrow> string set \<Rightarrow> string list \<Rightarrow> bool \<times> string set" where
  "visit selected visiting visited package_id =
     (if package_id \<in> visited then (False, visited)
      else if package_id \<in> visiting then (True, visited)
      else
        (case bt_get selected package_id of
           None \<Rightarrow> (False, insert package_id visited)
         | Some rec \<Rightarrow>
             (case visit_any selected (insert package_id visiting) visited (record_dependencies rec) of
                (cycle, visited') \<Rightarrow> (cycle, insert package_id visited'))))"
| "visit_any selected visiting visited [] = (False, visited)"
| "visit_any selected visiting visited (dependency # dependencies) =
     (if bt_contains selected dependency then
        (case visit selected visiting visited dependency of
           (cycle, visited') \<Rightarrow>
             if cycle then (True, visited')
             else visit_any selected visiting visited' dependencies)
      else visit_any selected visiting visited dependencies)"
  by pat_completeness auto
termination
proof (relation "inv_image (less_than <*lex*> less_than) (\<lambda>arg. case arg of
      Inl (selected, visiting, visited, k) \<Rightarrow> (card (set (bt_keys selected) - visiting), 0)
    | Inr (selected, visiting, visited, ks) \<Rightarrow> (card (set (bt_keys selected) - visiting), Suc (length ks)))")
  fix selected :: selection and visiting visited package_id rec
  assume "package_id \<notin> visiting" "bt_get selected package_id = Some rec"
  then have "package_id \<in> set (bt_keys selected) - visiting" by (simp add: bt_keys_get)
  then have "card (set (bt_keys selected) - insert package_id visiting) < card (set (bt_keys selected) - visiting)"
    by (intro psubset_card_mono) auto
  then show "(Inr (selected, insert package_id visiting, visited, record_dependencies rec),
      Inl (selected, visiting, visited, package_id)) \<in> inv_image (less_than <*lex*> less_than) (\<lambda>arg. case arg of
      Inl (selected, visiting, visited, k) \<Rightarrow> (card (set (bt_keys selected) - visiting), 0)
    | Inr (selected, visiting, visited, ks) \<Rightarrow> (card (set (bt_keys selected) - visiting), Suc (length ks)))"
    by simp
qed auto

declare visit.simps [simp del]

fun any_key_visits :: "selection \<Rightarrow> string set \<Rightarrow> string list \<Rightarrow> bool" where
  "any_key_visits selected visited [] = False"
| "any_key_visits selected visited (package_id # keys) =
     (case visit selected {} visited package_id of
        (cycle, visited') \<Rightarrow> if cycle then True else any_key_visits selected visited' keys)"

definition selected_graph_has_cycle :: "selection \<Rightarrow> bool" where
  "selected_graph_has_cycle selected = any_key_visits selected {} (bt_keys selected)"

section \<open>Search\<close>

text \<open>
  The loop over the matching candidates of one package: the first success or limit ends it,
  otherwise the first failure is reported. \<open>attempt\<close> is the recursive call with its attempt counter.
\<close>

fun try_candidates ::
  "(nat \<Rightarrow> 'c \<Rightarrow> nat \<times> (ResolutionFailure + 'a)) \<Rightarrow> string \<Rightarrow> nat \<Rightarrow> ResolutionFailure option \<Rightarrow> 'c list
     \<Rightarrow> nat \<times> (ResolutionFailure + 'a)" where
  "try_candidates attempt package_id attempts first_failure [] =
     (attempts, Inl (case first_failure of None \<Rightarrow> Conflict package_id | Some failure \<Rightarrow> failure))"
| "try_candidates attempt package_id attempts first_failure (candidate # matching) =
     (case attempt attempts candidate of
        (attempts', Inr result) \<Rightarrow> (attempts', Inr result)
      | (attempts', Inl failure) \<Rightarrow>
          if failure = Limit then (attempts', Inl Limit)
          else try_candidates attempt package_id attempts'
                 (Some (case first_failure of None \<Rightarrow> failure | Some first \<Rightarrow> first)) matching)"

lemma try_candidates_cong [fundef_cong]:
  assumes "package_id = package_id'" "attempts = attempts'" "first = first'" "cs = cs'"
    and "\<And>n c. c \<in> set cs' \<Longrightarrow> f n c = f' n c"
  shows "try_candidates f package_id attempts first cs = try_candidates f' package_id' attempts' first' cs'"
  using assms
proof (induction cs arbitrary: cs' attempts attempts' first first')
  case (Cons c cs)
  from Cons.prems have "f attempts c = f' attempts' c" and cs': "cs' = c # cs" by auto
  with Cons show ?case by (auto split: prod.splits sum.splits)
qed auto

lemma bt_insert_length: "k \<notin> set (bt_keys m) \<Longrightarrow> length (bt_insert k v m) = Suc (length m)"
  by (induction k v m rule: bt_insert.induct) auto

function search_resolve ::
  "('v, 'r, 'x) lock_externals_scheme \<Rightarrow> PluginPackageLockHost
     \<Rightarrow> (string, VerifiedPluginCatalogRecord list) btree_map \<Rightarrow> nat \<Rightarrow> selection
     \<Rightarrow> nat \<times> (ResolutionFailure + selection)" where
  "search_resolve X host candidates before selected =
     (let attempts = saturating_add_usize before 1 in
      if attempts > MAX_PLUGIN_RESOLUTION_ATTEMPTS \<or> length selected > MAX_PLUGIN_PLAN_ITEMS
      then (attempts, Inl Limit)
      else
        (case collect_constraints X selected of
           Inl failure \<Rightarrow> (attempts, Inl failure)
         | Inr constraints \<Rightarrow>
             (case validate_selected_versions X selected constraints of
                Inl failure \<Rightarrow> (attempts, Inl failure)
              | Inr _ \<Rightarrow>
                  if selected_graph_has_cycle selected then (attempts, Inl Cycle)
                  else
                    (case List.find (\<lambda>package_id. \<not> bt_contains selected package_id) (bt_keys constraints) of
                       None \<Rightarrow> (attempts, Inr selected)
                     | Some package_id \<Rightarrow>
                         (case bt_get constraints package_id of
                            None \<Rightarrow> (attempts, Inl (Missing package_id))
                          | Some requirements \<Rightarrow>
                              (case compatible_candidates X host candidates package_id of
                                 Inl failure \<Rightarrow> (attempts, Inl failure)
                               | Inr compatible \<Rightarrow>
                                   (let matching = filter (\<lambda>candidate.
                                          is_some_and (\<lambda>version. \<forall>constraint \<in> set requirements.
                                              req_matches X (con_requirement constraint) version)
                                            (version_parse X (cr_version (vr_record candidate)))) compatible
                                    in if matching = [] then (attempts, Inl (Conflict package_id))
                                       else try_candidates (\<lambda>attempts candidate.
                                              search_resolve X host candidates attempts
                                                (bt_insert package_id candidate selected))
                                            package_id attempts None matching)))))))"
  by pat_completeness auto
termination
proof (relation "measure (\<lambda>(X, host, candidates, before, selected). Suc MAX_PLUGIN_PLAN_ITEMS - length selected)")
  fix X :: "('v, 'r, 'x) lock_externals_scheme" and host candidates and before :: nat
    and selected :: selection and attempts constraints u package_id requirements compatible matching n c
  assume "\<not> (attempts > MAX_PLUGIN_RESOLUTION_ATTEMPTS \<or> length selected > MAX_PLUGIN_PLAN_ITEMS)"
    and "List.find (\<lambda>package_id. \<not> bt_contains selected package_id) (bt_keys constraints) = Some package_id"
  then have "length selected \<le> MAX_PLUGIN_PLAN_ITEMS" "package_id \<notin> set (bt_keys selected)"
    by (auto simp: bt_keys_contains find_Some_iff)
  then show "((X, host, candidates, n, bt_insert package_id c selected), (X, host, candidates, before, selected))
    \<in> measure (\<lambda>(X, host, candidates, before, selected). Suc MAX_PLUGIN_PLAN_ITEMS - length selected)"
    by (simp add: bt_insert_length)
qed simp

declare search_resolve.simps [simp del]

definition ResolutionFailure_into_error :: "ResolutionFailure \<Rightarrow> use_error" where
  "ResolutionFailure_into_error self =
     (case self of
        Missing _ \<Rightarrow> PackageDependencyMissing
      | Incompatible value \<Rightarrow>
          if starts_with ''registry-ambiguous:'' value then PackageRegistryAmbiguous
          else PackageDependencyIncompatible
      | Conflict _ \<Rightarrow> PackageDependencyConflict
      | Cycle \<Rightarrow> PackageDependencyCycle
      | Limit \<Rightarrow> PackageResolutionLimit)"

definition index_candidate ::
  "('v, 'r, 'x) lock_externals_scheme
     \<Rightarrow> (string, VerifiedPluginCatalogRecord list) btree_map \<times> string set
     \<Rightarrow> VerifiedPluginCatalogRecord
     \<Rightarrow> ((string, VerifiedPluginCatalogRecord list) btree_map \<times> string set) use_result" where
  "index_candidate X state candidate =
     and_then (validate_candidate X candidate) (\<lambda>_.
     and_then (VerifiedPluginCatalogRecord_descriptor_digest X candidate) (\<lambda>digest.
       if digest \<in> snd state then Inl PackageResolutionInvalid
       else Inr (bt_push (cr_package_id (vr_record candidate)) candidate (fst state), insert digest (snd state))))"

definition index_candidates ::
  "('v, 'r, 'x) lock_externals_scheme \<Rightarrow> VerifiedPluginCatalogRecord list
     \<Rightarrow> (string, VerifiedPluginCatalogRecord list) btree_map use_result" where
  "index_candidates X candidates =
     and_then (fold_result (index_candidate X) ([], {}) candidates) (\<lambda>(by_package, _).
       Inr (map (\<lambda>(k, records). (k, sort_by (compare_candidates X) records)) by_package))"

definition PluginPackageResolver_resolve ::
  "('v, 'r, 'x) lock_externals_scheme \<Rightarrow> PluginPackageLockHost \<Rightarrow> VerifiedPluginCatalogRecord
     \<Rightarrow> VerifiedPluginCatalogRecord list \<Rightarrow> PluginPackageLock use_result" where
  "PluginPackageResolver_resolve X host root candidates =
     and_then (PluginPackageLockHost_validate X host) (\<lambda>_.
     and_then (validate_candidate X root) (\<lambda>_.
     and_then (is_host_compatible X root host) (\<lambda>compatible.
     if \<not> compatible then Inl PackageDependencyIncompatible
     else if is_withdrawn (cr_availability (vr_record root)) then Inl PackageDependencyIncompatible
     else if length candidates > MAX_PLUGIN_RESOLUTION_CANDIDATES then Inl PackageResolutionLimit
     else
     and_then (index_candidates X candidates) (\<lambda>by_package.
     and_then (map_err ResolutionFailure_into_error
       (snd (search_resolve X host by_package 0 [(cr_package_id (vr_record root), root)]))) (\<lambda>selected.
     PluginPackageLock_from_selected X (cr_package_id (vr_record root)) host selected)))))"

section \<open>Lemmas: cycle detection\<close>

definition selected_edges :: "selection \<Rightarrow> (string \<times> string) set" where
  "selected_edges selected =
     {(a, b). \<exists>rec. bt_get selected a = Some rec \<and> b \<in> set (record_dependencies rec) \<and> bt_contains selected b}"

lemma visit_finds_cycle:
  "visit selected visiting visited k = (True, visited') \<Longrightarrow>
     (\<forall>u \<in> visiting. (u, k) \<in> (selected_edges selected)\<^sup>+) \<Longrightarrow> \<not> acyclic (selected_edges selected)"
  "visit_any selected visiting visited ks = (True, visited') \<Longrightarrow>
     (\<forall>u \<in> visiting. \<forall>d \<in> set ks. bt_contains selected d \<longrightarrow> (u, d) \<in> (selected_edges selected)\<^sup>+) \<Longrightarrow>
     \<not> acyclic (selected_edges selected)"
proof (induction selected visiting visited k and selected visiting visited ks
    arbitrary: visited' and visited' rule: visit_visit_any.induct)
  case (1 selected visiting visited k)
  let ?R = "selected_edges selected"
  from "1.prems"(1) have nv: "k \<notin> visited" by (auto simp: visit.simps(1) [of _ _ _ k])
  show ?case
  proof (cases "k \<in> visiting")
    case True
    with "1.prems"(2) have "(k, k) \<in> ?R\<^sup>+" by blast
    then show ?thesis by (auto simp: acyclic_def)
  next
    case False
    with nv "1.prems"(1) obtain rec v where rec: "bt_get selected k = Some rec"
      and rest: "visit_any selected (insert k visiting) visited (record_dependencies rec) = (True, v)"
      by (auto simp: visit.simps(1) [of _ _ _ k] split: option.splits prod.splits)
    have "\<forall>u \<in> insert k visiting. \<forall>d \<in> set (record_dependencies rec).
        bt_contains selected d \<longrightarrow> (u, d) \<in> ?R\<^sup>+"
    proof (intro ballI impI)
      fix u d assume u: "u \<in> insert k visiting" and "d \<in> set (record_dependencies rec)" "bt_contains selected d"
      with rec have "(k, d) \<in> ?R" by (auto simp: selected_edges_def)
      with u "1.prems"(2) show "(u, d) \<in> ?R\<^sup>+" by (auto intro: trancl_into_trancl)
    qed
    from "1.IH" [OF nv False rec rest this] show ?thesis .
  qed
next
  case (3 selected visiting visited d ds)
  show ?case
  proof (cases "bt_contains selected d")
    case False
    with "3.prems"(1) have "visit_any selected visiting visited ds = (True, visited')"
      by (simp add: visit.simps)
    from "3.IH"(3) [OF False this] "3.prems"(2) show ?thesis by simp
  next
    case True
    obtain cycle v where v: "visit selected visiting visited d = (cycle, v)" by fastforce
    show ?thesis
    proof (cases cycle)
      case cyc: True
      with "3.IH"(1) [OF True, of v] v "3.prems"(2) True show ?thesis by simp
    next
      case False
      with True v "3.prems"(1) have "visit_any selected visiting v ds = (True, visited')"
        by (simp add: visit.simps)
      from "3.IH"(2) [OF True v [symmetric] False this] "3.prems"(2) show ?thesis by simp
    qed
  qed
qed (simp add: visit.simps)

lemma visit_grounds:
  "visit selected visiting visited k = (False, visited') \<Longrightarrow>
     visited \<subseteq> grounded (selected_edges selected) \<Longrightarrow>
     insert k visited \<subseteq> visited' \<and> visited' \<subseteq> grounded (selected_edges selected)"
  "visit_any selected visiting visited ks = (False, visited') \<Longrightarrow>
     visited \<subseteq> grounded (selected_edges selected) \<Longrightarrow>
     visited \<union> {d \<in> set ks. bt_contains selected d} \<subseteq> visited' \<and>
     visited' \<subseteq> grounded (selected_edges selected)"
proof (induction selected visiting visited k and selected visiting visited ks
    arbitrary: visited' and visited' rule: visit_visit_any.induct)
  case (1 selected visiting visited k)
  let ?R = "selected_edges selected"
  show ?case
  proof (cases "k \<in> visited")
    case True
    with "1.prems" show ?thesis by (auto simp: visit.simps(1) [of _ _ _ k])
  next
    case nv: False
    with "1.prems"(1) have ng: "k \<notin> visiting" by (auto simp: visit.simps(1) [of _ _ _ k])
    show ?thesis
    proof (cases "bt_get selected k")
      case None
      have "k \<in> grounded ?R" using None by (intro groundedI [of k]) (simp add: selected_edges_def)
      with None nv ng "1.prems" show ?thesis by (auto simp: visit.simps(1) [of _ _ _ k])
    next
      case rec: (Some rec)
      with nv ng "1.prems"(1) obtain v where
        rest: "visit_any selected (insert k visiting) visited (record_dependencies rec) = (False, v)"
        and v: "visited' = insert k v"
        by (auto simp: visit.simps(1) [of _ _ _ k] split: prod.splits)
      note ih = "1.IH" [OF nv ng rec rest "1.prems"(2)]
      have "k \<in> grounded ?R"
      proof (rule groundedI)
        fix d assume "(k, d) \<in> ?R"
        then have "d \<in> v" using rec ih by (auto simp: selected_edges_def)
        then show "d \<in> grounded ?R" using ih by blast
      qed
      with ih v show ?thesis by auto
    qed
  qed
next
  case (3 selected visiting visited d ds)
  show ?case
  proof (cases "bt_contains selected d")
    case False
    with "3.prems"(1) have "visit_any selected visiting visited ds = (False, visited')"
      by (simp add: visit.simps)
    from "3.IH"(3) [OF False this "3.prems"(2)] False show ?thesis by auto
  next
    case True
    obtain cycle v where v: "visit selected visiting visited d = (cycle, v)" by fastforce
    with True "3.prems"(1) have nc: "\<not> cycle" and rest: "visit_any selected visiting v ds = (False, visited')"
      by (auto split: if_splits)
    with v have "visit selected visiting visited d = (False, v)" by simp
    note ih = "3.IH"(1) [OF True this "3.prems"(2)]
    with "3.IH"(2) [OF True v [symmetric] nc rest] show ?thesis by auto
  qed
qed (simp add: visit.simps)

lemma any_key_visits_false:
  "\<not> any_key_visits selected visited keys \<Longrightarrow> visited \<subseteq> grounded (selected_edges selected) \<Longrightarrow>
     set keys \<subseteq> grounded (selected_edges selected)"
proof (induction keys arbitrary: visited)
  case (Cons k keys)
  obtain cycle v where v: "visit selected {} visited k = (cycle, v)" by fastforce
  with Cons.prems(1) have "\<not> cycle" "\<not> any_key_visits selected v keys" by (auto split: if_splits)
  with visit_grounds(1) [of selected "{}" visited k v] v Cons.prems(2) Cons.IH [of v] show ?case by auto
qed simp

lemma any_key_visits_true:
  "any_key_visits selected visited keys \<Longrightarrow> \<not> acyclic (selected_edges selected)"
proof (induction keys arbitrary: visited)
  case (Cons k keys)
  obtain cycle v where v: "visit selected {} visited k = (cycle, v)" by fastforce
  show ?case
  proof (cases cycle)
    case True
    with v visit_finds_cycle(1) [of selected "{}" visited k v] show ?thesis by simp
  qed (use v Cons in auto)
qed simp

lemma selected_graph_has_cycle_iff:
  "selected_graph_has_cycle selected \<longleftrightarrow> \<not> acyclic (selected_edges selected)"
proof
  assume "selected_graph_has_cycle selected"
  then show "\<not> acyclic (selected_edges selected)"
    unfolding selected_graph_has_cycle_def by (rule any_key_visits_true)
next
  assume cyc: "\<not> acyclic (selected_edges selected)"
  show "selected_graph_has_cycle selected"
  proof (rule ccontr)
    assume "\<not> selected_graph_has_cycle selected"
    then have "set (bt_keys selected) \<subseteq> grounded (selected_edges selected)"
      unfolding selected_graph_has_cycle_def by (rule any_key_visits_false) simp
    then have "acyclic (selected_edges selected)"
      by (intro grounded_acyclic) (auto simp: selected_edges_def bt_keys_get)
    with cyc show False by simp
  qed
qed

section \<open>Lemmas: constraints\<close>

lemma bt_get_iff_set: "bt_wf m \<Longrightarrow> bt_get m k = Some v \<longleftrightarrow> (k, v) \<in> set m"
  unfolding bt_get_def bt_wf_def bt_keys_def
  by (rule map_of_eq_Some_iff) (rule sorted_less_distinct)

lemma bt_get_map_values:
  "bt_get (map (\<lambda>(k, xs). (k, f xs)) m) k = map_option f (bt_get m k)"
  unfolding bt_get_def by (induction m) auto

lemma bt_keys_map_values [simp]: "bt_keys (map (\<lambda>(k, xs). (k, f xs)) m) = bt_keys m"
  by (induction m) auto

text \<open>The pairs a multi-map holds; \<open>bt_push\<close> adds one.\<close>

definition pairs_of :: "('k, 'a list) btree_map \<Rightarrow> ('k \<times> 'a) set" where
  "pairs_of m = {(k, x). \<exists>xs. bt_get m k = Some xs \<and> x \<in> set xs}"

definition multi_wf :: "('k :: linorder, 'a list) btree_map \<Rightarrow> bool" where
  "multi_wf m \<longleftrightarrow> bt_wf m \<and> (\<forall>k. bt_get m k \<noteq> Some [])"

lemma pairs_of_empty [simp]: "pairs_of [] = {}" "multi_wf []"
  by (simp_all add: pairs_of_def multi_wf_def)

lemma bt_push_pairs [simp]: "pairs_of (bt_push k x m) = insert (k, x) (pairs_of m)"
  by (auto simp: pairs_of_def bt_push_def split: option.splits if_splits)

lemma bt_push_wf: "multi_wf m \<Longrightarrow> multi_wf (bt_push k x m)"
  by (auto simp: multi_wf_def bt_push_def split: option.splits)

lemma multi_keys: "multi_wf m \<Longrightarrow> set (bt_keys m) = fst ` pairs_of m"
proof (intro set_eqI iffI)
  fix k assume "multi_wf m" "k \<in> set (bt_keys m)"
  then obtain x xs where "bt_get m k = Some (x # xs)"
    by (metis bt_keys_get multi_wf_def neq_Nil_conv not_None_eq)
  then have "(k, x) \<in> pairs_of m" by (simp add: pairs_of_def)
  then show "k \<in> fst ` pairs_of m" by force
qed (auto simp: pairs_of_def bt_keys_get)

lemma multi_ball:
  "(\<forall>k xs. bt_get m k = Some xs \<longrightarrow> (\<forall>x \<in> set xs. Q k x) \<and> N k) \<longleftrightarrow>
     (\<forall>(k, x) \<in> pairs_of m. Q k x) \<and> (\<forall>k \<in> set (bt_keys m). N k)"
  by (auto simp: pairs_of_def bt_keys_get)

definition demands ::
  "('v, 'r, 'x) externals_scheme \<Rightarrow> (string \<times> VerifiedPluginCatalogRecord) list
     \<Rightarrow> (string \<times> 'r Constraint) set" where
  "demands X entries =
     {(pd_package_id d, \<lparr>con_required_by = p, con_requirement = r\<rparr>) | p rec d r.
        (p, rec) \<in> set entries \<and> d \<in> set (cr_dependencies (vr_record rec)) \<and>
        PluginPackageDependency_parsed_requirement X d = Inr r}"

lemma demands_Cons: "demands X ((p, rec) # entries) =
    {(pd_package_id d, \<lparr>con_required_by = p, con_requirement = r\<rparr>) | d r.
       d \<in> set (cr_dependencies (vr_record rec)) \<and> PluginPackageDependency_parsed_requirement X d = Inr r}
    \<union> demands X entries"
  unfolding demands_def by (simp only: list.set insert_iff prod.inject) blast

definition all_parse :: "('v, 'r, 'x) externals_scheme \<Rightarrow> PluginPackageDependency list \<Rightarrow> bool" where
  "all_parse X ds \<longleftrightarrow> (\<forall>d \<in> set ds. is_ok (PluginPackageDependency_parsed_requirement X d))"

lemma collect_record:
  assumes "fold_result (collect_constraint X p) m ds = Inr m'" "multi_wf m"
  shows "multi_wf m' \<and> all_parse X ds \<and>
    pairs_of m' = pairs_of m \<union> {(pd_package_id d, \<lparr>con_required_by = p, con_requirement = r\<rparr>) | d r.
       d \<in> set ds \<and> PluginPackageDependency_parsed_requirement X d = Inr r}"
  using assms
proof (induction ds arbitrary: m)
  case (Cons d ds)
  from Cons.prems(1) obtain r where r: "PluginPackageDependency_parsed_requirement X d = Inr r"
    and rest: "fold_result (collect_constraint X p)
      (bt_push (pd_package_id d) \<lparr>con_required_by = p, con_requirement = r\<rparr> m) ds = Inr m'"
    by (auto simp: collect_constraint_def [of X p m d] and_then_Inr map_err_Inr)
  from Cons.IH [OF rest bt_push_wf [OF Cons.prems(2)]] r show ?case
    by (auto simp: all_parse_def)
qed (simp add: all_parse_def)

lemma collect_all:
  assumes "fold_result (\<lambda>m (p, rec). fold_result (collect_constraint X p) m (cr_dependencies (vr_record rec)))
      m entries = Inr m'" "multi_wf m"
  shows "multi_wf m' \<and> (\<forall>(p, rec) \<in> set entries. all_parse X (cr_dependencies (vr_record rec))) \<and>
    pairs_of m' = pairs_of m \<union> demands X entries"
  using assms
proof (induction entries arbitrary: m)
  case (Cons e entries)
  obtain p rec where e: "e = (p, rec)" by (cases e)
  from Cons.prems(1) e obtain m1 where
    m1: "fold_result (collect_constraint X p) m (cr_dependencies (vr_record rec)) = Inr m1"
    and rest: "fold_result (\<lambda>m (p, rec). fold_result (collect_constraint X p) m (cr_dependencies (vr_record rec)))
      m1 entries = Inr m'"
    by (auto simp: and_then_Inr)
  note step = collect_record [OF m1 Cons.prems(2)]
  have "multi_wf m1" using step by (rule conjunct1)
  note ih = Cons.IH [OF rest this]
  from ih step e show ?case by (simp add: demands_Cons Un_assoc)
qed (simp add: demands_def)

lemma collect_constraints_Inr:
  assumes "collect_constraints X selected = Inr constraints"
  shows "\<forall>(p, rec) \<in> set selected. all_parse X (cr_dependencies (vr_record rec))"
    and "pairs_of constraints = demands X selected"
    and "set (bt_keys constraints) = fst ` demands X selected"
    and "bt_wf constraints"
proof -
  from assms obtain m where
    m: "fold_result (\<lambda>m (p, rec). fold_result (collect_constraint X p) m (cr_dependencies (vr_record rec)))
      [] selected = Inr m"
    and c: "constraints = map (\<lambda>(k, values). (k, sort_key con_required_by values)) m"
    by (auto simp: collect_constraints_def and_then_Inr if_Inl_Inr)
  note all = collect_all [OF m, simplified]
  show "\<forall>(p, rec) \<in> set selected. all_parse X (cr_dependencies (vr_record rec))" using all by blast
  have pairs: "pairs_of constraints = pairs_of m"
    by (auto simp: c pairs_of_def bt_get_map_values)
  then show d: "pairs_of constraints = demands X selected" using all by simp
  show "set (bt_keys constraints) = fst ` demands X selected"
    using multi_keys [of m] all d pairs by (simp add: c)
  show "bt_wf constraints" using all by (simp add: c multi_wf_def bt_wf_def)
qed

lemma collect_constraints_Inl:
  assumes "collect_constraints X selected = Inl f"
  shows "f = Limit \<or> (\<exists>(p, rec) \<in> set selected. \<not> all_parse X (cr_dependencies (vr_record rec)))"
proof -
  have rec: "fold_result (collect_constraint X p) m ds = Inl f \<Longrightarrow> \<not> all_parse X ds" for p m ds
    by (induction ds arbitrary: m)
      (auto simp: and_then_Inl collect_constraint_def map_err_Inl all_parse_def)
  have "fold_result (\<lambda>m (p, rec). fold_result (collect_constraint X p) m (cr_dependencies (vr_record rec)))
      m entries = Inl f \<Longrightarrow> \<exists>(p, rec) \<in> set entries. \<not> all_parse X (cr_dependencies (vr_record rec))"
    for m entries
    by (induction entries arbitrary: m) (auto simp: and_then_Inl dest: rec)
  with assms show ?thesis
    by (auto simp: collect_constraints_def and_then_Inl split: if_splits)
qed

lemma validate_selected_versions_iff:
  assumes "bt_wf constraints"
  shows "validate_selected_versions X selected constraints = Inr u \<longleftrightarrow>
    (\<forall>(k, c) \<in> pairs_of constraints. \<forall>rec. bt_get selected k = Some rec \<longrightarrow>
       (\<exists>v. version_parse X (cr_version (vr_record rec)) = Some v \<and> req_matches X (con_requirement c) v)) \<and>
    (\<forall>k \<in> set (bt_keys constraints). \<forall>rec. bt_get selected k = Some rec \<longrightarrow>
       version_parse X (cr_version (vr_record rec)) \<noteq> None)"
proof -
  have entry: "(case bt_get selected k of None \<Rightarrow> Inr () | Some rec \<Rightarrow>
      and_then (ok_or (Conflict k) (version_parse X (cr_version (vr_record rec)))) (\<lambda>version.
        if (\<exists>c \<in> set cs. \<not> req_matches X (con_requirement c) version) then Inl (Conflict k) else Inr ()))
      = Inr () \<longleftrightarrow>
    (\<forall>rec. bt_get selected k = Some rec \<longrightarrow> (\<exists>v. version_parse X (cr_version (vr_record rec)) = Some v \<and>
       (\<forall>c \<in> set cs. req_matches X (con_requirement c) v)))" for k cs
    by (auto simp: and_then_Inr ok_or_Inr split: option.splits)
  have "validate_selected_versions X selected constraints = Inr u \<longleftrightarrow>
      (\<forall>(k, cs) \<in> set constraints. \<forall>rec. bt_get selected k = Some rec \<longrightarrow>
        (\<exists>v. version_parse X (cr_version (vr_record rec)) = Some v \<and>
          (\<forall>c \<in> set cs. req_matches X (con_requirement c) v)))"
    unfolding validate_selected_versions_def for_each_Inr
    by (intro ball_cong refl) (simp add: entry split: prod.splits)
  also have "\<dots> \<longleftrightarrow> (\<forall>k cs. bt_get constraints k = Some cs \<longrightarrow> (\<forall>rec. bt_get selected k = Some rec \<longrightarrow>
        (\<exists>v. version_parse X (cr_version (vr_record rec)) = Some v \<and>
          (\<forall>c \<in> set cs. req_matches X (con_requirement c) v))))"
    by (auto simp: bt_get_iff_set [OF assms])
  also have "\<dots> \<longleftrightarrow> (\<forall>(k, c) \<in> pairs_of constraints. \<forall>rec. bt_get selected k = Some rec \<longrightarrow>
       (\<exists>v. version_parse X (cr_version (vr_record rec)) = Some v \<and> req_matches X (con_requirement c) v)) \<and>
    (\<forall>k \<in> set (bt_keys constraints). \<forall>rec. bt_get selected k = Some rec \<longrightarrow>
       version_parse X (cr_version (vr_record rec)) \<noteq> None)"
  proof -
    let ?Q = "\<lambda>k c. \<forall>rec. bt_get selected k = Some rec \<longrightarrow>
       (\<exists>v. version_parse X (cr_version (vr_record rec)) = Some v \<and> req_matches X (con_requirement c) v)"
    let ?N = "\<lambda>k. \<forall>rec. bt_get selected k = Some rec \<longrightarrow> version_parse X (cr_version (vr_record rec)) \<noteq> None"
    have "(\<forall>rec. bt_get selected k = Some rec \<longrightarrow> (\<exists>v. version_parse X (cr_version (vr_record rec)) = Some v \<and>
          (\<forall>c \<in> set cs. req_matches X (con_requirement c) v))) \<longleftrightarrow> (\<forall>c \<in> set cs. ?Q k c) \<and> ?N k" for k cs
      by (cases "bt_get selected k") auto
    then have "(\<forall>k cs. bt_get constraints k = Some cs \<longrightarrow> (\<forall>rec. bt_get selected k = Some rec \<longrightarrow>
        (\<exists>v. version_parse X (cr_version (vr_record rec)) = Some v \<and>
          (\<forall>c \<in> set cs. req_matches X (con_requirement c) v)))) \<longleftrightarrow>
        (\<forall>k cs. bt_get constraints k = Some cs \<longrightarrow> (\<forall>c \<in> set cs. ?Q k c) \<and> ?N k)"
      by (intro all_cong1 imp_cong refl)
    also have "\<dots> \<longleftrightarrow> (\<forall>(k, c) \<in> pairs_of constraints. ?Q k c) \<and> (\<forall>k \<in> set (bt_keys constraints). ?N k)"
      by (rule multi_ball)
    finally show ?thesis .
  qed
  finally show ?thesis .
qed

section \<open>Lemmas: the search\<close>

lemma try_candidates_Inr:
  "try_candidates f k n first cs = (m, Inr r) \<Longrightarrow> \<exists>c \<in> set cs. \<exists>i j. f i c = (j, Inr r)"
proof (induction cs arbitrary: n first)
  case (Cons c cs)
  obtain j res where res: "f n c = (j, res)" by fastforce
  show ?case
  proof (cases res)
    case (Inl e)
    with res Cons.prems Cons.IH show ?thesis by (auto split: if_splits)
  next
    case (Inr r')
    with res Cons.prems have "f n c = (j, Inr r)" by simp
    then show ?thesis by auto
  qed
qed simp

lemma try_candidates_Inl:
  "try_candidates f k n first cs = (m, Inl e) \<Longrightarrow> e \<noteq> Limit \<Longrightarrow>
     \<forall>c \<in> set cs. \<exists>i j e'. f i c = (j, Inl e') \<and> e' \<noteq> Limit"
proof (induction cs arbitrary: n first)
  case (Cons c cs)
  obtain j res where res: "f n c = (j, res)" by fastforce
  with Cons.prems obtain e' where e': "res = Inl e'" "e' \<noteq> Limit"
    by (cases res) (auto split: if_splits)
  with res Cons.prems(1) have "try_candidates f k j (Some (case first of None \<Rightarrow> e' | Some g \<Rightarrow> g)) cs = (m, Inl e)"
    by simp
  from Cons.IH [OF this Cons.prems(2)] res e' show ?case by auto
qed simp

text \<open>
  The branches of one call of the search, with the conditions of the code that lead to each.
\<close>

definition matching_candidates ::
  "('v, 'r, 'x) lock_externals_scheme \<Rightarrow> (string, 'r Constraint list) btree_map \<Rightarrow> string
     \<Rightarrow> VerifiedPluginCatalogRecord list \<Rightarrow> VerifiedPluginCatalogRecord list" where
  "matching_candidates X constraints k compatible =
     filter (\<lambda>candidate. is_some_and (\<lambda>version. \<forall>c \<in> set (the (bt_get constraints k)).
          req_matches X (con_requirement c) version)
        (version_parse X (cr_version (vr_record candidate)))) compatible"

lemma search_resolve_cases:
  assumes "search_resolve X host candidates before selected = (n, res)"
  obtains
    (limit) "res = Inl Limit"
  | (constraint) f where "collect_constraints X selected = Inl f" "res = Inl f"
  | (version) constraints f where "collect_constraints X selected = Inr constraints"
      "validate_selected_versions X selected constraints = Inl f" "res = Inl f"
  | (cycle) "selected_graph_has_cycle selected" "res = Inl Cycle"
  | (complete) constraints where "length selected \<le> MAX_PLUGIN_PLAN_ITEMS"
      "collect_constraints X selected = Inr constraints"
      "validate_selected_versions X selected constraints = Inr ()" "\<not> selected_graph_has_cycle selected"
      "\<forall>k \<in> set (bt_keys constraints). bt_contains selected k" "res = Inr selected"
  | (stuck) constraints k f where "collect_constraints X selected = Inr constraints"
      "k \<in> set (bt_keys constraints)" "\<not> bt_contains selected k"
      "compatible_candidates X host candidates k = Inl f" "res = Inl f"
  | (mismatch) constraints k compatible where "collect_constraints X selected = Inr constraints"
      "k \<in> set (bt_keys constraints)" "\<not> bt_contains selected k"
      "compatible_candidates X host candidates k = Inr compatible"
      "matching_candidates X constraints k compatible = []" "res = Inl (Conflict k)"
  | (branch) constraints k compatible attempts where "length selected \<le> MAX_PLUGIN_PLAN_ITEMS"
      "attempts = saturating_add_usize before 1" "\<not> attempts > MAX_PLUGIN_RESOLUTION_ATTEMPTS"
      "collect_constraints X selected = Inr constraints"
      "validate_selected_versions X selected constraints = Inr ()" "\<not> selected_graph_has_cycle selected"
      "List.find (\<lambda>k. \<not> bt_contains selected k) (bt_keys constraints) = Some k"
      "k \<in> set (bt_keys constraints)" "\<not> bt_contains selected k"
      "compatible_candidates X host candidates k = Inr compatible"
      "matching_candidates X constraints k compatible \<noteq> []"
      "try_candidates (\<lambda>attempts candidate.
          search_resolve X host candidates attempts (bt_insert k candidate selected))
        k attempts None (matching_candidates X constraints k compatible) = (n, res)"
proof -
  define attempts where "attempts = saturating_add_usize before 1"
  note unfolded = assms [unfolded search_resolve.simps [of X host candidates before selected], folded attempts_def]
  show thesis
  proof (cases "attempts > MAX_PLUGIN_RESOLUTION_ATTEMPTS \<or> length selected > MAX_PLUGIN_PLAN_ITEMS")
    case True
    with unfolded show thesis by (auto simp: Let_def intro: limit)
  next
    case bounds: False
    show thesis
    proof (cases "collect_constraints X selected")
      case (Inl f)
      with unfolded bounds show thesis by (auto simp: Let_def intro: constraint)
    next
      case constraints: (Inr constraints)
      show thesis
      proof (cases "validate_selected_versions X selected constraints")
        case (Inl f)
        with unfolded bounds constraints have "res = Inl f" by (simp add: Let_def)
        with Inl constraints show thesis by (intro version)
      next
        case versions: (Inr u)
        show thesis
        proof (cases "selected_graph_has_cycle selected")
          case True
          with unfolded bounds constraints versions have "res = Inl Cycle" by (simp add: Let_def)
          with True show thesis by (rule cycle)
        next
          case acyc: False
          show thesis
          proof (cases "List.find (\<lambda>k. \<not> bt_contains selected k) (bt_keys constraints)")
            case None
            with unfolded bounds constraints versions acyc have "res = Inr selected" by (simp add: Let_def)
            with None bounds constraints versions acyc show thesis
              by (intro complete) (auto simp: find_None_iff)
          next
            case k: (Some k)
            then have keys: "k \<in> set (bt_keys constraints)" "\<not> bt_contains selected k"
              by (auto simp: find_Some_iff)
            then obtain requirements where req: "bt_get constraints k = Some requirements"
              by (auto simp: bt_keys_get)
            show thesis
            proof (cases "compatible_candidates X host candidates k")
              case (Inl f)
              with unfolded bounds constraints versions acyc k req have "res = Inl f"
                by (simp add: Let_def)
              with Inl constraints keys show thesis by (intro stuck)
            next
              case compatible: (Inr compatible)
              have m: "filter (\<lambda>candidate. is_some_and (\<lambda>version. \<forall>c \<in> set requirements.
                   req_matches X (con_requirement c) version) (version_parse X (cr_version (vr_record candidate))))
                   compatible = matching_candidates X constraints k compatible"
                by (simp add: matching_candidates_def req)
              note rest = unfolded [unfolded Let_def, simplified bounds constraints versions acyc k req
                  compatible m if_False sum.case option.case]
              show thesis
              proof (cases "matching_candidates X constraints k compatible = []")
                case True
                with rest constraints keys compatible show thesis by (intro mismatch) auto
              next
                case False
                with rest bounds attempts_def constraints versions acyc k keys compatible show thesis
                  by (intro branch [of attempts constraints k compatible]) simp_all
              qed
            qed
          qed
        qed
      qed
    qed
  qed
qed

section \<open>Specification: resolutions\<close>

text \<open>
  \<open>S\<close> meets every requirement of the records it selects; it resolves \<open>start\<close> when it extends it by
  eligible candidates only, meets all requirements and has no dependency cycle.
\<close>

definition requirements_met :: "('v, 'r, 'x) externals_scheme \<Rightarrow> selection \<Rightarrow> bool" where
  "requirements_met X S \<longleftrightarrow>
     (\<forall>p rec. bt_get S p = Some rec \<longrightarrow> (\<forall>d \<in> set (cr_dependencies (vr_record rec)).
        \<exists>r q v. PluginPackageDependency_parsed_requirement X d = Inr r \<and>
          bt_get S (pd_package_id d) = Some q \<and> version_parse X (cr_version (vr_record q)) = Some v \<and>
          req_matches X r v))"

definition eligible ::
  "('v, 'r, 'x) lock_externals_scheme \<Rightarrow> PluginPackageLockHost
     \<Rightarrow> (string, VerifiedPluginCatalogRecord list) btree_map \<Rightarrow> string \<Rightarrow> VerifiedPluginCatalogRecord \<Rightarrow> bool" where
  "eligible X host candidates k rec \<longleftrightarrow>
     (\<exists>cs. compatible_candidates X host candidates k = Inr cs \<and> rec \<in> set cs)"

definition resolves ::
  "('v, 'r, 'x) lock_externals_scheme \<Rightarrow> PluginPackageLockHost
     \<Rightarrow> (string, VerifiedPluginCatalogRecord list) btree_map \<Rightarrow> selection \<Rightarrow> selection \<Rightarrow> bool" where
  "resolves X host candidates start S \<longleftrightarrow>
     bt_wf S \<and> (\<forall>k rec. bt_get start k = Some rec \<longrightarrow> bt_get S k = Some rec) \<and>
     (\<forall>k rec. bt_get S k = Some rec \<longrightarrow> bt_get start k = Some rec \<or> eligible X host candidates k rec) \<and>
     requirements_met X S \<and> acyclic (selected_edges S)"

text \<open>A selection holds no more than what its roots need.\<close>

definition needed_by :: "selection \<Rightarrow> selection \<Rightarrow> bool" where
  "needed_by S start \<longleftrightarrow> set (bt_keys S) \<subseteq> (selected_edges S)\<^sup>* `` set (bt_keys start)"

lemma demands_iff:
  assumes "bt_wf S"
  shows "(k, c) \<in> demands X S \<longleftrightarrow> (\<exists>p rec d. bt_get S p = Some rec \<and>
    d \<in> set (cr_dependencies (vr_record rec)) \<and> pd_package_id d = k \<and>
    PluginPackageDependency_parsed_requirement X d = Inr (con_requirement c) \<and> con_required_by c = p)"
  unfolding demands_def bt_get_iff_set [OF assms]
  by (cases c) auto

lemma selected_edges_mono:
  assumes "\<forall>k rec. bt_get A k = Some rec \<longrightarrow> bt_get B k = Some rec"
  shows "selected_edges A \<subseteq> selected_edges B"
proof
  fix e assume "e \<in> selected_edges A"
  then obtain a b rec q where "e = (a, b)" "bt_get A a = Some rec" "b \<in> set (record_dependencies rec)"
    "bt_get A b = Some q" by (auto simp: selected_edges_def bt_contains_def)
  with assms have "bt_get B a = Some rec" "bt_get B b = Some q" by blast+
  with \<open>e = (a, b)\<close> \<open>b \<in> set (record_dependencies rec)\<close> show "e \<in> selected_edges B"
    by (auto simp: selected_edges_def bt_contains_def)
qed

lemma resolves_demand:
  assumes "resolves X host candidates start S" "bt_wf start" "(k, c) \<in> demands X start"
  shows "\<exists>q v. bt_get S k = Some q \<and> version_parse X (cr_version (vr_record q)) = Some v \<and>
    req_matches X (con_requirement c) v"
proof -
  from assms(2,3) obtain p rec d where d: "bt_get start p = Some rec"
    "d \<in> set (cr_dependencies (vr_record rec))" "pd_package_id d = k"
    "PluginPackageDependency_parsed_requirement X d = Inr (con_requirement c)"
    by (auto simp: demands_iff)
  with assms(1) have "bt_get S p = Some rec" by (simp add: resolves_def)
  with assms(1) d(2) obtain r q v where "PluginPackageDependency_parsed_requirement X d = Inr r"
    "bt_get S (pd_package_id d) = Some q" "version_parse X (cr_version (vr_record q)) = Some v"
    "req_matches X r v" unfolding resolves_def requirements_met_def by blast
  with d(3,4) show ?thesis by auto
qed

lemma resolves_all_parse:
  assumes "resolves X host candidates start S" "bt_wf start" "(p, rec) \<in> set start"
  shows "all_parse X (cr_dependencies (vr_record rec))"
proof -
  have "bt_get S p = Some rec" using assms by (simp add: resolves_def bt_get_iff_set)
  then show ?thesis
    using assms(1) unfolding resolves_def requirements_met_def all_parse_def is_ok_iff by blast
qed

lemma resolves_versions:
  assumes res: "resolves X host candidates start S" and wf: "bt_wf start"
    and cons: "collect_constraints X start = Inr constraints"
  shows "validate_selected_versions X start constraints = Inr ()"
proof -
  note c = collect_constraints_Inr [OF cons]
  have same: "q = rec" if "bt_get S k = Some q" "bt_get start k = Some rec" for k q rec
    using res that by (auto simp: resolves_def)
  have "\<exists>v. version_parse X (cr_version (vr_record rec)) = Some v \<and> req_matches X (con_requirement con) v"
    if "(k, con) \<in> pairs_of constraints" "bt_get start k = Some rec" for k con rec
    using resolves_demand [OF res wf, of k con] that same c(2) by blast
  moreover have "version_parse X (cr_version (vr_record rec)) \<noteq> None"
    if "k \<in> set (bt_keys constraints)" "bt_get start k = Some rec" for k rec
  proof -
    from that(1) obtain con where "(k, con) \<in> demands X start" by (auto simp: c(3))
    with resolves_demand [OF res wf this] that(2) same show ?thesis by fastforce
  qed
  ultimately show ?thesis
    unfolding validate_selected_versions_iff [OF c(4)] by blast
qed

lemma resolves_extend:
  assumes res: "resolves X host candidates start S" and wf: "bt_wf start"
    and cons: "collect_constraints X start = Inr constraints"
    and k: "k \<in> set (bt_keys constraints)" "\<not> bt_contains start k"
  obtains q compatible where "compatible_candidates X host candidates k = Inr compatible"
    "q \<in> set (matching_candidates X constraints k compatible)"
    "resolves X host candidates (bt_insert k q start) S"
proof -
  note c = collect_constraints_Inr [OF cons]
  from k(1) obtain con where con: "(k, con) \<in> demands X start" by (auto simp: c(3))
  from resolves_demand [OF res wf con] obtain q v where q: "bt_get S k = Some q"
    "version_parse X (cr_version (vr_record q)) = Some v" by blast
  have "bt_get start k = None" using k(2) by (simp add: bt_contains_def)
  with res q(1) obtain compatible where comp: "compatible_candidates X host candidates k = Inr compatible"
    "q \<in> set compatible" by (fastforce simp: resolves_def eligible_def)
  have "req_matches X (con_requirement c') v" if "c' \<in> set (the (bt_get constraints k))" for c'
  proof -
    have "(k, c') \<in> demands X start"
      using that k(1) c(2) by (auto simp: bt_keys_get pairs_of_def)
    from resolves_demand [OF res wf this] q show ?thesis by auto
  qed
  with q(2) comp(2) have "q \<in> set (matching_candidates X constraints k compatible)"
    by (simp add: matching_candidates_def)
  moreover have "resolves X host candidates (bt_insert k q start) S"
    using res q(1) by (auto simp: resolves_def)
  ultimately show thesis using comp(1) that by blast
qed

lemma search_complete:
  "search_resolve X host candidates before selected = (n, Inl f) \<Longrightarrow> f \<noteq> Limit \<Longrightarrow> bt_wf selected \<Longrightarrow>
     \<not> resolves X host candidates selected S"
proof (induction X host candidates before selected arbitrary: n f rule: search_resolve.induct)
  case (1 X host candidates before selected)
  show ?case
  proof
    assume res: "resolves X host candidates selected S"
    from "1.prems"(1) show False
    proof (cases rule: search_resolve_cases)
      case limit
      with "1.prems"(2) show False by simp
    next
      case (constraint f')
      from collect_constraints_Inl [OF this(1)] this(2) "1.prems"(2)
      show False using resolves_all_parse [OF res "1.prems"(3)] by auto
    next
      case (version constraints f')
      with resolves_versions [OF res "1.prems"(3)] show False by simp
    next
      case cycle
      have "selected_edges selected \<subseteq> selected_edges S"
        using res by (intro selected_edges_mono) (simp add: resolves_def)
      then show False
        using res cycle(1) acyclic_subset unfolding selected_graph_has_cycle_iff resolves_def by blast
    next
      case (stuck constraints k f')
      from resolves_extend [OF res "1.prems"(3) stuck(1-3)] stuck(4) show False by auto
    next
      case (mismatch constraints k compatible)
      from resolves_extend [OF res "1.prems"(3) mismatch(1-3)] mismatch(4,5) show False by auto
    next
      case (branch constraints k compatible attempts)
      from resolves_extend [OF res "1.prems"(3) branch(4,8,9)] branch(10) obtain q
        where q: "q \<in> set (matching_candidates X constraints k compatible)"
          "resolves X host candidates (bt_insert k q selected) S" by auto
      from try_candidates_Inl [OF branch(12) "1.prems"(2)] q(1) obtain i j e
        where e: "search_resolve X host candidates i (bt_insert k q selected) = (j, Inl e)" "e \<noteq> Limit"
        by blast
      from branch(8) obtain reqs where reqs: "bt_get constraints k = Some reqs" by (auto simp: bt_keys_get)
      have "bt_wf (bt_insert k q selected)" using "1.prems"(3) by simp
      from "1.IH" [OF branch(2) _ branch(4) branch(5) branch(6) branch(7) reqs branch(10) refl _ _ e this] q
      show False using branch(1,3,11) reqs by (auto simp: matching_candidates_def)
    qed simp
  qed
qed

lemma complete_resolves:
  assumes wf: "bt_wf selected" and cons: "collect_constraints X selected = Inr constraints"
    and versions: "validate_selected_versions X selected constraints = Inr ()"
    and acyc: "\<not> selected_graph_has_cycle selected"
    and closed: "\<forall>k \<in> set (bt_keys constraints). bt_contains selected k"
  shows "resolves X host candidates selected selected"
proof -
  note c = collect_constraints_Inr [OF cons]
  have "\<exists>r q v. PluginPackageDependency_parsed_requirement X d = Inr r \<and>
      bt_get selected (pd_package_id d) = Some q \<and> version_parse X (cr_version (vr_record q)) = Some v \<and>
      req_matches X r v"
    if "bt_get selected p = Some rec" "d \<in> set (cr_dependencies (vr_record rec))" for p rec d
  proof -
    from c(1) that obtain r where r: "PluginPackageDependency_parsed_requirement X d = Inr r"
      unfolding bt_get_iff_set [OF wf] all_parse_def is_ok_iff by blast
    let ?c = "\<lparr>con_required_by = p, con_requirement = r\<rparr>"
    have demand: "(pd_package_id d, ?c) \<in> demands X selected"
      using that r by (auto simp: demands_iff [OF wf])
    then have "pd_package_id d \<in> set (bt_keys constraints)" by (force simp: c(3))
    with closed obtain q where q: "bt_get selected (pd_package_id d) = Some q"
      by (auto simp: bt_contains_def)
    with versions demand obtain v where "version_parse X (cr_version (vr_record q)) = Some v"
      "req_matches X (con_requirement ?c) v"
      unfolding validate_selected_versions_iff [OF c(4)] c(2) by blast
    with r q show ?thesis by auto
  qed
  with wf acyc show ?thesis
    by (auto simp: resolves_def requirements_met_def selected_graph_has_cycle_iff)
qed

lemma resolves_insert:
  assumes res: "resolves X host candidates (bt_insert k q start) S"
    and none: "bt_get start k = None" and elig: "eligible X host candidates k q"
  shows "resolves X host candidates start S"
proof -
  have k: "bt_get S k = Some q" using res by (simp add: resolves_def)
  have "bt_get S a = Some rec" if "bt_get start a = Some rec" for a rec
    using res none that by (cases "a = k") (auto simp: resolves_def)
  moreover have "bt_get start a = Some rec \<or> eligible X host candidates a rec"
    if a: "bt_get S a = Some rec" for a rec
  proof (cases "a = k")
    case False
    from res a have "bt_get (bt_insert k q start) a = Some rec \<or> eligible X host candidates a rec"
      unfolding resolves_def by blast
    with False show ?thesis by simp
  qed (use k elig a in simp)
  ultimately show ?thesis using res by (simp add: resolves_def)
qed

lemma search_sound:
  "search_resolve X host candidates before selected = (n, Inr S) \<Longrightarrow> bt_wf selected \<Longrightarrow>
     resolves X host candidates selected S \<and> needed_by S selected \<and> length S \<le> MAX_PLUGIN_PLAN_ITEMS"
proof (induction X host candidates before selected arbitrary: n rule: search_resolve.induct)
  case (1 X host candidates before selected)
  from "1.prems"(1) show ?case
  proof (cases rule: search_resolve_cases)
    case (complete constraints)
    with complete_resolves [OF "1.prems"(2) complete(2-5)] show ?thesis
      by (auto simp: needed_by_def)
  next
    case (branch constraints k compatible attempts)
    from try_candidates_Inr [OF branch(12)] obtain q i j
      where q: "q \<in> set (matching_candidates X constraints k compatible)"
        and sub: "search_resolve X host candidates i (bt_insert k q selected) = (j, Inr S)" by blast
    from branch(8) obtain reqs where reqs: "bt_get constraints k = Some reqs" by (auto simp: bt_keys_get)
    have "bt_wf (bt_insert k q selected)" using "1.prems"(2) by simp
    with "1.IH" [OF branch(2) _ branch(4) branch(5) branch(6) branch(7) reqs branch(10) refl _ _ sub] q
    have ih: "resolves X host candidates (bt_insert k q selected) S" "needed_by S (bt_insert k q selected)"
      "length S \<le> MAX_PLUGIN_PLAN_ITEMS"
      using branch(1,3,11) reqs by (auto simp: matching_candidates_def)
    have none: "bt_get selected k = None" using branch(9) by (simp add: bt_contains_def)
    have elig: "eligible X host candidates k q"
      using branch(10) q by (auto simp: eligible_def matching_candidates_def)
    have res: "resolves X host candidates selected S"
      by (rule resolves_insert [OF ih(1) none elig])
    from branch(8) obtain con where "(k, con) \<in> demands X selected"
      using collect_constraints_Inr(3) [OF branch(4)] by auto
    then obtain p rec where p: "bt_get selected p = Some rec" "k \<in> set (record_dependencies rec)"
      by (auto simp: demands_iff [OF "1.prems"(2)] record_dependencies_def)
    have "bt_get S p = Some rec" "bt_get S k = Some q"
      using res ih(1) p(1) by (auto simp: resolves_def)
    with p(2) have "(p, k) \<in> selected_edges S" by (auto simp: selected_edges_def bt_contains_def)
    moreover have "p \<in> set (bt_keys selected)" using p(1) by (simp add: bt_keys_get)
    ultimately have "(selected_edges S)\<^sup>* `` {k} \<subseteq> (selected_edges S)\<^sup>* `` set (bt_keys selected)"
      by (auto intro: converse_rtrancl_into_rtrancl)
    with ih(2) have "needed_by S selected" unfolding needed_by_def by auto
    with res ih(3) show ?thesis by blast
  qed auto
qed

section \<open>Lemmas: candidates\<close>

lemma set_sort_by [simp]: "set (sort_by f xs) = set xs"
proof -
  have "set (insert_by f x ys) = insert x (set ys)" for x ys
    by (induction f x ys rule: insert_by.induct) auto
  then show ?thesis unfolding sort_by_def by (induction xs) auto
qed

abbreviation package_of :: "VerifiedPluginCatalogRecord \<Rightarrow> string" where
  "package_of rec \<equiv> cr_package_id (vr_record rec)"

lemma index_candidates_pairs:
  assumes "fold_result (index_candidate X) (m, seen) candidates = Inr (m', seen')"
  shows "pairs_of m' = pairs_of m \<union> {(package_of c, c) | c. c \<in> set candidates} \<and>
    (\<forall>c \<in> set candidates. validate_candidate X c = Inr ())"
  using assms
proof (induction candidates arbitrary: m seen)
  case (Cons c cs)
  from Cons.prems obtain seen1 where "validate_candidate X c = Inr ()"
    "fold_result (index_candidate X) (bt_push (package_of c) c m, seen1) cs = Inr (m', seen')"
    by (auto simp: index_candidate_def [of X "(m, seen)"] and_then_Inr split: if_splits)
  with Cons.IH [OF this(2)] show ?case by auto
qed simp

lemma index_candidates_get:
  assumes "index_candidates X candidates = Inr by_package"
  shows "(\<exists>recs. bt_get by_package k = Some recs \<and> c \<in> set recs) \<longleftrightarrow> c \<in> set candidates \<and> package_of c = k"
    and "c \<in> set candidates \<Longrightarrow> validate_candidate X c = Inr ()"
proof -
  from assms obtain m seen where m: "fold_result (index_candidate X) ([], {}) candidates = Inr (m, seen)"
    and idx: "by_package = map (\<lambda>(k, records). (k, sort_by (compare_candidates X) records)) m"
    by (auto simp: index_candidates_def and_then_Inr)
  note pairs = index_candidates_pairs [OF m, simplified]
  have "(\<exists>recs. bt_get by_package k = Some recs \<and> c \<in> set recs) \<longleftrightarrow> (k, c) \<in> pairs_of m"
    by (auto simp: idx bt_get_map_values pairs_of_def)
  with pairs show "(\<exists>recs. bt_get by_package k = Some recs \<and> c \<in> set recs) \<longleftrightarrow>
      c \<in> set candidates \<and> package_of c = k" by auto
  show "c \<in> set candidates \<Longrightarrow> validate_candidate X c = Inr ()" using pairs by blast
qed

text \<open>What every selected entry satisfies, and the lock node it becomes.\<close>

definition entry_ok ::
  "('v, 'r, 'x) lock_externals_scheme \<Rightarrow> PluginPackageLockHost \<Rightarrow> string \<Rightarrow> VerifiedPluginCatalogRecord \<Rightarrow> bool" where
  "entry_ok X host k rec \<longleftrightarrow> package_of rec = k \<and> VerifiedPluginCatalogRecord_validate X rec = Inr () \<and>
     \<not> is_withdrawn (cr_availability (vr_record rec)) \<and> is_host_compatible X rec host = Inr True"

lemma host_compatible_iff:
  assumes "PluginPackageLockHost_validate X host = Inr ()"
  shows "is_host_compatible X rec host = Inr True \<longleftrightarrow>
    cr_target (vr_record rec) \<in> {''any'', plh_target host} \<and>
    (\<exists>v r. version_parse X (plh_use_version host) = Some v \<and>
       req_parse X (cr_requires_use (vr_record rec)) = Some r \<and> req_matches X r v)"
  using host_validate_version [OF assms]
  by (auto simp: is_host_compatible_def and_then_Inr ok_or_Inr split: if_splits)

lemma entry_ok_node:
  assumes "PluginPackageLockHost_validate X host = Inr ()"
  shows "node_ok X host \<lparr>lp_catalog = rec, lp_dependencies = ds\<rparr> \<longleftrightarrow> entry_ok X host (package_of rec) rec"
  using host_compatible_iff [OF assms] by (auto simp: node_ok_def entry_ok_def)

lemma validate_candidate_iff:
  "validate_candidate X rec = Inr () \<longleftrightarrow> VerifiedPluginCatalogRecord_validate X rec = Inr ()"
proof -
  have "cr_schema (vr_record rec) = PLUGIN_CATALOG_SCHEMA_V3"
    if "VerifiedPluginCatalogRecord_validate X rec = Inr ()"
    using that unfolding VerifiedPluginCatalogRecord_validate_def and_then_Inr map_err_Inr
      PluginCatalogRecord_validate_def if_Inl_Inr validate_identity_def by blast
  then show ?thesis by (auto simp: validate_candidate_def and_then_Inr map_err_Inr if_Inl_Inr)
qed

text \<open>A candidate package is unambiguous when all its candidates come from one registry.\<close>

definition unambiguous :: "VerifiedPluginCatalogRecord list \<Rightarrow> string \<Rightarrow> bool" where
  "unambiguous candidates k \<longleftrightarrow>
     (\<forall>a \<in> set candidates. \<forall>b \<in> set candidates. package_of a = k \<longrightarrow> package_of b = k \<longrightarrow>
        registry_identity (vr_provenance a) = registry_identity (vr_provenance b))"

lemma registries_single: "length (bs_collect (map f xs)) \<le> 1 \<longleftrightarrow> (\<forall>a \<in> set xs. \<forall>b \<in> set xs. f a = f b)"
proof -
  have "card (f ` set xs) \<le> 1 \<longleftrightarrow> (\<forall>a \<in> set xs. \<forall>b \<in> set xs. f a = f b)"
    by (auto simp: card_le_Suc0_iff_eq)
  then show ?thesis by (simp add: length_bs_collect)
qed

lemma eligible_iff:
  assumes index: "index_candidates X candidates = Inr by_package"
  shows "eligible X host by_package k rec \<longleftrightarrow>
    rec \<in> set candidates \<and> entry_ok X host k rec \<and> unambiguous candidates k"
proof -
  note get = index_candidates_get(1) [OF index] and valid = index_candidates_get(2) [OF index]
  have "eligible X host by_package k rec \<longleftrightarrow> (\<exists>recs. bt_get by_package k = Some recs \<and> rec \<in> set recs \<and>
      (\<forall>a \<in> set recs. \<forall>b \<in> set recs.
         registry_identity (vr_provenance a) = registry_identity (vr_provenance b)) \<and>
      \<not> is_withdrawn (cr_availability (vr_record rec)) \<and> is_host_compatible X rec host = Inr True)"
    unfolding eligible_def compatible_candidates_def Let_def registries_single [symmetric]
    by (auto simp: filter_empty_conv split: option.splits if_splits)
  also have "\<dots> \<longleftrightarrow> rec \<in> set candidates \<and> package_of rec = k \<and> unambiguous candidates k \<and>
      \<not> is_withdrawn (cr_availability (vr_record rec)) \<and> is_host_compatible X rec host = Inr True"
  proof -
    have "(\<forall>a \<in> set recs. \<forall>b \<in> set recs.
         registry_identity (vr_provenance a) = registry_identity (vr_provenance b)) \<longleftrightarrow>
        unambiguous candidates k" if "bt_get by_package k = Some recs" for recs
    proof -
      have "set recs = {c \<in> set candidates. package_of c = k}" using get [of k] that by auto
      then show ?thesis by (auto simp: unambiguous_def)
    qed
    with get [of k rec] show ?thesis by blast
  qed
  also have "\<dots> \<longleftrightarrow> rec \<in> set candidates \<and> entry_ok X host k rec \<and> unambiguous candidates k"
    using valid [of rec] unfolding entry_ok_def validate_candidate_iff by blast
  finally show ?thesis .
qed

section \<open>Lemmas: selections and locks\<close>

definition locked_dependency :: "selection \<Rightarrow> PluginPackageDependency \<Rightarrow> LockedPluginPackageDependency" where
  "locked_dependency S d =
     \<lparr>ld_package_id = pd_package_id d, ld_version_requirement = pd_version_requirement d,
      ld_version = cr_version (vr_record (the (bt_get S (pd_package_id d))))\<rparr>"

definition locked_package :: "selection \<Rightarrow> VerifiedPluginCatalogRecord \<Rightarrow> LockedPluginPackage" where
  "locked_package S rec =
     \<lparr>lp_catalog = rec, lp_dependencies = map (locked_dependency S) (cr_dependencies (vr_record rec))\<rparr>"

lemma lock_package_total:
  assumes "requirements_met X S" "bt_get S p = Some rec"
  shows "lock_package S rec = Inr (locked_package S rec)"
proof -
  have "lock_dependency S d = Inr (locked_dependency S d)" if "d \<in> set (cr_dependencies (vr_record rec))" for d
    using assms that by (fastforce simp: requirements_met_def lock_dependency_def locked_dependency_def)
  then have "collect_results (lock_dependency S) (cr_dependencies (vr_record rec)) =
      Inr (map (locked_dependency S) (cr_dependencies (vr_record rec)))"
    by (rule collect_results_total)
  then show ?thesis by (simp add: lock_package_def locked_package_def)
qed

lemma parsed_requirement_iff:
  "PluginPackageDependency_parsed_requirement X d = Inr r \<longleftrightarrow>
     PluginPackageDependency_validate X d = Inr () \<and> req_parse X (pd_version_requirement d) = Some r"
  by (auto simp: PluginPackageDependency_parsed_requirement_def and_then_Inr ok_or_Inr)

lemma verified_record_facts:
  assumes "VerifiedPluginCatalogRecord_validate X rec = Inr ()"
  shows "valid_package_id (package_of rec)"
    and "\<exists>v. version_parse X (cr_version (vr_record rec)) = Some v \<and> version_string X v = cr_version (vr_record rec)"
    and "\<forall>d \<in> set (cr_dependencies (vr_record rec)). PluginPackageDependency_validate X d = Inr ()"
proof -
  have valid: "PluginCatalogRecord_validate X (vr_record rec) = Inr ()"
    using assms by (auto simp: VerifiedPluginCatalogRecord_validate_def and_then_Inr map_err_Inr)
  from valid have ident: "validate_identity X (vr_record rec)" by (rule record_validate_parts)
  from valid have set: "PluginPackageDependency_validate_set X (package_of rec)
      (cr_dependencies (vr_record rec)) = Inr ()" by (rule record_validate_parts)
  from ident show "valid_package_id (package_of rec)"
    and "\<exists>v. version_parse X (cr_version (vr_record rec)) = Some v \<and> version_string X v = cr_version (vr_record rec)"
    unfolding validate_identity_def by (auto split: option.splits)
  from set show "\<forall>d \<in> set (cr_dependencies (vr_record rec)). PluginPackageDependency_validate X d = Inr ()"
    by (simp add: dependency_validate_set_iff)
qed

definition lock_of :: "string \<Rightarrow> PluginPackageLockHost \<Rightarrow> selection \<Rightarrow> PluginPackageLock" where
  "lock_of root host S =
     \<lparr>pl_schema = PLUGIN_PACKAGE_LOCK_SCHEMA, pl_root_package_id = root, pl_host = host,
      pl_packages = map (\<lambda>e. locked_package S (snd e)) S\<rparr>"

lemma locked_package_simps [simp]:
  "lp_catalog (locked_package S rec) = rec"
  "LockedPluginPackage_package_id (locked_package S rec) = package_of rec"
  "LockedPluginPackage_version (locked_package S rec) = cr_version (vr_record rec)"
  "dependency_ids (locked_package S rec) = record_dependencies rec"
  by (simp_all add: locked_package_def LockedPluginPackage_package_id_def LockedPluginPackage_version_def
      dependency_ids_def record_dependencies_def locked_dependency_def comp_def)

lemma lock_of_ids:
  assumes "bt_wf S" "\<forall>k rec. bt_get S k = Some rec \<longrightarrow> package_of rec = k"
  shows "map LockedPluginPackage_package_id (pl_packages (lock_of root host S)) = bt_keys S"
  using assms by (auto simp: lock_of_def bt_keys_def bt_get_iff_set comp_def intro!: map_cong)

lemma lock_of_depends:
  assumes wf: "bt_wf S" and ids: "\<forall>k rec. bt_get S k = Some rec \<longrightarrow> package_of rec = k"
    and met: "requirements_met X S"
  shows "lock_depends (pl_packages (lock_of root host S)) = selected_edges S"
proof -
  have "bt_contains S b" if "bt_get S a = Some rec" "b \<in> set (record_dependencies rec)" for a b rec
    using met that unfolding requirements_met_def record_dependencies_def bt_contains_def by fastforce
  then have edge: "(a, b) \<in> selected_edges S \<longleftrightarrow> (\<exists>rec. (a, rec) \<in> set S \<and> b \<in> set (record_dependencies rec))"
    for a b by (auto simp: selected_edges_def bt_get_iff_set [OF wf])
  have pk: "package_of rec = k" if "(k, rec) \<in> set S" for k rec
    using ids that by (simp add: bt_get_iff_set [OF wf])
  have "(a, b) \<in> lock_depends (pl_packages (lock_of root host S)) \<longleftrightarrow>
      (\<exists>rec. (a, rec) \<in> set S \<and> b \<in> set (record_dependencies rec))" for a b
  proof -
    have "(a, b) \<in> lock_depends (pl_packages (lock_of root host S)) \<longleftrightarrow>
        (\<exists>e \<in> set S. a = package_of (snd e) \<and> b \<in> set (record_dependencies (snd e)))"
      by (simp add: lock_depends_def lock_of_def)
    also have "\<dots> \<longleftrightarrow> (\<exists>k rec. (k, rec) \<in> set S \<and> a = package_of rec \<and> b \<in> set (record_dependencies rec))"
      by (metis prod.collapse snd_conv)
    finally show ?thesis using pk by blast
  qed
  with edge show ?thesis by auto
qed

lemma lock_of_edges:
  assumes wf: "bt_wf S" and ok: "\<forall>k rec. bt_get S k = Some rec \<longrightarrow> entry_ok X host k rec"
    and met: "requirements_met X S" and rec: "bt_get S k = Some rec"
  shows "list_all2 (edge_ok X (pl_packages (lock_of root host S)))
    (lp_dependencies (locked_package S rec)) (cr_dependencies (vr_record rec))"
proof -
  have "edge_ok X (pl_packages (lock_of root host S)) (locked_dependency S d) d"
    if "d \<in> set (cr_dependencies (vr_record rec))" for d
  proof -
    from met rec that obtain r q v where d: "PluginPackageDependency_parsed_requirement X d = Inr r"
      "bt_get S (pd_package_id d) = Some q" "version_parse X (cr_version (vr_record q)) = Some v"
      "req_matches X r v" unfolding requirements_met_def by blast
    from ok d(2) have q: "entry_ok X host (pd_package_id d) q" by blast
    then have "version_string X v = cr_version (vr_record q)"
      using verified_record_facts(2) d(3) by (fastforce simp: entry_ok_def)
    moreover have "locked_package S q \<in> set (pl_packages (lock_of root host S))"
      using d(2) by (force simp: lock_of_def bt_get_iff_set [OF wf])
    moreover have "req_parse X (pd_version_requirement d) = Some r" "req_string X r = pd_version_requirement d"
      using d(1) dependency_validate_parse [of X d] by (auto simp: parsed_requirement_iff)
    ultimately show ?thesis
      using d(2-4) q unfolding edge_ok_def locked_dependency_def
      by (auto simp: entry_ok_def intro!: bexI [of _ "locked_package S q"])
  qed
  then show ?thesis by (simp add: locked_package_def list_all2_conv_all_nth)
qed

lemma lock_of_valid:
  assumes wf: "bt_wf S" and ok: "\<forall>k rec. bt_get S k = Some rec \<longrightarrow> entry_ok X host k rec"
    and met: "requirements_met X S" and acyc: "acyclic (selected_edges S)"
    and root: "bt_get S root = Some rec" and need: "needed_by S [(root, rec)]"
    and len: "length S \<le> MAX_PLUGIN_PLAN_ITEMS" and host: "PluginPackageLockHost_validate X host = Inr ()"
  shows "PluginPackageLock_validate X (lock_of root host S) = Inr ()"
proof -
  let ?P = "pl_packages (lock_of root host S)"
  have ids: "\<forall>k rec. bt_get S k = Some rec \<longrightarrow> package_of rec = k" using ok by (simp add: entry_ok_def)
  note P_ids = lock_of_ids [OF wf ids, of root host] and E = lock_of_depends [OF wf ids met, of root host]
  have entry: "\<exists>rec. p = locked_package S rec \<and> bt_get S (package_of rec) = Some rec" if "p \<in> set ?P" for p
    using that ids by (auto simp: lock_of_def bt_get_iff_set [OF wf])
  have "valid_package_id root"
    using ok root verified_record_facts(1) by (fastforce simp: entry_ok_def)
  moreover have "\<forall>p \<in> set ?P. node_ok X host p"
    using entry ok entry_ok_node [OF host] unfolding locked_package_def by fastforce
  moreover have "\<forall>p \<in> set ?P.
      list_all2 (edge_ok X ?P) (lp_dependencies p) (cr_dependencies (vr_record (lp_catalog p)))"
    using entry lock_of_edges [OF wf ok met] by fastforce
  moreover have "(selected_edges S)\<^sup>* `` {root} = set (bt_keys S)"
  proof
    show "set (bt_keys S) \<subseteq> (selected_edges S)\<^sup>* `` {root}" using need by (simp add: needed_by_def)
    have "selected_edges S `` set (bt_keys S) \<subseteq> set (bt_keys S)"
      by (auto simp: selected_edges_def bt_keys_contains)
    from ImageE_closed [OF this, of root] root
    show "(selected_edges S)\<^sup>* `` {root} \<subseteq> set (bt_keys S)" by (auto simp: bt_keys_get)
  qed
  moreover have "sorted_wrt (<) (bt_keys S)" using wf by (simp add: bt_wf_def)
  ultimately show ?thesis
    unfolding lock_validate_iff E P_ids using acyc len host by (simp add: lock_of_def)
qed

lemma from_selected_total:
  assumes "bt_wf S" "\<forall>k rec. bt_get S k = Some rec \<longrightarrow> entry_ok X host k rec"
    and met: "requirements_met X S" and "acyclic (selected_edges S)"
    and "bt_get S root = Some rec" "needed_by S [(root, rec)]"
    and "length S \<le> MAX_PLUGIN_PLAN_ITEMS" "PluginPackageLockHost_validate X host = Inr ()"
  shows "PluginPackageLock_from_selected X root host S = Inr (lock_of root host S)"
proof -
  have "collect_results (lock_package S) (bt_values S) = Inr (map (locked_package S) (bt_values S))"
    using lock_package_total [OF met] by (intro collect_results_total)
      (auto simp: bt_values_def bt_get_iff_set [OF assms(1)])
  moreover have "map (locked_package S) (bt_values S) = pl_packages (lock_of root host S)"
    by (simp add: lock_of_def bt_values_def)
  ultimately show ?thesis
    using lock_of_valid [OF assms] by (simp add: PluginPackageLock_from_selected_def lock_of_def)
qed

section \<open>Lemmas: the resolver\<close>

text \<open>The stages a resolution has passed once its search starts.\<close>

definition search_ready ::
  "('v, 'r, 'x) lock_externals_scheme \<Rightarrow> PluginPackageLockHost \<Rightarrow> VerifiedPluginCatalogRecord
     \<Rightarrow> VerifiedPluginCatalogRecord list \<Rightarrow> (string, VerifiedPluginCatalogRecord list) btree_map \<Rightarrow> bool" where
  "search_ready X host root candidates by_package \<longleftrightarrow>
     PluginPackageLockHost_validate X host = Inr () \<and> entry_ok X host (package_of root) root \<and>
     index_candidates X candidates = Inr by_package"

lemma index_candidates_error:
  "index_candidates X candidates = Inl e \<Longrightarrow> e = PackageResolutionInvalid \<or> e = CatalogProvenanceInvalid"
proof -
  have step: "e = PackageResolutionInvalid \<or> e = CatalogProvenanceInvalid" if "index_candidate X st c = Inl e" for st c
  proof (cases "validate_candidate X c")
    case (Inl e')
    have "fails_with PackageResolutionInvalid (validate_candidate X c)"
      unfolding validate_candidate_def by (intro error_intros)
    with Inl that show ?thesis by (simp add: index_candidate_def fails_with_def)
  next
    case (Inr u)
    then have "VerifiedPluginCatalogRecord_validate X c = Inr ()" by (simp add: validate_candidate_iff)
    then have "fails_with CatalogProvenanceInvalid (VerifiedPluginCatalogRecord_descriptor_digest X c)"
      unfolding VerifiedPluginCatalogRecord_descriptor_digest_def canonical_json_def
      by (auto intro!: error_intros)
    with Inr that show ?thesis
      by (auto simp: index_candidate_def and_then_Inl fails_with_def split: if_splits)
  qed
  have "fold_result (index_candidate X) st cs = Inl e \<Longrightarrow>
      e = PackageResolutionInvalid \<or> e = CatalogProvenanceInvalid" for st cs
    by (induction cs arbitrary: st) (auto simp: and_then_Inl dest: step)
  then show "index_candidates X candidates = Inl e \<Longrightarrow>
      e = PackageResolutionInvalid \<or> e = CatalogProvenanceInvalid"
    by (auto simp: index_candidates_def and_then_Inl split: prod.splits)
qed

lemma resolve_stages:
  obtains
    (host) e where "PluginPackageResolver_resolve X host root candidates = Inl e"
      "PluginPackageLockHost_validate X host = Inl e"
  | (root) "PluginPackageResolver_resolve X host root candidates = Inl PackageDependencyIncompatible"
      "PluginPackageLockHost_validate X host = Inr ()" "\<not> entry_ok X host (package_of root) root"
  | (input) e where "PluginPackageResolver_resolve X host root candidates = Inl e"
      "PluginPackageLockHost_validate X host = Inr ()"
      "e \<in> {PackageResolutionInvalid, PackageResolutionLimit, CatalogProvenanceInvalid}"
  | (search) by_package n res where "search_ready X host root candidates by_package"
      "search_resolve X host by_package 0 [(package_of root, root)] = (n, res)"
      "PluginPackageResolver_resolve X host root candidates =
         and_then (map_err ResolutionFailure_into_error res) (\<lambda>selected.
           PluginPackageLock_from_selected X (package_of root) host selected)"
proof (cases "PluginPackageLockHost_validate X host")
  case (Inl e)
  then show thesis by (auto simp: PluginPackageResolver_resolve_def intro: host)
next
  case hostv: (Inr u)
  from hostv host_validate_version [of X host] obtain v where
    "PluginPackageLockHost_parsed_use_version X host = Inr v" by auto
  then have compat: "fails_with PackageResolutionInvalid (is_host_compatible X root host)"
    unfolding is_host_compatible_def by (auto intro!: error_intros)
  have "fails_with PackageResolutionInvalid (validate_candidate X root)"
    unfolding validate_candidate_def by (intro error_intros)
  then consider (invalid) "validate_candidate X root = Inl PackageResolutionInvalid"
    | (valid) "validate_candidate X root = Inr ()"
    by (cases "validate_candidate X root") (auto simp: fails_with_def)
  then show thesis
  proof cases
    case invalid
    with hostv show thesis by (intro input [of PackageResolutionInvalid]) (simp_all add: PluginPackageResolver_resolve_def)
  next
    case valid
    let ?fit = "entry_ok X host (package_of root) root"
    consider (bad) "is_host_compatible X root host = Inl PackageResolutionInvalid"
      | (unfit) c where "is_host_compatible X root host = Inr c" "\<not> ?fit"
      | (fit) "is_host_compatible X root host = Inr True"
          "\<not> is_withdrawn (cr_availability (vr_record root))" ?fit
      using compat valid
      by (cases "is_host_compatible X root host")
        (auto simp: fails_with_def entry_ok_def validate_candidate_iff)
    then show thesis
    proof cases
      case bad
      with hostv valid show thesis by (intro input [of PackageResolutionInvalid]) (simp_all add: PluginPackageResolver_resolve_def)
    next
      case (unfit c)
      with valid have "\<not> c \<or> is_withdrawn (cr_availability (vr_record root))"
        by (auto simp: entry_ok_def validate_candidate_iff)
      with hostv valid unfit show thesis
        by (intro root) (simp_all add: PluginPackageResolver_resolve_def)
    next
      case fit
      note stage = hostv valid fit(1,2)
      show thesis
      proof (cases "length candidates > MAX_PLUGIN_RESOLUTION_CANDIDATES")
        case True
        with stage show thesis by (intro input [of PackageResolutionLimit]) (simp_all add: PluginPackageResolver_resolve_def)
      next
        case False
        show thesis
        proof (cases "index_candidates X candidates")
          case (Inl e)
          with stage False index_candidates_error [OF Inl] show thesis
            by (intro input [of e]) (auto simp: PluginPackageResolver_resolve_def)
        next
          case (Inr by_package)
          with stage False fit(3) show thesis
            by (intro search [of by_package "fst (search_resolve X host by_package 0 [(package_of root, root)])"
                  "snd (search_resolve X host by_package 0 [(package_of root, root)])"])
              (simp_all add: PluginPackageResolver_resolve_def search_ready_def)
        qed
      qed
    qed
  qed
qed

lemma search_ready_result:
  assumes ready: "search_ready X host root candidates by_package"
    and found: "search_resolve X host by_package 0 [(package_of root, root)] = (n, Inr S)"
  shows "PluginPackageLock_from_selected X (package_of root) host S = Inr (lock_of (package_of root) host S)"
    and "PluginPackageLock_validate X (lock_of (package_of root) host S) = Inr ()"
    and "bt_get S k = Some rec \<Longrightarrow> k = package_of root \<and> rec = root \<or>
      rec \<in> set candidates \<and> package_of rec = k \<and> unambiguous candidates k"
    and "bt_wf S"
proof -
  let ?start = "[(package_of root, root)]"
  have "bt_wf ?start" by (simp add: bt_wf_def)
  note s = search_sound [OF found this]
  then have res: "resolves X host by_package ?start S" by blast
  have index: "index_candidates X candidates = Inr by_package" using ready by (simp add: search_ready_def)
  have start: "bt_get ?start k = Some rec \<longleftrightarrow> k = package_of root \<and> rec = root" for k rec
    by (auto simp: bt_get_def)
  have entry: "k = package_of root \<and> rec = root \<or> eligible X host by_package k rec"
    if "bt_get S k = Some rec" for k rec
    using res that start unfolding resolves_def by blast
  then have ok: "\<forall>k rec. bt_get S k = Some rec \<longrightarrow> entry_ok X host k rec"
    using ready eligible_iff [OF index] unfolding search_ready_def by blast
  have root: "bt_get S (package_of root) = Some root" using res start unfolding resolves_def by blast
  have wf: "bt_wf S" and met: "requirements_met X S" and acyc: "acyclic (selected_edges S)"
    using res by (simp_all add: resolves_def)
  have need: "needed_by S ?start" and len: "length S \<le> MAX_PLUGIN_PLAN_ITEMS" using s by blast+
  have host: "PluginPackageLockHost_validate X host = Inr ()" using ready by (simp add: search_ready_def)
  show "PluginPackageLock_from_selected X (package_of root) host S = Inr (lock_of (package_of root) host S)"
    by (rule from_selected_total [OF wf ok met acyc root need len host])
  show "PluginPackageLock_validate X (lock_of (package_of root) host S) = Inr ()"
    by (rule lock_of_valid [OF wf ok met acyc root need len host])
  show "bt_get S k = Some rec \<Longrightarrow> k = package_of root \<and> rec = root \<or>
      rec \<in> set candidates \<and> package_of rec = k \<and> unambiguous candidates k"
    using entry eligible_iff [OF index] by (auto simp: entry_ok_def)
  show "bt_wf S" by (rule wf)
qed

lemma selection_root:
  assumes "search_ready X host root candidates by_package"
    and found: "search_resolve X host by_package 0 [(package_of root, root)] = (n, Inr S)"
    and "bt_get S (package_of root) = Some rec"
  shows "rec = root"
proof -
  have "resolves X host by_package [(package_of root, root)] S"
    using search_sound [OF found] by (simp add: bt_wf_def)
  then have "bt_get S (package_of root) = Some root" by (simp add: resolves_def bt_get_def)
  with assms(3) show ?thesis by simp
qed

text \<open>The selection a lock stands for resolves the root.\<close>

definition selection_of :: "PluginPackageLock \<Rightarrow> selection" where
  "selection_of l = map (\<lambda>p. (LockedPluginPackage_package_id p, lp_catalog p)) (pl_packages l)"

definition drawn_from ::
  "VerifiedPluginCatalogRecord \<Rightarrow> VerifiedPluginCatalogRecord list \<Rightarrow> PluginPackageLock \<Rightarrow> bool" where
  "drawn_from root candidates l \<longleftrightarrow>
     pl_root_package_id l = package_of root \<and>
     (\<forall>p \<in> set (pl_packages l).
        if LockedPluginPackage_package_id p = package_of root then lp_catalog p = root
        else lp_catalog p \<in> set candidates \<and> unambiguous candidates (LockedPluginPackage_package_id p))"

lemma selection_of_requirements:
  assumes valid: "PluginPackageLock_validate X l = Inr ()"
  shows "requirements_met X (selection_of l)" "selected_edges (selection_of l) = lock_depends (pl_packages l)"
proof -
  note v = valid [unfolded lock_validate_iff]
  then have d: "distinct (package_ids (pl_packages l))" by (auto dest: sorted_less_distinct)
  have get: "bt_get (selection_of l) k = Some rec \<longleftrightarrow>
      (\<exists>p \<in> set (pl_packages l). LockedPluginPackage_package_id p = k \<and> lp_catalog p = rec)" for k rec
    unfolding selection_of_def by (rule bt_get_graph [OF d])
  have dep: "\<exists>e \<in> set (lp_dependencies p). edge_ok X (pl_packages l) e dd"
    if "p \<in> set (pl_packages l)" "dd \<in> set (cr_dependencies (vr_record (lp_catalog p)))" for p dd
    using v that by (metis in_set_conv_nth list_all2_conv_all_nth)
  have ids: "dependency_ids p = record_dependencies (lp_catalog p)" if "p \<in> set (pl_packages l)" for p
  proof -
    have "list_all2 (edge_ok X (pl_packages l)) (lp_dependencies p) (cr_dependencies (vr_record (lp_catalog p)))"
      using v that by blast
    then show ?thesis
      by (auto simp: dependency_ids_def record_dependencies_def list_all2_conv_all_nth edge_ok_def
          intro!: nth_equalityI)
  qed
  show met: "requirements_met X (selection_of l)"
    unfolding requirements_met_def
  proof (intro allI impI ballI)
    fix p rec dd assume "bt_get (selection_of l) p = Some rec" "dd \<in> set (cr_dependencies (vr_record rec))"
    then obtain lp where lp: "lp \<in> set (pl_packages l)" "lp_catalog lp = rec"
      "dd \<in> set (cr_dependencies (vr_record (lp_catalog lp)))" by (auto simp: get)
    from dep [OF lp(1,3)] obtain q vv r where q: "q \<in> set (pl_packages l)"
      "LockedPluginPackage_package_id q = pd_package_id dd"
      "version_parse X (LockedPluginPackage_version q) = Some vv"
      "req_parse X (pd_version_requirement dd) = Some r" "req_matches X r vv"
      by (auto simp: edge_ok_def)
    have "PluginPackageDependency_validate X dd = Inr ()"
      using v lp verified_record_facts(3) [of X rec] by (auto simp: node_ok_def)
    with q(4) have "PluginPackageDependency_parsed_requirement X dd = Inr r"
      by (simp add: parsed_requirement_iff)
    with q get show "\<exists>r q v. PluginPackageDependency_parsed_requirement X dd = Inr r \<and>
        bt_get (selection_of l) (pd_package_id dd) = Some q \<and>
        version_parse X (cr_version (vr_record q)) = Some v \<and> req_matches X r v"
      unfolding LockedPluginPackage_version_def by blast
  qed
  have "bt_contains (selection_of l) b" if "p \<in> set (pl_packages l)" "b \<in> set (dependency_ids p)" for p b
    using met that ids unfolding requirements_met_def record_dependencies_def bt_contains_def
    by (fastforce simp: get)
  then show "selected_edges (selection_of l) = lock_depends (pl_packages l)"
    using ids unfolding selected_edges_def lock_depends_def get by auto
qed

lemma selection_of_resolves:
  assumes valid: "PluginPackageLock_validate X l = Inr ()" and drawn: "drawn_from root candidates l"
    and host: "pl_host l = host" and index: "index_candidates X candidates = Inr by_package"
  shows "resolves X host by_package [(package_of root, root)] (selection_of l)"
proof -
  note v = valid [unfolded lock_validate_iff]
  then have sorted: "sorted_wrt (<) (package_ids (pl_packages l))" by blast
  have get: "bt_get (selection_of l) k = Some rec \<longleftrightarrow>
      (\<exists>p \<in> set (pl_packages l). LockedPluginPackage_package_id p = k \<and> lp_catalog p = rec)" for k rec
    unfolding selection_of_def by (rule bt_get_graph [OF sorted_less_distinct [OF sorted]])
  have hostv: "PluginPackageLockHost_validate X host = Inr ()" using v host by simp
  have "package_of root \<in> set (package_ids (pl_packages l))"
    using v drawn by (auto simp: drawn_from_def)
  then have root: "bt_get (selection_of l) (package_of root) = Some root"
    using drawn by (auto simp: get drawn_from_def)
  have "eligible X host by_package k rec"
    if rec: "bt_get (selection_of l) k = Some rec" and "k \<noteq> package_of root" for k rec
  proof -
    from rec obtain p where p: "p \<in> set (pl_packages l)" "LockedPluginPackage_package_id p = k"
      "lp_catalog p = rec" by (auto simp: get)
    then have "node_ok X host p" using v host by blast
    then have "entry_ok X host k rec"
      using p host_compatible_iff [OF hostv] 
      by (auto simp: entry_ok_def node_ok_def LockedPluginPackage_package_id_def)
    with p drawn that show ?thesis by (auto simp: eligible_iff [OF index] drawn_from_def)
  qed
  moreover have "bt_wf (selection_of l)" using sorted by (simp add: selection_of_def bt_wf_def)
  ultimately show ?thesis
    using root selection_of_requirements [OF valid] v
    unfolding resolves_def bt_get_def by (auto split: if_splits)
qed

lemma drawn_root_ok:
  assumes valid: "PluginPackageLock_validate X l = Inr ()" and host: "pl_host l = host"
    and drawn: "drawn_from root candidates l"
  shows "PluginPackageLockHost_validate X host = Inr ()" "entry_ok X host (package_of root) root"
proof -
  note v = valid [unfolded lock_validate_iff]
  show hostv: "PluginPackageLockHost_validate X host = Inr ()" using v host by simp
  have "package_of root \<in> set (package_ids (pl_packages l))"
    using v drawn by (auto simp: drawn_from_def)
  then obtain p where p: "p \<in> set (pl_packages l)" "LockedPluginPackage_package_id p = package_of root"
    "lp_catalog p = root" using drawn unfolding drawn_from_def by auto
  have "node_ok X host p" using v p(1) host by blast
  then show "entry_ok X host (package_of root) root"
    using p(3) host_compatible_iff [OF hostv] by (auto simp: entry_ok_def node_ok_def)
qed

section \<open>Properties\<close>

text \<open>
  C2: the lock a resolution returns is consistent, is for the given root and host, selects the given
  root record itself and draws every other node from the given candidates, each from a package whose
  candidates all come from one registry.
\<close>

theorem resolve_sound:
  assumes "PluginPackageResolver_resolve X host root candidates = Inr l"
  shows "lock_consistent X l \<and> pl_host l = host \<and> drawn_from root candidates l"
proof (cases rule: resolve_stages [of X host root candidates])
  case (search by_package n res)
  then obtain S where found: "search_resolve X host by_package 0 [(package_of root, root)] = (n, Inr S)"
    and lock: "PluginPackageLock_from_selected X (package_of root) host S = Inr l"
    using assms by (cases res) auto
  note r = search_ready_result [OF search(1) found]
  have l: "l = lock_of (package_of root) host S" using r(1) lock by simp
  have "lock_consistent X l"
    using r(2) l lock_validate_iff [of X l] unfolding lock_consistent_def by blast
  moreover have "drawn_from root candidates l"
    unfolding drawn_from_def
  proof (intro conjI ballI)
    fix p assume "p \<in> set (pl_packages l)"
    then obtain k rec where "(k, rec) \<in> set S" "p = locked_package S rec" by (auto simp: l lock_of_def)
    with r(3) [of k rec] show "if LockedPluginPackage_package_id p = package_of root then lp_catalog p = root
        else lp_catalog p \<in> set candidates \<and> unambiguous candidates (LockedPluginPackage_package_id p)"
      using selection_root [OF search(1) found] by (auto simp: bt_get_iff_set [OF r(4)])
  qed (simp add: l lock_of_def)
  ultimately show ?thesis by (simp add: l lock_of_def)
qed (use assms in simp_all)

abbreviation witness_host :: PluginPackageLockHost where
  "witness_host \<equiv> \<lparr>plh_target = ''linux'', plh_use_version = ''1.0.0''\<rparr>"

theorem resolve_sound_witness: "lock_consistent witness_lock_externals witness_lock"
proof -
  have "PluginPackageResolver_resolve witness_lock_externals witness_host
      (witness_verified ''a'' ''1.0.0'' [witness_dependency ''b'']) [witness_verified ''b'' ''2.0.0'' []]
      = Inr witness_lock"
    by code_simp
  from resolve_sound [OF this] show ?thesis by blast
qed

text \<open>
  C3: the resolver is complete up to its explicit bounds: when it reports a missing, ambiguous or
  incompatible package, a version conflict or a dependency cycle, then no consistent lock for that
  host exists whose root is the given record and whose other nodes are unambiguous candidates.
\<close>

theorem resolve_complete:
  assumes "PluginPackageResolver_resolve X host root candidates = Inl e"
    and "e \<in> {PackageDependencyMissing, PackageRegistryAmbiguous, PackageDependencyIncompatible,
              PackageDependencyConflict, PackageDependencyCycle}"
  shows "\<nexists>l. lock_consistent X l \<and> pl_host l = host \<and> drawn_from root candidates l"
proof
  assume "\<exists>l. lock_consistent X l \<and> pl_host l = host \<and> drawn_from root candidates l"
  then obtain l where valid: "PluginPackageLock_validate X l = Inr ()" and host: "pl_host l = host"
    and drawn: "drawn_from root candidates l"
    unfolding lock_consistent_def lock_validate_iff by blast
  note fit = drawn_root_ok [OF valid host drawn]
  from assms show False
  proof (cases rule: resolve_stages [of X host root candidates])
    case (search by_package n res)
    show False
    proof (cases res)
      case (Inr S)
      with search_ready_result(1) [OF search(1)] search(2,3) assms(1) show False by simp
    next
      case (Inl f)
      with search(3) assms(1) have "e = ResolutionFailure_into_error f" by simp
      with assms(2) have "f \<noteq> Limit" by (auto simp: ResolutionFailure_into_error_def)
      with search(2) Inl search_complete [of X host by_package 0 _ n f]
      have "\<not> resolves X host by_package [(package_of root, root)] (selection_of l)"
        by (simp add: bt_wf_def)
      moreover have "index_candidates X candidates = Inr by_package"
        using search(1) by (simp add: search_ready_def)
      ultimately show False using selection_of_resolves [OF valid drawn host] by simp
    qed
  qed (use fit in auto)
qed

theorem resolve_complete_witness:
  "\<nexists>l. lock_consistent witness_lock_externals l \<and> pl_host l = witness_host \<and>
     drawn_from (witness_verified ''a'' ''1.0.0'' [witness_dependency ''b'']) [] l"
proof -
  have "PluginPackageResolver_resolve witness_lock_externals witness_host
      (witness_verified ''a'' ''1.0.0'' [witness_dependency ''b'']) [] = Inl PackageDependencyMissing"
    by code_simp
  from resolve_complete [OF this] show ?thesis by simp
qed

text \<open>
  C16: for a valid host the resolver's errors are its own: it reports an invalid input, an exceeded
  bound or one of the five resolution failures, and a found selection is never rejected afterwards by
  the lock's own validation.
\<close>

theorem resolve_errors:
  assumes "PluginPackageLockHost_validate X host = Inr ()"
    and "PluginPackageResolver_resolve X host root candidates = Inl e"
  shows "e \<in> {PackageResolutionInvalid, CatalogProvenanceInvalid, PackageResolutionLimit,
              PackageDependencyMissing, PackageRegistryAmbiguous, PackageDependencyIncompatible,
              PackageDependencyConflict, PackageDependencyCycle}"
proof (cases rule: resolve_stages [of X host root candidates])
  case (search by_package n res)
  show ?thesis
  proof (cases res)
    case (Inr S)
    with search_ready_result(1) [OF search(1)] search(2,3) assms(2) show ?thesis by simp
  next
    case (Inl f)
    with search(3) assms(2) show ?thesis
      by (cases f) (auto simp: ResolutionFailure_into_error_def)
  qed
qed (use assms in auto)

theorem resolve_errors_witness:
  "PluginPackageResolver_resolve witness_lock_externals witness_host
     (witness_verified ''a'' ''1.0.0'' [witness_dependency ''b'']) [] \<noteq> Inl PackageLockInvalid"
proof
  have host: "PluginPackageLockHost_validate witness_lock_externals witness_host = Inr ()" by code_simp
  assume "PluginPackageResolver_resolve witness_lock_externals witness_host
     (witness_verified ''a'' ''1.0.0'' [witness_dependency ''b'']) [] = Inl PackageLockInvalid"
  from resolve_errors [OF host this] show False by simp
qed

text \<open>
  C17: the depth-first search with its \<open>visiting\<close> and \<open>visited\<close> sets reports a cycle for a selection
  exactly when some selected package reaches itself through selected dependencies.
\<close>

theorem cycle_detection_exact:
  "selected_graph_has_cycle selected \<longleftrightarrow> (\<exists>p. (p, p) \<in> (selected_edges selected)\<^sup>+)"
  by (simp add: selected_graph_has_cycle_iff acyclic_def)

end
