(* ===== verification/Surface_Graph.thy ===== *)
theory Surface_Graph
  imports Identity
begin

text \<open>
  Canonical dependency scheduling of one package's selected surfaces, \<open>src/surface_graph.rs\<close>: the
  validation of the dependency graph, the assignment of dependency levels round by round, the closure
  of the mandatory surfaces, and the final order by level and identity. The theorems show which inputs
  are accepted, that levels cannot overflow, and what the returned schedule promises.
\<close>

section \<open>Data\<close>

record SurfaceGraphInput =
  gi_surface :: PluginSurfaceRef
  gi_optional :: bool
  gi_dependencies :: "PluginSurfaceRef list"

record ScheduledSurface =
  sc_surface :: PluginSurfaceRef
  sc_level :: u32
  sc_required :: bool
  sc_dependencies :: "PluginSurfaceRef list"

type_synonym surface_nodes = "(PluginSurfaceRef, SurfaceGraphInput) btree_map"
type_synonym surface_levels = "(PluginSurfaceRef, u32) btree_map"

definition MAX_SURFACE_GRAPH_NODES :: nat where
  "MAX_SURFACE_GRAPH_NODES = 256"

section \<open>Operations\<close>

definition graph_node_valid :: "surface_nodes \<Rightarrow> SurfaceGraphInput \<Rightarrow> bool" where
  "graph_node_valid nodes node = (\<not>
     (windows2_any (\<lambda>a b. a \<ge> b) (gi_dependencies node)
      \<or> (\<exists>dependency \<in> set (gi_dependencies node).
           dependency = gi_surface node \<or> \<not> bt_contains nodes dependency)))"

definition ready_surfaces :: "surface_nodes \<Rightarrow> surface_levels \<Rightarrow> PluginSurfaceRef list" where
  "ready_surfaces nodes levels =
     map fst (filter (\<lambda>(surface, node). \<not> bt_contains levels surface \<and>
         (\<forall>dependency \<in> set (gi_dependencies node). bt_contains levels dependency)) nodes)"

text \<open>\<open>Iterator::max\<close>: \<open>None\<close> for an empty iterator.\<close>

definition iter_max :: "'a :: linorder list \<Rightarrow> 'a option" where
  "iter_max xs = (if xs = [] then None else Some (Max (set xs)))"

definition surface_level :: "surface_levels \<Rightarrow> SurfaceGraphInput \<Rightarrow> u32 use_result" where
  "surface_level levels node =
     (case iter_max (List.map_filter (bt_get levels) (gi_dependencies node)) of
        None \<Rightarrow> Inr 0
      | Some level \<Rightarrow> ok_or SurfaceGraphInvalid (checked_add level 1))"

definition assign_level ::
  "surface_nodes \<Rightarrow> surface_levels \<Rightarrow> PluginSurfaceRef \<Rightarrow> surface_levels use_result" where
  "assign_level nodes levels surface =
     and_then (ok_or SurfaceGraphInvalid (bt_get nodes surface)) (\<lambda>node.
     and_then (surface_level levels node) (\<lambda>level. Inr (bt_insert surface level levels)))"

lemma assign_levels_keys:
  "fold_result (assign_level nodes) levels ready = Inr levels' \<Longrightarrow>
     set (bt_keys levels') = set (bt_keys levels) \<union> set ready"
  by (induction ready arbitrary: levels) (auto simp: assign_level_def result_simps)

lemma ready_surfaces_fresh:
  "set (ready_surfaces nodes levels) \<subseteq> set (bt_keys nodes) - set (bt_keys levels)"
  by (force simp: ready_surfaces_def bt_keys_def bt_contains_def bt_get_def map_of_eq_None_iff)

function level_loop :: "surface_nodes \<Rightarrow> surface_levels \<Rightarrow> surface_levels use_result" where
  "level_loop nodes levels =
     (if length levels < length nodes then
        (let ready = ready_surfaces nodes levels in
         if ready = [] then Inl SurfaceGraphInvalid
         else and_then (fold_result (assign_level nodes) levels ready) (\<lambda>levels'. level_loop nodes levels'))
      else Inr levels)"
  by pat_completeness auto
termination
proof (relation "measure (\<lambda>(nodes, levels). card (set (bt_keys nodes) - set (bt_keys levels)))")
  fix nodes :: surface_nodes and levels ready levels'
  assume ready: "ready = ready_surfaces nodes levels" "ready \<noteq> []"
    and "fold_result (assign_level nodes) levels ready = Inr levels'"
  then have "set (bt_keys levels') = set (bt_keys levels) \<union> set ready"
    by (simp add: assign_levels_keys)
  moreover have "set ready \<noteq> {}" using ready(2) by simp
  ultimately have "set (bt_keys nodes) - set (bt_keys levels') \<subset> set (bt_keys nodes) - set (bt_keys levels)"
    using ready_surfaces_fresh [of nodes levels] ready(1)
      shrinking_rest [of "set ready" "set (bt_keys nodes)" "set (bt_keys levels)"] by simp
  then show "((nodes, levels'), nodes, levels)
      \<in> measure (\<lambda>(nodes, levels). card (set (bt_keys nodes) - set (bt_keys levels)))"
    by (simp add: psubset_card_mono)
qed simp

declare level_loop.simps [simp del]

definition required_surfaces :: "surface_nodes \<Rightarrow> PluginSurfaceRef btree_set use_result" where
  "required_surfaces nodes =
     (let required = bs_collect (map gi_surface (filter (\<lambda>node. \<not> gi_optional node) (bt_values nodes)))
      in worklist_closure SurfaceGraphInvalid gi_dependencies nodes required (rev required))"

definition schedule_node ::
  "surface_levels \<Rightarrow> PluginSurfaceRef btree_set \<Rightarrow> SurfaceGraphInput \<Rightarrow> ScheduledSurface use_result" where
  "schedule_node levels required node =
     and_then (ok_or SurfaceGraphInvalid (bt_get levels (gi_surface node))) (\<lambda>level.
       Inr \<lparr>sc_surface = gi_surface node, sc_level = level, sc_required = gi_surface node \<in> set required,
         sc_dependencies = gi_dependencies node\<rparr>)"

definition schedule_surface_graph :: "SurfaceGraphInput list \<Rightarrow> ScheduledSurface list use_result" where
  "schedule_surface_graph inputs =
     (if inputs = [] \<or> length inputs > MAX_SURFACE_GRAPH_NODES then Inl SurfaceGraphInvalid
      else
        (let nodes = bt_collect (map (\<lambda>input. (gi_surface input, input)) inputs) in
         if length nodes \<noteq> length inputs then Inl SurfaceGraphInvalid
         else
         and_then (for_each (\<lambda>node. if graph_node_valid nodes node then Inr () else Inl SurfaceGraphInvalid)
           (bt_values nodes)) (\<lambda>_.
         and_then (level_loop nodes []) (\<lambda>levels.
         and_then (required_surfaces nodes) (\<lambda>required.
         and_then (collect_results (schedule_node levels required) (bt_values nodes)) (\<lambda>scheduled.
           Inr (sort_key (\<lambda>s. (sc_level s, sc_surface s)) scheduled))))))) "

section \<open>Lemmas: the index of the inputs\<close>

definition nodes_of :: "SurfaceGraphInput list \<Rightarrow> surface_nodes" where
  "nodes_of inputs = bt_collect (map (\<lambda>input. (gi_surface input, input)) inputs)"

definition graph_depends :: "SurfaceGraphInput list \<Rightarrow> (PluginSurfaceRef \<times> PluginSurfaceRef) set" where
  "graph_depends inputs =
     {(a, b). \<exists>i \<in> set inputs. a = gi_surface i \<and> b \<in> set (gi_dependencies i)}"

lemma nodes_of_get:
  "distinct (map gi_surface inputs) \<Longrightarrow>
     bt_get (nodes_of inputs) k = Some i \<longleftrightarrow> i \<in> set inputs \<and> gi_surface i = k"
  unfolding nodes_of_def
  by (subst bt_collect_get_distinct)
    (auto simp: comp_def bt_get_def [symmetric] bt_get_graph)

lemma nodes_of_edges:
  "distinct (map gi_surface inputs) \<Longrightarrow> edges gi_dependencies (nodes_of inputs) = graph_depends inputs"
  by (auto simp: edges_def graph_depends_def nodes_of_get)

lemma nodes_of_keys [simp]: "set (bt_keys (nodes_of inputs)) = gi_surface ` set inputs"
  by (simp add: nodes_of_def image_image)

lemma nodes_of_wf [simp]: "bt_wf (nodes_of inputs)"
  by (simp add: nodes_of_def)

lemma nodes_of_length: "length (nodes_of inputs) = length inputs \<longleftrightarrow> distinct (map gi_surface inputs)"
  using bt_collect_length [of "map (\<lambda>input. (gi_surface input, input)) inputs"]
  by (simp add: nodes_of_def comp_def)

lemma wf_map_member: "bt_wf m \<Longrightarrow> (k, v) \<in> set m \<longleftrightarrow> bt_get m k = Some v"
  by (simp add: bt_wf_def bt_keys_def bt_get_def sorted_less_distinct)

lemma nodes_of_values: "distinct (map gi_surface inputs) \<Longrightarrow> set (bt_values (nodes_of inputs)) = set inputs"
  using wf_map_member [OF nodes_of_wf, of _ _ inputs]
  by (force simp: bt_values_def nodes_of_get)

lemma nodes_of_values_surfaces: "distinct (map gi_surface inputs) \<Longrightarrow>
    sorted_wrt (<) (map gi_surface (bt_values (nodes_of inputs)))"
proof -
  assume d: "distinct (map gi_surface inputs)"
  have "map gi_surface (bt_values (nodes_of inputs)) = bt_keys (nodes_of inputs)"
    using wf_map_member [OF nodes_of_wf, of _ _ inputs]
    by (auto simp: bt_values_def bt_keys_def nodes_of_get [OF d])
  then show ?thesis using nodes_of_wf [of inputs] by (simp add: bt_wf_def)
qed

section \<open>Lemmas: levels\<close>

text \<open>
  The level of a node as the longest chain of dependencies below it, read off a level map.
\<close>

definition level_at :: "surface_levels \<Rightarrow> PluginSurfaceRef \<Rightarrow> nat" where
  "level_at levels s = unat (the (bt_get levels s))"

definition chain_level :: "surface_levels \<Rightarrow> SurfaceGraphInput \<Rightarrow> nat" where
  "chain_level levels node =
     (if gi_dependencies node = [] then 0 else Suc (Max (level_at levels ` set (gi_dependencies node))))"

definition levels_inv :: "surface_nodes \<Rightarrow> surface_levels \<Rightarrow> bool" where
  "levels_inv nodes levels \<longleftrightarrow> bt_wf levels \<and>
     (\<forall>s \<in> set (bt_keys levels). level_at levels s < length levels \<and>
        (\<exists>node. bt_get nodes s = Some node \<and> set (gi_dependencies node) \<subseteq> set (bt_keys levels) \<and>
           level_at levels s = chain_level levels node))"

lemma unat_Max: "finite S \<Longrightarrow> S \<noteq> {} \<Longrightarrow> unat (Max S) = Max (unat ` S)" for S :: "'w :: len word set"
  by (rule mono_Max_commute) (auto simp: mono_def word_le_nat_alt)

lemma map_filter_total: "(\<And>x. x \<in> set xs \<Longrightarrow> f x \<noteq> None) \<Longrightarrow> List.map_filter f xs = map (the \<circ> f) xs"
  by (induction xs) (force simp: List.map_filter_simps split: option.splits)+

lemma surface_level_chain:
  assumes deps: "set (gi_dependencies node) \<subseteq> set (bt_keys levels)"
    and bound: "\<And>s. s \<in> set (bt_keys levels) \<Longrightarrow> level_at levels s < 256"
  shows "\<exists>l. surface_level levels node = Inr l \<and> unat l = chain_level levels node"
proof (cases "gi_dependencies node = []")
  case True
  then show ?thesis
    by (simp add: surface_level_def chain_level_def iter_max_def List.map_filter_simps)
next
  case False
  let ?ds = "gi_dependencies node" and ?f = "the \<circ> bt_get levels"
  have "List.map_filter (bt_get levels) ?ds = map ?f ?ds"
    using deps by (intro map_filter_total) (auto simp: bt_keys_get)
  then have lv: "surface_level levels node =
      ok_or SurfaceGraphInvalid (checked_add (Max (?f ` set ?ds)) 1)"
    using False by (simp add: surface_level_def iter_max_def)
  have "unat (Max (?f ` set ?ds)) = Max (unat ` ?f ` set ?ds)"
    using False by (intro unat_Max) auto
  also have "unat ` ?f ` set ?ds = level_at levels ` set ?ds"
    by (simp add: image_image level_at_def)
  finally have max: "unat (Max (?f ` set ?ds)) = Max (level_at levels ` set ?ds)" .
  have "Max (level_at levels ` set ?ds) < 256"
    using False deps bound by (subst Max_less_iff) auto
  then have "checked_add (Max (?f ` set ?ds)) 1 = Some (Max (?f ` set ?ds) + 1)"
    using max by (simp add: checked_add_def)
  with lv max checked_add_Some [OF this] False show ?thesis
    by (simp add: chain_level_def)
qed

lemma length_bt_insert_fresh:
  "bt_wf m \<Longrightarrow> k \<notin> set (bt_keys m) \<Longrightarrow> length (bt_insert k v m) = Suc (length m)"
  by (induction k v m rule: bt_insert.induct) (auto simp: bt_wf_Cons)

lemma assign_level_step:
  assumes inv: "levels_inv nodes levels" and few: "length levels \<le> 256"
    and node: "bt_get nodes s = Some node" and fresh: "s \<notin> set (bt_keys levels)"
    and deps: "set (gi_dependencies node) \<subseteq> set (bt_keys levels)"
  shows "\<exists>l. assign_level nodes levels s = Inr (bt_insert s l levels) \<and>
    levels_inv nodes (bt_insert s l levels)"
proof -
  have bound: "level_at levels k < 256" if "k \<in> set (bt_keys levels)" for k
    using that inv few by (fastforce simp: levels_inv_def)
  obtain l where l: "surface_level levels node = Inr l" "unat l = chain_level levels node"
    using surface_level_chain [OF deps bound] by blast
  let ?new = "bt_insert s l levels"
  have same: "level_at ?new k = level_at levels k" if "k \<in> set (bt_keys levels)" for k
    using that fresh by (auto simp: level_at_def)
  have chain: "chain_level ?new n = chain_level levels n"
    if "set (gi_dependencies n) \<subseteq> set (bt_keys levels)" for n
  proof -
    have "level_at ?new ` set (gi_dependencies n) = level_at levels ` set (gi_dependencies n)"
      using that same by (intro image_cong) auto
    then show ?thesis by (simp add: chain_level_def)
  qed
  have len: "length ?new = Suc (length levels)"
    using inv fresh by (simp add: length_bt_insert_fresh levels_inv_def)
  have "chain_level levels node < length ?new"
  proof (cases "gi_dependencies node = []")
    case False
    then have "Max (level_at levels ` set (gi_dependencies node)) < length levels"
      using deps inv by (subst Max_less_iff) (auto simp: levels_inv_def)
    then show ?thesis by (simp add: chain_level_def len)
  qed (simp add: chain_level_def len)
  moreover have "level_at ?new s = unat l" by (simp add: level_at_def)
  ultimately have "levels_inv nodes ?new"
    using inv node deps l(2) chain same unfolding levels_inv_def len
    by (auto simp: subset_insertI2 less_SucI)
  with node l(1) show ?thesis by (auto simp: assign_level_def)
qed

lemma assign_levels_total:
  assumes "levels_inv nodes levels" "length nodes \<le> 256" "bt_wf nodes" "distinct ready"
    and "\<And>s. s \<in> set ready \<Longrightarrow> s \<notin> set (bt_keys levels) \<and>
      (\<exists>node. bt_get nodes s = Some node \<and> set (gi_dependencies node) \<subseteq> set (bt_keys levels))"
  shows "\<exists>levels'. fold_result (assign_level nodes) levels ready = Inr levels' \<and> levels_inv nodes levels'"
  using assms
proof (induction ready arbitrary: levels)
  case (Cons s ready)
  obtain node where node: "bt_get nodes s = Some node"
    "set (gi_dependencies node) \<subseteq> set (bt_keys levels)" and fresh: "s \<notin> set (bt_keys levels)"
    using Cons.prems(5) [of s] by auto
  have "set (bt_keys levels) \<subseteq> set (bt_keys nodes)"
    using Cons.prems(1) by (auto simp: levels_inv_def bt_keys_get)
  then have "card (set (bt_keys levels)) \<le> card (set (bt_keys nodes))" by (simp add: card_mono)
  then have "length levels \<le> 256"
    using Cons.prems(1-3) sorted_less_length [of "bt_keys levels"] sorted_less_length [of "bt_keys nodes"]
    by (simp add: levels_inv_def bt_wf_def bt_keys_def)
  from assign_level_step [OF Cons.prems(1) this node(1) fresh node(2)] obtain l where
    l: "assign_level nodes levels s = Inr (bt_insert s l levels)" "levels_inv nodes (bt_insert s l levels)"
    by blast
  have "\<exists>levels'. fold_result (assign_level nodes) (bt_insert s l levels) ready = Inr levels' \<and>
      levels_inv nodes levels'"
  proof (rule Cons.IH [OF l(2) Cons.prems(2,3)])
    fix t assume t: "t \<in> set ready"
    with Cons.prems(4) have "t \<noteq> s" by auto
    with t Cons.prems(5) [of t] show "t \<notin> set (bt_keys (bt_insert s l levels)) \<and>
        (\<exists>node. bt_get nodes t = Some node \<and>
           set (gi_dependencies node) \<subseteq> set (bt_keys (bt_insert s l levels)))"
      by auto
  qed (use Cons.prems(4) in simp)
  with l(1) show ?case by simp
qed simp

lemma ready_surfaces_iff:
  "bt_wf nodes \<Longrightarrow> s \<in> set (ready_surfaces nodes levels) \<longleftrightarrow> s \<notin> set (bt_keys levels) \<and>
     (\<exists>node. bt_get nodes s = Some node \<and> set (gi_dependencies node) \<subseteq> set (bt_keys levels))"
  by (force simp: ready_surfaces_def wf_map_member bt_keys_contains)

lemma ready_surfaces_distinct: "bt_wf nodes \<Longrightarrow> distinct (ready_surfaces nodes levels)"
  unfolding ready_surfaces_def bt_wf_def bt_keys_def
  by (intro distinct_map_filter sorted_less_distinct)

lemma levels_complete:
  assumes "bt_wf nodes" "levels_inv nodes levels"
  shows "length levels < length nodes \<longleftrightarrow> set (bt_keys levels) \<noteq> set (bt_keys nodes)"
    and "set (bt_keys levels) \<subseteq> set (bt_keys nodes)"
proof -
  show sub: "set (bt_keys levels) \<subseteq> set (bt_keys nodes)"
    using assms(2) by (auto simp: levels_inv_def bt_keys_get)
  have "length levels = card (set (bt_keys levels))" "length nodes = card (set (bt_keys nodes))"
    using assms sorted_less_length [of "bt_keys levels"] sorted_less_length [of "bt_keys nodes"]
    by (simp_all add: levels_inv_def bt_wf_def bt_keys_def)
  with sub show "length levels < length nodes \<longleftrightarrow> set (bt_keys levels) \<noteq> set (bt_keys nodes)"
    by (metis List.finite_set card_subset_eq less_irrefl psubset_card_mono psubsetI)
qed

lemma level_loop_result:
  assumes "bt_wf nodes" "length nodes \<le> 256" "levels_inv nodes levels"
    and "edges gi_dependencies nodes `` set (bt_keys nodes) \<subseteq> set (bt_keys nodes)"
  shows "(\<exists>levels'. level_loop nodes levels = Inr levels' \<and> levels_inv nodes levels' \<and>
            set (bt_keys levels') = set (bt_keys nodes)) \<or>
         level_loop nodes levels = Inl SurfaceGraphInvalid \<and> \<not> acyclic (edges gi_dependencies nodes)"
  using assms
proof (induction nodes levels rule: level_loop.induct)
  case (1 nodes levels)
  let ?ready = "ready_surfaces nodes levels" and ?E = "edges gi_dependencies nodes"
  note wf = "1.prems"(1) and inv = "1.prems"(3)
  consider (finished) "\<not> length levels < length nodes"
    | (stuck) "length levels < length nodes" "?ready = []"
    | (round) "length levels < length nodes" "?ready \<noteq> []" by blast
  then show ?case
  proof cases
    case finished
    with levels_complete(1) [OF wf inv] inv show ?thesis
      by (simp add: level_loop.simps)
  next
    case stuck
    let ?rest = "set (bt_keys nodes) - set (bt_keys levels)"
    have "?rest \<noteq> {}" using stuck(1) levels_complete [OF wf inv] by blast
    have "\<not> acyclic ?E"
    proof
      assume "acyclic ?E"
      with \<open>?rest \<noteq> {}\<close> obtain x where x: "x \<in> ?rest" "\<forall>d. (x, d) \<in> ?E \<longrightarrow> d \<notin> ?rest"
        using finite_acyclic_ready [of ?rest ?E] by auto
      then obtain node where node: "bt_get nodes x = Some node" by (auto simp: bt_keys_get)
      have "set (gi_dependencies node) \<subseteq> set (bt_keys levels)"
      proof
        fix d assume "d \<in> set (gi_dependencies node)"
        with node have "(x, d) \<in> ?E" by (auto simp: edges_iff)
        with x "1.prems"(4) show "d \<in> set (bt_keys levels)" by blast
      qed
      with node x(1) have "x \<in> set ?ready" by (simp add: ready_surfaces_iff [OF wf])
      with stuck(2) show False by simp
    qed
    with stuck show ?thesis by (simp add: level_loop.simps)
  next
    case round
    from assign_levels_total [OF inv "1.prems"(2) wf ready_surfaces_distinct [OF wf]]
    obtain levels' where step: "fold_result (assign_level nodes) levels ?ready = Inr levels'"
      "levels_inv nodes levels'" by (metis ready_surfaces_iff [OF wf])
    from "1.IH" [OF round(1) refl round(2) step(1) wf "1.prems"(2) step(2) "1.prems"(4)]
    show ?thesis using round step(1) by (simp add: level_loop.simps [of nodes levels])
  qed
qed

lemma levels_acyclic:
  assumes "levels_inv nodes levels" "set (bt_keys levels) = set (bt_keys nodes)"
  shows "acyclic (edges gi_dependencies nodes)"
proof (rule rank_acyclic)
  fix x d assume "(x, d) \<in> edges gi_dependencies nodes"
  then obtain node where node: "bt_get nodes x = Some node" "d \<in> set (gi_dependencies node)"
    by (auto simp: edges_iff)
  moreover have "x \<in> set (bt_keys levels)" using node(1) assms(2) by (simp add: bt_keys_get)
  ultimately have "level_at levels x = chain_level levels node"
    using assms(1) by (auto simp: levels_inv_def)
  then show "level_at levels d < level_at levels x"
    using node(2) by (auto simp: chain_level_def less_Suc_eq_le)
qed

section \<open>Lemmas: the schedule\<close>

definition graph_valid :: "SurfaceGraphInput list \<Rightarrow> bool" where
  "graph_valid inputs \<longleftrightarrow>
     inputs \<noteq> [] \<and> length inputs \<le> MAX_SURFACE_GRAPH_NODES \<and> distinct (map gi_surface inputs) \<and>
     (\<forall>i \<in> set inputs. sorted_wrt (<) (gi_dependencies i) \<and>
        set (gi_dependencies i) \<subseteq> gi_surface ` set inputs) \<and>
     acyclic (graph_depends inputs)"

definition local_valid :: "SurfaceGraphInput list \<Rightarrow> bool" where
  "local_valid inputs \<longleftrightarrow> inputs \<noteq> [] \<and> length inputs \<le> MAX_SURFACE_GRAPH_NODES \<and>
     distinct (map gi_surface inputs) \<and> (\<forall>i \<in> set inputs. graph_node_valid (nodes_of inputs) i)"

lemma graph_node_valid_iff:
  "graph_node_valid (nodes_of inputs) i \<longleftrightarrow> sorted_wrt (<) (gi_dependencies i) \<and>
     (\<forall>d \<in> set (gi_dependencies i). d \<noteq> gi_surface i \<and> d \<in> gi_surface ` set inputs)"
  using windows2_any_ge [of "\<lambda>x. x" "gi_dependencies i"]
  by (auto simp: graph_node_valid_def bt_keys_contains [symmetric])

lemma graph_valid_local: "graph_valid inputs \<longleftrightarrow> local_valid inputs \<and> acyclic (graph_depends inputs)"
proof -
  have "d \<noteq> gi_surface i" if "acyclic (graph_depends inputs)" "i \<in> set inputs" "d \<in> set (gi_dependencies i)" for i d
    using that by (auto simp: graph_depends_def acyclic_def)
  then show ?thesis by (auto simp: graph_valid_def local_valid_def graph_node_valid_iff)
qed

lemma for_each_check:
  "for_each (\<lambda>x. if P x then Inr () else Inl e) xs = (if \<forall>x \<in> set xs. P x then Inr () else Inl e)"
  by (induction xs) auto

lemma schedule_stages:
  "schedule_surface_graph inputs =
     (if local_valid inputs then
        and_then (level_loop (nodes_of inputs) []) (\<lambda>levels.
        and_then (required_surfaces (nodes_of inputs)) (\<lambda>required.
        and_then (collect_results (schedule_node levels required) (bt_values (nodes_of inputs))) (\<lambda>scheduled.
          Inr (sort_key (\<lambda>s. (sc_level s, sc_surface s)) scheduled))))
      else Inl SurfaceGraphInvalid)"
  by (simp add: schedule_surface_graph_def nodes_of_def [symmetric] nodes_of_length for_each_check
      local_valid_def not_less nodes_of_values Let_def)

definition scheduled_of ::
  "surface_levels \<Rightarrow> PluginSurfaceRef btree_set \<Rightarrow> SurfaceGraphInput \<Rightarrow> ScheduledSurface" where
  "scheduled_of levels required node =
     \<lparr>sc_surface = gi_surface node, sc_level = the (bt_get levels (gi_surface node)),
      sc_required = gi_surface node \<in> set required, sc_dependencies = gi_dependencies node\<rparr>"

lemma required_surfaces_closure:
  assumes "local_valid inputs"
  shows "\<exists>required. required_surfaces (nodes_of inputs) = Inr required \<and>
    set required = (graph_depends inputs)\<^sup>* `` {gi_surface i | i. i \<in> set inputs \<and> \<not> gi_optional i}"
proof -
  have d: "distinct (map gi_surface inputs)" using assms by (simp add: local_valid_def)
  let ?N = "nodes_of inputs" and ?R = "{gi_surface i | i. i \<in> set inputs \<and> \<not> gi_optional i}"
  let ?start = "bs_collect (map gi_surface (filter (\<lambda>node. \<not> gi_optional node) (bt_values ?N)))"
  have roots: "set ?start = ?R" using nodes_of_values [OF d] by auto
  have inv: "closure_inv gi_dependencies ?N ?R ?start (rev ?start)"
    by (rule closure_inv_start) (simp_all only: roots set_rev)
  have "edges gi_dependencies ?N `` set (bt_keys ?N) \<subseteq> set (bt_keys ?N)"
    using assms unfolding nodes_of_edges [OF d]
    by (auto simp: graph_depends_def local_valid_def graph_node_valid_iff)
  moreover have "?R \<subseteq> set (bt_keys ?N)" by auto
  ultimately have "(edges gi_dependencies ?N)\<^sup>* `` ?R \<subseteq> set (bt_keys ?N)"
    by (meson ImageE ImageE_closed subset_iff)
  from worklist_closure_total [OF inv this] obtain required where
    req: "worklist_closure SurfaceGraphInvalid gi_dependencies ?N ?start (rev ?start) = Inr required"
    by (rule exE)
  with worklist_closure_spec(1) [OF inv req] show ?thesis
    by (simp add: required_surfaces_def nodes_of_edges [OF d])
qed

lemma schedule_valid:
  assumes "graph_valid inputs"
  shows "\<exists>levels required. schedule_surface_graph inputs =
      Inr (sort_key (\<lambda>s. (sc_level s, sc_surface s))
        (map (scheduled_of levels required) (bt_values (nodes_of inputs)))) \<and>
    levels_inv (nodes_of inputs) levels \<and> set (bt_keys levels) = gi_surface ` set inputs \<and>
    set required = (graph_depends inputs)\<^sup>* `` {gi_surface i | i. i \<in> set inputs \<and> \<not> gi_optional i}"
proof -
  let ?N = "nodes_of inputs"
  from assms have local: "local_valid inputs" and acyc: "acyclic (graph_depends inputs)"
    by (simp_all add: graph_valid_local)
  then have d: "distinct (map gi_surface inputs)" by (simp add: local_valid_def)
  have len: "length ?N \<le> 256"
    using local d nodes_of_length [of inputs] by (simp add: local_valid_def MAX_SURFACE_GRAPH_NODES_def)
  have closed: "edges gi_dependencies ?N `` set (bt_keys ?N) \<subseteq> set (bt_keys ?N)"
    using local unfolding nodes_of_edges [OF d]
    by (auto simp: graph_depends_def local_valid_def graph_node_valid_iff)
  have "levels_inv ?N []" by (simp add: levels_inv_def)
  from level_loop_result [OF nodes_of_wf len this closed] acyc obtain levels where
    levels: "level_loop ?N [] = Inr levels" "levels_inv ?N levels" "set (bt_keys levels) = set (bt_keys ?N)"
    by (auto simp: nodes_of_edges [OF d])
  from required_surfaces_closure [OF local] obtain required where
    req: "required_surfaces ?N = Inr required"
      "set required = (graph_depends inputs)\<^sup>* `` {gi_surface i | i. i \<in> set inputs \<and> \<not> gi_optional i}"
    by blast
  have "collect_results (schedule_node levels required) (bt_values ?N) =
      Inr (map (scheduled_of levels required) (bt_values ?N))"
  proof (rule collect_results_total)
    fix i assume "i \<in> set (bt_values ?N)"
    then have "gi_surface i \<in> set (bt_keys levels)" using nodes_of_values [OF d] levels(3) by simp
    then obtain l where "bt_get levels (gi_surface i) = Some l" by (auto simp: bt_keys_get)
    then show "schedule_node levels required i = Inr (scheduled_of levels required i)"
      by (simp add: schedule_node_def scheduled_of_def)
  qed
  with local levels req show ?thesis by (auto simp: schedule_stages)
qed

lemma schedule_error: "schedule_surface_graph inputs = Inl e \<Longrightarrow> e = SurfaceGraphInvalid"
proof -
  have loop: "fails_with SurfaceGraphInvalid (level_loop nodes levels)" for nodes levels
  proof (induction nodes levels rule: level_loop.induct)
    case (1 nodes levels)
    then show ?case
      unfolding level_loop.simps [of nodes levels] assign_level_def surface_level_def Let_def
      by (intro error_intros) (auto simp: assign_level_def surface_level_def)
  qed
  have work: "fails_with e (worklist_closure e succs m marked pending)"
    for e :: use_error and succs :: "SurfaceGraphInput \<Rightarrow> PluginSurfaceRef list" and m marked pending
    by (induction e succs m marked pending rule: worklist_closure.induct)
      (auto simp: fails_with_def split: option.splits prod.splits)
  have "fails_with SurfaceGraphInvalid (schedule_surface_graph inputs)"
    unfolding schedule_stages required_surfaces_def schedule_node_def Let_def
    by (intro error_intros loop work)
  then show "schedule_surface_graph inputs = Inl e \<Longrightarrow> e = SurfaceGraphInvalid"
    by (rule fails_withD)
qed

lemma schedule_accepts:
  assumes "schedule_surface_graph inputs = Inr out"
  shows "graph_valid inputs"
proof -
  let ?N = "nodes_of inputs"
  from assms have local: "local_valid inputs" by (auto simp: schedule_stages split: if_splits)
  then have d: "distinct (map gi_surface inputs)" by (simp add: local_valid_def)
  have len: "length ?N \<le> 256"
    using local d nodes_of_length [of inputs] by (simp add: local_valid_def MAX_SURFACE_GRAPH_NODES_def)
  have closed: "edges gi_dependencies ?N `` set (bt_keys ?N) \<subseteq> set (bt_keys ?N)"
    using local unfolding nodes_of_edges [OF d]
    by (auto simp: graph_depends_def local_valid_def graph_node_valid_iff)
  have "levels_inv ?N []" by (simp add: levels_inv_def)
  from level_loop_result [OF nodes_of_wf len this closed] assms local obtain levels where
    "levels_inv ?N levels" "set (bt_keys levels) = set (bt_keys ?N)"
    by (auto simp: schedule_stages)
  from levels_acyclic [OF this] local show ?thesis
    by (simp add: graph_valid_local nodes_of_edges [OF d])
qed

text \<open>What a schedule promises about its inputs.\<close>

definition schedule_correct :: "SurfaceGraphInput list \<Rightarrow> ScheduledSurface list \<Rightarrow> bool" where
  "schedule_correct inputs out \<longleftrightarrow>
     length out = length inputs \<and>
     (\<lambda>s. (sc_surface s, sc_dependencies s)) ` set out = (\<lambda>i. (gi_surface i, gi_dependencies i)) ` set inputs \<and>
     sorted_wrt (<) (map (\<lambda>s. (sc_level s, sc_surface s)) out) \<and>
     (\<forall>s \<in> set out. unat (sc_level s) < length inputs \<and>
        unat (sc_level s) = (if sc_dependencies s = [] then 0
          else Suc (Max {unat (sc_level t) | t. t \<in> set out \<and> sc_surface t \<in> set (sc_dependencies s)})) \<and>
        (sc_required s \<longleftrightarrow> (\<exists>i \<in> set inputs. \<not> gi_optional i \<and>
           (gi_surface i, sc_surface s) \<in> (graph_depends inputs)\<^sup>*)))"

lemma sort_key_strict:
  assumes "distinct (map f xs)"
  shows "sorted_wrt (<) (map f (sort_key f xs))"
proof -
  have "distinct (map f (sort_key f xs))"
    using assms by (simp add: distinct_map)
  then show ?thesis by (simp add: strict_sorted_iff)
qed

lemma schedule_satisfies:
  assumes "schedule_surface_graph inputs = Inr out"
  shows "schedule_correct inputs out"
proof -
  have valid: "graph_valid inputs" using assms by (rule schedule_accepts)
  then have d: "distinct (map gi_surface inputs)"
    and deps: "\<And>i. i \<in> set inputs \<Longrightarrow> set (gi_dependencies i) \<subseteq> gi_surface ` set inputs"
    by (simp_all add: graph_valid_def)
  let ?N = "nodes_of inputs"
  from schedule_valid [OF valid] assms obtain levels required where
    out: "out = sort_key (\<lambda>s. (sc_level s, sc_surface s)) (map (scheduled_of levels required) (bt_values ?N))"
    and inv: "levels_inv ?N levels" and keys: "set (bt_keys levels) = gi_surface ` set inputs"
    and req: "set required = (graph_depends inputs)\<^sup>* `` {gi_surface i | i. i \<in> set inputs \<and> \<not> gi_optional i}"
    by auto
  note vals = nodes_of_values [OF d]
  have set: "set out = scheduled_of levels required ` set inputs" by (simp add: out vals)
  have lenN: "length ?N = length inputs" using nodes_of_length d by blast
  have level: "unat (sc_level (scheduled_of levels required i)) = level_at levels (gi_surface i)" for i
    by (simp add: scheduled_of_def level_at_def)
  have "distinct (map gi_surface (bt_values ?N))"
    by (rule sorted_less_distinct [OF nodes_of_values_surfaces [OF d]])
  then have "distinct (map (\<lambda>s. (sc_level s, sc_surface s)) (map (scheduled_of levels required) (bt_values ?N)))"
    by (auto simp: distinct_map comp_inj_on_iff [symmetric] inj_on_def scheduled_of_def)
  then have "sorted_wrt (<) (map (\<lambda>s. (sc_level s, sc_surface s)) out)"
    unfolding out by (rule sort_key_strict)
  moreover have "length out = length inputs" by (simp add: out bt_values_def lenN)
  moreover have "(\<lambda>s. (sc_surface s, sc_dependencies s)) ` set out =
      (\<lambda>i. (gi_surface i, gi_dependencies i)) ` set inputs"
    by (simp add: set image_image scheduled_of_def)
  moreover have "unat (sc_level s) < length inputs \<and>
        unat (sc_level s) = (if sc_dependencies s = [] then 0
          else Suc (Max {unat (sc_level t) | t. t \<in> set out \<and> sc_surface t \<in> set (sc_dependencies s)})) \<and>
        (sc_required s \<longleftrightarrow> (\<exists>i \<in> set inputs. \<not> gi_optional i \<and>
           (gi_surface i, sc_surface s) \<in> (graph_depends inputs)\<^sup>*))" if "s \<in> set out" for s
  proof -
    from that set obtain i where i: "i \<in> set inputs" "s = scheduled_of levels required i" by auto
    have "gi_surface i \<in> set (bt_keys levels)" "bt_get ?N (gi_surface i) = Some i"
      using i keys by (simp_all add: nodes_of_get [OF d])
    then have lv: "level_at levels (gi_surface i) < length levels"
      "level_at levels (gi_surface i) = chain_level levels i"
      using inv by (auto simp: levels_inv_def)
    have "length levels \<le> length ?N"
      using levels_complete [OF nodes_of_wf inv] keys sorted_less_length
      by (metis bt_keys_def bt_wf_def inv length_map levels_inv_def nodes_of_keys nodes_of_wf order_refl)
    moreover have "{unat (sc_level t) | t. t \<in> set out \<and> sc_surface t \<in> set (gi_dependencies i)} =
        level_at levels ` set (gi_dependencies i)"
      using deps [OF i(1)] unfolding set
      by (force simp: level [symmetric] scheduled_of_def)
    ultimately show ?thesis
      using i lv level [of i] lenN req by (auto simp: chain_level_def scheduled_of_def)
  qed
  ultimately show ?thesis unfolding schedule_correct_def by blast
qed

lemma schedule_surfaces:
  assumes "schedule_correct inputs out"
  shows "sc_surface ` set out = gi_surface ` set inputs"
    and "s \<in> set out \<Longrightarrow> \<exists>i \<in> set inputs. gi_surface i = sc_surface s \<and> gi_dependencies i = sc_dependencies s"
proof -
  have pairs: "(\<lambda>s. (sc_surface s, sc_dependencies s)) ` set out = (\<lambda>i. (gi_surface i, gi_dependencies i)) ` set inputs"
    using assms by (simp add: schedule_correct_def)
  then have "fst ` (\<lambda>s. (sc_surface s, sc_dependencies s)) ` set out = fst ` (\<lambda>i. (gi_surface i, gi_dependencies i)) ` set inputs"
    by (simp only:)
  then show "sc_surface ` set out = gi_surface ` set inputs" by (simp add: image_image)
  assume "s \<in> set out"
  then have "(sc_surface s, sc_dependencies s) \<in> (\<lambda>i. (gi_surface i, gi_dependencies i)) ` set inputs"
    using pairs by blast
  then show "\<exists>i \<in> set inputs. gi_surface i = sc_surface s \<and> gi_dependencies i = sc_dependencies s" by auto
qed

lemma schedule_dependency_below:
  assumes correct: "schedule_correct inputs out"
    and closed: "\<And>i. i \<in> set inputs \<Longrightarrow> set (gi_dependencies i) \<subseteq> gi_surface ` set inputs"
    and s: "s \<in> set out" and d: "d \<in> set (sc_dependencies s)"
  shows "\<exists>t \<in> set out. sc_surface t = d \<and> sc_level t < sc_level s \<and> (sc_required s \<longrightarrow> sc_required t)"
proof -
  from schedule_surfaces(2) [OF correct s] obtain i where i: "i \<in> set inputs"
    "gi_surface i = sc_surface s" "gi_dependencies i = sc_dependencies s" by blast
  have "d \<in> sc_surface ` set out"
    using closed [OF i(1)] d i(3) schedule_surfaces(1) [OF correct] by auto
  then obtain t where t: "t \<in> set out" "sc_surface t = d" by auto
  let ?levels = "{unat (sc_level t) | t. t \<in> set out \<and> sc_surface t \<in> set (sc_dependencies s)}"
  have "unat (sc_level s) = Suc (Max ?levels)"
    using correct s d by (auto simp: schedule_correct_def)
  moreover have "unat (sc_level t) \<le> Max ?levels" using t d by (intro Max_ge) auto
  ultimately have "sc_level t < sc_level s" by (simp add: word_less_nat_alt)
  moreover have "sc_required t" if "sc_required s"
  proof -
    have "(sc_surface s, d) \<in> graph_depends inputs" using i d by (auto simp: graph_depends_def intro!: bexI [of _ i])
    moreover from that correct s obtain j where j: "j \<in> set inputs" "\<not> gi_optional j"
      and "(gi_surface j, sc_surface s) \<in> (graph_depends inputs)\<^sup>*" unfolding schedule_correct_def by blast
    ultimately have "(gi_surface j, sc_surface t) \<in> (graph_depends inputs)\<^sup>*" if "sc_surface t = d" for t
      using that by (blast intro: rtrancl_into_rtrancl)
    with j t correct show ?thesis unfolding schedule_correct_def by blast
  qed
  ultimately show ?thesis using t by blast
qed

section \<open>Properties\<close>

text \<open>
  C24: the scheduler accepts exactly the inputs of one to 256 distinct surfaces whose dependencies are
  sorted, selected and acyclic; the level arithmetic never overflows, so no other input is refused, and
  every refusal carries the same error code.
\<close>

theorem schedule_surface_graph_exact:
  "(\<exists>out. schedule_surface_graph inputs = Inr out) = graph_valid inputs \<and>
   (schedule_surface_graph inputs = Inl SurfaceGraphInvalid) = (\<not> graph_valid inputs)"
proof (cases "graph_valid inputs")
  case True
  then show ?thesis using schedule_valid by fastforce
next
  case False
  moreover obtain e where "schedule_surface_graph inputs = Inl e"
    using False schedule_accepts by (cases "schedule_surface_graph inputs") blast+
  ultimately show ?thesis using schedule_error by auto
qed

text \<open>
  C23: a schedule lists every input once in strictly increasing order of level and identity, the level
  of a surface is the length of its longest dependency chain (hence below the number of surfaces and
  above the level of every dependency), and a surface is required exactly when it is in the dependency
  closure of the mandatory surfaces.
\<close>

theorem schedule_surface_graph_correct:
  assumes "schedule_surface_graph inputs = Inr out"
  shows "schedule_correct inputs out"
  using assms by (rule schedule_satisfies)

theorem schedule_surface_graph_correct_witness:
  "schedule_correct
     [\<lparr>gi_surface = SurfaceRef KSkill ''s'', gi_optional = False, gi_dependencies = [SurfaceRef KTool ''t'']\<rparr>,
      \<lparr>gi_surface = SurfaceRef KTool ''t'', gi_optional = True, gi_dependencies = []\<rparr>]
     [\<lparr>sc_surface = SurfaceRef KTool ''t'', sc_level = 0, sc_required = True, sc_dependencies = []\<rparr>,
      \<lparr>sc_surface = SurfaceRef KSkill ''s'', sc_level = 1, sc_required = True,
       sc_dependencies = [SurfaceRef KTool ''t'']\<rparr>]"
  by (rule schedule_surface_graph_correct) code_simp

end
