(* ===== verification/Lifecycle.thy ===== *)
theory Lifecycle
  imports Surface_Graph
begin

text \<open>
  Lifecycle intents, \<open>src/plugin_lifecycle/model.rs\<close> and \<open>schedule.rs\<close>: the inventory of surfaces a
  package operation activates or retires, the canonical checkpoint sequence of each action, the
  idempotency keys of the checkpoints, and the construction and validation of an intent.

  A manifest enters through its package identity and the surfaces \<open>plugin_surfaces\<close> projects from it.
  The JSON encoding of an intent is the external \<open>intent_json\<close>.
\<close>

section \<open>Data\<close>

datatype PluginLifecycleAction = LInstall | LUpgrade | LEnable | LDisable | LUninstall

primrec PluginLifecycleAction_name :: "PluginLifecycleAction \<Rightarrow> string" where
  "PluginLifecycleAction_name LInstall = ''install''"
| "PluginLifecycleAction_name LUpgrade = ''upgrade''"
| "PluginLifecycleAction_name LEnable = ''enable''"
| "PluginLifecycleAction_name LDisable = ''disable''"
| "PluginLifecycleAction_name LUninstall = ''uninstall''"

datatype PluginSurfaceHost = HFlow | HKnowledge | HMcp | HRuntime | HSkill | HUi

primrec PluginSurfaceHost_for_kind :: "PluginSurfaceKind \<Rightarrow> PluginSurfaceHost" where
  "PluginSurfaceHost_for_kind KFlow = HFlow"
| "PluginSurfaceHost_for_kind KTool = HRuntime"
| "PluginSurfaceHost_for_kind KMcp = HMcp"
| "PluginSurfaceHost_for_kind KOkf = HKnowledge"
| "PluginSurfaceHost_for_kind KSkill = HSkill"
| "PluginSurfaceHost_for_kind KUi = HUi"

datatype SurfaceActivation = Eager | Lazy

record ManifestPluginSurface =
  ms_surface :: PluginSurfaceRef
  ms_activation :: SurfaceActivation
  ms_optional :: bool
  ms_dependencies :: "PluginSurfaceRef list"

record PluginLifecycleSurface =
  ls_surface :: PluginSurfaceRef
  ls_host :: PluginSurfaceHost
  ls_activation :: SurfaceActivation
  ls_required :: bool
  ls_level :: u32
  ls_dependencies :: "PluginSurfaceRef list"

datatype PluginLifecycleCheckpointKind =
    PackageCommitted
  | SurfacePrepared
  | CapabilityPublished
  | CapabilityHidden
  | CallsDrained
  | SurfaceStopped
  | SurfaceRemoved
  | PackageRemoved

primrec PluginLifecycleCheckpointKind_name :: "PluginLifecycleCheckpointKind \<Rightarrow> string" where
  "PluginLifecycleCheckpointKind_name PackageCommitted = ''package-committed''"
| "PluginLifecycleCheckpointKind_name SurfacePrepared = ''surface-prepared''"
| "PluginLifecycleCheckpointKind_name CapabilityPublished = ''capability-published''"
| "PluginLifecycleCheckpointKind_name CapabilityHidden = ''capability-hidden''"
| "PluginLifecycleCheckpointKind_name CallsDrained = ''calls-drained''"
| "PluginLifecycleCheckpointKind_name SurfaceStopped = ''surface-stopped''"
| "PluginLifecycleCheckpointKind_name SurfaceRemoved = ''surface-removed''"
| "PluginLifecycleCheckpointKind_name PackageRemoved = ''package-removed''"

record PluginLifecycleCheckpoint =
  ck_sequence :: u32
  ck_kind :: PluginLifecycleCheckpointKind
  ck_surface :: "PluginSurfaceRef option"
  ck_required :: bool
  ck_idempotency_key :: string

record PluginLifecycleIntentSpec =
  is_operation_id :: string
  is_plan_digest :: string
  is_scope :: InstallationId
  is_package_id :: string
  is_package_digest :: string
  is_manifest_digest :: string
  is_generation :: u64
  is_action :: PluginLifecycleAction
  is_retained_ui_state_surfaces :: "string list"

record PluginLifecycleIntent =
  li_schema :: string
  li_operation_id :: string
  li_plan_digest :: string
  li_scope :: InstallationId
  li_package_id :: string
  li_package_digest :: string
  li_manifest_digest :: string
  li_generation :: u64
  li_action :: PluginLifecycleAction
  li_retained_ui_state_surfaces :: "string list"
  li_surfaces :: "PluginLifecycleSurface list"
  li_checkpoints :: "PluginLifecycleCheckpoint list"

record ('v, 'r) lifecycle_externals = "('v, 'r) externals" +
  intent_json :: "PluginLifecycleIntent \<Rightarrow> string option"

definition PLUGIN_LIFECYCLE_INTENT_SCHEMA :: string where
  "PLUGIN_LIFECYCLE_INTENT_SCHEMA = ''a3s.use.plugin-lifecycle-intent.v4''"

section \<open>Checkpoint identities\<close>

text \<open>\<open>Display\<close> of an unsigned integer.\<close>

fun decimal :: "nat \<Rightarrow> string" where
  "decimal n = (if n < 10 then [char_of (48 + n)] else decimal (n div 10) @ [char_of (48 + n mod 10)])"

declare decimal.simps [simp del]

abbreviation newline :: char where
  "newline \<equiv> char_of (10 :: nat)"

definition surface_kind_name :: "PluginSurfaceKind \<Rightarrow> string" where
  "surface_kind_name kind =
     (case kind of KFlow \<Rightarrow> ''flow'' | KMcp \<Rightarrow> ''mcp'' | KOkf \<Rightarrow> ''okf'' | KSkill \<Rightarrow> ''skill''
        | KTool \<Rightarrow> ''tool'' | KUi \<Rightarrow> ''ui'')"

definition checkpoint_domain ::
  "string \<Rightarrow> string \<Rightarrow> InstallationId \<Rightarrow> string \<Rightarrow> u64 \<Rightarrow> PluginLifecycleAction \<Rightarrow> string" where
  "checkpoint_domain operation_id plan_digest scope package_id generation action =
     ''a3s.use.lifecycle-checkpoint.v2'' @ newline # operation_id @ newline # plan_digest
       @ newline # InstallationKind_as_str (inst_kind scope) @ newline # inst_id scope
       @ newline # package_id @ newline # decimal (unat generation)
       @ newline # PluginLifecycleAction_name action"

definition checkpoint_surface_name :: "PluginSurfaceRef option \<Rightarrow> string" where
  "checkpoint_surface_name surface =
     (case surface of None \<Rightarrow> ''package''
      | Some s \<Rightarrow> surface_kind_name (sr_kind s) @ '':'' @ sr_id s)"

definition checkpoint_identity ::
  "string \<Rightarrow> u32 \<Rightarrow> PluginLifecycleCheckpointKind \<Rightarrow> PluginSurfaceRef option \<Rightarrow> string" where
  "checkpoint_identity domain sequence kind surface =
     domain @ newline # decimal (unat sequence) @ newline # PluginLifecycleCheckpointKind_name kind
       @ newline # checkpoint_surface_name surface"

definition checkpoint_key ::
  "('v, 'r, 'x) externals_scheme \<Rightarrow> string \<Rightarrow> u32 \<Rightarrow> PluginLifecycleCheckpointKind
     \<Rightarrow> PluginSurfaceRef option \<Rightarrow> string" where
  "checkpoint_key X domain sequence kind surface =
     ''sha256:'' @ sha256_hex X (checkpoint_identity domain sequence kind surface)"

section \<open>The surface inventory\<close>

definition validate_surface ::
  "(PluginSurfaceRef, PluginLifecycleSurface) btree_map \<Rightarrow> PluginLifecycleSurface \<Rightarrow> unit use_result" where
  "validate_surface by_ref surface =
     (if ls_host surface \<noteq> PluginSurfaceHost_for_kind (sr_kind (ls_surface surface))
         \<or> windows2_any (\<lambda>a b. a \<ge> b) (ls_dependencies surface)
         \<or> (\<exists>dependency \<in> set (ls_dependencies surface).
              is_none_or (\<lambda>candidate. ls_level candidate \<ge> ls_level surface) (bt_get by_ref dependency))
      then Inl LifecycleInvalid
      else if ls_required surface \<and>
         (\<exists>dependency \<in> set (ls_dependencies surface).
            is_none_or (\<lambda>candidate. \<not> ls_required candidate) (bt_get by_ref dependency))
      then Inl LifecycleInvalid else Inr ())"

definition validate_surfaces :: "PluginLifecycleSurface list \<Rightarrow> unit use_result" where
  "validate_surfaces surfaces =
     (if surfaces = [] \<or> length surfaces > 256 then Inl LifecycleInvalid
      else
        (let by_ref = bt_collect (map (\<lambda>surface. (ls_surface surface, surface)) surfaces) in
         if length by_ref \<noteq> length surfaces then Inl LifecycleInvalid
         else if sort_key (\<lambda>surface. (ls_level surface, ls_surface surface)) surfaces \<noteq> surfaces
         then Inl LifecycleInvalid
         else for_each (validate_surface by_ref) surfaces))"

definition selection_closed ::
  "(PluginSurfaceRef, ManifestPluginSurface) btree_map \<Rightarrow> PluginSurfaceRef btree_set
     \<Rightarrow> PluginSurfaceRef list \<Rightarrow> bool" where
  "selection_closed by_ref selected selected_surfaces = (\<not>
     (selected = [] \<or> length selected \<noteq> length selected_surfaces
      \<or> (\<exists>surface \<in> set selected. \<not> bt_contains by_ref surface)
      \<or> (\<exists>surface \<in> set (bt_values by_ref). \<not> ms_optional surface \<and> ms_surface surface \<notin> set selected)
      \<or> (\<exists>reference \<in> set selected. is_some_and (\<lambda>surface.
           \<exists>dependency \<in> set (ms_dependencies surface). dependency \<notin> set selected)
           (bt_get by_ref reference))))"

text \<open>The closure that turns the schedule into the inventory, removing each entry it uses.\<close>

definition lifecycle_surface ::
  "(PluginSurfaceRef, ManifestPluginSurface) btree_map \<Rightarrow> ScheduledSurface
     \<Rightarrow> (PluginLifecycleSurface \<times> (PluginSurfaceRef, ManifestPluginSurface) btree_map) use_result" where
  "lifecycle_surface by_ref scheduled =
     and_then (ok_or LifecycleInvalid (bt_get by_ref (sc_surface scheduled))) (\<lambda>surface.
       Inr (\<lparr>ls_surface = ms_surface surface,
             ls_host = PluginSurfaceHost_for_kind (sr_kind (ms_surface surface)),
             ls_activation = ms_activation surface, ls_required = sc_required scheduled,
             ls_level = sc_level scheduled, ls_dependencies = sc_dependencies scheduled\<rparr>,
            bt_remove (sc_surface scheduled) by_ref))"

fun collect_surfaces ::
  "(PluginSurfaceRef, ManifestPluginSurface) btree_map \<Rightarrow> ScheduledSurface list
     \<Rightarrow> PluginLifecycleSurface list use_result" where
  "collect_surfaces by_ref [] = Inr []"
| "collect_surfaces by_ref (scheduled # rest) =
     and_then (lifecycle_surface by_ref scheduled) (\<lambda>(surface, by_ref').
     and_then (collect_surfaces by_ref' rest) (\<lambda>surfaces. Inr (surface # surfaces)))"

definition graph_input :: "ManifestPluginSurface \<Rightarrow> SurfaceGraphInput" where
  "graph_input surface = \<lparr>gi_surface = ms_surface surface, gi_optional = ms_optional surface,
     gi_dependencies = ms_dependencies surface\<rparr>"

definition lifecycle_surfaces ::
  "ManifestPluginSurface list \<Rightarrow> PluginSurfaceRef list \<Rightarrow> PluginLifecycleSurface list use_result" where
  "lifecycle_surfaces manifest_surfaces selected_surfaces =
     (if manifest_surfaces = [] \<or> length manifest_surfaces > 256 then Inl LifecycleInvalid
      else
        (let by_ref = bt_collect (map (\<lambda>surface. (ms_surface surface, surface)) manifest_surfaces) in
         if length by_ref \<noteq> length manifest_surfaces then Inl LifecycleInvalid
         else
           (let selected = bs_collect selected_surfaces in
            if \<not> selection_closed by_ref selected selected_surfaces then Inl LifecycleInvalid
            else
              (let chosen = filter (\<lambda>surface. ms_surface surface \<in> set selected) manifest_surfaces in
               and_then (map_err (\<lambda>_. LifecycleInvalid) (schedule_surface_graph (map graph_input chosen)))
                 (\<lambda>scheduled.
               and_then (collect_surfaces
                   (bt_collect (map (\<lambda>surface. (ms_surface surface, surface)) chosen)) scheduled) (\<lambda>surfaces.
               and_then (validate_surfaces surfaces) (\<lambda>_. Inr surfaces)))))))"

section \<open>Checkpoints\<close>

type_synonym raw_checkpoint = "PluginLifecycleCheckpointKind \<times> PluginSurfaceRef option \<times> bool"

definition raw_checkpoints :: "PluginLifecycleAction \<Rightarrow> PluginLifecycleSurface list \<Rightarrow> raw_checkpoint list" where
  "raw_checkpoints action surfaces =
     (let prepared = map (\<lambda>s. (SurfacePrepared, Some (ls_surface s), ls_required s)) surfaces in
      case action of
        LInstall \<Rightarrow> (PackageCommitted, None, True) # prepared @ [(CapabilityPublished, None, True)]
      | LUpgrade \<Rightarrow> (PackageCommitted, None, True) # prepared @ [(CapabilityPublished, None, True)]
      | LEnable \<Rightarrow> prepared @ [(CapabilityPublished, None, True)]
      | LDisable \<Rightarrow> [(CapabilityHidden, None, True), (CallsDrained, None, True)]
          @ map (\<lambda>s. (SurfaceStopped, Some (ls_surface s), True)) (rev surfaces)
      | LUninstall \<Rightarrow> [(CapabilityHidden, None, True), (CallsDrained, None, True)]
          @ map (\<lambda>s. (SurfaceRemoved, Some (ls_surface s), True)) (rev surfaces)
          @ [(PackageRemoved, None, True)])"

definition u32_try_from :: "nat \<Rightarrow> u32 option" where
  "u32_try_from n = (if n < 2 ^ 32 then Some (of_nat n) else None)"

definition checkpoint_of ::
  "('v, 'r, 'x) externals_scheme \<Rightarrow> string \<Rightarrow> nat \<times> raw_checkpoint \<Rightarrow> PluginLifecycleCheckpoint use_result" where
  "checkpoint_of X domain = (\<lambda>(index, kind, surface, required).
     and_then (ok_or LifecycleInvalid (u32_try_from (index + 1))) (\<lambda>sequence.
       Inr \<lparr>ck_sequence = sequence, ck_kind = kind, ck_surface = surface, ck_required = required,
         ck_idempotency_key = checkpoint_key X domain sequence kind surface\<rparr>))"

definition checkpoints ::
  "('v, 'r, 'x) externals_scheme \<Rightarrow> string \<Rightarrow> PluginLifecycleAction \<Rightarrow> PluginLifecycleSurface list
     \<Rightarrow> PluginLifecycleCheckpoint list use_result" where
  "checkpoints X domain action surfaces =
     and_then (validate_surfaces surfaces) (\<lambda>_.
       collect_results (checkpoint_of X domain) (List.enumerate 0 (raw_checkpoints action surfaces)))"

section \<open>Intents\<close>

definition retained_ui_valid :: "PluginLifecycleIntent \<Rightarrow> bool" where
  "retained_ui_valid self =
     (let ui_surfaces = set (map (\<lambda>s. sr_id (ls_surface s))
        (filter (\<lambda>s. sr_kind (ls_surface s) = KUi) (li_surfaces self))) in
      \<not> (windows2_any (\<lambda>a b. a \<ge> b) (li_retained_ui_state_surfaces self)
         \<or> (\<exists>surface_id \<in> set (li_retained_ui_state_surfaces self). surface_id \<notin> ui_surfaces)
         \<or> (li_action self \<notin> {LUpgrade, LUninstall} \<and> li_retained_ui_state_surfaces self \<noteq> [])))"

definition PluginLifecycleIntent_validate ::
  "('v, 'r, 'x) externals_scheme \<Rightarrow> PluginLifecycleIntent \<Rightarrow> unit use_result" where
  "PluginLifecycleIntent_validate X self =
     (if li_schema self \<noteq> PLUGIN_LIFECYCLE_INTENT_SCHEMA
         \<or> \<not> valid_machine_id (li_operation_id self)
         \<or> \<not> is_ok (InstallationId_validate (li_scope self))
         \<or> \<not> is_ok (PluginPackageId_parse (li_package_id self))
         \<or> \<not> valid_sha256 (li_plan_digest self)
         \<or> \<not> valid_sha256 (li_package_digest self)
         \<or> \<not> valid_sha256 (li_manifest_digest self)
         \<or> li_generation self = 0
         \<or> li_surfaces self = [] \<or> length (li_surfaces self) > 256
      then Inl LifecycleInvalid
      else if \<not> retained_ui_valid self then Inl LifecycleInvalid
      else
      and_then (validate_surfaces (li_surfaces self)) (\<lambda>_.
      and_then (checkpoints X (checkpoint_domain (li_operation_id self) (li_plan_digest self)
          (li_scope self) (li_package_id self) (li_generation self) (li_action self))
          (li_action self) (li_surfaces self)) (\<lambda>expected.
      if li_checkpoints self \<noteq> expected then Inl LifecycleInvalid else Inr ())))"

definition PluginLifecycleIntent_canonical_bytes ::
  "('v, 'r, 'x) lifecycle_externals_scheme \<Rightarrow> PluginLifecycleIntent \<Rightarrow> string use_result" where
  "PluginLifecycleIntent_canonical_bytes X self =
     and_then (PluginLifecycleIntent_validate X self) (\<lambda>_. ok_or LifecycleInvalid (intent_json X self))"

definition PluginLifecycleIntent_descriptor_digest ::
  "('v, 'r, 'x) lifecycle_externals_scheme \<Rightarrow> PluginLifecycleIntent \<Rightarrow> string use_result" where
  "PluginLifecycleIntent_descriptor_digest X self =
     and_then (PluginLifecycleIntent_canonical_bytes X self) (\<lambda>bytes.
       Inr (''sha256:'' @ sha256_hex X bytes))"

definition PluginLifecycleIntent_from_manifest_selection ::
  "('v, 'r, 'x) lifecycle_externals_scheme \<Rightarrow> PluginLifecycleIntentSpec \<Rightarrow> string
     \<Rightarrow> ManifestPluginSurface list use_result \<Rightarrow> PluginSurfaceRef list \<Rightarrow> PluginLifecycleIntent use_result" where
  "PluginLifecycleIntent_from_manifest_selection X spec manifest_package_id plugin_surfaces selected_surfaces =
     (if is_package_id spec \<noteq> manifest_package_id then Inl LifecycleInvalid
      else
      and_then plugin_surfaces (\<lambda>manifest_surfaces.
      and_then (lifecycle_surfaces manifest_surfaces selected_surfaces) (\<lambda>surfaces.
      and_then (checkpoints X (checkpoint_domain (is_operation_id spec) (is_plan_digest spec)
          (is_scope spec) (is_package_id spec) (is_generation spec) (is_action spec))
          (is_action spec) surfaces) (\<lambda>checkpoints.
      let intent = \<lparr>li_schema = PLUGIN_LIFECYCLE_INTENT_SCHEMA, li_operation_id = is_operation_id spec,
            li_plan_digest = is_plan_digest spec, li_scope = is_scope spec,
            li_package_id = is_package_id spec, li_package_digest = is_package_digest spec,
            li_manifest_digest = is_manifest_digest spec, li_generation = is_generation spec,
            li_action = is_action spec,
            li_retained_ui_state_surfaces = is_retained_ui_state_surfaces spec,
            li_surfaces = surfaces, li_checkpoints = checkpoints\<rparr>
      in and_then (PluginLifecycleIntent_validate X intent) (\<lambda>_. Inr intent)))))"

definition PluginLifecycleIntent_from_manifest ::
  "('v, 'r, 'x) lifecycle_externals_scheme \<Rightarrow> PluginLifecycleIntentSpec \<Rightarrow> string
     \<Rightarrow> ManifestPluginSurface list use_result \<Rightarrow> PluginLifecycleIntent use_result" where
  "PluginLifecycleIntent_from_manifest X spec manifest_package_id plugin_surfaces =
     and_then plugin_surfaces (\<lambda>surfaces.
       PluginLifecycleIntent_from_manifest_selection X spec manifest_package_id plugin_surfaces
         (map ms_surface surfaces))"

section \<open>Lemmas: checkpoint identities\<close>

definition decimal_value :: "string \<Rightarrow> nat" where
  "decimal_value s = foldl (\<lambda>a c. a * 10 + (of_char c - 48)) 0 s"

lemma decimal_roundtrip: "decimal_value (decimal n) = n"
proof (induction n rule: decimal.induct)
  case (1 n)
  have "of_char (char_of (48 + k) :: char) = 48 + k" if "k < 10" for k :: nat
    using that by (simp add: of_char_of)
  with 1 show ?case
    by (subst decimal.simps) (auto simp: decimal_value_def)
qed

lemma decimal_inject [simp]: "decimal n = decimal m \<longleftrightarrow> n = m"
  by (metis decimal_roundtrip)

lemma decimal_chars: "c \<in> set (decimal n) \<Longrightarrow> 48 \<le> (of_char c :: nat)"
proof (induction n rule: decimal.induct)
  case (1 n)
  have "of_char (char_of (48 + k) :: char) = 48 + k" if "k < 10" for k :: nat
    using that by (simp add: of_char_of)
  with 1 show ?case by (subst (asm) (2) decimal.simps) (auto split: if_splits)
qed

lemma decimal_line [simp]: "newline \<notin> set (decimal n)"
  using decimal_chars [of newline n] by (auto simp: of_char_of)

lemma split_first_line: "newline \<notin> set w \<Longrightarrow> split_on newline (w @ newline # r) = w # split_on newline r"
proof -
  assume "newline \<notin> set w"
  then have "split_on newline w = [w]" by (induction w) auto
  then show ?thesis by (simp add: split_on_append)
qed

definition line_field :: "string \<Rightarrow> bool" where
  "line_field w \<longleftrightarrow> newline \<notin> set w"

lemma lines_inject:
  "line_field w \<Longrightarrow> line_field w' \<Longrightarrow> w @ newline # r = w' @ newline # r' \<longleftrightarrow> w = w' \<and> r = r'"
  using split_first_line [of w r] split_first_line [of w' r']
  by (auto simp: line_field_def)

lemma line_field_decimal [simp]: "line_field (decimal n)"
  by (simp add: line_field_def)

lemma printable_line: "(\<And>c. c \<in> set w \<Longrightarrow> 32 \<le> (of_char c :: nat)) \<Longrightarrow> line_field w"
  unfolding line_field_def by (force simp: of_char_of)

lemma line_field_kind [simp]: "line_field (InstallationKind_as_str k)"
  by (rule printable_line) (cases k; auto)

lemma line_field_action [simp]: "line_field (PluginLifecycleAction_name a)"
  by (rule printable_line) (cases a; auto)

lemma line_field_checkpoint [simp]: "line_field (PluginLifecycleCheckpointKind_name c)"
  by (rule printable_line) (cases c; auto)

lemma byte_ge: "is_ascii_alphanumeric c \<or> c \<in> set ''-._:/@'' \<Longrightarrow> 32 \<le> (of_char c :: nat)"
  by (auto simp: is_ascii_alphanumeric_def is_ascii_lowercase_def is_ascii_uppercase_def is_ascii_digit_def)

lemma line_fields:
  "valid_machine_id w \<Longrightarrow> line_field w"
  "InstallationId_validate scope = Inr () \<Longrightarrow> line_field (inst_id scope)"
  "valid_package_id p \<Longrightarrow> line_field p"
  "valid_sha256 d \<Longrightarrow> line_field d"
proof -
  show "valid_machine_id w \<Longrightarrow> line_field w"
    by (rule printable_line) (meson byte_ge valid_machine_id_def)
  show "InstallationId_validate scope = Inr () \<Longrightarrow> line_field (inst_id scope)"
    by (rule printable_line) (fastforce dest: InstallationId_validate_chars)
  show "valid_sha256 d \<Longrightarrow> line_field d"
    by (rule printable_line)
      (fastforce simp: valid_sha256_def is_some_and_iff strip_prefix_Some is_ascii_digit_def)
  have "32 \<le> (of_char c :: nat)" if "valid_segment s" "c \<in> set s" for s c
    using that by (auto simp: valid_segment_def is_ascii_lowercase_def is_ascii_digit_def)
  then show "valid_package_id p \<Longrightarrow> line_field p"
    by (intro printable_line) (auto simp: valid_package_id_iff)
qed

lemma surface_name_inject [simp]:
  "checkpoint_surface_name s = checkpoint_surface_name t \<longleftrightarrow> s = t"
proof -
  have "surface_kind_name k @ '':'' @ i = surface_kind_name k' @ '':'' @ i' \<longleftrightarrow> k = k' \<and> i = i'"
    for k k' i i' by (cases k; cases k') (simp_all add: surface_kind_name_def)
  moreover have "surface_kind_name k @ '':'' @ i \<noteq> ''package''" for k i
    by (cases k) (simp_all add: surface_kind_name_def)
  ultimately show ?thesis
    by (cases s; cases t) (auto simp: checkpoint_surface_name_def PluginSurfaceRef.expand, metis+)
qed

lemma kind_name_inject [simp]: "InstallationKind_as_str k = InstallationKind_as_str k' \<longleftrightarrow> k = k'"
  by (cases k; cases k') simp_all

lemma action_name_inject [simp]: "PluginLifecycleAction_name a = PluginLifecycleAction_name a' \<longleftrightarrow> a = a'"
  by (cases a; cases a') simp_all

lemma checkpoint_name_inject [simp]:
  "PluginLifecycleCheckpointKind_name c = PluginLifecycleCheckpointKind_name c' \<longleftrightarrow> c = c'"
  by (cases c; cases c') simp_all

abbreviation intent_domain :: "PluginLifecycleIntent \<Rightarrow> string" where
  "intent_domain i \<equiv> checkpoint_domain (li_operation_id i) (li_plan_digest i) (li_scope i)
     (li_package_id i) (li_generation i) (li_action i)"

lemma checkpoint_identity_inject:
  assumes "PluginLifecycleIntent_validate X a = Inr ()" "PluginLifecycleIntent_validate X b = Inr ()"
  shows "checkpoint_identity (intent_domain a) m k s = checkpoint_identity (intent_domain b) n l t \<longleftrightarrow>
    (li_operation_id a, li_plan_digest a, li_scope a, li_package_id a, li_generation a, li_action a, m, k, s) =
    (li_operation_id b, li_plan_digest b, li_scope b, li_package_id b, li_generation b, li_action b, n, l, t)"
proof -
  have fields: "line_field (li_operation_id i)" "line_field (li_plan_digest i)"
    "line_field (inst_id (li_scope i))" "line_field (li_package_id i)"
    if "PluginLifecycleIntent_validate X i = Inr ()" for i
    using that
    by (simp_all add: PluginLifecycleIntent_validate_def line_fields is_ok_iff PluginPackageId_parse_def
        valid_package_id_def split: if_splits)
  note fa = fields [OF assms(1)] and fb = fields [OF assms(2)]
  have "checkpoint_identity (intent_domain a) m k s = checkpoint_identity (intent_domain b) n l t \<longleftrightarrow>
    li_operation_id a = li_operation_id b \<and> li_plan_digest a = li_plan_digest b \<and>
    inst_kind (li_scope a) = inst_kind (li_scope b) \<and> inst_id (li_scope a) = inst_id (li_scope b) \<and>
    li_package_id a = li_package_id b \<and> unat (li_generation a) = unat (li_generation b) \<and>
    li_action a = li_action b \<and> unat m = unat n \<and> k = l \<and> s = t"
    unfolding checkpoint_identity_def checkpoint_domain_def append_assoc append_Cons
    by (simp add: lines_inject fa fb)
  then show ?thesis
    by (auto simp: word_unat_eq_iff)
qed

section \<open>Lemmas: the inventory\<close>

abbreviation surface_key :: "PluginLifecycleSurface \<Rightarrow> u32 \<times> PluginSurfaceRef" where
  "surface_key s \<equiv> (ls_level s, ls_surface s)"

definition inventory_ok :: "PluginLifecycleSurface list \<Rightarrow> bool" where
  "inventory_ok surfaces \<longleftrightarrow>
     surfaces \<noteq> [] \<and> length surfaces \<le> 256 \<and> distinct (map ls_surface surfaces) \<and>
     sorted_wrt (<) (map surface_key surfaces) \<and>
     (\<forall>s \<in> set surfaces. ls_host s = PluginSurfaceHost_for_kind (sr_kind (ls_surface s)) \<and>
        sorted_wrt (<) (ls_dependencies s) \<and>
        (\<forall>d \<in> set (ls_dependencies s). \<exists>c \<in> set surfaces. ls_surface c = d \<and>
           ls_level c < ls_level s \<and> (ls_required s \<longrightarrow> ls_required c)))"

lemma sort_key_fixed:
  assumes "distinct (map f xs)"
  shows "sort_key f xs = xs \<longleftrightarrow> sorted_wrt (<) (map f xs)"
proof
  assume "sort_key f xs = xs"
  with sort_key_strict [OF assms] show "sorted_wrt (<) (map f xs)" by simp
next
  assume "sorted_wrt (<) (map f xs)"
  then have "sorted (map f xs)" using strict_sorted_iff by blast
  then show "sort_key f xs = xs" by (rule sort_key_id_if_sorted)
qed

lemma validate_surface_iff:
  assumes "distinct (map ls_surface surfaces)"
  shows "validate_surface (bt_collect (map (\<lambda>s. (ls_surface s, s)) surfaces)) s = Inr () \<longleftrightarrow>
    ls_host s = PluginSurfaceHost_for_kind (sr_kind (ls_surface s)) \<and> sorted_wrt (<) (ls_dependencies s) \<and>
    (\<forall>d \<in> set (ls_dependencies s). \<exists>c \<in> set surfaces. ls_surface c = d \<and>
       ls_level c < ls_level s \<and> (ls_required s \<longrightarrow> ls_required c))"
proof -
  have get: "bt_get (bt_collect (map (\<lambda>s. (ls_surface s, s)) surfaces)) d = Some c \<longleftrightarrow>
      c \<in> set surfaces \<and> ls_surface c = d" for d c
    using assms by (subst bt_collect_get_distinct)
      (auto simp: comp_def bt_get_def [symmetric] bt_get_graph)
  have none: "is_none_or P m \<longleftrightarrow> (\<forall>c. m = Some c \<longrightarrow> P c)" for P :: "PluginLifecycleSurface \<Rightarrow> bool" and m
    by (rule is_none_or_iff)
  have "(\<exists>d \<in> D. is_none_or P (bt_get m d)) \<longleftrightarrow> \<not> (\<forall>d \<in> D. \<exists>c. bt_get m d = Some c \<and> \<not> P c)"
    for P D and m :: "(PluginSurfaceRef, PluginLifecycleSurface) btree_map"
  proof -
    have "is_none_or P (bt_get m d) \<longleftrightarrow> \<not> (\<exists>c. bt_get m d = Some c \<and> \<not> P c)" for d
      by (cases "bt_get m d") auto
    then show ?thesis by blast
  qed
  note ex = this
  have same: "c = c'" if "c \<in> set surfaces" "c' \<in> set surfaces" "ls_surface c = ls_surface c'" for c c'
    using that assms by (auto simp: distinct_map inj_on_def)
  show ?thesis
    unfolding validate_surface_def ex get windows2_any_ge [of "\<lambda>x. x", simplified] if_Inl_Inr
    using same by (auto simp: not_le) metis
qed

lemma validate_surfaces_iff: "validate_surfaces surfaces = Inr () \<longleftrightarrow> inventory_ok surfaces"
proof (cases "distinct (map ls_surface surfaces)")
  case True
  then have keys: "distinct (map surface_key surfaces)"
    by (auto simp: distinct_map inj_on_def)
  have len: "length (bt_collect (map (\<lambda>s. (ls_surface s, s)) surfaces)) = length surfaces"
    using bt_collect_length [of "map (\<lambda>s. (ls_surface s, s)) surfaces"] True by (simp add: comp_def)
  show ?thesis
    using True unfolding validate_surfaces_def Let_def len if_Inl_Inr for_each_Inr sort_key_fixed [OF keys]
      validate_surface_iff [OF True] inventory_ok_def by auto
next
  case False
  then have "length (bt_collect (map (\<lambda>s. (ls_surface s, s)) surfaces)) \<noteq> length surfaces"
    using bt_collect_length [of "map (\<lambda>s. (ls_surface s, s)) surfaces"] by (simp add: comp_def)
  with False show ?thesis by (simp add: validate_surfaces_def inventory_ok_def)
qed

definition lifecycle_depends :: "PluginLifecycleSurface list \<Rightarrow> (PluginSurfaceRef \<times> PluginSurfaceRef) set" where
  "lifecycle_depends surfaces =
     {(a, b). \<exists>s \<in> set surfaces. a = ls_surface s \<and> b \<in> set (ls_dependencies s)}"

lemma inventory_deps_first:
  assumes "inventory_ok surfaces"
  shows "deps_first (lifecycle_depends surfaces) (map ls_surface surfaces)"
  unfolding deps_first_def
proof (intro allI impI subsetI)
  fix us x vs d
  assume split: "map ls_surface surfaces = us @ x # vs" and "d \<in> lifecycle_depends surfaces `` {x}"
  then obtain s where s: "s \<in> set surfaces" "x = ls_surface s" "d \<in> set (ls_dependencies s)"
    by (auto simp: lifecycle_depends_def)
  with assms obtain c where c: "c \<in> set surfaces" "ls_surface c = d" "ls_level c < ls_level s"
    unfolding inventory_ok_def by blast
  from split obtain A t B where AB: "surfaces = A @ t # B" "us = map ls_surface A" "x = ls_surface t"
    by (auto simp: map_eq_append_conv Cons_eq_map_conv map_eq_Cons_conv)
  have "inj_on ls_surface (set surfaces)" using assms by (simp add: inventory_ok_def distinct_map)
  then have "t = s" by (rule inj_onD) (use AB s in simp_all)
  have "c \<notin> set (t # B)"
  proof
    assume "c \<in> set (t # B)"
    then have "surface_key t \<le> surface_key c"
      using assms AB(1) by (auto simp: inventory_ok_def sorted_wrt_append)
    with c(3) \<open>t = s\<close> show False by auto
  qed
  with c AB show "d \<in> set us" by auto
qed

lemma deps_first_rev:
  assumes first: "deps_first E xs" and "distinct xs" and split: "rev xs = us @ x # vs"
    and "(y, x) \<in> E" "y \<in> set xs"
  shows "y \<in> set us"
proof (rule ccontr)
  assume "y \<notin> set us"
  have xs: "xs = rev vs @ x # rev us" using split by (metis append_assoc append_Cons append_Nil rev.simps(2) rev_append rev_rev_ident)
  with assms(5) \<open>y \<notin> set us\<close> have "y \<in> set vs \<or> y = x" by auto
  then have "y \<in> set (rev vs @ [x])" by auto
  then obtain A B where A: "rev vs @ [x] = A @ y # B" by (auto dest: split_list)
  then have "xs = A @ y # B @ rev us" using xs by simp
  with first have "E `` {y} \<subseteq> set A" by (auto simp: deps_first_def)
  with assms(4) have "x \<in> set A" by auto
  moreover have "distinct (rev vs @ [x])" using assms(2) xs by auto
  ultimately show False using A by (metis append_butlast_last_id butlast_append disjoint_iff distinct_append last_appendR last_in_set last_snoc list.distinct(1))
qed

section \<open>Lemmas: checkpoints\<close>

definition raw_of :: "PluginLifecycleCheckpoint \<Rightarrow> raw_checkpoint" where
  "raw_of c = (ck_kind c, ck_surface c, ck_required c)"

lemma raw_checkpoints_length: "length (raw_checkpoints action surfaces) \<le> length surfaces + 3"
  by (cases action) (simp_all add: raw_checkpoints_def)

definition expected_checkpoint ::
  "('v, 'r, 'x) externals_scheme \<Rightarrow> string \<Rightarrow> nat \<times> raw_checkpoint \<Rightarrow> PluginLifecycleCheckpoint" where
  "expected_checkpoint X domain = (\<lambda>(index, kind, surface, required).
     \<lparr>ck_sequence = of_nat (Suc index), ck_kind = kind, ck_surface = surface, ck_required = required,
      ck_idempotency_key = checkpoint_key X domain (of_nat (Suc index)) kind surface\<rparr>)"

lemma checkpoints_total:
  assumes "inventory_ok surfaces"
  shows "checkpoints X domain action surfaces =
    Inr (map (expected_checkpoint X domain) (List.enumerate 0 (raw_checkpoints action surfaces)))"
proof -
  have "length (raw_checkpoints action surfaces) < 2 ^ 32 - 1"
    using raw_checkpoints_length [of action surfaces] assms by (simp add: inventory_ok_def)
  then have "collect_results (checkpoint_of X domain) (List.enumerate 0 (raw_checkpoints action surfaces)) =
      Inr (map (expected_checkpoint X domain) (List.enumerate 0 (raw_checkpoints action surfaces)))"
    by (intro collect_results_total)
      (auto simp: checkpoint_of_def expected_checkpoint_def u32_try_from_def in_set_enumerate_eq)
  moreover have "validate_surfaces surfaces = Inr ()" using assms by (simp add: validate_surfaces_iff)
  ultimately show ?thesis by (simp add: checkpoints_def)
qed

lemma expected_checkpoint_raw:
  "map raw_of (map (expected_checkpoint X domain) (List.enumerate n raws)) = raws"
  by (induction raws arbitrary: n) (auto simp: expected_checkpoint_def raw_of_def split: prod.splits)

lemma intent_valid_facts:
  assumes "PluginLifecycleIntent_validate X i = Inr ()"
  shows "inventory_ok (li_surfaces i)"
    and "li_checkpoints i = map (expected_checkpoint X (intent_domain i))
      (List.enumerate 0 (raw_checkpoints (li_action i) (li_surfaces i)))"
    and "map raw_of (li_checkpoints i) = raw_checkpoints (li_action i) (li_surfaces i)"
proof -
  from assms have v: "validate_surfaces (li_surfaces i) = Inr ()"
    "checkpoints X (intent_domain i) (li_action i) (li_surfaces i) = Inr (li_checkpoints i)"
    by (auto simp: PluginLifecycleIntent_validate_def result_simps split: if_splits)
  show inv: "inventory_ok (li_surfaces i)" using v(1) by (simp add: validate_surfaces_iff)
  show *: "li_checkpoints i = map (expected_checkpoint X (intent_domain i))
      (List.enumerate 0 (raw_checkpoints (li_action i) (li_surfaces i)))"
    using v(2) checkpoints_total [OF inv, of X "intent_domain i" "li_action i"] by simp
  show "map raw_of (li_checkpoints i) = raw_checkpoints (li_action i) (li_surfaces i)"
    unfolding * by (rule expected_checkpoint_raw)
qed

text \<open>Validation depends on the environment only through the digest.\<close>

lemma intent_validate_cong:
  assumes "sha256_hex X = sha256_hex Y"
  shows "PluginLifecycleIntent_validate X i = PluginLifecycleIntent_validate Y i"
proof -
  have "checkpoint_of X = checkpoint_of Y"
    by (intro ext) (simp add: checkpoint_of_def checkpoint_key_def assms)
  then show ?thesis by (simp add: PluginLifecycleIntent_validate_def checkpoints_def)
qed

lemma checkpoint_keys_distinct:
  assumes valid: "PluginLifecycleIntent_validate X i = Inr ()" and inj: "inj (sha256_hex X)"
  shows "distinct (map ck_idempotency_key (li_checkpoints i))"
proof -
  let ?raws = "raw_checkpoints (li_action i) (li_surfaces i)"
  have small: "length ?raws < 2 ^ 32 - 1"
    using raw_checkpoints_length [of "li_action i" "li_surfaces i"] intent_valid_facts(1) [OF valid]
    by (simp add: inventory_ok_def)
  have key: "ck_idempotency_key (li_checkpoints i ! n) =
      checkpoint_key X (intent_domain i) (of_nat (Suc n)) (fst (?raws ! n)) (fst (snd (?raws ! n)))"
    if "n < length ?raws" for n
    using that unfolding intent_valid_facts(2) [OF valid]
    by (simp add: expected_checkpoint_def nth_enumerate_eq split: prod.splits)
  have len: "length (li_checkpoints i) = length ?raws" unfolding intent_valid_facts(2) [OF valid] by simp
  have "ck_idempotency_key (li_checkpoints i ! m) \<noteq> ck_idempotency_key (li_checkpoints i ! n)"
    if "m < length ?raws" "n < length ?raws" "m \<noteq> n" for m n
  proof -
    have exact: "unat (of_nat k :: u32) = k" if "k < 2 ^ 32" for k
      using that by (simp add: unsigned_of_nat take_bit_nat_eq_self)
    have "(of_nat (Suc m) :: u32) \<noteq> of_nat (Suc n)"
      using that small exact [of "Suc m"] exact [of "Suc n"] by (auto simp del: of_nat_Suc)
    then show ?thesis
      using inj unfolding key [OF that(1)] key [OF that(2)] checkpoint_key_def
      by (auto dest!: injD simp: checkpoint_identity_inject [OF valid valid])
  qed
  then show ?thesis by (auto simp: distinct_conv_nth len)
qed

text \<open>
  The order the checkpoints of an action must respect: surfaces are prepared after the package is
  committed and after their dependencies, and published last; on the way down capabilities are hidden
  and calls drained before any surface is touched, and a surface is retired after its dependents.
\<close>

definition prepared_in :: "PluginSurfaceRef \<Rightarrow> raw_checkpoint list \<Rightarrow> bool" where
  "prepared_in s before \<longleftrightarrow> (\<exists>r. (SurfacePrepared, Some s, r) \<in> set before)"

definition retired_in :: "PluginSurfaceRef \<Rightarrow> raw_checkpoint list \<Rightarrow> bool" where
  "retired_in s before \<longleftrightarrow> (\<exists>k r. k \<in> {SurfaceStopped, SurfaceRemoved} \<and> (k, Some s, r) \<in> set before)"

definition ordered_step ::
  "PluginLifecycleAction \<Rightarrow> PluginLifecycleSurface list \<Rightarrow> raw_checkpoint list \<Rightarrow> raw_checkpoint \<Rightarrow> bool" where
  "ordered_step action surfaces before step =
     (case step of
        (SurfacePrepared, Some s, _) \<Rightarrow>
          (action \<in> {LInstall, LUpgrade} \<longrightarrow> (PackageCommitted, None, True) \<in> set before) \<and>
          (\<forall>d. (s, d) \<in> lifecycle_depends surfaces \<longrightarrow> prepared_in d before)
      | (CapabilityPublished, None, _) \<Rightarrow> \<forall>t \<in> set surfaces. prepared_in (ls_surface t) before
      | (CallsDrained, None, _) \<Rightarrow> (CapabilityHidden, None, True) \<in> set before
      | (SurfaceStopped, Some s, _) \<Rightarrow> action = LDisable \<and>
          (CallsDrained, None, True) \<in> set before \<and>
          (\<forall>t. (t, s) \<in> lifecycle_depends surfaces \<longrightarrow> retired_in t before)
      | (SurfaceRemoved, Some s, _) \<Rightarrow> action = LUninstall \<and>
          (CallsDrained, None, True) \<in> set before \<and>
          (\<forall>t. (t, s) \<in> lifecycle_depends surfaces \<longrightarrow> retired_in t before)
      | (PackageRemoved, None, _) \<Rightarrow> \<forall>t \<in> set surfaces. retired_in (ls_surface t) before
      | (PackageCommitted, None, _) \<Rightarrow> before = []
      | (CapabilityHidden, None, _) \<Rightarrow> before = []
      | _ \<Rightarrow> False)"

declare ordered_step_def [code del]

lemma take_prefix_deps:
  assumes "inventory_ok surfaces" "m < length surfaces"
    and "(ls_surface (surfaces ! m), d) \<in> lifecycle_depends surfaces"
  shows "d \<in> ls_surface ` set (take m surfaces)"
proof -
  have "map ls_surface surfaces = map ls_surface (take m surfaces) @
      ls_surface (surfaces ! m) # map ls_surface (drop (Suc m) surfaces)"
    using assms(2) by (metis id_take_nth_drop list.simps(9) map_append)
  with inventory_deps_first [OF assms(1)] assms(3) show ?thesis
    unfolding deps_first_def by fastforce
qed

lemma take_prefix_dependents:
  assumes inv: "inventory_ok surfaces" and m: "m < length surfaces"
    and dep: "(t, ls_surface (rev surfaces ! m)) \<in> lifecycle_depends surfaces"
  shows "t \<in> ls_surface ` set (take m (rev surfaces))"
proof -
  have "rev surfaces = take m (rev surfaces) @ rev surfaces ! m # drop (Suc m) (rev surfaces)"
    using m by (intro id_take_nth_drop) simp
  then have "map ls_surface (rev surfaces) = map ls_surface (take m (rev surfaces) @
      rev surfaces ! m # drop (Suc m) (rev surfaces))" by (rule arg_cong)
  then have split: "rev (map ls_surface surfaces) = map ls_surface (take m (rev surfaces)) @
      ls_surface (rev surfaces ! m) # map ls_surface (drop (Suc m) (rev surfaces))"
    by (simp add: rev_map)
  have "distinct (map ls_surface surfaces)" using inv by (simp add: inventory_ok_def)
  moreover have "t \<in> set (map ls_surface surfaces)"
    using dep by (auto simp: lifecycle_depends_def)
  ultimately have "t \<in> set (map ls_surface (take m (rev surfaces)))"
    by (rule deps_first_rev [OF inventory_deps_first [OF inv] _ split dep])
  then show ?thesis by simp
qed

lemma prepared_in_simps [simp]:
  "prepared_in s (map (\<lambda>s. (SurfacePrepared, Some (ls_surface s), ls_required s)) zs) \<longleftrightarrow>
     s \<in> ls_surface ` set zs"
  "\<not> prepared_in s []"
  "prepared_in s ((k, e, r) # xs) \<longleftrightarrow> k = SurfacePrepared \<and> e = Some s \<or> prepared_in s xs"
  "prepared_in s (xs @ ys) \<longleftrightarrow> prepared_in s xs \<or> prepared_in s ys"
  by (auto simp: prepared_in_def)

lemma retired_in_simps [simp]:
  "retired_in s (map (\<lambda>s. (SurfaceStopped, Some (ls_surface s), True)) zs) \<longleftrightarrow> s \<in> ls_surface ` set zs"
  "retired_in s (map (\<lambda>s. (SurfaceRemoved, Some (ls_surface s), True)) zs) \<longleftrightarrow> s \<in> ls_surface ` set zs"
  "\<not> retired_in s []"
  "retired_in s ((k, e, r) # xs) \<longleftrightarrow> k \<in> {SurfaceStopped, SurfaceRemoved} \<and> e = Some s \<or> retired_in s xs"
  "retired_in s (xs @ ys) \<longleftrightarrow> retired_in s xs \<or> retired_in s ys"
  by (auto simp: retired_in_def)

lemma raw_checkpoints_ordered:
  assumes inv: "inventory_ok surfaces" and n: "n < length (raw_checkpoints action surfaces)"
  shows "ordered_step action surfaces (take n (raw_checkpoints action surfaces))
    (raw_checkpoints action surfaces ! n)"
proof -
  note up = take_prefix_deps [OF inv] and down = take_prefix_dependents [OF inv]
  note defs = ordered_step_def raw_checkpoints_def Let_def
  have pre: "m < length surfaces \<or> m = length surfaces" if "m < Suc (length surfaces)" for m
    using that by linarith
  show ?thesis
  proof (cases action)
    case LInstall
    with n show ?thesis
      by (cases n) (use up pre [of "n - 1"] in \<open>auto simp: defs nth_append take_map\<close>)
  next
    case LUpgrade
    with n show ?thesis
      by (cases n) (use up pre [of "n - 1"] in \<open>auto simp: defs nth_append take_map\<close>)
  next
    case LEnable
    with n up pre [of n] show ?thesis by (auto simp: defs nth_append take_map)
  next
    case LDisable
    with n show ?thesis
      by (cases n; cases "n - 1") (use down in \<open>auto simp: defs nth_append take_map rev_map\<close>)
  next
    case LUninstall
    with n show ?thesis
      by (cases n; cases "n - 1") (use down pre [of "n - 2"] in \<open>auto simp: defs nth_append take_map rev_map\<close>)
  qed
qed

section \<open>Lemmas: from a manifest selection to the inventory\<close>

definition inventory_entry ::
  "(PluginSurfaceRef, ManifestPluginSurface) btree_map \<Rightarrow> ScheduledSurface \<Rightarrow> PluginLifecycleSurface" where
  "inventory_entry by_ref scheduled =
     (let surface = the (bt_get by_ref (sc_surface scheduled)) in
      \<lparr>ls_surface = ms_surface surface,
       ls_host = PluginSurfaceHost_for_kind (sr_kind (ms_surface surface)),
       ls_activation = ms_activation surface, ls_required = sc_required scheduled,
       ls_level = sc_level scheduled, ls_dependencies = sc_dependencies scheduled\<rparr>)"

lemma collect_surfaces_total:
  assumes "bt_wf by_ref" "distinct (map sc_surface out)" "sc_surface ` set out \<subseteq> set (bt_keys by_ref)"
  shows "collect_surfaces by_ref out = Inr (map (inventory_entry by_ref) out)"
  using assms
proof (induction out arbitrary: by_ref)
  case (Cons s out)
  then obtain m where m: "bt_get by_ref (sc_surface s) = Some m" by (auto simp: bt_keys_get)
  let ?rest = "bt_remove (sc_surface s) by_ref"
  have get: "bt_get ?rest k = (if k = sc_surface s then None else bt_get by_ref k)" for k
    using Cons.prems(1) by (simp add: bt_get_remove)
  have "set (bt_keys ?rest) = set (bt_keys by_ref) - {sc_surface s}"
    by (auto simp: bt_keys_get get split: if_splits)
  with Cons.prems(2,3) have "sc_surface ` set out \<subseteq> set (bt_keys ?rest)"
    by (simp add: subset_Diff_insert)
  with Cons have "collect_surfaces ?rest out = Inr (map (inventory_entry ?rest) out)" by simp
  moreover have "map (inventory_entry ?rest) out = map (inventory_entry by_ref) out"
  proof (rule map_cong [OF refl])
    fix x assume "x \<in> set out"
    then have "sc_surface x \<noteq> sc_surface s"
      using Cons.prems(2) by (metis distinct.simps(2) image_eqI list.set_map list.simps(9))
    then show "inventory_entry ?rest x = inventory_entry by_ref x" by (simp add: inventory_entry_def get)
  qed
  ultimately show ?case using m by (simp add: lifecycle_surface_def inventory_entry_def)
qed simp

definition chosen_surfaces :: "ManifestPluginSurface list \<Rightarrow> PluginSurfaceRef list \<Rightarrow> ManifestPluginSurface list" where
  "chosen_surfaces manifest selected = filter (\<lambda>s. ms_surface s \<in> set selected) manifest"

definition selection_ok :: "ManifestPluginSurface list \<Rightarrow> PluginSurfaceRef list \<Rightarrow> bool" where
  "selection_ok manifest selected \<longleftrightarrow>
     length manifest \<le> 256 \<and> distinct (map ms_surface manifest) \<and>
     selected \<noteq> [] \<and> distinct selected \<and> set selected \<subseteq> ms_surface ` set manifest \<and>
     (\<forall>s \<in> set manifest. \<not> ms_optional s \<longrightarrow> ms_surface s \<in> set selected) \<and>
     (\<forall>s \<in> set manifest. ms_surface s \<in> set selected \<longrightarrow>
        set (ms_dependencies s) \<subseteq> set selected \<and> sorted_wrt (<) (ms_dependencies s)) \<and>
     acyclic (graph_depends (map graph_input (chosen_surfaces manifest selected)))"

lemma chosen_facts:
  assumes "distinct (map ms_surface manifest)" "set selected \<subseteq> ms_surface ` set manifest"
  shows "ms_surface ` set (chosen_surfaces manifest selected) = set selected"
    and "distinct (map ms_surface (chosen_surfaces manifest selected))"
    and "map gi_surface (map graph_input (chosen_surfaces manifest selected)) =
      map ms_surface (chosen_surfaces manifest selected)"
  using assms by (auto simp: chosen_surfaces_def graph_input_def distinct_map_filter)

lemma manifest_index:
  assumes "distinct (map ms_surface manifest)"
  shows "bt_get (bt_collect (map (\<lambda>s. (ms_surface s, s)) manifest)) k = Some s \<longleftrightarrow>
      s \<in> set manifest \<and> ms_surface s = k"
    and "length (bt_collect (map (\<lambda>s. (ms_surface s, s)) manifest)) = length manifest"
    and "set (bt_values (bt_collect (map (\<lambda>s. (ms_surface s, s)) manifest))) = set manifest"
proof -
  let ?M = "bt_collect (map (\<lambda>s. (ms_surface s, s)) manifest)"
  show get: "bt_get ?M k = Some s \<longleftrightarrow> s \<in> set manifest \<and> ms_surface s = k" for k s
    using assms by (subst bt_collect_get_distinct)
      (auto simp: comp_def bt_get_def [symmetric] bt_get_graph)
  show "length ?M = length manifest"
    using bt_collect_length [of "map (\<lambda>s. (ms_surface s, s)) manifest"] assms by (simp add: comp_def)
  show "set (bt_values ?M) = set manifest"
    using wf_map_member [of ?M] by (force simp: bt_values_def get)
qed

lemma selection_closed_iff:
  assumes "distinct (map ms_surface manifest)"
  shows "selection_closed (bt_collect (map (\<lambda>s. (ms_surface s, s)) manifest)) (bs_collect selected) selected \<longleftrightarrow>
    selected \<noteq> [] \<and> distinct selected \<and> set selected \<subseteq> ms_surface ` set manifest \<and>
    (\<forall>s \<in> set manifest. \<not> ms_optional s \<longrightarrow> ms_surface s \<in> set selected) \<and>
    (\<forall>s \<in> set manifest. ms_surface s \<in> set selected \<longrightarrow> set (ms_dependencies s) \<subseteq> set selected)"
proof -
  have empty: "bs_collect selected = [] \<longleftrightarrow> selected = []"
    by (metis set_bs_collect set_empty)
  show ?thesis
    unfolding selection_closed_def bs_collect_distinct empty manifest_index(3) [OF assms]
    by (auto simp: is_some_and_iff manifest_index(1) [OF assms] bt_keys_contains [symmetric] image_image)
qed

lemma lifecycle_surfaces_stages:
  "lifecycle_surfaces manifest selected =
     (if manifest \<noteq> [] \<and> length manifest \<le> 256 \<and> distinct (map ms_surface manifest) \<and>
         selection_closed (bt_collect (map (\<lambda>s. (ms_surface s, s)) manifest)) (bs_collect selected) selected
      then
        (let chosen = chosen_surfaces manifest selected in
         and_then (map_err (\<lambda>_. LifecycleInvalid) (schedule_surface_graph (map graph_input chosen)))
           (\<lambda>scheduled.
         and_then (collect_surfaces
             (bt_collect (map (\<lambda>surface. (ms_surface surface, surface)) chosen)) scheduled) (\<lambda>surfaces.
         and_then (validate_surfaces surfaces) (\<lambda>_. Inr surfaces))))
      else Inl LifecycleInvalid)"
  using bt_collect_length [of "map (\<lambda>s. (ms_surface s, s)) manifest"]
  by (simp add: lifecycle_surfaces_def chosen_surfaces_def comp_def not_less Let_def)

lemma scheduled_inventory:
  assumes manifest: "length manifest \<le> 256" "distinct (map ms_surface manifest)"
    and selected: "selected \<noteq> []" "set selected \<subseteq> ms_surface ` set manifest"
    and out: "schedule_surface_graph (map graph_input (chosen_surfaces manifest selected)) = Inr out"
    and by_ref: "by_ref = bt_collect (map (\<lambda>s. (ms_surface s, s)) (chosen_surfaces manifest selected))"
  shows "collect_surfaces by_ref out = Inr (map (inventory_entry by_ref) out)"
    and "inventory_ok (map (inventory_entry by_ref) out)"
    and "s \<in> set out \<Longrightarrow> \<exists>m \<in> set manifest. ms_surface m = sc_surface s \<and>
      ms_dependencies m = sc_dependencies s \<and> inventory_entry by_ref s =
        \<lparr>ls_surface = ms_surface m, ls_host = PluginSurfaceHost_for_kind (sr_kind (ms_surface m)),
         ls_activation = ms_activation m, ls_required = sc_required s, ls_level = sc_level s,
         ls_dependencies = ms_dependencies m\<rparr>"
    and "sc_surface ` set out = set selected"
proof -
  let ?C = "chosen_surfaces manifest selected" and ?I = "map graph_input (chosen_surfaces manifest selected)"
  note chosen = chosen_facts [OF manifest(2) selected(2)]
  note index = manifest_index [OF chosen(2), folded by_ref]
  have correct: "schedule_correct ?I out" using out by (rule schedule_satisfies)
  have valid: "graph_valid ?I" using out by (rule schedule_accepts)
  show surfaces: "sc_surface ` set out = set selected"
    using schedule_surfaces(1) [OF correct] chosen(1) by (simp add: image_image graph_input_def)
  have len: "length out = length ?C" using correct by (simp add: schedule_correct_def)
  have "card (sc_surface ` set out) = length out"
    using surfaces chosen(1,2) len by (metis distinct_card length_map list.set_map)
  then have distinct: "distinct (map sc_surface out)" by (simp add: card_distinct)
  have wf: "bt_wf by_ref" by (simp add: by_ref)
  have keys: "set (bt_keys by_ref) = set selected"
    using chosen(1) by (simp add: by_ref image_image)
  show "collect_surfaces by_ref out = Inr (map (inventory_entry by_ref) out)"
    by (rule collect_surfaces_total [OF wf distinct]) (simp add: surfaces keys)
  show entry: "\<exists>m \<in> set manifest. ms_surface m = sc_surface s \<and>
      ms_dependencies m = sc_dependencies s \<and> inventory_entry by_ref s =
        \<lparr>ls_surface = ms_surface m, ls_host = PluginSurfaceHost_for_kind (sr_kind (ms_surface m)),
         ls_activation = ms_activation m, ls_required = sc_required s, ls_level = sc_level s,
         ls_dependencies = ms_dependencies m\<rparr>" if "s \<in> set out" for s
  proof -
    from schedule_surfaces(2) [OF correct that] obtain m where m: "m \<in> set ?C"
      "ms_surface m = sc_surface s" "ms_dependencies m = sc_dependencies s"
      by (auto simp: graph_input_def)
    then have "bt_get by_ref (sc_surface s) = Some m" by (simp add: index(1))
    with m show ?thesis
      by (intro bexI [of _ m]) (auto simp: inventory_entry_def chosen_surfaces_def)
  qed
  have fields: "ls_surface (inventory_entry by_ref s) = sc_surface s" "ls_level (inventory_entry by_ref s) = sc_level s"
    "ls_dependencies (inventory_entry by_ref s) = sc_dependencies s"
    "ls_required (inventory_entry by_ref s) = sc_required s"
    "ls_host (inventory_entry by_ref s) = PluginSurfaceHost_for_kind (sr_kind (sc_surface s))"
    if "s \<in> set out" for s using entry [OF that] by auto
  have "set (gi_dependencies i) \<subseteq> gi_surface ` set ?I" if "i \<in> set ?I" for i
    using that valid unfolding graph_valid_def by blast
  note below = schedule_dependency_below [OF correct this]
  have maps: "map ls_surface (map (inventory_entry by_ref) out) = map sc_surface out"
    "map surface_key (map (inventory_entry by_ref) out) = map (\<lambda>s. (sc_level s, sc_surface s)) out"
    by (simp_all add: fields)
  have "length out \<le> 256" using len manifest(1) by (simp add: chosen_surfaces_def le_trans [OF length_filter_le])
  moreover have "out \<noteq> []" using surfaces selected(1) by auto
  moreover have "sorted_wrt (<) (map (\<lambda>s. (sc_level s, sc_surface s)) out)"
    using correct by (simp add: schedule_correct_def)
  moreover have "sorted_wrt (<) (sc_dependencies s)" if "s \<in> set out" for s
    using schedule_surfaces(2) [OF correct that] valid unfolding graph_valid_def by metis
  ultimately show "inventory_ok (map (inventory_entry by_ref) out)"
    using distinct below unfolding inventory_ok_def maps by (simp add: fields)
qed

lemma selection_ok_stages:
  "selection_ok manifest selected \<longleftrightarrow>
     manifest \<noteq> [] \<and> length manifest \<le> 256 \<and> distinct (map ms_surface manifest) \<and>
     selection_closed (bt_collect (map (\<lambda>s. (ms_surface s, s)) manifest)) (bs_collect selected) selected \<and>
     graph_valid (map graph_input (chosen_surfaces manifest selected))"
proof (cases "length manifest \<le> 256 \<and> distinct (map ms_surface manifest) \<and> selected \<noteq> [] \<and>
    distinct selected \<and> set selected \<subseteq> ms_surface ` set manifest")
  case True
  let ?C = "chosen_surfaces manifest selected"
  have chosen: "ms_surface ` set ?C = set selected" "distinct (map ms_surface ?C)"
    "map gi_surface (map graph_input ?C) = map ms_surface ?C" using chosen_facts True by blast+
  have "manifest \<noteq> []" using True by auto
  have "?C \<noteq> []" using chosen(1) True by auto
  moreover have "length ?C \<le> 256"
    using True by (simp add: chosen_surfaces_def le_trans [OF length_filter_le])
  moreover have "gi_surface ` set (map graph_input ?C) = set selected"
    using chosen(1,3) by (metis list.set_map)
  moreover have "distinct (map gi_surface (map graph_input ?C))" using chosen(2,3) by (simp only:)
  moreover have "(\<forall>i \<in> set (map graph_input ?C). sorted_wrt (<) (gi_dependencies i) \<and>
        set (gi_dependencies i) \<subseteq> set selected) \<longleftrightarrow>
      (\<forall>s \<in> set manifest. ms_surface s \<in> set selected \<longrightarrow>
        set (ms_dependencies s) \<subseteq> set selected \<and> sorted_wrt (<) (ms_dependencies s))"
    by (auto simp: graph_input_def chosen_surfaces_def)
  ultimately have "graph_valid (map graph_input ?C) \<longleftrightarrow>
      (\<forall>s \<in> set manifest. ms_surface s \<in> set selected \<longrightarrow>
        set (ms_dependencies s) \<subseteq> set selected \<and> sorted_wrt (<) (ms_dependencies s)) \<and>
      acyclic (graph_depends (map graph_input ?C))"
    unfolding graph_valid_def MAX_SURFACE_GRAPH_NODES_def by (simp only: length_map map_is_Nil_conv) argo
  with True \<open>manifest \<noteq> []\<close> selection_closed_iff [of manifest selected] show ?thesis
    unfolding selection_ok_def by (simp only: simp_thms) blast
next
  case False
  then show ?thesis
    unfolding selection_ok_def using selection_closed_iff [of manifest selected] by argo
qed

lemma lifecycle_surfaces_result:
  "lifecycle_surfaces manifest selected = Inr out \<longleftrightarrow> selection_ok manifest selected \<and>
     (\<exists>scheduled. schedule_surface_graph (map graph_input (chosen_surfaces manifest selected)) = Inr scheduled \<and>
        out = map (inventory_entry (bt_collect (map (\<lambda>s. (ms_surface s, s))
          (chosen_surfaces manifest selected)))) scheduled)"
proof (cases "selection_ok manifest selected")
  case True
  then have sel: "length manifest \<le> 256" "distinct (map ms_surface manifest)" "selected \<noteq> []"
    "set selected \<subseteq> ms_surface ` set manifest" by (simp_all add: selection_ok_def)
  obtain scheduled where sch: "schedule_surface_graph (map graph_input (chosen_surfaces manifest selected)) = Inr scheduled"
    using True schedule_valid unfolding selection_ok_stages by blast
  note inv = scheduled_inventory(1,2) [OF sel sch refl]
  from True show ?thesis
    using inv sch by (auto simp: lifecycle_surfaces_stages selection_ok_stages
        validate_surfaces_iff [THEN iffD2])
next
  case False
  have "lifecycle_surfaces manifest selected \<noteq> Inr out"
  proof
    assume "lifecycle_surfaces manifest selected = Inr out"
    with schedule_accepts have "selection_ok manifest selected"
      unfolding selection_ok_stages by (auto simp: lifecycle_surfaces_stages result_simps Let_def split: if_splits)
    with False show False by simp
  qed
  with False show ?thesis by blast
qed

section \<open>Properties\<close>

text \<open>
  C25: a manifest selection yields a lifecycle inventory exactly when the manifest has at most 256
  distinct surfaces, the selection is a non-empty duplicate-free closure of them that contains every
  mandatory surface, and the selected dependencies are sorted and acyclic; the inventory then has one
  entry per selected surface, in a dependency-respecting order, with the host of its kind and the
  activation of the manifest, and it passes the inventory validation.
\<close>

theorem lifecycle_surfaces_exact:
  "(\<exists>out. lifecycle_surfaces manifest selected = Inr out) = selection_ok manifest selected \<and>
   (\<forall>out. lifecycle_surfaces manifest selected = Inr out \<longrightarrow>
      validate_surfaces out = Inr () \<and> distinct (map ls_surface out) \<and> ls_surface ` set out = set selected \<and>
      (\<forall>s \<in> set out. \<exists>m \<in> set manifest. ms_surface m = ls_surface s \<and>
         ms_activation m = ls_activation s \<and> ms_dependencies m = ls_dependencies s))"
proof -
  have inv: "validate_surfaces out = Inr () \<and> distinct (map ls_surface out) \<and> ls_surface ` set out = set selected \<and>
      (\<forall>s \<in> set out. \<exists>m \<in> set manifest. ms_surface m = ls_surface s \<and>
         ms_activation m = ls_activation s \<and> ms_dependencies m = ls_dependencies s)"
    if run: "lifecycle_surfaces manifest selected = Inr out" for out
  proof -
    from run obtain scheduled where sel: "length manifest \<le> 256" "distinct (map ms_surface manifest)"
      "selected \<noteq> []" "set selected \<subseteq> ms_surface ` set manifest"
      and sch: "schedule_surface_graph (map graph_input (chosen_surfaces manifest selected)) = Inr scheduled"
      and out: "out = map (inventory_entry (bt_collect (map (\<lambda>s. (ms_surface s, s))
          (chosen_surfaces manifest selected)))) scheduled"
      unfolding lifecycle_surfaces_result selection_ok_def by blast
    note facts = scheduled_inventory [OF sel sch refl]
    have "ls_surface ` set out = sc_surface ` set scheduled"
      unfolding out using facts(3) by (force simp: image_image intro!: image_cong)
    with facts(2-4) show ?thesis
      unfolding out by (fastforce simp: validate_surfaces_iff inventory_ok_def)
  qed
  moreover have "(\<exists>out. lifecycle_surfaces manifest selected = Inr out) = selection_ok manifest selected"
    unfolding lifecycle_surfaces_result selection_ok_stages using schedule_valid by blast
  ultimately show ?thesis by blast
qed

text \<open>
  C22: in a valid intent every checkpoint comes after everything it relies on: a surface is prepared
  after the package commit and after its dependencies, capabilities are published only once every
  surface was prepared, and on the way down capabilities are hidden and calls drained before a surface
  is stopped or removed, which happens after all its dependents, the package being removed last.
\<close>

theorem checkpoints_dependency_order:
  assumes "PluginLifecycleIntent_validate X i = Inr ()" and "n < length (li_checkpoints i)"
  shows "ordered_step (li_action i) (li_surfaces i) (map raw_of (take n (li_checkpoints i)))
    (raw_of (li_checkpoints i ! n))"
proof -
  note raw = intent_valid_facts(3) [OF assms(1)]
  have "n < length (raw_checkpoints (li_action i) (li_surfaces i))" using raw assms(2) by (metis length_map)
  from raw_checkpoints_ordered [OF intent_valid_facts(1) [OF assms(1)] this] show ?thesis
    using assms(2) by (simp add: raw [symmetric] take_map)
qed

definition witness_lifecycle_externals :: "(unit, unit) lifecycle_externals" where
  "witness_lifecycle_externals =
     \<lparr>version_parse = \<lambda>_. None, version_string = \<lambda>_. [], version_le = \<lambda>_ _. True, req_parse = \<lambda>_. None,
      req_string = \<lambda>_. [], req_matches = \<lambda>_ _. True, url_parse = \<lambda>_. None, sha256_hex = \<lambda>s. s,
      intent_json = \<lambda>_. Some ''intent''\<rparr>"

definition witness_digest :: string where
  "witness_digest = ''sha256:'' @ replicate 64 (CHR ''0'')"

definition witness_spec :: "PluginLifecycleAction \<Rightarrow> PluginLifecycleIntentSpec" where
  "witness_spec action =
     \<lparr>is_operation_id = ''op'', is_plan_digest = witness_digest,
      is_scope = \<lparr>inst_kind = User, inst_id = ''u''\<rparr>, is_package_id = ''acme/a'',
      is_package_digest = witness_digest, is_manifest_digest = witness_digest, is_generation = 7,
      is_action = action, is_retained_ui_state_surfaces = []\<rparr>"

definition witness_manifest :: "ManifestPluginSurface list" where
  "witness_manifest =
     [\<lparr>ms_surface = SurfaceRef KTool ''t'', ms_activation = Lazy, ms_optional = False, ms_dependencies = []\<rparr>,
      \<lparr>ms_surface = SurfaceRef KSkill ''s'', ms_activation = Lazy, ms_optional = True,
       ms_dependencies = [SurfaceRef KTool ''t'']\<rparr>]"

definition witness_intent :: "PluginLifecycleAction \<Rightarrow> PluginLifecycleIntent" where
  "witness_intent action =
     projr (PluginLifecycleIntent_from_manifest witness_lifecycle_externals (witness_spec action)
       ''acme/a'' (Inr witness_manifest))"

theorem lifecycle_surfaces_exact_witness:
  "\<exists>out. lifecycle_surfaces witness_manifest [SurfaceRef KSkill ''s'', SurfaceRef KTool ''t''] = Inr out \<and>
     ls_surface ` set out = {SurfaceRef KSkill ''s'', SurfaceRef KTool ''t''}"
proof -
  have "is_ok (lifecycle_surfaces witness_manifest [SurfaceRef KSkill ''s'', SurfaceRef KTool ''t''])"
    by code_simp
  then obtain out where
    out: "lifecycle_surfaces witness_manifest [SurfaceRef KSkill ''s'', SurfaceRef KTool ''t''] = Inr out"
    by (auto simp: is_ok_iff)
  then have "ls_surface ` set out = set [SurfaceRef KSkill ''s'', SurfaceRef KTool ''t'']"
    using lifecycle_surfaces_exact [of witness_manifest "[SurfaceRef KSkill ''s'', SurfaceRef KTool ''t'']"] by blast
  with out show ?thesis by simp
qed

lemma witness_intent_valid:
  "PluginLifecycleIntent_validate witness_lifecycle_externals (witness_intent LInstall) = Inr ()"
  by code_simp

lemma witness_intent_parts:
  "(li_action (witness_intent LInstall), li_scope (witness_intent LInstall), li_package_id (witness_intent LInstall), map ls_surface (li_surfaces (witness_intent LInstall)),
    map ls_required (li_surfaces (witness_intent LInstall))) =
   (LInstall, \<lparr>inst_kind = User, inst_id = ''u''\<rparr>, ''acme/a'', [SurfaceRef KTool ''t'', SurfaceRef KSkill ''s''],
    [True, False])"
  by code_simp

lemma witness_intent_raw:
  "map raw_of (li_checkpoints (witness_intent LInstall)) =
     [(PackageCommitted, None, True), (SurfacePrepared, Some (SurfaceRef KTool ''t''), True),
      (SurfacePrepared, Some (SurfaceRef KSkill ''s''), False), (CapabilityPublished, None, True)]"
proof -
  have "map (\<lambda>s. (SurfacePrepared, Some (ls_surface s), ls_required s)) ss =
      map2 (\<lambda>r q. (SurfacePrepared, Some r, q)) (map ls_surface ss) (map ls_required ss)"
    for ss :: "PluginLifecycleSurface list"
    by (induction ss) auto
  then show ?thesis
    using witness_intent_parts unfolding intent_valid_facts(3) [OF witness_intent_valid]
    by (simp add: raw_checkpoints_def)
qed

lemma witness_intent_checkpoints: "length (li_checkpoints (witness_intent LInstall)) = 4"
  using arg_cong [OF witness_intent_raw, of length] by simp

theorem checkpoints_dependency_order_witness:
  "ordered_step LInstall (li_surfaces (witness_intent LInstall))
     (map raw_of (take 2 (li_checkpoints (witness_intent LInstall))))
     (SurfacePrepared, Some (SurfaceRef KSkill ''s''), False)"
proof -
  have bound: "2 < length (li_checkpoints (witness_intent LInstall))" by (simp add: witness_intent_checkpoints)
  have "raw_of (li_checkpoints (witness_intent LInstall) ! 2) =
      map raw_of (li_checkpoints (witness_intent LInstall)) ! 2" using bound by simp
  with checkpoints_dependency_order [OF witness_intent_valid bound] witness_intent_parts
  show ?thesis by (simp add: witness_intent_raw)
qed

text \<open>
  C26: the byte string hashed into an idempotency key determines the whole identity of the checkpoint:
  two checkpoints of valid intents share it only when they agree on operation, plan, installation,
  package, generation, action, sequence number, kind and surface.
\<close>

theorem checkpoint_identity_determines:
  assumes "PluginLifecycleIntent_validate X a = Inr ()" and "PluginLifecycleIntent_validate X b = Inr ()"
    and "checkpoint_identity (intent_domain a) m k s = checkpoint_identity (intent_domain b) n l t"
  shows "(li_operation_id a, li_plan_digest a, li_scope a, li_package_id a, li_generation a, li_action a, m, k, s) =
    (li_operation_id b, li_plan_digest b, li_scope b, li_package_id b, li_generation b, li_action b, n, l, t)"
  using assms(3) unfolding checkpoint_identity_inject [OF assms(1,2)] .

theorem checkpoint_identity_determines_witness:
  "checkpoint_identity (intent_domain (witness_intent LInstall)) 1 PackageCommitted None \<noteq>
   checkpoint_identity (intent_domain (witness_intent LInstall)) 2 PackageCommitted None"
  using checkpoint_identity_determines [OF witness_intent_valid witness_intent_valid,
      of 1 PackageCommitted None 2 PackageCommitted None]
  by auto

end
