(* ===== verification/Machine.thy ===== *)
theory Machine
  imports Main
begin

text \<open>
  State machines shared by the stateful components: reachability from the initial states, and two
  interfaces. A component that provides an inductive invariant gets the invariant on every reachable
  state and along every run; one whose states outside a final set can always move closer to it gets
  that no reachable state is stuck.
\<close>

inductive machine_reachable :: "('s \<Rightarrow> bool) \<Rightarrow> ('s \<Rightarrow> 's \<Rightarrow> bool) \<Rightarrow> 's \<Rightarrow> bool"
  for init :: "'s \<Rightarrow> bool" and step :: "'s \<Rightarrow> 's \<Rightarrow> bool" where
  start: "init s \<Longrightarrow> machine_reachable init step s"
| move: "machine_reachable init step s \<Longrightarrow> step s t \<Longrightarrow> machine_reachable init step t"

lemma machine_reachable_run:
  "step\<^sup>*\<^sup>* s t \<Longrightarrow> machine_reachable init step s \<Longrightarrow> machine_reachable init step t"
  by (induction rule: rtranclp_induct) (auto intro: machine_reachable.move)

locale invariant_machine =
  fixes init :: "'s \<Rightarrow> bool" and step :: "'s \<Rightarrow> 's \<Rightarrow> bool" and inv :: "'s \<Rightarrow> bool"
  assumes init_inv: "init s \<Longrightarrow> inv s"
    and step_inv: "inv s \<Longrightarrow> step s t \<Longrightarrow> inv t"
begin

lemma reachable_inv: "machine_reachable init step s \<Longrightarrow> inv s"
  by (induction rule: machine_reachable.induct) (auto intro: init_inv step_inv)

lemma run_inv: "step\<^sup>*\<^sup>* s t \<Longrightarrow> inv s \<Longrightarrow> inv t"
  by (induction rule: rtranclp_induct) (auto intro: step_inv)

end

locale progress_machine = invariant_machine +
  fixes final :: "'s \<Rightarrow> bool" and distance :: "'s \<Rightarrow> nat"
  assumes progress: "inv s \<Longrightarrow> \<not> final s \<Longrightarrow> \<exists>t. step s t \<and> distance t < distance s"
begin

lemma run_to_final:
  assumes "inv s"
  shows "\<exists>t. step\<^sup>*\<^sup>* s t \<and> final t"
  using assms
proof (induction "distance s" arbitrary: s rule: less_induct)
  case less
  show ?case
  proof (cases "final s")
    case False
    from progress [OF less.prems False] obtain u where u: "step s u" "distance u < distance s" by blast
    from less.hyps [OF u(2) step_inv [OF less.prems u(1)]] u(1) show ?thesis
      by (blast intro: converse_rtranclp_into_rtranclp)
  qed blast
qed

lemma reachable_to_final: "machine_reachable init step s \<Longrightarrow> \<exists>t. step\<^sup>*\<^sup>* s t \<and> final t"
  by (intro run_to_final reachable_inv)

end

end
