(* ===== verification/Lifecycle_Journal.thy ===== *)
theory Lifecycle_Journal
  imports Lifecycle Machine
begin

text \<open>
  The durable operation record of \<open>src/plugin_lifecycle/journal.rs\<close> and the per-package journal of
  \<open>src/plugin_lifecycle/store.rs\<close>.

  A \<open>&mut self\<close> method that returns \<open>UseResult<bool>\<close> is a function from the record to an error or the
  new record with the returned flag; the source replaces the record only on success, so an error leaves
  it unchanged. The steps of a record form the inductive relation \<open>journal_step\<close>. The store keeps the
  files \<open>active.json\<close> and \<open>last.json\<close> of each package directory as byte strings; the JSON codec of the
  record is external. Every store operation runs under the exclusive lock of its directory and replaces
  a file by an atomic rename, so it is one step of the model; failing system calls are not modelled.
\<close>

section \<open>Data\<close>

datatype PluginLifecycleOperationStatus = Applying | RollingBack | Completed | RolledBack

datatype PluginLifecycleCheckpointOutcome = Applied | OptionalFailed

record PluginLifecycleCheckpointReceipt =
  cp_sequence :: u32
  cp_idempotency_key :: string
  cp_outcome :: PluginLifecycleCheckpointOutcome
  cp_evidence_digest :: string
  cp_error_code :: "string option"
  cp_completed_at_ms :: u64

record PluginLifecycleFailure =
  lf_sequence :: u32
  lf_idempotency_key :: string
  lf_error_code :: string
  lf_evidence_digest :: string
  lf_failed_at_ms :: u64

record PluginLifecycleOperationRecord =
  op_schema :: string
  op_intent :: PluginLifecycleIntent
  op_intent_digest :: string
  op_status :: PluginLifecycleOperationStatus
  op_receipts :: "PluginLifecycleCheckpointReceipt list"
  op_last_failure :: "PluginLifecycleFailure option"
  op_rollback_evidence_digest :: "string option"
  op_completed_at_ms :: "u64 option"

definition PLUGIN_LIFECYCLE_OPERATION_SCHEMA :: string where
  "PLUGIN_LIFECYCLE_OPERATION_SCHEMA = ''a3s.use.plugin-lifecycle-operation.v3''"

definition valid_error_code :: "string \<Rightarrow> bool" where
  "valid_error_code value =
     (value \<noteq> [] \<and> length value \<le> 128 \<and> first_byte is_ascii_lowercase value \<and>
      (\<forall>c \<in> set value. is_ascii_lowercase c \<or> is_ascii_digit c \<or> c \<in> set ''._-''))"

section \<open>Validation\<close>

definition next_checkpoint :: "PluginLifecycleOperationRecord \<Rightarrow> PluginLifecycleCheckpoint option" where
  "next_checkpoint self =
     (let index = length (op_receipts self); cs = li_checkpoints (op_intent self) in
      if index < length cs then Some (cs ! index) else None)"

text \<open>One iteration of the receipt loop, the state being \<open>previous_time\<close>.\<close>

definition validate_receipt ::
  "u64 \<Rightarrow> PluginLifecycleCheckpointReceipt \<times> PluginLifecycleCheckpoint \<Rightarrow> u64 use_result" where
  "validate_receipt previous_time = (\<lambda>(receipt, checkpoint).
     if cp_sequence receipt \<noteq> ck_sequence checkpoint
        \<or> cp_idempotency_key receipt \<noteq> ck_idempotency_key checkpoint
        \<or> \<not> valid_sha256 (cp_evidence_digest receipt)
        \<or> cp_completed_at_ms receipt = 0
        \<or> cp_completed_at_ms receipt < previous_time
     then Inl LifecycleOperationInvalid
     else if (case (cp_outcome receipt, ck_required checkpoint, cp_error_code receipt) of
           (Applied, _, None) \<Rightarrow> True
         | (OptionalFailed, False, Some code) \<Rightarrow> valid_error_code code
         | _ \<Rightarrow> False)
     then Inr (cp_completed_at_ms receipt)
     else Inl LifecycleOperationInvalid)"

definition validate_failure ::
  "PluginLifecycleOperationRecord \<Rightarrow> u64 \<Rightarrow> PluginLifecycleFailure \<Rightarrow> unit use_result" where
  "validate_failure self previous_time failure =
     and_then (ok_or LifecycleOperationInvalid (next_checkpoint self)) (\<lambda>checkpoint.
       if op_status self \<notin> {Applying, RollingBack, RolledBack}
          \<or> lf_sequence failure \<noteq> ck_sequence checkpoint
          \<or> lf_idempotency_key failure \<noteq> ck_idempotency_key checkpoint
          \<or> \<not> valid_error_code (lf_error_code failure)
          \<or> \<not> valid_sha256 (lf_evidence_digest failure)
          \<or> lf_failed_at_ms failure = 0
          \<or> lf_failed_at_ms failure < previous_time
       then Inl LifecycleOperationInvalid else Inr ())"

definition status_consistent :: "PluginLifecycleOperationRecord \<Rightarrow> u64 \<Rightarrow> bool" where
  "status_consistent self previous_time =
     (case op_status self of
        Applying \<Rightarrow> op_completed_at_ms self = None \<and> op_rollback_evidence_digest self = None
      | RollingBack \<Rightarrow> op_completed_at_ms self = None \<and> op_rollback_evidence_digest self = None
      | Completed \<Rightarrow> length (op_receipts self) = length (li_checkpoints (op_intent self))
          \<and> op_last_failure self = None \<and> op_rollback_evidence_digest self = None
          \<and> is_some_and (\<lambda>time. time \<ge> previous_time \<and> time > 0) (op_completed_at_ms self)
      | RolledBack \<Rightarrow> length (op_receipts self) < length (li_checkpoints (op_intent self))
          \<and> is_some_and valid_sha256 (op_rollback_evidence_digest self)
          \<and> is_some_and (\<lambda>time. time \<ge> previous_time
               \<and> time \<ge> (case op_last_failure self of None \<Rightarrow> 0 | Some failure \<Rightarrow> lf_failed_at_ms failure)
               \<and> time > 0) (op_completed_at_ms self))"

definition PluginLifecycleOperationRecord_validate ::
  "('v, 'r, 'x) lifecycle_externals_scheme \<Rightarrow> PluginLifecycleOperationRecord \<Rightarrow> unit use_result" where
  "PluginLifecycleOperationRecord_validate X self =
     and_then (PluginLifecycleIntent_validate X (op_intent self)) (\<lambda>_.
     if op_schema self \<noteq> PLUGIN_LIFECYCLE_OPERATION_SCHEMA then Inl LifecycleOperationInvalid
     else
     and_then (PluginLifecycleIntent_descriptor_digest X (op_intent self)) (\<lambda>digest.
     if op_intent_digest self \<noteq> digest
        \<or> length (op_receipts self) > length (li_checkpoints (op_intent self))
     then Inl LifecycleOperationInvalid
     else
     and_then (fold_result validate_receipt 0
       (zip (op_receipts self) (li_checkpoints (op_intent self)))) (\<lambda>previous_time.
     and_then (case op_last_failure self of
         None \<Rightarrow> Inr () | Some failure \<Rightarrow> validate_failure self previous_time failure) (\<lambda>_.
     if status_consistent self previous_time then Inr () else Inl LifecycleOperationInvalid))))"

section \<open>Operations\<close>

definition PluginLifecycleOperationRecord_new ::
  "('v, 'r, 'x) lifecycle_externals_scheme \<Rightarrow> PluginLifecycleIntent
     \<Rightarrow> PluginLifecycleOperationRecord use_result" where
  "PluginLifecycleOperationRecord_new X intent =
     and_then (PluginLifecycleIntent_validate X intent) (\<lambda>_.
     and_then (PluginLifecycleIntent_descriptor_digest X intent) (\<lambda>digest.
     let rec = \<lparr>op_schema = PLUGIN_LIFECYCLE_OPERATION_SCHEMA, op_intent = intent,
           op_intent_digest = digest, op_status = Applying, op_receipts = [], op_last_failure = None,
           op_rollback_evidence_digest = None, op_completed_at_ms = None\<rparr>
     in and_then (PluginLifecycleOperationRecord_validate X rec) (\<lambda>_. Inr rec)))"

definition record_checkpoint ::
  "('v, 'r, 'x) lifecycle_externals_scheme \<Rightarrow> string \<Rightarrow> PluginLifecycleCheckpointOutcome \<Rightarrow> string
     \<Rightarrow> string option \<Rightarrow> u64 \<Rightarrow> PluginLifecycleOperationRecord
     \<Rightarrow> (PluginLifecycleOperationRecord \<times> bool) use_result" where
  "record_checkpoint X key outcome evidence code completed_at self =
     and_then (PluginLifecycleOperationRecord_validate X self) (\<lambda>_.
     if op_status self \<noteq> Applying then Inl LifecycleOperationConflict
     else
       case List.find (\<lambda>receipt. cp_idempotency_key receipt = key) (op_receipts self) of
         Some receipt \<Rightarrow>
           if cp_outcome receipt = outcome \<and> cp_evidence_digest receipt = evidence
              \<and> cp_error_code receipt = code
           then Inr (self, False) else Inl LifecycleOperationConflict
       | None \<Rightarrow>
           and_then (ok_or LifecycleOperationConflict (next_checkpoint self)) (\<lambda>checkpoint.
           if ck_idempotency_key checkpoint \<noteq> key then Inl LifecycleOperationConflict
           else
             (let candidate = self\<lparr>
                op_receipts := op_receipts self @
                  [\<lparr>cp_sequence = ck_sequence checkpoint, cp_idempotency_key = ck_idempotency_key checkpoint,
                    cp_outcome = outcome, cp_evidence_digest = evidence, cp_error_code = code,
                    cp_completed_at_ms = completed_at\<rparr>],
                op_last_failure := None\<rparr>
              in and_then (PluginLifecycleOperationRecord_validate X candidate) (\<lambda>_. Inr (candidate, True)))))"

definition record_failure ::
  "('v, 'r, 'x) lifecycle_externals_scheme \<Rightarrow> string \<Rightarrow> string \<Rightarrow> string \<Rightarrow> u64
     \<Rightarrow> PluginLifecycleOperationRecord \<Rightarrow> PluginLifecycleOperationRecord use_result" where
  "record_failure X key code evidence failed_at self =
     and_then (PluginLifecycleOperationRecord_validate X self) (\<lambda>_.
     if op_status self \<noteq> Applying then Inl LifecycleOperationConflict
     else
       and_then (ok_or LifecycleOperationConflict (next_checkpoint self)) (\<lambda>checkpoint.
       if ck_idempotency_key checkpoint \<noteq> key then Inl LifecycleOperationConflict
       else
         (let candidate = self\<lparr>op_last_failure := Some
            \<lparr>lf_sequence = ck_sequence checkpoint, lf_idempotency_key = ck_idempotency_key checkpoint,
             lf_error_code = code, lf_evidence_digest = evidence, lf_failed_at_ms = failed_at\<rparr>\<rparr>
          in and_then (PluginLifecycleOperationRecord_validate X candidate) (\<lambda>_. Inr candidate))))"

definition complete ::
  "('v, 'r, 'x) lifecycle_externals_scheme \<Rightarrow> u64 \<Rightarrow> PluginLifecycleOperationRecord
     \<Rightarrow> (PluginLifecycleOperationRecord \<times> bool) use_result" where
  "complete X completed_at self =
     and_then (PluginLifecycleOperationRecord_validate X self) (\<lambda>_.
     if op_status self = Completed then Inr (self, False)
     else if op_status self \<noteq> Applying \<or> next_checkpoint self \<noteq> None \<or> op_last_failure self \<noteq> None
     then Inl LifecycleOperationConflict
     else
       (let candidate = self\<lparr>op_status := Completed, op_completed_at_ms := Some completed_at\<rparr>
        in and_then (PluginLifecycleOperationRecord_validate X candidate) (\<lambda>_. Inr (candidate, True))))"

definition start_rollback ::
  "('v, 'r, 'x) lifecycle_externals_scheme \<Rightarrow> PluginLifecycleOperationRecord
     \<Rightarrow> (PluginLifecycleOperationRecord \<times> bool) use_result" where
  "start_rollback X self =
     and_then (PluginLifecycleOperationRecord_validate X self) (\<lambda>_.
     if op_status self = RollingBack then Inr (self, False)
     else if op_status self \<noteq> Applying
        \<or> length (op_receipts self) = length (li_checkpoints (op_intent self))
     then Inl LifecycleOperationConflict
     else
       (let candidate = self\<lparr>op_status := RollingBack\<rparr>
        in and_then (PluginLifecycleOperationRecord_validate X candidate) (\<lambda>_. Inr (candidate, True))))"

definition roll_back ::
  "('v, 'r, 'x) lifecycle_externals_scheme \<Rightarrow> string \<Rightarrow> u64 \<Rightarrow> PluginLifecycleOperationRecord
     \<Rightarrow> (PluginLifecycleOperationRecord \<times> bool) use_result" where
  "roll_back X evidence completed_at self =
     and_then (PluginLifecycleOperationRecord_validate X self) (\<lambda>_.
     if op_status self = RolledBack then
       (if op_rollback_evidence_digest self = Some evidence then Inr (self, False)
        else Inl LifecycleOperationConflict)
     else if op_status self \<noteq> RollingBack
        \<or> length (op_receipts self) = length (li_checkpoints (op_intent self))
        \<or> \<not> valid_sha256 evidence
     then Inl LifecycleOperationConflict
     else
       (let candidate = self\<lparr>op_status := RolledBack, op_rollback_evidence_digest := Some evidence,
            op_completed_at_ms := Some completed_at\<rparr>
        in and_then (PluginLifecycleOperationRecord_validate X candidate) (\<lambda>_. Inr (candidate, True))))"

section \<open>The journal store\<close>

record ('v, 'r) store_externals = "('v, 'r) lifecycle_externals" +
  record_to_json :: "PluginLifecycleOperationRecord \<Rightarrow> string option"
  record_from_json :: "string \<Rightarrow> PluginLifecycleOperationRecord option"

definition MAX_OPERATION_BYTES :: nat where
  "MAX_OPERATION_BYTES = 1024 * 1024"

record package_files =
  pf_active :: "string option"
  pf_last :: "string option"

type_synonym directory = "string list"

record PluginLifecycleJournalStore =
  js_installation :: InstallationId
  js_root :: directory
  js_files :: "directory \<Rightarrow> package_files"

definition package_directory ::
  "('v, 'r, 'x) externals_scheme \<Rightarrow> PluginLifecycleJournalStore \<Rightarrow> InstallationId \<Rightarrow> string
     \<Rightarrow> directory use_result" where
  "package_directory X self scope package_id =
     and_then (InstallationId_ensure_same (js_installation self) scope) (\<lambda>_.
     if \<not> is_ok (InstallationId_validate scope) then Inl LifecyclePathInvalid
     else
     and_then (PluginPackageId_parse package_id) (\<lambda>package_id.
     and_then (ok_or LifecyclePathInvalid (split_once (CHR ''/'') package_id)) (\<lambda>(publisher, package).
     and_then (map_err (\<lambda>_. LifecyclePathInvalid) (InstallationId_storage_key X scope)) (\<lambda>scope_digest.
       Inr (js_root self @ [InstallationKind_as_str (inst_kind scope), scope_digest, publisher, package])))))"

definition read_optional_record ::
  "('v, 'r, 'x) store_externals_scheme \<Rightarrow> string option \<Rightarrow> PluginLifecycleOperationRecord option use_result" where
  "read_optional_record X file =
     (case file of
        None \<Rightarrow> Inr None
      | Some bytes \<Rightarrow>
          if bytes = [] \<or> length bytes > MAX_OPERATION_BYTES then Inl LifecycleRecordInvalid
          else
            and_then (ok_or LifecycleRecordInvalid (record_from_json X bytes)) (\<lambda>rec.
            and_then (map_err (\<lambda>_. LifecycleRecordInvalid) (PluginLifecycleOperationRecord_validate X rec))
              (\<lambda>_. Inr (Some rec))))"

text \<open>The bytes \<open>write_record\<close> puts in place of the file.\<close>

definition write_record ::
  "('v, 'r, 'x) store_externals_scheme \<Rightarrow> PluginLifecycleOperationRecord \<Rightarrow> string use_result" where
  "write_record X rec =
     and_then (PluginLifecycleOperationRecord_validate X rec) (\<lambda>_.
     and_then (ok_or LifecycleRecordInvalid (record_to_json X rec)) (\<lambda>bytes.
     if bytes = [] \<or> length bytes > MAX_OPERATION_BYTES then Inl LifecycleRecordInvalid else Inr bytes))"

definition validate_record_ownership ::
  "PluginLifecycleOperationRecord \<Rightarrow> InstallationId \<Rightarrow> string \<Rightarrow> unit use_result" where
  "validate_record_ownership rec scope package_id =
     (if li_scope (op_intent rec) \<noteq> scope \<or> li_package_id (op_intent rec) \<noteq> package_id
      then Inl LifecycleOwnershipMismatch else Inr ())"

definition put_active :: "directory \<Rightarrow> string \<Rightarrow> PluginLifecycleJournalStore \<Rightarrow> PluginLifecycleJournalStore" where
  "put_active directory bytes self =
     self\<lparr>js_files := (js_files self)(directory := (js_files self directory)\<lparr>pf_active := Some bytes\<rparr>)\<rparr>"

definition put_last :: "directory \<Rightarrow> string \<Rightarrow> PluginLifecycleJournalStore \<Rightarrow> PluginLifecycleJournalStore" where
  "put_last directory bytes self =
     self\<lparr>js_files := (js_files self)(directory := (js_files self directory)\<lparr>pf_last := Some bytes\<rparr>)\<rparr>"

text \<open>
  A store operation returns the store it leaves behind with its result: \<open>begin\<close> may already have
  replaced \<open>last.json\<close> when creating the new record fails.
\<close>

type_synonym 'a stored = "PluginLifecycleJournalStore \<times> 'a use_result"

definition start_record ::
  "('v, 'r, 'x) store_externals_scheme \<Rightarrow> directory \<Rightarrow> PluginLifecycleIntent \<Rightarrow> PluginLifecycleJournalStore
     \<Rightarrow> PluginLifecycleOperationRecord stored" where
  "start_record X directory intent self =
     (case PluginLifecycleOperationRecord_new X intent of
        Inl e \<Rightarrow> (self, Inl e)
      | Inr rec \<Rightarrow>
          (case write_record X rec of
             Inl e \<Rightarrow> (self, Inl e)
           | Inr bytes \<Rightarrow> (put_active directory bytes self, Inr rec)))"

definition store_begin ::
  "('v, 'r, 'x) store_externals_scheme \<Rightarrow> PluginLifecycleIntent \<Rightarrow> PluginLifecycleJournalStore
     \<Rightarrow> PluginLifecycleOperationRecord stored" where
  "store_begin X intent self =
     (case and_then (PluginLifecycleIntent_validate X intent) (\<lambda>_.
        package_directory X self (li_scope intent) (li_package_id intent)) of
        Inl e \<Rightarrow> (self, Inl e)
      | Inr directory \<Rightarrow>
          (case read_optional_record X (pf_active (js_files self directory)) of
             Inl e \<Rightarrow> (self, Inl e)
           | Inr None \<Rightarrow> start_record X directory intent self
           | Inr (Some current) \<Rightarrow>
               (case validate_record_ownership current (li_scope intent) (li_package_id intent) of
                  Inl e \<Rightarrow> (self, Inl e)
                | Inr _ \<Rightarrow>
                    if op_intent current = intent then (self, Inr current)
                    else if op_status current \<in> {Applying, RollingBack} then (self, Inl LifecycleBusy)
                    else
                      (case write_record X current of
                         Inl e \<Rightarrow> (self, Inl e)
                       | Inr bytes \<Rightarrow> start_record X directory intent (put_last directory bytes self)))))"

definition store_update ::
  "('v, 'r, 'x) store_externals_scheme \<Rightarrow> PluginLifecycleIntent
     \<Rightarrow> (PluginLifecycleOperationRecord \<Rightarrow> PluginLifecycleOperationRecord use_result)
     \<Rightarrow> PluginLifecycleJournalStore \<Rightarrow> PluginLifecycleOperationRecord stored" where
  "store_update X intent update self =
     (case and_then (PluginLifecycleIntent_validate X intent) (\<lambda>_.
        and_then (package_directory X self (li_scope intent) (li_package_id intent)) (\<lambda>directory.
        and_then (read_optional_record X (pf_active (js_files self directory))) (\<lambda>file.
        and_then (ok_or LifecycleOperationMissing file) (\<lambda>rec.
        and_then (validate_record_ownership rec (li_scope intent) (li_package_id intent)) (\<lambda>_.
        if op_intent rec \<noteq> intent then Inl LifecycleOperationConflict
        else
          and_then (update rec) (\<lambda>rec.
          and_then (PluginLifecycleOperationRecord_validate X rec) (\<lambda>_.
          and_then (write_record X rec) (\<lambda>bytes. Inr (directory, bytes, rec))))))))) of
        Inl e \<Rightarrow> (self, Inl e)
      | Inr (directory, bytes, rec) \<Rightarrow> (put_active directory bytes self, Inr rec))"

definition store_record_checkpoint ::
  "('v, 'r, 'x) store_externals_scheme \<Rightarrow> PluginLifecycleIntent \<Rightarrow> string
     \<Rightarrow> PluginLifecycleCheckpointOutcome \<Rightarrow> string \<Rightarrow> string option \<Rightarrow> u64 \<Rightarrow> PluginLifecycleJournalStore
     \<Rightarrow> PluginLifecycleOperationRecord stored" where
  "store_record_checkpoint X intent key outcome evidence code completed_at =
     store_update X intent (\<lambda>rec.
       and_then (record_checkpoint X key outcome evidence code completed_at rec) (\<lambda>(rec, _). Inr rec))"

definition store_record_failure ::
  "('v, 'r, 'x) store_externals_scheme \<Rightarrow> PluginLifecycleIntent \<Rightarrow> string \<Rightarrow> string \<Rightarrow> string \<Rightarrow> u64
     \<Rightarrow> PluginLifecycleJournalStore \<Rightarrow> PluginLifecycleOperationRecord stored" where
  "store_record_failure X intent key code evidence failed_at =
     store_update X intent (record_failure X key code evidence failed_at)"

definition store_complete ::
  "('v, 'r, 'x) store_externals_scheme \<Rightarrow> PluginLifecycleIntent \<Rightarrow> u64 \<Rightarrow> PluginLifecycleJournalStore
     \<Rightarrow> PluginLifecycleOperationRecord stored" where
  "store_complete X intent completed_at =
     store_update X intent (\<lambda>rec. and_then (complete X completed_at rec) (\<lambda>(rec, _). Inr rec))"

definition store_roll_back ::
  "('v, 'r, 'x) store_externals_scheme \<Rightarrow> PluginLifecycleIntent \<Rightarrow> string \<Rightarrow> u64
     \<Rightarrow> PluginLifecycleJournalStore \<Rightarrow> PluginLifecycleOperationRecord stored" where
  "store_roll_back X intent evidence completed_at =
     store_update X intent (\<lambda>rec. and_then (roll_back X evidence completed_at rec) (\<lambda>(rec, _). Inr rec))"

definition store_start_rollback ::
  "('v, 'r, 'x) store_externals_scheme \<Rightarrow> PluginLifecycleIntent \<Rightarrow> PluginLifecycleJournalStore
     \<Rightarrow> PluginLifecycleOperationRecord stored" where
  "store_start_rollback X intent =
     store_update X intent (\<lambda>rec. and_then (start_rollback X rec) (\<lambda>(rec, _). Inr rec))"

definition store_load_active ::
  "('v, 'r, 'x) store_externals_scheme \<Rightarrow> InstallationId \<Rightarrow> string \<Rightarrow> PluginLifecycleJournalStore
     \<Rightarrow> PluginLifecycleOperationRecord option use_result" where
  "store_load_active X scope package_id self =
     and_then (package_directory X self scope package_id) (\<lambda>directory.
     and_then (read_optional_record X (pf_active (js_files self directory))) (\<lambda>file.
     and_then (case file of None \<Rightarrow> Inr () | Some rec \<Rightarrow> validate_record_ownership rec scope package_id) (\<lambda>_.
       Inr file)))"

definition store_load_last ::
  "('v, 'r, 'x) store_externals_scheme \<Rightarrow> InstallationId \<Rightarrow> string \<Rightarrow> PluginLifecycleJournalStore
     \<Rightarrow> PluginLifecycleOperationRecord option use_result" where
  "store_load_last X scope package_id self =
     and_then (package_directory X self scope package_id) (\<lambda>directory.
     and_then (read_optional_record X (pf_last (js_files self directory))) (\<lambda>file.
     and_then (case file of None \<Rightarrow> Inr () | Some rec \<Rightarrow> validate_record_ownership rec scope package_id) (\<lambda>_.
       Inr file)))"

section \<open>Lemmas: valid records\<close>

lemma fold_result_append:
  "fold_result f s (xs @ ys) = and_then (fold_result f s xs) (\<lambda>s'. fold_result f s' ys)"
  by (induction xs arbitrary: s) (auto split: sum.splits simp: and_then_def)

lemma find_append:
  "List.find P (xs @ ys) = (case List.find P xs of None \<Rightarrow> List.find P ys | Some x \<Rightarrow> Some x)"
  by (induction xs) auto

definition outcome_allowed ::
  "PluginLifecycleCheckpointReceipt \<Rightarrow> PluginLifecycleCheckpoint \<Rightarrow> bool" where
  "outcome_allowed r c \<longleftrightarrow>
     cp_outcome r = Applied \<and> cp_error_code r = None \<or>
     cp_outcome r = OptionalFailed \<and> \<not> ck_required c \<and> (\<exists>code. cp_error_code r = Some code \<and> valid_error_code code)"

definition receipt_matches ::
  "PluginLifecycleCheckpointReceipt \<Rightarrow> PluginLifecycleCheckpoint \<Rightarrow> bool" where
  "receipt_matches r c \<longleftrightarrow> cp_sequence r = ck_sequence c \<and> cp_idempotency_key r = ck_idempotency_key c \<and>
     valid_sha256 (cp_evidence_digest r) \<and> cp_completed_at_ms r \<noteq> 0 \<and> outcome_allowed r c"

lemma validate_receipt_Inr:
  "validate_receipt t (r, c) = Inr t' \<longleftrightarrow>
     receipt_matches r c \<and> t \<le> cp_completed_at_ms r \<and> t' = cp_completed_at_ms r"
  unfolding validate_receipt_def receipt_matches_def outcome_allowed_def
  by (auto simp: not_less split: option.splits PluginLifecycleCheckpointOutcome.splits bool.splits if_splits)

definition last_time :: "PluginLifecycleCheckpointReceipt list \<Rightarrow> u64" where
  "last_time rs = (if rs = [] then 0 else cp_completed_at_ms (last rs))"

definition receipts_ok ::
  "PluginLifecycleCheckpointReceipt list \<Rightarrow> PluginLifecycleCheckpoint list \<Rightarrow> bool" where
  "receipts_ok rs cs \<longleftrightarrow> length rs \<le> length cs \<and> (\<forall>n < length rs. receipt_matches (rs ! n) (cs ! n)) \<and>
     sorted (map cp_completed_at_ms rs)"

lemma receipts_snoc:
  "length rs < length cs \<Longrightarrow> zip (rs @ [r]) cs = zip rs cs @ [(r, cs ! length rs)]"
proof -
  assume "length rs < length cs"
  then have "cs = take (length rs) cs @ cs ! length rs # drop (Suc (length rs)) cs"
    by (rule id_take_nth_drop)
  then have "zip (rs @ [r]) cs = zip (rs @ [r]) (take (length rs) cs @ cs ! length rs # drop (Suc (length rs)) cs)"
    by simp
  also have "\<dots> = zip rs (take (length rs) cs) @ [(r, cs ! length rs)]"
    using \<open>length rs < length cs\<close> by (simp add: zip_append)
  finally show ?thesis using take_zip [of "length rs" rs cs] by simp
qed

lemma receipts_ok_snoc:
  "receipts_ok (rs @ [r]) cs \<longleftrightarrow> receipts_ok rs cs \<and> length rs < length cs \<and>
     receipt_matches r (cs ! length rs) \<and> last_time rs \<le> cp_completed_at_ms r"
proof -
  have last: "sorted (map cp_completed_at_ms (rs @ [r])) \<longleftrightarrow>
      sorted (map cp_completed_at_ms rs) \<and> last_time rs \<le> cp_completed_at_ms r"
  proof (cases rs rule: rev_cases)
    case (snoc ys y)
    then show ?thesis by (auto simp: last_time_def sorted_append)
  qed (simp add: last_time_def)
  show ?thesis
    unfolding receipts_ok_def last by (auto simp: nth_append less_Suc_eq)
qed

lemma validate_receipts_iff:
  "length rs \<le> length cs \<Longrightarrow> fold_result validate_receipt 0 (zip rs cs) = Inr t \<longleftrightarrow>
     receipts_ok rs cs \<and> t = last_time rs"
proof (induction rs arbitrary: t rule: rev_induct)
  case (snoc r rs)
  then have "length rs < length cs" by simp
  with snoc show ?case
    by (auto simp: receipts_snoc fold_result_append result_simps validate_receipt_Inr receipts_ok_snoc)
      (simp_all add: last_time_def)
qed (simp add: receipts_ok_def last_time_def)

definition failure_ok :: "PluginLifecycleOperationRecord \<Rightarrow> bool" where
  "failure_ok r \<longleftrightarrow> (\<forall>f. op_last_failure r = Some f \<longrightarrow>
     op_status r \<noteq> Completed \<and> length (op_receipts r) < length (li_checkpoints (op_intent r)) \<and>
     lf_sequence f = ck_sequence (li_checkpoints (op_intent r) ! length (op_receipts r)) \<and>
     lf_idempotency_key f = ck_idempotency_key (li_checkpoints (op_intent r) ! length (op_receipts r)) \<and>
     valid_error_code (lf_error_code f) \<and> valid_sha256 (lf_evidence_digest f) \<and>
     lf_failed_at_ms f \<noteq> 0 \<and> last_time (op_receipts r) \<le> lf_failed_at_ms f)"

definition record_ok ::
  "('v, 'r, 'x) lifecycle_externals_scheme \<Rightarrow> PluginLifecycleOperationRecord \<Rightarrow> bool" where
  "record_ok X r \<longleftrightarrow> PluginLifecycleIntent_validate X (op_intent r) = Inr () \<and>
     op_schema r = PLUGIN_LIFECYCLE_OPERATION_SCHEMA \<and>
     PluginLifecycleIntent_descriptor_digest X (op_intent r) = Inr (op_intent_digest r) \<and>
     receipts_ok (op_receipts r) (li_checkpoints (op_intent r)) \<and>
     failure_ok r \<and> status_consistent r (last_time (op_receipts r))"

lemma validate_failure_iff:
  "(case op_last_failure r of None \<Rightarrow> Inr () | Some f \<Rightarrow> validate_failure r (last_time (op_receipts r)) f) = Inr () \<longleftrightarrow>
     failure_ok r"
proof -
  have status: "op_status r \<in> {Applying, RollingBack, RolledBack} \<longleftrightarrow> op_status r \<noteq> Completed"
    by (cases "op_status r") auto
  show ?thesis
    unfolding failure_ok_def validate_failure_def next_checkpoint_def status
    by (cases "op_last_failure r") (auto simp: result_simps Let_def not_less split: if_splits)
qed

lemma record_validate_iff: "PluginLifecycleOperationRecord_validate X r = Inr () \<longleftrightarrow> record_ok X r"
proof (cases "length (op_receipts r) \<le> length (li_checkpoints (op_intent r))")
  case True
  then show ?thesis
    unfolding PluginLifecycleOperationRecord_validate_def record_ok_def if_Inl_Inr and_then_Inr
      validate_receipts_iff [OF True]
    by (auto simp: validate_failure_iff not_less)
next
  case False
  then show ?thesis
    by (auto simp: PluginLifecycleOperationRecord_validate_def record_ok_def receipts_ok_def
        result_simps split: if_splits)
qed

lemma record_validateI: "record_ok X r \<Longrightarrow> PluginLifecycleOperationRecord_validate X r = Inr ()"
  by (simp add: record_validate_iff)

section \<open>Lemmas: the operations on valid records\<close>

lemma new_record:
  "PluginLifecycleOperationRecord_new X intent = Inr r \<Longrightarrow>
     record_ok X r \<and> op_intent r = intent \<and> op_status r = Applying \<and> op_receipts r = [] \<and> op_last_failure r = None"
  by (auto simp: PluginLifecycleOperationRecord_new_def result_simps Let_def record_validate_iff)

lemma new_record_total:
  assumes "PluginLifecycleIntent_validate X intent = Inr ()" "intent_json X intent = Some bytes"
  shows "\<exists>r. PluginLifecycleOperationRecord_new X intent = Inr r"
proof -
  let ?r = "\<lparr>op_schema = PLUGIN_LIFECYCLE_OPERATION_SCHEMA, op_intent = intent,
    op_intent_digest = ''sha256:'' @ sha256_hex X bytes, op_status = Applying, op_receipts = [],
    op_last_failure = None, op_rollback_evidence_digest = None, op_completed_at_ms = None\<rparr>"
  have digest: "PluginLifecycleIntent_descriptor_digest X intent = Inr (''sha256:'' @ sha256_hex X bytes)"
    using assms by (simp add: PluginLifecycleIntent_descriptor_digest_def PluginLifecycleIntent_canonical_bytes_def)
  with assms have "record_ok X ?r"
    by (simp add: record_ok_def receipts_ok_def failure_ok_def status_consistent_def)
  with assms digest have "PluginLifecycleOperationRecord_new X intent = Inr ?r"
    by (simp add: PluginLifecycleOperationRecord_new_def record_validateI Let_def)
  then show ?thesis by blast
qed

definition receipt_for ::
  "PluginLifecycleCheckpoint \<Rightarrow> PluginLifecycleCheckpointOutcome \<Rightarrow> string \<Rightarrow> string option \<Rightarrow> u64
     \<Rightarrow> PluginLifecycleCheckpointReceipt" where
  "receipt_for c outcome evidence code time =
     \<lparr>cp_sequence = ck_sequence c, cp_idempotency_key = ck_idempotency_key c, cp_outcome = outcome,
      cp_evidence_digest = evidence, cp_error_code = code, cp_completed_at_ms = time\<rparr>"

lemma record_checkpoint_cases:
  assumes "record_checkpoint X key outcome evidence code time r = Inr (r', b)"
  obtains
    (replay) receipt where "r' = r" "\<not> b" "op_status r = Applying" "record_ok X r"
      "List.find (\<lambda>receipt. cp_idempotency_key receipt = key) (op_receipts r) = Some receipt"
      "cp_outcome receipt = outcome" "cp_evidence_digest receipt = evidence" "cp_error_code receipt = code"
  | (advance) c where "b" "op_status r = Applying" "record_ok X r" "record_ok X r'"
      "List.find (\<lambda>receipt. cp_idempotency_key receipt = key) (op_receipts r) = None"
      "next_checkpoint r = Some c" "ck_idempotency_key c = key"
      "r' = r\<lparr>op_receipts := op_receipts r @ [receipt_for c outcome evidence code time], op_last_failure := None\<rparr>"
  using assms
  by (auto simp: record_checkpoint_def result_simps record_validate_iff Let_def receipt_for_def
      split: if_splits option.splits)

lemma record_failure_cases:
  assumes "record_failure X key code evidence time r = Inr r'"
  shows "op_status r = Applying \<and> record_ok X r \<and> record_ok X r' \<and>
    (\<exists>f. r' = r\<lparr>op_last_failure := Some f\<rparr>)"
  using assms by (auto simp: record_failure_def result_simps record_validate_iff Let_def split: if_splits)

lemma complete_cases:
  assumes "complete X time r = Inr (r', b)"
  shows "record_ok X r \<and> record_ok X r' \<and>
    (r' = r \<and> op_status r = Completed \<or> op_status r = Applying \<and> next_checkpoint r = None \<and>
       r' = r\<lparr>op_status := Completed, op_completed_at_ms := Some time\<rparr>)"
  using assms by (auto simp: complete_def result_simps record_validate_iff Let_def split: if_splits)

lemma start_rollback_cases:
  assumes "start_rollback X r = Inr (r', b)"
  shows "record_ok X r \<and> record_ok X r' \<and>
    (r' = r \<and> op_status r = RollingBack \<or> op_status r = Applying \<and>
       length (op_receipts r) \<noteq> length (li_checkpoints (op_intent r)) \<and> r' = r\<lparr>op_status := RollingBack\<rparr>)"
  using assms by (auto simp: start_rollback_def result_simps record_validate_iff Let_def split: if_splits)

lemma roll_back_cases:
  assumes "roll_back X evidence time r = Inr (r', b)"
  shows "record_ok X r \<and> record_ok X r' \<and>
    (r' = r \<and> op_status r = RolledBack \<or> op_status r = RollingBack \<and>
       length (op_receipts r) \<noteq> length (li_checkpoints (op_intent r)) \<and>
       r' = r\<lparr>op_status := RolledBack, op_rollback_evidence_digest := Some evidence, op_completed_at_ms := Some time\<rparr>)"
  using assms by (auto simp: roll_back_def result_simps record_validate_iff Let_def split: if_splits)

section \<open>The record as a state machine\<close>

inductive journal_step ::
  "('v, 'r, 'x) lifecycle_externals_scheme \<Rightarrow> PluginLifecycleOperationRecord
     \<Rightarrow> PluginLifecycleOperationRecord \<Rightarrow> bool"
  for X :: "('v, 'r, 'x) lifecycle_externals_scheme" where
  checkpoint: "record_checkpoint X key outcome evidence code time r = Inr (r', b) \<Longrightarrow> journal_step X r r'"
| failure: "record_failure X key code evidence time r = Inr r' \<Longrightarrow> journal_step X r r'"
| completion: "complete X time r = Inr (r', b) \<Longrightarrow> journal_step X r r'"
| rollback_start: "start_rollback X r = Inr (r', b) \<Longrightarrow> journal_step X r r'"
| rollback: "roll_back X evidence time r = Inr (r', b) \<Longrightarrow> journal_step X r r'"

inductive_cases journal_stepE: "journal_step X r s"

definition checkpoint_count :: "PluginLifecycleOperationRecord \<Rightarrow> nat" where
  "checkpoint_count r = length (li_checkpoints (op_intent r))"

definition terminal :: "PluginLifecycleOperationRecord \<Rightarrow> bool" where
  "terminal r \<longleftrightarrow> op_status r \<in> {Completed, RolledBack}"

lemma journal_step_facts:
  assumes "journal_step X r r'"
  shows "record_ok X r" "record_ok X r'" "op_intent r' = op_intent r"
    and "\<exists>new. op_receipts r' = op_receipts r @ new"
    and "op_status r \<noteq> Applying \<Longrightarrow> op_receipts r' = op_receipts r"
    and "terminal r \<Longrightarrow> r' = r"
    and "op_status r' = op_status r \<or> op_status r = Applying \<and> op_status r' \<in> {RollingBack, Completed} \<or>
      op_status r = RollingBack \<and> op_status r' = RolledBack"
    and "op_status r' \<in> {RollingBack, RolledBack} \<Longrightarrow> op_status r \<noteq> op_status r' \<Longrightarrow>
      length (op_receipts r') \<noteq> checkpoint_count r'"
  using assms
proof (atomize (full), induction rule: journal_step.induct)
  case (checkpoint key outcome evidence code time r r' b)
  then show ?case
    by (cases rule: record_checkpoint_cases) (auto simp: terminal_def)
next
  case (failure key code evidence time r r')
  from record_failure_cases [OF this] show ?case by (auto simp: terminal_def)
next
  case (completion time r r' b)
  from complete_cases [OF this] show ?case by (auto simp: terminal_def)
next
  case (rollback_start r r' b)
  from start_rollback_cases [OF this] show ?case by (auto simp: terminal_def checkpoint_count_def)
next
  case (rollback evidence time r r' b)
  from roll_back_cases [OF this] show ?case by (auto simp: terminal_def checkpoint_count_def)
qed

definition journal_inv ::
  "('v, 'r, 'x) lifecycle_externals_scheme \<Rightarrow> PluginLifecycleIntent \<Rightarrow> PluginLifecycleOperationRecord \<Rightarrow> bool" where
  "journal_inv X intent r \<longleftrightarrow> record_ok X r \<and> op_intent r = intent \<and>
     (op_status r \<in> {RollingBack, RolledBack} \<longrightarrow> length (op_receipts r) < checkpoint_count r)"

lemma record_ok_count: "record_ok X r \<Longrightarrow> length (op_receipts r) \<le> checkpoint_count r"
  by (simp add: record_ok_def receipts_ok_def checkpoint_count_def)

lemma journal_inv_step:
  assumes "journal_inv X intent r" "journal_step X r r'"
  shows "journal_inv X intent r'"
proof -
  note facts = journal_step_facts [OF assms(2)]
  have "length (op_receipts r') < checkpoint_count r'" if rolling: "op_status r' \<in> {RollingBack, RolledBack}"
  proof (cases "op_status r = op_status r'")
    case True
    with rolling facts(5) have "op_receipts r' = op_receipts r" by auto
    with True rolling assms(1) facts(3) show ?thesis by (auto simp: journal_inv_def checkpoint_count_def)
  next
    case False
    from facts(8) [OF rolling False] record_ok_count [OF facts(2)] show ?thesis by simp
  qed
  with facts assms(1) show ?thesis by (simp add: journal_inv_def)
qed

abbreviation max_time :: u64 where
  "max_time \<equiv> - 1"

lemma max_time_ge [simp]: "t \<le> max_time" "0 < max_time" "max_time \<noteq> 0"
  by (simp_all add: word_coorder.extremum word_gt_0)

lemma witness_digest_valid: "valid_sha256 witness_digest"
  by code_simp

lemma complete_progress:
  assumes "record_ok X r" "op_status r = Applying" "length (op_receipts r) = checkpoint_count r"
  shows "complete X max_time r = Inr (r\<lparr>op_status := Completed, op_completed_at_ms := Some max_time\<rparr>, True)"
proof -
  have "op_last_failure r = None"
    using assms by (cases "op_last_failure r") (auto simp: record_ok_def failure_ok_def checkpoint_count_def)
  moreover from this have "record_ok X (r\<lparr>op_status := Completed, op_completed_at_ms := Some max_time\<rparr>)"
    using assms by (auto simp: record_ok_def failure_ok_def status_consistent_def checkpoint_count_def)
  ultimately show ?thesis
    using assms by (simp add: complete_def record_validateI next_checkpoint_def checkpoint_count_def Let_def)
qed

lemma start_rollback_progress:
  assumes "record_ok X r" "op_status r = Applying" "length (op_receipts r) < checkpoint_count r"
  shows "start_rollback X r = Inr (r\<lparr>op_status := RollingBack\<rparr>, True)"
proof -
  have "record_ok X (r\<lparr>op_status := RollingBack\<rparr>)"
    using assms by (auto simp: record_ok_def failure_ok_def status_consistent_def)
  then show ?thesis
    using assms by (simp add: start_rollback_def record_validateI checkpoint_count_def Let_def)
qed

lemma roll_back_progress:
  assumes "record_ok X r" "op_status r = RollingBack" "length (op_receipts r) < checkpoint_count r"
  shows "roll_back X witness_digest max_time r = Inr (r\<lparr>op_status := RolledBack,
    op_rollback_evidence_digest := Some witness_digest, op_completed_at_ms := Some max_time\<rparr>, True)"
proof -
  have "record_ok X (r\<lparr>op_status := RolledBack,
      op_rollback_evidence_digest := Some witness_digest, op_completed_at_ms := Some max_time\<rparr>)"
    using assms witness_digest_valid
    by (auto simp: record_ok_def failure_ok_def status_consistent_def checkpoint_count_def)
  then show ?thesis
    using assms witness_digest_valid
    by (simp add: roll_back_def record_validateI checkpoint_count_def Let_def)
qed

fun status_distance :: "PluginLifecycleOperationStatus \<Rightarrow> nat" where
  "status_distance Applying = 2"
| "status_distance RollingBack = 1"
| "status_distance _ = 0"

interpretation journal: progress_machine "\<lambda>r. PluginLifecycleOperationRecord_new X intent = Inr r"
  "journal_step X" "journal_inv X intent" terminal "\<lambda>r. status_distance (op_status r)"
  for X :: "('v, 'r, 'x) lifecycle_externals_scheme" and intent
proof
  fix r assume "PluginLifecycleOperationRecord_new X intent = Inr r"
  from new_record [OF this] show "journal_inv X intent r" by (simp add: journal_inv_def)
next
  fix r r' assume "journal_inv X intent r" "journal_step X r r'"
  then show "journal_inv X intent r'" by (rule journal_inv_step)
next
  fix r assume inv: "journal_inv X intent r" and "\<not> terminal r"
  then have ok: "record_ok X r" by (simp add: journal_inv_def)
  consider "op_status r = Applying" "length (op_receipts r) = checkpoint_count r"
    | "op_status r = Applying" "length (op_receipts r) < checkpoint_count r"
    | "op_status r = RollingBack" "length (op_receipts r) < checkpoint_count r"
    using inv \<open>\<not> terminal r\<close> record_ok_count [OF ok]
    by (cases "op_status r") (auto simp: terminal_def journal_inv_def le_less)
  then show "\<exists>r'. journal_step X r r' \<and> status_distance (op_status r') < status_distance (op_status r)"
  proof cases
    case 1
    from journal_step.completion [OF complete_progress [OF ok 1]] 1 show ?thesis by fastforce
  next
    case 2
    from journal_step.rollback_start [OF start_rollback_progress [OF ok 2]] 2 show ?thesis by fastforce
  next
    case 3
    from journal_step.rollback [OF roll_back_progress [OF ok 3]] 3 show ?thesis by fastforce
  qed
qed

text \<open>
  Forward progress alone: while the operation applies, the next checkpoint can always be recorded, as
  long as the idempotency keys of the intent do not collide.
\<close>

definition resume_step ::
  "('v, 'r, 'x) lifecycle_externals_scheme \<Rightarrow> PluginLifecycleOperationRecord
     \<Rightarrow> PluginLifecycleOperationRecord \<Rightarrow> bool" where
  "resume_step X r r' \<longleftrightarrow> journal_step X r r' \<and> op_status r' \<in> {Applying, Completed}"

definition resume_inv ::
  "('v, 'r, 'x) lifecycle_externals_scheme \<Rightarrow> PluginLifecycleIntent \<Rightarrow> PluginLifecycleOperationRecord \<Rightarrow> bool" where
  "resume_inv X intent r \<longleftrightarrow> journal_inv X intent r \<and> op_status r \<in> {Applying, Completed} \<and>
     distinct (map ck_idempotency_key (li_checkpoints intent))"

definition resume_distance :: "PluginLifecycleOperationRecord \<Rightarrow> nat" where
  "resume_distance r = (if op_status r = Completed then 0
     else Suc (checkpoint_count r - length (op_receipts r)))"

lemma receipt_keys:
  assumes "record_ok X r" "receipt \<in> set (op_receipts r)"
  shows "\<exists>n < length (op_receipts r). cp_idempotency_key receipt =
    ck_idempotency_key (li_checkpoints (op_intent r) ! n)"
proof -
  from assms(2) obtain n where "n < length (op_receipts r)" "op_receipts r ! n = receipt"
    by (auto simp: in_set_conv_nth)
  with assms(1) show ?thesis by (auto simp: record_ok_def receipts_ok_def receipt_matches_def)
qed

lemma checkpoint_progress:
  assumes ok: "record_ok X r" and applying: "op_status r = Applying"
    and more: "length (op_receipts r) < checkpoint_count r"
    and keys: "distinct (map ck_idempotency_key (li_checkpoints (op_intent r)))"
    and c: "c = li_checkpoints (op_intent r) ! length (op_receipts r)"
  shows "record_checkpoint X (ck_idempotency_key c) Applied witness_digest None max_time r =
    Inr (r\<lparr>op_receipts := op_receipts r @ [receipt_for c Applied witness_digest None max_time],
           op_last_failure := None\<rparr>, True)"
proof -
  let ?r' = "r\<lparr>op_receipts := op_receipts r @ [receipt_for c Applied witness_digest None max_time],
           op_last_failure := None\<rparr>"
  have fresh: "cp_idempotency_key receipt \<noteq> ck_idempotency_key c" if receipt: "receipt \<in> set (op_receipts r)" for receipt
  proof -
    from receipt_keys [OF ok receipt] obtain n where n: "n < length (op_receipts r)"
      "cp_idempotency_key receipt = ck_idempotency_key (li_checkpoints (op_intent r) ! n)" by blast
    have "map ck_idempotency_key (li_checkpoints (op_intent r)) ! n \<noteq>
        map ck_idempotency_key (li_checkpoints (op_intent r)) ! length (op_receipts r)"
      using keys n(1) more by (simp only: nth_eq_iff_index_eq [OF keys] checkpoint_count_def length_map)
    with n more show ?thesis by (simp add: c checkpoint_count_def)
  qed
  have "List.find (\<lambda>receipt. cp_idempotency_key receipt = ck_idempotency_key c) (op_receipts r) = None"
    using fresh by (auto simp: find_None_iff)
  moreover have "next_checkpoint r = Some c"
    using more by (simp add: next_checkpoint_def c checkpoint_count_def)
  moreover have "record_ok X ?r'"
    using ok applying more witness_digest_valid
    by (auto simp: record_ok_def receipts_ok_snoc failure_ok_def status_consistent_def receipt_matches_def
        outcome_allowed_def receipt_for_def c checkpoint_count_def)
  ultimately show ?thesis
    using ok applying by (simp add: record_checkpoint_def record_validateI receipt_for_def Let_def)
qed

interpretation resume: progress_machine "\<lambda>_. False" "resume_step X" "resume_inv X intent"
  "\<lambda>r. op_status r = Completed" resume_distance
  for X :: "('v, 'r, 'x) lifecycle_externals_scheme" and intent
proof
  fix r r' assume "resume_inv X intent r" "resume_step X r r'"
  then show "resume_inv X intent r'"
    by (auto simp: resume_inv_def resume_step_def dest: journal_inv_step)
next
  fix r assume inv: "resume_inv X intent r" and "op_status r \<noteq> Completed"
  then have ok: "record_ok X r" and applying: "op_status r = Applying" and intent: "op_intent r = intent"
    and keys: "distinct (map ck_idempotency_key (li_checkpoints (op_intent r)))"
    by (auto simp: resume_inv_def journal_inv_def)
  show "\<exists>r'. resume_step X r r' \<and> resume_distance r' < resume_distance r"
  proof (cases "length (op_receipts r) = checkpoint_count r")
    case True
    from journal_step.completion [OF complete_progress [OF ok applying True]] show ?thesis
      by (intro exI [of _ "r\<lparr>op_status := Completed, op_completed_at_ms := Some max_time\<rparr>"])
        (simp add: resume_step_def resume_distance_def applying)
  next
    case False
    with record_ok_count [OF ok] have more: "length (op_receipts r) < checkpoint_count r" by simp
    let ?c = "li_checkpoints (op_intent r) ! length (op_receipts r)"
    from journal_step.checkpoint [OF checkpoint_progress [OF ok applying more keys refl]] more show ?thesis
      by (intro exI [of _ "r\<lparr>op_receipts := op_receipts r @ [receipt_for ?c Applied witness_digest None max_time],
           op_last_failure := None\<rparr>"])
        (simp add: resume_step_def resume_distance_def applying checkpoint_count_def)
  qed
qed simp

section \<open>Lemmas: the store\<close>

definition codec_ok :: "('v, 'r, 'x) store_externals_scheme \<Rightarrow> bool" where
  "codec_ok X \<longleftrightarrow> (\<forall>rec bytes. record_to_json X rec = Some bytes \<longrightarrow> record_from_json X bytes = Some rec)"

definition active_record ::
  "('v, 'r, 'x) store_externals_scheme \<Rightarrow> PluginLifecycleJournalStore \<Rightarrow> directory
     \<Rightarrow> PluginLifecycleOperationRecord option" where
  "active_record X s d =
     (case read_optional_record X (pf_active (js_files s d)) of Inl _ \<Rightarrow> None | Inr file \<Rightarrow> file)"

definition last_record ::
  "('v, 'r, 'x) store_externals_scheme \<Rightarrow> PluginLifecycleJournalStore \<Rightarrow> directory
     \<Rightarrow> PluginLifecycleOperationRecord option" where
  "last_record X s d =
     (case read_optional_record X (pf_last (js_files s d)) of Inl _ \<Rightarrow> None | Inr file \<Rightarrow> file)"

lemma read_write:
  assumes "codec_ok X" "write_record X rec = Inr bytes"
  shows "read_optional_record X (Some bytes) = Inr (Some rec)"
  using assms
  by (auto simp: codec_ok_def write_record_def read_optional_record_def result_simps split: if_splits)

lemma put_files [simp]:
  "pf_active (js_files (put_active d bytes s) d') = (if d' = d then Some bytes else pf_active (js_files s d'))"
  "pf_last (js_files (put_active d bytes s) d') = pf_last (js_files s d')"
  "pf_last (js_files (put_last d bytes s) d') = (if d' = d then Some bytes else pf_last (js_files s d'))"
  "pf_active (js_files (put_last d bytes s) d') = pf_active (js_files s d')"
  "js_installation (put_active d bytes s) = js_installation s" "js_root (put_active d bytes s) = js_root s"
  "js_installation (put_last d bytes s) = js_installation s" "js_root (put_last d bytes s) = js_root s"
  by (simp_all add: put_active_def put_last_def)

lemma active_put [simp]:
  "active_record X (put_last d bytes s) d' = active_record X s d'"
  "last_record X (put_active d bytes s) d' = last_record X s d'"
  "d' \<noteq> d \<Longrightarrow> active_record X (put_active d bytes s) d' = active_record X s d'"
  "d' \<noteq> d \<Longrightarrow> last_record X (put_last d bytes s) d' = last_record X s d'"
  by (simp_all add: active_record_def last_record_def)

lemma active_put_same:
  "codec_ok X \<Longrightarrow> write_record X rec = Inr bytes \<Longrightarrow> active_record X (put_active d bytes s) d = Some rec"
  "codec_ok X \<Longrightarrow> write_record X rec = Inr bytes \<Longrightarrow> last_record X (put_last d bytes s) d = Some rec"
  by (simp_all add: active_record_def last_record_def read_write)

lemma store_update_cases:
  assumes "store_update X intent update s = (s', res)"
  obtains (unchanged) e where "s' = s" "res = Inl e"
  | (written) d rec rec' bytes where "package_directory X s (li_scope intent) (li_package_id intent) = Inr d"
      "read_optional_record X (pf_active (js_files s d)) = Inr (Some rec)" "op_intent rec = intent"
      "update rec = Inr rec'" "write_record X rec' = Inr bytes" "s' = put_active d bytes s" "res = Inr rec'"
proof (cases res)
  case (Inl e)
  with assms show thesis
    by (intro unchanged [of e]) (auto simp: store_update_def split: sum.splits)
next
  case (Inr rec')
  with assms show thesis
    by (auto simp: store_update_def result_simps split: sum.splits if_splits intro!: written)
qed

lemma start_record_cases:
  assumes "start_record X d intent s = (s', res)"
  obtains (unchanged) e where "s' = s" "res = Inl e"
  | (written) rec bytes where "PluginLifecycleOperationRecord_new X intent = Inr rec"
      "write_record X rec = Inr bytes" "s' = put_active d bytes s" "res = Inr rec"
proof (cases "PluginLifecycleOperationRecord_new X intent")
  case (Inl e)
  with assms show thesis by (intro unchanged [of e]) (simp_all add: start_record_def)
next
  case Inr': (Inr rec)
  show thesis
  proof (cases "write_record X rec")
    case (Inl e)
    with Inr' assms show thesis by (intro unchanged [of e]) (simp_all add: start_record_def)
  next
    case (Inr bytes)
    with Inr' assms show thesis by (intro written [of rec bytes]) (simp_all add: start_record_def)
  qed
qed

lemma store_begin_cases:
  assumes "store_begin X intent s = (s', res)"
  obtains (unchanged) e where "s' = s" "res = Inl e"
  | (resumed) d rec where "s' = s" "res = Inr rec" "op_intent rec = intent"
      "package_directory X s (li_scope intent) (li_package_id intent) = Inr d"
      "read_optional_record X (pf_active (js_files s d)) = Inr (Some rec)"
  | (fresh) d where "package_directory X s (li_scope intent) (li_package_id intent) = Inr d"
      "read_optional_record X (pf_active (js_files s d)) = Inr None"
      "start_record X d intent s = (s', res)"
  | (replaced) d rec bytes where "package_directory X s (li_scope intent) (li_package_id intent) = Inr d"
      "read_optional_record X (pf_active (js_files s d)) = Inr (Some rec)" "terminal rec"
      "write_record X rec = Inr bytes" "start_record X d intent (put_last d bytes s) = (s', res)"
proof -
  have status: "terminal rec \<longleftrightarrow> op_status rec \<noteq> Applying \<and> op_status rec \<noteq> RollingBack" for rec
    by (cases "op_status rec") (auto simp: terminal_def)
  show thesis
    using assms that unfolding store_begin_def and_then_def
    by (auto simp: status split: sum.splits option.splits if_splits)
qed

inductive store_step ::
  "('v, 'r, 'x) store_externals_scheme \<Rightarrow> PluginLifecycleJournalStore \<Rightarrow> PluginLifecycleJournalStore \<Rightarrow> bool"
  for X :: "('v, 'r, 'x) store_externals_scheme" where
  begin_op: "store_begin X intent s = (s', res) \<Longrightarrow> store_step X s s'"
| checkpoint_op: "store_record_checkpoint X intent key outcome evidence code time s = (s', res) \<Longrightarrow> store_step X s s'"
| failure_op: "store_record_failure X intent key code evidence time s = (s', res) \<Longrightarrow> store_step X s s'"
| complete_op: "store_complete X intent time s = (s', res) \<Longrightarrow> store_step X s s'"
| start_rollback_op: "store_start_rollback X intent s = (s', res) \<Longrightarrow> store_step X s s'"
| roll_back_op: "store_roll_back X intent evidence time s = (s', res) \<Longrightarrow> store_step X s s'"

text \<open>What one store step does to the journal of one package directory.\<close>

definition journal_moves ::
  "('v, 'r, 'x) store_externals_scheme \<Rightarrow> PluginLifecycleOperationRecord option
     \<Rightarrow> PluginLifecycleOperationRecord option \<Rightarrow> bool" where
  "journal_moves X before after \<longleftrightarrow>
     after = before \<or>
     (\<exists>r r'. before = Some r \<and> after = Some r' \<and> journal_step X r r') \<or>
     (\<exists>r'. after = Some r' \<and> PluginLifecycleOperationRecord_new X (op_intent r') = Inr r' \<and>
        (\<forall>r. before = Some r \<longrightarrow> terminal r))"

lemma store_update_refines:
  assumes codec: "codec_ok X" and run: "store_update X intent update s = (s', res)"
    and update: "\<And>r r'. update r = Inr r' \<Longrightarrow> journal_step X r r'"
  shows "journal_moves X (active_record X s d) (active_record X s' d)" "last_record X s' d = last_record X s d"
proof (atomize (full), cases rule: store_update_cases [OF run])
  case (2 d' rec rec' bytes)
  then have "active_record X s d' = Some rec" by (simp add: active_record_def)
  with 2 codec update [OF 2(4)] active_put_same(1) [OF codec 2(5)]
  show "journal_moves X (active_record X s d) (active_record X s' d) \<and> last_record X s' d = last_record X s d"
    by (cases "d = d'") (auto simp: journal_moves_def)
qed (simp add: journal_moves_def)

lemma start_record_refines:
  assumes codec: "codec_ok X" and run: "start_record X d intent s = (s', res)"
    and free: "\<And>r. active_record X s d = Some r \<Longrightarrow> terminal r"
  shows "journal_moves X (active_record X s d') (active_record X s' d')" "last_record X s' d' = last_record X s d'"
proof (atomize (full), cases rule: start_record_cases [OF run])
  case (2 rec bytes)
  with new_record [OF 2(1)] free active_put_same(1) [OF codec 2(2)]
  show "journal_moves X (active_record X s d') (active_record X s' d') \<and> last_record X s' d' = last_record X s d'"
    by (cases "d' = d") (auto simp: journal_moves_def)
qed (simp add: journal_moves_def)

lemma store_begin_refines:
  assumes codec: "codec_ok X" and run: "store_begin X intent s = (s', res)"
  shows "journal_moves X (active_record X s d) (active_record X s' d)"
    and "last_record X s' d = last_record X s d \<or> (\<exists>r. last_record X s' d = Some r \<and> terminal r)"
proof (atomize (full), cases rule: store_begin_cases [OF run])
  case (3 d')
  then have "active_record X s d' = None" by (simp add: active_record_def)
  with start_record_refines [OF codec 3(3)]
  show "journal_moves X (active_record X s d) (active_record X s' d) \<and>
      (last_record X s' d = last_record X s d \<or> (\<exists>r. last_record X s' d = Some r \<and> terminal r))"
    by simp
next
  case (4 d' rec bytes)
  then have "active_record X s d' = Some rec" by (simp add: active_record_def)
  with 4 start_record_refines [OF codec 4(5), of d] active_put_same(2) [OF codec 4(4)]
  show "journal_moves X (active_record X s d) (active_record X s' d) \<and>
      (last_record X s' d = last_record X s d \<or> (\<exists>r. last_record X s' d = Some r \<and> terminal r))"
    by (cases "d = d'") auto
qed (simp_all add: journal_moves_def)

lemma store_step_refines:
  assumes codec: "codec_ok X" and "store_step X s s'"
  shows "journal_moves X (active_record X s d) (active_record X s' d)"
    and "last_record X s' d = last_record X s d \<or> (\<exists>r. last_record X s' d = Some r \<and> terminal r)"
  using assms(2)
proof (atomize (full), induction rule: store_step.induct)
  case (begin_op intent s s' res)
  from store_begin_refines [OF codec this] show ?case by blast
next
  case (checkpoint_op intent key outcome evidence code time s s' res)
  from store_update_refines [OF codec this [unfolded store_record_checkpoint_def]] show ?case
    by (auto simp: result_simps intro: journal_step.checkpoint)
next
  case (failure_op intent key code evidence time s s' res)
  from store_update_refines [OF codec this [unfolded store_record_failure_def]] show ?case
    by (auto intro: journal_step.failure)
next
  case (complete_op intent time s s' res)
  from store_update_refines [OF codec this [unfolded store_complete_def]] show ?case
    by (auto simp: result_simps intro: journal_step.completion)
next
  case (start_rollback_op intent s s' res)
  from store_update_refines [OF codec this [unfolded store_start_rollback_def]] show ?case
    by (auto simp: result_simps intro: journal_step.rollback_start)
next
  case (roll_back_op intent evidence time s s' res)
  from store_update_refines [OF codec this [unfolded store_roll_back_def]] show ?case
    by (auto simp: result_simps intro: journal_step.rollback)
qed

lemma store_begin_twice:
  assumes codec: "codec_ok X" and run: "store_begin X intent s = (s', Inr r)"
  shows "store_begin X intent s' = (s', Inr r)"
proof -
  obtain d where d: "package_directory X s (li_scope intent) (li_package_id intent) = Inr d"
    and v: "PluginLifecycleIntent_validate X intent = Inr ()"
    using run by (auto simp: store_begin_def result_simps split: sum.splits)
  have "read_optional_record X (pf_active (js_files s' d)) = Inr (Some r) \<and> op_intent r = intent \<and>
      js_installation s' = js_installation s \<and> js_root s' = js_root s"
    using run
  proof (cases rule: store_begin_cases)
    case (fresh d')
    from fresh(3) show ?thesis
      using fresh(1) d codec by (cases rule: start_record_cases) (auto simp: read_write dest: new_record)
  next
    case (replaced d' rec bytes)
    from replaced(5) show ?thesis
      using replaced(1) d codec by (cases rule: start_record_cases) (auto simp: read_write dest: new_record)
  qed (use d in auto)
  note s' = this
  then have "package_directory X s' (li_scope intent) (li_package_id intent) =
      package_directory X s (li_scope intent) (li_package_id intent)"
    by (simp only: package_directory_def)
  with s' d v show ?thesis by (simp add: store_begin_def validate_record_ownership_def)
qed

lemma package_directory_parts:
  assumes "package_directory X s scope package_id = Inr d"
  shows "scope = js_installation s" and "valid_package_id package_id"
    and "d = js_root s @ [InstallationKind_as_str (inst_kind scope), sha256_hex X (storage_key_bytes scope),
      fst (the (split_once (CHR ''/'') package_id)), snd (the (split_once (CHR ''/'') package_id))]"
  using assms
  by (auto simp: package_directory_def result_simps InstallationId_ensure_same_def PluginPackageId_parse_def
      InstallationId_storage_key_def valid_package_id_def split: if_splits)

section \<open>Properties\<close>

abbreviation journal_reachable ::
  "('v, 'r, 'x) lifecycle_externals_scheme \<Rightarrow> PluginLifecycleIntent \<Rightarrow> PluginLifecycleOperationRecord \<Rightarrow> bool" where
  "journal_reachable X intent \<equiv>
     machine_reachable (\<lambda>r. PluginLifecycleOperationRecord_new X intent = Inr r) (journal_step X)"

text \<open>
  C18: every record an operation can reach validates, belongs to the intent it was created for, and its
  receipts answer the first checkpoints of the intent one by one, a required checkpoint only ever being
  applied; a completed operation has answered every checkpoint, and one that is rolling back or rolled
  back has not.
\<close>

theorem journal_records_sound:
  assumes "journal_reachable X intent r"
  shows "PluginLifecycleOperationRecord_validate X r = Inr () \<and> op_intent r = intent \<and>
    length (op_receipts r) \<le> length (li_checkpoints intent) \<and>
    (\<forall>n < length (op_receipts r).
       cp_idempotency_key (op_receipts r ! n) = ck_idempotency_key (li_checkpoints intent ! n) \<and>
       (ck_required (li_checkpoints intent ! n) \<longrightarrow> cp_outcome (op_receipts r ! n) = Applied)) \<and>
    (op_status r = Completed \<longrightarrow> length (op_receipts r) = length (li_checkpoints intent)) \<and>
    (op_status r \<in> {RollingBack, RolledBack} \<longrightarrow> length (op_receipts r) < length (li_checkpoints intent))"
proof -
  have inv: "journal_inv X intent r" using assms by (rule journal.reachable_inv)
  then have ok: "record_ok X r" and intent: "op_intent r = intent" by (simp_all add: journal_inv_def)
  have "receipt_matches (op_receipts r ! n) (li_checkpoints intent ! n)" if "n < length (op_receipts r)" for n
    using that ok intent by (auto simp: record_ok_def receipts_ok_def)
  then have receipts: "\<forall>n < length (op_receipts r).
      cp_idempotency_key (op_receipts r ! n) = ck_idempotency_key (li_checkpoints intent ! n) \<and>
      (ck_required (li_checkpoints intent ! n) \<longrightarrow> cp_outcome (op_receipts r ! n) = Applied)"
    by (auto simp: receipt_matches_def outcome_allowed_def)
  have "op_status r = Completed \<longrightarrow> length (op_receipts r) = length (li_checkpoints intent)"
    using ok intent by (auto simp: record_ok_def status_consistent_def)
  moreover have "op_status r \<in> {RollingBack, RolledBack} \<longrightarrow> length (op_receipts r) < length (li_checkpoints intent)"
    using inv by (auto simp: journal_inv_def checkpoint_count_def)
  ultimately show ?thesis
    using receipts record_validateI [OF ok] record_ok_count [OF ok] intent by (simp add: checkpoint_count_def)
qed

lemma witness_record_reachable:
  "\<exists>r. journal_reachable witness_lifecycle_externals (witness_intent LInstall) r \<and>
     op_status r = Applying \<and> op_receipts r = []"
proof -
  have "intent_json witness_lifecycle_externals (witness_intent LInstall) = Some ''intent''"
    by (simp add: witness_lifecycle_externals_def)
  from new_record_total [OF witness_intent_valid this] obtain r where
    r: "PluginLifecycleOperationRecord_new witness_lifecycle_externals (witness_intent LInstall) = Inr r" by blast
  with new_record [OF r] show ?thesis by (blast intro: machine_reachable.start)
qed

theorem journal_records_sound_witness:
  "\<exists>r. PluginLifecycleOperationRecord_validate witness_lifecycle_externals r = Inr () \<and>
     op_intent r = witness_intent LInstall"
  using witness_record_reachable journal_records_sound by blast

text \<open>
  a step of an operation keeps its intent and every receipt already recorded, moves the status only
  from applying to rolling back or completed and from rolling back to rolled back, and leaves a
  completed or rolled-back record as it is.
\<close>

theorem journal_step_monotone:
  assumes "journal_step X r r'"
  shows "op_intent r' = op_intent r \<and> (\<exists>new. op_receipts r' = op_receipts r @ new) \<and>
    (op_status r' = op_status r \<or> op_status r = Applying \<and> op_status r' \<in> {RollingBack, Completed} \<or>
       op_status r = RollingBack \<and> op_status r' = RolledBack) \<and>
    (op_status r \<in> {Completed, RolledBack} \<longrightarrow> r' = r)"
  using journal_step_facts(3,4,6,7) [OF assms] by (auto simp: terminal_def)

theorem journal_step_monotone_witness:
  "\<exists>r r'. journal_step witness_lifecycle_externals r r' \<and> op_status r' = RollingBack \<and> op_intent r' = op_intent r"
proof -
  from witness_record_reachable obtain r where "journal_reachable witness_lifecycle_externals (witness_intent LInstall) r"
    and r: "op_status r = Applying" "op_receipts r = []" by blast
  then have inv: "journal_inv witness_lifecycle_externals (witness_intent LInstall) r"
    by (intro journal.reachable_inv)
  with inv r witness_intent_checkpoints have "length (op_receipts r) < checkpoint_count r"
    by (simp add: journal_inv_def checkpoint_count_def)
  with inv r have step: "journal_step witness_lifecycle_externals r (r\<lparr>op_status := RollingBack\<rparr>)"
    by (intro journal_step.rollback_start [OF start_rollback_progress]) (simp_all add: journal_inv_def)
  from journal_step_monotone [OF step]
  have "op_intent (r\<lparr>op_status := RollingBack\<rparr>) = op_intent r" by (rule conjunct1)
  with step show ?thesis by (intro exI [of _ r] exI [of _ "r\<lparr>op_status := RollingBack\<rparr>"]) simp
qed

lemma publication_position:
  assumes "PluginLifecycleIntent_validate X i = Inr ()" "li_action i \<in> {LInstall, LUpgrade, LEnable}"
    "n < length (li_checkpoints i)"
  shows "ck_kind (li_checkpoints i ! n) = CapabilityPublished \<longleftrightarrow> Suc n = length (li_checkpoints i)"
proof -
  let ?raws = "raw_checkpoints (li_action i) (li_surfaces i)"
  obtain front where raws: "?raws = front @ [(CapabilityPublished, None, True)]"
    and front: "\<And>kind surface required. (kind, surface, required) \<in> set front \<Longrightarrow> kind \<noteq> CapabilityPublished"
    using assms(2) by (auto simp: raw_checkpoints_def intro!: that [of "butlast ?raws"])
  note raw = intent_valid_facts(3) [OF assms(1)]
  then have len: "length (li_checkpoints i) = Suc (length front)"
    using raws by (metis length_append_singleton length_map)
  from raw assms(3) have "raw_of (li_checkpoints i ! n) = ?raws ! n" by (metis nth_map)
  then have "ck_kind (li_checkpoints i ! n) = fst (?raws ! n)" by (metis raw_of_def fst_conv)
  moreover have "fst (front ! n) \<noteq> CapabilityPublished" if "n < length front"
    using front [of "fst (front ! n)" "fst (snd (front ! n))" "snd (snd (front ! n))"] that by simp
  ultimately show ?thesis
    using len assms(3) raws by (auto simp: nth_append less_Suc_eq)
qed

text \<open>
  C19: an install, upgrade or enable publishes its capabilities last: a reachable record holds the
  receipt of the publication exactly when every checkpoint is answered, so an operation that is rolling
  back or rolled back has never published, and a completed one has.
\<close>

theorem publication_is_last:
  assumes "journal_reachable X intent r" "li_action intent \<in> {LInstall, LUpgrade, LEnable}"
  shows "let published = \<exists>n < length (op_receipts r). ck_kind (li_checkpoints intent ! n) = CapabilityPublished in
    (published \<longleftrightarrow> length (op_receipts r) = length (li_checkpoints intent)) \<and>
    (op_status r \<in> {RollingBack, RolledBack} \<longrightarrow> \<not> published) \<and> (op_status r = Completed \<longrightarrow> published)"
proof -
  have inv: "journal_inv X intent r" using assms(1) by (rule journal.reachable_inv)
  then have ok: "record_ok X r" and intent: "op_intent r = intent" by (simp_all add: journal_inv_def)
  then have valid: "PluginLifecycleIntent_validate X intent = Inr ()" by (auto simp: record_ok_def)
  have bound: "length (op_receipts r) \<le> length (li_checkpoints intent)"
    using record_ok_count [OF ok] intent by (simp add: checkpoint_count_def)
  have "li_checkpoints intent \<noteq> []"
    using intent_valid_facts(3) [OF valid] assms(2) by (auto simp: raw_checkpoints_def)
  then have "Suc (length (li_checkpoints intent) - 1) = length (li_checkpoints intent)" by simp
  then have published: "(\<exists>n < length (op_receipts r). ck_kind (li_checkpoints intent ! n) = CapabilityPublished) \<longleftrightarrow>
      length (op_receipts r) = length (li_checkpoints intent)"
    using publication_position [OF valid assms(2)] bound
    by (auto intro!: exI [of _ "length (li_checkpoints intent) - 1"])
  have "op_status r = Completed \<Longrightarrow> length (op_receipts r) = length (li_checkpoints intent)"
    using ok intent by (auto simp: record_ok_def status_consistent_def)
  moreover have "op_status r \<in> {RollingBack, RolledBack} \<Longrightarrow> length (op_receipts r) \<noteq> length (li_checkpoints intent)"
    using inv by (auto simp: journal_inv_def checkpoint_count_def)
  ultimately show ?thesis unfolding Let_def published by blast
qed

theorem publication_is_last_witness:
  "\<exists>r. journal_reachable witness_lifecycle_externals (witness_intent LInstall) r \<and>
     \<not> (\<exists>n < length (op_receipts r). ck_kind (li_checkpoints (witness_intent LInstall) ! n) = CapabilityPublished)"
proof -
  from witness_record_reachable obtain r where
    r: "journal_reachable witness_lifecycle_externals (witness_intent LInstall) r" and none: "op_receipts r = []" by blast
  have "li_action (witness_intent LInstall) \<in> {LInstall, LUpgrade, LEnable}" using witness_intent_parts by simp
  with publication_is_last [OF r this] r none show ?thesis by (auto simp: Let_def)
qed

text \<open>
  no reachable record is stuck: some sequence of the operations leads to a completed or rolled-back
  record.
\<close>

theorem journal_never_stuck:
  assumes "journal_reachable X intent r"
  shows "\<exists>r'. (journal_step X)\<^sup>*\<^sup>* r r' \<and> op_status r' \<in> {Completed, RolledBack}"
  using journal.reachable_to_final [OF assms] by (simp add: terminal_def)

theorem journal_never_stuck_witness:
  "\<exists>r r'. journal_reachable witness_lifecycle_externals (witness_intent LInstall) r \<and>
     (journal_step witness_lifecycle_externals)\<^sup>*\<^sup>* r r' \<and> op_status r' \<in> {Completed, RolledBack}"
  using witness_record_reachable journal_never_stuck by blast

text \<open>
  C20: an interrupted operation can always be resumed to completion: from every reachable record that
  still applies, recording the remaining checkpoints and completing succeeds, provided the idempotency
  keys of the checkpoints are pairwise distinct (they are SHA-256 digests of pairwise distinct
  identities).
\<close>

theorem journal_resumes:
  assumes "journal_reachable X intent r" "op_status r = Applying"
    "distinct (map ck_idempotency_key (li_checkpoints intent))"
  shows "\<exists>r'. (journal_step X)\<^sup>*\<^sup>* r r' \<and> op_status r' = Completed"
proof -
  have "resume_inv X intent r"
    using journal.reachable_inv [OF assms(1)] assms(2,3) by (simp add: resume_inv_def)
  from resume.run_to_final [OF this] obtain r' where r': "(resume_step X)\<^sup>*\<^sup>* r r'" "op_status r' = Completed"
    by blast
  moreover have "resume_step X \<le> journal_step X" by (auto simp: resume_step_def)
  ultimately show ?thesis by (meson rtranclp_mono predicate2D)
qed

lemma witness_keys_distinct: "distinct (map ck_idempotency_key (li_checkpoints (witness_intent LInstall)))"
  by (rule checkpoint_keys_distinct [OF witness_intent_valid]) (simp add: witness_lifecycle_externals_def inj_def)

theorem journal_resumes_witness:
  "\<exists>r r'. journal_reachable witness_lifecycle_externals (witness_intent LInstall) r \<and>
     (journal_step witness_lifecycle_externals)\<^sup>*\<^sup>* r r' \<and> op_status r' = Completed"
  using witness_record_reachable witness_keys_distinct journal_resumes by blast

text \<open>
  recording a checkpoint is idempotent: repeating the call that advanced a record, at whatever
  later time, succeeds, changes nothing and reports that nothing changed.
\<close>

theorem record_checkpoint_idempotent:
  assumes "record_checkpoint X key outcome evidence code time r = Inr (r', b)"
  shows "record_checkpoint X key outcome evidence code time' r' = Inr (r', False)"
  using assms
proof (cases rule: record_checkpoint_cases)
  case replay
  then show ?thesis by (simp add: record_checkpoint_def record_validateI)
next
  case (advance c)
  then have "List.find (\<lambda>receipt. cp_idempotency_key receipt = key) (op_receipts r') =
      Some (receipt_for c outcome evidence code time)"
    by (simp add: find_append receipt_for_def)
  with advance show ?thesis by (simp add: record_checkpoint_def record_validateI receipt_for_def)
qed

theorem record_checkpoint_idempotent_witness:
  "\<exists>key r. record_checkpoint witness_lifecycle_externals key Applied witness_digest None 9 r = Inr (r, False)"
proof -
  from witness_record_reachable obtain r where
    reachable: "journal_reachable witness_lifecycle_externals (witness_intent LInstall) r"
    and r: "op_status r = Applying" "op_receipts r = []" by blast
  have inv: "journal_inv witness_lifecycle_externals (witness_intent LInstall) r"
    using reachable by (rule journal.reachable_inv)
  have "length (op_receipts r) < checkpoint_count r"
    using inv r witness_intent_checkpoints by (simp add: journal_inv_def checkpoint_count_def)
  with inv r witness_keys_distinct
  have "\<exists>key r'. record_checkpoint witness_lifecycle_externals key Applied witness_digest None max_time r = Inr (r', True)"
    using checkpoint_progress [OF _ _ _ _ refl, of witness_lifecycle_externals r] by (auto simp: journal_inv_def)
  with record_checkpoint_idempotent show ?thesis by blast
qed

text \<open>
  C21: every operation of the journal store refines the state machine of the record: it leaves the
  active record of each package directory as it is, moves it by one step of the machine, or replaces a
  completed or rolled-back one by a fresh record; what it keeps as the last record is terminal. The
  record codec is assumed to read back what it writes.
\<close>

theorem store_refines_journal:
  assumes "\<And>rec bytes. record_to_json X rec = Some bytes \<Longrightarrow> record_from_json X bytes = Some rec"
    and "store_step X s s'"
  shows "journal_moves X (active_record X s d) (active_record X s' d) \<and>
    (last_record X s' d = last_record X s d \<or> (\<exists>r. last_record X s' d = Some r \<and> terminal r))"
  using store_step_refines [OF _ assms(2), of d] assms(1) unfolding codec_ok_def by blast

text \<open>A codec with one code word, enough to run the store on the record of the witness intent.\<close>

definition witness_record :: PluginLifecycleOperationRecord where
  "witness_record = \<lparr>op_schema = PLUGIN_LIFECYCLE_OPERATION_SCHEMA, op_intent = witness_intent LInstall,
     op_intent_digest = ''sha256:intent'', op_status = Applying, op_receipts = [],
     op_last_failure = None, op_rollback_evidence_digest = None, op_completed_at_ms = None\<rparr>"

definition witness_store_externals :: "(unit, unit) store_externals" where
  "witness_store_externals =
     \<lparr>version_parse = \<lambda>_. None, version_string = \<lambda>_. [], version_le = \<lambda>_ _. True, req_parse = \<lambda>_. None,
      req_string = \<lambda>_. [], req_matches = \<lambda>_ _. True, url_parse = \<lambda>_. None, sha256_hex = \<lambda>s. s,
      intent_json = \<lambda>_. Some ''intent'',
      record_to_json = \<lambda>rec. if rec = witness_record then Some ''w'' else None,
      record_from_json = \<lambda>bytes. if bytes = ''w'' then Some witness_record else None\<rparr>"

definition witness_store :: PluginLifecycleJournalStore where
  "witness_store = \<lparr>js_installation = \<lparr>inst_kind = User, inst_id = ''u''\<rparr>, js_root = [],
     js_files = \<lambda>_. \<lparr>pf_active = None, pf_last = None\<rparr>\<rparr>"

lemma witness_codec:
  "record_to_json witness_store_externals rec = Some bytes \<Longrightarrow> record_from_json witness_store_externals bytes = Some rec"
  by (simp add: witness_store_externals_def split: if_splits)

lemma witness_store_begins:
  "\<exists>s'. store_begin witness_store_externals (witness_intent LInstall) witness_store = (s', Inr witness_record)"
proof -
  let ?X = witness_store_externals
  have "sha256_hex ?X = sha256_hex witness_lifecycle_externals"
    by (simp add: witness_store_externals_def witness_lifecycle_externals_def)
  from intent_validate_cong [OF this] witness_intent_valid
  have valid: "PluginLifecycleIntent_validate ?X (witness_intent LInstall) = Inr ()" by simp
  have digest: "PluginLifecycleIntent_descriptor_digest ?X (witness_intent LInstall) = Inr ''sha256:intent''"
    using valid by (simp add: PluginLifecycleIntent_descriptor_digest_def
        PluginLifecycleIntent_canonical_bytes_def witness_store_externals_def)
  have ok: "PluginLifecycleOperationRecord_validate ?X witness_record = Inr ()"
    using valid digest
    by (intro record_validateI)
      (simp add: record_ok_def receipts_ok_def failure_ok_def status_consistent_def witness_record_def)
  have new: "PluginLifecycleOperationRecord_new ?X (witness_intent LInstall) = Inr witness_record"
    using valid digest ok by (simp add: PluginLifecycleOperationRecord_new_def Let_def witness_record_def)
  have "record_to_json ?X witness_record = Some ''w''" by (simp add: witness_store_externals_def)
  with ok have bytes: "write_record ?X witness_record = Inr ''w''"
    by (simp add: write_record_def MAX_OPERATION_BYTES_def)
  have "is_ok (package_directory ?X witness_store \<lparr>inst_kind = User, inst_id = ''u''\<rparr> ''acme/a'')"
    by code_simp
  then show ?thesis
    using valid new bytes witness_intent_parts
    by (auto simp: store_begin_def start_record_def is_ok_iff read_optional_record_def witness_store_def)
qed

theorem store_refines_journal_witness:
  "\<exists>s'. store_step witness_store_externals witness_store s' \<and>
     (\<forall>d. journal_moves witness_store_externals (active_record witness_store_externals witness_store d)
        (active_record witness_store_externals s' d))"
proof -
  obtain s' res where "store_begin witness_store_externals (witness_intent LInstall) witness_store = (s', res)"
    by fastforce
  then have step: "store_step witness_store_externals witness_store s'" by (rule store_step.begin_op)
  with store_refines_journal [OF witness_codec step] show ?thesis by blast
qed

text \<open>
  beginning an operation is idempotent: once it has succeeded, beginning the same intent again
  returns the same record and leaves the store as it is.
\<close>

theorem store_begin_idempotent:
  assumes "\<And>rec bytes. record_to_json X rec = Some bytes \<Longrightarrow> record_from_json X bytes = Some rec"
    and "store_begin X intent s = (s', Inr r)"
  shows "store_begin X intent s' = (s', Inr r)"
  using store_begin_twice [OF _ assms(2)] assms(1) unfolding codec_ok_def by blast

theorem store_begin_idempotent_witness:
  "\<exists>s' r. store_begin witness_store_externals (witness_intent LInstall) witness_store = (s', Inr r) \<and>
     store_begin witness_store_externals (witness_intent LInstall) s' = (s', Inr r)"
proof -
  from witness_store_begins obtain s' r where
    run: "store_begin witness_store_externals (witness_intent LInstall) witness_store = (s', Inr r)"
    by blast
  from store_begin_idempotent [OF witness_codec run] run show ?thesis by blast
qed

end
