(* ===== verification/Plan_Package.thy ===== *)
theory Plan_Package
  imports Catalog
begin

text \<open>
  Package transitions of an operation plan: the data of \<open>crates/core/src/plugin/plan.rs\<close> that describes
  one package, its validation in \<open>plan_package_validation.rs\<close>, and the derivation of package states and
  transitions from signed catalog evidence in \<open>catalog_plan.rs\<close>.
\<close>

section \<open>Data\<close>

datatype PlanPackageRole = Dependency | Root

datatype PlanPackageChangeKind = Add | Remove | Replace | Retain

datatype SurfaceChangeKind = SurfaceAdd | SurfaceRemove | SurfaceReplace

record PlannedPluginRelease =
  pr_package_id :: string
  pr_version :: string
  pr_channel :: PluginReleaseChannel
  pr_target :: string
  pr_package_sha256 :: string
  pr_manifest_sha256 :: string
  pr_permission_ceiling_digest :: string
  pr_surfaces :: "CatalogSurface list"

record PlannedPackageState =
  ps_release :: PlannedPluginRelease
  ps_permissions :: PluginPermissionCeiling

datatype PluginPlanSource =
    Registry VerifiedCatalogProvenance CatalogArchive
  | ReleaseBundle string string
  | LocalReviewed string string bool

record PlannedSurfaceChange =
  sc_change_surface :: PluginSurfaceRef
  sc_change :: SurfaceChangeKind
  sc_before_digest :: "string option"
  sc_after_digest :: "string option"

record PlannedPackageTransition =
  pt_package_id :: string
  pt_role :: PlanPackageRole
  pt_change :: PlanPackageChangeKind
  pt_before :: "PlannedPackageState option"
  pt_after :: "PlannedPackageState option"
  pt_source :: "PluginPlanSource option"
  pt_surfaces :: "PlannedSurfaceChange list"

section \<open>Surface deltas\<close>

definition surface_digest_step ::
  "('v, 'r, 'x) catalog_externals_scheme \<Rightarrow> (PluginSurfaceRef, string) btree_map \<Rightarrow> CatalogSurface
     \<Rightarrow> (PluginSurfaceRef, string) btree_map use_result" where
  "surface_digest_step X digests surface =
     and_then (CatalogSurface_descriptor_digest X surface) (\<lambda>digest.
       Inr (bt_insert (CatalogSurface_reference surface) digest digests))"

definition surface_digests ::
  "('v, 'r, 'x) catalog_externals_scheme \<Rightarrow> PlannedPackageState option
     \<Rightarrow> (PluginSurfaceRef, string) btree_map use_result" where
  "surface_digests X state =
     (case state of
        None \<Rightarrow> Inr []
      | Some state \<Rightarrow> fold_result (surface_digest_step X) [] (pr_surfaces (ps_release state)))"

text \<open>The change of a surface or bundle that is present before or after.\<close>

fun change_kind :: "bool \<Rightarrow> bool \<Rightarrow> SurfaceChangeKind use_result" where
  "change_kind False True = Inr SurfaceAdd"
| "change_kind True False = Inr SurfaceRemove"
| "change_kind True True = Inr SurfaceReplace"
| "change_kind False False = Inl PlanInvalid"

definition surface_change ::
  "(PluginSurfaceRef, string) btree_map \<Rightarrow> (PluginSurfaceRef, string) btree_map \<Rightarrow> PluginSurfaceRef
     \<Rightarrow> PlannedSurfaceChange use_result" where
  "surface_change before after surface =
     (let before_digest = bt_get before surface; after_digest = bt_get after surface in
      and_then (change_kind (before_digest \<noteq> None) (after_digest \<noteq> None)) (\<lambda>change.
        Inr \<lparr>sc_change_surface = surface, sc_change = change, sc_before_digest = before_digest,
          sc_after_digest = after_digest\<rparr>))"

definition surface_changes ::
  "('v, 'r, 'x) catalog_externals_scheme \<Rightarrow> PlannedPackageState option \<Rightarrow> PlannedPackageState option
     \<Rightarrow> PlannedSurfaceChange list use_result" where
  "surface_changes X before after =
     and_then (surface_digests X before) (\<lambda>before.
     and_then (surface_digests X after) (\<lambda>after.
       collect_results (surface_change before after) (bs_collect (bt_keys before @ bt_keys after))))"

section \<open>Validation\<close>

definition release_surface_step ::
  "PluginSurfaceRef option \<Rightarrow> CatalogSurface \<Rightarrow> PluginSurfaceRef option use_result" where
  "release_surface_step previous surface =
     and_then (map_err (\<lambda>_. PlanInvalid) (CatalogSurface_validate surface)) (\<lambda>_.
       let reference = CatalogSurface_reference surface in
       if out_of_order previous reference then Inl PlanInvalid else Inr (Some reference))"

definition PlannedPluginRelease_validate ::
  "('v, 'r, 'x) catalog_externals_scheme \<Rightarrow> PlannedPluginRelease \<Rightarrow> string \<Rightarrow> unit use_result" where
  "PlannedPluginRelease_validate X self package_id =
     (if pr_package_id self \<noteq> package_id
         \<or> (case version_parse X (pr_version self) of
              None \<Rightarrow> True | Some value \<Rightarrow> version_string X value \<noteq> pr_version self)
         \<or> \<not> valid_target (pr_target self)
         \<or> \<not> valid_sha256 (pr_package_sha256 self)
         \<or> \<not> valid_sha256 (pr_manifest_sha256 self)
         \<or> \<not> valid_sha256 (pr_permission_ceiling_digest self)
         \<or> pr_surfaces self = [] \<or> length (pr_surfaces self) > MAX_PLUGIN_PLAN_ITEMS
      then Inl PlanInvalid
      else and_then (fold_result release_surface_step None (pr_surfaces self)) (\<lambda>_. Inr ()))"

definition permission_matches_surface :: "CatalogSurface \<Rightarrow> SurfacePermissionCeiling \<Rightarrow> bool" where
  "permission_matches_surface surface permission =
     (let resources = sp_resources permission in
      case cs_kind surface of
        KTool \<Rightarrow>
          (case cs_workload surface of
             Some Task \<Rightarrow> \<not> sp_private_service permission \<and>
               is_some_and (\<lambda>value. rc_task_timeout_ms value \<noteq> None \<and> rc_max_stdout_bytes value \<noteq> None
                               \<and> rc_max_stderr_bytes value \<noteq> None) resources
           | Some Service \<Rightarrow> \<not> sp_native_execution permission \<and> sp_private_service permission
               \<and> long_running_resources resources
           | None \<Rightarrow> False)
      | KMcp \<Rightarrow>
          (case cs_mcp_transport surface of
             Some Stdio \<Rightarrow> sp_native_execution permission \<and> \<not> sp_private_service permission
               \<and> long_running_resources resources
           | Some StreamableHttp \<Rightarrow> \<not> sp_native_execution permission \<and> sp_private_service permission
               \<and> long_running_resources resources
           | Some HostGrant \<Rightarrow> \<not> sp_native_execution permission \<and> \<not> sp_private_service permission
               \<and> long_running_resources resources \<and> sp_network_egress permission \<noteq> []
           | None \<Rightarrow> False)
      | KUi \<Rightarrow> True
      | KFlow \<Rightarrow> False | KOkf \<Rightarrow> False | KSkill \<Rightarrow> False)"

definition validate_planned_permission ::
  "(PluginSurfaceRef, CatalogSurface) btree_map \<Rightarrow> SurfacePermissionCeiling \<Rightarrow> unit use_result" where
  "validate_planned_permission surface_map permission =
     and_then (ok_or PlanInvalid (bt_get surface_map (sp_surface permission))) (\<lambda>surface.
     and_then (for_each (\<lambda>binding.
         if Option.bind (bt_get surface_map (SurfaceRef KTool (uh_tool_id binding))) cs_workload \<noteq> Some Service
         then Inl PlanInvalid else Inr ()) (sp_ui_http permission)) (\<lambda>_.
     if permission_matches_surface surface permission then Inr () else Inl PlanInvalid))"

definition validate_surface_permissions ::
  "CatalogSurface list \<Rightarrow> PluginPermissionCeiling \<Rightarrow> unit use_result" where
  "validate_surface_permissions surfaces permissions =
     (let surface_map = bt_collect (map (\<lambda>surface. (CatalogSurface_reference surface, surface)) surfaces) in
      and_then (for_each (validate_planned_permission surface_map) (pc_surfaces permissions)) (\<lambda>_.
      for_each (\<lambda>surface.
        if cs_kind surface \<in> {KTool, KMcp} \<and>
           \<not> (\<exists>permission \<in> set (pc_surfaces permissions). sp_surface permission = CatalogSurface_reference surface)
        then Inl PlanInvalid else Inr ()) surfaces))"

definition PlannedPackageState_validate ::
  "('v, 'r, 'x) catalog_externals_scheme \<Rightarrow> PlannedPackageState \<Rightarrow> string \<Rightarrow> unit use_result" where
  "PlannedPackageState_validate X self package_id =
     and_then (PlannedPluginRelease_validate X (ps_release self) package_id) (\<lambda>_.
     and_then (map_err (\<lambda>_. PlanInvalid) (PluginPermissionCeiling_validate (ps_permissions self))) (\<lambda>_.
     and_then (PluginPermissionCeiling_descriptor_digest X (ps_permissions self)) (\<lambda>digest.
     if digest \<noteq> pr_permission_ceiling_digest (ps_release self) then Inl PlanInvalid
     else validate_surface_permissions (pr_surfaces (ps_release self)) (ps_permissions self))))"

fun PluginPlanSource_validate ::
  "('v, 'r, 'x) externals_scheme \<Rightarrow> PluginPlanSource \<Rightarrow> PlannedPackageState \<Rightarrow> unit use_result" where
  "PluginPlanSource_validate X (Registry provenance archive) after =
     (if \<not> is_ok (VerifiedCatalogProvenance_validate X provenance) then Inl PlanInvalid
      else map_err (\<lambda>_. PlanInvalid) (CatalogArchive_validate archive (pr_package_id (ps_release after))
        (pr_version (ps_release after)) (pr_channel (ps_release after)) (pr_target (ps_release after))))"
| "PluginPlanSource_validate X (ReleaseBundle bundle_digest package_digest) after =
     (if \<not> valid_sha256 bundle_digest \<or> \<not> valid_sha256 package_digest
         \<or> package_digest \<noteq> pr_package_sha256 (ps_release after)
      then Inl PlanInvalid else Inr ())"
| "PluginPlanSource_validate X (LocalReviewed source_digest package_digest is_unsigned) after =
     (if \<not> is_unsigned \<or> \<not> valid_sha256 source_digest \<or> \<not> valid_sha256 package_digest
         \<or> package_digest \<noteq> pr_package_sha256 (ps_release after)
      then Inl PlanInvalid else Inr ())"

definition transition_shape :: "PlannedPackageTransition \<Rightarrow> bool" where
  "transition_shape self =
     (case pt_change self of
        Add \<Rightarrow> pt_before self = None \<and> pt_after self \<noteq> None \<and> pt_source self \<noteq> None
      | Remove \<Rightarrow> pt_before self \<noteq> None \<and> pt_after self = None \<and> pt_source self = None
      | Replace \<Rightarrow> pt_before self \<noteq> None \<and> pt_after self \<noteq> None \<and> pt_before self \<noteq> pt_after self
          \<and> pt_source self \<noteq> None
      | Retain \<Rightarrow> pt_before self \<noteq> None \<and> pt_before self = pt_after self \<and> pt_source self = None
          \<and> pt_surfaces self = [])"

definition validate_surface_changes ::
  "('v, 'r, 'x) catalog_externals_scheme \<Rightarrow> PlannedPackageTransition \<Rightarrow> unit use_result" where
  "validate_surface_changes X self =
     (if pt_change self = Retain then Inr ()
      else and_then (surface_changes X (pt_before self) (pt_after self)) (\<lambda>expected.
        if pt_surfaces self \<noteq> expected then Inl PlanInvalid else Inr ()))"

definition PlannedPackageTransition_validate ::
  "('v, 'r, 'x) catalog_externals_scheme \<Rightarrow> PlannedPackageTransition \<Rightarrow> unit use_result" where
  "PlannedPackageTransition_validate X self =
     (if \<not> valid_package_id (pt_package_id self) \<or> length (pt_surfaces self) > MAX_PLUGIN_PLAN_ITEMS
      then Inl PlanInvalid
      else
      and_then (case pt_before self of None \<Rightarrow> Inr ()
        | Some before \<Rightarrow> PlannedPackageState_validate X before (pt_package_id self)) (\<lambda>_.
      and_then (case pt_after self of None \<Rightarrow> Inr ()
        | Some after \<Rightarrow> PlannedPackageState_validate X after (pt_package_id self)) (\<lambda>_.
      if \<not> transition_shape self then Inl PlanInvalid
      else
      and_then (case (pt_source self, pt_after self) of
          (Some source, Some after) \<Rightarrow> PluginPlanSource_validate X source after
        | _ \<Rightarrow> Inr ()) (\<lambda>_.
      validate_surface_changes X self))))"

definition PlannedPackageTransition_resolved ::
  "('v, 'r, 'x) catalog_externals_scheme \<Rightarrow> string \<Rightarrow> PlanPackageRole \<Rightarrow> PlanPackageChangeKind
     \<Rightarrow> PlannedPackageState option \<Rightarrow> PlannedPackageState option \<Rightarrow> PluginPlanSource option
     \<Rightarrow> PlannedPackageTransition use_result" where
  "PlannedPackageTransition_resolved X package_id role change before after source =
     and_then (if change = Retain then Inr [] else surface_changes X before after) (\<lambda>surfaces.
     let transition = \<lparr>pt_package_id = package_id, pt_role = role, pt_change = change,
           pt_before = before, pt_after = after, pt_source = source, pt_surfaces = surfaces\<rparr>
     in and_then (PlannedPackageTransition_validate X transition) (\<lambda>_. Inr transition))"

section \<open>Transitions derived from catalog evidence\<close>

definition selected_permissions ::
  "PluginCatalogRecord \<Rightarrow> CatalogSurface list \<Rightarrow> PluginPermissionCeiling" where
  "selected_permissions rec surfaces =
     \<lparr>pc_schema = pc_schema (cr_permission_ceiling rec),
      pc_surfaces = filter (\<lambda>permission. sp_surface permission \<in> CatalogSurface_reference ` set surfaces)
        (pc_surfaces (cr_permission_ceiling rec))\<rparr>"

definition selected_state ::
  "('v, 'r, 'x) catalog_externals_scheme \<Rightarrow> VerifiedPluginCatalogRecord \<Rightarrow> PluginSurfaceRef list
     \<Rightarrow> PlannedPackageState use_result" where
  "selected_state X self requested_surfaces =
     and_then (VerifiedPluginCatalogRecord_validate X self) (\<lambda>_.
     if \<not> PluginCatalogRecord_is_package_plan_ready (vr_record self) then Inl CatalogPlanEvidenceMissing
     else
     and_then (PluginCatalogRecord_resolve_surfaces X (vr_record self) requested_surfaces) (\<lambda>surfaces.
     let permissions = selected_permissions (vr_record self) surfaces in
     and_then (PluginPermissionCeiling_descriptor_digest X permissions) (\<lambda>permission_ceiling_digest.
     and_then (ok_or CatalogPlanEvidenceMissing (cp_sha256 (cr_package (vr_record self)))) (\<lambda>package_sha256.
     and_then (ok_or CatalogPlanEvidenceMissing (cp_manifest_sha256 (cr_package (vr_record self)))) (\<lambda>manifest_sha256.
       Inr \<lparr>ps_release = \<lparr>pr_package_id = cr_package_id (vr_record self), pr_version = cr_version (vr_record self),
              pr_channel = cr_channel (vr_record self), pr_target = cr_target (vr_record self),
              pr_package_sha256 = package_sha256, pr_manifest_sha256 = manifest_sha256,
              pr_permission_ceiling_digest = permission_ceiling_digest, pr_surfaces = surfaces\<rparr>,
            ps_permissions = permissions\<rparr>)))))"

definition registry_source :: "VerifiedPluginCatalogRecord \<Rightarrow> PluginPlanSource" where
  "registry_source self = Registry (vr_provenance self) (cr_archive (vr_record self))"

definition install_transition ::
  "('v, 'r, 'x) catalog_externals_scheme \<Rightarrow> VerifiedPluginCatalogRecord \<Rightarrow> PlanPackageRole
     \<Rightarrow> PluginSurfaceRef list \<Rightarrow> PlannedPackageTransition use_result" where
  "install_transition X self role requested_surfaces =
     and_then (selected_state X self requested_surfaces) (\<lambda>state.
       PlannedPackageTransition_resolved X (cr_package_id (vr_record self)) role Add None (Some state)
         (Some (registry_source self)))"

definition remove_transition ::
  "('v, 'r, 'x) catalog_externals_scheme \<Rightarrow> VerifiedPluginCatalogRecord \<Rightarrow> PlanPackageRole
     \<Rightarrow> PluginSurfaceRef list \<Rightarrow> PlannedPackageTransition use_result" where
  "remove_transition X self role active_surfaces =
     and_then (selected_state X self active_surfaces) (\<lambda>before.
       PlannedPackageTransition_resolved X (cr_package_id (vr_record self)) role Remove (Some before) None None)"

definition replace_transition ::
  "('v, 'r, 'x) catalog_externals_scheme \<Rightarrow> VerifiedPluginCatalogRecord \<Rightarrow> VerifiedPluginCatalogRecord
     \<Rightarrow> PlanPackageRole \<Rightarrow> PluginSurfaceRef list \<Rightarrow> PluginSurfaceRef list \<Rightarrow> PlannedPackageTransition use_result" where
  "replace_transition X self installed role active_surfaces requested_surfaces =
     (if cr_package_id (vr_record installed) \<noteq> cr_package_id (vr_record self) then Inl CatalogPlanEvidenceMissing
      else
      and_then (selected_state X installed active_surfaces) (\<lambda>before.
      and_then (selected_state X self requested_surfaces) (\<lambda>after.
        PlannedPackageTransition_resolved X (cr_package_id (vr_record self)) role Replace (Some before)
          (Some after) (Some (registry_source self)))))"

section \<open>Lemmas: surface deltas\<close>

lemma digest_fold:
  "fold_result (surface_digest_step X) m surfaces = Inr m' \<longleftrightarrow>
     (\<forall>s \<in> set surfaces. is_ok (CatalogSurface_descriptor_digest X s)) \<and>
     m' = foldl (\<lambda>m (k, v). bt_insert k v m) m
       (map (\<lambda>s. (CatalogSurface_reference s, projr (CatalogSurface_descriptor_digest X s))) surfaces)"
  by (induction surfaces arbitrary: m) (auto simp: surface_digest_step_def result_simps)

text \<open>The digest a package state gives a surface.\<close>

definition digest_in ::
  "('v, 'r, 'x) catalog_externals_scheme \<Rightarrow> PlannedPackageState option \<Rightarrow> PluginSurfaceRef \<Rightarrow> string \<Rightarrow> bool" where
  "digest_in X state reference digest \<longleftrightarrow>
     (\<exists>st s. state = Some st \<and> s \<in> set (pr_surfaces (ps_release st)) \<and>
        CatalogSurface_reference s = reference \<and> CatalogSurface_descriptor_digest X s = Inr digest)"

definition unique_surfaces :: "PlannedPackageState option \<Rightarrow> bool" where
  "unique_surfaces state \<longleftrightarrow>
     (\<forall>st. state = Some st \<longrightarrow> distinct (map CatalogSurface_reference (pr_surfaces (ps_release st))))"

lemma surface_digests_get:
  assumes "surface_digests X state = Inr m" "unique_surfaces state"
  shows "bt_get m r = Some d \<longleftrightarrow> digest_in X state r d"
proof (cases state)
  case (Some st)
  let ?ss = "pr_surfaces (ps_release st)" and ?digest = "CatalogSurface_descriptor_digest X"
  from assms(1) Some have ok: "\<forall>s \<in> set ?ss. is_ok (?digest s)"
    and m: "m = bt_collect (map (\<lambda>s. (CatalogSurface_reference s, projr (?digest s))) ?ss)"
    by (simp_all add: surface_digests_def digest_fold bt_collect_def)
  have unique: "distinct (map CatalogSurface_reference ?ss)" using assms(2) Some by (simp add: unique_surfaces_def)
  then have "bt_get m r = Some d \<longleftrightarrow> (\<exists>s \<in> set ?ss. CatalogSurface_reference s = r \<and> projr (?digest s) = d)"
    unfolding m by (auto simp: bt_collect_get_distinct comp_def image_iff)
  also have "\<dots> \<longleftrightarrow> digest_in X state r d"
    using ok Some by (auto simp: digest_in_def is_ok_iff) (metis sum.sel(2))+
  finally show ?thesis .
qed (use assms in \<open>simp add: surface_digests_def digest_in_def\<close>)

lemma change_kind_Inr:
  "change_kind b a = Inr k \<longleftrightarrow> (b \<or> a) \<and> k = (if b then if a then SurfaceReplace else SurfaceRemove else SurfaceAdd)"
  by (cases b; cases a) auto

lemma option_eq_iff: "a = b \<longleftrightarrow> (\<forall>d. a = Some d \<longleftrightarrow> b = Some d)"
  by (cases a; cases b) auto

lemma surface_changes_spec:
  assumes run: "surface_changes X before after = Inr changes"
    and unique: "unique_surfaces before" "unique_surfaces after"
  shows "sorted_wrt (<) (map sc_change_surface changes)"
    and "c \<in> set changes \<longleftrightarrow>
      (\<forall>d. sc_before_digest c = Some d \<longleftrightarrow> digest_in X before (sc_change_surface c) d) \<and>
      (\<forall>d. sc_after_digest c = Some d \<longleftrightarrow> digest_in X after (sc_change_surface c) d) \<and>
      change_kind (sc_before_digest c \<noteq> None) (sc_after_digest c \<noteq> None) = Inr (sc_change c)"
proof -
  from run obtain b a where b: "surface_digests X before = Inr b" and a: "surface_digests X after = Inr a"
    and all: "list_all2 (\<lambda>r c. surface_change b a r = Inr c) (bs_collect (bt_keys b @ bt_keys a)) changes"
    by (auto simp: surface_changes_def result_simps)
  have key: "surface_change b a r = Inr c \<Longrightarrow> sc_change_surface c = r" for r c
    by (auto simp: surface_change_def result_simps Let_def)
  have keys: "map sc_change_surface changes = bs_collect (bt_keys b @ bt_keys a)"
    using all by (induction rule: list_all2_induct) (simp_all add: key)
  then show "sorted_wrt (<) (map sc_change_surface changes)" by simp
  have member: "c \<in> set changes \<longleftrightarrow> (\<exists>r \<in> set (bt_keys b @ bt_keys a). surface_change b a r = Inr c)"
  proof -
    have "set changes = {c. \<exists>r \<in> set (bs_collect (bt_keys b @ bt_keys a)). surface_change b a r = Inr c}"
      using all by (induction rule: list_all2_induct) auto
    then show ?thesis by simp
  qed
  have range: "surface_change b a r = Inr c \<Longrightarrow> r \<in> set (bt_keys b @ bt_keys a)" for r
    by (auto simp: surface_change_def result_simps Let_def bt_keys_get change_kind_Inr)
  have "c \<in> set changes \<longleftrightarrow> surface_change b a (sc_change_surface c) = Inr c"
    unfolding member using key range by blast
  also have "\<dots> \<longleftrightarrow>
      sc_before_digest c = bt_get b (sc_change_surface c) \<and> sc_after_digest c = bt_get a (sc_change_surface c) \<and>
      change_kind (sc_before_digest c \<noteq> None) (sc_after_digest c \<noteq> None) = Inr (sc_change c)"
    by (cases c) (auto simp: surface_change_def result_simps Let_def)
  also have "\<dots> \<longleftrightarrow> (\<forall>d. sc_before_digest c = Some d \<longleftrightarrow> digest_in X before (sc_change_surface c) d) \<and>
      (\<forall>d. sc_after_digest c = Some d \<longleftrightarrow> digest_in X after (sc_change_surface c) d) \<and>
      change_kind (sc_before_digest c \<noteq> None) (sc_after_digest c \<noteq> None) = Inr (sc_change c)"
    unfolding surface_digests_get [OF b unique(1), symmetric] surface_digests_get [OF a unique(2), symmetric]
      option_eq_iff [of "sc_before_digest c" "bt_get b (sc_change_surface c)"]
      option_eq_iff [of "sc_after_digest c" "bt_get a (sc_change_surface c)"] ..
  finally show "c \<in> set changes \<longleftrightarrow>
      (\<forall>d. sc_before_digest c = Some d \<longleftrightarrow> digest_in X before (sc_change_surface c) d) \<and>
      (\<forall>d. sc_after_digest c = Some d \<longleftrightarrow> digest_in X after (sc_change_surface c) d) \<and>
      change_kind (sc_before_digest c \<noteq> None) (sc_after_digest c \<noteq> None) = Inr (sc_change c)" .
qed

section \<open>Lemmas: validity of package states\<close>

lemma release_surfaces_iff:
  "(\<exists>p. fold_result release_surface_step None surfaces = Inr p) \<longleftrightarrow>
     (\<forall>s \<in> set surfaces. CatalogSurface_validate s = Inr ()) \<and>
     sorted_wrt (<) (map CatalogSurface_reference surfaces)"
  by (rule previous_loop) (auto simp: release_surface_step_def result_simps Let_def)

lemma release_validate_iff:
  "PlannedPluginRelease_validate X r package_id = Inr () \<longleftrightarrow>
     pr_package_id r = package_id \<and>
     (\<exists>v. version_parse X (pr_version r) = Some v \<and> version_string X v = pr_version r) \<and>
     valid_target (pr_target r) \<and> valid_sha256 (pr_package_sha256 r) \<and> valid_sha256 (pr_manifest_sha256 r) \<and>
     valid_sha256 (pr_permission_ceiling_digest r) \<and> pr_surfaces r \<noteq> [] \<and>
     length (pr_surfaces r) \<le> MAX_PLUGIN_PLAN_ITEMS \<and>
     (\<forall>s \<in> set (pr_surfaces r). CatalogSurface_validate s = Inr ()) \<and>
     sorted_wrt (<) (map CatalogSurface_reference (pr_surfaces r))"
  unfolding PlannedPluginRelease_validate_def if_Inl_Inr and_then_Inr
  using release_surfaces_iff [of "pr_surfaces r"]
  by (auto simp: not_less split: option.splits)

lemma surface_map_get:
  assumes "distinct (map CatalogSurface_reference surfaces)"
  shows "bt_get (bt_collect (map (\<lambda>s. (CatalogSurface_reference s, s)) surfaces)) r = Some s \<longleftrightarrow>
    s \<in> set surfaces \<and> CatalogSurface_reference s = r"
  using assms by (auto simp: bt_collect_get_distinct comp_def bt_get_graph [unfolded bt_get_def])

definition permission_planned :: "CatalogSurface list \<Rightarrow> SurfacePermissionCeiling \<Rightarrow> bool" where
  "permission_planned surfaces p \<longleftrightarrow>
     (\<exists>s \<in> set surfaces. CatalogSurface_reference s = sp_surface p \<and> permission_matches_surface s p) \<and>
     (\<forall>b \<in> set (sp_ui_http p). \<exists>t \<in> set surfaces.
        CatalogSurface_reference t = SurfaceRef KTool (uh_tool_id b) \<and> cs_workload t = Some Service)"

lemma surface_permissions_iff:
  assumes "distinct (map CatalogSurface_reference surfaces)"
  shows "validate_surface_permissions surfaces c = Inr () \<longleftrightarrow>
    (\<forall>p \<in> set (pc_surfaces c). permission_planned surfaces p) \<and>
    (\<forall>s \<in> set surfaces. cs_kind s \<in> {KTool, KMcp} \<longrightarrow>
       (\<exists>p \<in> set (pc_surfaces c). sp_surface p = CatalogSurface_reference s))"
proof -
  let ?map = "bt_collect (map (\<lambda>s. (CatalogSurface_reference s, s)) surfaces)"
  have bind: "Option.bind (bt_get ?map r) cs_workload = Some w \<longleftrightarrow>
      (\<exists>t \<in> set surfaces. CatalogSurface_reference t = r \<and> cs_workload t = Some w)" for r w
    using surface_map_get [OF assms] by (auto simp: bind_eq_Some_conv)
  have "validate_planned_permission ?map p = Inr () \<longleftrightarrow> permission_planned surfaces p" for p
    unfolding validate_planned_permission_def permission_planned_def
    by (auto simp: result_simps surface_map_get [OF assms] bind split: if_splits)
  then show ?thesis
    by (auto simp: validate_surface_permissions_def result_simps Let_def)
qed

lemma state_validate_iff:
  "PlannedPackageState_validate X st package_id = Inr () \<longleftrightarrow>
     PlannedPluginRelease_validate X (ps_release st) package_id = Inr () \<and>
     PluginPermissionCeiling_descriptor_digest X (ps_permissions st) =
       Inr (pr_permission_ceiling_digest (ps_release st)) \<and>
     (\<forall>p \<in> set (pc_surfaces (ps_permissions st)). permission_planned (pr_surfaces (ps_release st)) p) \<and>
     (\<forall>s \<in> set (pr_surfaces (ps_release st)). cs_kind s \<in> {KTool, KMcp} \<longrightarrow>
       (\<exists>p \<in> set (pc_surfaces (ps_permissions st)). sp_surface p = CatalogSurface_reference s))"
proof (cases "PlannedPluginRelease_validate X (ps_release st) package_id = Inr ()")
  case True
  then have "distinct (map CatalogSurface_reference (pr_surfaces (ps_release st)))"
    by (simp add: release_validate_iff sorted_less_distinct)
  note perms = surface_permissions_iff [OF this]
  have "PluginPermissionCeiling_descriptor_digest X (ps_permissions st) = Inr d \<Longrightarrow>
      PluginPermissionCeiling_validate (ps_permissions st) = Inr ()" for d
    by (auto simp: PluginPermissionCeiling_descriptor_digest_def PluginPermissionCeiling_canonical_bytes_def result_simps)
  with True show ?thesis
    unfolding PlannedPackageState_validate_def and_then_Inr map_err_Inr if_Inl_Inr perms by auto
qed (simp add: PlannedPackageState_validate_def and_then_Inr)

lemma state_valid_unique:
  "PlannedPackageState_validate X st package_id = Inr () \<Longrightarrow> unique_surfaces (Some st)"
  by (simp add: state_validate_iff release_validate_iff unique_surfaces_def sorted_less_distinct)

section \<open>Lemmas: states selected from the catalog\<close>

lemma verified_record_valid:
  assumes "VerifiedPluginCatalogRecord_validate X v = Inr ()"
  shows "PluginCatalogRecord_validate X (vr_record v) = Inr ()"
    and "VerifiedCatalogProvenance_validate X (vr_provenance v) = Inr ()"
  using assms by (auto simp: VerifiedPluginCatalogRecord_validate_def result_simps)

lemma record_package_digests:
  assumes "PluginCatalogRecord_validate X r = Inr ()"
  shows "\<exists>d. cp_sha256 (cr_package r) = Some d \<and> valid_sha256 d"
    and "\<exists>d. cp_manifest_sha256 (cr_package r) = Some d \<and> valid_sha256 d"
    and "CatalogArchive_validate (cr_archive r) (cr_package_id r) (cr_version r) (cr_channel r) (cr_target r) = Inr ()"
    and "PluginCatalogRecord_is_package_plan_ready r"
proof -
  note parts = assms [unfolded PluginCatalogRecord_validate_def if_Inl_Inr and_then_Inr]
  from parts have "CatalogPackage_validate (cr_package r) = Inr ()" by (elim conjE exE) simp
  then show "\<exists>d. cp_sha256 (cr_package r) = Some d \<and> valid_sha256 d"
    "\<exists>d. cp_manifest_sha256 (cr_package r) = Some d \<and> valid_sha256 d"
    by (auto simp: CatalogPackage_validate_def split: if_splits)
  from parts show "CatalogArchive_validate (cr_archive r) (cr_package_id r) (cr_version r) (cr_channel r)
      (cr_target r) = Inr ()" by (elim conjE exE) simp
  from parts have "validate_identity X r" by (elim conjE) simp
  then show "PluginCatalogRecord_is_package_plan_ready r"
    by (simp add: validate_identity_def PluginCatalogRecord_is_package_plan_ready_def)
qed

text \<open>The surfaces a request selects: the dependency closure of the mandatory and the requested ones.\<close>

definition selected_refs :: "PluginCatalogRecord \<Rightarrow> PluginSurfaceRef list \<Rightarrow> PluginSurfaceRef set" where
  "selected_refs r requested = (surface_depends (cr_surfaces r))\<^sup>* ``
     ({CatalogSurface_reference m | m. m \<in> set (cr_surfaces r) \<and> \<not> cs_optional m} \<union> set requested)"

definition request_ok :: "PluginCatalogRecord \<Rightarrow> PluginSurfaceRef list \<Rightarrow> bool" where
  "request_ok r requested \<longleftrightarrow> length requested \<le> MAX_CATALOG_SURFACES \<and> distinct requested \<and>
     set requested \<subseteq> CatalogSurface_reference ` set (cr_surfaces r)"

definition closure_surfaces :: "PluginCatalogRecord \<Rightarrow> PluginSurfaceRef list \<Rightarrow> CatalogSurface list" where
  "closure_surfaces r requested =
     filter (\<lambda>s. CatalogSurface_reference s \<in> selected_refs r requested) (cr_surfaces r)"

lemma ceiling_filter_valid:
  "PluginPermissionCeiling_validate c = Inr () \<Longrightarrow>
     PluginPermissionCeiling_validate \<lparr>pc_schema = pc_schema c, pc_surfaces = filter P (pc_surfaces c)\<rparr> = Inr ()"
  unfolding PluginPermissionCeiling_validate_def if_Inl_Inr for_each_Inr
  by (auto intro: sorted_less_filter order_trans [OF length_filter_le] simp: not_less)

lemma selected_state_Inr:
  "selected_state X v requested = Inr st \<longleftrightarrow>
     VerifiedPluginCatalogRecord_validate X v = Inr () \<and> request_ok (vr_record v) requested \<and>
     (let r = vr_record v; surfaces = closure_surfaces r requested; permissions = selected_permissions r surfaces in
      \<exists>digest package manifest.
        PluginPermissionCeiling_descriptor_digest X permissions = Inr digest \<and>
        cp_sha256 (cr_package r) = Some package \<and> cp_manifest_sha256 (cr_package r) = Some manifest \<and>
        st = \<lparr>ps_release = \<lparr>pr_package_id = cr_package_id r, pr_version = cr_version r, pr_channel = cr_channel r,
               pr_target = cr_target r, pr_package_sha256 = package, pr_manifest_sha256 = manifest,
               pr_permission_ceiling_digest = digest, pr_surfaces = surfaces\<rparr>,
             ps_permissions = permissions\<rparr>)"
proof (cases "VerifiedPluginCatalogRecord_validate X v = Inr ()")
  case True
  note valid = verified_record_valid(1) [OF True]
  have resolve: "PluginCatalogRecord_resolve_surfaces X (vr_record v) requested = Inr surfaces \<longleftrightarrow>
      request_ok (vr_record v) requested \<and> surfaces = closure_surfaces (vr_record v) requested" for surfaces
    using valid by (auto simp: resolve_surfaces_closure request_ok_def closure_surfaces_def selected_refs_def)
  show ?thesis
    using True record_package_digests(4) [OF valid]
    by (auto simp: selected_state_def and_then_Inr resolve Let_def ok_or_Inr)
qed (simp add: selected_state_def and_then_Inr)

lemma workload_matches_surface:
  assumes inv: "scan_inv surfaces scan" and s: "s \<in> set surfaces"
    and ref: "sp_surface p = CatalogSurface_reference s" and m: "workload_matches scan p"
  shows "permission_matches_surface s p"
proof -
  have valid: "CatalogSurface_validate s = Inr ()" using inv s by (simp add: scan_inv_def)
  have ids: "sr_kind (sp_surface p) = cs_kind s" "sr_id (sp_surface p) = cs_id s"
    using ref by (simp_all add: CatalogSurface_reference_def)
  have tool: "bt_get (ss_tool_classes scan) (cs_id s) = cs_workload s" if "cs_kind s = KTool"
    using inv s that surface_validate_kinds(1) [OF valid]
    by (auto simp: scan_inv_def CatalogSurface_reference_def)
  have mcp: "bt_get (ss_mcp_transports scan) (cs_id s) = cs_mcp_transport s" if "cs_kind s = KMcp"
    using inv s that surface_validate_kinds(2) [OF valid]
    by (auto simp: scan_inv_def CatalogSurface_reference_def)
  show ?thesis
    using m tool mcp unfolding workload_matches_def permission_matches_surface_def ids Let_def
    by (cases "cs_kind s") (simp_all only: PluginSurfaceKind.case simp_thms)
qed

lemma selected_state_fields:
  assumes "selected_state X v requested = Inr st"
  shows "pr_package_id (ps_release st) = cr_package_id (vr_record v)"
    and "pr_version (ps_release st) = cr_version (vr_record v)"
    and "pr_channel (ps_release st) = cr_channel (vr_record v)"
    and "pr_target (ps_release st) = cr_target (vr_record v)"
    and "pr_surfaces (ps_release st) = closure_surfaces (vr_record v) requested"
    and "ps_permissions st = selected_permissions (vr_record v) (closure_surfaces (vr_record v) requested)"
    and "VerifiedPluginCatalogRecord_validate X v = Inr ()"
  using assms by (auto simp: selected_state_Inr Let_def)

lemma mandatory_selected:
  "s \<in> set (cr_surfaces r) \<Longrightarrow> \<not> cs_optional s \<Longrightarrow> s \<in> set (closure_surfaces r requested)"
  by (auto simp: closure_surfaces_def selected_refs_def)

lemma selected_refs_closed:
  "a \<in> selected_refs r requested \<Longrightarrow> (a, b) \<in> surface_depends (cr_surfaces r) \<Longrightarrow> b \<in> selected_refs r requested"
  by (auto simp: selected_refs_def intro: rtrancl_into_rtrancl)

lemma closure_surfaces_refs:
  assumes "PluginCatalogRecord_validate X r = Inr ()"
  shows "CatalogSurface_reference ` set (closure_surfaces r requested) =
    selected_refs r requested \<inter> CatalogSurface_reference ` set (cr_surfaces r)"
  by (auto simp: closure_surfaces_def)

lemma closure_permission_planned:
  assumes valid: "PluginCatalogRecord_validate X r = Inr ()"
    and p: "p \<in> set (pc_surfaces (selected_permissions r (closure_surfaces r requested)))"
  shows "permission_planned (closure_surfaces r requested) p"
proof -
  let ?all = "cr_surfaces r" and ?sel = "closure_surfaces r requested"
  from valid obtain scan where scan: "scan_surfaces ?all = Inr scan"
    and perms: "\<forall>p \<in> set (pc_surfaces (cr_permission_ceiling r)). validate_permission ?all scan p = Inr ()"
    by (rule record_validate_parts)
  note inv = scan_surfaces_inv [OF scan]
  from p obtain s where s: "s \<in> set ?sel" "CatalogSurface_reference s = sp_surface p"
    and ceiling: "p \<in> set (pc_surfaces (cr_permission_ceiling r))"
    by (auto simp: selected_permissions_def)
  then have s_all: "s \<in> set ?all" and s_ref: "sp_surface p \<in> selected_refs r requested"
    by (auto simp: closure_surfaces_def)
  from perms ceiling have valid_p: "validate_permission ?all scan p = Inr ()" by blast
  then have "workload_matches scan p" by (auto simp: validate_permission_def and_then_Inr split: if_splits)
  from workload_matches_surface [OF inv s_all s(2) [symmetric] this]
  have matches: "permission_matches_surface s p" .
  have "\<exists>t \<in> set ?sel. CatalogSurface_reference t = SurfaceRef KTool (uh_tool_id b) \<and> cs_workload t = Some Service"
    if b: "b \<in> set (sp_ui_http p)" for b
  proof -
    from valid_p b have "validate_ui_binding ?all scan p b = Inr ()"
      by (auto simp: validate_permission_def result_simps split: if_splits)
    then have tool: "bt_get (ss_tool_classes scan) (uh_tool_id b) = Some Service"
      and req: "is_some_and (\<lambda>s. SurfaceRef KTool (uh_tool_id b) \<in> set (cs_requires s))
        (List.find (\<lambda>s. CatalogSurface_reference s = sp_surface p) ?all)"
      by (auto simp: validate_ui_binding_def split: if_splits)
    from tool inv obtain t where t: "t \<in> set ?all" "CatalogSurface_reference t = SurfaceRef KTool (uh_tool_id b)"
      "cs_workload t = Some Service" by (auto simp: scan_inv_def)
    from req obtain u where "u \<in> set ?all" "CatalogSurface_reference u = sp_surface p"
      "SurfaceRef KTool (uh_tool_id b) \<in> set (cs_requires u)"
      using find_key_Some [OF record_surfaces_distinct(2) [OF valid], of "sp_surface p"]
      by (auto simp: is_some_and_iff)
    then have "(sp_surface p, CatalogSurface_reference t) \<in> surface_depends ?all"
      using t(2) by (auto simp: surface_depends_def intro!: bexI [of _ u])
    from selected_refs_closed [OF s_ref this] t show ?thesis by (auto simp: closure_surfaces_def)
  qed
  with s matches show ?thesis by (auto simp: permission_planned_def)
qed

text \<open>SHA-256 digests are 64 lower-case hexadecimal digits.\<close>

definition digests_ok :: "('v, 'r, 'x) externals_scheme \<Rightarrow> bool" where
  "digests_ok X \<longleftrightarrow> (\<forall>bytes. valid_sha256 (canonical_digest X bytes))"

lemma selected_state_valid_iff:
  assumes digests: "digests_ok X" and run: "selected_state X v requested = Inr st"
  shows "PlannedPackageState_validate X st (cr_package_id (vr_record v)) = Inr () \<longleftrightarrow>
    pr_surfaces (ps_release st) \<noteq> []"
proof -
  let ?r = "vr_record v"
  let ?surfaces = "closure_surfaces ?r requested"
  let ?permissions = "selected_permissions ?r ?surfaces"
  from run obtain digest package manifest where verified: "VerifiedPluginCatalogRecord_validate X v = Inr ()"
    and digest: "PluginPermissionCeiling_descriptor_digest X ?permissions = Inr digest"
    and shas: "cp_sha256 (cr_package ?r) = Some package" "cp_manifest_sha256 (cr_package ?r) = Some manifest"
    and st: "st = \<lparr>ps_release = \<lparr>pr_package_id = cr_package_id ?r, pr_version = cr_version ?r, pr_channel = cr_channel ?r,
               pr_target = cr_target ?r, pr_package_sha256 = package, pr_manifest_sha256 = manifest,
               pr_permission_ceiling_digest = digest, pr_surfaces = ?surfaces\<rparr>,
             ps_permissions = ?permissions\<rparr>"
    unfolding selected_state_Inr Let_def by blast
  note valid = verified_record_valid(1) [OF verified]
  from valid obtain scan where ident: "validate_identity X ?r" and scan: "scan_surfaces (cr_surfaces ?r) = Inr scan"
    and exec: "\<forall>s \<in> set (cr_surfaces ?r). is_executable s \<longrightarrow>
           (\<exists>p \<in> set (pc_surfaces (cr_permission_ceiling ?r)). sp_surface p = CatalogSurface_reference s)"
    by (rule record_validate_parts)
  have version: "\<exists>w. version_parse X (cr_version ?r) = Some w \<and> version_string X w = cr_version ?r"
    and target: "valid_target (cr_target ?r)" and bound: "length (cr_surfaces ?r) \<le> MAX_CATALOG_SURFACES"
    using ident by (auto simp: validate_identity_def split: option.splits)
  have "valid_sha256 digest"
    using digest digests
    by (auto simp: PluginPermissionCeiling_descriptor_digest_def digests_ok_def and_then_Inr)
  moreover have "valid_sha256 package" "valid_sha256 manifest"
    using record_package_digests(1,2) [OF valid] shas by auto
  moreover have "length ?surfaces \<le> MAX_PLUGIN_PLAN_ITEMS"
    using bound unfolding closure_surfaces_def
    by (intro order_trans [OF length_filter_le]) (simp add: MAX_CATALOG_SURFACES_def MAX_PLUGIN_PLAN_ITEMS_def)
  moreover have "\<forall>s \<in> set ?surfaces. CatalogSurface_validate s = Inr ()"
    using scan_surfaces_inv [OF scan] by (auto simp: scan_inv_def closure_surfaces_def)
  moreover have "sorted_wrt (<) (map CatalogSurface_reference ?surfaces)"
    unfolding closure_surfaces_def by (rule sorted_less_filter [OF record_surfaces_distinct(1) [OF valid]])
  ultimately have release: "PlannedPluginRelease_validate X (ps_release st) (cr_package_id ?r) = Inr () \<longleftrightarrow>
      ?surfaces \<noteq> []"
    using version target by (simp add: release_validate_iff st)
  have "\<exists>p \<in> set (pc_surfaces ?permissions). sp_surface p = CatalogSurface_reference s"
    if s: "s \<in> set ?surfaces" "cs_kind s \<in> {KTool, KMcp}" for s
    using exec s by (fastforce simp: selected_permissions_def closure_surfaces_def is_executable_def)
  then show ?thesis
    using release digest closure_permission_planned [OF valid, of _ requested]
    unfolding state_validate_iff by (simp add: st)
qed

lemma closure_again: "S \<subseteq> A \<Longrightarrow> A \<subseteq> R\<^sup>* `` S \<Longrightarrow> R\<^sup>* `` A = R\<^sup>* `` S"
  by (blast intro: rtrancl_trans)

lemma selected_refs_again:
  assumes "set requested \<subseteq> CatalogSurface_reference ` set (cr_surfaces r)"
  shows "selected_refs r (map CatalogSurface_reference (closure_surfaces r requested)) = selected_refs r requested"
proof -
  let ?mandatory = "{CatalogSurface_reference m | m. m \<in> set (cr_surfaces r) \<and> \<not> cs_optional m}"
  have start: "?mandatory \<union> set requested \<subseteq> selected_refs r requested" unfolding selected_refs_def by blast
  have "x \<in> CatalogSurface_reference ` set (closure_surfaces r requested)" if x: "x \<in> set requested" for x
  proof -
    from assms x obtain s where "s \<in> set (cr_surfaces r)" "x = CatalogSurface_reference s" by blast
    with start x show ?thesis by (auto simp: closure_surfaces_def)
  qed
  then have "?mandatory \<union> set requested \<subseteq>
      ?mandatory \<union> set (map CatalogSurface_reference (closure_surfaces r requested))" by auto
  moreover have "?mandatory \<union> set (map CatalogSurface_reference (closure_surfaces r requested)) \<subseteq>
      selected_refs r requested"
    using start by (auto simp: closure_surfaces_def)
  ultimately show ?thesis unfolding selected_refs_def by (rule closure_again)
qed

text \<open>A selected state can be reconstructed from its own surfaces.\<close>

lemma selected_state_reselect:
  assumes "selected_state X v requested = Inr st"
  shows "selected_state X v (map CatalogSurface_reference (pr_surfaces (ps_release st))) = Inr st"
proof -
  let ?r = "vr_record v"
  let ?refs = "map CatalogSurface_reference (closure_surfaces ?r requested)"
  from assms have verified: "VerifiedPluginCatalogRecord_validate X v = Inr ()" and ok: "request_ok ?r requested"
    and surfaces: "pr_surfaces (ps_release st) = closure_surfaces ?r requested"
    by (auto simp: selected_state_Inr Let_def)
  have same: "selected_refs ?r ?refs = selected_refs ?r requested"
    using ok by (intro selected_refs_again) (simp add: request_ok_def)
  have closure: "closure_surfaces ?r ?refs = closure_surfaces ?r requested"
    by (subst closure_surfaces_def, subst same, rule closure_surfaces_def [symmetric])
  note valid = verified_record_valid(1) [OF verified]
  have "length (cr_surfaces ?r) \<le> MAX_CATALOG_SURFACES"
    using valid by (rule record_validate_parts) (simp add: validate_identity_def)
  then have "length ?refs \<le> MAX_CATALOG_SURFACES"
    unfolding closure_surfaces_def length_map by (rule order_trans [OF length_filter_le])
  then have "request_ok ?r ?refs"
    using record_surfaces_distinct(2) [OF valid]
    by (auto simp: request_ok_def closure_surfaces_def distinct_map inj_on_def)
  with assms closure show ?thesis unfolding surfaces by (simp add: selected_state_Inr Let_def)
qed

section \<open>Lemmas: derived transitions\<close>

lemma surface_digests_total:
  assumes "\<And>st s. state = Some st \<Longrightarrow> s \<in> set (pr_surfaces (ps_release st)) \<Longrightarrow>
    is_ok (CatalogSurface_descriptor_digest X s)"
  shows "\<exists>m. surface_digests X state = Inr m \<and>
    length (bt_keys m) \<le> (case state of None \<Rightarrow> 0 | Some st \<Rightarrow> length (pr_surfaces (ps_release st)))"
proof (cases state)
  case (Some st)
  let ?pairs = "map (\<lambda>s. (CatalogSurface_reference s, projr (CatalogSurface_descriptor_digest X s)))
    (pr_surfaces (ps_release st))"
  have "surface_digests X state = Inr (bt_collect ?pairs)"
    using assms Some by (simp add: surface_digests_def digest_fold bt_collect_def)
  moreover have "length (bt_keys (bt_collect ?pairs)) = card (fst ` set ?pairs)"
    unfolding bt_collect_def by (rule bt.length_keys_collect)
  moreover have "card (fst ` set ?pairs) \<le> length ?pairs" by (rule order_trans [OF card_image_le card_length]) simp
  ultimately show ?thesis using Some by auto
qed (simp add: surface_digests_def)

lemma surface_changes_total:
  assumes "\<And>st s. before = Some st \<or> after = Some st \<Longrightarrow> s \<in> set (pr_surfaces (ps_release st)) \<Longrightarrow>
    is_ok (CatalogSurface_descriptor_digest X s)"
  shows "\<exists>changes. surface_changes X before after = Inr changes \<and>
    length changes \<le> (case before of None \<Rightarrow> 0 | Some st \<Rightarrow> length (pr_surfaces (ps_release st))) +
      (case after of None \<Rightarrow> 0 | Some st \<Rightarrow> length (pr_surfaces (ps_release st)))"
proof -
  from surface_digests_total [of before X] assms obtain b where b: "surface_digests X before = Inr b"
    "length (bt_keys b) \<le> (case before of None \<Rightarrow> 0 | Some st \<Rightarrow> length (pr_surfaces (ps_release st)))" by auto
  from surface_digests_total [of after X] assms obtain a where a: "surface_digests X after = Inr a"
    "length (bt_keys a) \<le> (case after of None \<Rightarrow> 0 | Some st \<Rightarrow> length (pr_surfaces (ps_release st)))" by auto
  let ?refs = "bs_collect (bt_keys b @ bt_keys a)"
  have "surface_change b a r = Inr (projr (surface_change b a r))" if "r \<in> set ?refs" for r
    using that by (cases "bt_get b r"; cases "bt_get a r") (auto simp: surface_change_def Let_def bt_keys_get)
  then have "collect_results (surface_change b a) ?refs = Inr (map (\<lambda>r. projr (surface_change b a r)) ?refs)"
    by (rule collect_results_total)
  moreover have "length ?refs \<le> length (bt_keys b @ bt_keys a)"
    unfolding length_bs_collect by (rule card_length)
  ultimately show ?thesis using a b by (simp add: surface_changes_def)
qed

lemma transition_validate_iff:
  "PlannedPackageTransition_validate X t = Inr () \<longleftrightarrow>
     valid_package_id (pt_package_id t) \<and> length (pt_surfaces t) \<le> MAX_PLUGIN_PLAN_ITEMS \<and>
     (\<forall>st. pt_before t = Some st \<or> pt_after t = Some st \<longrightarrow>
        PlannedPackageState_validate X st (pt_package_id t) = Inr ()) \<and>
     transition_shape t \<and>
     (\<forall>src st. pt_source t = Some src \<longrightarrow> pt_after t = Some st \<longrightarrow> PluginPlanSource_validate X src st = Inr ()) \<and>
     (pt_change t \<noteq> Retain \<longrightarrow> surface_changes X (pt_before t) (pt_after t) = Inr (pt_surfaces t))"
  unfolding PlannedPackageTransition_validate_def validate_surface_changes_def if_Inl_Inr and_then_Inr
  by (cases "pt_before t"; cases "pt_after t"; cases "pt_source t") (auto simp: not_less if_Inl_Inr and_then_Inr)

lemma resolved_total:
  assumes digests: "digests_ok X" and id: "valid_package_id package_id"
    and states: "\<And>st. before = Some st \<or> after = Some st \<Longrightarrow> PlannedPackageState_validate X st package_id = Inr () \<and>
      length (pr_surfaces (ps_release st)) \<le> MAX_CATALOG_SURFACES \<and>
      (\<forall>s \<in> set (pr_surfaces (ps_release st)). is_ok (CatalogSurface_descriptor_digest X s))"
    and source: "\<And>src st. source = Some src \<Longrightarrow> after = Some st \<Longrightarrow> PluginPlanSource_validate X src st = Inr ()"
    and change: "change \<noteq> Retain"
    and shape: "\<And>surfaces. transition_shape \<lparr>pt_package_id = package_id, pt_role = role, pt_change = change,
      pt_before = before, pt_after = after, pt_source = source, pt_surfaces = surfaces\<rparr>"
  shows "\<exists>t. PlannedPackageTransition_resolved X package_id role change before after source = Inr t \<and>
    PlannedPackageTransition_validate X t = Inr ()"
proof -
  from surface_changes_total [of before after X] states obtain surfaces where
    surfaces: "surface_changes X before after = Inr surfaces"
    and len: "length surfaces \<le> (case before of None \<Rightarrow> 0 | Some st \<Rightarrow> length (pr_surfaces (ps_release st))) +
      (case after of None \<Rightarrow> 0 | Some st \<Rightarrow> length (pr_surfaces (ps_release st)))" by blast
  have "length surfaces \<le> MAX_PLUGIN_PLAN_ITEMS"
    using len states by (cases before; cases after)
      (fastforce simp: MAX_CATALOG_SURFACES_def MAX_PLUGIN_PLAN_ITEMS_def)+
  with id states source shape [of surfaces] surfaces
  have "PlannedPackageTransition_validate X \<lparr>pt_package_id = package_id, pt_role = role,
      pt_change = change, pt_before = before, pt_after = after, pt_source = source, pt_surfaces = surfaces\<rparr> = Inr ()"
    unfolding transition_validate_iff by simp
  then show ?thesis
    using surfaces change by (simp add: PlannedPackageTransition_resolved_def Let_def)
qed

lemma selected_state_ready:
  assumes digests: "digests_ok X" and run: "selected_state X v requested = Inr st"
    and some: "pr_surfaces (ps_release st) \<noteq> []"
    and encodable: "\<forall>s \<in> set (cr_surfaces (vr_record v)). is_ok (CatalogSurface_descriptor_digest X s)"
  shows "valid_package_id (cr_package_id (vr_record v))"
    and "PlannedPackageState_validate X st (cr_package_id (vr_record v)) = Inr () \<and>
      length (pr_surfaces (ps_release st)) \<le> MAX_CATALOG_SURFACES \<and>
      (\<forall>s \<in> set (pr_surfaces (ps_release st)). is_ok (CatalogSurface_descriptor_digest X s))"
    and "PluginPlanSource_validate X (registry_source v) st = Inr ()"
proof -
  note release = selected_state_fields(1-4) [OF run] and surfaces = selected_state_fields(5) [OF run]
    and verified = selected_state_fields(7) [OF run]
  note valid = verified_record_valid [OF verified]
  have ident: "validate_identity X (vr_record v)" using valid(1) by (rule record_validate_parts)
  then show "valid_package_id (cr_package_id (vr_record v))" by (simp add: validate_identity_def)
  have "length (pr_surfaces (ps_release st)) \<le> MAX_CATALOG_SURFACES"
    using ident unfolding surfaces closure_surfaces_def
    by (intro order_trans [OF length_filter_le]) (simp add: validate_identity_def)
  with selected_state_valid_iff [OF digests run] some encodable
  show "PlannedPackageState_validate X st (cr_package_id (vr_record v)) = Inr () \<and>
      length (pr_surfaces (ps_release st)) \<le> MAX_CATALOG_SURFACES \<and>
      (\<forall>s \<in> set (pr_surfaces (ps_release st)). is_ok (CatalogSurface_descriptor_digest X s))"
    by (auto simp: surfaces closure_surfaces_def)
  show "PluginPlanSource_validate X (registry_source v) st = Inr ()"
    using valid(2) record_package_digests(3) [OF valid(1)] by (simp add: registry_source_def release)
qed

section \<open>Properties\<close>

text \<open>
  C27: a package state selected from a verified catalog record holds, in catalog order, exactly the
  surfaces in the dependency closure of the mandatory and the requested ones, together with exactly
  their permission ceilings, which never exceed the ceiling of the record; it passes the plan's own
  validation (every permission fits its surface, every UI permission binds a Tool Service that is
  selected too) whenever it selects at least one surface.
\<close>

theorem selected_state_sound:
  assumes "\<And>bytes. valid_sha256 (canonical_digest X bytes)" and run: "selected_state X v requested = Inr st"
  shows "pr_surfaces (ps_release st) = filter (\<lambda>s. CatalogSurface_reference s \<in>
      (surface_depends (cr_surfaces (vr_record v)))\<^sup>* `` ({CatalogSurface_reference m | m.
         m \<in> set (cr_surfaces (vr_record v)) \<and> \<not> cs_optional m} \<union> set requested)) (cr_surfaces (vr_record v)) \<and>
    set (pc_surfaces (ps_permissions st)) = {p \<in> set (pc_surfaces (cr_permission_ceiling (vr_record v))).
      sp_surface p \<in> CatalogSurface_reference ` set (pr_surfaces (ps_release st))} \<and>
    PluginPermissionCeiling_is_within (ps_permissions st) (cr_permission_ceiling (vr_record v)) = Inr True \<and>
    (PlannedPackageState_validate X st (cr_package_id (vr_record v)) = Inr () \<longleftrightarrow> pr_surfaces (ps_release st) \<noteq> [])"
proof -
  have "digests_ok X" using assms(1) by (simp add: digests_ok_def)
  note iff = selected_state_valid_iff [OF this run]
  let ?ceiling = "cr_permission_ceiling (vr_record v)"
  note surfaces = selected_state_fields(5) [OF run] and perms = selected_state_fields(6) [OF run]
    and verified = selected_state_fields(7) [OF run]
  have ceiling: "PluginPermissionCeiling_validate ?ceiling = Inr ()"
    using verified_record_valid(1) [OF verified] by (rule record_validate_parts)
  then have sub: "PluginPermissionCeiling_validate (ps_permissions st) = Inr ()"
    unfolding perms selected_permissions_def by (rule ceiling_filter_valid)
  have "set (pc_surfaces (ps_permissions st)) \<subseteq> set (pc_surfaces ?ceiling)"
    by (auto simp: perms selected_permissions_def)
  then have "PluginPermissionCeiling_is_within (ps_permissions st) ?ceiling = Inr True"
    unfolding ceiling_is_within_exact [OF sub ceiling] by (auto simp: authorizes_def)
  then show ?thesis
    using iff surfaces perms
    by (auto simp: closure_surfaces_def selected_refs_def selected_permissions_def)
qed

text \<open>The externals and the verified record the witnesses of this theory and of the plan use.\<close>

definition witness_verified_tool :: VerifiedPluginCatalogRecord where
  "witness_verified_tool = \<lparr>vr_record = witness_tool_record,
     vr_provenance = \<lparr>vp_registry_name = ''main'', vp_registry_url = ''https://h'', vp_root_sha256 = zero_digest,
       vp_root_version = 1, vp_timestamp_version = 1, vp_snapshot_version = 1, vp_targets_version = 1,
       vp_catalog_record_digest = zero_digest\<rparr>\<rparr>"

lemma witness_digests: "valid_sha256 (canonical_digest (witness_externals_with rest) bytes)"
proof -
  have "canonical_digest (witness_externals_with rest) bytes = zero_digest"
    by (simp add: canonical_digest_def witness_externals_with_def zero_digest_def)
  moreover have "valid_sha256 zero_digest" by code_simp
  ultimately show ?thesis by simp
qed

lemma witness_selected: "is_ok (selected_state witness_externals witness_verified_tool [])"
  by code_simp

theorem selected_state_sound_witness:
  "\<exists>st. selected_state witness_externals witness_verified_tool [] = Inr st \<and>
     PluginPermissionCeiling_is_within (ps_permissions st)
       (cr_permission_ceiling (vr_record witness_verified_tool)) = Inr True"
proof -
  from witness_selected obtain st where st: "selected_state witness_externals witness_verified_tool [] = Inr st"
    by (auto simp: is_ok_iff)
  from selected_state_sound [OF witness_digests st] st show ?thesis by blast
qed

text \<open>
  a state is selected from a verified record by some request exactly when it is selected by the
  references of its own surfaces, so a reviewed state can be reconstructed and compared without knowing
  the original request.
\<close>

theorem selected_state_reconstructs:
  "(\<exists>requested. selected_state X v requested = Inr st) \<longleftrightarrow>
     selected_state X v (map CatalogSurface_reference (pr_surfaces (ps_release st))) = Inr st"
  using selected_state_reselect by blast

text \<open>
  the surface delta of a transition lists, sorted by identity and once each, exactly the surfaces
  present before or after, with the digest of each side and the change that follows from the presence.
\<close>

theorem surface_changes_exact:
  assumes "surface_changes X before after = Inr changes"
    and "\<And>st. before = Some st \<or> after = Some st \<Longrightarrow>
      distinct (map CatalogSurface_reference (pr_surfaces (ps_release st)))"
  shows "sorted_wrt (<) (map sc_change_surface changes) \<and>
    (c \<in> set changes \<longleftrightarrow>
      (\<forall>d. sc_before_digest c = Some d \<longleftrightarrow> digest_in X before (sc_change_surface c) d) \<and>
      (\<forall>d. sc_after_digest c = Some d \<longleftrightarrow> digest_in X after (sc_change_surface c) d) \<and>
      (sc_before_digest c \<noteq> None \<or> sc_after_digest c \<noteq> None) \<and>
      sc_change c = (if sc_before_digest c = None then SurfaceAdd
        else if sc_after_digest c = None then SurfaceRemove else SurfaceReplace))"
proof -
  have "unique_surfaces before" "unique_surfaces after"
    using assms(2) by (auto simp: unique_surfaces_def)
  note spec = surface_changes_spec [OF assms(1) this]
  show ?thesis using spec(1) unfolding spec(2) change_kind_Inr by auto
qed

theorem surface_changes_exact_witness:
  "\<exists>st changes. surface_changes witness_externals None (Some st) = Inr changes \<and>
     sorted_wrt (<) (map sc_change_surface changes)"
proof -
  from witness_selected obtain st where st: "selected_state witness_externals witness_verified_tool [] = Inr st"
    by (auto simp: is_ok_iff)
  then have surfaces: "pr_surfaces (ps_release st) = closure_surfaces witness_tool_record []"
    by (auto simp: selected_state_Inr Let_def witness_verified_tool_def)
  have "is_ok (CatalogSurface_descriptor_digest witness_externals witness_tool)" by code_simp
  then have "is_ok (CatalogSurface_descriptor_digest witness_externals s)" if "s \<in> set (pr_surfaces (ps_release st))" for s
    using that by (simp add: surfaces closure_surfaces_def witness_tool_record_def split: if_splits)
  then have "\<exists>changes. surface_changes witness_externals None (Some st) = Inr changes"
    using surface_changes_total [of None "Some st" witness_externals] by blast
  then obtain changes where changes: "surface_changes witness_externals None (Some st) = Inr changes" by blast
  have "distinct (map CatalogSurface_reference (pr_surfaces (ps_release st)))"
    by (simp add: surfaces closure_surfaces_def witness_tool_record_def)
  with surface_changes_exact [OF changes] changes show ?thesis by blast
qed

text \<open>
  from non-empty selected states of records whose surfaces can be encoded, the install, the remove
  and the replace transition (of a different state of the same package) derived from verified catalog
  evidence all succeed: their own validation accepts them.
\<close>

theorem catalog_transitions_accepted:
  assumes "\<And>bytes. valid_sha256 (canonical_digest X bytes)"
    and new: "selected_state X v requested = Inr after" "pr_surfaces (ps_release after) \<noteq> []"
    and old: "selected_state X w active = Inr before" "pr_surfaces (ps_release before) \<noteq> []"
    and same: "cr_package_id (vr_record w) = cr_package_id (vr_record v)" and differ: "before \<noteq> after"
    and encodable: "\<forall>s \<in> set (cr_surfaces (vr_record v)) \<union> set (cr_surfaces (vr_record w)).
      is_ok (CatalogSurface_descriptor_digest X s)"
  shows "is_ok (install_transition X v role requested) \<and> is_ok (remove_transition X w role active) \<and>
    is_ok (replace_transition X v w role active requested)"
proof -
  have digests: "digests_ok X" using assms(1) by (simp add: digests_ok_def)
  from encodable have enc: "\<forall>s \<in> set (cr_surfaces (vr_record v)). is_ok (CatalogSurface_descriptor_digest X s)"
    "\<forall>s \<in> set (cr_surfaces (vr_record w)). is_ok (CatalogSurface_descriptor_digest X s)" by blast+
  note after = selected_state_ready [OF digests new enc(1)] and before = selected_state_ready [OF digests old enc(2)]
  note total = resolved_total [OF digests]
  have "\<exists>t. PlannedPackageTransition_resolved X (cr_package_id (vr_record v)) role Add None (Some after)
      (Some (registry_source v)) = Inr t \<and> PlannedPackageTransition_validate X t = Inr ()"
    by (rule total [OF after(1)]) (use after(2,3) in \<open>simp_all add: transition_shape_def\<close>)
  moreover have "\<exists>t. PlannedPackageTransition_resolved X (cr_package_id (vr_record w)) role Remove (Some before) None
      None = Inr t \<and> PlannedPackageTransition_validate X t = Inr ()"
    by (rule total [OF before(1)]) (use before(2) in \<open>simp_all add: transition_shape_def\<close>)
  moreover have "\<exists>t. PlannedPackageTransition_resolved X (cr_package_id (vr_record v)) role Replace (Some before)
      (Some after) (Some (registry_source v)) = Inr t \<and> PlannedPackageTransition_validate X t = Inr ()"
  proof (rule total [OF after(1)])
    fix st assume "Some before = Some st \<or> Some after = Some st"
    with after(2) before(2) same show "PlannedPackageState_validate X st (cr_package_id (vr_record v)) = Inr () \<and>
      length (pr_surfaces (ps_release st)) \<le> MAX_CATALOG_SURFACES \<and>
      (\<forall>s \<in> set (pr_surfaces (ps_release st)). is_ok (CatalogSurface_descriptor_digest X s))" by auto
  qed (use after(3) differ in \<open>simp_all add: transition_shape_def\<close>)
  ultimately show ?thesis
    using new(1) old(1) same
    by (auto simp: install_transition_def remove_transition_def replace_transition_def is_ok_iff)
qed

definition witness_release :: "string \<Rightarrow> VerifiedPluginCatalogRecord" where
  "witness_release version = \<lparr>vr_record = witness_record ''a'' version [],
     vr_provenance = vr_provenance witness_verified_tool\<rparr>"

theorem catalog_transitions_accepted_witness:
  "is_ok (replace_transition witness_externals (witness_release ''2'') (witness_release ''1'') Root [] [])"
proof -
  have ok: "is_ok (selected_state witness_externals (witness_release ''2'') [])"
    "is_ok (selected_state witness_externals (witness_release ''1'') [])" by code_simp+
  then obtain before after where
    states: "selected_state witness_externals (witness_release ''2'') [] = Inr after"
      "selected_state witness_externals (witness_release ''1'') [] = Inr before"
    by (auto simp: is_ok_iff)
  have "pr_version (ps_release after) = ''2''" "pr_version (ps_release before) = ''1''"
    using selected_state_fields(2) [OF states(1)] selected_state_fields(2) [OF states(2)]
    by (simp_all add: witness_release_def witness_record_def)
  then have differ: "before \<noteq> after" by auto
  have "witness_surface KSkill ''help'' False [] \<in> set (closure_surfaces (vr_record (witness_release version)) [])" for version
    by (rule mandatory_selected) (simp_all add: witness_release_def witness_record_def witness_surface_def)
  then have some: "pr_surfaces (ps_release after) \<noteq> []" "pr_surfaces (ps_release before) \<noteq> []"
    unfolding selected_state_fields(5) [OF states(1)] selected_state_fields(5) [OF states(2)]
    by (metis empty_iff empty_set)+
  have "is_ok (CatalogSurface_descriptor_digest witness_externals (witness_surface KSkill ''help'' False []))"
    by code_simp
  then have enc: "\<forall>s \<in> set (cr_surfaces (vr_record (witness_release ''2''))) \<union>
      set (cr_surfaces (vr_record (witness_release ''1''))). is_ok (CatalogSurface_descriptor_digest witness_externals s)"
    by (simp add: witness_release_def witness_record_def)
  have "cr_package_id (vr_record (witness_release ''1'')) = cr_package_id (vr_record (witness_release ''2''))"
    by (simp add: witness_release_def witness_record_def)
  from catalog_transitions_accepted [OF witness_digests states(1) some(1) states(2) some(2) this differ enc]
  show ?thesis by blast
qed

end
