(* ===== verification/Plan.thy ===== *)
theory Plan
  imports Plan_Package Package_Lock
begin

text \<open>
  Operation plans: the immutable plan and its envelope of \<open>crates/core/src/plugin/plan.rs\<close>, the
  validation of \<open>plan_validation.rs\<close> (scope, authority, packages, secret delta, provider evidence,
  workspace impacts, aggregate impact) and the checks of \<open>package_lock.rs\<close> that bind a plan to the exact
  dependency closure it was reviewed with.
\<close>

section \<open>Data\<close>

datatype PluginOperationAction = Install | Uninstall | Upgrade | Enable | Disable

datatype PlanQualifiedSurfaceRef = QualifiedSurface (qs_package_id: string) (qs_surface: PluginSurfaceRef)

instantiation PlanQualifiedSurfaceRef :: linorder
begin

definition less_eq_PlanQualifiedSurfaceRef :: "PlanQualifiedSurfaceRef \<Rightarrow> PlanQualifiedSurfaceRef \<Rightarrow> bool" where
  "less_eq_PlanQualifiedSurfaceRef a b = ((qs_package_id a, qs_surface a) \<le> (qs_package_id b, qs_surface b))"

definition less_PlanQualifiedSurfaceRef :: "PlanQualifiedSurfaceRef \<Rightarrow> PlanQualifiedSurfaceRef \<Rightarrow> bool" where
  "less_PlanQualifiedSurfaceRef a b = ((qs_package_id a, qs_surface a) < (qs_package_id b, qs_surface b))"

instance
proof
  fix a b c :: PlanQualifiedSurfaceRef
  show "a < b \<longleftrightarrow> a \<le> b \<and> \<not> b \<le> a"
    by (simp only: less_eq_PlanQualifiedSurfaceRef_def less_PlanQualifiedSurfaceRef_def less_le_not_le)
  show "a \<le> a" by (simp only: less_eq_PlanQualifiedSurfaceRef_def order_refl)
  show "a \<le> b \<Longrightarrow> b \<le> c \<Longrightarrow> a \<le> c"
    unfolding less_eq_PlanQualifiedSurfaceRef_def by (rule order_trans)
  show "a \<le> b \<Longrightarrow> b \<le> a \<Longrightarrow> a = b"
    unfolding less_eq_PlanQualifiedSurfaceRef_def
    by (metis PlanQualifiedSurfaceRef.expand order_antisym prod.inject)
  show "a \<le> b \<or> b \<le> a" unfolding less_eq_PlanQualifiedSurfaceRef_def by (rule linear)
qed

end

datatype PlannedSecretChangeKind = SecretGrant | SecretRevoke

primrec secret_change_rank :: "PlannedSecretChangeKind \<Rightarrow> nat" where
  "secret_change_rank SecretGrant = 0"
| "secret_change_rank SecretRevoke = 1"

datatype PlannedSecretChange = SecretChange (se_surface: PlanQualifiedSurfaceRef) (se_secret_name: string)
  (se_change: PlannedSecretChangeKind)

text \<open>The derived order compares the fields one after the other.\<close>

definition secret_key :: "PlannedSecretChange \<Rightarrow> PlanQualifiedSurfaceRef \<times> string \<times> nat" where
  "secret_key c = (se_surface c, se_secret_name c, secret_change_rank (se_change c))"

lemma secret_key_inject [simp]: "secret_key a = secret_key b \<longleftrightarrow> a = b"
proof -
  have "secret_change_rank k = secret_change_rank l \<longleftrightarrow> k = l" for k l by (cases k; cases l) simp_all
  then show ?thesis by (auto simp: secret_key_def intro: PlannedSecretChange.expand)
qed

instantiation PlannedSecretChange :: linorder
begin

definition less_eq_PlannedSecretChange :: "PlannedSecretChange \<Rightarrow> PlannedSecretChange \<Rightarrow> bool" where
  "less_eq_PlannedSecretChange a b = (secret_key a \<le> secret_key b)"

definition less_PlannedSecretChange :: "PlannedSecretChange \<Rightarrow> PlannedSecretChange \<Rightarrow> bool" where
  "less_PlannedSecretChange a b = (secret_key a < secret_key b)"

instance
  by standard (auto simp only: less_eq_PlannedSecretChange_def less_PlannedSecretChange_def less_le_not_le
      order_refl linear secret_key_inject [symmetric] dest: order_trans order_antisym)

end

datatype PlanEnforcementProfile = Container | NativeUnconfined | Sandbox

record PlannedProviderEvidence =
  pv_surface :: PlanQualifiedSurfaceRef
  pv_provider_id :: string
  pv_provider_build_id :: string
  pv_capability_digest :: string
  pv_semantics_profile_digest :: string
  pv_enforcement :: PlanEnforcementProfile

record PlannedWorkspaceImpact =
  wi_scope_id :: string
  wi_grant_before_digest :: "string option"
  wi_grant_after_digest :: "string option"
  wi_enabled_before :: bool
  wi_enabled_after :: bool

record PlannedOkfSurfaceChange =
  oc_surface :: PlanQualifiedSurfaceRef
  oc_change :: SurfaceChangeKind
  oc_before :: "OkfBundleContract option"
  oc_after :: "OkfBundleContract option"

record PlannedOperationImpact =
  im_download_bytes :: u64
  im_installed_bytes_after :: u64
  im_reclaimed_bytes :: u64
  im_drain_required :: bool
  im_retained_data :: bool
  im_okf_changes :: "PlannedOkfSurfaceChange list"

datatype PlanActor = Agent | UserActor

datatype PlanPolicyDecision = Allow | Ask | Deny

record PlanAuthority =
  au_actor :: PlanActor
  au_decision :: PlanPolicyDecision
  au_policy_digest :: string
  au_confirmation_required :: bool

record PlannedStateEvidence =
  es_state_revision :: u64
  es_capability_generation :: u64
  es_receipt_digest :: "string option"

record PluginOperationPlan =
  po_schema :: string
  po_operation_id :: string
  po_created_at_ms :: u64
  po_expires_at_ms :: u64
  po_action :: PluginOperationAction
  po_package_id :: string
  po_component_id :: string
  po_scope :: InstallationId
  po_package_lock_digest :: "string option"
  po_prior_package_lock_digest :: "string option"
  po_packages :: "PlannedPackageTransition list"
  po_secret_changes :: "PlannedSecretChange list"
  po_providers :: "PlannedProviderEvidence list"
  po_workspace_impacts :: "PlannedWorkspaceImpact list"
  po_impact :: PlannedOperationImpact
  po_authority :: PlanAuthority
  po_state :: PlannedStateEvidence

record PluginOperationPlanEnvelope =
  pe_plan :: PluginOperationPlan
  pe_plan_digest :: string
  pe_package_lock :: "PluginPackageLock option"
  pe_prior_package_lock :: "PluginPackageLock option"

record ('v, 'r) plan_externals = "('v, 'r) lock_externals" +
  plan_to_json :: "PluginOperationPlan \<Rightarrow> string option"
  plan_from_json :: "string \<Rightarrow> PluginOperationPlan option"

definition MAX_PLAN_LIFETIME_MS :: u64 where
  "MAX_PLAN_LIFETIME_MS = 60 * 60 * 1000"

definition PLUGIN_OPERATION_PLAN_SCHEMA_V4 :: string where
  "PLUGIN_OPERATION_PLAN_SCHEMA_V4 = ''a3s.use.plugin-operation-plan.v4''"

section \<open>Secret and bundle deltas\<close>

definition collect_secrets ::
  "string \<Rightarrow> PlannedPackageState option \<Rightarrow> (PlanQualifiedSurfaceRef \<times> string) btree_set
     \<Rightarrow> (PlanQualifiedSurfaceRef \<times> string) btree_set" where
  "collect_secrets package_id state output =
     (case state of
        None \<Rightarrow> output
      | Some state \<Rightarrow>
          bs_extend output (concat (map (\<lambda>permission.
            map (\<lambda>secret_name. (QualifiedSurface package_id (sp_surface permission), secret_name))
              (filter valid_permission_name (sp_secrets permission))) (pc_surfaces (ps_permissions state)))))"

definition secrets_before ::
  "PluginOperationAction \<Rightarrow> PlannedPackageTransition list \<Rightarrow> (PlanQualifiedSurfaceRef \<times> string) btree_set" where
  "secrets_before action packages =
     foldl (\<lambda>output package.
       if action \<noteq> Enable then collect_secrets (pt_package_id package) (pt_before package) output else output)
       [] packages"

definition secrets_after ::
  "PluginOperationAction \<Rightarrow> PlannedPackageTransition list \<Rightarrow> (PlanQualifiedSurfaceRef \<times> string) btree_set" where
  "secrets_after action packages =
     foldl (\<lambda>output package.
       if action \<noteq> Disable then collect_secrets (pt_package_id package) (pt_after package) output else output)
       [] packages"

definition planned_secret_changes ::
  "PluginOperationAction \<Rightarrow> PlannedPackageTransition list \<Rightarrow> PlannedSecretChange list" where
  "planned_secret_changes action packages =
     (let before = secrets_before action packages; after = secrets_after action packages in
      sort (map (\<lambda>(surface, secret_name). SecretChange surface secret_name SecretRevoke)
              (filter (\<lambda>x. x \<notin> set after) before)
            @ map (\<lambda>(surface, secret_name). SecretChange surface secret_name SecretGrant)
              (filter (\<lambda>x. x \<notin> set before) after)))"

definition collect_okf_bundle ::
  "string \<Rightarrow> (PlanQualifiedSurfaceRef, OkfBundleContract) btree_map \<Rightarrow> CatalogSurface
     \<Rightarrow> (PlanQualifiedSurfaceRef, OkfBundleContract) btree_map use_result" where
  "collect_okf_bundle package_id output surface =
     (if cs_kind surface \<noteq> KOkf then Inr output
      else
      and_then (ok_or PlanInvalid (cs_okf_bundle surface)) (\<lambda>bundle.
      and_then (map_err (\<lambda>_. PlanInvalid) (OkfBundleContract_validate bundle)) (\<lambda>_.
        Inr (bt_insert (QualifiedSurface package_id (CatalogSurface_reference surface)) bundle output))))"

definition collect_okf_bundles ::
  "string \<Rightarrow> PlannedPackageState option \<Rightarrow> (PlanQualifiedSurfaceRef, OkfBundleContract) btree_map
     \<Rightarrow> (PlanQualifiedSurfaceRef, OkfBundleContract) btree_map use_result" where
  "collect_okf_bundles package_id state output =
     (case state of
        None \<Rightarrow> Inr output
      | Some state \<Rightarrow> fold_result (collect_okf_bundle package_id) output (pr_surfaces (ps_release state)))"

text \<open>One iteration of the package loop, the state being the two maps.\<close>

definition okf_package_step ::
  "PluginOperationAction
     \<Rightarrow> (PlanQualifiedSurfaceRef, OkfBundleContract) btree_map \<times> (PlanQualifiedSurfaceRef, OkfBundleContract) btree_map
     \<Rightarrow> PlannedPackageTransition
     \<Rightarrow> ((PlanQualifiedSurfaceRef, OkfBundleContract) btree_map \<times> (PlanQualifiedSurfaceRef, OkfBundleContract) btree_map)
       use_result" where
  "okf_package_step action maps package =
     and_then (if action \<noteq> Enable then collect_okf_bundles (pt_package_id package) (pt_before package) (fst maps)
               else Inr (fst maps)) (\<lambda>before.
     and_then (if action \<noteq> Disable then collect_okf_bundles (pt_package_id package) (pt_after package) (snd maps)
               else Inr (snd maps)) (\<lambda>after.
       Inr (before, after)))"

definition planned_okf_change ::
  "(PlanQualifiedSurfaceRef, OkfBundleContract) btree_map \<Rightarrow> (PlanQualifiedSurfaceRef, OkfBundleContract) btree_map
     \<Rightarrow> PlanQualifiedSurfaceRef \<Rightarrow> PlannedOkfSurfaceChange use_result" where
  "planned_okf_change before after surface =
     and_then (change_kind (bt_get before surface \<noteq> None) (bt_get after surface \<noteq> None)) (\<lambda>change.
       Inr \<lparr>oc_surface = surface, oc_change = change, oc_before = bt_get before surface,
         oc_after = bt_get after surface\<rparr>)"

definition planned_okf_changes ::
  "PluginOperationAction \<Rightarrow> PlannedPackageTransition list \<Rightarrow> PlannedOkfSurfaceChange list use_result" where
  "planned_okf_changes action packages =
     and_then (fold_result (okf_package_step action) ([], []) packages) (\<lambda>(before, after).
       collect_results (planned_okf_change before after) (bs_collect (bt_keys before @ bt_keys after)))"

section \<open>Validation of a plan\<close>

definition validate_authority_and_state :: "PluginOperationPlan \<Rightarrow> unit use_result" where
  "validate_authority_and_state self =
     (if \<not> valid_sha256 (au_policy_digest (po_authority self))
         \<or> au_confirmation_required (po_authority self) \<noteq> (au_decision (po_authority self) = Ask)
         \<or> es_state_revision (po_state self) = 0
         \<or> is_some_and (\<lambda>value. \<not> valid_sha256 value) (es_receipt_digest (po_state self))
      then Inl PlanInvalid
      else if (case po_action self of
            Install \<Rightarrow> es_receipt_digest (po_state self) = None
          | _ \<Rightarrow> es_receipt_digest (po_state self) \<noteq> None)
      then Inr () else Inl PlanInvalid)"

definition expected_root_change :: "PluginOperationAction \<Rightarrow> PlanPackageChangeKind" where
  "expected_root_change action =
     (case action of Install \<Rightarrow> Add | Upgrade \<Rightarrow> Replace | Uninstall \<Rightarrow> Remove | Enable \<Rightarrow> Retain | Disable \<Rightarrow> Retain)"

text \<open>One iteration of the loop of \<open>validate_packages\<close>, the state being the number of roots.\<close>

definition validate_plan_package ::
  "('v, 'r, 'x) catalog_externals_scheme \<Rightarrow> PluginOperationPlan \<Rightarrow> nat \<Rightarrow> PlannedPackageTransition \<Rightarrow> nat use_result" where
  "validate_plan_package X self roots package =
     and_then (PlannedPackageTransition_validate X package) (\<lambda>_.
     if pt_role package = Root then
       (if pt_package_id package \<noteq> po_package_id self \<or> pt_change package \<noteq> expected_root_change (po_action self)
        then Inl PlanInvalid else Inr (roots + 1))
     else if pt_package_id package = po_package_id self then Inl PlanInvalid
     else Inr roots)"

definition is_local_reviewed :: "PlannedPackageTransition \<Rightarrow> bool" where
  "is_local_reviewed package = (case pt_source package of Some (LocalReviewed _ _ _) \<Rightarrow> True | _ \<Rightarrow> False)"

definition validate_packages ::
  "('v, 'r, 'x) catalog_externals_scheme \<Rightarrow> PluginOperationPlan \<Rightarrow> unit use_result" where
  "validate_packages X self =
     (if windows2_any (\<lambda>a b. pt_package_id a \<ge> pt_package_id b) (po_packages self) then Inl PlanInvalid
      else
      and_then (fold_result (validate_plan_package X self) 0 (po_packages self)) (\<lambda>roots.
      if roots \<noteq> 1 then Inl PlanInvalid
      else if (\<exists>package \<in> set (po_packages self). is_local_reviewed package) \<and>
          (au_actor (po_authority self) \<noteq> UserActor \<or> au_decision (po_authority self) \<noteq> Ask)
      then Inl PlanInvalid else Inr ()))"

definition validate_secrets :: "PluginOperationPlan \<Rightarrow> unit use_result" where
  "validate_secrets self =
     (if \<not> strictly_sorted_unique (po_secret_changes self) then Inl PlanInvalid
      else if po_secret_changes self \<noteq> planned_secret_changes (po_action self) (po_packages self)
      then Inl PlanInvalid else Inr ())"

definition permission_for ::
  "PlannedPackageTransition list \<Rightarrow> PlanQualifiedSurfaceRef \<Rightarrow> SurfacePermissionCeiling option" where
  "permission_for packages surface =
     Option.bind (List.find (\<lambda>package. pt_package_id package = qs_package_id surface) packages) (\<lambda>package.
     Option.bind (pt_after package) (\<lambda>state.
       List.find (\<lambda>permission. sp_surface permission = qs_surface surface) (pc_surfaces (ps_permissions state))))"

definition is_host_grant :: "PlanQualifiedSurfaceRef \<Rightarrow> SurfacePermissionCeiling \<Rightarrow> bool" where
  "is_host_grant required permission =
     (sr_kind (qs_surface required) = KMcp \<and> \<not> sp_native_execution permission
      \<and> \<not> sp_private_service permission \<and> sp_network_egress permission \<noteq> [])"

definition enforcement_matches ::
  "PlanQualifiedSurfaceRef \<Rightarrow> SurfacePermissionCeiling \<Rightarrow> PlanEnforcementProfile \<Rightarrow> bool" where
  "enforcement_matches required permission enforcement =
     (if is_host_grant required permission then enforcement = NativeUnconfined
      else if sp_native_execution permission then enforcement \<in> {Sandbox, NativeUnconfined}
      else enforcement = Container)"

definition PlannedProviderEvidence_validate ::
  "PluginOperationPlan \<Rightarrow> PlannedProviderEvidence \<Rightarrow> PlanQualifiedSurfaceRef \<Rightarrow> unit use_result" where
  "PlannedProviderEvidence_validate plan self required =
     (if pv_surface self \<noteq> required
         \<or> \<not> valid_machine_id (pv_provider_id self)
         \<or> \<not> valid_machine_id (pv_provider_build_id self)
         \<or> \<not> valid_sha256 (pv_capability_digest self)
         \<or> \<not> valid_sha256 (pv_semantics_profile_digest self)
      then Inl PlanInvalid
      else
      and_then (ok_or PlanInvalid (permission_for (po_packages plan) required)) (\<lambda>permission.
      if \<not> enforcement_matches required permission (pv_enforcement self)
         \<or> (au_actor (po_authority plan) = Agent \<and> au_decision (po_authority plan) = Allow
             \<and> pv_enforcement self = NativeUnconfined)
      then Inl PlanInvalid else Inr ()))"

definition executable_surfaces :: "PlannedPackageTransition list \<Rightarrow> PlanQualifiedSurfaceRef list" where
  "executable_surfaces packages =
     concat (map (\<lambda>package.
       case pt_after package of
         None \<Rightarrow> []
       | Some state \<Rightarrow> map (\<lambda>surface. QualifiedSurface (pt_package_id package) (CatalogSurface_reference surface))
           (filter (\<lambda>surface. cs_kind surface \<in> {KTool, KMcp}) (pr_surfaces (ps_release state)))) packages)"

definition validate_providers :: "PluginOperationPlan \<Rightarrow> unit use_result" where
  "validate_providers self =
     (if po_action self \<in> {Uninstall, Disable} then
        (if po_providers self \<noteq> [] then Inl PlanInvalid else Inr ())
      else
        (let required = sort (executable_surfaces (po_packages self)) in
         if length (po_providers self) \<noteq> length required then Inl PlanInvalid
         else for_each (\<lambda>(provider, required_surface).
             PlannedProviderEvidence_validate self provider required_surface)
           (zip (po_providers self) required)))"

definition expected_enablement :: "PluginOperationAction \<Rightarrow> bool \<times> bool" where
  "expected_enablement action =
     (case action of Install \<Rightarrow> (False, True) | Enable \<Rightarrow> (False, True) | Upgrade \<Rightarrow> (True, True)
      | Uninstall \<Rightarrow> (True, False) | Disable \<Rightarrow> (True, False))"

definition workspace_impact_invalid :: "PluginOperationAction \<Rightarrow> PlannedWorkspaceImpact \<Rightarrow> bool" where
  "workspace_impact_invalid action impact =
     (\<not> is_ok (InstallationId_new Workspace (wi_scope_id impact))
      \<or> is_some_and (\<lambda>value. \<not> valid_sha256 value) (wi_grant_before_digest impact)
      \<or> is_some_and (\<lambda>value. \<not> valid_sha256 value) (wi_grant_after_digest impact)
      \<or> (wi_enabled_before impact, wi_enabled_after impact) \<noteq> expected_enablement action
      \<or> (action \<noteq> Upgrade \<and> wi_grant_before_digest impact = wi_grant_after_digest impact
          \<and> wi_enabled_before impact = wi_enabled_after impact))"

definition validate_workspace_impacts :: "PluginOperationPlan \<Rightarrow> unit use_result" where
  "validate_workspace_impacts self =
     (if windows2_any (\<lambda>a b. wi_scope_id a \<ge> wi_scope_id b) (po_workspace_impacts self) then Inl PlanInvalid
      else
      and_then (for_each (\<lambda>impact. if workspace_impact_invalid (po_action self) impact then Inl PlanInvalid else Inr ())
        (po_workspace_impacts self)) (\<lambda>_.
      if inst_kind (po_scope self) = Workspace \<and>
         \<not> (case po_workspace_impacts self of [impact] \<Rightarrow> wi_scope_id impact = inst_id (po_scope self) | _ \<Rightarrow> False)
      then Inl PlanInvalid else Inr ()))"

definition has_private_service :: "PlannedPackageState \<Rightarrow> bool" where
  "has_private_service state = (\<exists>permission \<in> set (pc_surfaces (ps_permissions state)). sp_private_service permission)"

definition impact_amounts_valid :: "PluginOperationAction \<Rightarrow> PlannedOperationImpact \<Rightarrow> bool" where
  "impact_amounts_valid action impact =
     (case action of
        Install \<Rightarrow> im_download_bytes impact > 0 \<and> im_installed_bytes_after impact > 0
          \<and> im_reclaimed_bytes impact = 0 \<and> \<not> im_retained_data impact
      | Upgrade \<Rightarrow> im_download_bytes impact > 0 \<and> im_installed_bytes_after impact > 0 \<and> \<not> im_retained_data impact
      | Uninstall \<Rightarrow> im_download_bytes impact = 0 \<and> im_installed_bytes_after impact = 0 \<and> im_retained_data impact
      | Enable \<Rightarrow> im_download_bytes impact = 0 \<and> im_installed_bytes_after impact > 0
          \<and> im_reclaimed_bytes impact = 0 \<and> \<not> im_drain_required impact \<and> \<not> im_retained_data impact
      | Disable \<Rightarrow> im_download_bytes impact = 0 \<and> im_installed_bytes_after impact > 0
          \<and> im_reclaimed_bytes impact = 0 \<and> im_retained_data impact)"

definition drain_needed :: "PluginOperationAction \<Rightarrow> PlannedPackageTransition list \<Rightarrow> bool" where
  "drain_needed action packages =
     (if action = Disable then
        (\<exists>package \<in> set packages. is_some_and has_private_service (pt_before package))
      else
        (\<exists>package \<in> set packages. pt_change package \<in> {Remove, Replace} \<and>
           is_some_and has_private_service (pt_before package)))"

definition validate_impact :: "PluginOperationPlan \<Rightarrow> unit use_result" where
  "validate_impact self =
     and_then (planned_okf_changes (po_action self) (po_packages self)) (\<lambda>okf_changes.
     if \<not> impact_amounts_valid (po_action self) (po_impact self)
        \<or> im_drain_required (po_impact self) \<noteq> drain_needed (po_action self) (po_packages self)
        \<or> im_okf_changes (po_impact self) \<noteq> okf_changes
        \<or> po_schema self \<noteq> PLUGIN_OPERATION_PLAN_SCHEMA_V4
     then Inl PlanInvalid else Inr ())"

definition plan_header_valid :: "PluginOperationPlan \<Rightarrow> bool" where
  "plan_header_valid self = (\<not>
     (po_schema self \<noteq> PLUGIN_OPERATION_PLAN_SCHEMA_V4
      \<or> \<not> valid_machine_id (po_operation_id self)
      \<or> \<not> valid_package_id (po_package_id self)
      \<or> \<not> valid_machine_id (po_component_id self)
      \<or> is_some_and (\<lambda>value. \<not> valid_sha256 value) (po_package_lock_digest self)
      \<or> is_some_and (\<lambda>value. \<not> valid_sha256 value) (po_prior_package_lock_digest self)
      \<or> (po_prior_package_lock_digest self \<noteq> None \<and>
          (po_action self \<noteq> Upgrade \<or> po_package_lock_digest self = None))
      \<or> po_created_at_ms self = 0
      \<or> po_expires_at_ms self \<le> po_created_at_ms self
      \<or> po_expires_at_ms self - po_created_at_ms self > MAX_PLAN_LIFETIME_MS
      \<or> po_packages self = []
      \<or> length (po_packages self) > MAX_PLUGIN_PLAN_ITEMS
      \<or> length (po_secret_changes self) > MAX_PLUGIN_PLAN_ITEMS
      \<or> length (po_providers self) > MAX_PLUGIN_PLAN_ITEMS
      \<or> length (po_workspace_impacts self) > MAX_PLUGIN_PLAN_ITEMS))"

definition PluginOperationPlan_validate ::
  "('v, 'r, 'x) catalog_externals_scheme \<Rightarrow> PluginOperationPlan \<Rightarrow> unit use_result" where
  "PluginOperationPlan_validate X self =
     (if \<not> plan_header_valid self then Inl PlanInvalid
      else
      and_then (map_err (\<lambda>_. PlanInvalid) (InstallationId_validate (po_scope self))) (\<lambda>_.
      and_then (validate_authority_and_state self) (\<lambda>_.
      and_then (validate_packages X self) (\<lambda>_.
      and_then (validate_secrets self) (\<lambda>_.
      and_then (validate_providers self) (\<lambda>_.
      and_then (validate_workspace_impacts self) (\<lambda>_.
        validate_impact self)))))))"

definition PluginOperationPlan_validate_operation_id :: "string \<Rightarrow> unit use_result" where
  "PluginOperationPlan_validate_operation_id operation_id =
     (if \<not> valid_machine_id operation_id then Inl PlanInvalid else Inr ())"

definition PluginOperationPlan_from_json ::
  "('v, 'r, 'x) plan_externals_scheme \<Rightarrow> string \<Rightarrow> PluginOperationPlan use_result" where
  "PluginOperationPlan_from_json X input =
     parse_contract (plan_from_json X) PlanInvalid (PluginOperationPlan_validate X) input"

definition PluginOperationPlan_canonical_bytes ::
  "('v, 'r, 'x) plan_externals_scheme \<Rightarrow> PluginOperationPlan \<Rightarrow> string use_result" where
  "PluginOperationPlan_canonical_bytes X self =
     and_then (PluginOperationPlan_validate X self) (\<lambda>_. canonical_json (plan_to_json X) PlanInvalid self)"

definition PluginOperationPlan_descriptor_digest ::
  "('v, 'r, 'x) plan_externals_scheme \<Rightarrow> PluginOperationPlan \<Rightarrow> string use_result" where
  "PluginOperationPlan_descriptor_digest X self =
     and_then (PluginOperationPlan_canonical_bytes X self) (\<lambda>bytes. Inr (canonical_digest X bytes))"

section \<open>Plans against package locks\<close>

definition validate_locked_state ::
  "('v, 'r, 'x) catalog_externals_scheme \<Rightarrow> LockedPluginPackage \<Rightarrow> PlannedPackageState \<Rightarrow> unit use_result" where
  "validate_locked_state X locked state =
     and_then (map_err (\<lambda>_. PackageLockInvalid) (selected_state X (lp_catalog locked)
       (map CatalogSurface_reference (pr_surfaces (ps_release state))))) (\<lambda>expected.
     if expected \<noteq> state then Inl PackageLockInvalid else Inr ())"

definition validate_prior_state ::
  "('v, 'r, 'x) catalog_externals_scheme \<Rightarrow> LockedPluginPackage \<Rightarrow> PlannedPackageTransition \<Rightarrow> unit use_result" where
  "validate_prior_state X locked transition =
     and_then (ok_or PackageLockInvalid (pt_before transition)) (validate_locked_state X locked)"

definition validate_candidate_state ::
  "('v, 'r, 'x) catalog_externals_scheme \<Rightarrow> LockedPluginPackage \<Rightarrow> PlannedPackageTransition \<Rightarrow> unit use_result" where
  "validate_candidate_state X locked transition =
     and_then (ok_or PackageLockInvalid (pt_after transition)) (validate_locked_state X locked)"

definition validate_candidate_transition ::
  "('v, 'r, 'x) catalog_externals_scheme \<Rightarrow> LockedPluginPackage \<Rightarrow> PlannedPackageTransition \<Rightarrow> unit use_result" where
  "validate_candidate_transition X locked transition =
     and_then (validate_candidate_state X locked transition) (\<lambda>_.
     if pt_source transition \<noteq> Some (registry_source (lp_catalog locked))
     then Inl PackageLockInvalid else Inr ())"

definition validate_locked_transition ::
  "('v, 'r, 'x) catalog_externals_scheme \<Rightarrow> LockedPluginPackage \<Rightarrow> PlannedPackageTransition \<Rightarrow> unit use_result" where
  "validate_locked_transition X locked transition =
     (let installs = pt_change transition \<in> {Add, Replace} in
      and_then (ok_or PackageLockInvalid (if installs then pt_after transition else pt_before transition)) (\<lambda>state.
      and_then (validate_locked_state X locked state) (\<lambda>_.
      if installs then
        (if pt_source transition \<noteq> Some (registry_source (lp_catalog locked))
         then Inl PackageLockInvalid else Inr ())
      else if pt_source transition \<noteq> None then Inl PackageLockInvalid else Inr ())))"

definition expected_role :: "PluginPackageLock \<Rightarrow> string \<Rightarrow> PlanPackageRole" where
  "expected_role lock package_id = (if package_id = pl_root_package_id lock then Root else Dependency)"

definition transition_index :: "PluginOperationPlan \<Rightarrow> (string, PlannedPackageTransition) btree_map" where
  "transition_index plan = bt_collect (map (\<lambda>transition. (pt_package_id transition, transition)) (po_packages plan))"

definition PluginPackageLock_validate_for_plan ::
  "('v, 'r, 'x) plan_externals_scheme \<Rightarrow> PluginPackageLock \<Rightarrow> PluginOperationPlan \<Rightarrow> unit use_result" where
  "PluginPackageLock_validate_for_plan X self plan =
     and_then (PluginPackageLock_validate X self) (\<lambda>_.
     and_then (PluginOperationPlan_validate X plan) (\<lambda>_.
     if po_package_id plan \<noteq> pl_root_package_id self \<or> length (po_packages plan) \<noteq> length (pl_packages self)
     then Inl PackageLockInvalid
     else
     for_each (\<lambda>locked.
       and_then (ok_or PackageLockInvalid (bt_get (transition_index plan) (LockedPluginPackage_package_id locked)))
         (\<lambda>transition.
       if pt_role transition \<noteq> expected_role self (LockedPluginPackage_package_id locked)
       then Inl PackageLockInvalid
       else validate_locked_transition X locked transition)) (pl_packages self)))"

text \<open>The match of \<open>validate_upgrade_plan\<close> on the prior and the candidate node of one package.\<close>

definition validate_upgrade_delta ::
  "('v, 'r, 'x) catalog_externals_scheme \<Rightarrow> LockedPluginPackage option \<Rightarrow> LockedPluginPackage option
     \<Rightarrow> PlannedPackageTransition \<Rightarrow> unit use_result" where
  "validate_upgrade_delta X prior candidate transition =
     (case (prior, candidate) of
        (None, Some after) \<Rightarrow>
          if pt_change transition = Add then validate_candidate_transition X after transition
          else if pt_change transition = Retain then
            and_then (validate_prior_state X after transition) (\<lambda>_. validate_candidate_state X after transition)
          else Inl PackageLockInvalid
      | (Some before, None) \<Rightarrow>
          if pt_change transition = Remove then validate_prior_state X before transition
          else if pt_change transition = Retain then
            and_then (validate_prior_state X before transition) (\<lambda>_. validate_candidate_state X before transition)
          else Inl PackageLockInvalid
      | (Some before, Some after) \<Rightarrow>
          if lp_catalog before = lp_catalog after \<and> pt_change transition = Retain then
            and_then (validate_prior_state X before transition) (\<lambda>_. validate_candidate_state X after transition)
          else if lp_catalog before \<noteq> lp_catalog after \<and> pt_change transition = Replace then
            and_then (validate_prior_state X before transition) (\<lambda>_. validate_candidate_transition X after transition)
          else Inl PackageLockInvalid
      | (None, None) \<Rightarrow> Inl PackageLockInvalid)"

definition PluginPackageLock_validate_upgrade_plan ::
  "('v, 'r, 'x) plan_externals_scheme \<Rightarrow> PluginPackageLock \<Rightarrow> PluginPackageLock \<Rightarrow> PluginOperationPlan
     \<Rightarrow> unit use_result" where
  "PluginPackageLock_validate_upgrade_plan X prior candidate plan =
     and_then (PluginPackageLock_validate X prior) (\<lambda>_.
     and_then (PluginPackageLock_validate X candidate) (\<lambda>_.
     and_then (PluginOperationPlan_validate X plan) (\<lambda>_.
     if po_action plan \<noteq> Upgrade \<or> po_package_id plan \<noteq> pl_root_package_id candidate
        \<or> pl_root_package_id prior \<noteq> pl_root_package_id candidate \<or> pl_host prior \<noteq> pl_host candidate
     then Inl PackageLockInvalid
     else
     (let package_ids = bs_collect (map LockedPluginPackage_package_id (pl_packages prior @ pl_packages candidate));
          transitions = transition_index plan in
      if length package_ids \<noteq> length (po_packages plan) then Inl PackageLockInvalid
      else if length transitions \<noteq> length (po_packages plan) then Inl PackageLockInvalid
      else
      for_each (\<lambda>package_id.
        and_then (ok_or PackageLockInvalid (bt_get transitions package_id)) (\<lambda>transition.
        if pt_role transition \<noteq> expected_role candidate package_id then Inl PackageLockInvalid
        else validate_upgrade_delta X (PluginPackageLock_package prior package_id)
          (PluginPackageLock_package candidate package_id) transition)) package_ids))))"

section \<open>Envelopes\<close>

definition PluginOperationPlanEnvelope_validate ::
  "('v, 'r, 'x) plan_externals_scheme \<Rightarrow> PluginOperationPlanEnvelope \<Rightarrow> unit use_result" where
  "PluginOperationPlanEnvelope_validate X self =
     (let plan = pe_plan self in
      and_then (PluginOperationPlan_validate X plan) (\<lambda>_.
      and_then (PluginOperationPlan_descriptor_digest X plan) (\<lambda>digest.
      if digest \<noteq> pe_plan_digest self then Inl PlanInvalid
      else
      (case (po_package_lock_digest plan, pe_package_lock self, po_prior_package_lock_digest plan,
             pe_prior_package_lock self) of
         (None, None, None, None) \<Rightarrow> if po_action plan \<noteq> Upgrade then Inr () else Inl PlanInvalid
       | (Some expected, Some package_lock, None, None) \<Rightarrow>
           if po_action plan = Upgrade then Inl PlanInvalid
           else
           and_then (PluginPackageLock_descriptor_digest X package_lock) (\<lambda>digest.
           if digest \<noteq> expected then Inl PlanInvalid
           else PluginPackageLock_validate_for_plan X package_lock plan)
       | (Some expected, Some package_lock, Some prior_expected, Some prior_package_lock) \<Rightarrow>
           if po_action plan \<noteq> Upgrade then Inl PlanInvalid
           else
           and_then (PluginPackageLock_descriptor_digest X package_lock) (\<lambda>digest.
           if digest \<noteq> expected then Inl PlanInvalid
           else
           and_then (PluginPackageLock_descriptor_digest X prior_package_lock) (\<lambda>prior_digest.
           if prior_digest \<noteq> prior_expected then Inl PlanInvalid
           else PluginPackageLock_validate_upgrade_plan X prior_package_lock package_lock plan))
       | _ \<Rightarrow> Inl PlanInvalid))))"

definition envelope_of ::
  "('v, 'r, 'x) plan_externals_scheme \<Rightarrow> PluginOperationPlan \<Rightarrow> PluginPackageLock option
     \<Rightarrow> PluginPackageLock option \<Rightarrow> PluginOperationPlanEnvelope use_result" where
  "envelope_of X plan package_lock prior_package_lock =
     and_then (PluginOperationPlan_descriptor_digest X plan) (\<lambda>plan_digest.
     let envelope = \<lparr>pe_plan = plan, pe_plan_digest = plan_digest, pe_package_lock = package_lock,
           pe_prior_package_lock = prior_package_lock\<rparr>
     in and_then (PluginOperationPlanEnvelope_validate X envelope) (\<lambda>_. Inr envelope))"

definition PluginOperationPlanEnvelope_new ::
  "('v, 'r, 'x) plan_externals_scheme \<Rightarrow> PluginOperationPlan \<Rightarrow> PluginOperationPlanEnvelope use_result" where
  "PluginOperationPlanEnvelope_new X plan =
     (if po_package_lock_digest plan \<noteq> None \<or> po_prior_package_lock_digest plan \<noteq> None then Inl PlanInvalid
      else envelope_of X plan None None)"

definition PluginOperationPlanEnvelope_new_with_package_lock ::
  "('v, 'r, 'x) plan_externals_scheme \<Rightarrow> PluginOperationPlan \<Rightarrow> PluginPackageLock
     \<Rightarrow> PluginOperationPlanEnvelope use_result" where
  "PluginOperationPlanEnvelope_new_with_package_lock X plan package_lock =
     (if po_prior_package_lock_digest plan \<noteq> None then Inl PlanInvalid
      else
      and_then (PluginPackageLock_descriptor_digest X package_lock) (\<lambda>package_lock_digest.
        envelope_of X (plan\<lparr>po_package_lock_digest := Some package_lock_digest\<rparr>) (Some package_lock) None))"

definition PluginOperationPlanEnvelope_new_with_upgrade_package_locks ::
  "('v, 'r, 'x) plan_externals_scheme \<Rightarrow> PluginOperationPlan \<Rightarrow> PluginPackageLock \<Rightarrow> PluginPackageLock
     \<Rightarrow> PluginOperationPlanEnvelope use_result" where
  "PluginOperationPlanEnvelope_new_with_upgrade_package_locks X plan prior_package_lock package_lock =
     and_then (PluginPackageLock_descriptor_digest X prior_package_lock) (\<lambda>prior_digest.
     and_then (PluginPackageLock_descriptor_digest X package_lock) (\<lambda>digest.
       envelope_of X (plan\<lparr>po_package_lock_digest := Some digest, po_prior_package_lock_digest := Some prior_digest\<rparr>)
         (Some package_lock) (Some prior_package_lock)))"

definition verify_plan_apply ::
  "('v, 'r, 'x) plan_externals_scheme \<Rightarrow> PluginOperationPlan \<Rightarrow> string \<Rightarrow> string \<Rightarrow> string \<Rightarrow> u64
     \<Rightarrow> unit use_result" where
  "verify_plan_apply X plan expected_plan_digest operation_id plan_digest now_ms =
     and_then (PluginOperationPlan_validate X plan) (\<lambda>_.
     and_then (PluginOperationPlan_descriptor_digest X plan) (\<lambda>digest.
     if digest \<noteq> expected_plan_digest \<or> operation_id \<noteq> po_operation_id plan \<or> plan_digest \<noteq> expected_plan_digest
     then Inl PlanMismatch
     else if now_ms < po_created_at_ms plan \<or> now_ms \<ge> po_expires_at_ms plan then Inl PlanExpired
     else if au_decision (po_authority plan) = Deny then Inl PlanDenied
     else Inr ()))"

definition PluginOperationPlanEnvelope_verify_apply ::
  "('v, 'r, 'x) plan_externals_scheme \<Rightarrow> PluginOperationPlanEnvelope \<Rightarrow> string \<Rightarrow> string \<Rightarrow> u64
     \<Rightarrow> unit use_result" where
  "PluginOperationPlanEnvelope_verify_apply X self operation_id plan_digest now_ms =
     and_then (PluginOperationPlanEnvelope_validate X self) (\<lambda>_.
       verify_plan_apply X (pe_plan self) (pe_plan_digest self) operation_id plan_digest now_ms)"

section \<open>Lemmas: the parts of a valid plan\<close>

lemma plan_validate_iff:
  "PluginOperationPlan_validate X p = Inr () \<longleftrightarrow>
     plan_header_valid p \<and> InstallationId_validate (po_scope p) = Inr () \<and>
     validate_authority_and_state p = Inr () \<and> validate_packages X p = Inr () \<and> validate_secrets p = Inr () \<and>
     validate_providers p = Inr () \<and> validate_workspace_impacts p = Inr () \<and> validate_impact p = Inr ()"
  by (simp add: PluginOperationPlan_validate_def and_then_Inr map_err_Inr if_Inl_Inr)

definition plan_package_ok ::
  "('v, 'r, 'x) catalog_externals_scheme \<Rightarrow> PluginOperationPlan \<Rightarrow> PlannedPackageTransition \<Rightarrow> bool" where
  "plan_package_ok X p t \<longleftrightarrow> PlannedPackageTransition_validate X t = Inr () \<and>
     (pt_role t = Root \<longleftrightarrow> pt_package_id t = po_package_id p) \<and>
     (pt_role t = Root \<longrightarrow> pt_change t = expected_root_change (po_action p))"

lemma plan_packages_fold:
  "fold_result (validate_plan_package X p) n ts = Inr m \<longleftrightarrow>
     (\<forall>t \<in> set ts. plan_package_ok X p t) \<and> m = n + length (filter (\<lambda>t. pt_role t = Root) ts)"
  by (induction ts arbitrary: n)
    (auto simp: validate_plan_package_def plan_package_ok_def result_simps split: if_splits)

lemma validate_packages_iff:
  "validate_packages X p = Inr () \<longleftrightarrow>
     sorted_wrt (<) (map pt_package_id (po_packages p)) \<and> (\<forall>t \<in> set (po_packages p). plan_package_ok X p t) \<and>
     (\<exists>t \<in> set (po_packages p). pt_role t = Root) \<and>
     ((\<exists>t \<in> set (po_packages p). is_local_reviewed t) \<longrightarrow>
        au_actor (po_authority p) = UserActor \<and> au_decision (po_authority p) = Ask)"
proof -
  have "length (filter (\<lambda>t. pt_role t = Root) ts) = 1 \<longleftrightarrow> (\<exists>t \<in> set ts. pt_role t = Root)"
    if ids: "sorted_wrt (<) (map pt_package_id ts)" and ok: "\<forall>t \<in> set ts. plan_package_ok X p t" for ts
  proof -
    have "t = u" if "t \<in> set ts" "u \<in> set ts" "pt_role t = Root" "pt_role u = Root" for t u
      using that ok sorted_less_distinct [OF ids] by (auto simp: plan_package_ok_def distinct_map inj_on_def)
    moreover have "distinct ts" using sorted_less_distinct [OF ids] by (simp add: distinct_map)
    ultimately have "length (filter (\<lambda>t. pt_role t = Root) ts) \<le> 1"
      by (subst distinct_length_filter) (auto simp: card_le_Suc0_iff_eq)
    then show ?thesis by (cases "filter (\<lambda>t. pt_role t = Root) ts") (auto simp: filter_empty_conv filter_eq_Cons_iff)
  qed
  note roots = this
  show ?thesis
    unfolding validate_packages_def and_then_Inr if_Inl_Inr plan_packages_fold
    using roots [of "po_packages p"] by auto
qed

text \<open>The secrets a transition mentions on one side.\<close>

definition secret_in ::
  "(PlannedPackageTransition \<Rightarrow> PlannedPackageState option) \<Rightarrow> PlanQualifiedSurfaceRef \<Rightarrow> string
     \<Rightarrow> PlannedPackageTransition \<Rightarrow> bool" where
  "secret_in side surface name t \<longleftrightarrow> (\<exists>st. side t = Some st \<and>
     (\<exists>c \<in> set (pc_surfaces (ps_permissions st)).
        surface = QualifiedSurface (pt_package_id t) (sp_surface c) \<and> name \<in> set (sp_secrets c) \<and>
        valid_permission_name name))"

lemma collect_secrets_set:
  "(q, n) \<in> set (collect_secrets (pt_package_id t) (side t) out) \<longleftrightarrow> (q, n) \<in> set out \<or> secret_in side q n t"
  by (cases "side t") (auto simp: collect_secrets_def secret_in_def)

lemma collect_secrets_fold:
  "(q, n) \<in> set (foldl (\<lambda>out t. if c then collect_secrets (pt_package_id t) (side t) out else out) out ts) \<longleftrightarrow>
     (q, n) \<in> set out \<or> c \<and> (\<exists>t \<in> set ts. secret_in side q n t)"
  by (induction ts arbitrary: out) (auto simp: collect_secrets_set)

lemma secrets_sorted:
  "sorted_wrt (<) out \<Longrightarrow>
     sorted_wrt (<) (foldl (\<lambda>out t. if c then collect_secrets (pt_package_id t) (side t) out else out) out ts)"
proof (induction ts arbitrary: out)
  case (Cons t ts)
  have "sorted_wrt (<) (collect_secrets (pt_package_id t) (side t) out)"
    using Cons.prems by (cases "side t") (simp_all add: collect_secrets_def)
  with Cons show ?case by simp
qed simp

lemma secrets_sets:
  "(q, n) \<in> set (secrets_before action ts) \<longleftrightarrow> action \<noteq> Enable \<and> (\<exists>t \<in> set ts. secret_in pt_before q n t)"
  "(q, n) \<in> set (secrets_after action ts) \<longleftrightarrow> action \<noteq> Disable \<and> (\<exists>t \<in> set ts. secret_in pt_after q n t)"
  unfolding secrets_before_def secrets_after_def collect_secrets_fold by simp_all

lemma secret_change_image:
  "SecretChange q n k \<in> (\<lambda>(surface, name). SecretChange surface name l) ` A \<longleftrightarrow> k = l \<and> (q, n) \<in> A"
  by auto

lemma secret_changes_spec:
  "SecretChange q n k \<in> set (planned_secret_changes action ts) \<longleftrightarrow>
     (let before = action \<noteq> Enable \<and> (\<exists>t \<in> set ts. secret_in pt_before q n t);
          after = action \<noteq> Disable \<and> (\<exists>t \<in> set ts. secret_in pt_after q n t) in
      case k of SecretGrant \<Rightarrow> after \<and> \<not> before | SecretRevoke \<Rightarrow> before \<and> \<not> after)"
  unfolding planned_secret_changes_def Let_def set_sort set_append set_map Un_iff secret_change_image
    set_filter mem_Collect_eq secrets_sets
  by (cases k) auto

section \<open>Lemmas: providers\<close>

lemma zip_all:
  assumes "length xs = length ys"
  shows "(\<forall>p \<in> set (zip xs ys). P p) \<longleftrightarrow> (\<forall>n < length xs. P (xs ! n, ys ! n))"
  using assms by (auto simp: set_zip)

definition provider_ok :: "PluginOperationPlan \<Rightarrow> PlannedProviderEvidence \<Rightarrow> bool" where
  "provider_ok p v \<longleftrightarrow> valid_machine_id (pv_provider_id v) \<and> valid_machine_id (pv_provider_build_id v) \<and>
     valid_sha256 (pv_capability_digest v) \<and> valid_sha256 (pv_semantics_profile_digest v) \<and>
     (\<exists>c. permission_for (po_packages p) (pv_surface v) = Some c \<and>
        enforcement_matches (pv_surface v) c (pv_enforcement v)) \<and>
     \<not> (au_actor (po_authority p) = Agent \<and> au_decision (po_authority p) = Allow \<and>
        pv_enforcement v = NativeUnconfined)"

lemma provider_validate_iff:
  "PlannedProviderEvidence_validate p v required = Inr () \<longleftrightarrow> pv_surface v = required \<and> provider_ok p v"
  unfolding PlannedProviderEvidence_validate_def provider_ok_def if_Inl_Inr and_then_Inr ok_or_Inr by auto

lemma validate_providers_iff:
  "validate_providers p = Inr () \<longleftrightarrow>
     (if po_action p \<in> {Uninstall, Disable} then po_providers p = []
      else map pv_surface (po_providers p) = sort (executable_surfaces (po_packages p)) \<and>
        (\<forall>v \<in> set (po_providers p). provider_ok p v))"
proof (cases "po_action p \<in> {Uninstall, Disable}")
  case False
  let ?required = "sort (executable_surfaces (po_packages p))" and ?vs = "po_providers p"
  have "validate_providers p = Inr () \<longleftrightarrow> length ?vs = length ?required \<and>
      (\<forall>n < length ?vs. pv_surface (?vs ! n) = ?required ! n \<and> provider_ok p (?vs ! n))"
    using False
    by (auto simp: validate_providers_def Let_def for_each_Inr zip_all provider_validate_iff split: if_splits)
  also have "\<dots> \<longleftrightarrow> map pv_surface ?vs = ?required \<and> (\<forall>v \<in> set ?vs. provider_ok p v)"
    unfolding list_eq_iff_nth_eq all_set_conv_all_nth by auto
  finally show ?thesis using False by simp
qed (simp add: validate_providers_def)

section \<open>Lemmas: plans against locks\<close>

text \<open>A state the catalog evidence of a locked package yields for some selection.\<close>

definition drawn_from_lock ::
  "('v, 'r, 'x) catalog_externals_scheme \<Rightarrow> LockedPluginPackage \<Rightarrow> PlannedPackageState option \<Rightarrow> bool" where
  "drawn_from_lock X locked state \<longleftrightarrow>
     (\<exists>st requested. state = Some st \<and> selected_state X (lp_catalog locked) requested = Inr st)"

lemma validate_locked_state_iff:
  "validate_locked_state X locked st = Inr () \<longleftrightarrow> drawn_from_lock X locked (Some st)"
  using selected_state_reselect [of X "lp_catalog locked"]
  by (auto simp: validate_locked_state_def drawn_from_lock_def result_simps)

lemma ok_or_locked:
  "(\<exists>st. ok_or e state = Inr st \<and> validate_locked_state X locked st = Inr ()) \<longleftrightarrow> drawn_from_lock X locked state"
  by (cases state) (simp_all add: validate_locked_state_iff, simp add: drawn_from_lock_def)

lemma locked_states_iff:
  "validate_prior_state X locked t = Inr () \<longleftrightarrow> drawn_from_lock X locked (pt_before t)"
  "validate_candidate_state X locked t = Inr () \<longleftrightarrow> drawn_from_lock X locked (pt_after t)"
  "validate_candidate_transition X locked t = Inr () \<longleftrightarrow> drawn_from_lock X locked (pt_after t) \<and>
     pt_source t = Some (registry_source (lp_catalog locked))"
  by (simp_all add: validate_prior_state_def validate_candidate_state_def validate_candidate_transition_def
      ok_or_locked and_then_Inr if_Inl_Inr)

definition locked_by ::
  "('v, 'r, 'x) catalog_externals_scheme \<Rightarrow> LockedPluginPackage \<Rightarrow> PlannedPackageTransition \<Rightarrow> bool" where
  "locked_by X locked t \<longleftrightarrow>
     (if pt_change t \<in> {Add, Replace}
      then drawn_from_lock X locked (pt_after t) \<and> pt_source t = Some (registry_source (lp_catalog locked))
      else drawn_from_lock X locked (pt_before t) \<and> pt_source t = None)"

lemma locked_transition_iff: "validate_locked_transition X locked t = Inr () \<longleftrightarrow> locked_by X locked t"
proof (cases "pt_change t \<in> {Add, Replace}")
  case True
  then show ?thesis
    by (cases "pt_after t")
      (auto simp: validate_locked_transition_def locked_by_def Let_def validate_locked_state_iff and_then_Inr
        drawn_from_lock_def [of _ _ None] split: if_splits)
next
  case False
  then show ?thesis
    by (cases "pt_before t")
      (auto simp: validate_locked_transition_def locked_by_def Let_def validate_locked_state_iff and_then_Inr
        drawn_from_lock_def [of _ _ None] split: if_splits)
qed

lemma plan_ids_sorted:
  "PluginOperationPlan_validate X p = Inr () \<Longrightarrow> sorted_wrt (<) (map pt_package_id (po_packages p))"
  by (simp add: plan_validate_iff validate_packages_iff)

lemma transition_index_get:
  assumes "PluginOperationPlan_validate X p = Inr ()"
  shows "bt_get (transition_index p) i = Some t \<longleftrightarrow> t \<in> set (po_packages p) \<and> pt_package_id t = i"
  using sorted_less_distinct [OF plan_ids_sorted [OF assms]]
  by (auto simp: transition_index_def bt_collect_get_distinct comp_def bt_get_graph [unfolded bt_get_def])

lemma for_plan_iff:
  assumes lock: "PluginPackageLock_validate X l = Inr ()" and plan: "PluginOperationPlan_validate X p = Inr ()"
  shows "PluginPackageLock_validate_for_plan X l p = Inr () \<longleftrightarrow>
    po_package_id p = pl_root_package_id l \<and>
    pt_package_id ` set (po_packages p) = LockedPluginPackage_package_id ` set (pl_packages l) \<and>
    (\<forall>locked \<in> set (pl_packages l). \<forall>t \<in> set (po_packages p).
       pt_package_id t = LockedPluginPackage_package_id locked \<longrightarrow>
       pt_role t = expected_role l (pt_package_id t) \<and> locked_by X locked t)"
proof -
  let ?ids = "pt_package_id ` set (po_packages p)" and ?locked = "LockedPluginPackage_package_id ` set (pl_packages l)"
  have dp: "distinct (map pt_package_id (po_packages p))"
    using sorted_less_distinct [OF plan_ids_sorted [OF plan]] .
  have dl: "distinct (map LockedPluginPackage_package_id (pl_packages l))"
    using lock by (auto simp: lock_validate_iff intro: sorted_less_distinct)
  have cards: "card ?ids = length (po_packages p)" "card ?locked = length (pl_packages l)"
    using distinct_card [OF dp] distinct_card [OF dl] by simp_all
  have same: "length (po_packages p) = length (pl_packages l) \<and> ?locked \<subseteq> ?ids \<longleftrightarrow> ?ids = ?locked"
    using cards card_subset_eq [of ?ids ?locked] by auto
  have unique: "t = u" if "t \<in> set (po_packages p)" "u \<in> set (po_packages p)" "pt_package_id t = pt_package_id u" for t u
    using that dp by (auto simp: distinct_map inj_on_def)
  have "PluginPackageLock_validate_for_plan X l p = Inr () \<longleftrightarrow>
      po_package_id p = pl_root_package_id l \<and> length (po_packages p) = length (pl_packages l) \<and>
      (\<forall>locked \<in> set (pl_packages l). \<exists>t \<in> set (po_packages p).
         pt_package_id t = LockedPluginPackage_package_id locked \<and>
         pt_role t = expected_role l (LockedPluginPackage_package_id locked) \<and> locked_by X locked t)"
    using lock plan
    by (auto simp: PluginPackageLock_validate_for_plan_def result_simps transition_index_get [OF plan] locked_transition_iff)
  also have "\<dots> \<longleftrightarrow> po_package_id p = pl_root_package_id l \<and> (length (po_packages p) = length (pl_packages l) \<and>
      ?locked \<subseteq> ?ids) \<and> (\<forall>locked \<in> set (pl_packages l). \<forall>t \<in> set (po_packages p).
       pt_package_id t = LockedPluginPackage_package_id locked \<longrightarrow>
       pt_role t = expected_role l (pt_package_id t) \<and> locked_by X locked t)"
    using unique by (auto simp: image_subset_iff image_iff) metis+
  finally show ?thesis unfolding same .
qed

definition upgrade_locked ::
  "('v, 'r, 'x) catalog_externals_scheme \<Rightarrow> LockedPluginPackage option \<Rightarrow> LockedPluginPackage option
     \<Rightarrow> PlannedPackageTransition \<Rightarrow> bool" where
  "upgrade_locked X prior candidate t \<longleftrightarrow>
     (case pt_change t of
        Add \<Rightarrow> prior = None \<and> (\<exists>after. candidate = Some after \<and> drawn_from_lock X after (pt_after t) \<and>
          pt_source t = Some (registry_source (lp_catalog after)))
      | Remove \<Rightarrow> candidate = None \<and> (\<exists>before. prior = Some before \<and> drawn_from_lock X before (pt_before t))
      | Replace \<Rightarrow> (\<exists>before after. prior = Some before \<and> candidate = Some after \<and>
          lp_catalog before \<noteq> lp_catalog after \<and> drawn_from_lock X before (pt_before t) \<and>
          drawn_from_lock X after (pt_after t) \<and> pt_source t = Some (registry_source (lp_catalog after)))
      | Retain \<Rightarrow> (prior \<noteq> None \<or> candidate \<noteq> None) \<and>
          (\<forall>node. prior = Some node \<or> candidate = Some node \<longrightarrow>
             drawn_from_lock X node (pt_before t) \<and> drawn_from_lock X node (pt_after t)) \<and>
          (\<forall>before after. prior = Some before \<longrightarrow> candidate = Some after \<longrightarrow> lp_catalog before = lp_catalog after))"

lemma drawn_from_catalog:
  "lp_catalog a = lp_catalog b \<Longrightarrow> drawn_from_lock X a = drawn_from_lock X b"
  by (simp add: drawn_from_lock_def fun_eq_iff)

lemma upgrade_delta_iff:
  "validate_upgrade_delta X prior candidate t = Inr () \<longleftrightarrow> upgrade_locked X prior candidate t"
proof (cases prior)
  case None
  then show ?thesis
    by (cases candidate; cases "pt_change t")
      (simp_all add: validate_upgrade_delta_def upgrade_locked_def and_then_Inr locked_states_iff)
next
  case (Some before)
  show ?thesis
  proof (cases candidate)
    case None
    with Some show ?thesis
      by (cases "pt_change t")
        (simp_all add: validate_upgrade_delta_def upgrade_locked_def and_then_Inr locked_states_iff)
  next
    case (Some after)
    with \<open>prior = Some before\<close> show ?thesis
      using drawn_from_catalog [of before after X]
      by (cases "pt_change t"; cases "lp_catalog before = lp_catalog after")
        (auto simp: validate_upgrade_delta_def upgrade_locked_def and_then_Inr locked_states_iff)
  qed
qed

lemma upgrade_plan_facts:
  assumes "PluginPackageLock_validate_upgrade_plan X prior candidate p = Inr ()"
  shows "PluginPackageLock_validate X prior = Inr ()" "PluginPackageLock_validate X candidate = Inr ()"
    and "po_package_id p = pl_root_package_id candidate" "pl_root_package_id prior = pl_root_package_id candidate"
      "pl_host prior = pl_host candidate"
    and "pt_package_id ` set (po_packages p) =
      LockedPluginPackage_package_id ` (set (pl_packages prior) \<union> set (pl_packages candidate))"
    and "t \<in> set (po_packages p) \<Longrightarrow> pt_role t = expected_role candidate (pt_package_id t) \<and>
      upgrade_locked X (PluginPackageLock_package prior (pt_package_id t))
        (PluginPackageLock_package candidate (pt_package_id t)) t"
proof -
  let ?ids = "bs_collect (map LockedPluginPackage_package_id (pl_packages prior @ pl_packages candidate))"
  note parts = assms [unfolded PluginPackageLock_validate_upgrade_plan_def and_then_Inr if_Inl_Inr Let_def
      for_each_Inr ok_or_Inr upgrade_delta_iff]
  from parts show "PluginPackageLock_validate X prior = Inr ()" "PluginPackageLock_validate X candidate = Inr ()"
    "po_package_id p = pl_root_package_id candidate" "pl_root_package_id prior = pl_root_package_id candidate"
    "pl_host prior = pl_host candidate"
    by (elim exE conjE; simp)+
  from parts have plan: "PluginOperationPlan_validate X p = Inr ()" by (elim exE conjE) simp
  from parts have len: "length ?ids = length (po_packages p)" by (elim exE conjE) (simp only: not_not)
  from parts have each: "\<forall>i \<in> set ?ids. \<exists>t. bt_get (transition_index p) i = Some t \<and>
      pt_role t = expected_role candidate i \<and>
      upgrade_locked X (PluginPackageLock_package prior i) (PluginPackageLock_package candidate i) t"
    by (elim exE conjE) (simp only: not_not simp_thms)
  have d: "distinct (map pt_package_id (po_packages p))"
    using sorted_less_distinct [OF plan_ids_sorted [OF plan]] .
  have sub: "set ?ids \<subseteq> pt_package_id ` set (po_packages p)"
  proof
    fix i assume "i \<in> set ?ids"
    with each obtain t where "bt_get (transition_index p) i = Some t" by blast
    then show "i \<in> pt_package_id ` set (po_packages p)" unfolding transition_index_get [OF plan] by blast
  qed
  moreover have "card (set ?ids) = card (pt_package_id ` set (po_packages p))"
    using len distinct_card [OF d] by (simp only: set_bs_collect length_bs_collect set_map length_map)
  ultimately have eq: "set ?ids = pt_package_id ` set (po_packages p)" by (intro card_subset_eq) auto
  then show "pt_package_id ` set (po_packages p) =
      LockedPluginPackage_package_id ` (set (pl_packages prior) \<union> set (pl_packages candidate))" by auto
  show "pt_role t = expected_role candidate (pt_package_id t) \<and>
      upgrade_locked X (PluginPackageLock_package prior (pt_package_id t))
        (PluginPackageLock_package candidate (pt_package_id t)) t" if t: "t \<in> set (po_packages p)"
  proof -
    have "pt_package_id t \<in> set ?ids" using t eq by blast
    with each obtain u where "bt_get (transition_index p) (pt_package_id t) = Some u"
      "pt_role u = expected_role candidate (pt_package_id t)"
      "upgrade_locked X (PluginPackageLock_package prior (pt_package_id t))
        (PluginPackageLock_package candidate (pt_package_id t)) u" by blast
    moreover from this(1) t d have "u = t"
      by (auto simp: transition_index_get [OF plan] distinct_map inj_on_def)
    ultimately show ?thesis by simp
  qed
qed

lemma envelope_validate_cases:
  assumes "PluginOperationPlanEnvelope_validate X e = Inr ()"
  obtains (unlocked) "po_package_lock_digest (pe_plan e) = None" "pe_package_lock e = None" "pe_prior_package_lock e = None"
      "po_action (pe_plan e) \<noteq> Upgrade"
  | (locked) lock d where "po_package_lock_digest (pe_plan e) = Some d"
      "PluginPackageLock_descriptor_digest X lock = Inr d" "pe_package_lock e = Some lock"
      "pe_prior_package_lock e = None" "po_action (pe_plan e) \<noteq> Upgrade"
      "PluginPackageLock_validate_for_plan X lock (pe_plan e) = Inr ()"
  | (upgrade) lock prior d d' where "po_package_lock_digest (pe_plan e) = Some d"
      "PluginPackageLock_descriptor_digest X lock = Inr d"
      "po_prior_package_lock_digest (pe_plan e) = Some d'" "PluginPackageLock_descriptor_digest X prior = Inr d'"
      "pe_package_lock e = Some lock" "pe_prior_package_lock e = Some prior" "po_action (pe_plan e) = Upgrade"
      "PluginPackageLock_validate_upgrade_plan X prior lock (pe_plan e) = Inr ()"
  using assms unfolding PluginOperationPlanEnvelope_validate_def Let_def and_then_Inr if_Inl_Inr
  by (auto simp: result_simps split: option.splits if_splits)

section \<open>Properties\<close>

text \<open>
  C30: a valid plan selects runtime providers exactly for the executable surfaces it activates, one each
  in order of identity, and none when it uninstalls or disables; every provider enforces the authority
  of its surface (a host-granted endpoint runs unconfined, native code sandboxed or unconfined, anything
  else in a container), and no operation an agent may apply without confirmation runs unconfined.
\<close>

theorem plan_providers_enforced:
  assumes "PluginOperationPlan_validate X p = Inr ()"
  shows "(po_action p \<in> {Uninstall, Disable} \<longrightarrow> po_providers p = []) \<and>
    (po_action p \<notin> {Uninstall, Disable} \<longrightarrow>
       map pv_surface (po_providers p) = sort (executable_surfaces (po_packages p))) \<and>
    (\<forall>v \<in> set (po_providers p). \<exists>c. permission_for (po_packages p) (pv_surface v) = Some c \<and>
       (pv_enforcement v = Container \<longrightarrow> \<not> sp_native_execution c \<and> \<not> is_host_grant (pv_surface v) c) \<and>
       (pv_enforcement v = Sandbox \<longrightarrow> sp_native_execution c) \<and>
       (pv_enforcement v = NativeUnconfined \<longrightarrow> (sp_native_execution c \<or> is_host_grant (pv_surface v) c) \<and>
          \<not> (au_actor (po_authority p) = Agent \<and> \<not> au_confirmation_required (po_authority p) \<and>
             au_decision (po_authority p) \<noteq> Deny)))"
proof -
  from assms have providers: "validate_providers p = Inr ()" and "validate_authority_and_state p = Inr ()"
    by (simp_all add: plan_validate_iff)
  then have confirm: "au_confirmation_required (po_authority p) \<longleftrightarrow> au_decision (po_authority p) = Ask"
    by (auto simp: validate_authority_and_state_def split: if_splits)
  have "\<exists>c. permission_for (po_packages p) (pv_surface v) = Some c \<and>
       (pv_enforcement v = Container \<longrightarrow> \<not> sp_native_execution c \<and> \<not> is_host_grant (pv_surface v) c) \<and>
       (pv_enforcement v = Sandbox \<longrightarrow> sp_native_execution c) \<and>
       (pv_enforcement v = NativeUnconfined \<longrightarrow> (sp_native_execution c \<or> is_host_grant (pv_surface v) c) \<and>
          \<not> (au_actor (po_authority p) = Agent \<and> \<not> au_confirmation_required (po_authority p) \<and>
             au_decision (po_authority p) \<noteq> Deny))" if "provider_ok p v" for v
    using that confirm
    by (cases "au_decision (po_authority p)"; cases "pv_enforcement v")
      (auto simp: provider_ok_def enforcement_matches_def split: if_splits)
  with providers show ?thesis unfolding validate_providers_iff by (auto split: if_splits)
qed

text \<open>
  the secret changes of a valid plan are exactly the difference between the secrets the packages
  hold before and after the operation (nothing before an enable, nothing after a disable), sorted and
  without duplicates.
\<close>

theorem plan_secret_delta:
  assumes "PluginOperationPlan_validate X p = Inr ()"
  shows "sorted_wrt (<) (po_secret_changes p) \<and>
    (SecretChange q n k \<in> set (po_secret_changes p) \<longleftrightarrow>
     (let before = po_action p \<noteq> Enable \<and> (\<exists>t \<in> set (po_packages p). secret_in pt_before q n t);
          after = po_action p \<noteq> Disable \<and> (\<exists>t \<in> set (po_packages p). secret_in pt_after q n t) in
      k = SecretGrant \<and> after \<and> \<not> before \<or> k = SecretRevoke \<and> before \<and> \<not> after))"
proof -
  from assms have "validate_secrets p = Inr ()" by (simp add: plan_validate_iff)
  then have "sorted_wrt (<) (po_secret_changes p)"
    and changes: "po_secret_changes p = planned_secret_changes (po_action p) (po_packages p)"
    by (auto simp: validate_secrets_def strictly_sorted_unique_iff split: if_splits)
  then show ?thesis
    unfolding changes secret_changes_spec by (cases k) (auto simp: Let_def)
qed

text \<open>
  C28: an operation other than an upgrade that carries a package lock covers exactly the locked closure:
  the lock is valid and is the one the plan was reviewed with, the planned packages are the locked ones
  with the requested package as the only root, and every planned state is one that the signed catalog
  evidence of its locked package yields, installed from that registry source only.
\<close>

theorem plan_covers_lock:
  assumes "PluginOperationPlanEnvelope_validate X e = Inr ()" and "pe_package_lock e = Some lock"
    and "po_action (pe_plan e) \<noteq> Upgrade"
  shows "PluginPackageLock_validate X lock = Inr () \<and>
    (\<exists>d. PluginPackageLock_descriptor_digest X lock = Inr d \<and> po_package_lock_digest (pe_plan e) = Some d) \<and>
    pt_package_id ` set (po_packages (pe_plan e)) = LockedPluginPackage_package_id ` set (pl_packages lock) \<and>
    (\<forall>t \<in> set (po_packages (pe_plan e)). \<exists>l \<in> set (pl_packages lock).
       LockedPluginPackage_package_id l = pt_package_id t \<and>
       (pt_role t = Root \<longleftrightarrow> pt_package_id t = pl_root_package_id lock) \<and> locked_by X l t)"
  using assms(1)
proof (cases rule: envelope_validate_cases)
  case (locked lock' d)
  with assms(2) have eq: "lock' = lock" by simp
  from locked(6) have lock: "PluginPackageLock_validate X lock = Inr ()"
    and plan: "PluginOperationPlan_validate X (pe_plan e) = Inr ()"
    unfolding eq by (auto simp: PluginPackageLock_validate_for_plan_def result_simps)
  from locked(6) have cover: "pt_package_id ` set (po_packages (pe_plan e)) =
      LockedPluginPackage_package_id ` set (pl_packages lock)"
    and each: "\<And>l t. l \<in> set (pl_packages lock) \<Longrightarrow> t \<in> set (po_packages (pe_plan e)) \<Longrightarrow>
       pt_package_id t = LockedPluginPackage_package_id l \<Longrightarrow>
       pt_role t = expected_role lock (pt_package_id t) \<and> locked_by X l t"
    unfolding eq for_plan_iff [OF lock plan] by blast+
  have "\<exists>l \<in> set (pl_packages lock). LockedPluginPackage_package_id l = pt_package_id t \<and>
       (pt_role t = Root \<longleftrightarrow> pt_package_id t = pl_root_package_id lock) \<and> locked_by X l t"
    if t: "t \<in> set (po_packages (pe_plan e))" for t
  proof -
    from t cover obtain l where l: "l \<in> set (pl_packages lock)" "pt_package_id t = LockedPluginPackage_package_id l"
      by blast
    from each [OF l(1) t l(2)] l show ?thesis by (auto simp: expected_role_def split: if_splits)
  qed
  with lock cover locked(1,2) eq show ?thesis by blast
qed (use assms in simp_all)

text \<open>
  C29: an upgrade plan covers exactly the union of the prior and the candidate lock. An added package is
  only in the candidate, a removed one only in the prior lock, a replaced one in both with different
  catalog evidence; a retained package is in at least one of them, with the same evidence when it is in
  both. Every state before or after is one that the signed evidence of a lock holding the package
  yields, and a retained package has the same evidence for both.
\<close>

theorem upgrade_covers_locks:
  assumes "PluginOperationPlanEnvelope_validate X e = Inr ()" and "po_action (pe_plan e) = Upgrade"
  shows "\<exists>prior lock. pe_prior_package_lock e = Some prior \<and> pe_package_lock e = Some lock \<and>
    PluginPackageLock_validate X prior = Inr () \<and> PluginPackageLock_validate X lock = Inr () \<and>
    pl_root_package_id prior = pl_root_package_id lock \<and> pl_host prior = pl_host lock \<and>
    pt_package_id ` set (po_packages (pe_plan e)) =
      LockedPluginPackage_package_id ` (set (pl_packages prior) \<union> set (pl_packages lock)) \<and>
    (\<forall>t \<in> set (po_packages (pe_plan e)).
       upgrade_locked X (PluginPackageLock_package prior (pt_package_id t))
         (PluginPackageLock_package lock (pt_package_id t)) t)"
  using assms(1)
proof (cases rule: envelope_validate_cases)
  case (upgrade lock prior d d')
  note facts = upgrade_plan_facts [OF upgrade(8)]
  show ?thesis
    using upgrade(5,6) facts(1,2,4-6) facts(7) by (intro exI [of _ prior] exI [of _ lock]) simp
qed (use assms(2) in simp_all)

section \<open>Witnesses\<close>

text \<open>Concrete plans over the catalog and lock witnesses: a tool with a secret, an install and an upgrade.\<close>

definition witness_plan_externals :: "(string, string) plan_externals" where
  "witness_plan_externals =
     witness_externals_with (lock_externals_ext (\<lambda>_. Some ''l'') (plan_externals_ext (\<lambda>_. Some ''p'') (\<lambda>_. None) ()))"

text \<open>The tool of the catalog witness, asking for one secret.\<close>

definition witness_secret_tool :: VerifiedPluginCatalogRecord where
  "witness_secret_tool = witness_verified_tool \<lparr>vr_record := witness_tool_record
     \<lparr>cr_permission_ceiling := witness_task_ceiling
       \<lparr>pc_surfaces := map (\<lambda>p. p\<lparr>sp_secrets := [''token'']\<rparr>) (pc_surfaces witness_task_ceiling)\<rparr>\<rparr>\<rparr>"

definition witness_plan ::
  "PluginOperationAction \<Rightarrow> string option \<Rightarrow> string option \<Rightarrow> string option \<Rightarrow> PlannedPackageTransition list \<Rightarrow> PlannedSecretChange list
     \<Rightarrow> PlannedProviderEvidence list \<Rightarrow> PluginOperationPlan" where
  "witness_plan action receipt lock prior packages secrets providers =
     \<lparr>po_schema = PLUGIN_OPERATION_PLAN_SCHEMA_V4, po_operation_id = ''op1'', po_created_at_ms = 5,
      po_expires_at_ms = 9, po_action = action, po_package_id = ''acme/a'', po_component_id = ''use/acme/a'',
      po_scope = \<lparr>inst_kind = User, inst_id = ''u''\<rparr>, po_package_lock_digest = lock,
      po_prior_package_lock_digest = prior, po_packages = packages, po_secret_changes = secrets,
      po_providers = providers, po_workspace_impacts = [],
      po_impact = \<lparr>im_download_bytes = 1, im_installed_bytes_after = 1, im_reclaimed_bytes = 0,
        im_drain_required = False, im_retained_data = False, im_okf_changes = []\<rparr>,
      po_authority = \<lparr>au_actor = UserActor, au_decision = Ask, au_policy_digest = zero_digest,
        au_confirmation_required = True\<rparr>,
      po_state = \<lparr>es_state_revision = 1, es_capability_generation = 1, es_receipt_digest = receipt\<rparr>\<rparr>"

definition witness_tool_ref :: PlanQualifiedSurfaceRef where
  "witness_tool_ref = QualifiedSurface ''acme/a'' (SurfaceRef KTool ''scan'')"


text \<open>The package state of all surfaces of a verified record, and the transition that adds it.\<close>

definition witness_state :: "VerifiedPluginCatalogRecord \<Rightarrow> PlannedPackageState" where
  "witness_state v =
     \<lparr>ps_release = \<lparr>pr_package_id = cr_package_id (vr_record v), pr_version = cr_version (vr_record v),
        pr_channel = cr_channel (vr_record v), pr_target = cr_target (vr_record v),
        pr_package_sha256 = zero_digest, pr_manifest_sha256 = zero_digest,
        pr_permission_ceiling_digest = zero_digest, pr_surfaces = cr_surfaces (vr_record v)\<rparr>,
      ps_permissions = cr_permission_ceiling (vr_record v)\<rparr>"

definition witness_add :: "PlanPackageRole \<Rightarrow> VerifiedPluginCatalogRecord \<Rightarrow> PlannedPackageTransition" where
  "witness_add role v =
     \<lparr>pt_package_id = cr_package_id (vr_record v), pt_role = role, pt_change = Add, pt_before = None,
      pt_after = Some (witness_state v), pt_source = Some (registry_source v),
      pt_surfaces = map (\<lambda>s. \<lparr>sc_change_surface = CatalogSurface_reference s, sc_change = SurfaceAdd,
        sc_before_digest = None, sc_after_digest = Some zero_digest\<rparr>) (cr_surfaces (vr_record v))\<rparr>"

definition witness_tool_plan :: PluginOperationPlan where
  "witness_tool_plan = witness_plan Install None None None [witness_add Root witness_secret_tool]
     [SecretChange witness_tool_ref ''token'' SecretGrant]
     [\<lparr>pv_surface = witness_tool_ref, pv_provider_id = ''srt'', pv_provider_build_id = ''b1'',
       pv_capability_digest = zero_digest, pv_semantics_profile_digest = zero_digest, pv_enforcement = Sandbox\<rparr>]"

lemma witness_header_valid:
  assumes "packages \<noteq> []" "length packages < 3" "length secrets < 3" "length providers < 3"
    and "lock \<in> {None, Some zero_digest}" "prior = None \<or> prior = lock \<and> action = Upgrade"
  shows "plan_header_valid (witness_plan action receipt lock prior packages secrets providers)"
proof -
  have "valid_machine_id ''op1''" "valid_package_id ''acme/a''" "valid_machine_id ''use/acme/a''" "valid_sha256 zero_digest"
    by code_simp+
  with assms show ?thesis
    by (auto simp: plan_header_valid_def witness_plan_def MAX_PLAN_LIFETIME_MS_def MAX_PLUGIN_PLAN_ITEMS_def)
qed

lemma witness_authority_valid:
  assumes "receipt = (if action = Install then None else Some zero_digest)"
  shows "validate_authority_and_state (witness_plan action receipt lock prior packages secrets providers) = Inr ()"
proof -
  have "valid_sha256 zero_digest" by code_simp
  with assms show ?thesis
    by (cases action) (simp_all add: validate_authority_and_state_def witness_plan_def)
qed

lemma witness_scope_valid:
  "InstallationId_validate (po_scope (witness_plan action receipt lock prior packages secrets providers)) = Inr ()"
  "validate_workspace_impacts (witness_plan action receipt lock prior packages secrets providers) = Inr ()"
proof -
  have "InstallationId_validate \<lparr>inst_kind = User, inst_id = ''u''\<rparr> = Inr ()" by code_simp
  then show "InstallationId_validate (po_scope (witness_plan action receipt lock prior packages secrets providers)) = Inr ()"
    by (simp add: witness_plan_def)
  show "validate_workspace_impacts (witness_plan action receipt lock prior packages secrets providers) = Inr ()"
    by (simp add: witness_plan_def validate_workspace_impacts_def)
qed

lemma witness_packages_valid:
  assumes "sorted_wrt (<) (map pt_package_id packages)"
    and "\<forall>t \<in> set packages. PlannedPackageTransition_validate X t = Inr () \<and> \<not> is_local_reviewed t \<and>
      (pt_role t = Root \<longleftrightarrow> pt_package_id t = ''acme/a'') \<and>
      (pt_role t = Root \<longrightarrow> pt_change t = expected_root_change action)"
    and "\<exists>t \<in> set packages. pt_role t = Root"
  shows "validate_packages X (witness_plan action receipt lock prior packages secrets providers) = Inr ()"
  using assms by (simp add: validate_packages_iff plan_package_ok_def witness_plan_def)

lemma witness_add_simps [simp]:
  "pt_package_id (witness_add role v) = cr_package_id (vr_record v)" "pt_role (witness_add role v) = role"
  "pt_change (witness_add role v) = Add" "\<not> is_local_reviewed (witness_add role v)"
  by (simp_all add: witness_add_def is_local_reviewed_def registry_source_def)

lemma witness_tool_plan_valid: "PluginOperationPlan_validate witness_plan_externals witness_tool_plan = Inr ()"
proof -
  have "PlannedPackageTransition_validate witness_plan_externals (witness_add Root witness_secret_tool) = Inr ()"
    by code_simp
  moreover have "cr_package_id (vr_record witness_secret_tool) = ''acme/a''"
    by (simp add: witness_secret_tool_def witness_tool_record_def witness_record_def)
  ultimately have "validate_packages witness_plan_externals witness_tool_plan = Inr ()"
    unfolding witness_tool_plan_def by (intro witness_packages_valid) (simp_all add: expected_root_change_def)
  moreover have "validate_secrets witness_tool_plan = Inr ()" by code_simp
  moreover have "validate_providers witness_tool_plan = Inr ()" by code_simp
  moreover have "validate_impact witness_tool_plan = Inr ()" by code_simp
  ultimately show ?thesis
    unfolding plan_validate_iff witness_tool_plan_def
    by (intro conjI witness_header_valid witness_authority_valid witness_scope_valid) simp_all
qed


definition witness_single_lock :: "string \<Rightarrow> PluginPackageLock" where
  "witness_single_lock version =
     \<lparr>pl_schema = PLUGIN_PACKAGE_LOCK_SCHEMA, pl_root_package_id = ''acme/a'',
      pl_host = \<lparr>plh_target = ''linux'', plh_use_version = ''1.0.0''\<rparr>,
      pl_packages = [\<lparr>lp_catalog = witness_verified ''a'' version [], lp_dependencies = []\<rparr>]\<rparr>"

definition witness_replace :: PlannedPackageTransition where
  "witness_replace =
     \<lparr>pt_package_id = ''acme/a'', pt_role = Root, pt_change = Replace,
      pt_before = Some (witness_state (witness_verified ''a'' ''1'' [])),
      pt_after = Some (witness_state (witness_verified ''a'' ''2'' [])),
      pt_source = Some (registry_source (witness_verified ''a'' ''2'' [])),
      pt_surfaces = [\<lparr>sc_change_surface = SurfaceRef KSkill ''help'', sc_change = SurfaceReplace,
        sc_before_digest = Some zero_digest, sc_after_digest = Some zero_digest\<rparr>]\<rparr>"

definition witness_install_plan :: PluginOperationPlan where
  "witness_install_plan = witness_plan Install None (Some zero_digest) None
     [witness_add Root (witness_verified ''a'' ''1'' [])] [] []"

definition witness_upgrade_plan :: PluginOperationPlan where
  "witness_upgrade_plan = witness_plan Upgrade (Some zero_digest) (Some zero_digest) (Some zero_digest)
     [witness_replace] [] []"

lemma witness_single_lock_valid:
  "PluginPackageLock_validate witness_plan_externals (witness_single_lock ''1'') = Inr ()"
  "PluginPackageLock_validate witness_plan_externals (witness_single_lock ''2'') = Inr ()"
  by code_simp+

lemma witness_states:
  "selected_state witness_plan_externals (witness_verified ''a'' ''1'' []) [] = Inr (witness_state (witness_verified ''a'' ''1'' []))"
  "selected_state witness_plan_externals (witness_verified ''a'' ''2'' []) [] = Inr (witness_state (witness_verified ''a'' ''2'' []))"
  by code_simp+

lemma witness_verified_id [simp]: "cr_package_id (vr_record (witness_verified name version deps)) = ''acme/'' @ name"
  by (simp add: witness_verified_def witness_record_def)

text \<open>Plans over packages without permissions and executable surfaces have nothing else to prove.\<close>

lemma witness_static_plan:
  assumes "action \<in> {Install, Upgrade}" "secrets = []" "providers = []"
    and "planned_secret_changes action packages = []" "executable_surfaces packages = []"
    and "planned_okf_changes action packages = Inr []" "\<not> drain_needed action packages"
  shows "validate_secrets (witness_plan action receipt lock prior packages secrets providers) = Inr ()"
    and "validate_providers (witness_plan action receipt lock prior packages secrets providers) = Inr ()"
    and "validate_impact (witness_plan action receipt lock prior packages secrets providers) = Inr ()"
  using assms
  by (auto simp: witness_plan_def validate_secrets_def validate_providers_iff validate_impact_def impact_amounts_valid_def
      strictly_sorted_unique_def)

lemma witness_install_plan_valid: "PluginOperationPlan_validate witness_plan_externals witness_install_plan = Inr ()"
proof -
  let ?t = "witness_add Root (witness_verified ''a'' ''1'' [])"
  have "PlannedPackageTransition_validate witness_plan_externals ?t = Inr ()" by code_simp
  then have "validate_packages witness_plan_externals witness_install_plan = Inr ()"
    unfolding witness_install_plan_def by (intro witness_packages_valid) (simp_all add: expected_root_change_def)
  moreover have "planned_secret_changes Install [?t] = []" "executable_surfaces [?t] = []"
    "planned_okf_changes Install [?t] = Inr []" "\<not> drain_needed Install [?t]" by code_simp+
  ultimately show ?thesis
    unfolding plan_validate_iff witness_install_plan_def
    by (intro conjI witness_header_valid witness_authority_valid witness_scope_valid witness_static_plan) simp_all
qed

lemma witness_upgrade_plan_valid: "PluginOperationPlan_validate witness_plan_externals witness_upgrade_plan = Inr ()"
proof -
  have "PlannedPackageTransition_validate witness_plan_externals witness_replace = Inr ()" by code_simp
  then have "validate_packages witness_plan_externals witness_upgrade_plan = Inr ()"
    unfolding witness_upgrade_plan_def
    by (intro witness_packages_valid) (simp_all add: expected_root_change_def witness_replace_def is_local_reviewed_def registry_source_def)
  moreover have "planned_secret_changes Upgrade [witness_replace] = []" "executable_surfaces [witness_replace] = []"
    "planned_okf_changes Upgrade [witness_replace] = Inr []" "\<not> drain_needed Upgrade [witness_replace]" by code_simp+
  ultimately show ?thesis
    unfolding plan_validate_iff witness_upgrade_plan_def
    by (intro conjI witness_header_valid witness_authority_valid witness_scope_valid witness_static_plan) simp_all
qed


definition witness_envelope :: "PluginOperationPlan \<Rightarrow> PluginPackageLock option \<Rightarrow> PluginPackageLock option
    \<Rightarrow> PluginOperationPlanEnvelope" where
  "witness_envelope plan lock prior =
     \<lparr>pe_plan = plan, pe_plan_digest = zero_digest, pe_package_lock = lock, pe_prior_package_lock = prior\<rparr>"

lemma witness_digest_eqs:
  "PluginOperationPlan_validate witness_plan_externals p = Inr () \<Longrightarrow>
     PluginOperationPlan_descriptor_digest witness_plan_externals p = Inr zero_digest"
  "PluginPackageLock_validate witness_plan_externals l = Inr () \<Longrightarrow>
     PluginPackageLock_descriptor_digest witness_plan_externals l = Inr zero_digest"
  by (simp_all add: PluginOperationPlan_descriptor_digest_def PluginOperationPlan_canonical_bytes_def
      PluginPackageLock_descriptor_digest_def canonical_json_def
      canonical_digest_def witness_plan_externals_def witness_externals_with_def zero_digest_def
      MAX_PLUGIN_CONTRACT_BYTES_def)

lemma witness_drawn:
  "drawn_from_lock witness_plan_externals \<lparr>lp_catalog = witness_verified ''a'' ''1'' [], lp_dependencies = []\<rparr>
     (Some (witness_state (witness_verified ''a'' ''1'' [])))"
  "drawn_from_lock witness_plan_externals \<lparr>lp_catalog = witness_verified ''a'' ''2'' [], lp_dependencies = []\<rparr>
     (Some (witness_state (witness_verified ''a'' ''2'' [])))"
  using witness_states by (auto simp: drawn_from_lock_def)

lemma witness_install_envelope_valid:
  "PluginOperationPlanEnvelope_validate witness_plan_externals
     (witness_envelope witness_install_plan (Some (witness_single_lock ''1'')) None) = Inr ()"
proof -
  have "PluginPackageLock_validate_for_plan witness_plan_externals (witness_single_lock ''1'') witness_install_plan = Inr ()"
    unfolding for_plan_iff [OF witness_single_lock_valid(1) witness_install_plan_valid] using witness_drawn(1)
    by (simp add: witness_install_plan_def witness_plan_def witness_single_lock_def expected_role_def
        LockedPluginPackage_package_id_def locked_by_def witness_add_def)
  then show ?thesis
    using witness_install_plan_valid witness_digest_eqs(1) [OF witness_install_plan_valid]
      witness_digest_eqs(2) [OF witness_single_lock_valid(1)]
    by (simp add: PluginOperationPlanEnvelope_validate_def witness_envelope_def)
      (simp add: witness_install_plan_def witness_plan_def)
qed

lemma witness_upgrade_envelope_valid:
  "PluginOperationPlanEnvelope_validate witness_plan_externals
     (witness_envelope witness_upgrade_plan (Some (witness_single_lock ''2'')) (Some (witness_single_lock ''1''))) = Inr ()"
proof -
  let ?old = "\<lparr>lp_catalog = witness_verified ''a'' ''1'' [], lp_dependencies = []\<rparr>"
    and ?new = "\<lparr>lp_catalog = witness_verified ''a'' ''2'' [], lp_dependencies = []\<rparr>"
  have fields: "po_action witness_upgrade_plan = Upgrade" "po_package_id witness_upgrade_plan = ''acme/a''"
    "length (po_packages witness_upgrade_plan) = 1" "pl_root_package_id (witness_single_lock version) = ''acme/a''"
    "pl_host (witness_single_lock version) = \<lparr>plh_target = ''linux'', plh_use_version = ''1.0.0''\<rparr>"
    "pt_role witness_replace = Root" "expected_role (witness_single_lock version) ''acme/a'' = Root" for version
    by (simp_all add: witness_upgrade_plan_def witness_plan_def witness_single_lock_def expected_role_def witness_replace_def)
  have index: "transition_index witness_upgrade_plan = [(''acme/a'', witness_replace)]"
    by (simp add: transition_index_def witness_upgrade_plan_def witness_plan_def bt_collect_def witness_replace_def)
  have nodes: "PluginPackageLock_package (witness_single_lock ''1'') ''acme/a'' = Some ?old"
    "PluginPackageLock_package (witness_single_lock ''2'') ''acme/a'' = Some ?new"
    by code_simp+
  have ids: "bs_collect (map LockedPluginPackage_package_id (pl_packages (witness_single_lock ''1'') @
      pl_packages (witness_single_lock ''2''))) = [''acme/a'']"
    by code_simp
  have "upgrade_locked witness_plan_externals (Some ?old) (Some ?new) witness_replace"
    using witness_drawn by (simp add: upgrade_locked_def witness_replace_def witness_verified_def witness_record_def)
  then have "PluginPackageLock_validate_upgrade_plan witness_plan_externals (witness_single_lock ''1'')
      (witness_single_lock ''2'') witness_upgrade_plan = Inr ()"
    using witness_single_lock_valid witness_upgrade_plan_valid
    unfolding PluginPackageLock_validate_upgrade_plan_def ids index
    by (simp add: nodes upgrade_delta_iff bt_get_def fields and_then_Inr)
  then show ?thesis
    using witness_upgrade_plan_valid witness_digest_eqs(1) [OF witness_upgrade_plan_valid]
      witness_digest_eqs(2) [OF witness_single_lock_valid(1)] witness_digest_eqs(2) [OF witness_single_lock_valid(2)]
    by (simp add: PluginOperationPlanEnvelope_validate_def witness_envelope_def)
      (simp add: witness_upgrade_plan_def witness_plan_def)
qed

theorem plan_providers_enforced_witness:
  "map pv_surface (po_providers witness_tool_plan) = sort (executable_surfaces (po_packages witness_tool_plan)) \<and>
   (\<exists>c. permission_for (po_packages witness_tool_plan) witness_tool_ref = Some c \<and> sp_native_execution c)"
  using plan_providers_enforced [OF witness_tool_plan_valid] by (simp add: witness_tool_plan_def witness_plan_def)

theorem plan_secret_delta_witness:
  "\<exists>t \<in> set (po_packages witness_tool_plan). secret_in pt_after witness_tool_ref ''token'' t"
  using plan_secret_delta [OF witness_tool_plan_valid, of witness_tool_ref "''token''" SecretGrant]
  by (auto simp: witness_tool_plan_def witness_plan_def Let_def)

theorem plan_covers_lock_witness:
  "\<exists>l \<in> set (pl_packages (witness_single_lock ''1'')).
     locked_by witness_plan_externals l (witness_add Root (witness_verified ''a'' ''1'' []))"
  using plan_covers_lock [OF witness_install_envelope_valid, of "witness_single_lock ''1''"]
  by (simp add: witness_envelope_def) (auto simp: witness_install_plan_def witness_plan_def)

theorem upgrade_covers_locks_witness:
  "upgrade_locked witness_plan_externals (PluginPackageLock_package (witness_single_lock ''1'') ''acme/a'')
     (PluginPackageLock_package (witness_single_lock ''2'') ''acme/a'') witness_replace"
  using upgrade_covers_locks [OF witness_upgrade_envelope_valid]
  by (simp add: witness_envelope_def) (simp add: witness_upgrade_plan_def witness_plan_def, simp add: witness_replace_def)

end
