(* ===== verification/Plan_Binding.thy ===== *)
theory Plan_Binding
  imports Plan
begin

text \<open>
  From planner evidence to an applied plan: the planner's drafts of \<open>plan_draft.rs\<close> and the host binding
  that turns one into an immutable plan, the user confirmation of \<open>plan_confirmation.rs\<close> that applying a
  plan may require, and the installed evidence of \<open>installed_plan.rs\<close> upgrade and removal plans start from.
\<close>

section \<open>Drafts\<close>

record PluginOperationPlanDraft =
  dr_schema :: string
  dr_action :: PluginOperationAction
  dr_package_id :: string
  dr_component_id :: string
  dr_package_lock_digest :: "string option"
  dr_packages :: "PlannedPackageTransition list"
  dr_providers :: "PlannedProviderEvidence list"
  dr_workspace_impacts :: "PlannedWorkspaceImpact list"
  dr_impact :: PlannedOperationImpact
  dr_state :: PlannedStateEvidence

record PluginOperationPlanBinding =
  pb_operation_id :: string
  pb_created_at_ms :: u64
  pb_expires_at_ms :: u64
  pb_scope :: InstallationId
  pb_authority :: PlanAuthority

record PluginOperationConfirmation =
  cf_schema :: string
  cf_operation_id :: string
  cf_plan_digest :: string
  cf_confirmed_by :: PlanActor
  cf_confirmed_at_ms :: u64

record InstalledPluginPlanEvidence =
  ie_schema :: string
  ie_component_id :: string
  ie_package_id :: string
  ie_version :: string
  ie_capability_generation :: u64
  ie_capability_revision :: string
  ie_receipt_digest :: string
  ie_desired_enabled :: bool
  ie_selected_surfaces :: "PluginSurfaceRef list"
  ie_verified_catalog :: VerifiedPluginCatalogRecord

record ('v, 'r) binding_externals = "('v, 'r) plan_externals" +
  draft_from_json :: "string \<Rightarrow> PluginOperationPlanDraft option"
  confirmation_to_json :: "PluginOperationConfirmation \<Rightarrow> string option"
  confirmation_from_json :: "string \<Rightarrow> PluginOperationConfirmation option"
  installed_evidence_to_json :: "InstalledPluginPlanEvidence \<Rightarrow> string option"
  installed_evidence_from_json :: "string \<Rightarrow> InstalledPluginPlanEvidence option"

definition PLUGIN_OPERATION_PLAN_DRAFT_SCHEMA_V3 :: string where
  "PLUGIN_OPERATION_PLAN_DRAFT_SCHEMA_V3 = ''a3s.use.plugin-operation-plan-draft.v3''"

definition PLUGIN_OPERATION_CONFIRMATION_SCHEMA :: string where
  "PLUGIN_OPERATION_CONFIRMATION_SCHEMA = ''a3s.use.plugin-operation-confirmation.v1''"

definition INSTALLED_PLUGIN_PLAN_EVIDENCE_SCHEMA :: string where
  "INSTALLED_PLUGIN_PLAN_EVIDENCE_SCHEMA = ''a3s.use.installed-plugin-plan-evidence.v1''"

text \<open>The digest literal \<open>sha256:0000\<dots>\<close> of the draft validation.\<close>

definition placeholder_digest :: string where
  "placeholder_digest = ''sha256:'' @ replicate 64 CHR ''0''"

definition validation_binding :: PluginOperationPlanBinding where
  "validation_binding =
     \<lparr>pb_operation_id = ''draft:validation'', pb_created_at_ms = 1, pb_expires_at_ms = 2,
      pb_scope = \<lparr>inst_kind = User, inst_id = ''current''\<rparr>,
      pb_authority = \<lparr>au_actor = UserActor, au_decision = Ask, au_policy_digest = placeholder_digest,
        au_confirmation_required = True\<rparr>\<rparr>"

text \<open>The plan that \<open>bind_unchecked\<close> assembles before it validates it.\<close>

definition bound_plan :: "PluginOperationPlanDraft \<Rightarrow> PluginOperationPlanBinding \<Rightarrow> PluginOperationPlan" where
  "bound_plan self binding =
     \<lparr>po_schema = PLUGIN_OPERATION_PLAN_SCHEMA_V4,
      po_operation_id = pb_operation_id binding,
      po_created_at_ms = pb_created_at_ms binding,
      po_expires_at_ms = pb_expires_at_ms binding,
      po_action = dr_action self,
      po_package_id = dr_package_id self,
      po_component_id = dr_component_id self,
      po_scope = pb_scope binding,
      po_package_lock_digest = dr_package_lock_digest self,
      po_prior_package_lock_digest = None,
      po_packages = dr_packages self,
      po_secret_changes = planned_secret_changes (dr_action self) (dr_packages self),
      po_providers = dr_providers self,
      po_workspace_impacts = dr_workspace_impacts self,
      po_impact = dr_impact self,
      po_authority = pb_authority binding,
      po_state = dr_state self\<rparr>"

definition PluginOperationPlanDraft_bind_unchecked ::
  "('v, 'r, 'x) catalog_externals_scheme \<Rightarrow> PluginOperationPlanDraft \<Rightarrow> PluginOperationPlanBinding
     \<Rightarrow> PluginOperationPlan use_result" where
  "PluginOperationPlanDraft_bind_unchecked X self binding =
     (let plan = bound_plan self binding in
      and_then (PluginOperationPlan_validate X plan) (\<lambda>_. Inr plan))"

definition PluginOperationPlanDraft_bind ::
  "('v, 'r, 'x) catalog_externals_scheme \<Rightarrow> PluginOperationPlanDraft \<Rightarrow> PluginOperationPlanBinding
     \<Rightarrow> PluginOperationPlan use_result" where
  "PluginOperationPlanDraft_bind X self binding =
     (if dr_schema self \<noteq> PLUGIN_OPERATION_PLAN_DRAFT_SCHEMA_V3 then Inl PlanInvalid
      else PluginOperationPlanDraft_bind_unchecked X self binding)"

definition PluginOperationPlanDraft_validate ::
  "('v, 'r, 'x) catalog_externals_scheme \<Rightarrow> PluginOperationPlanDraft \<Rightarrow> unit use_result" where
  "PluginOperationPlanDraft_validate X self =
     (if dr_schema self \<noteq> PLUGIN_OPERATION_PLAN_DRAFT_SCHEMA_V3 then Inl PlanInvalid
      else and_then (PluginOperationPlanDraft_bind_unchecked X self validation_binding) (\<lambda>_. Inr ()))"

text \<open>The \<open>filter_map\<close> closure over the surfaces of one package state.\<close>

definition unbound_provider :: "string \<Rightarrow> PlannedPackageState \<Rightarrow> CatalogSurface \<Rightarrow> PlannedProviderEvidence option" where
  "unbound_provider package_id state surface =
     (if cs_kind surface \<notin> {KTool, KMcp} then None
      else
      (let reference = CatalogSurface_reference surface in
       Option.bind (List.find (\<lambda>permission. sp_surface permission = reference) (pc_surfaces (ps_permissions state)))
         (\<lambda>permission. Some
           \<lparr>pv_surface = QualifiedSurface package_id reference,
            pv_provider_id = ''a3s-use-unbound-provider'',
            pv_provider_build_id = ''host-preflight-pending'',
            pv_capability_digest = placeholder_digest,
            pv_semantics_profile_digest = placeholder_digest,
            pv_enforcement = (if sp_native_execution permission then Sandbox else Container)\<rparr>)))"

definition unbound_validation_providers ::
  "PluginOperationAction \<Rightarrow> PlannedPackageTransition list \<Rightarrow> PlannedProviderEvidence list" where
  "unbound_validation_providers action packages =
     (if action \<in> {Uninstall, Disable} then []
      else sort_key pv_surface (concat (map (\<lambda>package.
        case pt_after package of
          None \<Rightarrow> []
        | Some state \<Rightarrow> List.map_filter (unbound_provider (pt_package_id package) state) (pr_surfaces (ps_release state)))
        packages)))"

definition PluginOperationPlanDraft_validate_unbound ::
  "('v, 'r, 'x) catalog_externals_scheme \<Rightarrow> PluginOperationPlanDraft \<Rightarrow> unit use_result" where
  "PluginOperationPlanDraft_validate_unbound X self =
     (if dr_schema self \<noteq> PLUGIN_OPERATION_PLAN_DRAFT_SCHEMA_V3 \<or> dr_providers self \<noteq> [] then Inl PlanInvalid
      else
      (let validation = self\<lparr>dr_providers := unbound_validation_providers (dr_action self) (dr_packages self)\<rparr> in
       and_then (PluginOperationPlanDraft_bind_unchecked X validation validation_binding) (\<lambda>_. Inr ())))"

text \<open>The draft both constructors assemble, the bundle changes derived from the packages.\<close>

definition draft_of ::
  "PluginOperationAction \<Rightarrow> string \<Rightarrow> string \<Rightarrow> PlannedPackageTransition list \<Rightarrow> PlannedProviderEvidence list
     \<Rightarrow> PlannedWorkspaceImpact list \<Rightarrow> PlannedOperationImpact \<Rightarrow> PlannedStateEvidence
     \<Rightarrow> PluginOperationPlanDraft use_result" where
  "draft_of action package_id component_id packages providers workspace_impacts impact state =
     and_then (planned_okf_changes action packages) (\<lambda>okf_changes.
       Inr \<lparr>dr_schema = PLUGIN_OPERATION_PLAN_DRAFT_SCHEMA_V3, dr_action = action,
         dr_package_id = package_id, dr_component_id = component_id, dr_package_lock_digest = None,
         dr_packages = packages, dr_providers = providers, dr_workspace_impacts = workspace_impacts,
         dr_impact = impact\<lparr>im_okf_changes := okf_changes\<rparr>, dr_state = state\<rparr>)"

definition PluginOperationPlanDraft_new ::
  "('v, 'r, 'x) catalog_externals_scheme \<Rightarrow> PluginOperationAction \<Rightarrow> string \<Rightarrow> string
     \<Rightarrow> PlannedPackageTransition list \<Rightarrow> PlannedProviderEvidence list \<Rightarrow> PlannedWorkspaceImpact list
     \<Rightarrow> PlannedOperationImpact \<Rightarrow> PlannedStateEvidence \<Rightarrow> PluginOperationPlanDraft use_result" where
  "PluginOperationPlanDraft_new X action package_id component_id packages providers workspace_impacts impact state =
     and_then (draft_of action package_id component_id packages providers workspace_impacts impact state) (\<lambda>draft.
     and_then (PluginOperationPlanDraft_validate X draft) (\<lambda>_. Inr draft))"

definition PluginOperationPlanDraft_new_unbound ::
  "('v, 'r, 'x) catalog_externals_scheme \<Rightarrow> PluginOperationAction \<Rightarrow> string \<Rightarrow> string
     \<Rightarrow> PlannedPackageTransition list \<Rightarrow> PlannedWorkspaceImpact list
     \<Rightarrow> PlannedOperationImpact \<Rightarrow> PlannedStateEvidence \<Rightarrow> PluginOperationPlanDraft use_result" where
  "PluginOperationPlanDraft_new_unbound X action package_id component_id packages workspace_impacts impact state =
     and_then (draft_of action package_id component_id packages [] workspace_impacts impact state) (\<lambda>draft.
     and_then (PluginOperationPlanDraft_validate_unbound X draft) (\<lambda>_. Inr draft))"

definition PluginOperationPlanDraft_from_json ::
  "('v, 'r, 'x) binding_externals_scheme \<Rightarrow> string \<Rightarrow> PluginOperationPlanDraft use_result" where
  "PluginOperationPlanDraft_from_json X input =
     parse_contract (draft_from_json X) PlanInvalid (PluginOperationPlanDraft_validate X) input"

definition PluginOperationPlanDraft_from_unbound_json ::
  "('v, 'r, 'x) binding_externals_scheme \<Rightarrow> string \<Rightarrow> PluginOperationPlanDraft use_result" where
  "PluginOperationPlanDraft_from_unbound_json X input =
     parse_contract (draft_from_json X) PlanInvalid (PluginOperationPlanDraft_validate_unbound X) input"

section \<open>Confirmation\<close>

definition PluginOperationConfirmation_validate :: "PluginOperationConfirmation \<Rightarrow> unit use_result" where
  "PluginOperationConfirmation_validate self =
     (if cf_schema self \<noteq> PLUGIN_OPERATION_CONFIRMATION_SCHEMA
         \<or> \<not> valid_machine_id (cf_operation_id self)
         \<or> \<not> valid_sha256 (cf_plan_digest self)
         \<or> cf_confirmed_by self \<noteq> UserActor
         \<or> cf_confirmed_at_ms self = 0
      then Inl PlanConfirmationInvalid else Inr ())"

definition PluginOperationConfirmation_from_json ::
  "('v, 'r, 'x) binding_externals_scheme \<Rightarrow> string \<Rightarrow> PluginOperationConfirmation use_result" where
  "PluginOperationConfirmation_from_json X input =
     parse_contract (confirmation_from_json X) PlanConfirmationInvalid PluginOperationConfirmation_validate input"

definition PluginOperationConfirmation_canonical_bytes ::
  "('v, 'r, 'x) binding_externals_scheme \<Rightarrow> PluginOperationConfirmation \<Rightarrow> string use_result" where
  "PluginOperationConfirmation_canonical_bytes X self =
     and_then (PluginOperationConfirmation_validate self) (\<lambda>_.
       canonical_json (confirmation_to_json X) PlanConfirmationInvalid self)"

definition PluginOperationConfirmation_descriptor_digest ::
  "('v, 'r, 'x) binding_externals_scheme \<Rightarrow> PluginOperationConfirmation \<Rightarrow> string use_result" where
  "PluginOperationConfirmation_descriptor_digest X self =
     and_then (PluginOperationConfirmation_canonical_bytes X self) (\<lambda>bytes. Inr (canonical_digest X bytes))"

definition confirmation_binds :: "PluginOperationPlan \<Rightarrow> string \<Rightarrow> u64 \<Rightarrow> PluginOperationConfirmation \<Rightarrow> bool" where
  "confirmation_binds plan expected_plan_digest now_ms confirmation = (\<not>
     (cf_operation_id confirmation \<noteq> po_operation_id plan
      \<or> cf_plan_digest confirmation \<noteq> expected_plan_digest
      \<or> cf_confirmed_at_ms confirmation < po_created_at_ms plan
      \<or> cf_confirmed_at_ms confirmation \<ge> po_expires_at_ms plan
      \<or> cf_confirmed_at_ms confirmation > now_ms))"

definition verify_plan_confirmed_apply ::
  "('v, 'r, 'x) plan_externals_scheme \<Rightarrow> PluginOperationPlan \<Rightarrow> string \<Rightarrow> string \<Rightarrow> string
     \<Rightarrow> PluginOperationConfirmation option \<Rightarrow> u64 \<Rightarrow> unit use_result" where
  "verify_plan_confirmed_apply X plan expected_plan_digest operation_id plan_digest confirmation now_ms =
     and_then (verify_plan_apply X plan expected_plan_digest operation_id plan_digest now_ms) (\<lambda>_.
     (case (au_decision (po_authority plan), confirmation) of
        (Allow, None) \<Rightarrow> Inr ()
      | (Ask, None) \<Rightarrow> Inl PlanConfirmationRequired
      | (Ask, Some confirmation) \<Rightarrow>
          and_then (PluginOperationConfirmation_validate confirmation) (\<lambda>_.
          if \<not> confirmation_binds plan expected_plan_digest now_ms confirmation
          then Inl PlanConfirmationMismatch else Inr ())
      | (Allow, Some _) \<Rightarrow> Inl PlanConfirmationMismatch
      | (Deny, _) \<Rightarrow> Inl PlanDenied))"

definition PluginOperationPlanEnvelope_verify_confirmed_apply ::
  "('v, 'r, 'x) plan_externals_scheme \<Rightarrow> PluginOperationPlanEnvelope \<Rightarrow> string \<Rightarrow> string
     \<Rightarrow> PluginOperationConfirmation option \<Rightarrow> u64 \<Rightarrow> unit use_result" where
  "PluginOperationPlanEnvelope_verify_confirmed_apply X self operation_id plan_digest confirmation now_ms =
     and_then (PluginOperationPlanEnvelope_validate X self) (\<lambda>_.
       verify_plan_confirmed_apply X (pe_plan self) (pe_plan_digest self) operation_id plan_digest confirmation now_ms)"

section \<open>Installed evidence\<close>

definition valid_raw_sha256 :: "string \<Rightarrow> bool" where
  "valid_raw_sha256 value = valid_sha256 (''sha256:'' @ value)"

definition installed_identity_valid :: "InstalledPluginPlanEvidence \<Rightarrow> bool" where
  "installed_identity_valid self = (\<not>
     (ie_schema self \<noteq> INSTALLED_PLUGIN_PLAN_EVIDENCE_SCHEMA
      \<or> \<not> valid_package_id (ie_package_id self)
      \<or> \<not> valid_machine_id (ie_component_id self)
      \<or> ie_component_id self \<noteq> ''use/'' @ ie_package_id self
      \<or> ie_version self \<noteq> cr_version (vr_record (ie_verified_catalog self))
      \<or> ie_package_id self \<noteq> cr_package_id (vr_record (ie_verified_catalog self))
      \<or> \<not> PluginCatalogRecord_is_package_plan_ready (vr_record (ie_verified_catalog self))
      \<or> ie_capability_generation self = 0
      \<or> \<not> valid_raw_sha256 (ie_capability_revision self)
      \<or> \<not> valid_sha256 (ie_receipt_digest self)
      \<or> ie_selected_surfaces self = []
      \<or> length (ie_selected_surfaces self) > MAX_PLUGIN_PLAN_ITEMS
      \<or> \<not> strictly_sorted_unique (ie_selected_surfaces self)))"

definition InstalledPluginPlanEvidence_validate ::
  "('v, 'r, 'x) catalog_externals_scheme \<Rightarrow> InstalledPluginPlanEvidence \<Rightarrow> unit use_result" where
  "InstalledPluginPlanEvidence_validate X self =
     and_then (map_err (\<lambda>_. InstalledPlanEvidenceInvalid)
       (VerifiedPluginCatalogRecord_validate X (ie_verified_catalog self))) (\<lambda>_.
     if \<not> installed_identity_valid self then Inl InstalledPlanEvidenceInvalid
     else
     and_then (map_err (\<lambda>_. InstalledPlanEvidenceInvalid)
       (selected_state X (ie_verified_catalog self) (ie_selected_surfaces self))) (\<lambda>selected.
     if map CatalogSurface_reference (pr_surfaces (ps_release selected)) \<noteq> ie_selected_surfaces self
     then Inl InstalledPlanEvidenceInvalid else Inr ()))"

definition InstalledPluginPlanEvidence_from_json ::
  "('v, 'r, 'x) binding_externals_scheme \<Rightarrow> string \<Rightarrow> InstalledPluginPlanEvidence use_result" where
  "InstalledPluginPlanEvidence_from_json X input =
     parse_contract (installed_evidence_from_json X) InstalledPlanEvidenceInvalid
       (InstalledPluginPlanEvidence_validate X) input"

definition InstalledPluginPlanEvidence_canonical_bytes ::
  "('v, 'r, 'x) binding_externals_scheme \<Rightarrow> InstalledPluginPlanEvidence \<Rightarrow> string use_result" where
  "InstalledPluginPlanEvidence_canonical_bytes X self =
     and_then (InstalledPluginPlanEvidence_validate X self) (\<lambda>_.
       canonical_json (installed_evidence_to_json X) InstalledPlanEvidenceInvalid self)"

definition InstalledPluginPlanEvidence_descriptor_digest ::
  "('v, 'r, 'x) binding_externals_scheme \<Rightarrow> InstalledPluginPlanEvidence \<Rightarrow> string use_result" where
  "InstalledPluginPlanEvidence_descriptor_digest X self =
     and_then (InstalledPluginPlanEvidence_canonical_bytes X self) (\<lambda>bytes. Inr (canonical_digest X bytes))"

section \<open>Lemmas: binding a draft\<close>

lemma bind_unchecked_iff:
  "PluginOperationPlanDraft_bind_unchecked X d b = Inr p \<longleftrightarrow>
     PluginOperationPlan_validate X (bound_plan d b) = Inr () \<and> p = bound_plan d b"
  by (auto simp: PluginOperationPlanDraft_bind_unchecked_def Let_def and_then_Inr)

lemma draft_validate_iff:
  "PluginOperationPlanDraft_validate X d = Inr () \<longleftrightarrow> dr_schema d = PLUGIN_OPERATION_PLAN_DRAFT_SCHEMA_V3 \<and>
     PluginOperationPlan_validate X (bound_plan d validation_binding) = Inr ()"
  by (auto simp: PluginOperationPlanDraft_validate_def and_then_Inr bind_unchecked_iff)

lemma bound_plan_simps [simp]:
  "po_schema (bound_plan d b) = PLUGIN_OPERATION_PLAN_SCHEMA_V4"
  "po_operation_id (bound_plan d b) = pb_operation_id b"
  "po_created_at_ms (bound_plan d b) = pb_created_at_ms b"
  "po_expires_at_ms (bound_plan d b) = pb_expires_at_ms b"
  "po_action (bound_plan d b) = dr_action d"
  "po_package_id (bound_plan d b) = dr_package_id d"
  "po_component_id (bound_plan d b) = dr_component_id d"
  "po_scope (bound_plan d b) = pb_scope b"
  "po_package_lock_digest (bound_plan d b) = dr_package_lock_digest d"
  "po_prior_package_lock_digest (bound_plan d b) = None"
  "po_packages (bound_plan d b) = dr_packages d"
  "po_secret_changes (bound_plan d b) = planned_secret_changes (dr_action d) (dr_packages d)"
  "po_providers (bound_plan d b) = dr_providers d"
  "po_workspace_impacts (bound_plan d b) = dr_workspace_impacts d"
  "po_impact (bound_plan d b) = dr_impact d"
  "po_authority (bound_plan d b) = pb_authority b"
  "po_state (bound_plan d b) = dr_state d"
  by (simp_all add: bound_plan_def)

text \<open>What the host adds to a draft and how it has to fit it.\<close>

definition binding_lifetime :: "PluginOperationPlanBinding \<Rightarrow> bool" where
  "binding_lifetime b \<longleftrightarrow> valid_machine_id (pb_operation_id b) \<and> 0 < pb_created_at_ms b \<and>
     pb_created_at_ms b < pb_expires_at_ms b \<and> pb_expires_at_ms b - pb_created_at_ms b \<le> MAX_PLAN_LIFETIME_MS"

definition binding_authority :: "PluginOperationPlanBinding \<Rightarrow> bool" where
  "binding_authority b \<longleftrightarrow> valid_sha256 (au_policy_digest (pb_authority b)) \<and>
     (au_confirmation_required (pb_authority b) \<longleftrightarrow> au_decision (pb_authority b) = Ask)"

definition binding_fits :: "PluginOperationPlanDraft \<Rightarrow> PluginOperationPlanBinding \<Rightarrow> bool" where
  "binding_fits d b \<longleftrightarrow>
     ((\<exists>t \<in> set (dr_packages d). is_local_reviewed t) \<longrightarrow>
        au_actor (pb_authority b) = UserActor \<and> au_decision (pb_authority b) = Ask) \<and>
     ((\<exists>v \<in> set (dr_providers d). pv_enforcement v = NativeUnconfined) \<longrightarrow>
        \<not> (au_actor (pb_authority b) = Agent \<and> au_decision (pb_authority b) = Allow)) \<and>
     (inst_kind (pb_scope b) = Workspace \<longrightarrow> map wi_scope_id (dr_workspace_impacts d) = [inst_id (pb_scope b)])"

lemma validation_binding_ok:
  "binding_lifetime validation_binding" "binding_authority validation_binding" "binding_fits d validation_binding"
  "InstallationId_validate (pb_scope validation_binding) = Inr ()"
proof -
  show "binding_lifetime validation_binding" unfolding binding_lifetime_def by code_simp
  show "binding_authority validation_binding" unfolding binding_authority_def by code_simp
  show "InstallationId_validate (pb_scope validation_binding) = Inr ()" by code_simp
qed (simp add: binding_fits_def validation_binding_def)

text \<open>The draft's part of a plan, and the host's part, are independent.\<close>

definition draft_part :: "('v, 'r, 'x) catalog_externals_scheme \<Rightarrow> PluginOperationPlanDraft \<Rightarrow> bool" where
  "draft_part X d \<longleftrightarrow> PluginOperationPlan_validate X (bound_plan d validation_binding) = Inr ()"

lemma header_bound_iff:
  "plan_header_valid (bound_plan d b) \<longleftrightarrow>
     binding_lifetime b \<and> plan_header_valid (bound_plan d validation_binding)"
  using validation_binding_ok(1)
  by (auto simp: plan_header_valid_def binding_lifetime_def word_neq_0_conv not_less not_le)

lemma authority_bound_iff:
  "validate_authority_and_state (bound_plan d b) = Inr () \<longleftrightarrow>
     binding_authority b \<and> validate_authority_and_state (bound_plan d validation_binding) = Inr ()"
  using validation_binding_ok(2)
  by (cases "dr_action d") (auto simp: validate_authority_and_state_def binding_authority_def split: if_splits)

lemma provider_bound_iff:
  "provider_ok (bound_plan d b) v \<longleftrightarrow> provider_ok (bound_plan d validation_binding) v \<and>
     (pv_enforcement v = NativeUnconfined \<longrightarrow>
        \<not> (au_actor (pb_authority b) = Agent \<and> au_decision (pb_authority b) = Allow))"
  by (auto simp: provider_ok_def validation_binding_def)

lemma packages_bound_iff:
  "validate_packages X (bound_plan d b) = Inr () \<longleftrightarrow> validate_packages X (bound_plan d validation_binding) = Inr () \<and>
     ((\<exists>t \<in> set (dr_packages d). is_local_reviewed t) \<longrightarrow>
        au_actor (pb_authority b) = UserActor \<and> au_decision (pb_authority b) = Ask)"
  by (auto simp: validate_packages_iff plan_package_ok_def validation_binding_def)

lemma impacts_single: "(case xs of [x] \<Rightarrow> f x = y | _ \<Rightarrow> False) \<longleftrightarrow> map f xs = [y]"
  by (auto split: list.splits)

definition impacts_listed :: "PluginOperationAction \<Rightarrow> PlannedWorkspaceImpact list \<Rightarrow> bool" where
  "impacts_listed action impacts \<longleftrightarrow> sorted_wrt (<) (map wi_scope_id impacts) \<and>
     (\<forall>impact \<in> set impacts. \<not> workspace_impact_invalid action impact)"

lemma validate_impacts_iff:
  "validate_workspace_impacts p = Inr () \<longleftrightarrow> impacts_listed (po_action p) (po_workspace_impacts p) \<and>
     (inst_kind (po_scope p) = Workspace \<longrightarrow> map wi_scope_id (po_workspace_impacts p) = [inst_id (po_scope p)])"
  by (simp add: validate_workspace_impacts_def impacts_single if_Inl_Inr and_then_Inr for_each_Inr impacts_listed_def)

lemma impacts_bound_iff:
  "validate_workspace_impacts (bound_plan d b) = Inr () \<longleftrightarrow>
     validate_workspace_impacts (bound_plan d validation_binding) = Inr () \<and>
     (inst_kind (pb_scope b) = Workspace \<longrightarrow> map wi_scope_id (dr_workspace_impacts d) = [inst_id (pb_scope b)])"
  by (simp add: validate_impacts_iff validation_binding_def)

lemma providers_bound_iff:
  "validate_providers (bound_plan d b) = Inr () \<longleftrightarrow> validate_providers (bound_plan d validation_binding) = Inr () \<and>
     ((\<exists>v \<in> set (dr_providers d). pv_enforcement v = NativeUnconfined) \<longrightarrow>
        \<not> (au_actor (pb_authority b) = Agent \<and> au_decision (pb_authority b) = Allow))"
  unfolding validate_providers_iff provider_bound_iff [of d b] by (auto split: if_splits)

lemma bound_plan_valid_iff:
  "PluginOperationPlan_validate X (bound_plan d b) = Inr () \<longleftrightarrow>
     draft_part X d \<and> binding_lifetime b \<and> InstallationId_validate (pb_scope b) = Inr () \<and> binding_authority b \<and>
     binding_fits d b"
proof -
  have "validate_secrets (bound_plan d b) = validate_secrets (bound_plan d validation_binding)"
    "validate_impact (bound_plan d b) = validate_impact (bound_plan d validation_binding)"
    by (simp_all add: validate_secrets_def validate_impact_def)
  then show ?thesis
    unfolding draft_part_def plan_validate_iff [of X "bound_plan d b"] plan_validate_iff [of X "bound_plan d validation_binding"]
      header_bound_iff [of d b] authority_bound_iff [of d b] packages_bound_iff [of X d b] providers_bound_iff [of d b]
      impacts_bound_iff [of d b] binding_fits_def
    using validation_binding_ok(4) by (simp only: bound_plan_simps) blast
qed

section \<open>Lemmas: drafts without providers\<close>

lemma permission_for_member:
  assumes "distinct (map pt_package_id packages)" and "t \<in> set packages" and "pt_after t = Some st"
  shows "permission_for packages (QualifiedSurface (pt_package_id t) ref) =
    List.find (\<lambda>permission. sp_surface permission = ref) (pc_surfaces (ps_permissions st))"
proof -
  have "List.find (\<lambda>package. pt_package_id package = pt_package_id t) packages = Some t"
    using assms(1,2) by (simp add: find_key_Some)
  with assms(3) show ?thesis by (simp add: permission_for_def)
qed

definition executable_in :: "PlannedPackageTransition list \<Rightarrow> PlanQualifiedSurfaceRef \<Rightarrow> bool" where
  "executable_in packages q \<longleftrightarrow> (\<exists>t \<in> set packages. \<exists>st s. pt_after t = Some st \<and>
     s \<in> set (pr_surfaces (ps_release st)) \<and> cs_kind s \<in> {KTool, KMcp} \<and>
     q = QualifiedSurface (pt_package_id t) (CatalogSurface_reference s))"

lemma set_option_list: "x \<in> set (case m of None \<Rightarrow> [] | Some st \<Rightarrow> f st) \<longleftrightarrow> (\<exists>st. m = Some st \<and> x \<in> set (f st))"
  by (cases m) simp_all

lemma set_map_filter: "y \<in> set (List.map_filter f xs) \<longleftrightarrow> (\<exists>x \<in> set xs. f x = Some y)"
  by (induction xs) (auto simp: List.map_filter_simps split: option.split)

lemma executable_surfaces_set: "q \<in> set (executable_surfaces packages) \<longleftrightarrow> executable_in packages q"
  unfolding executable_surfaces_def executable_in_def set_concat set_map UN_iff bex_simps image_iff set_option_list
  by auto

lemma map_filter_keys:
  assumes "\<forall>x \<in> set xs. P x \<longrightarrow> (\<exists>y. f x = Some y \<and> g y = h x)" and "\<forall>x \<in> set xs. \<not> P x \<longrightarrow> f x = None"
  shows "map g (List.map_filter f xs) = map h (filter P xs)"
  using assms by (induction xs) (auto simp: List.map_filter_simps)

lemma insort_map_key: "map f (insort_key f x xs) = insort (f x) (map f xs)"
  by (induction xs) simp_all

lemma sort_map_key: "map f (sort_key f xs) = sort (map f xs)"
  by (induction xs) (simp_all add: insort_map_key)

lemma unbound_surfaces:
  assumes "distinct (map pt_package_id packages)"
    and "\<forall>q. executable_in packages q \<longrightarrow> permission_for packages q \<noteq> None"
    and "action \<notin> {Uninstall, Disable}"
  shows "map pv_surface (unbound_validation_providers action packages) = sort (executable_surfaces packages)"
proof -
  have one: "map pv_surface (List.map_filter (unbound_provider (pt_package_id t) st) (pr_surfaces (ps_release st))) =
      map (\<lambda>s. QualifiedSurface (pt_package_id t) (CatalogSurface_reference s))
        (filter (\<lambda>s. cs_kind s \<in> {KTool, KMcp}) (pr_surfaces (ps_release st)))"
    if t: "t \<in> set packages" "pt_after t = Some st" for t st
  proof (rule map_filter_keys)
    show "\<forall>s \<in> set (pr_surfaces (ps_release st)). cs_kind s \<in> {KTool, KMcp} \<longrightarrow>
        (\<exists>v. unbound_provider (pt_package_id t) st s = Some v \<and>
           pv_surface v = QualifiedSurface (pt_package_id t) (CatalogSurface_reference s))"
    proof (intro ballI impI)
      fix s assume s: "s \<in> set (pr_surfaces (ps_release st))" "cs_kind s \<in> {KTool, KMcp}"
      with t have "executable_in packages (QualifiedSurface (pt_package_id t) (CatalogSurface_reference s))"
        unfolding executable_in_def by blast
      with assms(2) have "permission_for packages (QualifiedSurface (pt_package_id t) (CatalogSurface_reference s)) \<noteq> None"
        by blast
      then obtain c where "List.find (\<lambda>permission. sp_surface permission = CatalogSurface_reference s)
          (pc_surfaces (ps_permissions st)) = Some c"
        unfolding permission_for_member [OF assms(1) t] by blast
      with s show "\<exists>v. unbound_provider (pt_package_id t) st s = Some v \<and>
           pv_surface v = QualifiedSurface (pt_package_id t) (CatalogSurface_reference s)"
        by (simp add: unbound_provider_def Let_def)
    qed
  qed (simp add: unbound_provider_def)
  have "map pv_surface (concat (map (\<lambda>package. case pt_after package of None \<Rightarrow> [] | Some state \<Rightarrow>
      List.map_filter (unbound_provider (pt_package_id package) state) (pr_surfaces (ps_release state))) packages)) =
    executable_surfaces packages"
    unfolding executable_surfaces_def map_concat map_map comp_def
    by (intro arg_cong [where f = concat] map_cong refl) (simp add: one split: option.split)
  with assms(3) show ?thesis
    by (simp add: unbound_validation_providers_def sort_map_key)
qed

lemma unbound_providers_set:
  "v \<in> set (unbound_validation_providers action packages) \<longleftrightarrow> action \<notin> {Uninstall, Disable} \<and>
     (\<exists>t \<in> set packages. \<exists>st. pt_after t = Some st \<and>
        (\<exists>s \<in> set (pr_surfaces (ps_release st)). unbound_provider (pt_package_id t) st s = Some v))"
  by (cases "action \<in> {Uninstall, Disable}")
    (simp_all add: unbound_validation_providers_def set_option_list set_map_filter, metis)

lemma unbound_providers_ok:
  assumes ids: "distinct (map pt_package_id (po_packages p))"
    and permitted: "\<forall>q c. executable_in (po_packages p) q \<longrightarrow> permission_for (po_packages p) q = Some c \<longrightarrow> \<not> is_host_grant q c"
    and v: "v \<in> set (unbound_validation_providers action (po_packages p))"
  shows "provider_ok p v"
proof -
  from v obtain t st s where t: "t \<in> set (po_packages p)" "pt_after t = Some st"
    and s: "s \<in> set (pr_surfaces (ps_release st))" "unbound_provider (pt_package_id t) st s = Some v"
    by (auto simp: unbound_providers_set)
  let ?q = "QualifiedSurface (pt_package_id t) (CatalogSurface_reference s)"
  from s(2) obtain c where kind: "cs_kind s \<in> {KTool, KMcp}"
    and c: "List.find (\<lambda>permission. sp_surface permission = CatalogSurface_reference s) (pc_surfaces (ps_permissions st)) = Some c"
    and fields: "pv_surface v = ?q" "pv_provider_id v = ''a3s-use-unbound-provider''"
      "pv_provider_build_id v = ''host-preflight-pending''" "pv_capability_digest v = placeholder_digest"
      "pv_semantics_profile_digest v = placeholder_digest"
      "pv_enforcement v = (if sp_native_execution c then Sandbox else Container)"
    by (auto simp: unbound_provider_def Let_def Option.bind_eq_Some_conv split: if_splits)
  have permission: "permission_for (po_packages p) ?q = Some c"
    unfolding permission_for_member [OF ids t] by (rule c)
  have "executable_in (po_packages p) ?q" using t s(1) kind unfolding executable_in_def by blast
  with permitted permission have "\<not> is_host_grant ?q c" by blast
  then have "enforcement_matches ?q c (pv_enforcement v)" using fields(6) by (simp add: enforcement_matches_def)
  moreover have "valid_machine_id ''a3s-use-unbound-provider''" "valid_machine_id ''host-preflight-pending''"
    "valid_sha256 placeholder_digest" by code_simp+
  moreover have "pv_enforcement v \<noteq> NativeUnconfined" using fields(6) by simp
  ultimately show ?thesis using permission fields(1-5) by (simp add: provider_ok_def)
qed

lemma unbound_enforcement:
  "v \<in> set (unbound_validation_providers action packages) \<Longrightarrow> pv_enforcement v \<noteq> NativeUnconfined"
  by (auto simp: unbound_providers_set unbound_provider_def Let_def Option.bind_eq_Some_conv split: if_splits)

text \<open>Only the number of providers and their evidence depend on the providers of a draft.\<close>

lemma draft_providers_iff:
  "draft_part X (d\<lparr>dr_providers := vs\<rparr>) \<longleftrightarrow>
     (let p = bound_plan d validation_binding in
      plan_header_valid (bound_plan (d\<lparr>dr_providers := []\<rparr>) validation_binding) \<and> length vs \<le> MAX_PLUGIN_PLAN_ITEMS \<and>
      validate_authority_and_state p = Inr () \<and> validate_packages X p = Inr () \<and>
      validate_workspace_impacts p = Inr () \<and> validate_impact p = Inr () \<and> validate_secrets p = Inr () \<and>
      (if dr_action d \<in> {Uninstall, Disable} then vs = []
       else map pv_surface vs = sort (executable_surfaces (dr_packages d)) \<and> (\<forall>v \<in> set vs. provider_ok p v)))"
proof -
  let ?p = "bound_plan d validation_binding" and ?q = "bound_plan (d\<lparr>dr_providers := vs\<rparr>) validation_binding"
  have "plan_header_valid ?q \<longleftrightarrow> plan_header_valid (bound_plan (d\<lparr>dr_providers := []\<rparr>) validation_binding) \<and>
      length vs \<le> MAX_PLUGIN_PLAN_ITEMS"
    by (auto simp: plan_header_valid_def not_less)
  moreover have "validate_authority_and_state ?q = validate_authority_and_state ?p"
    by (cases "dr_action d") (simp_all add: validate_authority_and_state_def)
  moreover have "validate_secrets ?q = validate_secrets ?p"
    "validate_workspace_impacts ?q = validate_workspace_impacts ?p" "validate_impact ?q = validate_impact ?p"
    unfolding validate_secrets_def validate_workspace_impacts_def validate_impact_def
      bound_plan_simps by simp_all
  moreover have "validate_packages X ?q = Inr () \<longleftrightarrow> validate_packages X ?p = Inr ()"
    by (simp add: validate_packages_iff plan_package_ok_def)
  moreover have "provider_ok ?q = provider_ok ?p" by (simp add: fun_eq_iff provider_ok_def)
  ultimately show ?thesis
    unfolding draft_part_def plan_validate_iff validate_providers_iff Let_def
    using validation_binding_ok(4) by (simp add: conj_ac)
qed

definition selects_host_grant :: "PluginOperationPlanDraft \<Rightarrow> bool" where
  "selects_host_grant d \<longleftrightarrow> dr_action d \<notin> {Uninstall, Disable} \<and>
     (\<exists>q \<in> set (executable_surfaces (dr_packages d)). is_some_and (is_host_grant q) (permission_for (dr_packages d) q))"

lemma unbound_complete:
  assumes valid: "draft_part X (d\<lparr>dr_providers := vs\<rparr>)" and host: "\<not> selects_host_grant d"
  shows "draft_part X (d\<lparr>dr_providers := unbound_validation_providers (dr_action d) (dr_packages d)\<rparr>)"
proof -
  let ?p = "bound_plan d validation_binding" and ?us = "unbound_validation_providers (dr_action d) (dr_packages d)"
  note parts = valid [unfolded draft_providers_iff Let_def]
  have ids: "distinct (map pt_package_id (po_packages ?p))"
    using parts by (simp add: validate_packages_iff sorted_less_distinct)
  show ?thesis
  proof (cases "dr_action d \<in> {Uninstall, Disable}")
    case True
    then have "?us = []" by (simp add: unbound_validation_providers_def)
    moreover from parts True have "vs = []" by simp
    ultimately show ?thesis using valid by simp
  next
    case False
    with parts have surfaces: "map pv_surface vs = sort (executable_surfaces (dr_packages d))"
      and ok: "\<forall>v \<in> set vs. provider_ok ?p v" by simp_all
    have permitted: "permission_for (dr_packages d) q \<noteq> None" if "executable_in (dr_packages d) q" for q
    proof -
      from that have "q \<in> set (map pv_surface vs)" unfolding surfaces set_sort executable_surfaces_set .
      then obtain v where v: "v \<in> set vs" "pv_surface v = q" by auto
      from ok v(1) have "provider_ok ?p v" by blast
      with v(2) show ?thesis by (auto simp: provider_ok_def)
    qed
    have same: "map pv_surface ?us = sort (executable_surfaces (dr_packages d))"
      using ids permitted False by (intro unbound_surfaces) auto
    then have "length ?us = length vs" using surfaces by (metis length_map)
    moreover have "\<not> is_host_grant q c" if "executable_in (dr_packages d) q" "permission_for (dr_packages d) q = Some c" for q c
      using that host False unfolding selects_host_grant_def executable_surfaces_set [symmetric] is_some_and_iff by blast
    then have "provider_ok ?p v" if "v \<in> set ?us" for v
      using that by (intro unbound_providers_ok [of ?p v "dr_action d", OF ids]) simp_all
    ultimately show ?thesis unfolding draft_providers_iff Let_def using parts False same by simp
  qed
qed

section \<open>Properties\<close>

text \<open>
  C32: binding is exact. A draft and a host binding give a plan if and only if the planner's own
  validation accepts the draft and the host's part is well-formed and fits it: a valid operation
  identity, scope and policy, a lifetime of at most one hour, a confirmation requirement exactly for
  the ask decision, a user's ask decision for locally reviewed sources, no unconfined provider on an agent's own
  authority, and a workspace scope that is the only planned impact. The plan is then the draft with
  the derived secret delta and the host's fields.
\<close>

theorem draft_bind_exact:
  "PluginOperationPlanDraft_bind X d b = Inr p \<longleftrightarrow>
     PluginOperationPlanDraft_validate X d = Inr () \<and> binding_lifetime b \<and>
     InstallationId_validate (pb_scope b) = Inr () \<and> binding_authority b \<and> binding_fits d b \<and> p = bound_plan d b"
  unfolding PluginOperationPlanDraft_bind_def if_Inl_Inr bind_unchecked_iff bound_plan_valid_iff
    draft_validate_iff [folded draft_part_def] by auto

text \<open>
  C33: an unbound draft is accepted exactly when some provider evidence completes it to a valid draft and
  it activates no host-granted endpoint. The second condition is a defect: the stand-in evidence claims a
  container for such an endpoint, which the validation of a plan never accepts, so a draft that real
  evidence would complete is refused.
\<close>

theorem unbound_draft_completable:
  "PluginOperationPlanDraft_validate_unbound X d = Inr () \<longleftrightarrow>
     dr_providers d = [] \<and> (\<exists>vs. PluginOperationPlanDraft_validate X (d\<lparr>dr_providers := vs\<rparr>) = Inr ()) \<and>
     \<not> selects_host_grant d"
proof -
  let ?us = "unbound_validation_providers (dr_action d) (dr_packages d)"
  have "PluginOperationPlanDraft_validate_unbound X d = Inr () \<longleftrightarrow> dr_providers d = [] \<and>
      dr_schema d = PLUGIN_OPERATION_PLAN_DRAFT_SCHEMA_V3 \<and> draft_part X (d\<lparr>dr_providers := ?us\<rparr>)"
    by (auto simp: PluginOperationPlanDraft_validate_unbound_def and_then_Inr bind_unchecked_iff draft_part_def)
  also have "draft_part X (d\<lparr>dr_providers := ?us\<rparr>) \<longleftrightarrow>
      (\<exists>vs. draft_part X (d\<lparr>dr_providers := vs\<rparr>)) \<and> \<not> selects_host_grant d"
  proof (intro iffI conjI; (elim conjE exE)?)
    assume valid: "draft_part X (d\<lparr>dr_providers := ?us\<rparr>)"
    then show "\<exists>vs. draft_part X (d\<lparr>dr_providers := vs\<rparr>)" ..
    show "\<not> selects_host_grant d"
    proof
      assume "selects_host_grant d"
      then obtain q c where sel: "dr_action d \<notin> {Uninstall, Disable}" and q: "q \<in> set (executable_surfaces (dr_packages d))"
        and c: "permission_for (dr_packages d) q = Some c" "is_host_grant q c"
        by (auto simp: selects_host_grant_def is_some_and_iff)
      from valid sel have "map pv_surface ?us = sort (executable_surfaces (dr_packages d))"
        and ok: "\<forall>v \<in> set ?us. provider_ok (bound_plan d validation_binding) v"
        by (simp_all add: draft_providers_iff Let_def)
      with q obtain v where v: "v \<in> set ?us" "pv_surface v = q" by (metis set_map set_sort imageE)
      with ok have "provider_ok (bound_plan d validation_binding) v" by blast
      with v(2) c have "pv_enforcement v = NativeUnconfined" by (auto simp: provider_ok_def enforcement_matches_def)
      with unbound_enforcement [OF v(1)] show False by blast
    qed
  qed (rule unbound_complete)
  finally show ?thesis by (auto simp: draft_validate_iff draft_part_def)
qed

lemma verify_apply_facts:
  assumes "verify_plan_apply X p expected op digest now = Inr ()"
  shows "PluginOperationPlan_validate X p = Inr ()" "PluginOperationPlan_descriptor_digest X p = Inr expected"
    "op = po_operation_id p" "digest = expected" "po_created_at_ms p \<le> now" "now < po_expires_at_ms p"
    "au_decision (po_authority p) \<noteq> Deny"
  using assms unfolding verify_plan_apply_def and_then_Inr if_Inl_Inr by (auto simp: not_less not_le)

lemma confirmed_apply_facts:
  assumes "PluginOperationPlanEnvelope_verify_confirmed_apply X e op digest conf now = Inr ()"
  shows "verify_plan_apply X (pe_plan e) (pe_plan_digest e) op digest now = Inr ()"
    and "conf = None \<longleftrightarrow> au_decision (po_authority (pe_plan e)) = Allow"
    and "conf = Some c \<Longrightarrow> PluginOperationConfirmation_validate c = Inr () \<and>
      confirmation_binds (pe_plan e) (pe_plan_digest e) now c"
  using assms
  unfolding PluginOperationPlanEnvelope_verify_confirmed_apply_def verify_plan_confirmed_apply_def and_then_Inr
  by (auto simp: result_simps split: PlanPolicyDecision.splits option.splits if_splits)

text \<open>
  C31: an envelope is applied only under the identity and digest it was reviewed with, and what is applied
  is authorised: with no confirmation the policy allowed it, no package comes from a locally reviewed
  source and no agent starts an unconfined provider; with a confirmation the policy asked for it and it
  is a user's, for exactly this operation and plan, given while the plan was active and not in the future.
\<close>

theorem confirmed_apply_authorised:
  assumes "PluginOperationPlanEnvelope_verify_confirmed_apply X e op digest conf now = Inr ()"
  shows "op = po_operation_id (pe_plan e) \<and> digest = pe_plan_digest e \<and>
    PluginOperationPlan_descriptor_digest X (pe_plan e) = Inr digest \<and>
    (case conf of
       None \<Rightarrow> au_decision (po_authority (pe_plan e)) = Allow \<and>
         (\<forall>t \<in> set (po_packages (pe_plan e)). \<not> is_local_reviewed t) \<and>
         (au_actor (po_authority (pe_plan e)) = Agent \<longrightarrow>
            (\<forall>v \<in> set (po_providers (pe_plan e)). pv_enforcement v \<noteq> NativeUnconfined))
     | Some c \<Rightarrow> au_decision (po_authority (pe_plan e)) = Ask \<and> cf_confirmed_by c = UserActor \<and>
         cf_operation_id c = op \<and> cf_plan_digest c = digest \<and>
         po_created_at_ms (pe_plan e) \<le> cf_confirmed_at_ms c \<and> cf_confirmed_at_ms c \<le> now)"
proof -
  note facts = confirmed_apply_facts [OF assms]
  note applied = verify_apply_facts [OF facts(1)]
  show ?thesis
  proof (cases conf)
    case None
    then have allow: "au_decision (po_authority (pe_plan e)) = Allow" using facts(2) by simp
    from applied(1) have packages: "validate_packages X (pe_plan e) = Inr ()"
      and providers: "validate_providers (pe_plan e) = Inr ()" by (simp_all add: plan_validate_iff)
    from packages allow have "\<forall>t \<in> set (po_packages (pe_plan e)). \<not> is_local_reviewed t"
      by (auto simp: validate_packages_iff)
    moreover have "\<forall>v \<in> set (po_providers (pe_plan e)). pv_enforcement v \<noteq> NativeUnconfined"
      if "au_actor (po_authority (pe_plan e)) = Agent"
      using providers that allow unfolding validate_providers_iff by (auto simp: provider_ok_def split: if_splits)
    ultimately show ?thesis using applied(2-4) None allow by simp
  next
    case (Some c)
    with facts(2) applied(7) have "au_decision (po_authority (pe_plan e)) = Ask"
      by (cases "au_decision (po_authority (pe_plan e))") simp_all
    moreover from facts(3) [OF Some] have "cf_confirmed_by c = UserActor" "confirmation_binds (pe_plan e) (pe_plan_digest e) now c"
      by (auto simp: PluginOperationConfirmation_validate_def split: if_splits)
    ultimately show ?thesis using applied(2-4) Some by (auto simp: confirmation_binds_def not_less)
  qed
qed

text \<open>
  C34: a plan can be applied for at most one hour: an accepted application happens at or after the
  creation of the plan and less than 3600000 milliseconds later, as exact arithmetic on the 64-bit
  clock readings, whatever their values.
\<close>

theorem apply_window_bounded:
  assumes "PluginOperationPlanEnvelope_verify_confirmed_apply X e op digest conf now = Inr ()"
  shows "unat (po_created_at_ms (pe_plan e)) \<le> unat now \<and> 0 < unat (po_created_at_ms (pe_plan e)) \<and>
    unat now < unat (po_created_at_ms (pe_plan e)) + 3600000"
proof -
  let ?c = "po_created_at_ms (pe_plan e)" and ?x = "po_expires_at_ms (pe_plan e)"
  note applied = verify_apply_facts [OF confirmed_apply_facts(1) [OF assms]]
  from applied(1) have "plan_header_valid (pe_plan e)" by (simp add: plan_validate_iff)
  then have header: "?c \<noteq> 0" "?c < ?x" "?x - ?c \<le> MAX_PLAN_LIFETIME_MS"
    unfolding plan_header_valid_def by auto
  from header(2,3) have "unat ?x - unat ?c \<le> 3600000"
    using unat_sub [of ?c ?x] by (simp add: MAX_PLAN_LIFETIME_MS_def word_le_nat_alt word_less_nat_alt)
  moreover have "unat now < unat ?x" "unat ?c \<le> unat now" using applied(5,6) by (simp_all add: word_less_nat_alt word_le_nat_alt)
  moreover have "0 < unat ?c" using header(1) by (simp add: unat_gt_0)
  ultimately show ?thesis by linarith
qed

definition witness_confirmation :: PluginOperationConfirmation where
  "witness_confirmation = \<lparr>cf_schema = PLUGIN_OPERATION_CONFIRMATION_SCHEMA, cf_operation_id = ''op1'',
     cf_plan_digest = zero_digest, cf_confirmed_by = UserActor, cf_confirmed_at_ms = 6\<rparr>"

lemma witness_confirmed_apply:
  "PluginOperationPlanEnvelope_verify_confirmed_apply witness_plan_externals
     (witness_envelope witness_install_plan (Some (witness_single_lock ''1'')) None) ''op1'' zero_digest
     (Some witness_confirmation) 7 = Inr ()"
proof -
  have valid: "PluginOperationConfirmation_validate witness_confirmation = Inr ()" by code_simp
  have fields: "po_operation_id witness_install_plan = ''op1''" "po_created_at_ms witness_install_plan = 5"
    "po_expires_at_ms witness_install_plan = 9" "au_decision (po_authority witness_install_plan) = Ask"
    by (simp_all add: witness_install_plan_def witness_plan_def)
  have "confirmation_binds witness_install_plan zero_digest 7 witness_confirmation"
    by (simp add: confirmation_binds_def fields) (simp add: witness_confirmation_def)
  moreover have "verify_plan_apply witness_plan_externals witness_install_plan zero_digest ''op1'' zero_digest 7 = Inr ()"
    using witness_install_plan_valid witness_digest_eqs(1) [OF witness_install_plan_valid]
    by (simp add: verify_plan_apply_def fields)
  ultimately show ?thesis
    using witness_install_envelope_valid valid
    by (simp add: PluginOperationPlanEnvelope_verify_confirmed_apply_def verify_plan_confirmed_apply_def fields
        witness_envelope_def)
qed

theorem confirmed_apply_authorised_witness: "cf_plan_digest witness_confirmation = zero_digest"
  using confirmed_apply_authorised [OF witness_confirmed_apply] by simp

theorem apply_window_bounded_witness: "unat (7 :: u64) < unat (po_created_at_ms witness_install_plan) + 3600000"
  using apply_window_bounded [OF witness_confirmed_apply] by (simp add: witness_envelope_def)

end
