(* ===== verification/Installation_Snapshot.thy ===== *)
theory Installation_Snapshot
  imports Plan_Package Package_Lock Machine
begin

text \<open>
  The installation snapshot, \<open>crates/core/src/plugin/installation_snapshot.rs\<close>: the desired roots and the
  single resolved package graph of one installation, its construction from the locks of the roots, its
  validation, the reconstruction of the locks, and the compare-and-swap transition that enables or
  disables one package.
\<close>

section \<open>Data\<close>

record InstallationRootSelection =
  ir_package_id :: string
  ir_installed_at_ms :: u64

record InstallationPackageSelection =
  ip_package :: LockedPluginPackage
  ip_state_generation :: u64
  ip_enabled :: bool
  ip_selected_surfaces :: "PluginSurfaceRef list"

record InstallationSnapshot =
  is_schema :: string
  is_installation :: InstallationId
  is_generation :: u64
  is_host :: PluginPackageLockHost
  is_roots :: "InstallationRootSelection list"
  is_packages :: "InstallationPackageSelection list"

text \<open>The serde codec of a snapshot.\<close>

record snapshot_codec =
  snapshot_to_json :: "InstallationSnapshot \<Rightarrow> string option"
  snapshot_from_json :: "string \<Rightarrow> InstallationSnapshot option"

definition INSTALLATION_SNAPSHOT_SCHEMA :: string where
  "INSTALLATION_SNAPSHOT_SCHEMA = ''a3s.use.installation-snapshot.v2''"

definition MAX_INSTALLATION_SNAPSHOT_BYTES :: nat where
  "MAX_INSTALLATION_SNAPSHOT_BYTES = 16 * 1024 * 1024"

definition MAX_INSTALLATION_ROOTS :: nat where
  "MAX_INSTALLATION_ROOTS = MAX_PLUGIN_PLAN_ITEMS"

definition MAX_INSTALLATION_PACKAGES :: nat where
  "MAX_INSTALLATION_PACKAGES = MAX_PLUGIN_PLAN_ITEMS * 8"

type_synonym selection_index = "(string, InstallationPackageSelection) btree_map"

section \<open>Selections\<close>

definition InstallationRootSelection_validate :: "InstallationRootSelection \<Rightarrow> unit use_result" where
  "InstallationRootSelection_validate self =
     (if \<not> valid_package_id (ir_package_id self) \<or> ir_installed_at_ms self = 0 then Inl SnapshotInvalid else Inr ())"

definition InstallationRootSelection_new :: "string \<Rightarrow> u64 \<Rightarrow> InstallationRootSelection use_result" where
  "InstallationRootSelection_new package_id installed_at_ms =
     (let selection = \<lparr>ir_package_id = package_id, ir_installed_at_ms = installed_at_ms\<rparr> in
      and_then (InstallationRootSelection_validate selection) (\<lambda>_. Inr selection))"

definition InstallationPackageSelection_package_id :: "InstallationPackageSelection \<Rightarrow> string" where
  "InstallationPackageSelection_package_id self = LockedPluginPackage_package_id (ip_package self)"

definition InstallationPackageSelection_validate ::
  "('v, 'r, 'x) catalog_externals_scheme \<Rightarrow> InstallationPackageSelection \<Rightarrow> unit use_result" where
  "InstallationPackageSelection_validate X self =
     and_then (map_err (\<lambda>_. SnapshotInvalid) (VerifiedPluginCatalogRecord_validate X (lp_catalog (ip_package self)))) (\<lambda>_.
     if ip_state_generation self = 0 \<or> ip_selected_surfaces self = [] then Inl SnapshotInvalid
     else
     and_then (map_err (\<lambda>_. SnapshotInvalid) (selected_state X (lp_catalog (ip_package self)) (ip_selected_surfaces self)))
       (\<lambda>state.
     let resolved = map CatalogSurface_reference (pr_surfaces (ps_release state)) in
     if resolved \<noteq> ip_selected_surfaces self then Inl SnapshotInvalid else Inr ()))"

definition InstallationPackageSelection_new ::
  "('v, 'r, 'x) catalog_externals_scheme \<Rightarrow> LockedPluginPackage \<Rightarrow> u64 \<Rightarrow> bool \<Rightarrow> PluginSurfaceRef list
     \<Rightarrow> InstallationPackageSelection use_result" where
  "InstallationPackageSelection_new X package state_generation enabled selected_surfaces =
     (let selection = \<lparr>ip_package = package, ip_state_generation = state_generation, ip_enabled = enabled,
            ip_selected_surfaces = selected_surfaces\<rparr> in
      and_then (InstallationPackageSelection_validate X selection) (\<lambda>_. Inr selection))"

section \<open>Reconstruction of the locks\<close>

text \<open>
  The loop of \<open>package_lock_unchecked\<close>: pop a package, skip it when it was visited, otherwise mark it and
  push its dependencies. The list is the stack with its top first, so that the dependencies appear in
  reverse order on it.
\<close>

function pop_closure ::
  "'e \<Rightarrow> ('v \<Rightarrow> 'k :: linorder list) \<Rightarrow> ('k, 'v) btree_map \<Rightarrow> 'k btree_set \<Rightarrow> 'k list \<Rightarrow> 'e + 'k btree_set" where
  "pop_closure e succs m reachable [] = Inr reachable"
| "pop_closure e succs m reachable (k # pending) =
     (if k \<in> set reachable then pop_closure e succs m reachable pending
      else (case bt_get m k of
              None \<Rightarrow> Inl e
            | Some v \<Rightarrow> pop_closure e succs m (bs_insert k reachable) (rev (succs v) @ pending)))"
  by pat_completeness auto
termination
proof (relation "inv_image (finite_psubset <*lex*> less_than)
    (\<lambda>(e, succs, m, reachable, pending). (set (bt_keys m) - set reachable, length pending))")
  fix e :: 'e and succs :: "'v \<Rightarrow> 'k :: linorder list" and m :: "('k, 'v) btree_map" and reachable k pending v
  assume "k \<notin> set reachable" and "bt_get m k = Some v"
  then have "k \<in> set (bt_keys m) - set reachable" by (simp add: bt_keys_get)
  then show "((e, succs, m, bs_insert k reachable, rev (succs v) @ pending), e, succs, m, reachable, k # pending)
      \<in> inv_image (finite_psubset <*lex*> less_than)
        (\<lambda>(e, succs, m, reachable, pending). (set (bt_keys m) - set reachable, length pending))"
    by auto
qed (auto simp: wf_lex_prod)

definition selection_dependencies :: "InstallationPackageSelection \<Rightarrow> string list" where
  "selection_dependencies selection = dependency_ids (ip_package selection)"

definition InstallationSnapshot_package_lock_unchecked ::
  "InstallationSnapshot \<Rightarrow> string \<Rightarrow> selection_index \<Rightarrow> PluginPackageLock option use_result" where
  "InstallationSnapshot_package_lock_unchecked self root_package_id packages =
     (if \<not> (\<exists>root \<in> set (is_roots self). ir_package_id root = root_package_id) then Inr None
      else
      and_then (pop_closure SnapshotInvalid selection_dependencies packages [] [root_package_id]) (\<lambda>reachable.
        Inr (Some \<lparr>pl_schema = PLUGIN_PACKAGE_LOCK_SCHEMA, pl_root_package_id = root_package_id, pl_host = is_host self,
          pl_packages = map ip_package
            (filter (\<lambda>selection. InstallationPackageSelection_package_id selection \<in> set reachable) (is_packages self))\<rparr>)))"

section \<open>Validation\<close>

definition selection_index :: "InstallationPackageSelection list \<Rightarrow> selection_index" where
  "selection_index packages = bt_collect (map (\<lambda>selection. (InstallationPackageSelection_package_id selection, selection)) packages)"

definition snapshot_header_valid :: "('v, 'r, 'x) externals_scheme \<Rightarrow> InstallationSnapshot \<Rightarrow> bool" where
  "snapshot_header_valid X self = (\<not>
     (is_schema self \<noteq> INSTALLATION_SNAPSHOT_SCHEMA
      \<or> \<not> is_ok (InstallationId_validate (is_installation self))
      \<or> is_generation self = 0
      \<or> \<not> is_ok (PluginPackageLockHost_validate X (is_host self))
      \<or> length (is_roots self) > MAX_INSTALLATION_ROOTS
      \<or> length (is_packages self) > MAX_INSTALLATION_PACKAGES
      \<or> (is_roots self = []) \<noteq> (is_packages self = [])))"

text \<open>One iteration of the loop over the roots, the state being the reachable package IDs.\<close>

definition validate_root_closure ::
  "('v, 'r, 'x) lock_externals_scheme \<Rightarrow> InstallationSnapshot \<Rightarrow> selection_index \<Rightarrow> string btree_set
     \<Rightarrow> InstallationRootSelection \<Rightarrow> string btree_set use_result" where
  "validate_root_closure X self packages reachable root =
     and_then (InstallationSnapshot_package_lock_unchecked self (ir_package_id root) packages) (\<lambda>lock.
     and_then (ok_or SnapshotInvalid lock) (\<lambda>lock.
     and_then (map_err (\<lambda>_. SnapshotInvalid) (PluginPackageLock_validate X lock)) (\<lambda>_.
       Inr (bs_extend reachable (map LockedPluginPackage_package_id (pl_packages lock))))))"

definition validate_enabled_dependencies :: "selection_index \<Rightarrow> InstallationPackageSelection \<Rightarrow> unit use_result" where
  "validate_enabled_dependencies packages selection =
     (if \<not> ip_enabled selection then Inr ()
      else for_each (\<lambda>dependency.
        if is_none_or (\<lambda>dependency. \<not> ip_enabled dependency) (bt_get packages (ld_package_id dependency))
        then Inl SnapshotDependencyDisabled else Inr ()) (lp_dependencies (ip_package selection)))"

definition InstallationSnapshot_validate ::
  "('v, 'r, 'x) lock_externals_scheme \<Rightarrow> InstallationSnapshot \<Rightarrow> unit use_result" where
  "InstallationSnapshot_validate X self =
     (if \<not> snapshot_header_valid X self then Inl SnapshotInvalid
      else if windows2_any (\<lambda>a b. ir_package_id a \<ge> ir_package_id b) (is_roots self)
        \<or> windows2_any (\<lambda>a b. InstallationPackageSelection_package_id a \<ge> InstallationPackageSelection_package_id b)
            (is_packages self)
      then Inl SnapshotInvalid
      else
      and_then (for_each InstallationRootSelection_validate (is_roots self)) (\<lambda>_.
      and_then (for_each (InstallationPackageSelection_validate X) (is_packages self)) (\<lambda>_.
      let packages = selection_index (is_packages self) in
      and_then (fold_result (validate_root_closure X self packages) [] (is_roots self)) (\<lambda>reachable.
      if length reachable \<noteq> length (is_packages self) then Inl SnapshotInvalid
      else for_each (validate_enabled_dependencies packages) (is_packages self)))))"

section \<open>Operations\<close>

definition InstallationSnapshot_from_json ::
  "('v, 'r, 'x) lock_externals_scheme \<Rightarrow> snapshot_codec \<Rightarrow> string \<Rightarrow> InstallationSnapshot use_result" where
  "InstallationSnapshot_from_json X codec input =
     (if input = [] \<or> length input > MAX_INSTALLATION_SNAPSHOT_BYTES then Inl SnapshotInvalid
      else
      and_then (ok_or SnapshotInvalid (snapshot_from_json codec input)) (\<lambda>snapshot.
      and_then (InstallationSnapshot_validate X snapshot) (\<lambda>_. Inr snapshot)))"

definition InstallationSnapshot_canonical_bytes ::
  "('v, 'r, 'x) lock_externals_scheme \<Rightarrow> snapshot_codec \<Rightarrow> InstallationSnapshot \<Rightarrow> string use_result" where
  "InstallationSnapshot_canonical_bytes X codec self =
     and_then (InstallationSnapshot_validate X self) (\<lambda>_.
     and_then (ok_or SnapshotInvalid (snapshot_to_json codec self)) (\<lambda>bytes.
     if length bytes > MAX_INSTALLATION_SNAPSHOT_BYTES then Inl SnapshotInvalid else Inr bytes))"

definition InstallationSnapshot_descriptor_digest ::
  "('v, 'r, 'x) lock_externals_scheme \<Rightarrow> snapshot_codec \<Rightarrow> InstallationSnapshot \<Rightarrow> string use_result" where
  "InstallationSnapshot_descriptor_digest X codec self =
     and_then (InstallationSnapshot_canonical_bytes X codec self) (\<lambda>bytes. Inr (''sha256:'' @ sha256_hex X bytes))"

definition InstallationSnapshot_package_lock ::
  "('v, 'r, 'x) lock_externals_scheme \<Rightarrow> InstallationSnapshot \<Rightarrow> string \<Rightarrow> PluginPackageLock option use_result" where
  "InstallationSnapshot_package_lock X self root_package_id =
     and_then (InstallationSnapshot_validate X self) (\<lambda>_.
       InstallationSnapshot_package_lock_unchecked self root_package_id (selection_index (is_packages self)))"

definition InstallationSnapshot_package_locks ::
  "('v, 'r, 'x) lock_externals_scheme \<Rightarrow> InstallationSnapshot \<Rightarrow> PluginPackageLock list use_result" where
  "InstallationSnapshot_package_locks X self =
     and_then (InstallationSnapshot_validate X self) (\<lambda>_.
       collect_results (\<lambda>root.
         and_then (InstallationSnapshot_package_lock_unchecked self (ir_package_id root) (selection_index (is_packages self)))
           (ok_or SnapshotInvalid)) (is_roots self))"

definition package_position :: "InstallationSnapshot \<Rightarrow> string \<Rightarrow> nat option" where
  "package_position self package_id = binary_search_by InstallationPackageSelection_package_id package_id (is_packages self)"

definition InstallationSnapshot_package_selection ::
  "InstallationSnapshot \<Rightarrow> string \<Rightarrow> InstallationPackageSelection option" where
  "InstallationSnapshot_package_selection self package_id =
     map_option (\<lambda>index. is_packages self ! index) (package_position self package_id)"

definition transition_package_enablement ::
  "('v, 'r, 'x) lock_externals_scheme \<Rightarrow> InstallationSnapshot \<Rightarrow> string \<Rightarrow> u64 \<Rightarrow> bool
     \<Rightarrow> InstallationSnapshot option use_result" where
  "transition_package_enablement X self package_id expected_state_generation enabled =
     and_then (InstallationSnapshot_validate X self) (\<lambda>_.
     and_then (ok_or SnapshotInvalid (package_position self package_id)) (\<lambda>index.
     let current = is_packages self ! index in
     if ip_state_generation current \<noteq> expected_state_generation then Inl SnapshotGenerationChanged
     else if ip_enabled current = enabled then Inr None
     else
     and_then (ok_or SnapshotGenerationExhausted (checked_add (is_generation self) 1)) (\<lambda>generation.
     and_then (ok_or SnapshotGenerationExhausted (checked_add (ip_state_generation current) 1)) (\<lambda>state_generation.
     let replacement = self\<lparr>is_generation := generation, is_packages := (is_packages self)[index :=
           current\<lparr>ip_state_generation := state_generation, ip_enabled := enabled\<rparr>]\<rparr> in
     and_then (InstallationSnapshot_validate X replacement) (\<lambda>_. Inr (Some replacement))))))"

section \<open>Construction from root locks\<close>

definition merge_package ::
  "lock_index \<Rightarrow> LockedPluginPackage \<Rightarrow> lock_index use_result" where
  "merge_package packages package =
     (case bt_get packages (LockedPluginPackage_package_id package) of
        Some existing \<Rightarrow> if existing \<noteq> package then Inl SnapshotInvalid else Inr packages
      | None \<Rightarrow>
          (let packages = bt_insert (LockedPluginPackage_package_id package) package packages in
           if length packages > MAX_INSTALLATION_PACKAGES then Inl SnapshotInvalid else Inr packages))"

definition merge_root ::
  "('v, 'r, 'x) lock_externals_scheme \<Rightarrow> PluginPackageLockHost
     \<Rightarrow> (string, InstallationRootSelection) btree_map \<times> lock_index \<Rightarrow> InstallationRootSelection \<times> PluginPackageLock
     \<Rightarrow> ((string, InstallationRootSelection) btree_map \<times> lock_index) use_result" where
  "merge_root X host state root =
     (let selection = fst root; package_lock = snd root in
      and_then (InstallationRootSelection_validate selection) (\<lambda>_.
      and_then (map_err (\<lambda>_. SnapshotInvalid) (PluginPackageLock_validate X package_lock)) (\<lambda>_.
      if pl_root_package_id package_lock \<noteq> ir_package_id selection \<or> pl_host package_lock \<noteq> host
      then Inl SnapshotInvalid
      else if bt_contains (fst state) (ir_package_id selection) then Inl SnapshotInvalid
      else
      and_then (fold_result merge_package (snd state) (pl_packages package_lock)) (\<lambda>packages.
        Inr (bt_insert (ir_package_id selection) selection (fst state), packages)))))"

definition merge_selection ::
  "('v, 'r, 'x) catalog_externals_scheme \<Rightarrow> selection_index \<Rightarrow> InstallationPackageSelection \<Rightarrow> selection_index use_result" where
  "merge_selection X selections selection =
     and_then (InstallationPackageSelection_validate X selection) (\<lambda>_.
     if bt_contains selections (InstallationPackageSelection_package_id selection) then Inl SnapshotInvalid
     else Inr (bt_insert (InstallationPackageSelection_package_id selection) selection selections))"

definition InstallationSnapshot_from_root_locks ::
  "('v, 'r, 'x) lock_externals_scheme \<Rightarrow> InstallationId \<Rightarrow> u64 \<Rightarrow> PluginPackageLockHost
     \<Rightarrow> (InstallationRootSelection \<times> PluginPackageLock) list \<Rightarrow> InstallationPackageSelection list
     \<Rightarrow> InstallationSnapshot use_result" where
  "InstallationSnapshot_from_root_locks X installation generation host roots package_selections =
     (if length roots > MAX_INSTALLATION_ROOTS \<or> length package_selections > MAX_INSTALLATION_PACKAGES
      then Inl SnapshotInvalid
      else
      and_then (fold_result (merge_root X host) ([], []) roots) (\<lambda>(root_selections, packages).
      and_then (fold_result (merge_selection X) [] package_selections) (\<lambda>selections.
      if length selections \<noteq> length packages
         \<or> (\<exists>(package_id, package) \<in> set packages.
              is_none_or (\<lambda>selection. ip_package selection \<noteq> package) (bt_get selections package_id))
      then Inl SnapshotInvalid
      else
      let snapshot = \<lparr>is_schema = INSTALLATION_SNAPSHOT_SCHEMA, is_installation = installation, is_generation = generation,
            is_host = host, is_roots = bt_values root_selections, is_packages = bt_values selections\<rparr>
      in and_then (InstallationSnapshot_validate X snapshot) (\<lambda>_. Inr snapshot))))"

section \<open>Lemmas: the closure loop\<close>

definition pop_inv :: "('v \<Rightarrow> 'k list) \<Rightarrow> ('k :: linorder, 'v) btree_map \<Rightarrow> 'k set \<Rightarrow> 'k btree_set \<Rightarrow> 'k list \<Rightarrow> bool" where
  "pop_inv succs m roots reachable pending \<longleftrightarrow>
     roots \<subseteq> set reachable \<union> set pending \<and> set reachable \<union> set pending \<subseteq> (edges succs m)\<^sup>* `` roots \<and>
     edges succs m `` set reachable \<subseteq> set reachable \<union> set pending \<and> set reachable \<subseteq> set (bt_keys m)"

lemma pop_inv_skip: "pop_inv succs m roots reachable (k # pending) \<Longrightarrow> k \<in> set reachable \<Longrightarrow>
    pop_inv succs m roots reachable pending"
  unfolding pop_inv_def by auto

lemma pop_inv_mark:
  assumes inv: "pop_inv succs m roots reachable (k # pending)" and v: "bt_get m k = Some v"
  shows "pop_inv succs m roots (bs_insert k reachable) (rev (succs v) @ pending)"
proof -
  have edge: "edges succs m `` {k} = set (succs v)" using v by (auto simp: edges_def)
  have "k \<in> (edges succs m)\<^sup>* `` roots" using inv by (auto simp: pop_inv_def)
  then have "set (succs v) \<subseteq> (edges succs m)\<^sup>* `` roots"
    unfolding edge [symmetric] by (auto intro: rtrancl_into_rtrancl)
  moreover have "k \<in> set (bt_keys m)" using v by (simp add: bt_keys_get)
  ultimately show ?thesis using inv edge unfolding pop_inv_def by auto
qed

lemma pop_closure_spec:
  assumes "pop_inv succs m roots reachable pending" and "pop_closure e succs m reachable pending = Inr closure"
  shows "set closure = (edges succs m)\<^sup>* `` roots \<and> set closure \<subseteq> set (bt_keys m)"
  using assms
proof (induction e succs m reachable pending rule: pop_closure.induct)
  case (1 e succs m reachable)
  then have inv: "pop_inv succs m roots reachable []" and eq: "closure = reachable" by simp_all
  then have "(edges succs m)\<^sup>* `` roots \<subseteq> set reachable"
    using ImageE_closed [of "edges succs m" "set reachable"] by (auto simp: pop_inv_def)
  with inv eq show ?case by (auto simp: pop_inv_def)
next
  case (2 e succs m reachable k pending)
  then show ?case
    by (cases "k \<in> set reachable"; cases "bt_get m k") (simp_all add: pop_inv_skip pop_inv_mark)
qed

lemma pop_closure_total:
  assumes "pop_inv succs m roots reachable pending" and "(edges succs m)\<^sup>* `` roots \<subseteq> set (bt_keys m)"
  shows "\<exists>closure. pop_closure e succs m reachable pending = Inr closure"
  using assms
proof (induction e succs m reachable pending rule: pop_closure.induct)
  case (2 e succs m reachable k pending)
  show ?case
  proof (cases "k \<in> set reachable")
    case True
    from "2.IH"(1) [OF True pop_inv_skip [OF "2.prems"(1) True] "2.prems"(2)] True show ?thesis by simp
  next
    case False
    have "k \<in> set (bt_keys m)" using "2.prems" by (auto simp: pop_inv_def)
    then obtain v where "bt_get m k = Some v" by (auto simp: bt_keys_get)
    from "2.IH"(2) [OF False this pop_inv_mark [OF "2.prems"(1) this] "2.prems"(2)] False this show ?thesis by simp
  qed
qed simp

lemma pop_closure_iff:
  "(\<exists>closure. pop_closure e succs m [] [r] = Inr closure \<and> P (set closure)) \<longleftrightarrow>
     (edges succs m)\<^sup>* `` {r} \<subseteq> set (bt_keys m) \<and> P ((edges succs m)\<^sup>* `` {r})"
proof -
  have inv: "pop_inv succs m {r} [] [r]" by (auto simp: pop_inv_def)
  show ?thesis using pop_closure_spec [OF inv, of e] pop_closure_total [OF inv, of e] by (auto simp del: pop_closure.simps)
qed

section \<open>Lemmas: the graph of a snapshot\<close>

abbreviation selection_ids :: "InstallationPackageSelection list \<Rightarrow> string list" where
  "selection_ids packages \<equiv> map InstallationPackageSelection_package_id packages"

lemma selection_ids_packages: "selection_ids packages = package_ids (map ip_package packages)"
  by (simp add: InstallationPackageSelection_package_id_def)

definition snapshot_depends :: "InstallationSnapshot \<Rightarrow> (string \<times> string) set" where
  "snapshot_depends s = lock_depends (map ip_package (is_packages s))"

lemma selection_index_facts:
  assumes "sorted_wrt (<) (selection_ids packages)"
  shows "set (bt_keys (selection_index packages)) = set (selection_ids packages)"
    and "bt_get (selection_index packages) k = Some p \<longleftrightarrow> p \<in> set packages \<and> InstallationPackageSelection_package_id p = k"
    and "edges selection_dependencies (selection_index packages) = lock_depends (map ip_package packages)"
proof -
  have d: "distinct (selection_ids packages)" using assms by (rule sorted_less_distinct)
  show keys: "set (bt_keys (selection_index packages)) = set (selection_ids packages)"
    by (simp add: selection_index_def image_image)
  show get: "bt_get (selection_index packages) k = Some p \<longleftrightarrow> p \<in> set packages \<and> InstallationPackageSelection_package_id p = k"
    for k p
    using d by (auto simp: selection_index_def bt_collect_get_distinct comp_def bt_get_graph [unfolded bt_get_def])
  show "edges selection_dependencies (selection_index packages) = lock_depends (map ip_package packages)"
    by (auto simp: edges_def get lock_depends_def selection_dependencies_def InstallationPackageSelection_package_id_def)
qed

text \<open>The closure of a root and the lock it stands for.\<close>

abbreviation snapshot_closure :: "InstallationSnapshot \<Rightarrow> string \<Rightarrow> string set" where
  "snapshot_closure s r \<equiv> (snapshot_depends s)\<^sup>* `` {r}"

definition snapshot_lock :: "InstallationSnapshot \<Rightarrow> string \<Rightarrow> PluginPackageLock" where
  "snapshot_lock s r = \<lparr>pl_schema = PLUGIN_PACKAGE_LOCK_SCHEMA, pl_root_package_id = r, pl_host = is_host s,
     pl_packages = filter (\<lambda>p. LockedPluginPackage_package_id p \<in> snapshot_closure s r) (map ip_package (is_packages s))\<rparr>"

lemma snapshot_lock_ids:
  "snapshot_closure s r \<subseteq> set (selection_ids (is_packages s)) \<Longrightarrow>
     set (package_ids (pl_packages (snapshot_lock s r))) = snapshot_closure s r"
  by (auto simp: snapshot_lock_def InstallationPackageSelection_package_id_def)

lemma unchecked_iff:
  assumes "sorted_wrt (<) (selection_ids (is_packages s))"
  shows "InstallationSnapshot_package_lock_unchecked s r (selection_index (is_packages s)) = Inr (Some l) \<longleftrightarrow>
    r \<in> ir_package_id ` set (is_roots s) \<and> snapshot_closure s r \<subseteq> set (selection_ids (is_packages s)) \<and> l = snapshot_lock s r"
proof -
  note facts = selection_index_facts [OF assms]
  have lock: "map ip_package (filter (\<lambda>selection. InstallationPackageSelection_package_id selection \<in> C) (is_packages s)) =
      filter (\<lambda>p. LockedPluginPackage_package_id p \<in> C) (map ip_package (is_packages s))" for C
    by (simp add: filter_map comp_def InstallationPackageSelection_package_id_def)
  have "(\<exists>closure. pop_closure SnapshotInvalid selection_dependencies (selection_index (is_packages s)) [] [r] = Inr closure \<and>
      Some \<lparr>pl_schema = PLUGIN_PACKAGE_LOCK_SCHEMA, pl_root_package_id = r, pl_host = is_host s,
        pl_packages = filter (\<lambda>p. LockedPluginPackage_package_id p \<in> set closure) (map ip_package (is_packages s))\<rparr> = Some l) \<longleftrightarrow>
    snapshot_closure s r \<subseteq> set (selection_ids (is_packages s)) \<and> snapshot_lock s r = l"
    using pop_closure_iff [of SnapshotInvalid selection_dependencies "selection_index (is_packages s)" r
        "\<lambda>C. Some \<lparr>pl_schema = PLUGIN_PACKAGE_LOCK_SCHEMA, pl_root_package_id = r, pl_host = is_host s,
          pl_packages = filter (\<lambda>p. LockedPluginPackage_package_id p \<in> C) (map ip_package (is_packages s))\<rparr> = Some l"]
    unfolding facts(1,3) snapshot_lock_def snapshot_depends_def option.inject .
  moreover have "InstallationSnapshot_package_lock_unchecked s r (selection_index (is_packages s)) = Inr (Some l) \<longleftrightarrow>
      r \<in> ir_package_id ` set (is_roots s) \<and>
      (\<exists>closure. pop_closure SnapshotInvalid selection_dependencies (selection_index (is_packages s)) [] [r] = Inr closure \<and>
      Some \<lparr>pl_schema = PLUGIN_PACKAGE_LOCK_SCHEMA, pl_root_package_id = r, pl_host = is_host s,
        pl_packages = filter (\<lambda>p. LockedPluginPackage_package_id p \<in> set closure) (map ip_package (is_packages s))\<rparr> = Some l)"
    unfolding InstallationSnapshot_package_lock_unchecked_def lock
    by (simp add: and_then_Inr image_iff eq_commute [of r] del: pop_closure.simps)
  ultimately show ?thesis by (simp only: eq_commute [of l])
qed

section \<open>Lemmas: valid snapshots\<close>

text \<open>
  What validation asks of the graph depends on the locked packages and the selected surfaces only; the
  generations and the enabled flags enter separately.
\<close>

definition selection_ok ::
  "('v, 'r, 'x) catalog_externals_scheme \<Rightarrow> LockedPluginPackage \<times> PluginSurfaceRef list \<Rightarrow> bool" where
  "selection_ok X node \<longleftrightarrow> VerifiedPluginCatalogRecord_validate X (lp_catalog (fst node)) = Inr () \<and> snd node \<noteq> [] \<and>
     (\<exists>st. selected_state X (lp_catalog (fst node)) (snd node) = Inr st \<and>
        map CatalogSurface_reference (pr_surfaces (ps_release st)) = snd node)"

abbreviation selection_node :: "InstallationPackageSelection \<Rightarrow> LockedPluginPackage \<times> PluginSurfaceRef list" where
  "selection_node p \<equiv> (ip_package p, ip_selected_surfaces p)"

definition graph_valid :: "('v, 'r, 'x) lock_externals_scheme \<Rightarrow> InstallationSnapshot \<Rightarrow> bool" where
  "graph_valid X s \<longleftrightarrow>
     is_schema s = INSTALLATION_SNAPSHOT_SCHEMA \<and> InstallationId_validate (is_installation s) = Inr () \<and>
     PluginPackageLockHost_validate X (is_host s) = Inr () \<and> length (is_roots s) \<le> MAX_INSTALLATION_ROOTS \<and>
     length (is_packages s) \<le> MAX_INSTALLATION_PACKAGES \<and> (is_roots s = [] \<longleftrightarrow> is_packages s = []) \<and>
     sorted_wrt (<) (map ir_package_id (is_roots s)) \<and> sorted_wrt (<) (selection_ids (is_packages s)) \<and>
     (\<forall>r \<in> set (is_roots s). InstallationRootSelection_validate r = Inr ()) \<and>
     (\<forall>n \<in> set (map selection_node (is_packages s)). selection_ok X n) \<and>
     (\<forall>r \<in> set (is_roots s). snapshot_closure s (ir_package_id r) \<subseteq> set (selection_ids (is_packages s)) \<and>
        PluginPackageLock_validate X (snapshot_lock s (ir_package_id r)) = Inr ()) \<and>
     (\<Union>r \<in> set (is_roots s). snapshot_closure s (ir_package_id r)) = set (selection_ids (is_packages s))"

definition enabled_closed :: "InstallationSnapshot \<Rightarrow> bool" where
  "enabled_closed s \<longleftrightarrow> (\<forall>p \<in> set (is_packages s). ip_enabled p \<longrightarrow>
     (\<forall>d \<in> set (dependency_ids (ip_package p)). \<exists>q \<in> set (is_packages s).
        InstallationPackageSelection_package_id q = d \<and> ip_enabled q))"

lemma selection_validate_iff:
  "InstallationPackageSelection_validate X p = Inr () \<longleftrightarrow> ip_state_generation p \<noteq> 0 \<and> selection_ok X (selection_node p)"
  by (auto simp: InstallationPackageSelection_validate_def selection_ok_def result_simps Let_def split: if_splits)

lemma and_then_ok_or:
  "and_then m (\<lambda>x. and_then (ok_or e x) f) = Inr y \<longleftrightarrow> (\<exists>x. m = Inr (Some x) \<and> f x = Inr y)"
  by (auto simp: and_then_Inr ok_or_Inr)

lemma root_fold:
  assumes "sorted_wrt (<) (selection_ids (is_packages s))" and "set rs \<subseteq> set (is_roots s)"
  shows "fold_result (validate_root_closure X s (selection_index (is_packages s))) acc rs = Inr out \<longleftrightarrow>
    (\<forall>r \<in> set rs. snapshot_closure s (ir_package_id r) \<subseteq> set (selection_ids (is_packages s)) \<and>
       PluginPackageLock_validate X (snapshot_lock s (ir_package_id r)) = Inr ()) \<and>
    out = foldl (\<lambda>acc r. bs_extend acc (package_ids (pl_packages (snapshot_lock s (ir_package_id r))))) acc rs"
  using assms(2)
proof (induction rs arbitrary: acc)
  case (Cons r rs)
  have "validate_root_closure X s (selection_index (is_packages s)) acc r = Inr out' \<longleftrightarrow>
      snapshot_closure s (ir_package_id r) \<subseteq> set (selection_ids (is_packages s)) \<and>
      PluginPackageLock_validate X (snapshot_lock s (ir_package_id r)) = Inr () \<and>
      out' = bs_extend acc (package_ids (pl_packages (snapshot_lock s (ir_package_id r))))" for out'
    using Cons.prems unfolding validate_root_closure_def and_then_ok_or unchecked_iff [OF assms(1)]
    by (auto simp: and_then_Inr map_err_Inr)
  with Cons show ?case by (auto simp: and_then_Inr)
qed auto

lemma bs_extend_fold:
  "sorted_wrt (<) acc \<Longrightarrow> sorted_wrt (<) (foldl (\<lambda>acc r. bs_extend acc (f r)) acc rs) \<and>
     set (foldl (\<lambda>acc r. bs_extend acc (f r)) acc rs) = set acc \<union> (\<Union>r \<in> set rs. set (f r))"
  by (induction rs arbitrary: acc) auto

lemma enabled_dependencies_iff:
  assumes "sorted_wrt (<) (selection_ids (is_packages s))"
  shows "(\<forall>p \<in> set (is_packages s). validate_enabled_dependencies (selection_index (is_packages s)) p = Inr ()) \<longleftrightarrow>
    enabled_closed s"
  unfolding validate_enabled_dependencies_def enabled_closed_def dependency_ids_def
  by (auto simp: for_each_Inr is_none_or_iff selection_index_facts(2) [OF assms])

lemma snapshot_validate_iff:
  "InstallationSnapshot_validate X s = Inr () \<longleftrightarrow> is_generation s \<noteq> 0 \<and>
     (\<forall>p \<in> set (is_packages s). ip_state_generation p \<noteq> 0) \<and> graph_valid X s \<and> enabled_closed s"
proof (cases "sorted_wrt (<) (selection_ids (is_packages s))")
  case True
  let ?out = "foldl (\<lambda>acc r. bs_extend acc (package_ids (pl_packages (snapshot_lock s (ir_package_id r))))) [] (is_roots s)"
  let ?closed = "\<forall>r \<in> set (is_roots s). snapshot_closure s (ir_package_id r) \<subseteq> set (selection_ids (is_packages s)) \<and>
       PluginPackageLock_validate X (snapshot_lock s (ir_package_id r)) = Inr ()"
  have out: "length ?out = length (is_packages s) \<longleftrightarrow>
      (\<Union>r \<in> set (is_roots s). snapshot_closure s (ir_package_id r)) = set (selection_ids (is_packages s))" if ?closed
  proof -
    have sets: "sorted_wrt (<) ?out" "set ?out = (\<Union>r \<in> set (is_roots s). snapshot_closure s (ir_package_id r))"
      using bs_extend_fold [of "[]" "\<lambda>r. package_ids (pl_packages (snapshot_lock s (ir_package_id r)))" "is_roots s"]
        snapshot_lock_ids that by simp_all
    have "length ?out = card (set ?out)" using sorted_less_distinct [OF sets(1)] by (simp add: distinct_card)
    moreover have "length (is_packages s) = card (set (selection_ids (is_packages s)))"
      using distinct_card [OF sorted_less_distinct [OF True]] by simp
    moreover have "set ?out \<subseteq> set (selection_ids (is_packages s))" using sets(2) that by blast
    ultimately show ?thesis using sets(2) card_subset_eq [of "set (selection_ids (is_packages s))" "set ?out"] by auto
  qed
  note fold = root_fold [OF True subset_refl, of X "[]"] and enabled = enabled_dependencies_iff [OF True]
  show ?thesis
    unfolding InstallationSnapshot_validate_def Let_def if_Inl_Inr and_then_Inr for_each_Inr fold enabled
      selection_validate_iff graph_valid_def snapshot_header_valid_def is_ok_iff
    using out True by auto
qed (auto simp: InstallationSnapshot_validate_def graph_valid_def)

section \<open>Lemmas: enabling and disabling\<close>

lemma update_as_map:
  assumes "distinct (map key xs)" "i < length xs" "key (xs ! i) = k"
  shows "xs[i := f (xs ! i)] = map (\<lambda>x. if key x = k then f x else x) xs"
proof (rule nth_equalityI)
  fix j assume j: "j < length (xs[i := f (xs ! i)])"
  have "j = i \<longleftrightarrow> key (xs ! j) = k"
    using assms j nth_eq_iff_index_eq [OF assms(1), of j i] by auto
  with j show "xs[i := f (xs ! i)] ! j = map (\<lambda>x. if key x = k then f x else x) xs ! j"
    by (cases "j = i") (simp_all add: nth_list_update)
qed simp

text \<open>The snapshot in which one package has a new generation and a new flag.\<close>

definition set_enablement :: "string \<Rightarrow> u64 \<Rightarrow> bool \<Rightarrow> InstallationPackageSelection \<Rightarrow> InstallationPackageSelection" where
  "set_enablement k g e p =
     (if InstallationPackageSelection_package_id p = k then p\<lparr>ip_state_generation := g, ip_enabled := e\<rparr> else p)"

definition with_enablement :: "InstallationSnapshot \<Rightarrow> string \<Rightarrow> u64 \<Rightarrow> bool \<Rightarrow> InstallationSnapshot" where
  "with_enablement s k g e =
     s\<lparr>is_generation := is_generation s + 1, is_packages := map (set_enablement k g e) (is_packages s)\<rparr>"

lemma set_enablement_simps [simp]:
  "ip_package (set_enablement k g e p) = ip_package p"
  "ip_selected_surfaces (set_enablement k g e p) = ip_selected_surfaces p"
  "InstallationPackageSelection_package_id (set_enablement k g e p) = InstallationPackageSelection_package_id p"
  "ip_enabled (set_enablement k g e p) \<longleftrightarrow> (if InstallationPackageSelection_package_id p = k then e else ip_enabled p)"
  "ip_state_generation (set_enablement k g e p) =
     (if InstallationPackageSelection_package_id p = k then g else ip_state_generation p)"
  by (simp_all add: set_enablement_def InstallationPackageSelection_package_id_def)

lemma with_enablement_simps [simp]:
  "is_schema (with_enablement s k g e) = is_schema s" "is_installation (with_enablement s k g e) = is_installation s"
  "is_host (with_enablement s k g e) = is_host s" "is_roots (with_enablement s k g e) = is_roots s"
  "is_generation (with_enablement s k g e) = is_generation s + 1"
  "is_packages (with_enablement s k g e) = map (set_enablement k g e) (is_packages s)"
  by (simp_all add: with_enablement_def)

lemma graph_valid_cong:
  assumes "is_schema t = is_schema s" "is_installation t = is_installation s" "is_host t = is_host s"
    "is_roots t = is_roots s" "map selection_node (is_packages t) = map selection_node (is_packages s)"
  shows "graph_valid X t = graph_valid X s"
proof -
  have packages: "map ip_package (is_packages t) = map ip_package (is_packages s)"
    using arg_cong [OF assms(5), of "map fst"] by (simp add: comp_def)
  moreover from this have "selection_ids (is_packages t) = selection_ids (is_packages s)"
    unfolding selection_ids_packages by (simp only:)
  moreover have "length (is_packages t) = length (is_packages s)" using arg_cong [OF assms(5), of length] by simp
  moreover from this have "is_packages t = [] \<longleftrightarrow> is_packages s = []" by (metis length_0_conv)
  ultimately show ?thesis
    unfolding graph_valid_def snapshot_lock_def snapshot_depends_def assms by (simp only:)
qed

lemma with_enablement_graph: "graph_valid X (with_enablement s k g e) = graph_valid X s"
  by (rule graph_valid_cong) (simp_all add: comp_def)

text \<open>A package may be enabled when its dependencies are, and disabled when nothing enabled depends on it.\<close>

definition enablement_allowed :: "InstallationSnapshot \<Rightarrow> string \<Rightarrow> bool \<Rightarrow> bool" where
  "enablement_allowed s k e \<longleftrightarrow>
     (if e then \<forall>d. (k, d) \<in> snapshot_depends s \<longrightarrow>
          (\<exists>q \<in> set (is_packages s). InstallationPackageSelection_package_id q = d \<and> ip_enabled q)
      else \<forall>p \<in> set (is_packages s). ip_enabled p \<longrightarrow> (InstallationPackageSelection_package_id p, k) \<notin> snapshot_depends s)"

lemma snapshot_depends_iff:
  assumes "sorted_wrt (<) (selection_ids (is_packages s))" "p \<in> set (is_packages s)"
  shows "(InstallationPackageSelection_package_id p, d) \<in> snapshot_depends s \<longleftrightarrow> d \<in> set (dependency_ids (ip_package p))"
proof -
  have "distinct (package_ids (map ip_package (is_packages s)))"
    using sorted_less_distinct [OF assms(1)] unfolding selection_ids_packages .
  from lock_depends_package [OF this, of "ip_package p"] assms(2) show ?thesis
    by (auto simp: snapshot_depends_def InstallationPackageSelection_package_id_def)
qed

lemma graph_valid_no_self:
  assumes "graph_valid X s"
  shows "(k, k) \<notin> snapshot_depends s"
proof
  assume loop: "(k, k) \<in> snapshot_depends s"
  then have "k \<in> set (selection_ids (is_packages s))"
    by (auto simp: snapshot_depends_def lock_depends_def InstallationPackageSelection_package_id_def)
  with assms obtain r where r: "r \<in> set (is_roots s)" and k: "k \<in> snapshot_closure s (ir_package_id r)"
    unfolding graph_valid_def by blast
  from assms r have "acyclic (lock_depends (pl_packages (snapshot_lock s (ir_package_id r))))"
    unfolding graph_valid_def lock_validate_iff by blast
  moreover have "(k, k) \<in> lock_depends (pl_packages (snapshot_lock s (ir_package_id r)))"
    using loop k unfolding snapshot_lock_def snapshot_depends_def lock_depends_def by auto
  ultimately show False by (auto simp: acyclic_def)
qed

lemma with_enablement_closed:
  assumes valid: "graph_valid X s" and closed: "enabled_closed s" and k: "k \<in> set (selection_ids (is_packages s))"
  shows "enabled_closed (with_enablement s k g e) \<longleftrightarrow> enablement_allowed s k e"
proof -
  have sorted: "sorted_wrt (<) (selection_ids (is_packages s))" using valid by (simp add: graph_valid_def)
  let ?id = InstallationPackageSelection_package_id
  let ?on = "\<lambda>d. \<exists>q \<in> set (is_packages s). ?id q = d \<and> ip_enabled q"
  let ?new = "\<lambda>d. if d = k then e else ?on d"
  have new: "(\<exists>q \<in> set (is_packages (with_enablement s k g e)). ?id q = d \<and> ip_enabled q) \<longleftrightarrow> ?new d" for d
    using k by auto
  have "enabled_closed (with_enablement s k g e) \<longleftrightarrow>
      (\<forall>p \<in> set (is_packages s). (if ?id p = k then e else ip_enabled p) \<longrightarrow> (\<forall>d. (?id p, d) \<in> snapshot_depends s \<longrightarrow> ?new d))"
    unfolding enabled_closed_def new using snapshot_depends_iff [OF sorted] by auto
  moreover have old: "\<forall>p \<in> set (is_packages s). ip_enabled p \<longrightarrow> (\<forall>d. (?id p, d) \<in> snapshot_depends s \<longrightarrow> ?on d)"
    using closed snapshot_depends_iff [OF sorted] unfolding enabled_closed_def by auto
  moreover have "(k, k) \<notin> snapshot_depends s" using valid by (rule graph_valid_no_self)
  ultimately show ?thesis using k unfolding enablement_allowed_def by (cases e) (auto, metis+)
qed

lemma enablement_iff:
  "transition_package_enablement X s k g e = Inr (Some t) \<longleftrightarrow>
     InstallationSnapshot_validate X s = Inr () \<and>
     (\<exists>p \<in> set (is_packages s). InstallationPackageSelection_package_id p = k \<and> ip_state_generation p = g \<and>
        ip_enabled p \<noteq> e) \<and>
     unat (is_generation s) + 1 < 2 ^ 64 \<and> unat g + 1 < 2 ^ 64 \<and> enablement_allowed s k e \<and> t = with_enablement s k (g + 1) e"
  (is "_ \<longleftrightarrow> ?spec")
proof (cases "InstallationSnapshot_validate X s = Inr ()")
  case valid: True
  let ?id = InstallationPackageSelection_package_id
  have sorted: "sorted_wrt (<) (selection_ids (is_packages s))" and graph: "graph_valid X s" and closed: "enabled_closed s"
    using valid by (auto simp: snapshot_validate_iff graph_valid_def)
  have d: "distinct (selection_ids (is_packages s))" using sorted by (rule sorted_less_distinct)
  note position = binary_search_by_Some [OF sorted, of k]
  have replaced: "s\<lparr>is_generation := is_generation s + 1, is_packages := (is_packages s)[i :=
      (is_packages s ! i)\<lparr>ip_state_generation := g + 1, ip_enabled := e\<rparr>]\<rparr> = with_enablement s k (g + 1) e"
    if "i < length (is_packages s)" "?id (is_packages s ! i) = k" for i
    using update_as_map [OF d that, of "\<lambda>p. p\<lparr>ip_state_generation := g + 1, ip_enabled := e\<rparr>"]
    by (simp add: with_enablement_def set_enablement_def [abs_def])
  have nonzero: "x + 1 \<noteq> 0" if "unat x + 1 < 2 ^ 64" for x :: u64
    using that unat_add_no_overflow [of x 1] by auto
  have replacement: "InstallationSnapshot_validate X (with_enablement s k (g + 1) e) = Inr () \<longleftrightarrow> enablement_allowed s k e"
    if "unat (is_generation s) + 1 < 2 ^ 64" "unat g + 1 < 2 ^ 64" "k \<in> set (selection_ids (is_packages s))"
    using that valid nonzero with_enablement_closed [OF graph closed that(3)]
    unfolding snapshot_validate_iff with_enablement_graph by auto
  show ?thesis
  proof (cases "package_position s k")
    case None
    then have "\<not> (\<exists>p \<in> set (is_packages s). ?id p = k)"
      using binary_search_by_member [OF sorted, of k] by (auto simp: package_position_def)
    with None valid show ?thesis by (simp add: transition_package_enablement_def)
  next
    case (Some i)
    then have i: "i < length (is_packages s)" "?id (is_packages s ! i) = k"
      using position [of i] by (simp_all add: package_position_def)
    then have member: "k \<in> set (selection_ids (is_packages s))" by auto
    have unique: "(\<exists>p \<in> set (is_packages s). ?id p = k \<and> P p) \<longleftrightarrow> P (is_packages s ! i)" for P
    proof -
      have "inj_on ?id (set (is_packages s))" using d by (simp add: distinct_map)
      then have "p = is_packages s ! i" if "p \<in> set (is_packages s)" "?id p = k" for p
        using that i by (metis inj_onD nth_mem)
      with i show ?thesis by (metis nth_mem)
    qed
    have "transition_package_enablement X s k g e = Inr (Some t) \<longleftrightarrow>
        ip_state_generation (is_packages s ! i) = g \<and> ip_enabled (is_packages s ! i) \<noteq> e \<and>
        unat (is_generation s) + 1 < 2 ^ 64 \<and> unat g + 1 < 2 ^ 64 \<and>
        InstallationSnapshot_validate X (with_enablement s k (g + 1) e) = Inr () \<and> t = with_enablement s k (g + 1) e"
      using valid Some replaced [OF i]
      by (auto simp: transition_package_enablement_def Let_def and_then_Inr ok_or_Inr checked_add_def split: if_splits)
    with valid replacement [OF _ _ member] show ?thesis unfolding unique by blast
  qed
qed (simp add: transition_package_enablement_def and_then_Inr)

section \<open>The machine of enablement transitions\<close>

definition enablement_step ::
  "('v, 'r, 'x) lock_externals_scheme \<Rightarrow> InstallationSnapshot \<Rightarrow> InstallationSnapshot \<Rightarrow> bool" where
  "enablement_step X s t \<longleftrightarrow> (\<exists>k g e. transition_package_enablement X s k g e = Inr (Some t))"

lemma enablement_result:
  assumes "transition_package_enablement X s k g e = Inr (Some t)"
  shows "InstallationSnapshot_validate X t = Inr ()" "t = with_enablement s k (g + 1) e"
    "unat (is_generation t) = unat (is_generation s) + 1" "unat (g + 1) = unat g + 1"
    "k \<in> set (selection_ids (is_packages s))"
proof -
  note spec = assms [unfolded enablement_iff]
  from spec show t: "t = with_enablement s k (g + 1) e" by blast
  from spec have "unat (is_generation s) + 1 < 2 ^ 64" "unat g + 1 < 2 ^ 64" by blast+
  then show "unat (is_generation t) = unat (is_generation s) + 1" "unat (g + 1) = unat g + 1"
    using unat_add_no_overflow [of "is_generation s" 1] unat_add_no_overflow [of g 1] t by simp_all
  from spec show "k \<in> set (selection_ids (is_packages s))" by auto
  show "InstallationSnapshot_validate X t = Inr ()"
    using assms unfolding transition_package_enablement_def Let_def and_then_Inr if_Inl_Inr
    by (auto simp: and_then_Inr split: if_splits)
qed

text \<open>What the steps keep: validity, the graph, and the order of the generations.\<close>

definition evolved :: "('v, 'r, 'x) lock_externals_scheme \<Rightarrow> InstallationSnapshot \<Rightarrow> InstallationSnapshot \<Rightarrow> bool" where
  "evolved X s t \<longleftrightarrow> InstallationSnapshot_validate X t = Inr () \<and> is_installation t = is_installation s \<and>
     is_host t = is_host s \<and> is_roots t = is_roots s \<and>
     map selection_node (is_packages t) = map selection_node (is_packages s) \<and>
     unat (is_generation s) \<le> unat (is_generation t)"

definition newer :: "('v, 'r, 'x) lock_externals_scheme \<Rightarrow> string \<Rightarrow> u64 \<Rightarrow> InstallationSnapshot \<Rightarrow> bool" where
  "newer X k g s \<longleftrightarrow> InstallationSnapshot_validate X s = Inr () \<and>
     (\<exists>p \<in> set (is_packages s). InstallationPackageSelection_package_id p = k) \<and>
     (\<forall>p \<in> set (is_packages s). InstallationPackageSelection_package_id p = k \<longrightarrow> unat g < unat (ip_state_generation p))"

interpretation evolution: invariant_machine "\<lambda>t. t = s \<and> InstallationSnapshot_validate X s = Inr ()" "enablement_step X" "evolved X s"
  for X s
proof unfold_locales
  fix t u assume t: "evolved X s t" and "enablement_step X t u"
  then obtain k g e where "transition_package_enablement X t k g e = Inr (Some u)" by (auto simp: enablement_step_def)
  note step = enablement_result [OF this]
  have "map selection_node (is_packages u) = map selection_node (is_packages t)" by (simp add: step(2) comp_def)
  with t step(1-3) show "evolved X s u" by (simp add: evolved_def)
qed (auto simp: evolved_def)

interpretation generations: invariant_machine "newer X k g" "enablement_step X" "newer X k g" for X k g
proof unfold_locales
  fix t u assume t: "newer X k g t" and "enablement_step X t u"
  then obtain k' g' e where "transition_package_enablement X t k' g' e = Inr (Some u)" by (auto simp: enablement_step_def)
  note step = enablement_result [OF this] and spec = this [unfolded enablement_iff]
  have "unat g < unat (g' + 1)" if "k' = k" using spec t that step(4) unfolding newer_def by fastforce
  with t step(1) show "newer X k g u" by (auto simp: newer_def step(2))
qed

lemma evolved_run: "(enablement_step X)\<^sup>*\<^sup>* s t \<Longrightarrow> InstallationSnapshot_validate X s = Inr () \<Longrightarrow> evolved X s t"
  by (rule evolution.run_inv) (auto simp: evolved_def)

lemma newer_refused:
  assumes "newer X k g s"
  shows "transition_package_enablement X s k g e = Inl SnapshotGenerationChanged"
proof -
  from assms have valid: "InstallationSnapshot_validate X s = Inr ()" by (simp add: newer_def)
  then have sorted: "sorted_wrt (<) (selection_ids (is_packages s))" by (simp add: snapshot_validate_iff graph_valid_def)
  from assms obtain i where i: "package_position s k = Some i"
    using binary_search_by_member [OF sorted, of k] unfolding newer_def package_position_def by blast
  then have "i < length (is_packages s)" "InstallationPackageSelection_package_id (is_packages s ! i) = k"
    using binary_search_by_Some [OF sorted, of k i] by (simp_all add: package_position_def)
  with assms have "unat g < unat (ip_state_generation (is_packages s ! i))" by (simp add: newer_def)
  then have "ip_state_generation (is_packages s ! i) \<noteq> g" by auto
  with valid i show ?thesis by (simp add: transition_package_enablement_def Let_def)
qed

lemma enabled_reaches:
  assumes closed: "enabled_closed s" and sorted: "sorted_wrt (<) (selection_ids (is_packages s))"
    and path: "(a, b) \<in> (snapshot_depends s)\<^sup>*"
    and a: "\<exists>p \<in> set (is_packages s). InstallationPackageSelection_package_id p = a \<and> ip_enabled p"
  shows "\<exists>q \<in> set (is_packages s). InstallationPackageSelection_package_id q = b \<and> ip_enabled q"
  using path
proof (induction rule: rtrancl_induct)
  case (step y z)
  then obtain p where "p \<in> set (is_packages s)" "InstallationPackageSelection_package_id p = y" "ip_enabled p" by blast
  with step.hyps(2) closed show ?case
    using snapshot_depends_iff [OF sorted] unfolding enabled_closed_def by blast
qed (rule a)

section \<open>Lemmas: snapshots from root locks\<close>

lemma bt_get_values: "bt_get m k = Some v \<Longrightarrow> v \<in> set (bt_values m)"
  by (force simp: bt_get_def bt_values_def dest: map_of_SomeD)

lemma merge_package_get:
  assumes "merge_package packages p = Inr packages'"
  shows "bt_get packages' (LockedPluginPackage_package_id p) = Some p"
    and "bt_get packages k = Some q \<Longrightarrow> bt_get packages' k = Some q"
  using assms by (auto simp: merge_package_def Let_def split: option.splits if_splits)

lemma merge_packages_get:
  assumes "fold_result merge_package packages ps = Inr packages'"
  shows "bt_get packages k = Some q \<Longrightarrow> bt_get packages' k = Some q"
    and "p \<in> set ps \<Longrightarrow> bt_get packages' (LockedPluginPackage_package_id p) = Some p"
proof -
  have "(bt_get packages k = Some q \<longrightarrow> bt_get packages' k = Some q) \<and>
      (p \<in> set ps \<longrightarrow> bt_get packages' (LockedPluginPackage_package_id p) = Some p)" for k q p
    using assms
  proof (induction ps arbitrary: packages k q p)
    case (Cons p' ps)
    then obtain m where m: "merge_package packages p' = Inr m" "fold_result merge_package m ps = Inr packages'"
      by (auto simp: and_then_Inr)
    note get = merge_package_get [OF m(1)]
    from Cons.IH [OF m(2)] get(1) get(2) [of k q] show ?case by auto
  qed simp
  then show "bt_get packages k = Some q \<Longrightarrow> bt_get packages' k = Some q"
    "p \<in> set ps \<Longrightarrow> bt_get packages' (LockedPluginPackage_package_id p) = Some p" by blast+
qed

text \<open>What is known of a root once it is merged.\<close>

definition root_merged ::
  "('v, 'r, 'x) lock_externals_scheme \<Rightarrow> PluginPackageLockHost \<Rightarrow> InstallationRootSelection \<times> PluginPackageLock
     \<Rightarrow> (string, InstallationRootSelection) btree_map \<times> lock_index \<Rightarrow> bool" where
  "root_merged X host root state \<longleftrightarrow> PluginPackageLock_validate X (snd root) = Inr () \<and>
     pl_root_package_id (snd root) = ir_package_id (fst root) \<and> pl_host (snd root) = host \<and>
     bt_get (fst state) (ir_package_id (fst root)) = Some (fst root) \<and>
     (\<forall>p \<in> set (pl_packages (snd root)). bt_get (snd state) (LockedPluginPackage_package_id p) = Some p)"

lemma merge_root_merged:
  assumes "merge_root X host state root = Inr state'"
  shows "root_merged X host root state'" and "root_merged X host root' state \<Longrightarrow> root_merged X host root' state'"
proof -
  from assms obtain packages where fresh: "\<not> bt_contains (fst state) (ir_package_id (fst root))"
    and valid: "PluginPackageLock_validate X (snd root) = Inr ()" "pl_root_package_id (snd root) = ir_package_id (fst root)"
      "pl_host (snd root) = host"
    and merged: "fold_result merge_package (snd state) (pl_packages (snd root)) = Inr packages"
    and state': "state' = (bt_insert (ir_package_id (fst root)) (fst root) (fst state), packages)"
    unfolding merge_root_def Let_def and_then_Inr if_Inl_Inr map_err_Inr by auto
  note get = merge_packages_get [OF merged]
  show "root_merged X host root state'" using valid get(2) by (simp add: root_merged_def state')
  assume other: "root_merged X host root' state"
  then have "ir_package_id (fst root') \<noteq> ir_package_id (fst root)" using fresh by (auto simp: root_merged_def bt_contains_def)
  with other get(1) show "root_merged X host root' state'" by (simp add: root_merged_def state')
qed

lemma merge_roots_merged:
  "fold_result (merge_root X host) state roots = Inr state' \<Longrightarrow> root \<in> set roots \<or> root_merged X host root state \<Longrightarrow>
     root_merged X host root state'"
proof (induction roots arbitrary: state)
  case (Cons r roots)
  then obtain m where m: "merge_root X host state r = Inr m" "fold_result (merge_root X host) m roots = Inr state'"
    by (auto simp: and_then_Inr)
  from Cons.prems(2) merge_root_merged(1) [OF m(1)] merge_root_merged(2) [OF m(1), of root]
  have "root \<in> set roots \<or> root_merged X host root m" by auto
  with Cons.IH [OF m(2)] show ?case by blast
qed simp

lemma snapshot_lock_unique:
  assumes s: "sorted_wrt (<) (selection_ids (is_packages s))" and host: "pl_host l = is_host s"
    and l: "PluginPackageLock_validate X l = Inr ()" and sub: "set (pl_packages l) \<subseteq> ip_package ` set (is_packages s)"
  shows "snapshot_lock s (pl_root_package_id l) = l"
proof -
  let ?P = "map ip_package (is_packages s)" and ?L = "pl_packages l" and ?id = LockedPluginPackage_package_id
  note lock = l [unfolded lock_validate_iff]
  from lock have sorted: "sorted_wrt (<) (package_ids ?L)"
    and closure: "(lock_depends ?L)\<^sup>* `` {pl_root_package_id l} = set (package_ids ?L)"
    and schema: "pl_schema l = PLUGIN_PACKAGE_LOCK_SCHEMA" by blast+
  have sortedP: "sorted_wrt (<) (package_ids ?P)" using s unfolding selection_ids_packages .
  have inj: "inj_on ?id (set ?P)" using sorted_less_distinct [OF sortedP] unfolding distinct_map by blast
  have subP: "set ?L \<subseteq> set ?P" using sub by simp
  have sub_dep: "lock_depends ?L \<subseteq> lock_depends ?P" using subP unfolding lock_depends_def by blast
  have stays: "d \<in> set (package_ids ?L)" if k: "k \<in> set (package_ids ?L)" "(k, d) \<in> lock_depends ?P" for k d
  proof -
    from k(1) obtain q where q: "q \<in> set ?L" "?id q = k" by auto
    from k(2) obtain p where p: "p \<in> set ?P" "?id p = k" "d \<in> set (dependency_ids p)" by (auto simp: lock_depends_def)
    have "p = q" using inj p(1,2) q subP by (metis inj_onD subsetD)
    then have "(k, d) \<in> lock_depends ?L" using q p(3) by (auto simp: lock_depends_def)
    moreover have "(pl_root_package_id l, k) \<in> (lock_depends ?L)\<^sup>*" using k(1) closure by blast
    ultimately have "(pl_root_package_id l, d) \<in> (lock_depends ?L)\<^sup>*" by (rule rtrancl_into_rtrancl [rotated])
    then show ?thesis using closure by blast
  qed
  have "pl_root_package_id l \<in> set (package_ids ?L)" using closure by blast
  then have "(lock_depends ?P)\<^sup>* `` {pl_root_package_id l} \<subseteq> set (package_ids ?L)"
    using ImageE_closed [of "lock_depends ?P" "set (package_ids ?L)" "pl_root_package_id l"] stays by blast
  then have same: "snapshot_closure s (pl_root_package_id l) = set (package_ids ?L)"
    using closure rtrancl_mono [OF sub_dep] unfolding snapshot_depends_def by blast
  have "filter (\<lambda>p. ?id p \<in> set (package_ids ?L)) ?P = ?L"
  proof (rule map_sorted_distinct_set_unique)
    show set: "set (filter (\<lambda>p. ?id p \<in> set (package_ids ?L)) ?P) = set ?L"
      using subP inj by (auto dest: inj_onD)
    show "inj_on ?id (set (filter (\<lambda>p. ?id p \<in> set (package_ids ?L)) ?P) \<union> set ?L)"
      using inj subP unfolding set by (auto intro: inj_on_subset)
    show "sorted (package_ids ?L)" "distinct (package_ids ?L)"
      using sorted sorted_less_distinct [OF sorted] by (simp_all add: strict_sorted_imp_sorted)
    have "sorted_wrt (<) (package_ids (filter (\<lambda>p. ?id p \<in> set (package_ids ?L)) ?P))"
      using sortedP by (rule sorted_less_filter)
    then show "sorted (package_ids (filter (\<lambda>p. ?id p \<in> set (package_ids ?L)) ?P))"
      "distinct (package_ids (filter (\<lambda>p. ?id p \<in> set (package_ids ?L)) ?P))"
      by (simp_all only: strict_sorted_imp_sorted sorted_less_distinct)
  qed
  then show ?thesis using schema host by (simp add: snapshot_lock_def same)
qed

section \<open>Properties\<close>

text \<open>
  C35: enabling or disabling a package succeeds exactly when the snapshot is valid, the package is selected
  with the expected state generation and the other flag, neither generation is exhausted, and the change
  respects the dependencies: to enable it all its dependencies are enabled, to disable it no enabled
  package depends on it. The result differs in the flag and the two generations only, each one higher.
\<close>

theorem enablement_exact:
  "transition_package_enablement X s k g e = Inr (Some t) \<longleftrightarrow>
     InstallationSnapshot_validate X s = Inr () \<and>
     (\<exists>p \<in> set (is_packages s). InstallationPackageSelection_package_id p = k \<and> ip_state_generation p = g \<and>
        ip_enabled p \<noteq> e) \<and>
     unat (is_generation s) + 1 < 2 ^ 64 \<and> unat g + 1 < 2 ^ 64 \<and> enablement_allowed s k e \<and>
     t = with_enablement s k (g + 1) e"
  by (rule enablement_iff)

text \<open>
  C36: no update is lost. Once a transition that expected a state generation has succeeded, no transition
  of that package that expects the same generation succeeds again, however many transitions of any packages
  follow: it is refused because the generation changed.
\<close>

theorem enablement_no_lost_update:
  assumes "transition_package_enablement X s k g e = Inr (Some t)" and "(enablement_step X)\<^sup>*\<^sup>* t u"
  shows "transition_package_enablement X u k g e' = Inl SnapshotGenerationChanged"
proof (rule newer_refused, rule generations.run_inv [OF assms(2)])
  note step = enablement_result [OF assms(1)]
  from step(1,2,4,5) show "newer X k g t" unfolding newer_def by auto
qed

text \<open>
  C37: every snapshot that transitions reach from a valid one is valid, has the same installation, host,
  roots, packages and surfaces and no lower generation, and with every enabled package all its transitive
  dependencies are enabled.
\<close>

theorem enablement_invariant:
  assumes "InstallationSnapshot_validate X s = Inr ()" and "(enablement_step X)\<^sup>*\<^sup>* s t"
  shows "evolved X s t \<and> (\<forall>p \<in> set (is_packages t). ip_enabled p \<longrightarrow>
    (\<forall>b. (InstallationPackageSelection_package_id p, b) \<in> (snapshot_depends t)\<^sup>* \<longrightarrow>
       (\<exists>q \<in> set (is_packages t). InstallationPackageSelection_package_id q = b \<and> ip_enabled q)))"
proof -
  have t: "evolved X s t" using assms(2,1) by (rule evolved_run)
  then have "enabled_closed t" "sorted_wrt (<) (selection_ids (is_packages t))"
    by (simp_all add: evolved_def snapshot_validate_iff graph_valid_def)
  with t enabled_reaches [of t] show ?thesis by blast
qed

text \<open>
  C38: a snapshot keeps the locks it was built from: for every root given to the construction,
  reconstructing the closure of that root from the unified graph gives back exactly its lock.
\<close>

theorem snapshot_recovers_root_locks:
  assumes "InstallationSnapshot_from_root_locks X installation generation host roots selections = Inr s"
    and "(root, lock) \<in> set roots"
  shows "InstallationSnapshot_package_lock X s (ir_package_id root) = Inr (Some lock)"
proof -
  from assms(1) obtain rs ps ss where
    merged: "fold_result (merge_root X host) ([], []) roots = Inr (rs, ps)"
    and chosen: "\<forall>(k, p) \<in> set ps. \<exists>sel. bt_get ss k = Some sel \<and> ip_package sel = p"
    and s: "is_host s = host" "is_roots s = bt_values rs" "is_packages s = bt_values ss"
    and valid: "InstallationSnapshot_validate X s = Inr ()"
    unfolding InstallationSnapshot_from_root_locks_def and_then_Inr if_Inl_Inr Let_def
    by (auto simp: is_none_or_iff and_then_Inr split: prod.splits if_splits) blast
  have root: "root_merged X host (root, lock) (rs, ps)" using merge_roots_merged [OF merged] assms(2) by blast
  have sorted: "sorted_wrt (<) (selection_ids (is_packages s))" and graph: "graph_valid X s"
    using valid by (simp_all add: snapshot_validate_iff graph_valid_def)
  have "set (pl_packages lock) \<subseteq> ip_package ` set (is_packages s)"
  proof
    fix p assume "p \<in> set (pl_packages lock)"
    with root have "bt_get ps (LockedPluginPackage_package_id p) = Some p" by (simp add: root_merged_def)
    then have "(LockedPluginPackage_package_id p, p) \<in> set ps" by (simp add: bt_get_def map_of_SomeD)
    with chosen obtain sel where "bt_get ss (LockedPluginPackage_package_id p) = Some sel" "ip_package sel = p" by fast
    then show "p \<in> ip_package ` set (is_packages s)" unfolding s(3) by (blast dest: bt_get_values)
  qed
  with root sorted s(1) have "snapshot_lock s (ir_package_id root) = lock"
    using snapshot_lock_unique [of s lock X] by (simp add: root_merged_def)
  moreover have "root \<in> set (is_roots s)" using root bt_get_values s(2) by (auto simp: root_merged_def)
  moreover from this graph have "snapshot_closure s (ir_package_id root) \<subseteq> set (selection_ids (is_packages s))"
    unfolding graph_valid_def by blast
  ultimately show ?thesis
    using valid unchecked_iff [OF sorted, of "ir_package_id root" lock]
    by (simp add: InstallationSnapshot_package_lock_def)
qed

section \<open>Witnesses\<close>

definition witness_node :: LockedPluginPackage where
  "witness_node = \<lparr>lp_catalog = witness_verified ''a'' ''1.0.0'' [], lp_dependencies = []\<rparr>"

definition witness_node_lock :: PluginPackageLock where
  "witness_node_lock = \<lparr>pl_schema = PLUGIN_PACKAGE_LOCK_SCHEMA, pl_root_package_id = ''acme/a'',
     pl_host = \<lparr>plh_target = ''linux'', plh_use_version = ''1.0.0''\<rparr>, pl_packages = [witness_node]\<rparr>"

definition witness_snapshot :: InstallationSnapshot where
  "witness_snapshot = \<lparr>is_schema = INSTALLATION_SNAPSHOT_SCHEMA, is_installation = \<lparr>inst_kind = User, inst_id = ''u''\<rparr>,
     is_generation = 1, is_host = \<lparr>plh_target = ''linux'', plh_use_version = ''1.0.0''\<rparr>,
     is_roots = [\<lparr>ir_package_id = ''acme/a'', ir_installed_at_ms = 1\<rparr>],
     is_packages = [\<lparr>ip_package = witness_node, ip_state_generation = 1, ip_enabled = False,
       ip_selected_surfaces = [SurfaceRef KSkill ''help'']\<rparr>]\<rparr>"

lemma witness_snapshot_built:
  "InstallationSnapshot_from_root_locks witness_lock_externals \<lparr>inst_kind = User, inst_id = ''u''\<rparr> 1
     \<lparr>plh_target = ''linux'', plh_use_version = ''1.0.0''\<rparr>
     [(\<lparr>ir_package_id = ''acme/a'', ir_installed_at_ms = 1\<rparr>, witness_node_lock)] (is_packages witness_snapshot) =
   Inr witness_snapshot"
  by code_simp

lemma built_snapshot_valid:
  "InstallationSnapshot_from_root_locks X installation generation host roots selections = Inr s \<Longrightarrow>
     InstallationSnapshot_validate X s = Inr ()"
  unfolding InstallationSnapshot_from_root_locks_def and_then_Inr if_Inl_Inr Let_def
  by (auto simp: and_then_Inr split: prod.splits if_splits)

lemmas witness_snapshot_valid = built_snapshot_valid [OF witness_snapshot_built]

lemma witness_enabled:
  "transition_package_enablement witness_lock_externals witness_snapshot ''acme/a'' 1 True =
     Inr (Some (with_enablement witness_snapshot ''acme/a'' 2 True))"
proof -
  have "enablement_allowed witness_snapshot ''acme/a'' True"
    by (simp add: enablement_allowed_def snapshot_depends_def lock_depends_def witness_snapshot_def witness_node_def dependency_ids_def)
  moreover have "\<exists>p \<in> set (is_packages witness_snapshot). InstallationPackageSelection_package_id p = ''acme/a'' \<and>
      ip_state_generation p = 1 \<and> ip_enabled p \<noteq> True"
    by (simp add: witness_snapshot_def InstallationPackageSelection_package_id_def LockedPluginPackage_package_id_def
        witness_node_def witness_verified_def witness_record_def)
  moreover have "unat (is_generation witness_snapshot) + 1 < 2 ^ 64" by (simp add: witness_snapshot_def)
  ultimately show ?thesis unfolding enablement_iff using witness_snapshot_valid by simp
qed

theorem enablement_no_lost_update_witness:
  "transition_package_enablement witness_lock_externals (with_enablement witness_snapshot ''acme/a'' 2 True) ''acme/a'' 1 False =
     Inl SnapshotGenerationChanged"
  using enablement_no_lost_update [OF witness_enabled rtranclp.rtrancl_refl] .

theorem enablement_invariant_witness:
  "evolved witness_lock_externals witness_snapshot (with_enablement witness_snapshot ''acme/a'' 2 True)"
proof -
  have "enablement_step witness_lock_externals witness_snapshot (with_enablement witness_snapshot ''acme/a'' 2 True)"
    using witness_enabled unfolding enablement_step_def by blast
  with enablement_invariant [OF witness_snapshot_valid] show ?thesis by blast
qed

theorem snapshot_recovers_root_locks_witness:
  "InstallationSnapshot_package_lock witness_lock_externals witness_snapshot ''acme/a'' = Inr (Some witness_node_lock)"
  using snapshot_recovers_root_locks [OF witness_snapshot_built] by simp

end
