(* ===== verification/Grant.thy ===== *)
theory Grant
  imports Plan_Binding
begin

text \<open>
  Workspace grants: the grant itself (\<open>grant.rs\<close>), the proposal a plan carries and its confirmation
  (\<open>grant_resolution.rs\<close>), the snapshot and the change set of a workspace and their match with an
  operation plan (\<open>grant_changes.rs\<close>), the resolved change set (\<open>resolved_grant_changes.rs\<close>) and the
  signed contract of a host-configured endpoint (\<open>mcp_endpoint_grant.rs\<close>).
\<close>

section \<open>Data\<close>

record WorkspaceGrantAuthority =
  ga_actor :: PlanActor
  ga_decision :: PlanPolicyDecision
  ga_policy_digest :: string
  ga_confirmation_digest :: "string option"

record PluginWorkspaceGrant =
  gr_schema :: string
  gr_scope_id :: string
  gr_package_id :: string
  gr_package_digest :: string
  gr_permission_ceiling_digest :: string
  gr_permissions_digest :: string
  gr_permissions :: PluginPermissionCeiling
  gr_authority :: WorkspaceGrantAuthority
  gr_granted_at_ms :: u64
  gr_expires_at_ms :: "u64 option"

record WorkspaceGrantProposalAuthority =
  pa_actor :: PlanActor
  pa_decision :: PlanPolicyDecision
  pa_policy_digest :: string

record PluginWorkspaceGrantProposal =
  gp_schema :: string
  gp_operation_id :: string
  gp_scope_id :: string
  gp_package_id :: string
  gp_package_digest :: string
  gp_permission_ceiling_digest :: string
  gp_permissions_digest :: string
  gp_permissions :: PluginPermissionCeiling
  gp_authority :: WorkspaceGrantProposalAuthority
  gp_created_at_ms :: u64
  gp_apply_expires_at_ms :: u64
  gp_grant_expires_at_ms :: "u64 option"

record PluginGrantConfirmation =
  gc_schema :: string
  gc_operation_id :: string
  gc_plan_digest :: string
  gc_proposal_digest :: string
  gc_confirmed_by :: PlanActor
  gc_confirmed_at_ms :: u64

record WorkspaceGrantEvidence =
  we_package_id :: string
  we_package_digest :: string
  we_receipt_revision :: u64
  we_grant_digest :: string

record PluginWorkspaceGrantSnapshot =
  gs_schema :: string
  gs_scope_id :: string
  gs_state_revision :: u64
  gs_grants :: "WorkspaceGrantEvidence list"

record PlannedWorkspaceGrantChange =
  wg_package_id :: string
  wg_before :: "WorkspaceGrantEvidence option"
  wg_after :: "PluginWorkspaceGrantProposal option"

record PluginWorkspaceGrantChangeSet =
  wc_schema :: string
  wc_operation_id :: string
  wc_scope_id :: string
  wc_state_revision :: u64
  wc_before_snapshot_digest :: "string option"
  wc_changes :: "PlannedWorkspaceGrantChange list"

record ResolvedWorkspaceGrant =
  rg_proposal_digest :: string
  rg_grant :: PluginWorkspaceGrant

record ResolvedWorkspaceGrantChangeSet =
  rc_operation_id :: string
  rc_plan_digest :: string
  rc_change_set_digest :: string
  rc_scope_id :: string
  rc_state_revision_before :: u64
  rc_revision :: u64
  rc_capability_generation_before :: u64
  rc_capability_generation_after :: u64
  rc_before_snapshot_digest :: "string option"
  rc_transitioned_at_ms :: u64
  rc_revocation_authority :: WorkspaceGrantAuthority
  rc_grants :: "ResolvedWorkspaceGrant list"
  rc_revocations :: "WorkspaceGrantEvidence list"

record McpEndpointGrantContract =
  me_schema :: string
  me_transport :: string
  me_allowed_hosts :: "string list"

record ('v, 'r) grant_externals = "('v, 'r) binding_externals" +
  grant_to_json :: "PluginWorkspaceGrant \<Rightarrow> string option"
  grant_from_json :: "string \<Rightarrow> PluginWorkspaceGrant option"
  proposal_to_json :: "PluginWorkspaceGrantProposal \<Rightarrow> string option"
  proposal_from_json :: "string \<Rightarrow> PluginWorkspaceGrantProposal option"
  grant_confirmation_to_json :: "PluginGrantConfirmation \<Rightarrow> string option"
  grant_confirmation_from_json :: "string \<Rightarrow> PluginGrantConfirmation option"
  grant_snapshot_to_json :: "PluginWorkspaceGrantSnapshot \<Rightarrow> string option"
  grant_snapshot_from_json :: "string \<Rightarrow> PluginWorkspaceGrantSnapshot option"
  change_set_to_json :: "PluginWorkspaceGrantChangeSet \<Rightarrow> string option"
  change_set_from_json :: "string \<Rightarrow> PluginWorkspaceGrantChangeSet option"
  endpoint_from_json :: "string \<Rightarrow> McpEndpointGrantContract option"

definition PLUGIN_WORKSPACE_GRANT_SCHEMA :: string where
  "PLUGIN_WORKSPACE_GRANT_SCHEMA = ''a3s.use.plugin-workspace-grant.v1''"

definition PLUGIN_WORKSPACE_GRANT_PROPOSAL_SCHEMA :: string where
  "PLUGIN_WORKSPACE_GRANT_PROPOSAL_SCHEMA = ''a3s.use.plugin-workspace-grant-proposal.v1''"

definition PLUGIN_GRANT_CONFIRMATION_SCHEMA :: string where
  "PLUGIN_GRANT_CONFIRMATION_SCHEMA = ''a3s.use.plugin-grant-confirmation.v1''"

definition PLUGIN_WORKSPACE_GRANT_SNAPSHOT_SCHEMA :: string where
  "PLUGIN_WORKSPACE_GRANT_SNAPSHOT_SCHEMA = ''a3s.use.plugin-workspace-grant-snapshot.v1''"

definition PLUGIN_WORKSPACE_GRANT_CHANGE_SET_SCHEMA :: string where
  "PLUGIN_WORKSPACE_GRANT_CHANGE_SET_SCHEMA = ''a3s.use.plugin-workspace-grant-changes.v1''"

definition MCP_ENDPOINT_GRANT_SCHEMA :: string where
  "MCP_ENDPOINT_GRANT_SCHEMA = ''a3s.use.mcp-endpoint-grant.v1''"

definition MCP_ENDPOINT_GRANT_TRANSPORT :: string where
  "MCP_ENDPOINT_GRANT_TRANSPORT = ''streamable-http''"

definition MAX_ALLOWED_HOSTS :: nat where
  "MAX_ALLOWED_HOSTS = 8"

section \<open>Grants\<close>

definition WorkspaceGrantAuthority_validate :: "WorkspaceGrantAuthority \<Rightarrow> unit use_result" where
  "WorkspaceGrantAuthority_validate self =
     (if \<not> valid_sha256 (ga_policy_digest self)
         \<or> is_some_and (\<lambda>digest. \<not> valid_sha256 digest) (ga_confirmation_digest self)
         \<or> ga_decision self = Deny
         \<or> (ga_decision self = Ask) \<noteq> (ga_confirmation_digest self \<noteq> None)
      then Inl GrantInvalid else Inr ())"

definition validate_grant_package_id :: "string \<Rightarrow> unit use_result" where
  "validate_grant_package_id package_id = (if \<not> valid_package_id package_id then Inl GrantInvalid else Inr ())"

definition validate_grant_scope_id :: "string \<Rightarrow> unit use_result" where
  "validate_grant_scope_id scope_id =
     (if \<not> is_ok (InstallationId_new Workspace scope_id) then Inl GrantInvalid else Inr ())"

definition validate_grant_identity :: "string \<Rightarrow> string \<Rightarrow> unit use_result" where
  "validate_grant_identity scope_id package_id =
     and_then (validate_grant_scope_id scope_id) (\<lambda>_.
     and_then (validate_grant_package_id package_id) (\<lambda>_. Inr ()))"

definition requests_secrets :: "PluginPermissionCeiling \<Rightarrow> bool" where
  "requests_secrets permissions = (\<exists>permission \<in> set (pc_surfaces permissions). sp_secrets permission \<noteq> [])"

text \<open>
  The condition is a short-circuit disjunction with \<open>?\<close> inside: the error of the digest is reported only
  when the operands before it are false.
\<close>

definition PluginWorkspaceGrant_validate ::
  "('v, 'r, 'x) permission_externals_scheme \<Rightarrow> PluginWorkspaceGrant \<Rightarrow> unit use_result" where
  "PluginWorkspaceGrant_validate X self =
     and_then (map_err (\<lambda>_. GrantInvalid) (PluginPermissionCeiling_validate (gr_permissions self))) (\<lambda>_.
     if gr_schema self \<noteq> PLUGIN_WORKSPACE_GRANT_SCHEMA
        \<or> \<not> is_ok (validate_grant_identity (gr_scope_id self) (gr_package_id self))
        \<or> \<not> valid_sha256 (gr_package_digest self)
        \<or> \<not> valid_sha256 (gr_permission_ceiling_digest self)
        \<or> \<not> valid_sha256 (gr_permissions_digest self)
        \<or> pc_surfaces (gr_permissions self) = []
     then Inl GrantInvalid
     else
     and_then (PluginPermissionCeiling_descriptor_digest X (gr_permissions self)) (\<lambda>digest.
     if digest \<noteq> gr_permissions_digest self
        \<or> gr_granted_at_ms self = 0
        \<or> is_some_and (\<lambda>expires. expires \<le> gr_granted_at_ms self) (gr_expires_at_ms self)
     then Inl GrantInvalid
     else
     and_then (WorkspaceGrantAuthority_validate (gr_authority self)) (\<lambda>_.
     if requests_secrets (gr_permissions self)
        \<and> (ga_actor (gr_authority self) \<noteq> UserActor \<or> ga_decision (gr_authority self) \<noteq> Ask)
     then Inl GrantInvalid else Inr ())))"

definition PluginWorkspaceGrant_validate_against ::
  "('v, 'r, 'x) permission_externals_scheme \<Rightarrow> PluginWorkspaceGrant \<Rightarrow> PluginPermissionCeiling \<Rightarrow> unit use_result" where
  "PluginWorkspaceGrant_validate_against X self ceiling =
     and_then (PluginWorkspaceGrant_validate X self) (\<lambda>_.
     and_then (map_err (\<lambda>_. GrantInvalid) (PluginPermissionCeiling_validate ceiling)) (\<lambda>_.
     and_then (PluginPermissionCeiling_descriptor_digest X ceiling) (\<lambda>digest.
     if digest \<noteq> gr_permission_ceiling_digest self then Inl GrantCeilingMismatch
     else
     and_then (PluginPermissionCeiling_is_within (gr_permissions self) ceiling) (\<lambda>within.
     if \<not> within then Inl GrantExceedsCeiling else Inr ()))))"

definition PluginWorkspaceGrant_validate_at ::
  "('v, 'r, 'x) permission_externals_scheme \<Rightarrow> PluginWorkspaceGrant \<Rightarrow> u64 \<Rightarrow> unit use_result" where
  "PluginWorkspaceGrant_validate_at X self now_ms =
     and_then (PluginWorkspaceGrant_validate X self) (\<lambda>_.
     if now_ms < gr_granted_at_ms self then Inl GrantNotActive
     else if is_some_and (\<lambda>expires. now_ms \<ge> expires) (gr_expires_at_ms self) then Inl GrantExpired
     else Inr ())"

definition PluginWorkspaceGrant_validate_active_against ::
  "('v, 'r, 'x) permission_externals_scheme \<Rightarrow> PluginWorkspaceGrant \<Rightarrow> PluginPermissionCeiling \<Rightarrow> u64
     \<Rightarrow> unit use_result" where
  "PluginWorkspaceGrant_validate_active_against X self ceiling now_ms =
     and_then (PluginWorkspaceGrant_validate_against X self ceiling) (\<lambda>_. PluginWorkspaceGrant_validate_at X self now_ms)"

definition PluginWorkspaceGrant_from_json ::
  "('v, 'r, 'x) grant_externals_scheme \<Rightarrow> string \<Rightarrow> PluginWorkspaceGrant use_result" where
  "PluginWorkspaceGrant_from_json X input =
     parse_contract (grant_from_json X) GrantInvalid (PluginWorkspaceGrant_validate X) input"

definition PluginWorkspaceGrant_canonical_bytes ::
  "('v, 'r, 'x) grant_externals_scheme \<Rightarrow> PluginWorkspaceGrant \<Rightarrow> string use_result" where
  "PluginWorkspaceGrant_canonical_bytes X self =
     and_then (PluginWorkspaceGrant_validate X self) (\<lambda>_. canonical_json (grant_to_json X) GrantInvalid self)"

definition PluginWorkspaceGrant_descriptor_digest ::
  "('v, 'r, 'x) grant_externals_scheme \<Rightarrow> PluginWorkspaceGrant \<Rightarrow> string use_result" where
  "PluginWorkspaceGrant_descriptor_digest X self =
     and_then (PluginWorkspaceGrant_canonical_bytes X self) (\<lambda>bytes. Inr (canonical_digest X bytes))"

section \<open>Proposals and confirmations\<close>

definition WorkspaceGrantProposalAuthority_validate ::
  "WorkspaceGrantProposalAuthority \<Rightarrow> bool \<Rightarrow> unit use_result" where
  "WorkspaceGrantProposalAuthority_validate self secrets =
     (if \<not> valid_sha256 (pa_policy_digest self)
         \<or> pa_decision self = Deny
         \<or> (secrets \<and> (pa_actor self \<noteq> UserActor \<or> pa_decision self \<noteq> Ask))
      then Inl GrantProposalInvalid else Inr ())"

definition PluginWorkspaceGrantProposal_validate ::
  "('v, 'r, 'x) permission_externals_scheme \<Rightarrow> PluginWorkspaceGrantProposal \<Rightarrow> unit use_result" where
  "PluginWorkspaceGrantProposal_validate X self =
     and_then (map_err (\<lambda>_. GrantProposalInvalid) (PluginPermissionCeiling_validate (gp_permissions self))) (\<lambda>_.
     and_then (map_err (\<lambda>_. GrantProposalInvalid) (validate_grant_identity (gp_scope_id self) (gp_package_id self))) (\<lambda>_.
     if gp_schema self \<noteq> PLUGIN_WORKSPACE_GRANT_PROPOSAL_SCHEMA
        \<or> \<not> valid_machine_id (gp_operation_id self)
        \<or> \<not> valid_sha256 (gp_package_digest self)
        \<or> \<not> valid_sha256 (gp_permission_ceiling_digest self)
        \<or> \<not> valid_sha256 (gp_permissions_digest self)
        \<or> pc_surfaces (gp_permissions self) = []
     then Inl GrantProposalInvalid
     else
     and_then (PluginPermissionCeiling_descriptor_digest X (gp_permissions self)) (\<lambda>digest.
     if digest \<noteq> gp_permissions_digest self
        \<or> gp_created_at_ms self = 0
        \<or> gp_apply_expires_at_ms self \<le> gp_created_at_ms self
        \<or> gp_apply_expires_at_ms self - gp_created_at_ms self > MAX_PLAN_LIFETIME_MS
        \<or> is_some_and (\<lambda>expires. expires \<le> gp_apply_expires_at_ms self) (gp_grant_expires_at_ms self)
     then Inl GrantProposalInvalid
     else WorkspaceGrantProposalAuthority_validate (gp_authority self) (requests_secrets (gp_permissions self)))))"

definition PluginWorkspaceGrantProposal_validate_against ::
  "('v, 'r, 'x) permission_externals_scheme \<Rightarrow> PluginWorkspaceGrantProposal \<Rightarrow> PluginPermissionCeiling
     \<Rightarrow> unit use_result" where
  "PluginWorkspaceGrantProposal_validate_against X self ceiling =
     and_then (PluginWorkspaceGrantProposal_validate X self) (\<lambda>_.
     and_then (map_err (\<lambda>_. GrantProposalInvalid) (PluginPermissionCeiling_validate ceiling)) (\<lambda>_.
     and_then (PluginPermissionCeiling_descriptor_digest X ceiling) (\<lambda>digest.
     if digest \<noteq> gp_permission_ceiling_digest self then Inl GrantCeilingMismatch
     else
     and_then (PluginPermissionCeiling_is_within (gp_permissions self) ceiling) (\<lambda>within.
     if \<not> within then Inl GrantExceedsCeiling else Inr ()))))"

definition PluginWorkspaceGrantProposal_from_json ::
  "('v, 'r, 'x) grant_externals_scheme \<Rightarrow> string \<Rightarrow> PluginWorkspaceGrantProposal use_result" where
  "PluginWorkspaceGrantProposal_from_json X input =
     parse_contract (proposal_from_json X) GrantProposalInvalid (PluginWorkspaceGrantProposal_validate X) input"

definition PluginWorkspaceGrantProposal_canonical_bytes ::
  "('v, 'r, 'x) grant_externals_scheme \<Rightarrow> PluginWorkspaceGrantProposal \<Rightarrow> string use_result" where
  "PluginWorkspaceGrantProposal_canonical_bytes X self =
     and_then (PluginWorkspaceGrantProposal_validate X self) (\<lambda>_.
       canonical_json (proposal_to_json X) GrantProposalInvalid self)"

definition PluginWorkspaceGrantProposal_descriptor_digest ::
  "('v, 'r, 'x) grant_externals_scheme \<Rightarrow> PluginWorkspaceGrantProposal \<Rightarrow> string use_result" where
  "PluginWorkspaceGrantProposal_descriptor_digest X self =
     and_then (PluginWorkspaceGrantProposal_canonical_bytes X self) (\<lambda>bytes. Inr (canonical_digest X bytes))"

definition PluginGrantConfirmation_validate :: "PluginGrantConfirmation \<Rightarrow> unit use_result" where
  "PluginGrantConfirmation_validate self =
     (if gc_schema self \<noteq> PLUGIN_GRANT_CONFIRMATION_SCHEMA
         \<or> \<not> valid_machine_id (gc_operation_id self)
         \<or> \<not> valid_sha256 (gc_plan_digest self)
         \<or> \<not> valid_sha256 (gc_proposal_digest self)
         \<or> gc_confirmed_by self \<noteq> UserActor
         \<or> gc_confirmed_at_ms self = 0
      then Inl GrantConfirmationInvalid else Inr ())"

definition PluginGrantConfirmation_from_json ::
  "('v, 'r, 'x) grant_externals_scheme \<Rightarrow> string \<Rightarrow> PluginGrantConfirmation use_result" where
  "PluginGrantConfirmation_from_json X input =
     parse_contract (grant_confirmation_from_json X) GrantConfirmationInvalid PluginGrantConfirmation_validate input"

definition PluginGrantConfirmation_canonical_bytes ::
  "('v, 'r, 'x) grant_externals_scheme \<Rightarrow> PluginGrantConfirmation \<Rightarrow> string use_result" where
  "PluginGrantConfirmation_canonical_bytes X self =
     and_then (PluginGrantConfirmation_validate self) (\<lambda>_.
       canonical_json (grant_confirmation_to_json X) GrantConfirmationInvalid self)"

definition PluginGrantConfirmation_descriptor_digest ::
  "('v, 'r, 'x) grant_externals_scheme \<Rightarrow> PluginGrantConfirmation \<Rightarrow> string use_result" where
  "PluginGrantConfirmation_descriptor_digest X self =
     and_then (PluginGrantConfirmation_canonical_bytes X self) (\<lambda>bytes. Inr (canonical_digest X bytes))"

definition grant_confirmation_binds ::
  "PluginWorkspaceGrantProposal \<Rightarrow> string \<Rightarrow> string \<Rightarrow> u64 \<Rightarrow> PluginGrantConfirmation \<Rightarrow> bool" where
  "grant_confirmation_binds self plan_digest proposal_digest applied_at_ms confirmation = (\<not>
     (gc_operation_id confirmation \<noteq> gp_operation_id self
      \<or> gc_plan_digest confirmation \<noteq> plan_digest
      \<or> gc_proposal_digest confirmation \<noteq> proposal_digest
      \<or> gc_confirmed_at_ms confirmation < gp_created_at_ms self
      \<or> gc_confirmed_at_ms confirmation \<ge> gp_apply_expires_at_ms self
      \<or> gc_confirmed_at_ms confirmation > applied_at_ms))"

text \<open>The match on the decision: when and with which confirmation the grant takes effect.\<close>

definition grant_effect ::
  "('v, 'r, 'x) grant_externals_scheme \<Rightarrow> PluginWorkspaceGrantProposal \<Rightarrow> string
     \<Rightarrow> PluginGrantConfirmation option \<Rightarrow> u64 \<Rightarrow> (u64 \<times> string option) use_result" where
  "grant_effect X self plan_digest confirmation applied_at_ms =
     (case pa_decision (gp_authority self) of
        Allow \<Rightarrow> if confirmation = None then Inr (applied_at_ms, None) else Inl GrantConfirmationMismatch
      | Ask \<Rightarrow>
          and_then (ok_or GrantConfirmationRequired confirmation) (\<lambda>confirmation.
          and_then (PluginGrantConfirmation_validate confirmation) (\<lambda>_.
          and_then (PluginWorkspaceGrantProposal_descriptor_digest X self) (\<lambda>proposal_digest.
          if \<not> grant_confirmation_binds self plan_digest proposal_digest applied_at_ms confirmation
          then Inl GrantConfirmationMismatch
          else
          and_then (PluginGrantConfirmation_descriptor_digest X confirmation) (\<lambda>digest.
            Inr (gc_confirmed_at_ms confirmation, Some digest)))))
      | Deny \<Rightarrow> Inl GrantProposalInvalid)"

definition granted_by ::
  "PluginWorkspaceGrantProposal \<Rightarrow> u64 \<times> string option \<Rightarrow> PluginWorkspaceGrant" where
  "granted_by self effect =
     \<lparr>gr_schema = PLUGIN_WORKSPACE_GRANT_SCHEMA, gr_scope_id = gp_scope_id self, gr_package_id = gp_package_id self,
      gr_package_digest = gp_package_digest self, gr_permission_ceiling_digest = gp_permission_ceiling_digest self,
      gr_permissions_digest = gp_permissions_digest self, gr_permissions = gp_permissions self,
      gr_authority = \<lparr>ga_actor = pa_actor (gp_authority self), ga_decision = pa_decision (gp_authority self),
        ga_policy_digest = pa_policy_digest (gp_authority self), ga_confirmation_digest = snd effect\<rparr>,
      gr_granted_at_ms = fst effect, gr_expires_at_ms = gp_grant_expires_at_ms self\<rparr>"

definition PluginWorkspaceGrantProposal_finalize ::
  "('v, 'r, 'x) grant_externals_scheme \<Rightarrow> PluginWorkspaceGrantProposal \<Rightarrow> PluginPermissionCeiling \<Rightarrow> string
     \<Rightarrow> PluginGrantConfirmation option \<Rightarrow> u64 \<Rightarrow> PluginWorkspaceGrant use_result" where
  "PluginWorkspaceGrantProposal_finalize X self ceiling plan_digest confirmation applied_at_ms =
     and_then (PluginWorkspaceGrantProposal_validate_against X self ceiling) (\<lambda>_.
     if \<not> valid_sha256 plan_digest then Inl GrantProposalInvalid
     else if applied_at_ms < gp_created_at_ms self then Inl GrantProposalNotActive
     else if applied_at_ms \<ge> gp_apply_expires_at_ms self then Inl GrantProposalExpired
     else
     and_then (grant_effect X self plan_digest confirmation applied_at_ms) (\<lambda>effect.
     let grant = granted_by self effect in
     and_then (PluginWorkspaceGrant_validate_active_against X grant ceiling applied_at_ms) (\<lambda>_. Inr grant)))"

section \<open>Snapshots and change sets\<close>

definition WorkspaceGrantEvidence_validate :: "WorkspaceGrantEvidence \<Rightarrow> unit use_result" where
  "WorkspaceGrantEvidence_validate self =
     (if \<not> valid_package_id (we_package_id self)
         \<or> \<not> valid_sha256 (we_package_digest self)
         \<or> we_receipt_revision self = 0
         \<or> \<not> valid_sha256 (we_grant_digest self)
      then Inl GrantSnapshotInvalid else Inr ())"

definition PluginWorkspaceGrantSnapshot_validate :: "PluginWorkspaceGrantSnapshot \<Rightarrow> unit use_result" where
  "PluginWorkspaceGrantSnapshot_validate self =
     (if gs_schema self \<noteq> PLUGIN_WORKSPACE_GRANT_SNAPSHOT_SCHEMA
         \<or> \<not> is_ok (validate_grant_scope_id (gs_scope_id self))
         \<or> gs_state_revision self = 0
         \<or> length (gs_grants self) > MAX_PLUGIN_PLAN_ITEMS
         \<or> windows2_any (\<lambda>a b. we_package_id a \<ge> we_package_id b) (gs_grants self)
      then Inl GrantSnapshotInvalid
      else for_each (\<lambda>evidence.
        and_then (map_err (\<lambda>_. GrantSnapshotInvalid) (WorkspaceGrantEvidence_validate evidence)) (\<lambda>_.
        if we_receipt_revision evidence > gs_state_revision self then Inl GrantSnapshotInvalid else Inr ()))
        (gs_grants self))"

definition PluginWorkspaceGrantSnapshot_from_json ::
  "('v, 'r, 'x) grant_externals_scheme \<Rightarrow> string \<Rightarrow> PluginWorkspaceGrantSnapshot use_result" where
  "PluginWorkspaceGrantSnapshot_from_json X input =
     parse_contract (grant_snapshot_from_json X) GrantSnapshotInvalid PluginWorkspaceGrantSnapshot_validate input"

definition PluginWorkspaceGrantSnapshot_canonical_bytes ::
  "('v, 'r, 'x) grant_externals_scheme \<Rightarrow> PluginWorkspaceGrantSnapshot \<Rightarrow> string use_result" where
  "PluginWorkspaceGrantSnapshot_canonical_bytes X self =
     and_then (PluginWorkspaceGrantSnapshot_validate self) (\<lambda>_.
       canonical_json (grant_snapshot_to_json X) GrantSnapshotInvalid self)"

definition PluginWorkspaceGrantSnapshot_descriptor_digest ::
  "('v, 'r, 'x) grant_externals_scheme \<Rightarrow> PluginWorkspaceGrantSnapshot \<Rightarrow> string use_result" where
  "PluginWorkspaceGrantSnapshot_descriptor_digest X self =
     and_then (PluginWorkspaceGrantSnapshot_canonical_bytes X self) (\<lambda>bytes. Inr (canonical_digest X bytes))"

definition PlannedWorkspaceGrantChange_validate ::
  "('v, 'r, 'x) permission_externals_scheme \<Rightarrow> PlannedWorkspaceGrantChange \<Rightarrow> string \<Rightarrow> string \<Rightarrow> unit use_result" where
  "PlannedWorkspaceGrantChange_validate X self operation_id scope_id =
     (if \<not> valid_package_id (wg_package_id self)
         \<or> (wg_before self = None \<and> wg_after self = None)
         \<or> is_some_and (\<lambda>evidence. we_package_id evidence \<noteq> wg_package_id self
              \<or> \<not> is_ok (WorkspaceGrantEvidence_validate evidence)) (wg_before self)
         \<or> is_some_and (\<lambda>proposal. gp_operation_id proposal \<noteq> operation_id
              \<or> gp_scope_id proposal \<noteq> scope_id
              \<or> gp_package_id proposal \<noteq> wg_package_id self
              \<or> \<not> is_ok (PluginWorkspaceGrantProposal_validate X proposal)) (wg_after self)
      then Inl GrantChangesInvalid else Inr ())"

definition PluginWorkspaceGrantChangeSet_validate ::
  "('v, 'r, 'x) permission_externals_scheme \<Rightarrow> PluginWorkspaceGrantChangeSet \<Rightarrow> unit use_result" where
  "PluginWorkspaceGrantChangeSet_validate X self =
     (if wc_schema self \<noteq> PLUGIN_WORKSPACE_GRANT_CHANGE_SET_SCHEMA
         \<or> \<not> valid_machine_id (wc_operation_id self)
         \<or> \<not> is_ok (validate_grant_scope_id (wc_scope_id self))
         \<or> wc_state_revision self = 0
         \<or> wc_changes self = []
         \<or> length (wc_changes self) > MAX_PLUGIN_PLAN_ITEMS
         \<or> is_some_and (\<lambda>digest. \<not> valid_sha256 digest) (wc_before_snapshot_digest self)
         \<or> windows2_any (\<lambda>a b. wg_package_id a \<ge> wg_package_id b) (wc_changes self)
      then Inl GrantChangesInvalid
      else
      and_then (fold_result (\<lambda>has_before change.
          and_then (PlannedWorkspaceGrantChange_validate X change (wc_operation_id self) (wc_scope_id self)) (\<lambda>_.
            Inr (has_before \<or> wg_before change \<noteq> None))) False (wc_changes self)) (\<lambda>has_before.
      if has_before \<and> wc_before_snapshot_digest self = None then Inl GrantChangesInvalid else Inr ()))"

definition PluginWorkspaceGrantChangeSet_from_json ::
  "('v, 'r, 'x) grant_externals_scheme \<Rightarrow> string \<Rightarrow> PluginWorkspaceGrantChangeSet use_result" where
  "PluginWorkspaceGrantChangeSet_from_json X input =
     parse_contract (change_set_from_json X) GrantChangesInvalid (PluginWorkspaceGrantChangeSet_validate X) input"

definition PluginWorkspaceGrantChangeSet_canonical_bytes ::
  "('v, 'r, 'x) grant_externals_scheme \<Rightarrow> PluginWorkspaceGrantChangeSet \<Rightarrow> string use_result" where
  "PluginWorkspaceGrantChangeSet_canonical_bytes X self =
     and_then (PluginWorkspaceGrantChangeSet_validate X self) (\<lambda>_.
       canonical_json (change_set_to_json X) GrantChangesInvalid self)"

definition PluginWorkspaceGrantChangeSet_descriptor_digest ::
  "('v, 'r, 'x) grant_externals_scheme \<Rightarrow> PluginWorkspaceGrantChangeSet \<Rightarrow> string use_result" where
  "PluginWorkspaceGrantChangeSet_descriptor_digest X self =
     and_then (PluginWorkspaceGrantChangeSet_canonical_bytes X self) (\<lambda>bytes. Inr (canonical_digest X bytes))"

definition validate_snapshot ::
  "('v, 'r, 'x) grant_externals_scheme \<Rightarrow> PluginWorkspaceGrantChangeSet \<Rightarrow> PluginWorkspaceGrantSnapshot option
     \<Rightarrow> unit use_result" where
  "validate_snapshot X self before =
     (case (wc_before_snapshot_digest self, before) of
        (None, None) \<Rightarrow> Inr ()
      | (Some expected, Some snapshot) \<Rightarrow>
          and_then (PluginWorkspaceGrantSnapshot_validate snapshot) (\<lambda>_.
          if gs_scope_id snapshot \<noteq> wc_scope_id self \<or> gs_state_revision snapshot \<noteq> wc_state_revision self
          then Inl GrantChangesPlanMismatch
          else
          and_then (PluginWorkspaceGrantSnapshot_descriptor_digest X snapshot) (\<lambda>digest.
          if digest \<noteq> expected then Inl GrantChangesPlanMismatch else Inr ()))
      | _ \<Rightarrow> Inl GrantChangesPlanMismatch)"

section \<open>Change sets against plans\<close>

definition has_grant_permissions :: "PlannedPackageState \<Rightarrow> bool" where
  "has_grant_permissions state = (pc_surfaces (ps_permissions state) \<noteq> [])"

definition grant_before_required :: "PluginOperationAction \<Rightarrow> PlannedPackageTransition \<Rightarrow> bool \<Rightarrow> bool" where
  "grant_before_required action package enabled =
     (enabled \<and> (pt_change package \<in> {Remove, Replace} \<or> (action = Disable \<and> pt_change package = Retain))
      \<and> is_some_and has_grant_permissions (pt_before package))"

definition grant_after_required :: "PluginOperationAction \<Rightarrow> PlannedPackageTransition \<Rightarrow> bool \<Rightarrow> bool" where
  "grant_after_required action package enabled =
     (enabled \<and> (pt_change package \<in> {Add, Replace} \<or> (action = Enable \<and> pt_change package = Retain))
      \<and> is_some_and has_grant_permissions (pt_after package))"

definition expected_changes :: "PluginOperationPlan \<Rightarrow> bool \<Rightarrow> bool \<Rightarrow> string btree_set" where
  "expected_changes plan enabled_before enabled_after =
     bs_collect (map pt_package_id (filter (\<lambda>package.
       grant_before_required (po_action plan) package enabled_before
       \<or> grant_after_required (po_action plan) package enabled_after) (po_packages plan)))"

definition package_after :: "PluginOperationPlan \<Rightarrow> string \<Rightarrow> PlannedPackageState use_result" where
  "package_after plan package_id =
     ok_or GrantChangesPlanMismatch
       (Option.bind (List.find (\<lambda>package. pt_package_id package = package_id) (po_packages plan)) pt_after)"

definition proposal_matches_plan :: "PluginOperationPlan \<Rightarrow> PlannedPackageState \<Rightarrow> PluginWorkspaceGrantProposal \<Rightarrow> bool" where
  "proposal_matches_plan plan state proposal = (\<not>
     (gp_package_digest proposal \<noteq> pr_package_sha256 (ps_release state)
      \<or> gp_permission_ceiling_digest proposal \<noteq> pr_permission_ceiling_digest (ps_release state)
      \<or> pa_actor (gp_authority proposal) \<noteq> au_actor (po_authority plan)
      \<or> pa_decision (gp_authority proposal) \<noteq> au_decision (po_authority plan)
      \<or> pa_policy_digest (gp_authority proposal) \<noteq> au_policy_digest (po_authority plan)
      \<or> gp_created_at_ms proposal \<noteq> po_created_at_ms plan
      \<or> gp_apply_expires_at_ms proposal \<noteq> po_expires_at_ms plan))"

definition validate_change_against_plan ::
  "('v, 'r, 'x) permission_externals_scheme \<Rightarrow> PluginOperationPlan \<Rightarrow> PlannedPackageTransition
     \<Rightarrow> PlannedWorkspaceGrantChange \<Rightarrow> PluginWorkspaceGrantSnapshot option \<Rightarrow> bool \<Rightarrow> bool \<Rightarrow> unit use_result" where
  "validate_change_against_plan X plan package change snapshot enabled_before enabled_after =
     (if (wg_before change \<noteq> None) \<noteq> grant_before_required (po_action plan) package enabled_before
         \<or> (wg_after change \<noteq> None) \<noteq> grant_after_required (po_action plan) package enabled_after
      then Inl GrantChangesPlanMismatch
      else
      and_then (case wg_before change of
          None \<Rightarrow> Inr ()
        | Some evidence \<Rightarrow>
            and_then (ok_or GrantChangesPlanMismatch (pt_before package)) (\<lambda>state.
            if we_package_digest evidence \<noteq> pr_package_sha256 (ps_release state)
               \<or> \<not> is_some_and (\<lambda>snapshot. evidence \<in> set (gs_grants snapshot)) snapshot
            then Inl GrantChangesPlanMismatch else Inr ())) (\<lambda>_.
      case wg_after change of
        None \<Rightarrow> Inr ()
      | Some proposal \<Rightarrow>
          and_then (ok_or GrantChangesPlanMismatch (pt_after package)) (\<lambda>state.
          if \<not> proposal_matches_plan plan state proposal then Inl GrantChangesPlanMismatch
          else map_err (\<lambda>_. GrantChangesPlanMismatch)
            (PluginWorkspaceGrantProposal_validate_against X proposal (ps_permissions state)))))"

definition PluginWorkspaceGrantChangeSet_validate_against_plan ::
  "('v, 'r, 'x) grant_externals_scheme \<Rightarrow> PluginWorkspaceGrantChangeSet \<Rightarrow> PluginOperationPlan
     \<Rightarrow> PluginWorkspaceGrantSnapshot option \<Rightarrow> unit use_result" where
  "PluginWorkspaceGrantChangeSet_validate_against_plan X self plan before =
     and_then (PluginWorkspaceGrantChangeSet_validate X self) (\<lambda>_.
     and_then (PluginOperationPlan_validate X plan) (\<lambda>_.
     and_then (ok_or GrantChangesPlanMismatch
       (List.find (\<lambda>impact. wi_scope_id impact = wc_scope_id self) (po_workspace_impacts plan))) (\<lambda>impact.
     if wc_operation_id self \<noteq> po_operation_id plan
        \<or> wc_state_revision self \<noteq> es_state_revision (po_state plan)
        \<or> wi_grant_before_digest impact \<noteq> wc_before_snapshot_digest self
     then Inl GrantChangesPlanMismatch
     else
     and_then (PluginWorkspaceGrantChangeSet_descriptor_digest X self) (\<lambda>digest.
     if wi_grant_after_digest impact \<noteq> Some digest then Inl GrantChangesPlanMismatch
     else
     and_then (validate_snapshot X self before) (\<lambda>_.
     let packages = bt_collect (map (\<lambda>package. (pt_package_id package, package)) (po_packages plan));
         changes = bt_collect (map (\<lambda>change. (wg_package_id change, change)) (wc_changes self)) in
     if bs_collect (bt_keys changes) \<noteq> expected_changes plan (wi_enabled_before impact) (wi_enabled_after impact)
     then Inl GrantChangesPlanMismatch
     else for_each (\<lambda>(package_id, change).
       and_then (ok_or GrantChangesPlanMismatch (bt_get packages package_id)) (\<lambda>package.
         validate_change_against_plan X plan package change before (wi_enabled_before impact) (wi_enabled_after impact)))
       changes)))))"

definition canonical_absence :: "PluginOperationPlan \<Rightarrow> bool" where
  "canonical_absence self =
     (case inst_kind (po_scope self) of
        User \<Rightarrow> po_workspace_impacts self = []
      | Workspace \<Rightarrow>
          (case po_workspace_impacts self of
             [impact] \<Rightarrow> wi_scope_id impact = inst_id (po_scope self) \<and> wi_grant_before_digest impact = None
               \<and> wi_grant_after_digest impact = None
               \<and> (wi_enabled_before impact, wi_enabled_after impact) = expected_enablement (po_action self)
           | _ \<Rightarrow> False))"

definition workspace_grant_changes_required ::
  "('v, 'r, 'x) catalog_externals_scheme \<Rightarrow> PluginOperationPlan \<Rightarrow> bool use_result" where
  "workspace_grant_changes_required X self =
     and_then (PluginOperationPlan_validate X self) (\<lambda>_.
     case expected_enablement (po_action self) of (enabled_before, enabled_after) \<Rightarrow>
     (let impact = List.find (\<lambda>impact. wi_scope_id impact = inst_id (po_scope self)) (po_workspace_impacts self) in
      if expected_changes self enabled_before enabled_after = [] then
        (if \<not> canonical_absence self then Inl GrantChangesPlanMismatch else Inr False)
      else if length (po_workspace_impacts self) \<noteq> 1
        \<or> is_none_or (\<lambda>impact. wi_grant_after_digest impact = None
            \<or> ((\<exists>package \<in> set (po_packages self). grant_before_required (po_action self) package enabled_before)
                \<and> wi_grant_before_digest impact = None)
            \<or> wi_enabled_before impact \<noteq> enabled_before
            \<or> wi_enabled_after impact \<noteq> enabled_after) impact
      then Inl GrantChangesPlanMismatch else Inr True))"

section \<open>Resolved change sets\<close>

definition resolved_header_valid :: "ResolvedWorkspaceGrantChangeSet \<Rightarrow> bool" where
  "resolved_header_valid self = (\<not>
     (\<not> valid_machine_id (rc_operation_id self)
      \<or> \<not> valid_sha256 (rc_plan_digest self)
      \<or> \<not> valid_sha256 (rc_change_set_digest self)
      \<or> \<not> is_ok (validate_grant_scope_id (rc_scope_id self))
      \<or> rc_state_revision_before self = 0
      \<or> checked_add (rc_state_revision_before self) 1 \<noteq> Some (rc_revision self)
      \<or> checked_add (rc_capability_generation_before self) 1 \<noteq> Some (rc_capability_generation_after self)
      \<or> is_some_and (\<lambda>digest. \<not> valid_sha256 digest) (rc_before_snapshot_digest self)
      \<or> rc_transitioned_at_ms self = 0
      \<or> (rc_grants self = [] \<and> rc_revocations self = [])
      \<or> length (rc_grants self) > MAX_PLUGIN_PLAN_ITEMS
      \<or> length (rc_revocations self) > MAX_PLUGIN_PLAN_ITEMS
      \<or> windows2_any (\<lambda>a b. gr_package_id (rg_grant a) \<ge> gr_package_id (rg_grant b)) (rc_grants self)
      \<or> windows2_any (\<lambda>a b. we_package_id a \<ge> we_package_id b) (rc_revocations self)
      \<or> (rc_revocations self \<noteq> [] \<and> rc_before_snapshot_digest self = None)))"

definition ResolvedWorkspaceGrantChangeSet_validate ::
  "('v, 'r, 'x) permission_externals_scheme \<Rightarrow> ResolvedWorkspaceGrantChangeSet \<Rightarrow> unit use_result" where
  "ResolvedWorkspaceGrantChangeSet_validate X self =
     (if \<not> resolved_header_valid self then Inl GrantChangesInvalid
      else
      and_then (map_err (\<lambda>_. GrantChangesInvalid) (WorkspaceGrantAuthority_validate (rc_revocation_authority self))) (\<lambda>_.
      and_then (for_each (\<lambda>resolved.
          if \<not> valid_sha256 (rg_proposal_digest resolved)
             \<or> gr_scope_id (rg_grant resolved) \<noteq> rc_scope_id self
             \<or> \<not> is_ok (PluginWorkspaceGrant_validate_at X (rg_grant resolved) (rc_transitioned_at_ms self))
          then Inl GrantChangesInvalid else Inr ()) (rc_grants self)) (\<lambda>_.
      for_each (\<lambda>evidence.
        and_then (map_err (\<lambda>_. GrantChangesInvalid) (WorkspaceGrantEvidence_validate evidence)) (\<lambda>_.
        if we_receipt_revision evidence > rc_state_revision_before self then Inl GrantChangesInvalid else Inr ()))
        (rc_revocations self))))"

text \<open>The state of the loop of \<open>finalize_against_plan\<close>: unused confirmations, grants and revocations so far.\<close>

type_synonym finalize_state =
  "(string, PluginGrantConfirmation) btree_map \<times> ResolvedWorkspaceGrant list \<times> WorkspaceGrantEvidence list"

definition collect_confirmations ::
  "PluginGrantConfirmation list \<Rightarrow> (string, PluginGrantConfirmation) btree_map use_result" where
  "collect_confirmations confirmations =
     fold_result (\<lambda>confirmation_map confirmation.
       and_then (PluginGrantConfirmation_validate confirmation) (\<lambda>_.
       if bt_contains confirmation_map (gc_proposal_digest confirmation) then Inl GrantChangesConfirmationMismatch
       else Inr (bt_insert (gc_proposal_digest confirmation) confirmation confirmation_map))) [] confirmations"

definition finalize_proposal ::
  "('v, 'r, 'x) grant_externals_scheme \<Rightarrow> PluginOperationPlan \<Rightarrow> string \<Rightarrow> PluginOperationConfirmation option \<Rightarrow> u64
     \<Rightarrow> string \<Rightarrow> PluginWorkspaceGrantProposal \<Rightarrow> finalize_state \<Rightarrow> finalize_state use_result" where
  "finalize_proposal X plan plan_digest operation_confirmation applied_at_ms package_id proposal state =
     and_then (PluginWorkspaceGrantProposal_descriptor_digest X proposal) (\<lambda>proposal_digest.
     let confirmation = bt_get (fst state) proposal_digest; confirmation_map = bt_remove proposal_digest (fst state) in
     if au_decision (po_authority plan) = Ask \<and>
        (case (confirmation, operation_confirmation) of
           (Some a, Some b) \<Rightarrow> gc_confirmed_at_ms a \<noteq> cf_confirmed_at_ms b
         | _ \<Rightarrow> False)
     then Inl GrantChangesConfirmationMismatch
     else
     and_then (package_after plan package_id) (\<lambda>package_state.
     and_then (PluginWorkspaceGrantProposal_finalize X proposal (ps_permissions package_state) plan_digest confirmation
       applied_at_ms) (\<lambda>grant.
       Inr (confirmation_map, fst (snd state) @ [\<lparr>rg_proposal_digest = proposal_digest, rg_grant = grant\<rparr>],
         snd (snd state)))))"

definition finalize_change ::
  "('v, 'r, 'x) grant_externals_scheme \<Rightarrow> PluginOperationPlan \<Rightarrow> string \<Rightarrow> PluginOperationConfirmation option \<Rightarrow> u64
     \<Rightarrow> finalize_state \<Rightarrow> PlannedWorkspaceGrantChange \<Rightarrow> finalize_state use_result" where
  "finalize_change X plan plan_digest operation_confirmation applied_at_ms state change =
     and_then (case wg_after change of
         None \<Rightarrow> Inr state
       | Some proposal \<Rightarrow>
           finalize_proposal X plan plan_digest operation_confirmation applied_at_ms (wg_package_id change) proposal state)
       (\<lambda>state.
       Inr (case wg_before change of
              None \<Rightarrow> state
            | Some evidence \<Rightarrow> (fst state, fst (snd state), snd (snd state) @ [evidence])))"

definition confirmation_digest_of ::
  "('v, 'r, 'x) binding_externals_scheme \<Rightarrow> PluginOperationConfirmation option \<Rightarrow> string option use_result" where
  "confirmation_digest_of X confirmation =
     (case confirmation of
        None \<Rightarrow> Inr None
      | Some confirmation \<Rightarrow>
          and_then (PluginOperationConfirmation_descriptor_digest X confirmation) (\<lambda>digest. Inr (Some digest)))"

definition PluginWorkspaceGrantChangeSet_finalize_against_plan ::
  "('v, 'r, 'x) grant_externals_scheme \<Rightarrow> PluginWorkspaceGrantChangeSet \<Rightarrow> PluginOperationPlan
     \<Rightarrow> PluginWorkspaceGrantSnapshot option \<Rightarrow> PluginOperationConfirmation option \<Rightarrow> PluginGrantConfirmation list
     \<Rightarrow> u64 \<Rightarrow> ResolvedWorkspaceGrantChangeSet use_result" where
  "PluginWorkspaceGrantChangeSet_finalize_against_plan X self plan before operation_confirmation confirmations applied_at_ms =
     and_then (PluginWorkspaceGrantChangeSet_validate_against_plan X self plan before) (\<lambda>_.
     and_then (PluginOperationPlan_descriptor_digest X plan) (\<lambda>plan_digest.
     and_then (verify_plan_confirmed_apply X plan plan_digest (po_operation_id plan) plan_digest operation_confirmation
       applied_at_ms) (\<lambda>_.
     and_then (confirmation_digest_of X operation_confirmation) (\<lambda>operation_confirmation_digest.
     let revocation_authority = \<lparr>ga_actor = au_actor (po_authority plan), ga_decision = au_decision (po_authority plan),
           ga_policy_digest = au_policy_digest (po_authority plan), ga_confirmation_digest = operation_confirmation_digest\<rparr> in
     and_then (WorkspaceGrantAuthority_validate revocation_authority) (\<lambda>_.
     and_then (collect_confirmations confirmations) (\<lambda>confirmation_map.
     and_then (ok_or GrantChangesRevisionExhausted (checked_add (es_state_revision (po_state plan)) 1)) (\<lambda>revision.
     and_then (ok_or GrantChangesGenerationExhausted (checked_add (es_capability_generation (po_state plan)) 1))
       (\<lambda>capability_generation_after.
     and_then (fold_result (finalize_change X plan plan_digest operation_confirmation applied_at_ms)
       (confirmation_map, [], []) (wc_changes self)) (\<lambda>(confirmation_map, grants, revocations).
     if confirmation_map \<noteq> [] then Inl GrantChangesConfirmationMismatch
     else
     and_then (PluginWorkspaceGrantChangeSet_descriptor_digest X self) (\<lambda>change_set_digest.
     let resolved = \<lparr>rc_operation_id = po_operation_id plan, rc_plan_digest = plan_digest,
           rc_change_set_digest = change_set_digest, rc_scope_id = wc_scope_id self,
           rc_state_revision_before = es_state_revision (po_state plan), rc_revision = revision,
           rc_capability_generation_before = es_capability_generation (po_state plan),
           rc_capability_generation_after = capability_generation_after,
           rc_before_snapshot_digest = wc_before_snapshot_digest self, rc_transitioned_at_ms = applied_at_ms,
           rc_revocation_authority = revocation_authority, rc_grants = grants, rc_revocations = revocations\<rparr> in
     and_then (ResolvedWorkspaceGrantChangeSet_validate X resolved) (\<lambda>_. Inr resolved)))))))))))"

section \<open>Host-configured endpoints\<close>

definition McpEndpointGrantContract_validate :: "McpEndpointGrantContract \<Rightarrow> unit use_result" where
  "McpEndpointGrantContract_validate self =
     (if me_schema self \<noteq> MCP_ENDPOINT_GRANT_SCHEMA
         \<or> me_transport self \<noteq> MCP_ENDPOINT_GRANT_TRANSPORT
         \<or> me_allowed_hosts self = []
         \<or> length (me_allowed_hosts self) > MAX_ALLOWED_HOSTS
         \<or> \<not> strictly_sorted_unique (me_allowed_hosts self)
         \<or> (\<exists>host \<in> set (me_allowed_hosts self). \<not> valid_dns_name host \<or> CHR ''*'' \<in> set host)
      then Inl McpEndpointGrantInvalid else Inr ())"

definition McpEndpointGrantContract_from_json ::
  "('v, 'r, 'x) grant_externals_scheme \<Rightarrow> string \<Rightarrow> McpEndpointGrantContract use_result" where
  "McpEndpointGrantContract_from_json X input =
     parse_contract (endpoint_from_json X) McpEndpointGrantInvalid McpEndpointGrantContract_validate input"

definition McpEndpointGrantContract_digest ::
  "('v, 'r, 'x) grant_externals_scheme \<Rightarrow> string \<Rightarrow> string use_result" where
  "McpEndpointGrantContract_digest X bytes =
     and_then (McpEndpointGrantContract_from_json X bytes) (\<lambda>contract.
     and_then (McpEndpointGrantContract_validate contract) (\<lambda>_.
     let digest = canonical_digest X bytes in
     if \<not> valid_sha256 digest then Inl McpEndpointGrantInvalid else Inr digest))"

text \<open>\<open>trim_end_matches('.')\<close> drops the trailing dots.\<close>

definition trim_end_dots :: "string \<Rightarrow> string" where
  "trim_end_dots s = rev (dropWhile (\<lambda>c. c = CHR ''.'') (rev s))"

definition McpEndpointGrantContract_allows_host :: "McpEndpointGrantContract \<Rightarrow> string \<Rightarrow> bool" where
  "McpEndpointGrantContract_allows_host self host =
     (let host = to_ascii_lowercase (trim_end_dots (trim host)) in
      \<exists>allowed \<in> set (me_allowed_hosts self). allowed = host)"

section \<open>Lemmas: one grant\<close>

lemma grant_validate_against_facts:
  assumes "PluginWorkspaceGrant_validate_active_against X g ceiling now = Inr ()"
  shows "PluginPermissionCeiling_is_within (gr_permissions g) ceiling = Inr True"
    and "PluginWorkspaceGrant_validate X g = Inr ()"
    and "gr_granted_at_ms g \<le> now" "gr_expires_at_ms g = Some expires \<Longrightarrow> now < expires"
  using assms
  unfolding PluginWorkspaceGrant_validate_active_against_def PluginWorkspaceGrant_validate_against_def
    PluginWorkspaceGrant_validate_at_def and_then_Inr if_Inl_Inr
  by (auto simp: not_less not_le)

lemma grant_secrets_confirmed:
  assumes "PluginWorkspaceGrant_validate X g = Inr ()" and "requests_secrets (gr_permissions g)"
  shows "ga_actor (gr_authority g) = UserActor" "ga_decision (gr_authority g) = Ask"
  using assms unfolding PluginWorkspaceGrant_validate_def and_then_Inr if_Inl_Inr by auto

lemma finalize_facts:
  assumes "PluginWorkspaceGrantProposal_finalize X p ceiling plan_digest conf now = Inr g"
  obtains effect where "PluginWorkspaceGrantProposal_validate_against X p ceiling = Inr ()"
    "grant_effect X p plan_digest conf now = Inr effect" "g = granted_by p effect"
    "PluginWorkspaceGrant_validate_active_against X g ceiling now = Inr ()"
  using assms unfolding PluginWorkspaceGrantProposal_finalize_def and_then_Inr if_Inl_Inr Let_def by auto

lemma granted_by_simps [simp]:
  "gr_package_id (granted_by p effect) = gp_package_id p" "gr_package_digest (granted_by p effect) = gp_package_digest p"
  "gr_permissions (granted_by p effect) = gp_permissions p" "gr_scope_id (granted_by p effect) = gp_scope_id p"
  "ga_actor (gr_authority (granted_by p effect)) = pa_actor (gp_authority p)"
  "ga_decision (gr_authority (granted_by p effect)) = pa_decision (gp_authority p)"
  "gr_expires_at_ms (granted_by p effect) = gp_grant_expires_at_ms p"
  by (simp_all add: granted_by_def)

lemma grant_effect_ask:
  assumes "grant_effect X p plan_digest conf now = Inr effect" and "pa_decision (gp_authority p) = Ask"
  obtains c where "conf = Some c" "PluginGrantConfirmation_validate c = Inr ()"
    "PluginWorkspaceGrantProposal_descriptor_digest X p = Inr (gc_proposal_digest c)" "gc_plan_digest c = plan_digest"
    "gc_operation_id c = gp_operation_id p" "gc_confirmed_at_ms c \<le> now"
  using assms unfolding grant_effect_def
  by (auto simp: and_then_Inr ok_or_Inr grant_confirmation_binds_def not_less split: if_splits)

section \<open>Lemmas: change sets\<close>

definition change_ok ::
  "('v, 'r, 'x) permission_externals_scheme \<Rightarrow> PluginWorkspaceGrantChangeSet \<Rightarrow> PlannedWorkspaceGrantChange \<Rightarrow> bool" where
  "change_ok X cs c \<longleftrightarrow> PlannedWorkspaceGrantChange_validate X c (wc_operation_id cs) (wc_scope_id cs) = Inr ()"

lemma change_fold:
  "fold_result (\<lambda>has_before change. and_then (PlannedWorkspaceGrantChange_validate X change op scope) (\<lambda>_.
      Inr (has_before \<or> wg_before change \<noteq> None))) b cs = Inr b' \<longleftrightarrow>
    (\<forall>c \<in> set cs. PlannedWorkspaceGrantChange_validate X c op scope = Inr ()) \<and>
    (b' \<longleftrightarrow> b \<or> (\<exists>c \<in> set cs. wg_before c \<noteq> None))"
  by (induction cs arbitrary: b) (auto simp: and_then_Inr)

lemma change_set_facts:
  assumes "PluginWorkspaceGrantChangeSet_validate X cs = Inr ()"
  shows "sorted_wrt (<) (map wg_package_id (wc_changes cs))" "c \<in> set (wc_changes cs) \<Longrightarrow> change_ok X cs c"
    and "wc_changes cs \<noteq> []"
    and "c \<in> set (wc_changes cs) \<Longrightarrow> wg_before c \<noteq> None \<Longrightarrow> wc_before_snapshot_digest cs \<noteq> None"
  using assms unfolding PluginWorkspaceGrantChangeSet_validate_def and_then_Inr if_Inl_Inr change_fold change_ok_def
  by auto

lemma change_ok_facts:
  assumes "change_ok X cs c"
  shows "wg_before c = Some e \<Longrightarrow> we_package_id e = wg_package_id c"
    and "wg_after c = Some p \<Longrightarrow> gp_package_id p = wg_package_id c \<and> gp_operation_id p = wc_operation_id cs \<and>
      gp_scope_id p = wc_scope_id cs \<and> PluginWorkspaceGrantProposal_validate X p = Inr ()"
  using assms unfolding change_ok_def PlannedWorkspaceGrantChange_validate_def if_Inl_Inr by (auto simp: is_ok_iff)

lemma expected_enablement_impact:
  assumes "PluginOperationPlan_validate X p = Inr ()" and "i \<in> set (po_workspace_impacts p)"
  shows "(wi_enabled_before i, wi_enabled_after i) = expected_enablement (po_action p)"
  using assms by (auto simp: plan_validate_iff validate_impacts_iff impacts_listed_def workspace_impact_invalid_def)

definition needs_before :: "PluginOperationPlan \<Rightarrow> PlannedPackageTransition \<Rightarrow> bool" where
  "needs_before p t \<longleftrightarrow> grant_before_required (po_action p) t (fst (expected_enablement (po_action p)))"

definition needs_after :: "PluginOperationPlan \<Rightarrow> PlannedPackageTransition \<Rightarrow> bool" where
  "needs_after p t \<longleftrightarrow> grant_after_required (po_action p) t (snd (expected_enablement (po_action p)))"

lemma against_plan_facts:
  assumes "PluginWorkspaceGrantChangeSet_validate_against_plan X cs p before = Inr ()"
  obtains impact digest where "PluginWorkspaceGrantChangeSet_validate X cs = Inr ()" "PluginOperationPlan_validate X p = Inr ()"
    "impact \<in> set (po_workspace_impacts p)" "wi_scope_id impact = wc_scope_id cs"
    "wi_grant_before_digest impact = wc_before_snapshot_digest cs" "wi_grant_after_digest impact = Some digest"
    "wg_package_id ` set (wc_changes cs) = pt_package_id ` {t \<in> set (po_packages p). needs_before p t \<or> needs_after p t}"
    "\<And>c. c \<in> set (wc_changes cs) \<Longrightarrow> \<exists>t \<in> set (po_packages p). pt_package_id t = wg_package_id c \<and>
       validate_change_against_plan X p t c before (fst (expected_enablement (po_action p)))
         (snd (expected_enablement (po_action p))) = Inr ()"
proof -
  let ?packages = "bt_collect (map (\<lambda>package. (pt_package_id package, package)) (po_packages p))"
  let ?changes = "bt_collect (map (\<lambda>change. (wg_package_id change, change)) (wc_changes cs))"
  note parts = assms [unfolded PluginWorkspaceGrantChangeSet_validate_against_plan_def and_then_Inr if_Inl_Inr Let_def
      ok_or_Inr for_each_Inr de_Morgan_disj not_not]
  from parts have cs: "PluginWorkspaceGrantChangeSet_validate X cs = Inr ()" by (elim exE conjE) simp
  from parts have p: "PluginOperationPlan_validate X p = Inr ()" by (elim exE conjE) simp
  from parts obtain impact digest where find: "List.find (\<lambda>i. wi_scope_id i = wc_scope_id cs) (po_workspace_impacts p) = Some impact"
    and digests: "wi_grant_before_digest impact = wc_before_snapshot_digest cs" "wi_grant_after_digest impact = Some digest"
    and keys: "bs_collect (bt_keys ?changes) = expected_changes p (wi_enabled_before impact) (wi_enabled_after impact)"
    and each: "\<forall>x \<in> set ?changes. (case x of (i, change) \<Rightarrow> and_then (ok_or GrantChangesPlanMismatch (bt_get ?packages i))
       (\<lambda>package. validate_change_against_plan X p package change before (wi_enabled_before impact) (wi_enabled_after impact))) = Inr ()"
    by (elim exE conjE) (rule that; assumption)
  from find have impact: "impact \<in> set (po_workspace_impacts p)" "wi_scope_id impact = wc_scope_id cs"
    by (auto simp: find_Some_iff in_set_conv_nth)
  have enabled: "wi_enabled_before impact = fst (expected_enablement (po_action p))"
    "wi_enabled_after impact = snd (expected_enablement (po_action p))"
    using expected_enablement_impact [OF p impact(1)] by (metis fst_conv snd_conv)+
  have changes: "?changes = map (\<lambda>change. (wg_package_id change, change)) (wc_changes cs)"
    using change_set_facts(1) [OF cs] by (intro bt_collect_sorted) (simp add: comp_def)
  have "wg_package_id ` set (wc_changes cs) = set (bs_collect (bt_keys ?changes))" by (simp add: image_image)
  also have "\<dots> = pt_package_id ` {t \<in> set (po_packages p). needs_before p t \<or> needs_after p t}"
    unfolding keys enabled expected_changes_def needs_before_def needs_after_def by simp
  finally have ids: "wg_package_id ` set (wc_changes cs) = \<dots>" .
  have "\<exists>t \<in> set (po_packages p). pt_package_id t = wg_package_id c \<and>
       validate_change_against_plan X p t c before (fst (expected_enablement (po_action p)))
         (snd (expected_enablement (po_action p))) = Inr ()" if "c \<in> set (wc_changes cs)" for c
  proof -
    have "(wg_package_id c, c) \<in> set ?changes" unfolding changes using that by simp
    with each obtain t where "bt_get ?packages (wg_package_id c) = Some t"
      "validate_change_against_plan X p t c before (wi_enabled_before impact) (wi_enabled_after impact) = Inr ()"
      by (fastforce simp: and_then_Inr ok_or_Inr)
    moreover have "bt_get ?packages i = Some t \<longleftrightarrow> t \<in> set (po_packages p) \<and> pt_package_id t = i" for i t
      using transition_index_get [OF p] unfolding transition_index_def .
    ultimately show ?thesis unfolding enabled by blast
  qed
  with that [OF cs p impact digests ids] show ?thesis by blast
qed

lemma validate_change_facts:
  assumes "validate_change_against_plan X p t c before eb ea = Inr ()"
  shows "wg_before c \<noteq> None \<longleftrightarrow> grant_before_required (po_action p) t eb"
    and "wg_after c \<noteq> None \<longleftrightarrow> grant_after_required (po_action p) t ea"
    and "wg_before c = Some e \<Longrightarrow> \<exists>snapshot. before = Some snapshot \<and> e \<in> set (gs_grants snapshot)"
    and "wg_after c = Some q \<Longrightarrow> \<exists>st. pt_after t = Some st \<and> proposal_matches_plan p st q"
proof -
  note parts = assms [unfolded validate_change_against_plan_def if_Inl_Inr and_then_Inr de_Morgan_disj not_not]
  from parts show "wg_before c \<noteq> None \<longleftrightarrow> grant_before_required (po_action p) t eb"
    "wg_after c \<noteq> None \<longleftrightarrow> grant_after_required (po_action p) t ea" by (elim exE conjE; simp)+
  show "\<exists>snapshot. before = Some snapshot \<and> e \<in> set (gs_grants snapshot)" if "wg_before c = Some e"
    using parts that by (auto simp: and_then_Inr ok_or_Inr is_some_and_iff split: if_splits)
  show "\<exists>st. pt_after t = Some st \<and> proposal_matches_plan p st q" if "wg_after c = Some q"
    using parts that by (auto simp: and_then_Inr ok_or_Inr split: if_splits)
qed

text \<open>The grant a change with a proposal resolves to.\<close>

definition resolves_change ::
  "('v, 'r, 'x) grant_externals_scheme \<Rightarrow> PluginOperationPlan \<Rightarrow> string \<Rightarrow> u64 \<Rightarrow> PlannedWorkspaceGrantChange
     \<Rightarrow> ResolvedWorkspaceGrant \<Rightarrow> bool" where
  "resolves_change X p plan_digest now c g \<longleftrightarrow>
     (\<exists>q st conf. wg_after c = Some q \<and> package_after p (wg_package_id c) = Inr st \<and>
        PluginWorkspaceGrantProposal_descriptor_digest X q = Inr (rg_proposal_digest g) \<and>
        PluginWorkspaceGrantProposal_finalize X q (ps_permissions st) plan_digest conf now = Inr (rg_grant g))"

lemma finalize_proposal_result:
  assumes "finalize_proposal X p pd oc now k q state = Inr state'"
  obtains g st conf where "fst (snd state') = fst (snd state) @ [g]" "snd (snd state') = snd (snd state)"
    "package_after p k = Inr st" "PluginWorkspaceGrantProposal_descriptor_digest X q = Inr (rg_proposal_digest g)"
    "PluginWorkspaceGrantProposal_finalize X q (ps_permissions st) pd conf now = Inr (rg_grant g)"
proof -
  from assms obtain d st g where "PluginWorkspaceGrantProposal_descriptor_digest X q = Inr d" "package_after p k = Inr st"
    "PluginWorkspaceGrantProposal_finalize X q (ps_permissions st) pd (bt_get (fst state) d) now = Inr g"
    "state' = (bt_remove d (fst state), fst (snd state) @ [\<lparr>rg_proposal_digest = d, rg_grant = g\<rparr>], snd (snd state))"
    unfolding finalize_proposal_def Let_def and_then_Inr if_Inl_Inr sum.inject by blast
  then show ?thesis by (intro that [of "\<lparr>rg_proposal_digest = d, rg_grant = g\<rparr>" st "bt_get (fst state) d"]) simp_all
qed

lemma finalize_change_result:
  assumes "finalize_change X p pd oc now (m, gs, rs) c = Inr (m', gs', rs')"
  shows "rs' = rs @ (case wg_before c of None \<Rightarrow> [] | Some e \<Rightarrow> [e])"
    and "wg_after c = None \<Longrightarrow> gs' = gs"
    and "wg_after c \<noteq> None \<Longrightarrow> \<exists>g. gs' = gs @ [g] \<and> resolves_change X p pd now c g"
proof -
  from assms obtain state where after: "(case wg_after c of None \<Rightarrow> Inr (m, gs, rs)
      | Some q \<Rightarrow> finalize_proposal X p pd oc now (wg_package_id c) q (m, gs, rs)) = Inr state"
    and state: "gs' = fst (snd state)" "rs' = snd (snd state) @ (case wg_before c of None \<Rightarrow> [] | Some e \<Rightarrow> [e])"
    unfolding finalize_change_def and_then_Inr by (cases "wg_before c") auto
  have "snd (snd state) = rs \<and> (wg_after c = None \<longrightarrow> gs' = gs) \<and>
      (wg_after c \<noteq> None \<longrightarrow> (\<exists>g. gs' = gs @ [g] \<and> resolves_change X p pd now c g))"
  proof (cases "wg_after c")
    case (Some q)
    with after have "finalize_proposal X p pd oc now (wg_package_id c) q (m, gs, rs) = Inr state" by simp
    then show ?thesis
      by (rule finalize_proposal_result) (use Some state(1) in \<open>auto simp: resolves_change_def\<close>)
  qed (use after state(1) in auto)
  with state(2) show "rs' = rs @ (case wg_before c of None \<Rightarrow> [] | Some e \<Rightarrow> [e])"
    "wg_after c = None \<Longrightarrow> gs' = gs"
    "wg_after c \<noteq> None \<Longrightarrow> \<exists>g. gs' = gs @ [g] \<and> resolves_change X p pd now c g" by auto
qed

lemma finalize_changes_result:
  assumes "fold_result (finalize_change X p pd oc now) (m, gs, rs) cs = Inr (m', gs', rs')"
  shows "rs' = rs @ List.map_filter wg_before cs \<and>
    (\<exists>new. gs' = gs @ new \<and> list_all2 (resolves_change X p pd now) (filter (\<lambda>c. wg_after c \<noteq> None) cs) new)"
  using assms
proof (induction cs arbitrary: m gs rs)
  case (Cons c cs)
  then obtain m1 gs1 rs1 where one: "finalize_change X p pd oc now (m, gs, rs) c = Inr (m1, gs1, rs1)"
    and rest: "fold_result (finalize_change X p pd oc now) (m1, gs1, rs1) cs = Inr (m', gs', rs')"
    by (auto simp: and_then_Inr)
  note step = finalize_change_result [OF one] and IH = Cons.IH [OF rest]
  from IH obtain new where new: "gs' = gs1 @ new"
    "list_all2 (resolves_change X p pd now) (filter (\<lambda>c. wg_after c \<noteq> None) cs) new" by blast
  have "\<exists>new. gs' = gs @ new \<and> list_all2 (resolves_change X p pd now) (filter (\<lambda>c. wg_after c \<noteq> None) (c # cs)) new"
  proof (cases "wg_after c = None")
    case True
    with new step(2) show ?thesis by simp
  next
    case False
    with step(3) obtain g where "gs1 = gs @ [g]" "resolves_change X p pd now c g" by blast
    with new False show ?thesis by (intro exI [of _ "g # new"]) simp
  qed
  with IH step(1) show ?case by (simp add: List.map_filter_simps split: option.splits)
qed (simp add: List.map_filter_simps)

lemma list_all2_set:
  assumes "list_all2 P xs ys"
  shows "y \<in> set ys \<Longrightarrow> \<exists>x \<in> set xs. P x y" and "x \<in> set xs \<Longrightarrow> \<exists>y \<in> set ys. P x y"
  using assms by (induction rule: list_all2_induct) auto

text \<open>The changes and the packages that need one correspond to each other by identity.\<close>

definition change_matches :: "PluginOperationPlan \<Rightarrow> PlannedWorkspaceGrantChange \<Rightarrow> PlannedPackageTransition \<Rightarrow> bool" where
  "change_matches p c t \<longleftrightarrow> pt_package_id t = wg_package_id c \<and> (wg_before c \<noteq> None \<longleftrightarrow> needs_before p t) \<and>
     (wg_after c \<noteq> None \<longleftrightarrow> needs_after p t)"

lemma changes_match:
  assumes "PluginWorkspaceGrantChangeSet_validate_against_plan X cs p before = Inr ()"
  shows "c \<in> set (wc_changes cs) \<Longrightarrow> \<exists>t \<in> set (po_packages p). change_matches p c t"
    and "t \<in> set (po_packages p) \<Longrightarrow> needs_before p t \<or> needs_after p t \<Longrightarrow>
      \<exists>c \<in> set (wc_changes cs). change_matches p c t"
    and "c \<in> set (wc_changes cs) \<Longrightarrow> wg_before c = Some e \<Longrightarrow>
      we_package_id e = wg_package_id c \<and> (\<exists>snapshot. before = Some snapshot \<and> e \<in> set (gs_grants snapshot))"
    and "c \<in> set (wc_changes cs) \<Longrightarrow> wg_after c = Some q \<Longrightarrow> gp_package_id q = wg_package_id c"
proof -
  from assms obtain impact digest where cs: "PluginWorkspaceGrantChangeSet_validate X cs = Inr ()"
    and plan: "PluginOperationPlan_validate X p = Inr ()"
    and ids: "wg_package_id ` set (wc_changes cs) = pt_package_id ` {t \<in> set (po_packages p). needs_before p t \<or> needs_after p t}"
    and each: "\<And>c. c \<in> set (wc_changes cs) \<Longrightarrow> \<exists>t \<in> set (po_packages p). pt_package_id t = wg_package_id c \<and>
       validate_change_against_plan X p t c before (fst (expected_enablement (po_action p)))
         (snd (expected_enablement (po_action p))) = Inr ()"
    by (rule against_plan_facts) blast
  have inj: "inj_on pt_package_id (set (po_packages p))"
    using sorted_less_distinct [OF plan_ids_sorted [OF plan]] unfolding distinct_map by blast
  show match: "\<exists>t \<in> set (po_packages p). change_matches p c t" if "c \<in> set (wc_changes cs)" for c
    using each [OF that] validate_change_facts(1,2) unfolding change_matches_def needs_before_def needs_after_def by metis
  show "\<exists>c \<in> set (wc_changes cs). change_matches p c t"
    if t: "t \<in> set (po_packages p)" "needs_before p t \<or> needs_after p t" for t
  proof -
    have "pt_package_id t \<in> wg_package_id ` set (wc_changes cs)" unfolding ids using t by blast
    then obtain c where c: "c \<in> set (wc_changes cs)" "wg_package_id c = pt_package_id t" by auto
    from match [OF c(1)] obtain u where u: "u \<in> set (po_packages p)" "change_matches p c u" by blast
    have "u = t" using inj u t(1) c(2) by (auto simp: change_matches_def dest: inj_onD)
    with u(2) c(1) show ?thesis by blast
  qed
  show "we_package_id e = wg_package_id c \<and> (\<exists>snapshot. before = Some snapshot \<and> e \<in> set (gs_grants snapshot))"
    if "c \<in> set (wc_changes cs)" "wg_before c = Some e"
    using each [OF that(1)] validate_change_facts(3) [OF _ that(2)] change_ok_facts(1) [OF change_set_facts(2) [OF cs that(1)] that(2)]
    by blast
  show "gp_package_id q = wg_package_id c" if "c \<in> set (wc_changes cs)" "wg_after c = Some q"
    using change_ok_facts(2) [OF change_set_facts(2) [OF cs that(1)] that(2)] by blast
qed

lemma finalize_plan_parts:
  assumes "PluginWorkspaceGrantChangeSet_finalize_against_plan X cs p before oc confs now = Inr r"
  obtains pd rev gen m x where "PluginWorkspaceGrantChangeSet_validate_against_plan X cs p before = Inr ()"
    "checked_add (es_state_revision (po_state p)) 1 = Some rev" "rc_revision r = rev"
    "checked_add (es_capability_generation (po_state p)) 1 = Some gen" "rc_capability_generation_after r = gen"
    "fold_result (finalize_change X p pd oc now) (m, [], []) (wc_changes cs) = Inr (fst x, fst (snd x), snd (snd x))"
    "rc_grants r = fst (snd x)" "rc_revocations r = snd (snd x)"
  using assms
  unfolding PluginWorkspaceGrantChangeSet_finalize_against_plan_def and_then_Inr Let_def ok_or_Inr case_prod_unfold
    if_Inl_Inr sum.inject prod.collapse
  by (elim exE conjE, hypsubst, intro that) (assumption | simp)+

text \<open>A resolved change grants its own package no more than the plan's state of that package.\<close>

lemma resolved_change_facts:
  assumes "PluginWorkspaceGrantChangeSet_validate_against_plan X cs p before = Inr ()"
    and "c \<in> set (wc_changes cs)" and "resolves_change X p pd now c g"
  shows "gr_package_id (rg_grant g) = wg_package_id c"
    and "\<exists>st. package_after p (wg_package_id c) = Inr st \<and>
      PluginPermissionCeiling_is_within (gr_permissions (rg_grant g)) (ps_permissions st) = Inr True"
proof -
  from assms(3) obtain q st conf where q: "wg_after c = Some q" and st: "package_after p (wg_package_id c) = Inr st"
    and fin: "PluginWorkspaceGrantProposal_finalize X q (ps_permissions st) pd conf now = Inr (rg_grant g)"
    unfolding resolves_change_def by (elim exE conjE) (rule that; assumption)
  from fin obtain effect where grant: "rg_grant g = granted_by q effect"
    and active: "PluginWorkspaceGrant_validate_active_against X (rg_grant g) (ps_permissions st) now = Inr ()"
    by (rule finalize_facts)
  show "gr_package_id (rg_grant g) = wg_package_id c"
    unfolding grant granted_by_simps by (rule changes_match(4) [OF assms(1,2) q])
  show "\<exists>st. package_after p (wg_package_id c) = Inr st \<and>
      PluginPermissionCeiling_is_within (gr_permissions (rg_grant g)) (ps_permissions st) = Inr True"
    using st grant_validate_against_facts(1) [OF active] by (intro exI conjI)
qed

lemma resolved_grants:
  assumes against: "PluginWorkspaceGrantChangeSet_validate_against_plan X cs p before = Inr ()"
    and granted: "list_all2 (resolves_change X p pd now) (filter (\<lambda>c. wg_after c \<noteq> None) (wc_changes cs)) gs"
  shows "(\<lambda>g. gr_package_id (rg_grant g)) ` set gs = pt_package_id ` {t \<in> set (po_packages p). needs_after p t}"
    and "g \<in> set gs \<Longrightarrow> \<exists>st. package_after p (gr_package_id (rg_grant g)) = Inr st \<and>
      PluginPermissionCeiling_is_within (gr_permissions (rg_grant g)) (ps_permissions st) = Inr True"
proof -
  have from_change: "\<exists>c \<in> set (wc_changes cs). wg_after c \<noteq> None \<and> resolves_change X p pd now c g"
    if "g \<in> set gs" for g using list_all2_set(1) [OF granted that] by auto
  have to_grant: "\<exists>g \<in> set gs. resolves_change X p pd now c g"
    if "c \<in> set (wc_changes cs)" "wg_after c \<noteq> None" for c using list_all2_set(2) [OF granted, of c] that by simp
  show "\<exists>st. package_after p (gr_package_id (rg_grant g)) = Inr st \<and>
      PluginPermissionCeiling_is_within (gr_permissions (rg_grant g)) (ps_permissions st) = Inr True" if g: "g \<in> set gs"
  proof -
    from from_change [OF g] obtain c where c: "c \<in> set (wc_changes cs)" "resolves_change X p pd now c g" by blast
    show ?thesis unfolding resolved_change_facts(1) [OF against c] by (rule resolved_change_facts(2) [OF against c])
  qed
  show "(\<lambda>g. gr_package_id (rg_grant g)) ` set gs = pt_package_id ` {t \<in> set (po_packages p). needs_after p t}"
  proof (intro equalityI subsetI; elim imageE CollectE conjE)
    fix k g assume k: "k = gr_package_id (rg_grant g)" and g: "g \<in> set gs"
    from from_change [OF g] obtain c where c: "c \<in> set (wc_changes cs)" "wg_after c \<noteq> None" "resolves_change X p pd now c g"
      by blast
    from changes_match(1) [OF against c(1)] c(2) obtain t where "t \<in> set (po_packages p)" "needs_after p t"
      "pt_package_id t = wg_package_id c" unfolding change_matches_def by blast
    then show "k \<in> pt_package_id ` {t \<in> set (po_packages p). needs_after p t}"
      unfolding k resolved_change_facts(1) [OF against c(1,3)] by force
  next
    fix k t assume t: "k = pt_package_id t" "t \<in> set (po_packages p)" "needs_after p t"
    then obtain c where c: "c \<in> set (wc_changes cs)" "wg_after c \<noteq> None" "wg_package_id c = k"
      using changes_match(2) [OF against t(2)] unfolding change_matches_def by auto
    from to_grant [OF c(1,2)] obtain g where g: "g \<in> set gs" "resolves_change X p pd now c g" by blast
    from resolved_change_facts(1) [OF against c(1) g(2)] c(3) have "k = gr_package_id (rg_grant g)" by simp
    then show "k \<in> (\<lambda>g. gr_package_id (rg_grant g)) ` set gs" using g(1) by blast
  qed
qed

lemma resolved_revocations:
  assumes against: "PluginWorkspaceGrantChangeSet_validate_against_plan X cs p before = Inr ()"
  shows "we_package_id ` set (List.map_filter wg_before (wc_changes cs)) = pt_package_id ` {t \<in> set (po_packages p). needs_before p t}"
    and "e \<in> set (List.map_filter wg_before (wc_changes cs)) \<Longrightarrow>
      \<exists>snapshot. before = Some snapshot \<and> e \<in> set (gs_grants snapshot)"
proof -
  show "\<exists>snapshot. before = Some snapshot \<and> e \<in> set (gs_grants snapshot)"
    if "e \<in> set (List.map_filter wg_before (wc_changes cs))"
    using that changes_match(3) [OF against] unfolding set_map_filter by blast
  show "we_package_id ` set (List.map_filter wg_before (wc_changes cs)) = pt_package_id ` {t \<in> set (po_packages p). needs_before p t}"
  proof (intro equalityI subsetI; elim imageE CollectE conjE)
    fix k e assume k: "k = we_package_id e" and "e \<in> set (List.map_filter wg_before (wc_changes cs))"
    then obtain c where c: "c \<in> set (wc_changes cs)" "wg_before c = Some e" unfolding set_map_filter by blast
    from changes_match(1) [OF against c(1)] c(2) obtain t where "t \<in> set (po_packages p)" "needs_before p t"
      "pt_package_id t = wg_package_id c" unfolding change_matches_def by auto
    then show "k \<in> pt_package_id ` {t \<in> set (po_packages p). needs_before p t}"
      using changes_match(3) [OF against c] unfolding k by force
  next
    fix k t assume t: "k = pt_package_id t" "t \<in> set (po_packages p)" "needs_before p t"
    then obtain c e where c: "c \<in> set (wc_changes cs)" "wg_before c = Some e" "wg_package_id c = k"
      using changes_match(2) [OF against t(2)] unfolding change_matches_def by auto
    with changes_match(3) [OF against c(1,2)] have "k = we_package_id e" by simp
    then show "k \<in> we_package_id ` set (List.map_filter wg_before (wc_changes cs))"
      using c(1,2) by (intro image_eqI [of _ _ e]) (auto simp: set_map_filter)
  qed
qed

section \<open>Properties\<close>

text \<open>
  C39: a finalized grant never widens authority: its permissions are the proposed ones and within the
  signed ceiling, it is active when it is applied, and where the policy asks, and always when it hands out secrets,
  a user has confirmed exactly this proposal for exactly this plan.
\<close>

theorem grant_finalize_attenuates:
  assumes "PluginWorkspaceGrantProposal_finalize X p ceiling plan_digest conf now = Inr g"
  shows "gr_permissions g = gp_permissions p \<and>
    PluginPermissionCeiling_is_within (gr_permissions g) ceiling = Inr True \<and>
    gr_granted_at_ms g \<le> now \<and> (\<forall>expires. gr_expires_at_ms g = Some expires \<longrightarrow> now < expires) \<and>
    (requests_secrets (gr_permissions g) \<longrightarrow> ga_decision (gr_authority g) = Ask) \<and>
    (ga_decision (gr_authority g) = Ask \<longrightarrow>
       (\<exists>c. conf = Some c \<and> gc_confirmed_by c = UserActor \<and> gc_plan_digest c = plan_digest \<and>
          PluginWorkspaceGrantProposal_descriptor_digest X p = Inr (gc_proposal_digest c) \<and> gc_confirmed_at_ms c \<le> now))"
  using assms
proof (cases rule: finalize_facts)
  case (1 effect)
  note active = grant_validate_against_facts [OF 1(4)]
  have "\<exists>c. conf = Some c \<and> gc_confirmed_by c = UserActor \<and> gc_plan_digest c = plan_digest \<and>
      PluginWorkspaceGrantProposal_descriptor_digest X p = Inr (gc_proposal_digest c) \<and> gc_confirmed_at_ms c \<le> now"
    if "ga_decision (gr_authority g) = Ask"
  proof -
    from that have "pa_decision (gp_authority p) = Ask" by (simp add: 1(3))
    from grant_effect_ask [OF 1(2) this] obtain c where c: "conf = Some c" "PluginGrantConfirmation_validate c = Inr ()"
      "PluginWorkspaceGrantProposal_descriptor_digest X p = Inr (gc_proposal_digest c)" "gc_plan_digest c = plan_digest"
      "gc_confirmed_at_ms c \<le> now" by blast
    from c(2) have "gc_confirmed_by c = UserActor" by (auto simp: PluginGrantConfirmation_validate_def split: if_splits)
    with c show ?thesis by blast
  qed
  moreover have "gr_permissions g = gp_permissions p" by (simp add: 1(3))
  moreover note active(1,3,4) grant_secrets_confirmed(2) [OF active(2)]
  ultimately show ?thesis by blast
qed

text \<open>
  C40: finalizing a change set for a plan grants and revokes exactly what the plan requires: the packages
  that get a grant are those the operation activates with permissions, the revoked ones those it retires
  with permissions, every revocation is evidence of the prior snapshot, every grant stays within the planned
  permissions of its package, and the state revision and the capability generation grow by exactly one.
\<close>

theorem finalized_grants_exact:
  assumes "PluginWorkspaceGrantChangeSet_finalize_against_plan X cs p before oc confs now = Inr r"
  shows "(\<lambda>g. gr_package_id (rg_grant g)) ` set (rc_grants r) = pt_package_id ` {t \<in> set (po_packages p). needs_after p t} \<and>
    we_package_id ` set (rc_revocations r) = pt_package_id ` {t \<in> set (po_packages p). needs_before p t} \<and>
    (\<forall>e \<in> set (rc_revocations r). \<exists>snapshot. before = Some snapshot \<and> e \<in> set (gs_grants snapshot)) \<and>
    (\<forall>g \<in> set (rc_grants r). \<exists>st. package_after p (gr_package_id (rg_grant g)) = Inr st \<and>
       PluginPermissionCeiling_is_within (gr_permissions (rg_grant g)) (ps_permissions st) = Inr True) \<and>
    unat (rc_revision r) = unat (es_state_revision (po_state p)) + 1 \<and>
    unat (rc_capability_generation_after r) = unat (es_capability_generation (po_state p)) + 1"
proof -
  from assms obtain pd rev gen m gs where
    against: "PluginWorkspaceGrantChangeSet_validate_against_plan X cs p before = Inr ()"
    and rev: "checked_add (es_state_revision (po_state p)) 1 = Some rev" "rc_revision r = rev"
    and gen: "checked_add (es_capability_generation (po_state p)) 1 = Some gen" "rc_capability_generation_after r = gen"
    and fold: "fold_result (finalize_change X p pd oc now) (m, [], []) (wc_changes cs) = Inr (fst gs, fst (snd gs), snd (snd gs))"
    and r: "rc_grants r = fst (snd gs)" "rc_revocations r = snd (snd gs)"
    by (rule finalize_plan_parts)
  from finalize_changes_result [OF fold] have revoked: "rc_revocations r = List.map_filter wg_before (wc_changes cs)"
    and granted: "list_all2 (resolves_change X p pd now) (filter (\<lambda>c. wg_after c \<noteq> None) (wc_changes cs)) (rc_grants r)"
    unfolding r by auto
  show ?thesis unfolding revoked
    using resolved_grants [OF against granted] resolved_revocations [OF against]
      checked_add_Some [OF rev(1)] checked_add_Some [OF gen(1)]
    by (simp add: rev(2) gen(2))
qed

section \<open>Witnesses\<close>

text \<open>The tool plan of the plan witnesses moved to a workspace, with the grant it requires.\<close>

definition witness_grant_externals :: "(string, string) grant_externals" where
  "witness_grant_externals =
     witness_externals_with (lock_externals_ext (\<lambda>_. Some ''l'') (plan_externals_ext (\<lambda>_. Some ''p'') (\<lambda>_. None)
       (binding_externals_ext (\<lambda>_. None) (\<lambda>_. Some ''f'') (\<lambda>_. None) (\<lambda>_. None) (\<lambda>_. None)
         (grant_externals_ext (\<lambda>_. Some ''g'') (\<lambda>_. None) (\<lambda>_. Some ''q'') (\<lambda>_. None) (\<lambda>_. Some ''k'') (\<lambda>_. None)
            (\<lambda>_. Some ''n'') (\<lambda>_. None) (\<lambda>_. Some ''d'') (\<lambda>_. None) (\<lambda>_. None) ()))))"

definition witness_proposal :: PluginWorkspaceGrantProposal where
  "witness_proposal =
     \<lparr>gp_schema = PLUGIN_WORKSPACE_GRANT_PROPOSAL_SCHEMA, gp_operation_id = ''op1'', gp_scope_id = ''w'',
      gp_package_id = ''acme/a'', gp_package_digest = zero_digest, gp_permission_ceiling_digest = zero_digest,
      gp_permissions_digest = zero_digest, gp_permissions = cr_permission_ceiling (vr_record witness_secret_tool),
      gp_authority = \<lparr>pa_actor = UserActor, pa_decision = Ask, pa_policy_digest = zero_digest\<rparr>,
      gp_created_at_ms = 5, gp_apply_expires_at_ms = 9, gp_grant_expires_at_ms = Some 100\<rparr>"

definition witness_grant_confirmation :: PluginGrantConfirmation where
  "witness_grant_confirmation =
     \<lparr>gc_schema = PLUGIN_GRANT_CONFIRMATION_SCHEMA, gc_operation_id = ''op1'', gc_plan_digest = zero_digest,
      gc_proposal_digest = zero_digest, gc_confirmed_by = UserActor, gc_confirmed_at_ms = 6\<rparr>"

definition witness_change_set :: PluginWorkspaceGrantChangeSet where
  "witness_change_set =
     \<lparr>wc_schema = PLUGIN_WORKSPACE_GRANT_CHANGE_SET_SCHEMA, wc_operation_id = ''op1'', wc_scope_id = ''w'',
      wc_state_revision = 1, wc_before_snapshot_digest = None,
      wc_changes = [\<lparr>wg_package_id = ''acme/a'', wg_before = None, wg_after = Some witness_proposal\<rparr>]\<rparr>"

definition witness_workspace_plan :: PluginOperationPlan where
  "witness_workspace_plan = witness_tool_plan
     \<lparr>po_scope := \<lparr>inst_kind = Workspace, inst_id = ''w''\<rparr>,
      po_workspace_impacts := [\<lparr>wi_scope_id = ''w'', wi_grant_before_digest = None,
        wi_grant_after_digest = Some zero_digest, wi_enabled_before = False, wi_enabled_after = True\<rparr>]\<rparr>"

lemma witness_grant_identities:
  "valid_sha256 zero_digest" "validate_grant_identity ''w'' ''acme/a'' = Inr ()" "validate_grant_scope_id ''w'' = Inr ()"
  "valid_machine_id ''op1''" "valid_package_id ''acme/a''"
  by code_simp+

lemma witness_proposal_facts:
  "PluginPermissionCeiling_validate (gp_permissions witness_proposal) = Inr ()"
  "PluginPermissionCeiling_is_within (gp_permissions witness_proposal) (gp_permissions witness_proposal) = Inr True"
  "PluginPermissionCeiling_descriptor_digest witness_grant_externals (gp_permissions witness_proposal) = Inr zero_digest"
  "pc_surfaces (gp_permissions witness_proposal) \<noteq> []"
  by code_simp+

lemma witness_proposal_valid:
  "PluginWorkspaceGrantProposal_validate witness_grant_externals witness_proposal = Inr ()"
  using witness_proposal_facts witness_grant_identities
  by (simp add: PluginWorkspaceGrantProposal_validate_def)
    (simp add: witness_proposal_def WorkspaceGrantProposalAuthority_validate_def MAX_PLAN_LIFETIME_MS_def)

lemma witness_proposal_digest:
  "PluginWorkspaceGrantProposal_descriptor_digest witness_grant_externals witness_proposal = Inr zero_digest"
  unfolding PluginWorkspaceGrantProposal_descriptor_digest_def PluginWorkspaceGrantProposal_canonical_bytes_def witness_proposal_valid
  by code_simp

lemma witness_proposal_against:
  "PluginWorkspaceGrantProposal_validate_against witness_grant_externals witness_proposal (gp_permissions witness_proposal) = Inr ()"
  using witness_proposal_valid witness_proposal_facts
  by (simp add: PluginWorkspaceGrantProposal_validate_against_def) (simp add: witness_proposal_def)

lemma witness_granted_valid:
  "PluginWorkspaceGrant_validate_active_against witness_grant_externals (granted_by witness_proposal (6, Some zero_digest))
     (gp_permissions witness_proposal) 7 = Inr ()"
proof -
  have "PluginWorkspaceGrant_validate witness_grant_externals (granted_by witness_proposal (6, Some zero_digest)) = Inr ()"
    using witness_proposal_facts(1,3,4) witness_grant_identities
    by (simp add: PluginWorkspaceGrant_validate_def)
      (simp add: witness_proposal_def WorkspaceGrantAuthority_validate_def granted_by_def)
  with witness_proposal_facts(1-3) show ?thesis
    by (simp add: PluginWorkspaceGrant_validate_active_against_def PluginWorkspaceGrant_validate_against_def
        PluginWorkspaceGrant_validate_at_def) (simp add: witness_proposal_def granted_by_def)
qed

lemma witness_finalized:
  "PluginWorkspaceGrantProposal_finalize witness_grant_externals witness_proposal (gp_permissions witness_proposal)
     zero_digest (Some witness_grant_confirmation) 7 = Inr (granted_by witness_proposal (6, Some zero_digest))"
proof -
  have "PluginGrantConfirmation_validate witness_grant_confirmation = Inr ()"
    "PluginGrantConfirmation_descriptor_digest witness_grant_externals witness_grant_confirmation = Inr zero_digest"
    "grant_confirmation_binds witness_proposal zero_digest zero_digest 7 witness_grant_confirmation" by code_simp+
  then have "grant_effect witness_grant_externals witness_proposal zero_digest (Some witness_grant_confirmation) 7 =
      Inr (6, Some zero_digest)"
    using witness_proposal_digest
    by (simp add: grant_effect_def) (simp add: witness_proposal_def witness_grant_confirmation_def)
  with witness_proposal_against witness_granted_valid witness_grant_identities(1) show ?thesis
    by (simp add: PluginWorkspaceGrantProposal_finalize_def) (simp add: witness_proposal_def)
qed

lemma witness_change_set_valid:
  "PluginWorkspaceGrantChangeSet_validate witness_grant_externals witness_change_set = Inr ()"
  using witness_proposal_valid witness_grant_identities
  by (simp add: PluginWorkspaceGrantChangeSet_validate_def witness_change_set_def PlannedWorkspaceGrantChange_validate_def
     MAX_PLUGIN_PLAN_ITEMS_def) (simp add: witness_proposal_def)

lemma witness_change_set_digest:
  "PluginWorkspaceGrantChangeSet_descriptor_digest witness_grant_externals witness_change_set = Inr zero_digest"
  unfolding PluginWorkspaceGrantChangeSet_descriptor_digest_def PluginWorkspaceGrantChangeSet_canonical_bytes_def witness_change_set_valid
  by code_simp

lemma witness_workspace_plan_valid: "PluginOperationPlan_validate witness_grant_externals witness_workspace_plan = Inr ()"
  by code_simp

lemma witness_workspace_plan_digest: "PluginOperationPlan_descriptor_digest witness_grant_externals witness_workspace_plan = Inr zero_digest"
  unfolding PluginOperationPlan_descriptor_digest_def PluginOperationPlan_canonical_bytes_def witness_workspace_plan_valid
  by code_simp

lemma witness_workspace_plan_simps:
  "po_operation_id witness_workspace_plan = ''op1''" "po_created_at_ms witness_workspace_plan = 5"
  "po_expires_at_ms witness_workspace_plan = 9" "po_action witness_workspace_plan = Install"
  "po_authority witness_workspace_plan = \<lparr>au_actor = UserActor, au_decision = Ask, au_policy_digest = zero_digest,
        au_confirmation_required = True\<rparr>"
  "po_state witness_workspace_plan = \<lparr>es_state_revision = 1, es_capability_generation = 1, es_receipt_digest = None\<rparr>"
  "po_packages witness_workspace_plan = [witness_add Root witness_secret_tool]"
  "po_workspace_impacts witness_workspace_plan = [\<lparr>wi_scope_id = ''w'', wi_grant_before_digest = None,
        wi_grant_after_digest = Some zero_digest, wi_enabled_before = False, wi_enabled_after = True\<rparr>]"
  by (simp_all add: witness_workspace_plan_def witness_tool_plan_def witness_plan_def)

lemma witness_tool_after:
  "cr_package_id (vr_record witness_secret_tool) = ''acme/a''"
  "pt_package_id (witness_add Root witness_secret_tool) = ''acme/a''"
  "pt_after (witness_add Root witness_secret_tool) = Some (witness_state witness_secret_tool)"
  "pt_before (witness_add Root witness_secret_tool) = None"
  "ps_permissions (witness_state witness_secret_tool) = gp_permissions witness_proposal"
  by (simp_all add: witness_add_def witness_state_def witness_proposal_def witness_secret_tool_def witness_tool_record_def witness_record_def)

lemma witness_change_valid:
 "PluginWorkspaceGrantChangeSet_validate_against_plan witness_grant_externals witness_change_set witness_workspace_plan None = Inr ()"
proof -
  have "proposal_matches_plan witness_workspace_plan (witness_state witness_secret_tool) witness_proposal"
    by (simp add: proposal_matches_plan_def witness_workspace_plan_simps) (simp add: witness_proposal_def witness_state_def)
  then have "validate_change_against_plan witness_grant_externals witness_workspace_plan (witness_add Root witness_secret_tool)
    \<lparr>wg_package_id = ''acme/a'', wg_before = None, wg_after = Some witness_proposal\<rparr> None False True = Inr ()"
    using witness_proposal_against witness_proposal_facts(4)
    by (simp add: validate_change_against_plan_def witness_workspace_plan_simps witness_tool_after grant_before_required_def grant_after_required_def has_grant_permissions_def)
  then show ?thesis
    using witness_change_set_valid witness_workspace_plan_valid witness_change_set_digest witness_proposal_facts(4)
    by (simp add: PluginWorkspaceGrantChangeSet_validate_against_plan_def witness_workspace_plan_simps)
    (simp add: witness_change_set_def validate_snapshot_def expected_changes_def witness_workspace_plan_simps bt_collect_def
      grant_after_required_def grant_before_required_def has_grant_permissions_def witness_tool_after bs_collect_def bt_get_def)
qed


lemma witness_resolved:
  "\<exists>r. PluginWorkspaceGrantChangeSet_finalize_against_plan witness_grant_externals witness_change_set
     witness_workspace_plan None (Some witness_confirmation) [witness_grant_confirmation] 7 = Inr r"
proof -
  let ?g = "\<lparr>rg_proposal_digest = zero_digest, rg_grant = granted_by witness_proposal (6, Some zero_digest)\<rparr>"
  have valid: "PluginOperationConfirmation_validate witness_confirmation = Inr ()"
    "PluginOperationConfirmation_descriptor_digest witness_grant_externals witness_confirmation = Inr zero_digest" by code_simp+
  have "confirmation_binds witness_workspace_plan zero_digest 7 witness_confirmation"
    by (simp add: confirmation_binds_def witness_workspace_plan_simps) (simp add: witness_confirmation_def)
  then have apply_ok: "verify_plan_confirmed_apply witness_grant_externals witness_workspace_plan zero_digest ''op1'' zero_digest (Some witness_confirmation) 7 = Inr ()"
    using witness_workspace_plan_valid witness_workspace_plan_digest valid
    by (simp add: verify_plan_confirmed_apply_def verify_plan_apply_def witness_workspace_plan_simps)
  have collected: "collect_confirmations [witness_grant_confirmation] = Inr [(zero_digest, witness_grant_confirmation)]"
    by code_simp
  have "fold_result (finalize_change witness_grant_externals witness_workspace_plan zero_digest (Some witness_confirmation) 7)
    ([(zero_digest, witness_grant_confirmation)], [], []) (wc_changes witness_change_set) = Inr ([], [?g], [])"
    using witness_finalized
    by (simp add: witness_change_set_def finalize_change_def finalize_proposal_def witness_proposal_digest bt_get_def
      package_after_def witness_workspace_plan_simps witness_tool_after Let_def)
       (simp add: witness_confirmation_def witness_grant_confirmation_def)
  moreover have "WorkspaceGrantAuthority_validate \<lparr>ga_actor = UserActor, ga_decision = Ask, ga_policy_digest = zero_digest, ga_confirmation_digest = Some zero_digest\<rparr> = Inr ()"
    using witness_grant_identities(1) by (simp add: WorkspaceGrantAuthority_validate_def)
  moreover have "PluginWorkspaceGrant_validate_at witness_grant_externals (granted_by witness_proposal (6, Some zero_digest)) 7 = Inr ()"
    using witness_granted_valid by (simp add: PluginWorkspaceGrant_validate_active_against_def and_then_Inr)
  ultimately show ?thesis
    using witness_change_valid witness_workspace_plan_digest apply_ok collected valid witness_change_set_digest witness_grant_identities
    by (simp add: PluginWorkspaceGrantChangeSet_finalize_against_plan_def witness_workspace_plan_simps confirmation_digest_of_def Let_def
      checked_add_def ResolvedWorkspaceGrantChangeSet_validate_def resolved_header_valid_def MAX_PLUGIN_PLAN_ITEMS_def)
     (simp add: witness_change_set_def witness_proposal_def)
qed

theorem grant_finalize_attenuates_witness:
  "PluginPermissionCeiling_is_within (gp_permissions witness_proposal) (gp_permissions witness_proposal) = Inr True"
  using grant_finalize_attenuates [OF witness_finalized] by simp

theorem finalized_grants_exact_witness:
  "\<exists>r. PluginWorkspaceGrantChangeSet_finalize_against_plan witness_grant_externals witness_change_set
     witness_workspace_plan None (Some witness_confirmation) [witness_grant_confirmation] 7 = Inr r \<and>
     unat (rc_revision r) = 2"
proof -
  from witness_resolved obtain r where r: "PluginWorkspaceGrantChangeSet_finalize_against_plan witness_grant_externals
     witness_change_set witness_workspace_plan None (Some witness_confirmation) [witness_grant_confirmation] 7 = Inr r" ..
  from finalized_grants_exact [OF r] r show ?thesis by (auto simp: witness_workspace_plan_simps)
qed

end
