(* ===== verification/Control_Effect.thy ===== *)
theory Control_Effect
  imports Lifecycle Grant Installation_Snapshot
begin

text \<open>
  The effects of the control store, \<open>src/control_store/model/effect.rs\<close>, \<open>effect_application.rs\<close>,
  \<open>effect_state.rs\<close>, \<open>provider.rs\<close>, and the catalog binding of \<open>capability_publication.rs\<close>: the intents that a
  committed transition leaves in the outbox, the evidence an owner returns, and the claim and
  observation requests. The serde encodings are arguments in \<open>control_externals\<close>.

  \<open>valid_sha256\<close> and \<open>valid_machine_id\<close> of \<open>src/control_store/model.rs\<close> repeat those of the core crate
  and are not defined twice.
\<close>

section \<open>Data\<close>

datatype ControlEffectKind = SurfacePrepare | CapabilityCutover | CallsDrain | SurfaceStop | SurfaceRemoval

primrec ControlEffectKind_as_str :: "ControlEffectKind \<Rightarrow> string" where
  "ControlEffectKind_as_str SurfacePrepare = ''surface-prepare''"
| "ControlEffectKind_as_str CapabilityCutover = ''capability-cutover''"
| "ControlEffectKind_as_str CallsDrain = ''calls-drain''"
| "ControlEffectKind_as_str SurfaceStop = ''surface-stop''"
| "ControlEffectKind_as_str SurfaceRemoval = ''surface-remove''"

datatype ControlEffectOwner =
    CapabilityIndex
  | InvocationLeases
  | RuntimeProvider (ow_provider_id: string) (ow_selection_digest: string)
  | FlowHost
  | KnowledgeHost
  | SkillHost
  | UiHost

datatype ControlEffectSubject =
    InstallationSubject (su_expected_capability_generation: u64) (su_capability_generation: u64)
      (su_descriptor_digest: string)
  | PackageSubject (su_package_id: string) (su_lifecycle_generation: u64) (su_package_digest: string)
      (su_manifest_digest: string) (su_action: PluginLifecycleAction)
  | SurfaceSubject (su_package_id: string) (su_lifecycle_generation: u64) (su_package_digest: string)
      (su_manifest_digest: string) (su_action: PluginLifecycleAction) (su_surface: PluginSurfaceRef)

record ControlEffectIntent =
  ei_schema :: string
  ei_sequence :: u32
  ei_idempotency_key :: string
  ei_installation :: InstallationId
  ei_plan_digest :: string
  ei_operation_action :: PluginOperationAction
  ei_installation_generation :: u64
  ei_subject :: ControlEffectSubject
  ei_owner :: ControlEffectOwner
  ei_kind :: ControlEffectKind
  ei_required :: bool

text \<open>\<open>ControlEffectIdentity\<close>: the intent without its key.\<close>

record ControlEffectIdentity =
  en_schema :: string
  en_sequence :: u32
  en_installation :: InstallationId
  en_plan_digest :: string
  en_operation_action :: PluginOperationAction
  en_installation_generation :: u64
  en_subject :: ControlEffectSubject
  en_owner :: ControlEffectOwner
  en_kind :: ControlEffectKind
  en_required :: bool

record ControlPackageLifecycle =
  cl_package_id :: string
  cl_lifecycle_generation :: u64

record ControlCapabilitySelection =
  cc_generation :: u64
  cc_descriptor_digest :: string

record ControlProviderSelection =
  cv_evidence :: PlannedProviderEvidence
  cv_selection_digest :: string

record ControlCapabilityCatalogBinding =
  cb_schema :: string
  cb_installation :: InstallationId
  cb_generation :: u64
  cb_digest :: string
  cb_revision :: string

record ControlRuntimeSchemaAttestation =
  sa_schema :: string
  sa_descriptor_digest :: string
  sa_input_schema_digest :: string
  sa_output_schema_digest :: string

datatype ControlSurfaceObservationState = ObservedPrepared | ObservedStopped | ObservedRemoved

datatype ControlRuntimeBindingObservation = TaskBinding | ServiceBinding string string

datatype ControlAppliedEffectEvidence =
    CapabilityIndexEvidence u64 string ControlCapabilityCatalogBinding string
  | InvocationLeasesEvidence string u64 string
  | RuntimeProviderEvidence ControlSurfaceObservationState string string string
      "ControlRuntimeBindingObservation option" "ControlRuntimeSchemaAttestation option"
  | FlowHostEvidence ControlSurfaceObservationState string "string option"
  | KnowledgeHostEvidence ControlSurfaceObservationState string "string option"
  | SkillHostEvidence ControlSurfaceObservationState string "string option"
  | UiHostEvidence ControlSurfaceObservationState string "string option"

record ControlAppliedEffect =
  ae_schema :: string
  ae_idempotency_key :: string
  ae_evidence :: ControlAppliedEffectEvidence

datatype ControlEffectStatus =
  EffectPending | EffectClaimed | EffectDeferred | EffectApplied | EffectRejected | EffectUnknown

datatype ControlEffectOutcome = OutcomeApplied | OutcomeDeferred | OutcomeRejected | OutcomeUnknown

primrec ControlEffectOutcome_status :: "ControlEffectOutcome \<Rightarrow> ControlEffectStatus" where
  "ControlEffectOutcome_status OutcomeApplied = EffectApplied"
| "ControlEffectOutcome_status OutcomeDeferred = EffectDeferred"
| "ControlEffectOutcome_status OutcomeRejected = EffectRejected"
| "ControlEffectOutcome_status OutcomeUnknown = EffectUnknown"

record ControlEffectRecord =
  er_operation_id :: string
  er_intent :: ControlEffectIntent
  er_payload_digest :: string
  er_status :: ControlEffectStatus
  er_attempt :: u32
  er_claim_owner :: "string option"
  er_claim_token :: "string option"
  er_lease_until_ms :: "u64 option"
  er_application :: "ControlAppliedEffect option"
  er_evidence_digest :: "string option"
  er_error_code :: "string option"
  er_observed_at_ms :: "u64 option"
  er_retry_not_before_ms :: "u64 option"

record ControlEffectClaim =
  ec_operation_id :: string
  ec_worker_id :: string
  ec_claim_token :: string
  ec_now_ms :: u64
  ec_lease_until_ms :: u64
  ec_explicit_reconciliation :: bool

record ControlEffectObservation =
  eo_operation_id :: string
  eo_idempotency_key :: string
  eo_claim_token :: string
  eo_outcome :: ControlEffectOutcome
  eo_application :: "ControlAppliedEffect option"
  eo_failure_evidence_digest :: "string option"
  eo_error_code :: "string option"
  eo_observed_at_ms :: u64
  eo_retry_not_before_ms :: "u64 option"

record ('v, 'r) effect_externals = "('v, 'r) grant_externals" +
  effect_intent_json :: "ControlEffectIntent \<Rightarrow> string option"
  effect_identity_json :: "ControlEffectIdentity \<Rightarrow> string option"
  applied_effect_json :: "ControlAppliedEffect \<Rightarrow> string option"
  provider_selection_json :: "string \<times> PlannedProviderEvidence \<Rightarrow> string option"

definition CONTROL_EFFECT_INTENT_SCHEMA :: string where
  "CONTROL_EFFECT_INTENT_SCHEMA = ''a3s.use.control-effect-intent.v1''"

definition MAX_CONTROL_EFFECT_PAYLOAD_BYTES :: nat where
  "MAX_CONTROL_EFFECT_PAYLOAD_BYTES = 64 * 1024"

definition MAX_CONTROL_EFFECT_PAYLOAD_TOTAL_BYTES :: nat where
  "MAX_CONTROL_EFFECT_PAYLOAD_TOTAL_BYTES = 16 * 1024 * 1024"

definition CONTROL_APPLIED_EFFECT_SCHEMA :: string where
  "CONTROL_APPLIED_EFFECT_SCHEMA = ''a3s.use.control-applied-effect.v2''"

definition MAX_CONTROL_APPLIED_EFFECT_BYTES :: nat where
  "MAX_CONTROL_APPLIED_EFFECT_BYTES = 64 * 1024"

definition CONTROL_RUNTIME_SCHEMA_ATTESTATION_SCHEMA :: string where
  "CONTROL_RUNTIME_SCHEMA_ATTESTATION_SCHEMA = ''a3s.use.control-runtime-schema-attestation.v1''"

definition CONTROL_CAPABILITY_CATALOG_BINDING_SCHEMA :: string where
  "CONTROL_CAPABILITY_CATALOG_BINDING_SCHEMA = ''a3s.use.control-capability-catalog-binding.v1''"

definition MAX_CONTROL_PROVIDER_SELECTIONS :: nat where
  "MAX_CONTROL_PROVIDER_SELECTIONS = 4096"

definition MAX_CONTROL_PROVIDER_SELECTION_BYTES :: nat where
  "MAX_CONTROL_PROVIDER_SELECTION_BYTES = 16 * 1024"

definition CONTROL_PROVIDER_SELECTION_SCHEMA :: string where
  "CONTROL_PROVIDER_SELECTION_SCHEMA = ''a3s.use.control-provider-selection.v1''"

definition MAX_EFFECT_LEASE_MS :: u64 where
  "MAX_EFFECT_LEASE_MS = 5 * 60 * 1000"

definition MAX_EFFECT_DEFERRAL_MS :: u64 where
  "MAX_EFFECT_DEFERRAL_MS = 5 * 60 * 1000"

section \<open>Providers\<close>

definition valid_error_code :: "string \<Rightarrow> bool" where
  "valid_error_code value =
     (value \<noteq> [] \<and> length value \<le> 128 \<and> first_byte is_ascii_lowercase value \<and>
      (\<forall>c \<in> set value. is_ascii_lowercase c \<or> is_ascii_digit c \<or> c \<in> set ''._-''))"

text \<open>Canonical bytes with an explicit bound; the encoders of the store reject the empty encoding as well.\<close>

definition bounded_bytes :: "nat \<Rightarrow> use_error \<Rightarrow> ('a \<Rightarrow> string option) \<Rightarrow> 'a \<Rightarrow> string use_result" where
  "bounded_bytes max_bytes err encode value =
     and_then (ok_or err (encode value)) (\<lambda>bytes.
       if bytes = [] \<or> length bytes > max_bytes then Inl err else Inr bytes)"

definition provider_selection_digest ::
  "('v, 'r, 'x) effect_externals_scheme \<Rightarrow> PlannedProviderEvidence \<Rightarrow> string use_result" where
  "provider_selection_digest X evidence =
     and_then (bounded_bytes MAX_CONTROL_PROVIDER_SELECTION_BYTES RuntimeProviderSelectionInvalid
       (provider_selection_json X) (CONTROL_PROVIDER_SELECTION_SCHEMA, evidence))
       (\<lambda>bytes. Inr (canonical_digest X bytes))"

definition provider_evidence_digest ::
  "('v, 'r, 'x) effect_externals_scheme \<Rightarrow> PlannedProviderEvidence \<Rightarrow> string use_result" where
  "provider_evidence_digest X evidence = map_err (\<lambda>_. ControlInputInvalid) (provider_selection_digest X evidence)"

definition ControlProviderSelection_qualified_surface :: "ControlProviderSelection \<Rightarrow> PlanQualifiedSurfaceRef" where
  "ControlProviderSelection_qualified_surface self = pv_surface (cv_evidence self)"

definition ControlProviderSelection_package_id :: "ControlProviderSelection \<Rightarrow> string" where
  "ControlProviderSelection_package_id self = qs_package_id (pv_surface (cv_evidence self))"

definition ControlProviderSelection_surface :: "ControlProviderSelection \<Rightarrow> PluginSurfaceRef" where
  "ControlProviderSelection_surface self = qs_surface (pv_surface (cv_evidence self))"

definition is_runtime_kind :: "PluginSurfaceKind \<Rightarrow> bool" where
  "is_runtime_kind kind = (kind = KTool \<or> kind = KMcp)"

definition ControlProviderSelection_validate ::
  "('v, 'r, 'x) effect_externals_scheme \<Rightarrow> ControlProviderSelection \<Rightarrow> unit use_result" where
  "ControlProviderSelection_validate X self =
     (if \<not> valid_machine_id (ControlProviderSelection_package_id self)
         \<or> \<not> is_runtime_kind (sr_kind (ControlProviderSelection_surface self))
         \<or> \<not> valid_machine_id (sr_id (ControlProviderSelection_surface self))
         \<or> \<not> valid_machine_id (pv_provider_id (cv_evidence self))
         \<or> \<not> valid_machine_id (pv_provider_build_id (cv_evidence self))
         \<or> \<not> valid_sha256 (pv_capability_digest (cv_evidence self))
         \<or> \<not> valid_sha256 (pv_semantics_profile_digest (cv_evidence self))
         \<or> \<not> valid_sha256 (cv_selection_digest self)
      then Inl ControlInputInvalid
      else
      and_then (provider_evidence_digest X (cv_evidence self)) (\<lambda>digest.
      if digest \<noteq> cv_selection_digest self then Inl ControlInputInvalid else Inr ()))"

definition ControlProviderSelection_from_evidence ::
  "('v, 'r, 'x) effect_externals_scheme \<Rightarrow> PlannedProviderEvidence \<Rightarrow> ControlProviderSelection use_result" where
  "ControlProviderSelection_from_evidence X evidence =
     and_then (provider_evidence_digest X evidence) (\<lambda>selection_digest.
     let selection = \<lparr>cv_evidence = evidence, cv_selection_digest = selection_digest\<rparr> in
     and_then (ControlProviderSelection_validate X selection) (\<lambda>_. Inr selection))"

definition required_providers :: "InstallationSnapshot \<Rightarrow> PlanQualifiedSurfaceRef btree_set" where
  "required_providers snapshot =
     bs_collect (concat (map (\<lambda>package.
       map (QualifiedSurface (InstallationPackageSelection_package_id package))
         (filter (\<lambda>surface. is_runtime_kind (sr_kind surface)) (ip_selected_surfaces package)))
       (filter ip_enabled (is_packages snapshot))))"

definition validate_provider_selections ::
  "('v, 'r, 'x) effect_externals_scheme \<Rightarrow> ControlProviderSelection list \<Rightarrow> InstallationSnapshot \<Rightarrow> unit use_result" where
  "validate_provider_selections X selections snapshot =
     (let required = required_providers snapshot;
          selected = bs_collect (map ControlProviderSelection_qualified_surface selections) in
      if length selections > MAX_CONTROL_PROVIDER_SELECTIONS
         \<or> windows2_any (\<lambda>a b. ControlProviderSelection_qualified_surface a \<ge> ControlProviderSelection_qualified_surface b)
             selections
         \<or> (\<exists>selection \<in> set selections. \<not> is_ok (ControlProviderSelection_validate X selection))
         \<or> selected \<noteq> required
      then Inl ControlInputInvalid else Inr ())"

section \<open>Intents\<close>

definition package_action_matches_kind :: "PluginLifecycleAction \<Rightarrow> ControlEffectKind \<Rightarrow> bool" where
  "package_action_matches_kind action kind = (kind = CallsDrain \<and> action \<in> {LDisable, LUninstall})"

definition surface_action_matches_kind :: "PluginLifecycleAction \<Rightarrow> ControlEffectKind \<Rightarrow> bool" where
  "surface_action_matches_kind action kind =
     (action \<in> {LInstall, LUpgrade, LEnable} \<and> kind = SurfacePrepare
      \<or> action = LDisable \<and> kind = SurfaceStop
      \<or> action = LUninstall \<and> kind = SurfaceRemoval)"

definition effect_kind_matches_operation :: "ControlEffectKind \<Rightarrow> PluginOperationAction \<Rightarrow> bool" where
  "effect_kind_matches_operation kind action =
     (case kind of
        SurfacePrepare \<Rightarrow> action \<in> {Install, Upgrade, Enable}
      | CapabilityCutover \<Rightarrow> True
      | CallsDrain \<Rightarrow> action \<in> {Upgrade, Disable, Uninstall}
      | SurfaceRemoval \<Rightarrow> action \<in> {Upgrade, Uninstall}
      | SurfaceStop \<Rightarrow> action = Disable)"

definition ControlEffectOwner_validate_shape ::
  "ControlEffectOwner \<Rightarrow> ControlEffectSubject \<Rightarrow> ControlEffectKind \<Rightarrow> bool" where
  "ControlEffectOwner_validate_shape self subject kind =
     (case self of
        CapabilityIndex \<Rightarrow>
          (case subject of InstallationSubject _ _ _ \<Rightarrow> kind = CapabilityCutover | _ \<Rightarrow> False)
      | InvocationLeases \<Rightarrow>
          (case subject of PackageSubject _ _ _ _ _ \<Rightarrow> kind = CallsDrain | _ \<Rightarrow> False)
      | _ \<Rightarrow>
          (case subject of
             SurfaceSubject _ _ _ _ _ surface \<Rightarrow>
               kind \<in> {SurfacePrepare, SurfaceStop, SurfaceRemoval} \<and>
               (case self of
                  RuntimeProvider provider_id selection_digest \<Rightarrow>
                    is_runtime_kind (sr_kind surface) \<and> valid_machine_id provider_id \<and> valid_sha256 selection_digest
                | FlowHost \<Rightarrow> sr_kind surface = KFlow
                | KnowledgeHost \<Rightarrow> sr_kind surface = KOkf
                | SkillHost \<Rightarrow> sr_kind surface = KSkill
                | UiHost \<Rightarrow> sr_kind surface = KUi
                | _ \<Rightarrow> False)
           | _ \<Rightarrow> False))"

definition ControlEffectOwner_matches_generation ::
  "ControlEffectOwner \<Rightarrow> ControlEffectSubject \<Rightarrow> ControlEffectKind \<Rightarrow> ControlProviderSelection list \<Rightarrow> bool" where
  "ControlEffectOwner_matches_generation self subject kind providers =
     (ControlEffectOwner_validate_shape self subject kind \<and>
      (case self of
         RuntimeProvider provider_id selection_digest \<Rightarrow>
           (case subject of
              SurfaceSubject package_id _ _ _ _ surface \<Rightarrow>
                (\<exists>selection \<in> set providers. ControlProviderSelection_package_id selection = package_id
                  \<and> ControlProviderSelection_surface selection = surface
                  \<and> pv_provider_id (cv_evidence selection) = provider_id
                  \<and> cv_selection_digest selection = selection_digest)
            | _ \<Rightarrow> False)
       | _ \<Rightarrow> True))"

definition ControlEffectSubject_matches_kind :: "ControlEffectSubject \<Rightarrow> ControlEffectKind \<Rightarrow> bool" where
  "ControlEffectSubject_matches_kind self kind =
     (case self of
        InstallationSubject _ _ _ \<Rightarrow> kind = CapabilityCutover
      | PackageSubject _ _ _ _ action \<Rightarrow> package_action_matches_kind action kind
      | SurfaceSubject _ _ _ _ action _ \<Rightarrow> surface_action_matches_kind action kind)"

definition package_identity_valid :: "string \<Rightarrow> u64 \<Rightarrow> string \<Rightarrow> string \<Rightarrow> bool" where
  "package_identity_valid package_id lifecycle_generation package_digest manifest_digest =
     (valid_machine_id package_id \<and> lifecycle_generation > 0 \<and> valid_sha256 package_digest \<and> valid_sha256 manifest_digest)"

definition ControlEffectSubject_validate_identity :: "ControlEffectSubject \<Rightarrow> bool" where
  "ControlEffectSubject_validate_identity self =
     (case self of
        InstallationSubject expected_capability_generation capability_generation descriptor_digest \<Rightarrow>
          checked_add expected_capability_generation 1 = Some capability_generation \<and> valid_sha256 descriptor_digest
      | PackageSubject package_id lifecycle_generation package_digest manifest_digest _ \<Rightarrow>
          package_identity_valid package_id lifecycle_generation package_digest manifest_digest
      | SurfaceSubject package_id lifecycle_generation package_digest manifest_digest _ _ \<Rightarrow>
          package_identity_valid package_id lifecycle_generation package_digest manifest_digest)"

definition ControlEffectSubject_package_identity :: "ControlEffectSubject \<Rightarrow> (string \<times> u64) option" where
  "ControlEffectSubject_package_identity self =
     (case self of
        InstallationSubject _ _ _ \<Rightarrow> None
      | PackageSubject package_id lifecycle_generation _ _ _ \<Rightarrow> Some (package_id, lifecycle_generation)
      | SurfaceSubject package_id lifecycle_generation _ _ _ _ \<Rightarrow> Some (package_id, lifecycle_generation))"

definition ControlEffectSubject_surface :: "ControlEffectSubject \<Rightarrow> PluginSurfaceRef option" where
  "ControlEffectSubject_surface self =
     (case self of SurfaceSubject _ _ _ _ _ surface \<Rightarrow> Some surface | _ \<Rightarrow> None)"

definition subject_action_matches_operation ::
  "ControlEffectSubject \<Rightarrow> PluginOperationAction \<Rightarrow> bool \<Rightarrow> bool" where
  "subject_action_matches_operation subject operation_action is_target =
     (case (case subject of
              InstallationSubject _ _ _ \<Rightarrow> None
            | PackageSubject _ _ _ _ action \<Rightarrow> Some action
            | SurfaceSubject _ _ _ _ action _ \<Rightarrow> Some action) of
        None \<Rightarrow> True
      | Some action \<Rightarrow>
          (case operation_action of
             Install \<Rightarrow> is_target \<and> action = LInstall
           | Upgrade \<Rightarrow> is_target \<and> action \<in> {LInstall, LUpgrade} \<or> \<not> is_target \<and> action = LUninstall
           | Enable \<Rightarrow> is_target \<and> action = LEnable
           | Disable \<Rightarrow> \<not> is_target \<and> action = LDisable
           | Uninstall \<Rightarrow> \<not> is_target \<and> action = LUninstall))"

definition find_lifecycle :: "ControlPackageLifecycle list \<Rightarrow> string \<Rightarrow> ControlPackageLifecycle option" where
  "find_lifecycle lifecycles package_id =
     map_option (\<lambda>index. lifecycles ! index) (binary_search_by cl_package_id package_id lifecycles)"

definition incarnation_matches ::
  "InstallationSnapshot \<Rightarrow> ControlPackageLifecycle list \<Rightarrow> string \<Rightarrow> u64 \<Rightarrow> string \<Rightarrow> string \<Rightarrow> PluginSurfaceRef option \<Rightarrow> bool" where
  "incarnation_matches snapshot lifecycles package_id lifecycle_generation package_digest manifest_digest surface =
     (case InstallationSnapshot_package_selection snapshot package_id of
        None \<Rightarrow> False
      | Some package \<Rightarrow>
          is_some_and (\<lambda>lifecycle. cl_lifecycle_generation lifecycle = lifecycle_generation) (find_lifecycle lifecycles package_id)
          \<and> cp_sha256 (cr_package (vr_record (lp_catalog (ip_package package)))) = Some package_digest
          \<and> cp_manifest_sha256 (cr_package (vr_record (lp_catalog (ip_package package)))) = Some manifest_digest
          \<and> is_none_or (\<lambda>surface. surface \<in> set (ip_selected_surfaces package)) surface)"

definition ControlEffectSubject_matches_generation ::
  "ControlEffectSubject \<Rightarrow> InstallationSnapshot \<Rightarrow> ControlPackageLifecycle list \<Rightarrow> ControlCapabilitySelection \<Rightarrow> bool
     \<Rightarrow> PluginOperationAction \<Rightarrow> bool" where
  "ControlEffectSubject_matches_generation self snapshot lifecycles capability is_target operation_action =
     (subject_action_matches_operation self operation_action is_target \<and>
      (case self of
         InstallationSubject expected_capability_generation capability_generation descriptor_digest \<Rightarrow>
           is_target \<and> checked_add expected_capability_generation 1 = Some capability_generation
           \<and> cc_generation capability = capability_generation \<and> cc_descriptor_digest capability = descriptor_digest
       | PackageSubject package_id lifecycle_generation package_digest manifest_digest _ \<Rightarrow>
           incarnation_matches snapshot lifecycles package_id lifecycle_generation package_digest manifest_digest None
       | SurfaceSubject package_id lifecycle_generation package_digest manifest_digest _ surface \<Rightarrow>
           incarnation_matches snapshot lifecycles package_id lifecycle_generation package_digest manifest_digest
             (Some surface)))"

definition effect_identity :: "ControlEffectIntent \<Rightarrow> ControlEffectIdentity" where
  "effect_identity self =
     \<lparr>en_schema = ei_schema self, en_sequence = ei_sequence self, en_installation = ei_installation self,
      en_plan_digest = ei_plan_digest self, en_operation_action = ei_operation_action self,
      en_installation_generation = ei_installation_generation self, en_subject = ei_subject self,
      en_owner = ei_owner self, en_kind = ei_kind self, en_required = ei_required self\<rparr>"

definition effect_key_domain :: string where
  "effect_key_domain = ''a3s.use.control-effect-idempotency.v1'' @ [CHR 0x00]"

definition derived_idempotency_key ::
  "('v, 'r, 'x) effect_externals_scheme \<Rightarrow> ControlEffectIntent \<Rightarrow> string use_result" where
  "derived_idempotency_key X self =
     and_then (bounded_bytes MAX_CONTROL_EFFECT_PAYLOAD_BYTES ControlInputInvalid (effect_identity_json X)
       (effect_identity self)) (\<lambda>bytes. Inr (canonical_digest X (effect_key_domain @ bytes)))"

definition ControlEffectIntent_validate_binding ::
  "('v, 'r, 'x) effect_externals_scheme \<Rightarrow> ControlEffectIntent \<Rightarrow> InstallationId \<Rightarrow> string \<Rightarrow> PluginOperationAction
     \<Rightarrow> unit use_result" where
  "ControlEffectIntent_validate_binding X self installation plan_digest operation_action =
     (if ei_schema self \<noteq> CONTROL_EFFECT_INTENT_SCHEMA
         \<or> \<not> is_ok (InstallationId_validate (ei_installation self))
         \<or> ei_installation self \<noteq> installation
         \<or> \<not> valid_sha256 (ei_plan_digest self)
         \<or> ei_plan_digest self \<noteq> plan_digest
         \<or> ei_operation_action self \<noteq> operation_action
         \<or> \<not> effect_kind_matches_operation (ei_kind self) operation_action
         \<or> \<not> ControlEffectSubject_matches_kind (ei_subject self) (ei_kind self)
         \<or> \<not> ControlEffectSubject_validate_identity (ei_subject self)
         \<or> \<not> ControlEffectOwner_validate_shape (ei_owner self) (ei_subject self) (ei_kind self)
         \<or> derived_idempotency_key X self \<noteq> Inr (ei_idempotency_key self)
         \<or> ei_installation_generation self = 0
      then Inl ControlInputInvalid else Inr ())"

definition ControlEffectIntent_new ::
  "('v, 'r, 'x) effect_externals_scheme \<Rightarrow> u32 \<Rightarrow> InstallationId \<Rightarrow> string \<Rightarrow> PluginOperationAction \<Rightarrow> u64
     \<Rightarrow> ControlEffectSubject \<Rightarrow> ControlEffectOwner \<Rightarrow> ControlEffectKind \<Rightarrow> bool \<Rightarrow> ControlEffectIntent use_result" where
  "ControlEffectIntent_new X sequence installation plan_digest operation_action installation_generation subject owner kind
     required =
     (let intent = \<lparr>ei_schema = CONTROL_EFFECT_INTENT_SCHEMA, ei_sequence = sequence, ei_idempotency_key = [],
            ei_installation = installation, ei_plan_digest = plan_digest, ei_operation_action = operation_action,
            ei_installation_generation = installation_generation, ei_subject = subject, ei_owner = owner,
            ei_kind = kind, ei_required = required\<rparr> in
      and_then (derived_idempotency_key X intent) (\<lambda>key.
      let intent = intent\<lparr>ei_idempotency_key := key\<rparr> in
      and_then (ControlEffectIntent_validate_binding X intent (ei_installation intent) (ei_plan_digest intent)
        (ei_operation_action intent)) (\<lambda>_. Inr intent)))"

definition ControlEffectIntent_canonical_bytes ::
  "('v, 'r, 'x) effect_externals_scheme \<Rightarrow> ControlEffectIntent \<Rightarrow> string use_result" where
  "ControlEffectIntent_canonical_bytes X self =
     bounded_bytes MAX_CONTROL_EFFECT_PAYLOAD_BYTES ControlInputInvalid (effect_intent_json X) self"

definition ControlEffectIntent_descriptor_digest ::
  "('v, 'r, 'x) effect_externals_scheme \<Rightarrow> ControlEffectIntent \<Rightarrow> string use_result" where
  "ControlEffectIntent_descriptor_digest X self =
     and_then (ControlEffectIntent_canonical_bytes X self) (\<lambda>bytes. Inr (canonical_digest X bytes))"

section \<open>Applied evidence\<close>

definition ControlCapabilityCatalogBinding_validate :: "ControlCapabilityCatalogBinding \<Rightarrow> unit use_result" where
  "ControlCapabilityCatalogBinding_validate self =
     (if cb_schema self \<noteq> CONTROL_CAPABILITY_CATALOG_BINDING_SCHEMA
         \<or> \<not> is_ok (InstallationId_validate (cb_installation self))
         \<or> cb_generation self = 0
         \<or> \<not> valid_sha256 (cb_digest self)
         \<or> \<not> valid_sha256 (cb_revision self)
      then Inl ControlInputInvalid else Inr ())"

definition ControlCapabilityCatalogBinding_matches_generation ::
  "ControlCapabilityCatalogBinding \<Rightarrow> InstallationId \<Rightarrow> u64 \<Rightarrow> bool" where
  "ControlCapabilityCatalogBinding_matches_generation self installation generation =
     (cb_installation self = installation \<and> cb_generation self = generation)"

definition ControlRuntimeSchemaAttestation_validate :: "ControlRuntimeSchemaAttestation \<Rightarrow> unit use_result" where
  "ControlRuntimeSchemaAttestation_validate self =
     (if sa_schema self \<noteq> CONTROL_RUNTIME_SCHEMA_ATTESTATION_SCHEMA
         \<or> \<not> valid_sha256 (sa_descriptor_digest self)
         \<or> \<not> valid_sha256 (sa_input_schema_digest self)
         \<or> \<not> valid_sha256 (sa_output_schema_digest self)
      then Inl ControlInputInvalid else Inr ())"

definition ControlRuntimeSchemaAttestation_new ::
  "string \<Rightarrow> string \<Rightarrow> string \<Rightarrow> ControlRuntimeSchemaAttestation use_result" where
  "ControlRuntimeSchemaAttestation_new descriptor_digest input_schema_digest output_schema_digest =
     (let attestation = \<lparr>sa_schema = CONTROL_RUNTIME_SCHEMA_ATTESTATION_SCHEMA, sa_descriptor_digest = descriptor_digest,
            sa_input_schema_digest = input_schema_digest, sa_output_schema_digest = output_schema_digest\<rparr> in
      and_then (ControlRuntimeSchemaAttestation_validate attestation) (\<lambda>_. Inr attestation))"

definition ControlSurfaceObservationState_matches :: "ControlSurfaceObservationState \<Rightarrow> ControlEffectKind \<Rightarrow> bool" where
  "ControlSurfaceObservationState_matches self kind =
     (case self of
        ObservedPrepared \<Rightarrow> kind = SurfacePrepare
      | ObservedStopped \<Rightarrow> kind = SurfaceStop
      | ObservedRemoved \<Rightarrow> kind = SurfaceRemoval)"

text \<open>The substring test \<open>contains("//")\<close>.\<close>

definition contains_double_slash :: "string \<Rightarrow> bool" where
  "contains_double_slash value = windows2_any (\<lambda>a b. a = CHR ''/'' \<and> b = CHR ''/'') value"

definition valid_gateway_endpoint_ref :: "string \<Rightarrow> bool" where
  "valid_gateway_endpoint_ref value =
     (case strip_prefix ''gateway:'' value of
        None \<Rightarrow> False
      | Some binding_id \<Rightarrow>
          binding_id \<noteq> [] \<and> length binding_id \<le> 256
          \<and> (\<forall>c \<in> set binding_id. is_ascii_alphanumeric c \<or> c \<in> set ''-_./'')
          \<and> \<not> contains_double_slash binding_id
          \<and> \<not> (\<exists>segment \<in> set (split_on (CHR ''/'') binding_id). segment \<in> {[], ''.'', ''..''}))"

definition ControlRuntimeBindingObservation_validate :: "ControlRuntimeBindingObservation \<Rightarrow> bool" where
  "ControlRuntimeBindingObservation_validate self =
     (case self of
        TaskBinding \<Rightarrow> True
      | ServiceBinding endpoint_ref readiness_digest \<Rightarrow> valid_gateway_endpoint_ref endpoint_ref \<and> valid_sha256 readiness_digest)"

definition preparation_digest_matches :: "ControlEffectKind \<Rightarrow> string option \<Rightarrow> bool" where
  "preparation_digest_matches kind digest =
     (case kind of
        SurfacePrepare \<Rightarrow> is_some_and valid_sha256 digest
      | SurfaceStop \<Rightarrow> digest = None
      | SurfaceRemoval \<Rightarrow> digest = None
      | CapabilityCutover \<Rightarrow> False
      | CallsDrain \<Rightarrow> False)"

text \<open>The arm of the runtime provider and the common arm of the four static hosts.\<close>

definition runtime_evidence_matches ::
  "PluginSurfaceRef \<Rightarrow> ControlEffectKind \<Rightarrow> ControlRuntimeBindingObservation option
     \<Rightarrow> ControlRuntimeSchemaAttestation option \<Rightarrow> bool" where
  "runtime_evidence_matches surface kind binding schema_attestation =
     (case kind of
        SurfacePrepare \<Rightarrow>
          is_some_and ControlRuntimeBindingObservation_validate binding
          \<and> (schema_attestation = None \<or> sr_kind surface = KTool)
          \<and> is_none_or (\<lambda>attestation. is_ok (ControlRuntimeSchemaAttestation_validate attestation)) schema_attestation
      | SurfaceStop \<Rightarrow> binding = None \<and> schema_attestation = None
      | SurfaceRemoval \<Rightarrow> binding = None \<and> schema_attestation = None
      | CapabilityCutover \<Rightarrow> False
      | CallsDrain \<Rightarrow> False)"

definition host_evidence_matches ::
  "ControlEffectOwner \<Rightarrow> ControlEffectIntent \<Rightarrow> ControlSurfaceObservationState \<Rightarrow> string \<Rightarrow> string option \<Rightarrow> bool" where
  "host_evidence_matches owner intent state receipt_digest digest =
     (ei_owner intent = owner \<and> ControlEffectSubject_surface (ei_subject intent) \<noteq> None
      \<and> ControlSurfaceObservationState_matches state (ei_kind intent)
      \<and> valid_sha256 receipt_digest \<and> preparation_digest_matches (ei_kind intent) digest)"

definition ControlAppliedEffectEvidence_matches :: "ControlAppliedEffectEvidence \<Rightarrow> ControlEffectIntent \<Rightarrow> bool" where
  "ControlAppliedEffectEvidence_matches self intent =
     (case self of
        CapabilityIndexEvidence capability_generation descriptor_digest catalog receipt_digest \<Rightarrow>
          (case (ei_owner intent, ei_subject intent, ei_kind intent) of
             (CapabilityIndex, InstallationSubject _ expected_generation expected_descriptor, CapabilityCutover) \<Rightarrow>
               capability_generation = expected_generation \<and> descriptor_digest = expected_descriptor
               \<and> is_ok (ControlCapabilityCatalogBinding_validate catalog)
               \<and> ControlCapabilityCatalogBinding_matches_generation catalog (ei_installation intent) expected_generation
               \<and> valid_sha256 receipt_digest
           | _ \<Rightarrow> False)
      | InvocationLeasesEvidence package_id lifecycle_generation receipt_digest \<Rightarrow>
          (case (ei_owner intent, ei_subject intent, ei_kind intent) of
             (InvocationLeases, PackageSubject expected_package expected_generation _ _ _, CallsDrain) \<Rightarrow>
               package_id = expected_package \<and> lifecycle_generation = expected_generation \<and> valid_sha256 receipt_digest
           | _ \<Rightarrow> False)
      | RuntimeProviderEvidence state provider_id selection_digest receipt_digest binding schema_attestation \<Rightarrow>
          (case (ei_owner intent, ei_subject intent) of
             (RuntimeProvider expected_provider expected_selection, SurfaceSubject _ _ _ _ _ surface) \<Rightarrow>
               ControlSurfaceObservationState_matches state (ei_kind intent)
               \<and> provider_id = expected_provider \<and> selection_digest = expected_selection \<and> valid_sha256 receipt_digest
               \<and> runtime_evidence_matches surface (ei_kind intent) binding schema_attestation
           | _ \<Rightarrow> False)
      | FlowHostEvidence state receipt_digest digest \<Rightarrow> host_evidence_matches FlowHost intent state receipt_digest digest
      | KnowledgeHostEvidence state receipt_digest digest \<Rightarrow> host_evidence_matches KnowledgeHost intent state receipt_digest digest
      | SkillHostEvidence state receipt_digest digest \<Rightarrow> host_evidence_matches SkillHost intent state receipt_digest digest
      | UiHostEvidence state receipt_digest digest \<Rightarrow> host_evidence_matches UiHost intent state receipt_digest digest)"

definition ControlAppliedEffect_canonical_bytes ::
  "('v, 'r, 'x) effect_externals_scheme \<Rightarrow> ControlAppliedEffect \<Rightarrow> string use_result" where
  "ControlAppliedEffect_canonical_bytes X self =
     bounded_bytes MAX_CONTROL_APPLIED_EFFECT_BYTES ControlInputInvalid (applied_effect_json X) self"

definition ControlAppliedEffect_descriptor_digest ::
  "('v, 'r, 'x) effect_externals_scheme \<Rightarrow> ControlAppliedEffect \<Rightarrow> string use_result" where
  "ControlAppliedEffect_descriptor_digest X self =
     and_then (ControlAppliedEffect_canonical_bytes X self) (\<lambda>bytes. Inr (canonical_digest X bytes))"

definition ControlAppliedEffect_validate_for ::
  "('v, 'r, 'x) effect_externals_scheme \<Rightarrow> ControlAppliedEffect \<Rightarrow> ControlEffectIntent \<Rightarrow> unit use_result" where
  "ControlAppliedEffect_validate_for X self intent =
     (if ae_schema self \<noteq> CONTROL_APPLIED_EFFECT_SCHEMA
         \<or> ae_idempotency_key self \<noteq> ei_idempotency_key intent
         \<or> \<not> valid_sha256 (ae_idempotency_key self)
         \<or> \<not> ControlAppliedEffectEvidence_matches (ae_evidence self) intent
         \<or> \<not> is_ok (ControlAppliedEffect_canonical_bytes X self)
      then Inl ControlInputInvalid else Inr ())"

definition ControlAppliedEffect_new ::
  "('v, 'r, 'x) effect_externals_scheme \<Rightarrow> ControlEffectIntent \<Rightarrow> ControlAppliedEffectEvidence \<Rightarrow> ControlAppliedEffect use_result" where
  "ControlAppliedEffect_new X intent evidence =
     (let applied = \<lparr>ae_schema = CONTROL_APPLIED_EFFECT_SCHEMA, ae_idempotency_key = ei_idempotency_key intent,
            ae_evidence = evidence\<rparr> in
      and_then (ControlAppliedEffect_validate_for X applied intent) (\<lambda>_. Inr applied))"

section \<open>Claims and observations\<close>

definition ControlEffectClaim_validate :: "ControlEffectClaim \<Rightarrow> unit use_result" where
  "ControlEffectClaim_validate self =
     (if \<not> valid_machine_id (ec_operation_id self)
         \<or> \<not> valid_machine_id (ec_worker_id self)
         \<or> \<not> valid_machine_id (ec_claim_token self)
         \<or> ec_now_ms self = 0
         \<or> ec_lease_until_ms self \<le> ec_now_ms self
         \<or> ec_lease_until_ms self - ec_now_ms self > MAX_EFFECT_LEASE_MS
      then Inl ControlInputInvalid else Inr ())"

definition failure_evidence_valid :: "ControlEffectObservation \<Rightarrow> bool" where
  "failure_evidence_valid self =
     (eo_application self = None
      \<and> is_some_and valid_sha256 (eo_failure_evidence_digest self)
      \<and> is_some_and valid_error_code (eo_error_code self))"

definition evidence_matches_outcome ::
  "('v, 'r, 'x) effect_externals_scheme \<Rightarrow> ControlEffectObservation \<Rightarrow> bool" where
  "evidence_matches_outcome X self =
     (case eo_outcome self of
        OutcomeApplied \<Rightarrow>
          is_some_and (\<lambda>application. ae_schema application = CONTROL_APPLIED_EFFECT_SCHEMA
            \<and> ae_idempotency_key application = eo_idempotency_key self
            \<and> is_ok (ControlAppliedEffect_canonical_bytes X application)) (eo_application self)
          \<and> eo_failure_evidence_digest self = None \<and> eo_error_code self = None \<and> eo_retry_not_before_ms self = None
      | OutcomeDeferred \<Rightarrow>
          failure_evidence_valid self
          \<and> is_some_and (\<lambda>retry. retry > eo_observed_at_ms self \<and> retry - eo_observed_at_ms self \<le> MAX_EFFECT_DEFERRAL_MS)
              (eo_retry_not_before_ms self)
      | _ \<Rightarrow> failure_evidence_valid self \<and> eo_retry_not_before_ms self = None)"

definition ControlEffectObservation_validate ::
  "('v, 'r, 'x) effect_externals_scheme \<Rightarrow> ControlEffectObservation \<Rightarrow> unit use_result" where
  "ControlEffectObservation_validate X self =
     (if \<not> valid_machine_id (eo_operation_id self)
         \<or> \<not> valid_sha256 (eo_idempotency_key self)
         \<or> \<not> valid_machine_id (eo_claim_token self)
         \<or> eo_observed_at_ms self = 0
         \<or> \<not> evidence_matches_outcome X self
      then Inl ControlInputInvalid else Inr ())"

text \<open>The bytes of the application are what the row stores; the model stores the application itself.\<close>

definition ControlEffectObservation_evidence_for ::
  "('v, 'r, 'x) effect_externals_scheme \<Rightarrow> ControlEffectObservation \<Rightarrow> ControlEffectIntent
     \<Rightarrow> (string option \<times> string) use_result" where
  "ControlEffectObservation_evidence_for X self intent =
     and_then (ControlEffectObservation_validate X self) (\<lambda>_.
     case eo_outcome self of
       OutcomeApplied \<Rightarrow>
         and_then (ok_or ControlInputInvalid (eo_application self)) (\<lambda>application.
         and_then (ControlAppliedEffect_validate_for X application intent) (\<lambda>_.
         and_then (ControlAppliedEffect_canonical_bytes X application) (\<lambda>bytes.
         and_then (ControlAppliedEffect_descriptor_digest X application) (\<lambda>digest. Inr (Some bytes, digest)))))
     | _ \<Rightarrow> and_then (ok_or ControlInputInvalid (eo_failure_evidence_digest self)) (\<lambda>digest. Inr (None, digest)))"

end
