(* ===== verification/Control_Operation.thy ===== *)
theory Control_Operation
  imports Control_Effect
begin

text \<open>
  Reviewed operations of the control store, \<open>src/control_store/model/operation.rs\<close>, and the data and
  selection checks of \<open>src/control_store/model.rs\<close>: the authorization evidence an operation was reviewed
  with, the generations it expects and targets, and the fit of its action with two consecutive
  installation snapshots.
\<close>

section \<open>Data\<close>

datatype ControlOperationStatus = Reviewed | EffectsPending | OperationCompleted | OperationRejected | OperationCancelled

datatype ControlCapabilityStatus = Candidate | Published | Retired | Abandoned

record ControlGrantSelection =
  cg_grant :: PluginWorkspaceGrant
  cg_grant_digest :: string
  cg_receipt_revision :: u64

record ControlGrantAuthorizationEvidence =
  za_snapshot :: PluginWorkspaceGrantSnapshot
  za_change_set :: PluginWorkspaceGrantChangeSet

record ControlAuthorizationEvidence =
  az_schema :: string
  az_plan_digest :: string
  az_authority :: PlanAuthority
  az_operation_confirmation :: "PluginOperationConfirmation option"
  az_grant_transition :: "ControlGrantAuthorizationEvidence option"
  az_grant_confirmations :: "PluginGrantConfirmation list"

record ReviewedControlOperation =
  ro_envelope :: PluginOperationPlanEnvelope
  ro_authorization :: ControlAuthorizationEvidence
  ro_expected_generation :: u64
  ro_expected_capability_generation :: u64
  ro_reviewed_at_ms :: u64

record ControlOperationRecord =
  co_reviewed :: ReviewedControlOperation
  co_status :: ControlOperationStatus
  co_committed_at_ms :: "u64 option"
  co_completed_at_ms :: "u64 option"
  co_result_digest :: "string option"

record ControlGeneration =
  gn_operation_id :: string
  gn_snapshot :: InstallationSnapshot
  gn_snapshot_digest :: string
  gn_package_lifecycles :: "ControlPackageLifecycle list"
  gn_grants :: "ControlGrantSelection list"
  gn_provider_selections :: "ControlProviderSelection list"
  gn_capability :: ControlCapabilitySelection
  gn_capability_status :: ControlCapabilityStatus
  gn_capability_published_at_ms :: "u64 option"
  gn_committed_at_ms :: u64

record ControlTransition =
  tr_operation_id :: string
  tr_plan_digest :: string
  tr_snapshot :: InstallationSnapshot
  tr_package_lifecycles :: "ControlPackageLifecycle list"
  tr_grants :: "ControlGrantSelection list"
  tr_provider_selections :: "ControlProviderSelection list"
  tr_capability :: ControlCapabilitySelection
  tr_effects :: "ControlEffectIntent list"
  tr_committed_at_ms :: u64

text \<open>\<open>ControlCapabilityDescriptor\<close> with its grant and provider references.\<close>

record ControlCapabilityDescriptor =
  cd_schema :: string
  cd_installation :: InstallationId
  cd_installation_generation :: u64
  cd_capability_generation :: u64
  cd_snapshot_digest :: string
  cd_package_lifecycles :: "ControlPackageLifecycle list"
  cd_grants :: "(string \<times> string \<times> u64) list"
  cd_provider_selections :: "(PlanQualifiedSurfaceRef \<times> string) list"

record ('v, 'r) control_externals = "('v, 'r) effect_externals" +
  envelope_json :: "PluginOperationPlanEnvelope \<Rightarrow> string option"
  authorization_json :: "ControlAuthorizationEvidence \<Rightarrow> string option"
  capability_descriptor_json :: "ControlCapabilityDescriptor \<Rightarrow> string option"
  control_snapshot_codec :: snapshot_codec

definition MAX_CONTROL_EFFECTS :: nat where
  "MAX_CONTROL_EFFECTS = 4096"

definition MAX_CONTROL_GRANTS :: nat where
  "MAX_CONTROL_GRANTS = 4096"

definition MAX_CONTROL_OPERATION_PLAN_BYTES :: nat where
  "MAX_CONTROL_OPERATION_PLAN_BYTES = 16 * 1024 * 1024"

definition MAX_CONTROL_AUTHORIZATION_BYTES :: nat where
  "MAX_CONTROL_AUTHORIZATION_BYTES = 4 * 1024 * 1024"

definition CONTROL_AUTHORIZATION_EVIDENCE_SCHEMA :: string where
  "CONTROL_AUTHORIZATION_EVIDENCE_SCHEMA = ''a3s.use.control-authorization-evidence.v2''"

section \<open>Authorization evidence\<close>

definition ControlAuthorizationEvidence_canonical_bytes ::
  "('v, 'r, 'x) control_externals_scheme \<Rightarrow> ControlAuthorizationEvidence \<Rightarrow> string use_result" where
  "ControlAuthorizationEvidence_canonical_bytes X self =
     bounded_bytes MAX_CONTROL_AUTHORIZATION_BYTES ControlInputInvalid (authorization_json X) self"

definition ControlAuthorizationEvidence_descriptor_digest ::
  "('v, 'r, 'x) control_externals_scheme \<Rightarrow> ControlAuthorizationEvidence \<Rightarrow> string use_result" where
  "ControlAuthorizationEvidence_descriptor_digest X self =
     and_then (ControlAuthorizationEvidence_canonical_bytes X self) (\<lambda>bytes. Inr (canonical_digest X bytes))"

definition authorization_header_valid ::
  "ControlAuthorizationEvidence \<Rightarrow> PluginOperationPlanEnvelope \<Rightarrow> u64 \<Rightarrow> bool" where
  "authorization_header_valid self envelope reviewed_at_ms = (\<not>
     (az_schema self \<noteq> CONTROL_AUTHORIZATION_EVIDENCE_SCHEMA
      \<or> reviewed_at_ms = 0
      \<or> az_plan_digest self \<noteq> pe_plan_digest envelope
      \<or> az_authority self \<noteq> po_authority (pe_plan envelope)
      \<or> length (az_grant_confirmations self) > MAX_CONTROL_GRANTS
      \<or> windows2_any (\<lambda>a b. gc_proposal_digest a \<ge> gc_proposal_digest b) (az_grant_confirmations self)))"

definition grant_confirmation_fits ::
  "ControlAuthorizationEvidence \<Rightarrow> PluginOperationPlanEnvelope \<Rightarrow> u64 \<Rightarrow> PluginGrantConfirmation \<Rightarrow> bool" where
  "grant_confirmation_fits self envelope reviewed_at_ms confirmation = (\<not>
     (\<not> is_ok (PluginGrantConfirmation_validate confirmation)
      \<or> gc_operation_id confirmation \<noteq> po_operation_id (pe_plan envelope)
      \<or> gc_plan_digest confirmation \<noteq> pe_plan_digest envelope
      \<or> gc_confirmed_at_ms confirmation < po_created_at_ms (pe_plan envelope)
      \<or> gc_confirmed_at_ms confirmation \<ge> po_expires_at_ms (pe_plan envelope)
      \<or> gc_confirmed_at_ms confirmation > reviewed_at_ms
      \<or> (au_decision (az_authority self) = Ask
          \<and> map_option cf_confirmed_at_ms (az_operation_confirmation self) \<noteq> Some (gc_confirmed_at_ms confirmation))))"

text \<open>The final match on the grant transition and the requirement of one.\<close>

definition validate_grant_transition ::
  "('v, 'r, 'x) control_externals_scheme \<Rightarrow> ControlAuthorizationEvidence \<Rightarrow> PluginOperationPlanEnvelope \<Rightarrow> u64 \<Rightarrow> bool
     \<Rightarrow> unit use_result" where
  "validate_grant_transition X self envelope reviewed_at_ms required =
     (case (az_grant_transition self, required) of
        (None, False) \<Rightarrow> if az_grant_confirmations self = [] then Inr () else Inl ControlInputInvalid
      | (Some transition, True) \<Rightarrow>
          and_then (map_err (\<lambda>_. ControlInputInvalid) (PluginWorkspaceGrantSnapshot_validate (za_snapshot transition))) (\<lambda>_.
          if gs_scope_id (za_snapshot transition) \<noteq> inst_id (po_scope (pe_plan envelope))
             \<or> gs_state_revision (za_snapshot transition) \<noteq> es_state_revision (po_state (pe_plan envelope))
          then Inl ControlInputInvalid
          else
          and_then (map_err (\<lambda>_. ControlInputInvalid) (PluginWorkspaceGrantChangeSet_finalize_against_plan X
            (za_change_set transition) (pe_plan envelope) (Some (za_snapshot transition)) (az_operation_confirmation self)
            (az_grant_confirmations self) reviewed_at_ms)) (\<lambda>_. Inr ()))
      | _ \<Rightarrow> Inl ControlInputInvalid)"

definition ControlAuthorizationEvidence_validate ::
  "('v, 'r, 'x) control_externals_scheme \<Rightarrow> ControlAuthorizationEvidence \<Rightarrow> PluginOperationPlanEnvelope \<Rightarrow> u64
     \<Rightarrow> unit use_result" where
  "ControlAuthorizationEvidence_validate X self envelope reviewed_at_ms =
     and_then (map_err (\<lambda>_. ControlInputInvalid) (PluginOperationPlanEnvelope_validate X envelope)) (\<lambda>_.
     if \<not> authorization_header_valid self envelope reviewed_at_ms then Inl ControlInputInvalid
     else
     and_then (map_err (\<lambda>_. ControlInputInvalid) (PluginOperationPlanEnvelope_verify_confirmed_apply X envelope
       (po_operation_id (pe_plan envelope)) (pe_plan_digest envelope) (az_operation_confirmation self) reviewed_at_ms)) (\<lambda>_.
     if (\<exists>confirmation \<in> set (az_grant_confirmations self).
           \<not> grant_confirmation_fits self envelope reviewed_at_ms confirmation)
        \<or> (au_decision (az_authority self) = Allow \<and> az_grant_confirmations self \<noteq> [])
     then Inl ControlInputInvalid
     else
     and_then (map_err (\<lambda>_. ControlInputInvalid) (workspace_grant_changes_required X (pe_plan envelope))) (\<lambda>required.
     and_then (validate_grant_transition X self envelope reviewed_at_ms required) (\<lambda>_.
     and_then (ControlAuthorizationEvidence_canonical_bytes X self) (\<lambda>_. Inr ())))))"

definition ControlAuthorizationEvidence_new ::
  "('v, 'r, 'x) control_externals_scheme \<Rightarrow> PluginOperationPlanEnvelope \<Rightarrow> PluginOperationConfirmation option
     \<Rightarrow> ControlGrantAuthorizationEvidence option \<Rightarrow> PluginGrantConfirmation list \<Rightarrow> u64
     \<Rightarrow> ControlAuthorizationEvidence use_result" where
  "ControlAuthorizationEvidence_new X envelope operation_confirmation grant_transition grant_confirmations reviewed_at_ms =
     (let evidence = \<lparr>az_schema = CONTROL_AUTHORIZATION_EVIDENCE_SCHEMA, az_plan_digest = pe_plan_digest envelope,
            az_authority = po_authority (pe_plan envelope), az_operation_confirmation = operation_confirmation,
            az_grant_transition = grant_transition,
            az_grant_confirmations = sort_key gc_proposal_digest grant_confirmations\<rparr> in
      and_then (ControlAuthorizationEvidence_validate X evidence envelope reviewed_at_ms) (\<lambda>_. Inr evidence))"

section \<open>Reviewed operations\<close>

definition ReviewedControlOperation_operation_id :: "ReviewedControlOperation \<Rightarrow> string" where
  "ReviewedControlOperation_operation_id self = po_operation_id (pe_plan (ro_envelope self))"

definition ReviewedControlOperation_plan_digest :: "ReviewedControlOperation \<Rightarrow> string" where
  "ReviewedControlOperation_plan_digest self = pe_plan_digest (ro_envelope self)"

definition ReviewedControlOperation_action :: "ReviewedControlOperation \<Rightarrow> PluginOperationAction" where
  "ReviewedControlOperation_action self = po_action (pe_plan (ro_envelope self))"

definition ReviewedControlOperation_root_package_id :: "ReviewedControlOperation \<Rightarrow> string" where
  "ReviewedControlOperation_root_package_id self = po_package_id (pe_plan (ro_envelope self))"

definition ReviewedControlOperation_canonical_plan_bytes ::
  "('v, 'r, 'x) control_externals_scheme \<Rightarrow> ReviewedControlOperation \<Rightarrow> string use_result" where
  "ReviewedControlOperation_canonical_plan_bytes X self =
     bounded_bytes MAX_CONTROL_OPERATION_PLAN_BYTES ControlInputInvalid (envelope_json X) (ro_envelope self)"

definition target_generation :: "ReviewedControlOperation \<Rightarrow> u64 use_result" where
  "target_generation self = ok_or ControlGenerationExhausted (checked_add (ro_expected_generation self) 1)"

definition target_capability_generation :: "ReviewedControlOperation \<Rightarrow> u64 use_result" where
  "target_capability_generation self =
     ok_or ControlGenerationExhausted (checked_add (ro_expected_capability_generation self) 1)"

definition ReviewedControlOperation_validate ::
  "('v, 'r, 'x) control_externals_scheme \<Rightarrow> ReviewedControlOperation \<Rightarrow> unit use_result" where
  "ReviewedControlOperation_validate X self =
     and_then (map_err (\<lambda>_. ControlInputInvalid) (PluginOperationPlanEnvelope_validate X (ro_envelope self))) (\<lambda>_.
     if ro_reviewed_at_ms self = 0 then Inl ControlInputInvalid
     else
     and_then (target_generation self) (\<lambda>target.
     if es_state_revision (po_state (pe_plan (ro_envelope self))) \<noteq> target
        \<or> es_capability_generation (po_state (pe_plan (ro_envelope self))) \<noteq> ro_expected_capability_generation self
     then Inl ControlInputInvalid
     else
     and_then (ControlAuthorizationEvidence_validate X (ro_authorization self) (ro_envelope self) (ro_reviewed_at_ms self))
       (\<lambda>_.
     and_then (ReviewedControlOperation_canonical_plan_bytes X self) (\<lambda>_. Inr ()))))"

definition ReviewedControlOperation_new ::
  "('v, 'r, 'x) control_externals_scheme \<Rightarrow> PluginOperationPlanEnvelope \<Rightarrow> PluginOperationConfirmation option
     \<Rightarrow> ControlGrantAuthorizationEvidence option \<Rightarrow> PluginGrantConfirmation list \<Rightarrow> u64 \<Rightarrow> u64 \<Rightarrow> u64
     \<Rightarrow> ReviewedControlOperation use_result" where
  "ReviewedControlOperation_new X envelope operation_confirmation grant_transition grant_confirmations expected_generation
     expected_capability_generation reviewed_at_ms =
     and_then (ControlAuthorizationEvidence_new X envelope operation_confirmation grant_transition grant_confirmations
       reviewed_at_ms) (\<lambda>authorization.
     let operation = \<lparr>ro_envelope = envelope, ro_authorization = authorization,
           ro_expected_generation = expected_generation,
           ro_expected_capability_generation = expected_capability_generation, ro_reviewed_at_ms = reviewed_at_ms\<rparr> in
     and_then (ReviewedControlOperation_validate X operation) (\<lambda>_. Inr operation))"

definition ReviewedControlOperation_validate_for_installation ::
  "('v, 'r, 'x) control_externals_scheme \<Rightarrow> ReviewedControlOperation \<Rightarrow> InstallationId \<Rightarrow> unit use_result" where
  "ReviewedControlOperation_validate_for_installation X self installation =
     and_then (ReviewedControlOperation_validate X self) (\<lambda>_.
     if po_scope (pe_plan (ro_envelope self)) \<noteq> installation then Inl ControlInputInvalid else Inr ())"

definition package_enabled :: "InstallationSnapshot \<Rightarrow> string \<Rightarrow> bool option" where
  "package_enabled snapshot package_id =
     map_option (\<lambda>index. ip_enabled (is_packages snapshot ! index)) (package_position snapshot package_id)"

definition is_root :: "InstallationSnapshot \<Rightarrow> string \<Rightarrow> bool" where
  "is_root snapshot package_id = (binary_search_by ir_package_id package_id (is_roots snapshot) \<noteq> None)"

definition action_matches ::
  "PluginOperationAction \<Rightarrow> string \<Rightarrow> InstallationSnapshot option \<Rightarrow> InstallationSnapshot \<Rightarrow> bool" where
  "action_matches action root_package_id prior target =
     (let before_is_root = is_some_and (\<lambda>snapshot. is_root snapshot root_package_id) prior;
          after_is_root = is_root target root_package_id;
          before_enabled = Option.bind prior (\<lambda>snapshot. package_enabled snapshot root_package_id);
          after_enabled = package_enabled target root_package_id in
      case action of
        Install \<Rightarrow> \<not> before_is_root \<and> after_is_root
      | Upgrade \<Rightarrow> before_is_root \<and> after_is_root
      | Enable \<Rightarrow> before_is_root \<and> after_is_root \<and> before_enabled = Some False \<and> after_enabled = Some True
      | Disable \<Rightarrow> before_is_root \<and> after_is_root \<and> before_enabled = Some True \<and> after_enabled = Some False
      | Uninstall \<Rightarrow> before_is_root \<and> \<not> after_is_root)"

definition prior_matches :: "u64 \<Rightarrow> InstallationSnapshot option \<Rightarrow> InstallationSnapshot \<Rightarrow> bool" where
  "prior_matches expected_generation prior target =
     (case prior of
        None \<Rightarrow> expected_generation = 0
      | Some snapshot \<Rightarrow> expected_generation > 0 \<and> is_generation snapshot = expected_generation
          \<and> is_installation snapshot = is_installation target)"

definition validate_snapshot_transition ::
  "('v, 'r, 'x) control_externals_scheme \<Rightarrow> ReviewedControlOperation \<Rightarrow> InstallationSnapshot option \<Rightarrow> InstallationSnapshot
     \<Rightarrow> unit use_result" where
  "validate_snapshot_transition X self prior target =
     and_then (ReviewedControlOperation_validate_for_installation X self (is_installation target)) (\<lambda>_.
     if \<not> prior_matches (ro_expected_generation self) prior target then Inl ControlInputInvalid
     else
     and_then (target_generation self) (\<lambda>generation.
     if is_generation target \<noteq> generation then Inl ControlInputInvalid
     else if \<not> action_matches (ReviewedControlOperation_action self) (ReviewedControlOperation_root_package_id self) prior target
     then Inl ControlInputInvalid else Inr ()))"

section \<open>Grant selections\<close>

definition ControlGrantSelection_package_id :: "ControlGrantSelection \<Rightarrow> string" where
  "ControlGrantSelection_package_id self = gr_package_id (cg_grant self)"

definition saturating_add :: "u64 \<Rightarrow> u64 \<Rightarrow> u64" where
  "saturating_add a b = (case checked_add a b of None \<Rightarrow> - 1 | Some c \<Rightarrow> c)"

definition grant_selection_valid ::
  "('v, 'r, 'x) control_externals_scheme \<Rightarrow> InstallationSnapshot \<Rightarrow> ControlGrantSelection \<Rightarrow> bool" where
  "grant_selection_valid X snapshot grant =
     (case InstallationSnapshot_package_selection snapshot (ControlGrantSelection_package_id grant) of
        None \<Rightarrow> False
      | Some package \<Rightarrow> \<not>
          (\<not> is_ok (PluginWorkspaceGrant_validate X (cg_grant grant))
           \<or> cg_receipt_revision grant = 0
           \<or> cg_receipt_revision grant > saturating_add (is_generation snapshot) 1
           \<or> gr_scope_id (cg_grant grant) \<noteq> inst_id (is_installation snapshot)
           \<or> PluginWorkspaceGrant_descriptor_digest X (cg_grant grant) \<noteq> Inr (cg_grant_digest grant)
           \<or> cp_sha256 (cr_package (vr_record (lp_catalog (ip_package package)))) \<noteq> Some (gr_package_digest (cg_grant grant))
           \<or> \<not> is_ok (PluginWorkspaceGrant_validate_against X (cg_grant grant)
                 (cr_permission_ceiling (vr_record (lp_catalog (ip_package package)))))))"

definition validate_grant_selections ::
  "('v, 'r, 'x) control_externals_scheme \<Rightarrow> ControlGrantSelection list \<Rightarrow> InstallationSnapshot \<Rightarrow> unit use_result" where
  "validate_grant_selections X grants snapshot =
     (if length grants > MAX_CONTROL_GRANTS
         \<or> windows2_any (\<lambda>a b. ControlGrantSelection_package_id a \<ge> ControlGrantSelection_package_id b) grants
         \<or> (\<exists>grant \<in> set grants. \<not> grant_selection_valid X snapshot grant)
      then Inl ControlInputInvalid else Inr ())"

end
