(* ===== verification/Control_Projection.thy ===== *)
theory Control_Projection
  imports Control_Operation
begin

text \<open>
  The deterministic projection of the next generation, \<open>src/control_store/model/projection.rs\<close> and
  \<open>projection/{grants,providers,capability,effects}.rs\<close>: from a reviewed operation, the prior generation and the
  package history it computes the installation snapshot, the lifecycle incarnations, the grants, the provider
  selections, the capability descriptor and the sequence of external effects.
\<close>

section \<open>History\<close>

record ControlProjectionHistory =
  hi_last_lifecycle_generation :: u64
  hi_package_state_generations :: "(string, u64) btree_map"

record ProjectedControlGeneration =
  pg_snapshot :: InstallationSnapshot
  pg_package_lifecycles :: "ControlPackageLifecycle list"
  pg_grants :: "ControlGrantSelection list"
  pg_provider_selections :: "ControlProviderSelection list"
  pg_capability :: ControlCapabilitySelection
  pg_effects :: "ControlEffectIntent list"
  pg_history_after :: ControlProjectionHistory

type_synonym projected_graph = "InstallationSnapshot \<times> ControlPackageLifecycle list \<times> u64"

type_synonym root_locks = "(InstallationRootSelection \<times> PluginPackageLock) list"

definition MAX_CONTROL_HISTORY_PACKAGES :: nat where
  "MAX_CONTROL_HISTORY_PACKAGES = 65536"

definition ControlProjectionHistory_new :: "u64 \<Rightarrow> (string, u64) btree_map \<Rightarrow> ControlProjectionHistory use_result" where
  "ControlProjectionHistory_new last_lifecycle_generation package_state_generations =
     (if length package_state_generations > MAX_CONTROL_HISTORY_PACKAGES
         \<or> (last_lifecycle_generation = 0 \<and> package_state_generations \<noteq> [])
         \<or> (\<exists>(package_id, generation) \<in> set package_state_generations. \<not> valid_machine_id package_id \<or> generation = 0)
      then Inl ControlInputInvalid
      else Inr \<lparr>hi_last_lifecycle_generation = last_lifecycle_generation,
             hi_package_state_generations = package_state_generations\<rparr>)"

definition state_generation :: "ControlProjectionHistory \<Rightarrow> string \<Rightarrow> u64" where
  "state_generation self package_id =
     (case bt_get (hi_package_state_generations self) package_id of None \<Rightarrow> 0 | Some generation \<Rightarrow> generation)"

definition observe_state_generation ::
  "ControlProjectionHistory \<Rightarrow> string \<Rightarrow> u64 \<Rightarrow> ControlProjectionHistory use_result" where
  "observe_state_generation self package_id generation =
     (if \<not> valid_machine_id package_id \<or> generation = 0 then Inl ControlInputInvalid
      else
      (case bt_get (hi_package_state_generations self) package_id of
         Some current \<Rightarrow> Inr (self\<lparr>hi_package_state_generations :=
           bt_insert package_id (max current generation) (hi_package_state_generations self)\<rparr>)
       | None \<Rightarrow>
           if length (hi_package_state_generations self) \<ge> MAX_CONTROL_HISTORY_PACKAGES then Inl ControlInputInvalid
           else Inr (self\<lparr>hi_package_state_generations :=
             bt_insert package_id generation (hi_package_state_generations self)\<rparr>)))"

definition observe_package ::
  "ControlProjectionHistory \<Rightarrow> InstallationPackageSelection \<times> ControlPackageLifecycle \<Rightarrow> ControlProjectionHistory use_result" where
  "observe_package self = (\<lambda>(package, lifecycle).
     if cl_package_id lifecycle \<noteq> InstallationPackageSelection_package_id package \<or> cl_lifecycle_generation lifecycle = 0
     then Inl ControlInputInvalid
     else observe_state_generation
       (self\<lparr>hi_last_lifecycle_generation := max (hi_last_lifecycle_generation self) (cl_lifecycle_generation lifecycle)\<rparr>)
       (InstallationPackageSelection_package_id package) (ip_state_generation package))"

definition ControlProjectionHistory_observe ::
  "('v, 'r, 'x) control_externals_scheme \<Rightarrow> ControlProjectionHistory \<Rightarrow> ControlGeneration
     \<Rightarrow> ControlProjectionHistory use_result" where
  "ControlProjectionHistory_observe X self generation =
     and_then (InstallationSnapshot_validate X (gn_snapshot generation)) (\<lambda>_.
     if length (gn_package_lifecycles generation) \<noteq> length (is_packages (gn_snapshot generation))
     then Inl ControlInputInvalid
     else fold_result observe_package self
       (zip (is_packages (gn_snapshot generation)) (gn_package_lifecycles generation)))"

definition prior_package_known ::
  "ControlProjectionHistory \<Rightarrow> InstallationPackageSelection \<times> ControlPackageLifecycle \<Rightarrow> bool" where
  "prior_package_known history = (\<lambda>(package, lifecycle). \<not>
     (cl_package_id lifecycle \<noteq> InstallationPackageSelection_package_id package
      \<or> cl_lifecycle_generation lifecycle = 0
      \<or> cl_lifecycle_generation lifecycle > hi_last_lifecycle_generation history
      \<or> state_generation history (InstallationPackageSelection_package_id package) \<noteq> ip_state_generation package))"

definition validate_prior ::
  "('v, 'r, 'x) control_externals_scheme \<Rightarrow> ReviewedControlOperation \<Rightarrow> ControlGeneration option
     \<Rightarrow> ControlProjectionHistory \<Rightarrow> unit use_result" where
  "validate_prior X operation prior history =
     (case prior of
        None \<Rightarrow>
          if ro_expected_generation operation \<noteq> 0 then Inl ControlInputInvalid
          else if hi_last_lifecycle_generation history \<noteq> 0 \<or> hi_package_state_generations history \<noteq> []
          then Inl ControlInputInvalid else Inr ()
      | Some generation \<Rightarrow>
          if \<not> (ro_expected_generation operation > 0
              \<and> is_generation (gn_snapshot generation) = ro_expected_generation operation)
          then Inl ControlInputInvalid
          else
          and_then (InstallationSnapshot_validate X (gn_snapshot generation)) (\<lambda>_.
          if length (gn_package_lifecycles generation) \<noteq> length (is_packages (gn_snapshot generation))
          then Inl ControlInputInvalid
          else for_each (\<lambda>entry. if prior_package_known history entry then Inr () else Inl ControlInputInvalid)
            (zip (is_packages (gn_snapshot generation)) (gn_package_lifecycles generation))))"

section \<open>The graph\<close>

definition project_enablement ::
  "('v, 'r, 'x) control_externals_scheme \<Rightarrow> ReviewedControlOperation \<Rightarrow> ControlGeneration option
     \<Rightarrow> ControlProjectionHistory \<Rightarrow> projected_graph use_result" where
  "project_enablement X operation prior history =
     and_then (ok_or ControlInputInvalid prior) (\<lambda>prior.
     and_then (ok_or ControlInputInvalid (InstallationSnapshot_package_selection (gn_snapshot prior)
       (ReviewedControlOperation_root_package_id operation))) (\<lambda>package.
     if state_generation history (InstallationPackageSelection_package_id package) \<noteq> ip_state_generation package
     then Inl ControlInputInvalid
     else
     let enabled = (ReviewedControlOperation_action operation = Enable) in
     and_then (transition_package_enablement X (gn_snapshot prior) (ReviewedControlOperation_root_package_id operation)
       (ip_state_generation package) enabled) (\<lambda>snapshot.
     and_then (ok_or ControlInputInvalid snapshot) (\<lambda>snapshot.
       Inr (snapshot, gn_package_lifecycles prior, hi_last_lifecycle_generation history)))))"

definition prior_root_locks ::
  "('v, 'r, 'x) control_externals_scheme \<Rightarrow> ControlGeneration option \<Rightarrow> root_locks use_result" where
  "prior_root_locks X prior =
     (case prior of
        None \<Rightarrow> Inr []
      | Some prior \<Rightarrow>
          and_then (InstallationSnapshot_package_locks X (gn_snapshot prior)) (\<lambda>locks.
          if length locks \<noteq> length (is_roots (gn_snapshot prior)) then Inl ControlInputInvalid
          else Inr (zip (is_roots (gn_snapshot prior)) locks)))"

text \<open>\<open>Iterator::position\<close>.\<close>

fun find_index :: "('a \<Rightarrow> bool) \<Rightarrow> 'a list \<Rightarrow> nat option" where
  "find_index P [] = None"
| "find_index P (x # xs) = (if P x then Some 0 else map_option Suc (find_index P xs))"

definition root_position :: "root_locks \<Rightarrow> string \<Rightarrow> nat option" where
  "root_position roots package_id =
     find_index (\<lambda>root. ir_package_id (fst root) = package_id) roots"

definition replace_exact_root ::
  "root_locks \<Rightarrow> string \<Rightarrow> PluginPackageLock \<Rightarrow> PluginPackageLock \<Rightarrow> u64 \<Rightarrow> root_locks use_result" where
  "replace_exact_root roots root_package_id expected candidate committed_at_ms =
     and_then (ok_or ControlInputInvalid (root_position roots root_package_id)) (\<lambda>index.
     if snd (roots ! index) \<noteq> expected then Inl ControlInputInvalid
     else
     and_then (InstallationRootSelection_new root_package_id committed_at_ms) (\<lambda>root.
       Inr (roots[index := (root, candidate)])))"

definition remove_exact_root :: "root_locks \<Rightarrow> string \<Rightarrow> PluginPackageLock \<Rightarrow> root_locks use_result" where
  "remove_exact_root roots root_package_id expected =
     and_then (ok_or ControlInputInvalid (root_position roots root_package_id)) (\<lambda>index.
     if snd (roots ! index) \<noteq> expected then Inl ControlInputInvalid
     else Inr (take index roots @ drop (Suc index) roots))"

definition graph_roots_after ::
  "ReviewedControlOperation \<Rightarrow> ControlGeneration option \<Rightarrow> root_locks \<Rightarrow> u64 \<Rightarrow> (root_locks \<times> PluginPackageLockHost) use_result" where
  "graph_roots_after operation prior roots committed_at_ms =
     (let root_package_id = ReviewedControlOperation_root_package_id operation;
          prior_host = map_option (\<lambda>generation. is_host (gn_snapshot generation)) prior in
      case ReviewedControlOperation_action operation of
        Install \<Rightarrow>
          if \<exists>root \<in> set roots. ir_package_id (fst root) = root_package_id then Inl ControlInputInvalid
          else
          and_then (ok_or ControlInputInvalid (pe_package_lock (ro_envelope operation))) (\<lambda>candidate.
          if is_some_and (\<lambda>host. host \<noteq> pl_host candidate) prior_host then Inl ControlInputInvalid
          else
          and_then (InstallationRootSelection_new root_package_id committed_at_ms) (\<lambda>root.
            Inr (roots @ [(root, candidate)], case prior_host of None \<Rightarrow> pl_host candidate | Some host \<Rightarrow> host)))
      | Upgrade \<Rightarrow>
          and_then (ok_or ControlInputInvalid (pe_prior_package_lock (ro_envelope operation))) (\<lambda>current.
          and_then (ok_or ControlInputInvalid (pe_package_lock (ro_envelope operation))) (\<lambda>candidate.
          and_then (replace_exact_root roots root_package_id current candidate committed_at_ms) (\<lambda>roots.
          and_then (ok_or ControlInputInvalid prior_host) (\<lambda>host. Inr (roots, host)))))
      | Uninstall \<Rightarrow>
          and_then (ok_or ControlInputInvalid (pe_package_lock (ro_envelope operation))) (\<lambda>current.
          and_then (remove_exact_root roots root_package_id current) (\<lambda>roots.
          and_then (ok_or ControlInputInvalid prior_host) (\<lambda>host. Inr (roots, host))))
      | _ \<Rightarrow> Inl ControlInputInvalid)"

definition insert_root_package :: "lock_index \<Rightarrow> LockedPluginPackage \<Rightarrow> lock_index use_result" where
  "insert_root_package packages package =
     (if is_some_and (\<lambda>existing. existing \<noteq> package) (bt_get packages (LockedPluginPackage_package_id package))
      then Inl ControlInputInvalid
      else Inr (bt_insert (LockedPluginPackage_package_id package) package packages))"

definition packages_from_roots :: "root_locks \<Rightarrow> lock_index use_result" where
  "packages_from_roots roots =
     fold_result (\<lambda>packages root. fold_result insert_root_package packages (pl_packages (snd root))) [] roots"

type_synonym transitions = "(string, PlannedPackageTransition) btree_map"

definition transition_map :: "PluginOperationPlanEnvelope \<Rightarrow> transitions use_result" where
  "transition_map envelope =
     (let transitions = bt_collect (map (\<lambda>transition. (pt_package_id transition, transition)) (po_packages (pe_plan envelope))) in
      if length transitions \<noteq> length (po_packages (pe_plan envelope)) then Inl ControlInputInvalid else Inr transitions)"

definition is_change :: "PlannedPackageTransition \<Rightarrow> bool" where
  "is_change transition = (pt_change transition = Add \<or> pt_change transition = Replace)"

text \<open>Fresh lifecycle incarnations, allocated in install order to the packages that change.\<close>

definition allocate_lifecycle ::
  "transitions \<Rightarrow> u64 \<times> (string, u64) btree_map \<Rightarrow> LockedPluginPackage \<Rightarrow> (u64 \<times> (string, u64) btree_map) use_result" where
  "allocate_lifecycle transitions state package =
     and_then (ok_or ControlInputInvalid (bt_get transitions (LockedPluginPackage_package_id package))) (\<lambda>transition.
     if \<not> is_change transition then Inr state
     else
     and_then (ok_or ControlGenerationExhausted (checked_add (fst state) 1)) (\<lambda>lifecycle_generation.
       Inr (lifecycle_generation,
         bt_insert (LockedPluginPackage_package_id package) lifecycle_generation (snd state))))"

definition allocate_lifecycles ::
  "('v, 'r, 'x) control_externals_scheme \<Rightarrow> ReviewedControlOperation \<Rightarrow> transitions \<Rightarrow> u64
     \<Rightarrow> (u64 \<times> (string, u64) btree_map) use_result" where
  "allocate_lifecycles X operation transitions last_lifecycle_generation =
     (case pe_package_lock (ro_envelope operation) of
        Some candidate \<Rightarrow>
          if ReviewedControlOperation_action operation \<in> {Install, Upgrade} then
            and_then (PluginPackageLock_install_order X candidate) (\<lambda>order.
              fold_result (allocate_lifecycle transitions) (last_lifecycle_generation, []) order)
          else Inr (last_lifecycle_generation, [])
      | None \<Rightarrow> Inr (last_lifecycle_generation, []))"

definition state_surfaces :: "PlannedPackageState \<Rightarrow> PluginSurfaceRef list" where
  "state_surfaces state = map CatalogSurface_reference (pr_surfaces (ps_release state))"

definition changed_package ::
  "ControlProjectionHistory \<Rightarrow> (string, u64) btree_map \<Rightarrow> string \<Rightarrow> PlannedPackageTransition
     \<Rightarrow> (u64 \<times> u64 \<times> bool \<times> PluginSurfaceRef list) use_result" where
  "changed_package history allocated package_id transition =
     and_then (ok_or ControlInputInvalid (pt_after transition)) (\<lambda>after.
     and_then (ok_or ControlGenerationExhausted (checked_add (state_generation history package_id) 1)) (\<lambda>generation.
     and_then (ok_or ControlInputInvalid (bt_get allocated package_id)) (\<lambda>lifecycle_generation.
       Inr (generation, lifecycle_generation, True, state_surfaces after))))"

definition retained_package ::
  "ControlProjectionHistory \<Rightarrow> selection_index \<Rightarrow> (string, ControlPackageLifecycle) btree_map \<Rightarrow> string \<Rightarrow> LockedPluginPackage
     \<Rightarrow> (u64 \<times> u64 \<times> bool \<times> PluginSurfaceRef list) use_result" where
  "retained_package history prior_packages prior_lifecycles package_id package =
     and_then (ok_or ControlInputInvalid (bt_get prior_packages package_id)) (\<lambda>prior_package.
     and_then (ok_or ControlInputInvalid (bt_get prior_lifecycles package_id)) (\<lambda>prior_lifecycle.
     if ip_package prior_package \<noteq> package \<or> state_generation history package_id \<noteq> ip_state_generation prior_package
     then Inl ControlInputInvalid
     else Inr (ip_state_generation prior_package, cl_lifecycle_generation prior_lifecycle, ip_enabled prior_package,
       ip_selected_surfaces prior_package)))"

definition project_package ::
  "('v, 'r, 'x) control_externals_scheme \<Rightarrow> ControlProjectionHistory \<Rightarrow> transitions \<Rightarrow> (string, u64) btree_map
     \<Rightarrow> selection_index \<Rightarrow> (string, ControlPackageLifecycle) btree_map \<Rightarrow> string \<times> LockedPluginPackage
     \<Rightarrow> (InstallationPackageSelection \<times> ControlPackageLifecycle) use_result" where
  "project_package X history transitions allocated prior_packages prior_lifecycles = (\<lambda>(package_id, package).
     and_then (case bt_get transitions package_id of
         Some transition \<Rightarrow>
           if is_change transition then changed_package history allocated package_id transition
           else retained_package history prior_packages prior_lifecycles package_id package
       | None \<Rightarrow> retained_package history prior_packages prior_lifecycles package_id package)
       (\<lambda>(generation, lifecycle_generation, enabled, selected_surfaces).
     and_then (InstallationPackageSelection_new X package generation enabled selected_surfaces) (\<lambda>selection.
       Inr (selection, \<lparr>cl_package_id = package_id, cl_lifecycle_generation = lifecycle_generation\<rparr>))))"

definition prior_selection_index :: "ControlGeneration option \<Rightarrow> selection_index" where
  "prior_selection_index prior =
     (case prior of None \<Rightarrow> [] | Some generation \<Rightarrow> selection_index (is_packages (gn_snapshot generation)))"

definition prior_lifecycle_index :: "ControlGeneration option \<Rightarrow> (string, ControlPackageLifecycle) btree_map" where
  "prior_lifecycle_index prior =
     (case prior of
        None \<Rightarrow> []
      | Some generation \<Rightarrow> bt_collect (map (\<lambda>lifecycle. (cl_package_id lifecycle, lifecycle)) (gn_package_lifecycles generation)))"

definition project_graph ::
  "('v, 'r, 'x) control_externals_scheme \<Rightarrow> ReviewedControlOperation \<Rightarrow> ControlGeneration option
     \<Rightarrow> ControlProjectionHistory \<Rightarrow> u64 \<Rightarrow> projected_graph use_result" where
  "project_graph X operation prior history committed_at_ms =
     and_then (prior_root_locks X prior) (\<lambda>roots.
     and_then (graph_roots_after operation prior roots committed_at_ms) (\<lambda>(roots, target_host).
     and_then (packages_from_roots roots) (\<lambda>target_packages.
     and_then (transition_map (ro_envelope operation)) (\<lambda>transitions.
     and_then (allocate_lifecycles X operation transitions (hi_last_lifecycle_generation history))
       (\<lambda>(last_lifecycle_generation, allocated).
     and_then (collect_results (project_package X history transitions allocated (prior_selection_index prior)
       (prior_lifecycle_index prior)) target_packages) (\<lambda>projected.
     and_then (target_generation operation) (\<lambda>generation.
     and_then (InstallationSnapshot_from_root_locks X (po_scope (pe_plan (ro_envelope operation))) generation target_host
       roots (map fst projected)) (\<lambda>snapshot.
       Inr (snapshot, map snd projected, last_lifecycle_generation)))))))))"

section \<open>Agreement with the plan\<close>

definition expected_transition_packages :: "PluginOperationPlanEnvelope \<Rightarrow> string btree_set use_result" where
  "expected_transition_packages envelope =
     (case po_action (pe_plan envelope) of
        Upgrade \<Rightarrow>
          and_then (ok_or ControlInputInvalid (pe_prior_package_lock envelope)) (\<lambda>prior.
          and_then (ok_or ControlInputInvalid (pe_package_lock envelope)) (\<lambda>candidate.
            Inr (bs_collect (map LockedPluginPackage_package_id (pl_packages prior @ pl_packages candidate)))))
      | Enable \<Rightarrow> Inr [po_package_id (pe_plan envelope)]
      | Disable \<Rightarrow> Inr [po_package_id (pe_plan envelope)]
      | _ \<Rightarrow>
          and_then (ok_or ControlInputInvalid (pe_package_lock envelope)) (\<lambda>lock.
            Inr (bs_collect (map LockedPluginPackage_package_id (pl_packages lock)))))"

definition selection_state ::
  "('v, 'r, 'x) control_externals_scheme \<Rightarrow> InstallationPackageSelection \<Rightarrow> PlannedPackageState use_result" where
  "selection_state X selection =
     map_err (\<lambda>_. ControlInputInvalid) (selected_state X (lp_catalog (ip_package selection)) (ip_selected_surfaces selection))"

text \<open>\<open>Option::map\<close> with a fallible function and \<open>transpose\<close>.\<close>

definition map_transpose :: "('a \<Rightarrow> 'e + 'b) \<Rightarrow> 'a option \<Rightarrow> 'e + 'b option" where
  "map_transpose f opt = (case opt of None \<Rightarrow> Inr None | Some x \<Rightarrow> and_then (f x) (\<lambda>y. Inr (Some y)))"

definition expected_change ::
  "PlannedPackageState option \<Rightarrow> PlannedPackageState option \<Rightarrow> PlanPackageChangeKind use_result" where
  "expected_change before after =
     (case (before, after) of
        (None, Some _) \<Rightarrow> Inr Add
      | (Some _, None) \<Rightarrow> Inr Remove
      | (Some before, Some after) \<Rightarrow> Inr (if before = after then Retain else Replace)
      | (None, None) \<Rightarrow> Inl ControlInputInvalid)"

definition validate_plan_state ::
  "('v, 'r, 'x) control_externals_scheme \<Rightarrow> PluginOperationPlanEnvelope \<Rightarrow> InstallationSnapshot option \<Rightarrow> InstallationSnapshot
     \<Rightarrow> PlannedPackageTransition \<Rightarrow> unit use_result" where
  "validate_plan_state X envelope prior target transition =
     and_then (map_transpose (selection_state X) (Option.bind prior (\<lambda>snapshot.
       InstallationSnapshot_package_selection snapshot (pt_package_id transition)))) (\<lambda>before.
     and_then (map_transpose (selection_state X) (InstallationSnapshot_package_selection target (pt_package_id transition)))
       (\<lambda>after.
     and_then (expected_change before after) (\<lambda>change.
     if pt_before transition \<noteq> before \<or> pt_after transition \<noteq> after \<or> pt_change transition \<noteq> change
        \<or> pt_role transition \<noteq> (if pt_package_id transition = po_package_id (pe_plan envelope) then Root else Dependency)
     then Inl ControlInputInvalid else Inr ())))"

definition validate_plan_states ::
  "('v, 'r, 'x) control_externals_scheme \<Rightarrow> PluginOperationPlanEnvelope \<Rightarrow> InstallationSnapshot option \<Rightarrow> InstallationSnapshot
     \<Rightarrow> unit use_result" where
  "validate_plan_states X envelope prior target =
     and_then (expected_transition_packages envelope) (\<lambda>expected_packages.
     let actual_packages = bs_collect (map pt_package_id (po_packages (pe_plan envelope))) in
     if actual_packages \<noteq> expected_packages \<or> length actual_packages \<noteq> length (po_packages (pe_plan envelope))
     then Inl ControlInputInvalid
     else for_each (validate_plan_state X envelope prior target) (po_packages (pe_plan envelope)))"

section \<open>Grants\<close>

definition grant_evidence_of :: "ControlGrantSelection \<Rightarrow> WorkspaceGrantEvidence" where
  "grant_evidence_of selection =
     \<lparr>we_package_id = ControlGrantSelection_package_id selection, we_package_digest = gr_package_digest (cg_grant selection),
      we_receipt_revision = cg_receipt_revision selection, we_grant_digest = cg_grant_digest selection\<rparr>"

type_synonym grant_index = "(string, ControlGrantSelection) btree_map"

definition revoke_grant :: "grant_index \<Rightarrow> WorkspaceGrantEvidence \<Rightarrow> grant_index use_result" where
  "revoke_grant projected revocation =
     (if \<not> is_some_and (\<lambda>selection. gr_package_digest (cg_grant selection) = we_package_digest revocation
           \<and> cg_receipt_revision selection = we_receipt_revision revocation
           \<and> cg_grant_digest selection = we_grant_digest revocation) (bt_get projected (we_package_id revocation))
      then Inl ControlInputInvalid
      else Inr (bt_remove (we_package_id revocation) projected))"

definition add_grant ::
  "('v, 'r, 'x) control_externals_scheme \<Rightarrow> u64 \<Rightarrow> grant_index \<Rightarrow> ResolvedWorkspaceGrant \<Rightarrow> grant_index use_result" where
  "add_grant X revision projected candidate =
     and_then (map_err (\<lambda>_. ControlInputInvalid) (PluginWorkspaceGrant_descriptor_digest X (rg_grant candidate))) (\<lambda>grant_digest.
     let selection = \<lparr>cg_grant = rg_grant candidate, cg_grant_digest = grant_digest, cg_receipt_revision = revision\<rparr> in
     if bt_contains projected (gr_package_id (rg_grant candidate)) then Inl ControlInputInvalid
     else Inr (bt_insert (gr_package_id (rg_grant candidate)) selection projected))"

definition prior_grants_of ::
  "('v, 'r, 'x) control_externals_scheme \<Rightarrow> ControlGeneration option \<Rightarrow> ControlGrantSelection list use_result" where
  "prior_grants_of X prior =
     (case prior of
        None \<Rightarrow> Inr []
      | Some generation \<Rightarrow>
          and_then (validate_grant_selections X (gn_grants generation) (gn_snapshot generation)) (\<lambda>_. Inr (gn_grants generation)))"

definition grant_snapshot_of :: "ReviewedControlOperation \<Rightarrow> ControlGrantSelection list \<Rightarrow> PluginWorkspaceGrantSnapshot" where
  "grant_snapshot_of operation prior_grants =
     \<lparr>gs_schema = PLUGIN_WORKSPACE_GRANT_SNAPSHOT_SCHEMA, gs_scope_id = inst_id (po_scope (pe_plan (ro_envelope operation))),
      gs_state_revision = es_state_revision (po_state (pe_plan (ro_envelope operation))),
      gs_grants = map grant_evidence_of prior_grants\<rparr>"

definition resolve_grants ::
  "('v, 'r, 'x) control_externals_scheme \<Rightarrow> ReviewedControlOperation \<Rightarrow> ControlGrantAuthorizationEvidence
     \<Rightarrow> ControlGrantSelection list \<Rightarrow> InstallationSnapshot \<Rightarrow> ControlGrantSelection list use_result" where
  "resolve_grants X operation evidence prior_grants target =
     (let expected_snapshot = grant_snapshot_of operation prior_grants in
      and_then (map_err (\<lambda>_. ControlInputInvalid) (PluginWorkspaceGrantSnapshot_validate expected_snapshot)) (\<lambda>_.
      if za_snapshot evidence \<noteq> expected_snapshot then Inl ControlInputInvalid
      else
      and_then (map_err (\<lambda>_. ControlInputInvalid) (PluginWorkspaceGrantChangeSet_finalize_against_plan X (za_change_set evidence)
        (pe_plan (ro_envelope operation)) (Some (za_snapshot evidence))
        (az_operation_confirmation (ro_authorization operation)) (az_grant_confirmations (ro_authorization operation))
        (ro_reviewed_at_ms operation))) (\<lambda>resolved.
      and_then (fold_result revoke_grant
        (bt_collect (map (\<lambda>selection. (ControlGrantSelection_package_id selection, selection)) prior_grants))
        (rc_revocations resolved)) (\<lambda>projected.
      and_then (fold_result (add_grant X (rc_revision resolved)) projected (rc_grants resolved)) (\<lambda>projected.
      and_then (validate_grant_selections X (bt_values projected) target) (\<lambda>_. Inr (bt_values projected)))))))"

definition project_grants ::
  "('v, 'r, 'x) control_externals_scheme \<Rightarrow> ReviewedControlOperation \<Rightarrow> ControlGeneration option \<Rightarrow> InstallationSnapshot
     \<Rightarrow> ControlGrantSelection list use_result" where
  "project_grants X operation prior target =
     and_then (prior_grants_of X prior) (\<lambda>prior_grants.
     and_then (map_err (\<lambda>_. ControlInputInvalid) (workspace_grant_changes_required X (pe_plan (ro_envelope operation))))
       (\<lambda>required.
     case az_grant_transition (ro_authorization operation) of
       None \<Rightarrow>
         if required then Inl ControlInputInvalid
         else and_then (validate_grant_selections X prior_grants target) (\<lambda>_. Inr prior_grants)
     | Some evidence \<Rightarrow>
         if \<not> required then Inl ControlInputInvalid
         else resolve_grants X operation evidence prior_grants target))"

section \<open>Providers\<close>

type_synonym provider_index = "(PlanQualifiedSurfaceRef, ControlProviderSelection) btree_map"

definition target_requires_provider :: "InstallationSnapshot \<Rightarrow> PlanQualifiedSurfaceRef \<Rightarrow> bool" where
  "target_requires_provider target surface =
     is_some_and (\<lambda>package. ip_enabled package \<and> is_runtime_kind (sr_kind (qs_surface surface))
         \<and> qs_surface surface \<in> set (ip_selected_surfaces package))
       (InstallationSnapshot_package_selection target (qs_package_id surface))"

definition select_provider ::
  "('v, 'r, 'x) control_externals_scheme \<Rightarrow> InstallationSnapshot \<Rightarrow> provider_index \<Rightarrow> PlannedProviderEvidence
     \<Rightarrow> provider_index use_result" where
  "select_provider X target selections provider =
     and_then (ControlProviderSelection_from_evidence X provider) (\<lambda>selection.
     let surface = ControlProviderSelection_qualified_surface selection in
     if \<not> target_requires_provider target surface \<or> bt_contains selections surface then Inl ControlInputInvalid
     else Inr (bt_insert surface selection selections))"

definition retained_providers :: "ControlGeneration option \<Rightarrow> InstallationSnapshot \<Rightarrow> provider_index" where
  "retained_providers prior target =
     filter (\<lambda>(surface, _). target_requires_provider target surface)
       (bt_collect (map (\<lambda>selection. (ControlProviderSelection_qualified_surface selection, selection))
         (case prior of None \<Rightarrow> [] | Some generation \<Rightarrow> gn_provider_selections generation)))"

definition project_provider_selections ::
  "('v, 'r, 'x) control_externals_scheme \<Rightarrow> ReviewedControlOperation \<Rightarrow> ControlGeneration option \<Rightarrow> InstallationSnapshot
     \<Rightarrow> ControlProviderSelection list use_result" where
  "project_provider_selections X operation prior target =
     and_then (case prior of
         None \<Rightarrow> Inr ()
       | Some prior \<Rightarrow> validate_provider_selections X (gn_provider_selections prior) (gn_snapshot prior)) (\<lambda>_.
     let plan = pe_plan (ro_envelope operation);
         selections = retained_providers prior target;
         reviewed_packages = bs_collect (map pt_package_id (po_packages plan)) in
     and_then (if ReviewedControlOperation_action operation \<in> {Install, Upgrade, Enable} then
         fold_result (select_provider X target)
           (filter (\<lambda>(surface, _). qs_package_id surface \<notin> set reviewed_packages) selections) (po_providers plan)
       else Inr selections) (\<lambda>selections.
     let required = required_providers target in
     if length required > MAX_CONTROL_PROVIDER_SELECTIONS \<or> bs_collect (bt_keys selections) \<noteq> required
     then Inl ControlInputInvalid
     else and_then (for_each (ControlProviderSelection_validate X) (bt_values selections)) (\<lambda>_. Inr (bt_values selections))))"

section \<open>Capability\<close>

definition CONTROL_CAPABILITY_DESCRIPTOR_SCHEMA :: string where
  "CONTROL_CAPABILITY_DESCRIPTOR_SCHEMA = ''a3s.use.control-capability-descriptor.v1''"

definition MAX_CONTROL_CAPABILITY_DESCRIPTOR_BYTES :: nat where
  "MAX_CONTROL_CAPABILITY_DESCRIPTOR_BYTES = 16 * 1024 * 1024"

definition project_capability ::
  "('v, 'r, 'x) control_externals_scheme \<Rightarrow> ReviewedControlOperation \<Rightarrow> InstallationSnapshot \<Rightarrow> ControlPackageLifecycle list
     \<Rightarrow> ControlGrantSelection list \<Rightarrow> ControlProviderSelection list \<Rightarrow> ControlCapabilitySelection use_result" where
  "project_capability X operation snapshot package_lifecycles grants provider_selections =
     and_then (target_capability_generation operation) (\<lambda>capability_generation.
     and_then (InstallationSnapshot_descriptor_digest X (control_snapshot_codec X) snapshot) (\<lambda>snapshot_digest.
     let descriptor = \<lparr>cd_schema = CONTROL_CAPABILITY_DESCRIPTOR_SCHEMA, cd_installation = is_installation snapshot,
           cd_installation_generation = is_generation snapshot, cd_capability_generation = capability_generation,
           cd_snapshot_digest = snapshot_digest, cd_package_lifecycles = package_lifecycles,
           cd_grants = map (\<lambda>grant. (ControlGrantSelection_package_id grant, cg_grant_digest grant, cg_receipt_revision grant)) grants,
           cd_provider_selections = map (\<lambda>provider.
             (ControlProviderSelection_qualified_surface provider, cv_selection_digest provider)) provider_selections\<rparr> in
     and_then (bounded_bytes MAX_CONTROL_CAPABILITY_DESCRIPTOR_BYTES ControlInputInvalid (capability_descriptor_json X) descriptor)
       (\<lambda>bytes. Inr \<lparr>cc_generation = capability_generation, cc_descriptor_digest = canonical_digest X bytes\<rparr>)))"

section \<open>Effects\<close>

text \<open>
  \<open>EffectProjection\<close>: the effects so far and the sum of their payload bytes. The sum is a \<open>usize\<close> that the
  bound keeps far from overflow, so that a natural number stands for it.
\<close>

type_synonym effect_projection = "ControlEffectIntent list \<times> nat"

definition push_effect ::
  "('v, 'r, 'x) control_externals_scheme \<Rightarrow> ReviewedControlOperation \<Rightarrow> u64 \<Rightarrow> ControlEffectKind \<Rightarrow> effect_projection
     \<Rightarrow> ControlEffectSubject \<times> ControlEffectOwner \<times> bool \<Rightarrow> effect_projection use_result" where
  "push_effect X operation installation_generation kind self effect =
     (if length (fst self) \<ge> MAX_CONTROL_EFFECTS then Inl ControlInputInvalid
      else
      and_then (ok_or ControlInputInvalid (u32_try_from (length (fst self)))) (\<lambda>sequence.
      and_then (ControlEffectIntent_new X sequence (po_scope (pe_plan (ro_envelope operation)))
        (ReviewedControlOperation_plan_digest operation) (ReviewedControlOperation_action operation) installation_generation
        (fst effect) (fst (snd effect)) kind (snd (snd effect))) (\<lambda>intent.
      and_then (ControlEffectIntent_canonical_bytes X intent) (\<lambda>bytes.
      if snd self + length bytes > MAX_CONTROL_EFFECT_PAYLOAD_TOTAL_BYTES then Inl ControlInputInvalid
      else Inr (fst self @ [intent], snd self + length bytes)))))"

definition package_incarnation ::
  "InstallationSnapshot \<Rightarrow> ControlPackageLifecycle list \<Rightarrow> string \<Rightarrow> (InstallationPackageSelection \<times> u64) use_result" where
  "package_incarnation snapshot lifecycles package_id =
     and_then (ok_or ControlInputInvalid (InstallationSnapshot_package_selection snapshot package_id)) (\<lambda>package.
     and_then (ok_or ControlInputInvalid (find_lifecycle lifecycles package_id)) (\<lambda>lifecycle.
       Inr (package, cl_lifecycle_generation lifecycle)))"

definition validate_planned_incarnation ::
  "('v, 'r, 'x) control_externals_scheme \<Rightarrow> InstallationPackageSelection \<Rightarrow> PlannedPackageState \<Rightarrow> unit use_result" where
  "validate_planned_incarnation X package state =
     and_then (selected_state X (lp_catalog (ip_package package)) (ip_selected_surfaces package)) (\<lambda>selected.
     if selected \<noteq> state then Inl ControlInputInvalid else Inr ())"

definition schedule_surfaces :: "CatalogSurface list \<Rightarrow> ScheduledSurface list use_result" where
  "schedule_surfaces surfaces =
     map_err (\<lambda>_. ControlInputInvalid) (schedule_surface_graph (map (\<lambda>surface.
       \<lparr>gi_surface = CatalogSurface_reference surface, gi_optional = cs_optional surface,
        gi_dependencies = cs_requires surface\<rparr>) surfaces))"

definition package_digests :: "InstallationPackageSelection \<Rightarrow> (string \<times> string) use_result" where
  "package_digests package =
     and_then (ok_or ControlInputInvalid (cp_sha256 (cr_package (vr_record (lp_catalog (ip_package package)))))) (\<lambda>package_digest.
     and_then (ok_or ControlInputInvalid (cp_manifest_sha256 (cr_package (vr_record (lp_catalog (ip_package package))))))
       (\<lambda>manifest_digest. Inr (package_digest, manifest_digest)))"

definition package_subject ::
  "InstallationPackageSelection \<Rightarrow> u64 \<Rightarrow> PluginLifecycleAction \<Rightarrow> ControlEffectSubject use_result" where
  "package_subject package lifecycle_generation action =
     and_then (package_digests package) (\<lambda>(package_digest, manifest_digest).
       Inr (PackageSubject (InstallationPackageSelection_package_id package) lifecycle_generation package_digest
         manifest_digest action))"

definition surface_subject ::
  "InstallationPackageSelection \<Rightarrow> u64 \<Rightarrow> PluginLifecycleAction \<Rightarrow> PluginSurfaceRef \<Rightarrow> ControlEffectSubject use_result" where
  "surface_subject package lifecycle_generation action surface =
     and_then (package_digests package) (\<lambda>(package_digest, manifest_digest).
       Inr (SurfaceSubject (InstallationPackageSelection_package_id package) lifecycle_generation package_digest
         manifest_digest action surface))"

definition surface_owner :: "ControlEffectSubject \<Rightarrow> ControlProviderSelection list \<Rightarrow> ControlEffectOwner use_result" where
  "surface_owner subject providers =
     (case subject of
        SurfaceSubject package_id _ _ _ _ surface \<Rightarrow>
          (case sr_kind surface of
             KFlow \<Rightarrow> Inr FlowHost
           | KOkf \<Rightarrow> Inr KnowledgeHost
           | KSkill \<Rightarrow> Inr SkillHost
           | KUi \<Rightarrow> Inr UiHost
           | _ \<Rightarrow> ok_or ControlInputInvalid (map_option
               (\<lambda>selection. RuntimeProvider (pv_provider_id (cv_evidence selection)) (cv_selection_digest selection))
               (List.find (\<lambda>selection. ControlProviderSelection_package_id selection = package_id
                  \<and> ControlProviderSelection_surface selection = surface) providers)))
      | _ \<Rightarrow> Inl ControlInputInvalid)"

definition push_surface ::
  "('v, 'r, 'x) control_externals_scheme \<Rightarrow> ReviewedControlOperation \<Rightarrow> u64 \<Rightarrow> ControlEffectKind
     \<Rightarrow> InstallationPackageSelection \<times> u64 \<Rightarrow> PluginLifecycleAction \<Rightarrow> ControlProviderSelection list \<Rightarrow> effect_projection
     \<Rightarrow> PluginSurfaceRef \<times> bool \<Rightarrow> effect_projection use_result" where
  "push_surface X operation installation_generation kind incarnation action providers self scheduled =
     and_then (surface_subject (fst incarnation) (snd incarnation) action (fst scheduled)) (\<lambda>subject.
     and_then (surface_owner subject providers) (\<lambda>owner.
       push_effect X operation installation_generation kind self (subject, owner, snd scheduled)))"

definition prepare_package ::
  "('v, 'r, 'x) control_externals_scheme \<Rightarrow> ReviewedControlOperation \<Rightarrow> InstallationSnapshot \<Rightarrow> ControlPackageLifecycle list
     \<Rightarrow> ControlProviderSelection list \<Rightarrow> string \<Rightarrow> PlannedPackageState \<Rightarrow> PluginLifecycleAction \<Rightarrow> effect_projection
     \<Rightarrow> effect_projection use_result" where
  "prepare_package X operation generation lifecycles providers package_id state action self =
     and_then (package_incarnation generation lifecycles package_id) (\<lambda>incarnation.
     and_then (validate_planned_incarnation X (fst incarnation) state) (\<lambda>_.
     and_then (schedule_surfaces (pr_surfaces (ps_release state))) (\<lambda>scheduled.
       fold_result (push_surface X operation (is_generation generation) SurfacePrepare incarnation action providers) self
         (map (\<lambda>s. (sc_surface s, sc_required s)) scheduled))))"

definition find_transition :: "ReviewedControlOperation \<Rightarrow> string \<Rightarrow> PlannedPackageTransition option" where
  "find_transition operation package_id =
     List.find (\<lambda>transition. pt_package_id transition = package_id) (po_packages (pe_plan (ro_envelope operation)))"

definition prepare_changed_package ::
  "('v, 'r, 'x) control_externals_scheme \<Rightarrow> ReviewedControlOperation \<Rightarrow> InstallationSnapshot \<Rightarrow> ControlPackageLifecycle list
     \<Rightarrow> ControlProviderSelection list \<Rightarrow> effect_projection \<Rightarrow> LockedPluginPackage \<Rightarrow> effect_projection use_result" where
  "prepare_changed_package X operation target lifecycles providers self package =
     and_then (ok_or ControlInputInvalid (find_transition operation (LockedPluginPackage_package_id package))) (\<lambda>transition.
     case pt_change transition of
       Retain \<Rightarrow> Inr self
     | Remove \<Rightarrow> Inl ControlInputInvalid
     | change \<Rightarrow>
         and_then (ok_or ControlInputInvalid (pt_after transition)) (\<lambda>state.
           prepare_package X operation target lifecycles providers (LockedPluginPackage_package_id package) state
             (if change = Add then LInstall else LUpgrade) self))"

definition prepare_changed_packages ::
  "('v, 'r, 'x) control_externals_scheme \<Rightarrow> ReviewedControlOperation \<Rightarrow> PluginPackageLock \<Rightarrow> InstallationSnapshot
     \<Rightarrow> ControlPackageLifecycle list \<Rightarrow> ControlProviderSelection list \<Rightarrow> effect_projection \<Rightarrow> effect_projection use_result" where
  "prepare_changed_packages X operation lock target lifecycles providers self =
     and_then (PluginPackageLock_install_order X lock) (\<lambda>order.
       fold_result (prepare_changed_package X operation target lifecycles providers) self order)"

definition capability_cutover ::
  "('v, 'r, 'x) control_externals_scheme \<Rightarrow> ReviewedControlOperation \<Rightarrow> InstallationSnapshot \<Rightarrow> ControlCapabilitySelection
     \<Rightarrow> effect_projection \<Rightarrow> effect_projection use_result" where
  "capability_cutover X operation target capability self =
     push_effect X operation (is_generation target) CapabilityCutover self
       (InstallationSubject (ro_expected_capability_generation operation) (cc_generation capability)
          (cc_descriptor_digest capability), CapabilityIndex, True)"

definition drain_package ::
  "('v, 'r, 'x) control_externals_scheme \<Rightarrow> ReviewedControlOperation \<Rightarrow> ControlGeneration \<Rightarrow> PluginLifecycleAction
     \<Rightarrow> effect_projection \<Rightarrow> string \<Rightarrow> effect_projection use_result" where
  "drain_package X operation generation action self package_id =
     and_then (package_incarnation (gn_snapshot generation) (gn_package_lifecycles generation) package_id) (\<lambda>incarnation.
     and_then (package_subject (fst incarnation) (snd incarnation) action) (\<lambda>subject.
       push_effect X operation (is_generation (gn_snapshot generation)) CallsDrain self (subject, InvocationLeases, True)))"

definition retire_surfaces ::
  "('v, 'r, 'x) control_externals_scheme \<Rightarrow> ReviewedControlOperation \<Rightarrow> ControlGeneration \<Rightarrow> PluginLifecycleAction
     \<Rightarrow> ControlEffectKind \<Rightarrow> effect_projection \<Rightarrow> string \<Rightarrow> effect_projection use_result" where
  "retire_surfaces X operation generation action kind self package_id =
     and_then (ok_or ControlInputInvalid (find_transition operation package_id)) (\<lambda>transition.
     and_then (ok_or ControlInputInvalid (pt_before transition)) (\<lambda>state.
     and_then (package_incarnation (gn_snapshot generation) (gn_package_lifecycles generation) package_id) (\<lambda>incarnation.
     and_then (validate_planned_incarnation X (fst incarnation) state) (\<lambda>_.
     and_then (schedule_surfaces (pr_surfaces (ps_release state))) (\<lambda>scheduled.
       fold_result (push_surface X operation (is_generation (gn_snapshot generation)) kind incarnation action
         (gn_provider_selections generation)) self (map (\<lambda>s. (sc_surface s, True)) (rev scheduled)))))))"

definition retired_order ::
  "ReviewedControlOperation \<Rightarrow> LockedPluginPackage list \<Rightarrow> string list" where
  "retired_order operation order =
     map pt_package_id (filter (\<lambda>transition. pt_change transition = Replace \<or> pt_change transition = Remove)
       (List.map_filter (\<lambda>package. find_transition operation (LockedPluginPackage_package_id package)) order))"

definition retire_changed_packages ::
  "('v, 'r, 'x) control_externals_scheme \<Rightarrow> ReviewedControlOperation \<Rightarrow> ControlGeneration \<Rightarrow> PluginPackageLock
     \<Rightarrow> ControlEffectKind \<Rightarrow> effect_projection \<Rightarrow> effect_projection use_result" where
  "retire_changed_packages X operation prior lock surface_kind self =
     and_then (PluginPackageLock_removal_order X lock) (\<lambda>order.
     let ordered = retired_order operation order in
     and_then (fold_result (drain_package X operation prior LUninstall) self ordered) (\<lambda>self.
       fold_result (retire_surfaces X operation prior LUninstall surface_kind) self ordered))"

definition retire_package ::
  "('v, 'r, 'x) control_externals_scheme \<Rightarrow> ReviewedControlOperation \<Rightarrow> ControlGeneration \<Rightarrow> string \<Rightarrow> PluginLifecycleAction
     \<Rightarrow> ControlEffectKind \<Rightarrow> effect_projection \<Rightarrow> effect_projection use_result" where
  "retire_package X operation prior package_id action surface_kind self =
     and_then (drain_package X operation prior action self package_id) (\<lambda>self.
       retire_surfaces X operation prior action surface_kind self package_id)"

text \<open>The match of \<open>project_effects\<close> on the action.\<close>

definition project_effect_phases ::
  "('v, 'r, 'x) control_externals_scheme \<Rightarrow> ReviewedControlOperation \<Rightarrow> ControlGeneration option \<Rightarrow> InstallationSnapshot
     \<Rightarrow> ControlPackageLifecycle list \<Rightarrow> ControlProviderSelection list \<Rightarrow> ControlCapabilitySelection
     \<Rightarrow> effect_projection use_result" where
  "project_effect_phases X operation prior target lifecycles providers capability =
     (let envelope = ro_envelope operation; root = ReviewedControlOperation_root_package_id operation;
          cutover = capability_cutover X operation target capability in
      case ReviewedControlOperation_action operation of
          Install \<Rightarrow>
            and_then (ok_or ControlInputInvalid (pe_package_lock envelope)) (\<lambda>candidate.
            and_then (prepare_changed_packages X operation candidate target lifecycles providers ([], 0)) cutover)
        | Upgrade \<Rightarrow>
            and_then (ok_or ControlInputInvalid prior) (\<lambda>prior.
            and_then (ok_or ControlInputInvalid (pe_package_lock envelope)) (\<lambda>candidate.
            and_then (prepare_changed_packages X operation candidate target lifecycles providers ([], 0)) (\<lambda>self.
            and_then (cutover self) (\<lambda>self.
            and_then (ok_or ControlInputInvalid (pe_prior_package_lock envelope)) (\<lambda>retired.
              retire_changed_packages X operation prior retired SurfaceRemoval self)))))
        | Enable \<Rightarrow>
            and_then (ok_or ControlInputInvalid (find_transition operation root)) (\<lambda>transition.
            and_then (ok_or ControlInputInvalid (pt_after transition)) (\<lambda>state.
            and_then (prepare_package X operation target lifecycles providers (pt_package_id transition) state LEnable ([], 0))
              cutover))
        | Disable \<Rightarrow>
            and_then (ok_or ControlInputInvalid prior) (\<lambda>prior.
            and_then (cutover ([], 0)) (\<lambda>self.
              retire_package X operation prior root LDisable SurfaceStop self))
        | Uninstall \<Rightarrow>
            and_then (ok_or ControlInputInvalid prior) (\<lambda>prior.
            and_then (cutover ([], 0)) (\<lambda>self.
            and_then (ok_or ControlInputInvalid (pe_package_lock envelope)) (\<lambda>retired.
              retire_changed_packages X operation prior retired SurfaceRemoval self))))"

definition project_effects ::
  "('v, 'r, 'x) control_externals_scheme \<Rightarrow> ReviewedControlOperation \<Rightarrow> ControlGeneration option \<Rightarrow> InstallationSnapshot
     \<Rightarrow> ControlPackageLifecycle list \<Rightarrow> ControlProviderSelection list \<Rightarrow> ControlCapabilitySelection
     \<Rightarrow> ControlEffectIntent list use_result" where
  "project_effects X operation prior target lifecycles providers capability =
     and_then (project_effect_phases X operation prior target lifecycles providers capability) (\<lambda>projection.
     if fst projection = [] \<or> length (fst projection) > MAX_CONTROL_EFFECTS then Inl ControlInputInvalid
     else Inr (fst projection))"

section \<open>The projected generation\<close>

definition advance_history ::
  "ControlProjectionHistory \<Rightarrow> InstallationPackageSelection \<Rightarrow> ControlProjectionHistory use_result" where
  "advance_history history package =
     (if ip_state_generation package < state_generation history (InstallationPackageSelection_package_id package)
      then Inl ControlInputInvalid
      else observe_state_generation history (InstallationPackageSelection_package_id package) (ip_state_generation package))"

definition project_next_graph ::
  "('v, 'r, 'x) control_externals_scheme \<Rightarrow> ReviewedControlOperation \<Rightarrow> ControlGeneration option
     \<Rightarrow> ControlProjectionHistory \<Rightarrow> u64 \<Rightarrow> projected_graph use_result" where
  "project_next_graph X self prior history committed_at_ms =
     (case ReviewedControlOperation_action self of
        Enable \<Rightarrow> project_enablement X self prior history
      | Disable \<Rightarrow> project_enablement X self prior history
      | _ \<Rightarrow> project_graph X self prior history committed_at_ms)"

definition project_generation ::
  "('v, 'r, 'x) control_externals_scheme \<Rightarrow> ReviewedControlOperation \<Rightarrow> ControlGeneration option
     \<Rightarrow> ControlProjectionHistory \<Rightarrow> u64 \<Rightarrow> ProjectedControlGeneration use_result" where
  "project_generation X self prior history committed_at_ms =
     and_then (ReviewedControlOperation_validate X self) (\<lambda>_.
     if committed_at_ms < ro_reviewed_at_ms self then Inl ControlInputInvalid
     else
     and_then (validate_prior X self prior history) (\<lambda>_.
     and_then (project_next_graph X self prior history committed_at_ms)
       (\<lambda>(snapshot, package_lifecycles, last_lifecycle_generation).
     and_then (validate_snapshot_transition X self (map_option gn_snapshot prior) snapshot) (\<lambda>_.
     and_then (validate_plan_states X (ro_envelope self) (map_option gn_snapshot prior) snapshot) (\<lambda>_.
     and_then (project_grants X self prior snapshot) (\<lambda>grants.
     and_then (project_provider_selections X self prior snapshot) (\<lambda>provider_selections.
     and_then (project_capability X self snapshot package_lifecycles grants provider_selections) (\<lambda>capability.
     and_then (project_effects X self prior snapshot package_lifecycles provider_selections capability) (\<lambda>effects.
     and_then (fold_result advance_history (history\<lparr>hi_last_lifecycle_generation := last_lifecycle_generation\<rparr>)
       (is_packages snapshot)) (\<lambda>history_after.
       Inr \<lparr>pg_snapshot = snapshot, pg_package_lifecycles = package_lifecycles, pg_grants = grants,
         pg_provider_selections = provider_selections, pg_capability = capability, pg_effects = effects,
         pg_history_after = history_after\<rparr>))))))))))"

section \<open>The order of effects\<close>

text \<open>
  Every projection step only appends intents, with consecutive sequence numbers and a common shape.
\<close>

definition extends_by :: "(ControlEffectIntent \<Rightarrow> bool) \<Rightarrow> effect_projection \<Rightarrow> effect_projection \<Rightarrow> bool" where
  "extends_by P self self' =
     (\<exists>es. fst self' = fst self @ es \<and> (\<forall>e \<in> set es. P e)
        \<and> map (unat \<circ> ei_sequence) es = [length (fst self)..<length (fst self')])"

lemma extends_by_refl: "extends_by P self self"
  by (simp add: extends_by_def)

lemma extends_by_trans:
  assumes "extends_by P a b" "extends_by P b c"
  shows "extends_by P a c"
proof -
  from assms obtain es fs where *: "fst b = fst a @ es" "\<forall>e \<in> set es. P e"
      "map (unat \<circ> ei_sequence) es = [length (fst a)..<length (fst b)]"
      "fst c = fst b @ fs" "\<forall>e \<in> set fs. P e" "map (unat \<circ> ei_sequence) fs = [length (fst b)..<length (fst c)]"
    by (auto simp: extends_by_def)
  then have "map (unat \<circ> ei_sequence) (es @ fs) = [length (fst a)..<length (fst c)]"
    using upt_add_eq_append [of "length (fst a)" "length (fst b)" "length fs"] by (simp add: add.assoc)
  with * show ?thesis by (auto simp: extends_by_def)
qed

lemma fold_extends_by:
  assumes "fold_result f self xs = Inr self'"
    and "\<And>s x s'. x \<in> set xs \<Longrightarrow> f s x = Inr s' \<Longrightarrow> extends_by P s s'"
  shows "extends_by P self self'"
  using assms
proof (induction xs arbitrary: self)
  case (Cons x xs)
  then obtain s where "f self x = Inr s" "fold_result f s xs = Inr self'" by (auto simp: and_then_Inr)
  with Cons show ?case by (meson extends_by_trans list.set_intros)
qed (simp add: extends_by_refl)

lemma new_effect_fields:
  assumes "ControlEffectIntent_new X s installation plan_digest action generation subject owner kind required = Inr e"
  shows "ei_sequence e = s" "ei_kind e = kind" "ei_installation_generation e = generation" "ei_subject e = subject"
    "ei_owner e = owner" "ei_required e = required"
  using assms by (auto simp: ControlEffectIntent_new_def Let_def and_then_Inr)

lemma push_effect_intent:
  assumes "push_effect X op generation kind self effect = Inr self'"
  obtains e where "fst self' = fst self @ [e]" "unat (ei_sequence e) = length (fst self)" "ei_kind e = kind"
    "ei_installation_generation e = generation" "ei_subject e = fst effect" "ei_owner e = fst (snd effect)"
    "ei_required e = snd (snd effect)"
proof -
  from assms obtain s e and bytes :: string where s: "u32_try_from (length (fst self)) = Some s"
    and e: "ControlEffectIntent_new X s (po_scope (pe_plan (ro_envelope op))) (ReviewedControlOperation_plan_digest op)
      (ReviewedControlOperation_action op) generation (fst effect) (fst (snd effect)) kind (snd (snd effect)) = Inr e"
    and pushed: "Inr (fst self @ [e], snd self + length bytes) = (Inr self' :: effect_projection use_result)"
    unfolding push_effect_def if_Inl_Inr and_then_Inr ok_or_Inr by (elim exE conjE) (rule that; assumption)
  from s have "unat s = length (fst self)"
    by (auto simp: u32_try_from_def unat_of_nat take_bit_nat_eq_self split: if_splits)
  with new_effect_fields [OF e] pushed show thesis by (intro that [of e]) auto
qed

lemma push_effect_extends:
  assumes "push_effect X op generation kind self effect = Inr self'"
    and "\<And>e. ei_kind e = kind \<Longrightarrow> ei_installation_generation e = generation \<Longrightarrow> ei_required e = snd (snd effect) \<Longrightarrow> P e"
  shows "extends_by P self self'"
proof -
  from push_effect_intent [OF assms(1)] obtain e where e: "fst self' = fst self @ [e]" "unat (ei_sequence e) = length (fst self)"
    "ei_kind e = kind" "ei_installation_generation e = generation" "ei_required e = snd (snd effect)" by metis
  then show ?thesis unfolding extends_by_def using assms(2) by (intro exI [of _ "[e]"]) auto
qed

abbreviation prepares :: "u64 \<Rightarrow> ControlEffectIntent \<Rightarrow> bool" where
  "prepares generation e \<equiv> ei_kind e = SurfacePrepare \<and> ei_installation_generation e = generation"

abbreviation retires :: "ControlEffectKind \<Rightarrow> u64 \<Rightarrow> ControlEffectIntent \<Rightarrow> bool" where
  "retires kind generation e \<equiv> ei_kind e = kind \<and> ei_installation_generation e = generation \<and> ei_required e"

lemma prepare_package_extends:
  assumes "prepare_package X op target lifecycles providers package_id state action self = Inr self'"
  shows "extends_by (prepares (is_generation target)) self self'"
  using assms unfolding prepare_package_def and_then_Inr
  by (elim exE conjE) (rule fold_extends_by, assumption, auto simp: push_surface_def and_then_Inr intro!: push_effect_extends)

lemma prepare_changed_packages_extends:
  assumes "prepare_changed_packages X op lock target lifecycles providers self = Inr self'"
  shows "extends_by (prepares (is_generation target)) self self'"
proof -
  from assms obtain order where "fold_result (prepare_changed_package X op target lifecycles providers) self order = Inr self'"
    by (auto simp: prepare_changed_packages_def and_then_Inr)
  then show ?thesis
  proof (rule fold_extends_by)
    fix s x s'
    assume "prepare_changed_package X op target lifecycles providers s x = Inr s'"
    then show "extends_by (prepares (is_generation target)) s s'"
      unfolding prepare_changed_package_def and_then_Inr ok_or_Inr
      by (elim exE conjE) (auto split: PlanPackageChangeKind.splits simp: and_then_Inr
          intro: extends_by_refl prepare_package_extends)
  qed
qed

lemma drain_package_extends:
  assumes "drain_package X op generation action self package_id = Inr self'"
  shows "extends_by (retires CallsDrain (is_generation (gn_snapshot generation))) self self'"
  using assms by (auto simp: drain_package_def and_then_Inr intro!: push_effect_extends)

lemma retire_surfaces_extends:
  assumes "retire_surfaces X op generation action kind self package_id = Inr self'"
  shows "extends_by (retires kind (is_generation (gn_snapshot generation))) self self'"
  using assms unfolding retire_surfaces_def and_then_Inr
  by (elim exE conjE) (rule fold_extends_by, assumption, auto simp: push_surface_def and_then_Inr intro!: push_effect_extends)

lemma retire_changed_packages_extends:
  assumes "retire_changed_packages X op prior lock kind self = Inr self'"
  obtains mid where "extends_by (retires CallsDrain (is_generation (gn_snapshot prior))) self mid"
    "extends_by (retires kind (is_generation (gn_snapshot prior))) mid self'"
proof -
  from assms obtain order mid where "fold_result (drain_package X op prior LUninstall) self order = Inr mid"
    "fold_result (retire_surfaces X op prior LUninstall kind) mid order = Inr self'"
    by (auto simp: retire_changed_packages_def and_then_Inr Let_def)
  from fold_extends_by [OF this(1) drain_package_extends] fold_extends_by [OF this(2) retire_surfaces_extends]
  show thesis by (rule that)
qed

lemma retire_package_extends:
  assumes "retire_package X op prior package_id action kind self = Inr self'"
  obtains mid where "extends_by (retires CallsDrain (is_generation (gn_snapshot prior))) self mid"
    "extends_by (retires kind (is_generation (gn_snapshot prior))) mid self'"
  using assms that unfolding retire_package_def and_then_Inr
  by (elim exE conjE) (blast dest: drain_package_extends retire_surfaces_extends)

definition cutover_intent ::
  "ReviewedControlOperation \<Rightarrow> InstallationSnapshot \<Rightarrow> ControlCapabilitySelection \<Rightarrow> ControlEffectIntent \<Rightarrow> bool" where
  "cutover_intent op target capability e =
     (ei_kind e = CapabilityCutover \<and> ei_owner e = CapabilityIndex \<and> ei_required e
      \<and> ei_installation_generation e = is_generation target
      \<and> ei_subject e = InstallationSubject (ro_expected_capability_generation op) (cc_generation capability)
          (cc_descriptor_digest capability))"

text \<open>The sequence of a whole projection: preparations, one cutover, drains, retirements.\<close>

definition phased ::
  "ReviewedControlOperation \<Rightarrow> ControlGeneration option \<Rightarrow> InstallationSnapshot \<Rightarrow> ControlCapabilitySelection
     \<Rightarrow> ControlEffectIntent list \<Rightarrow> bool" where
  "phased op prior target capability effects =
     (\<exists>ps c ds rs. effects = ps @ [c] @ ds @ rs \<and> (\<forall>e \<in> set ps. prepares (is_generation target) e)
        \<and> cutover_intent op target capability c
        \<and> (\<forall>e \<in> set ds. ei_kind e = CallsDrain) \<and> (\<forall>e \<in> set rs. ei_kind e \<in> {SurfaceStop, SurfaceRemoval})
        \<and> (\<forall>e \<in> set (ds @ rs). ei_required e
             \<and> map_option (is_generation \<circ> gn_snapshot) prior = Some (ei_installation_generation e)))"

lemma cutover_intent_pushed:
  assumes "capability_cutover X op target capability self = Inr self'"
  shows "extends_by (cutover_intent op target capability) self self'"
    and "\<exists>c. fst self' = fst self @ [c] \<and> cutover_intent op target capability c"
proof -
  from assms [unfolded capability_cutover_def] obtain c where "fst self' = fst self @ [c]" "unat (ei_sequence c) = length (fst self)"
    "cutover_intent op target capability c"
    by (elim push_effect_intent) (simp add: cutover_intent_def)
  then show "extends_by (cutover_intent op target capability) self self'"
    and "\<exists>c. fst self' = fst self @ [c] \<and> cutover_intent op target capability c"
    by (auto simp: extends_by_def)
qed

text \<open>Assembling the phases from the empty projection.\<close>

lemma phased_from_extensions:
  assumes "extends_by (prepares (is_generation target)) ([], 0) a"
    and "capability_cutover X op target capability a = Inr b"
    and "extends_by (retires CallsDrain generation) b c" "extends_by (retires kind generation) c d"
    and "fst c = fst b \<and> fst d = fst b \<or> map_option (is_generation \<circ> gn_snapshot) prior = Some generation"
    and "kind \<in> {SurfaceStop, SurfaceRemoval}"
  shows "phased op prior target capability (fst d) \<and> map (unat \<circ> ei_sequence) (fst d) = [0..<length (fst d)]"
proof -
  have weaken: "extends_by P s t \<Longrightarrow> extends_by (\<lambda>_. True) s t" for P s t by (auto simp: extends_by_def)
  from cutover_intent_pushed [OF assms(2)] obtain e where e: "fst b = fst a @ [e]" "cutover_intent op target capability e"
    and ext: "extends_by (cutover_intent op target capability) a b" by blast
  from assms(3,4) obtain ds rs where phases: "fst c = fst b @ ds" "fst d = fst c @ rs" "\<forall>x \<in> set ds. retires CallsDrain generation x"
    "\<forall>x \<in> set rs. retires kind generation x" by (auto simp: extends_by_def)
  moreover have "\<forall>x \<in> set (fst a). prepares (is_generation target) x" using assms(1) by (auto simp: extends_by_def)
  moreover from phases assms(5)
  have "\<forall>x \<in> set (ds @ rs). ei_required x
      \<and> map_option (is_generation \<circ> gn_snapshot) prior = Some (ei_installation_generation x)" by auto
  ultimately have "fst d = fst a @ [e] @ ds @ rs \<and> (\<forall>x \<in> set (fst a). prepares (is_generation target) x)
      \<and> cutover_intent op target capability e \<and> (\<forall>x \<in> set ds. ei_kind x = CallsDrain)
      \<and> (\<forall>x \<in> set rs. ei_kind x \<in> {SurfaceStop, SurfaceRemoval}) \<and> (\<forall>x \<in> set (ds @ rs). ei_required x
      \<and> map_option (is_generation \<circ> gn_snapshot) prior = Some (ei_installation_generation x))"
    using phases e assms(6) by simp
  then have "phased op prior target capability (fst d)" unfolding phased_def by (intro exI)
  moreover have "extends_by (\<lambda>_. True) ([], 0) d"
    by (intro extends_by_trans [OF weaken [OF assms(1)]] extends_by_trans [OF weaken [OF ext]]
      extends_by_trans [OF weaken [OF assms(3)]] weaken [OF assms(4)])
  ultimately show ?thesis by (auto simp: extends_by_def)
qed

text \<open>
  The effects an operation projects come in one canonical order: the preparations of the target generation,
  exactly one capability cutover that binds the expected and the new capability generation, then the drains and
  the retirements of the prior generation, all of them required; their sequence numbers count from zero.
\<close>

lemma effects_phased:
  assumes "project_effects X op prior target lifecycles providers capability = Inr effects"
  shows "phased op prior target capability effects \<and> map (unat \<circ> ei_sequence) effects = [0..<length effects]"
proof -
  let ?Q = "\<lambda>d. phased op prior target capability (fst d) \<and> map (unat \<circ> ei_sequence) (fst d) = [0..<length (fst d)]"
  note build = phased_from_extensions [where X = X and op = op and target = target and capability = capability and prior = prior]
  have prepared: "?Q d" if "extends_by (prepares (is_generation target)) ([], 0) a" "capability_cutover X op target capability a = Inr d"
    for a d
    using build [OF that extends_by_refl extends_by_refl, where kind = SurfaceStop] by simp
  have retired: "?Q d" if "extends_by (prepares (is_generation target)) ([], 0) a" "capability_cutover X op target capability a = Inr b"
    "extends_by (retires CallsDrain (is_generation (gn_snapshot g))) b c" "extends_by (retires kind (is_generation (gn_snapshot g))) c d"
    "prior = Some g" "kind \<in> {SurfaceStop, SurfaceRemoval}" for a b c d g kind
    using build [OF that(1-4) _ that(6)] that(5) by simp
  from assms obtain d where d: "effects = fst d"
    and body: "project_effect_phases X op prior target lifecycles providers capability = Inr d"
    unfolding project_effects_def and_then_Inr if_Inl_Inr by (elim exE conjE) (rule that; simp)
  note phases = body [unfolded project_effect_phases_def Let_def]
  have "?Q d"
  proof (cases "ReviewedControlOperation_action op")
    case Install
    with phases obtain candidate a where "prepare_changed_packages X op candidate target lifecycles providers ([], 0) = Inr a"
      "capability_cutover X op target capability a = Inr d"
      by (simp add: and_then_Inr ok_or_Inr) blast
    then show ?thesis by (intro prepared [OF prepare_changed_packages_extends])
  next
    case Upgrade
    with phases obtain g candidate a b lock where u: "prior = Some g"
      "prepare_changed_packages X op candidate target lifecycles providers ([], 0) = Inr a"
      "capability_cutover X op target capability a = Inr b" "retire_changed_packages X op g lock SurfaceRemoval b = Inr d"
      by (simp add: and_then_Inr ok_or_Inr) blast
    from retire_changed_packages_extends [OF u(4)] obtain mid where
      m: "extends_by (retires CallsDrain (is_generation (gn_snapshot g))) b mid"
      "extends_by (retires SurfaceRemoval (is_generation (gn_snapshot g))) mid d" .
    show ?thesis by (rule retired [OF prepare_changed_packages_extends [OF u(2)] u(3) m u(1)]) simp
  next
    case Enable
    with phases obtain package_id state a where
      "prepare_package X op target lifecycles providers package_id state LEnable ([], 0) = Inr a"
      "capability_cutover X op target capability a = Inr d"
      by (simp add: and_then_Inr ok_or_Inr) blast
    then show ?thesis by (intro prepared [OF prepare_package_extends])
  next
    case Disable
    with phases obtain g package_id b where u: "prior = Some g"
      "capability_cutover X op target capability ([], 0) = Inr b" "retire_package X op g package_id LDisable SurfaceStop b = Inr d"
      by (simp add: and_then_Inr ok_or_Inr) blast
    from retire_package_extends [OF u(3)] obtain mid where
      m: "extends_by (retires CallsDrain (is_generation (gn_snapshot g))) b mid"
      "extends_by (retires SurfaceStop (is_generation (gn_snapshot g))) mid d" .
    show ?thesis by (rule retired [OF extends_by_refl u(2) m u(1)]) simp
  next
    case Uninstall
    with phases obtain g b lock where u: "prior = Some g"
      "capability_cutover X op target capability ([], 0) = Inr b" "retire_changed_packages X op g lock SurfaceRemoval b = Inr d"
      by (simp add: and_then_Inr ok_or_Inr) blast
    from retire_changed_packages_extends [OF u(3)] obtain mid where
      m: "extends_by (retires CallsDrain (is_generation (gn_snapshot g))) b mid"
      "extends_by (retires SurfaceRemoval (is_generation (gn_snapshot g))) mid d" .
    show ?thesis by (rule retired [OF extends_by_refl u(2) m u(1)]) simp
  qed
  with d show ?thesis by simp
qed

end
