(* ===== verification/Control_Read.thy ===== *)
theory Control_Read
  imports Control_Projection
begin

text \<open>
  The state of the control store and its reads, \<open>src/control_store/aggregate/read.rs\<close>, \<open>read/effects.rs\<close>,
  \<open>aggregate/generation.rs\<close> and the record checks of \<open>aggregate.rs\<close>, with the transition checks of
  \<open>src/control_store/model.rs\<close>.

  The tables are lists of decoded rows: \<open>control_operation\<close> a list of operation records, \<open>control_generation\<close>
  with the relations keyed by its generation a list of generations, \<open>lifecycle_checkpoint\<close> joined with
  \<open>effect_outbox\<close> a list of effect records, \<open>control_installation\<close> the identity and the two cursors. A column that
  repeats a field of the decoded value is that field, so the comparisons of a read that detect a column
  drifting from its JSON hold by construction and are not repeated; every check on the decoded value is.
\<close>

section \<open>State\<close>

record control_store =
  cs_installation :: InstallationId
  cs_current_generation :: u64
  cs_published_capability_generation :: u64
  cs_operations :: "ControlOperationRecord list"
  cs_generations :: "ControlGeneration list"
  cs_effects :: "ControlEffectRecord list"

record ('v, 'r) control_store_externals = "('v, 'r) control_externals" +
  locked_package_json :: "LockedPluginPackage \<Rightarrow> string option"

definition initialize_empty :: "InstallationId \<Rightarrow> control_store" where
  "initialize_empty installation =
     \<lparr>cs_installation = installation, cs_current_generation = 0, cs_published_capability_generation = 0,
      cs_operations = [], cs_generations = [], cs_effects = []\<rparr>"

text \<open>\<open>open_verified_read\<close> and \<open>open_verified_write\<close> share the identity check of \<open>inspect_connection\<close>.\<close>

definition open_verified :: "control_store \<Rightarrow> InstallationId \<Rightarrow> unit use_result" where
  "open_verified st expected_installation =
     and_then (InstallationId_validate expected_installation) (\<lambda>_.
     if cs_installation st \<noteq> expected_installation then Inl ControlIdentityMismatch else Inr ())"

text \<open>SQLite integers are signed 64-bit values.\<close>

definition to_i64 :: "u64 \<Rightarrow> u64 use_result" where
  "to_i64 value = (if value \<ge> 2 ^ 63 then Inl ControlInputInvalid else Inr value)"

definition read_cursors :: "control_store \<Rightarrow> u64 \<times> u64" where
  "read_cursors st = (cs_current_generation st, cs_published_capability_generation st)"

section \<open>Operations\<close>

definition operation_times_valid :: "ControlOperationRecord \<Rightarrow> bool" where
  "operation_times_valid row =
     (case co_status row of
        Reviewed \<Rightarrow> co_committed_at_ms row = None \<and> co_completed_at_ms row = None \<and> co_result_digest row = None
      | EffectsPending \<Rightarrow>
          is_some_and (\<lambda>time. time \<ge> ro_reviewed_at_ms (co_reviewed row)) (co_committed_at_ms row)
          \<and> co_completed_at_ms row = None \<and> co_result_digest row = None
      | OperationCancelled \<Rightarrow>
          co_committed_at_ms row = None
          \<and> is_some_and (\<lambda>time. time \<ge> ro_reviewed_at_ms (co_reviewed row)) (co_completed_at_ms row)
          \<and> co_result_digest row \<noteq> None
      | _ \<Rightarrow>
          (case (co_committed_at_ms row, co_completed_at_ms row) of
             (Some committed, Some completed) \<Rightarrow> committed \<ge> ro_reviewed_at_ms (co_reviewed row) \<and> completed \<ge> committed
           | _ \<Rightarrow> False)
          \<and> co_result_digest row \<noteq> None)"

definition validate_operation_record ::
  "('v, 'r, 'x) control_externals_scheme \<Rightarrow> ControlOperationRecord \<Rightarrow> unit use_result" where
  "validate_operation_record X row =
     and_then (ReviewedControlOperation_validate X (co_reviewed row)) (\<lambda>_.
     if is_some_and (\<lambda>digest. \<not> valid_sha256 digest) (co_result_digest row) then Inl ControlCorrupt
     else if \<not> operation_times_valid row then Inl ControlCorrupt
     else Inr ())"

definition ControlOperationRecord_id :: "ControlOperationRecord \<Rightarrow> string" where
  "ControlOperationRecord_id row = ReviewedControlOperation_operation_id (co_reviewed row)"

definition operation_from_row ::
  "('v, 'r, 'x) control_externals_scheme \<Rightarrow> ControlOperationRecord \<Rightarrow> InstallationId \<Rightarrow> ControlOperationRecord use_result" where
  "operation_from_row X row installation =
     and_then (map_err (\<lambda>_. ControlCorrupt)
       (ReviewedControlOperation_validate_for_installation X (co_reviewed row) installation)) (\<lambda>_.
     and_then (map_err (\<lambda>_. ControlCorrupt) (validate_operation_record X row)) (\<lambda>_. Inr row))"

definition read_operation_from ::
  "('v, 'r, 'x) control_externals_scheme \<Rightarrow> control_store \<Rightarrow> InstallationId \<Rightarrow> string
     \<Rightarrow> ControlOperationRecord option use_result" where
  "read_operation_from X st installation operation_id =
     (case filter (\<lambda>row. ControlOperationRecord_id row = operation_id) (cs_operations st) of
        [] \<Rightarrow> Inr None
      | row # rows \<Rightarrow>
          and_then (operation_from_row X row installation) (\<lambda>record.
          if rows \<noteq> [] then Inl ControlCorrupt else Inr (Some record)))"

section \<open>Generations\<close>

definition ControlGeneration_number :: "ControlGeneration \<Rightarrow> u64" where
  "ControlGeneration_number generation = is_generation (gn_snapshot generation)"

definition validate_snapshot_relations ::
  "('v, 'r, 'x) control_store_externals_scheme \<Rightarrow> InstallationSnapshot \<Rightarrow> ControlPackageLifecycle list
     \<Rightarrow> ControlPackageLifecycle list use_result" where
  "validate_snapshot_relations X snapshot lifecycles =
     and_then (to_i64 (is_generation snapshot)) (\<lambda>_.
     if length lifecycles \<noteq> length (is_packages snapshot) then Inl ControlCorrupt
     else
     and_then (for_each (\<lambda>(row, expected).
       and_then (ok_or ControlInputInvalid (locked_package_json X (ip_package expected))) (\<lambda>_.
       if cl_package_id row \<noteq> InstallationPackageSelection_package_id expected \<or> cl_lifecycle_generation row = 0
       then Inl ControlCorrupt else Inr ())) (zip lifecycles (is_packages snapshot))) (\<lambda>_.
     and_then (for_each (\<lambda>root. and_then (to_i64 (ir_installed_at_ms root)) (\<lambda>_. Inr ())) (is_roots snapshot)) (\<lambda>_.
       Inr lifecycles)))"

definition read_grants ::
  "('v, 'r, 'x) control_externals_scheme \<Rightarrow> ControlGrantSelection list \<Rightarrow> ControlGrantSelection list use_result" where
  "read_grants X rows =
     collect_results (\<lambda>row.
       and_then (map_err (\<lambda>_. ControlCorrupt) (PluginWorkspaceGrant_validate X (cg_grant row))) (\<lambda>_.
       and_then (PluginWorkspaceGrant_descriptor_digest X (cg_grant row)) (\<lambda>digest.
       if digest \<noteq> cg_grant_digest row then Inl ControlCorrupt else Inr row))) rows"

definition read_provider_selections ::
  "('v, 'r, 'x) control_externals_scheme \<Rightarrow> ControlProviderSelection list \<Rightarrow> ControlProviderSelection list use_result" where
  "read_provider_selections X rows =
     collect_results (\<lambda>row.
       and_then (map_err (\<lambda>_. ControlCorrupt) (ControlProviderSelection_validate X row)) (\<lambda>_. Inr row)) rows"

definition capability_row_valid :: "ControlGeneration \<Rightarrow> bool" where
  "capability_row_valid row = (\<not>
     (cc_generation (gn_capability row) = 0
      \<or> \<not> valid_sha256 (cc_descriptor_digest (gn_capability row))
      \<or> (gn_capability_status row \<in> {Candidate, Abandoned} \<and> gn_capability_published_at_ms row \<noteq> None)
      \<or> (gn_capability_status row \<in> {Published, Retired} \<and> is_none_or (\<lambda>time. time = 0) (gn_capability_published_at_ms row))))"

definition generation_from_row ::
  "('v, 'r, 'x) control_store_externals_scheme \<Rightarrow> InstallationId \<Rightarrow> ControlGeneration \<Rightarrow> ControlGeneration use_result" where
  "generation_from_row X installation row =
     (let snapshot = gn_snapshot row in
      and_then (map_err (\<lambda>_. ControlCorrupt) (InstallationSnapshot_validate X snapshot)) (\<lambda>_.
      if is_installation snapshot \<noteq> installation then Inl ControlCorrupt
      else
      and_then (InstallationSnapshot_descriptor_digest X (control_snapshot_codec X) snapshot) (\<lambda>snapshot_digest.
      if snapshot_digest \<noteq> gn_snapshot_digest row then Inl ControlCorrupt
      else
      and_then (validate_snapshot_relations X snapshot (gn_package_lifecycles row)) (\<lambda>_.
      and_then (read_grants X (gn_grants row)) (\<lambda>grants.
      and_then (map_err (\<lambda>_. ControlCorrupt) (validate_grant_selections X grants snapshot)) (\<lambda>_.
      and_then (read_provider_selections X (gn_provider_selections row)) (\<lambda>provider_selections.
      and_then (map_err (\<lambda>_. ControlCorrupt) (validate_provider_selections X provider_selections snapshot)) (\<lambda>_.
      if \<not> capability_row_valid row then Inl ControlCorrupt else Inr row))))))))"

definition read_generation_from ::
  "('v, 'r, 'x) control_store_externals_scheme \<Rightarrow> control_store \<Rightarrow> InstallationId \<Rightarrow> u64 \<Rightarrow> ControlGeneration option use_result" where
  "read_generation_from X st installation generation =
     and_then (to_i64 generation) (\<lambda>_.
     case List.find (\<lambda>row. ControlGeneration_number row = generation) (cs_generations st) of
       None \<Rightarrow> Inr None
     | Some row \<Rightarrow> and_then (generation_from_row X installation row) (\<lambda>record. Inr (Some record)))"

text \<open>The relation \<open>selected_package\<close> up to a generation, and the aggregates of the history read.\<close>

definition selected_packages_through :: "control_store \<Rightarrow> u64 \<Rightarrow> (InstallationPackageSelection \<times> ControlPackageLifecycle) list" where
  "selected_packages_through st through_generation =
     concat (map (\<lambda>row. zip (is_packages (gn_snapshot row)) (gn_package_lifecycles row))
       (filter (\<lambda>row. ControlGeneration_number row \<le> through_generation) (cs_generations st)))"

definition group_max :: "(string \<times> u64) list \<Rightarrow> (string, u64) btree_map" where
  "group_max rows =
     fold (\<lambda>(package_id, generation) groups.
       bt_insert package_id (case bt_get groups package_id of None \<Rightarrow> generation | Some current \<Rightarrow> max current generation) groups)
       rows []"

definition read_projection_history :: "control_store \<Rightarrow> u64 \<Rightarrow> ControlProjectionHistory use_result" where
  "read_projection_history st through_generation =
     and_then (to_i64 through_generation) (\<lambda>_.
     let rows = selected_packages_through st through_generation;
         last_lifecycle_generation = fold (\<lambda>(_, lifecycle) acc. max (cl_lifecycle_generation lifecycle) acc) rows 0;
         package_state_generations = group_max (map (\<lambda>(package, _).
           (InstallationPackageSelection_package_id package, ip_state_generation package)) rows) in
     if length package_state_generations > MAX_CONTROL_HISTORY_PACKAGES then Inl ControlCorrupt
     else map_err (\<lambda>_. ControlCorrupt) (ControlProjectionHistory_new last_lifecycle_generation package_state_generations))"

section \<open>Effects\<close>

text \<open>The rows of an operation in the order of their sequence.\<close>

definition operation_effects :: "control_store \<Rightarrow> string \<Rightarrow> ControlEffectRecord list" where
  "operation_effects st operation_id =
     sort_key (\<lambda>row. ei_sequence (er_intent row)) (filter (\<lambda>row. er_operation_id row = operation_id) (cs_effects st))"

definition payload_length :: "('v, 'r, 'x) control_externals_scheme \<Rightarrow> ControlEffectIntent \<Rightarrow> nat" where
  "payload_length X intent = (case ControlEffectIntent_canonical_bytes X intent of Inl _ \<Rightarrow> 0 | Inr bytes \<Rightarrow> length bytes)"

definition validate_effect_inventory ::
  "('v, 'r, 'x) control_externals_scheme \<Rightarrow> ControlEffectRecord list \<Rightarrow> unit use_result" where
  "validate_effect_inventory X rows =
     (if length rows > MAX_CONTROL_EFFECTS
         \<or> sum_list (map (\<lambda>row. payload_length X (er_intent row)) rows) > MAX_CONTROL_EFFECT_PAYLOAD_TOTAL_BYTES
      then Inl ControlCorrupt else Inr ())"

definition application_from_row ::
  "('v, 'r, 'x) control_externals_scheme \<Rightarrow> ControlEffectRecord \<Rightarrow> unit use_result" where
  "application_from_row X row =
     (case er_application row of
        None \<Rightarrow> Inr ()
      | Some application \<Rightarrow>
          and_then (map_err (\<lambda>_. ControlCorrupt) (ControlAppliedEffect_canonical_bytes X application)) (\<lambda>_.
          if \<not> is_ok (ControlAppliedEffect_validate_for X application (er_intent row))
             \<or> map_err (\<lambda>_. ()) (ControlAppliedEffect_descriptor_digest X application)
                 \<noteq> ok_or () (er_evidence_digest row)
             \<or> er_evidence_digest row = None
          then Inl ControlCorrupt else Inr ()))"

definition effect_from_row ::
  "('v, 'r, 'x) control_store_externals_scheme \<Rightarrow> control_store \<Rightarrow> InstallationId \<Rightarrow> ControlOperationRecord
     \<Rightarrow> nat \<times> ControlEffectRecord \<Rightarrow> ControlEffectRecord use_result" where
  "effect_from_row X st installation operation = (\<lambda>(index, row).
     let intent = er_intent row; reviewed = co_reviewed operation;
         plan_digest = ReviewedControlOperation_plan_digest reviewed;
         action = ReviewedControlOperation_action reviewed in
     and_then (ok_or ControlCorrupt (checked_add (ro_expected_generation reviewed) 1)) (\<lambda>target_generation.
     let is_target = (ei_installation_generation intent = target_generation) in
     and_then (map_err (\<lambda>_. ControlCorrupt) (ControlEffectIntent_canonical_bytes X intent)) (\<lambda>_.
     and_then (map_err (\<lambda>_. ControlCorrupt) (ControlEffectIntent_descriptor_digest X intent)) (\<lambda>payload_digest.
     if unat (ei_sequence intent) \<noteq> index
        \<or> ei_installation intent \<noteq> cs_installation st
        \<or> ei_plan_digest intent \<noteq> plan_digest
        \<or> payload_digest \<noteq> er_payload_digest row
        \<or> (\<not> is_target \<and> (ro_expected_generation reviewed = 0
             \<or> ei_installation_generation intent \<noteq> ro_expected_generation reviewed))
     then Inl ControlCorrupt
     else
     and_then (map_err (\<lambda>_. ControlCorrupt) (ControlEffectIntent_validate_binding X intent installation plan_digest action))
       (\<lambda>_.
     if (case ei_subject intent of
           InstallationSubject expected _ _ \<Rightarrow> expected \<noteq> ro_expected_capability_generation reviewed | _ \<Rightarrow> False)
     then Inl ControlCorrupt
     else
     and_then (read_generation_from X st installation (ei_installation_generation intent)) (\<lambda>found.
     and_then (ok_or ControlCorrupt found) (\<lambda>generation.
     if \<not> ControlEffectSubject_matches_generation (ei_subject intent) (gn_snapshot generation)
            (gn_package_lifecycles generation) (gn_capability generation) is_target action
        \<or> \<not> ControlEffectOwner_matches_generation (ei_owner intent) (ei_subject intent) (ei_kind intent)
            (gn_provider_selections generation)
     then Inl ControlCorrupt
     else and_then (application_from_row X row) (\<lambda>_. Inr row))))))))"

text \<open>
  The read joins each effect row with its operation row; an operation without a row has none to join, so the
  result is empty.
\<close>

definition read_effects_from ::
  "('v, 'r, 'x) control_store_externals_scheme \<Rightarrow> control_store \<Rightarrow> InstallationId \<Rightarrow> string \<Rightarrow> ControlEffectRecord list use_result" where
  "read_effects_from X st installation operation_id =
     and_then (validate_effect_inventory X (operation_effects st operation_id)) (\<lambda>_.
     case List.find (\<lambda>row. ControlOperationRecord_id row = operation_id) (cs_operations st) of
       None \<Rightarrow> Inr []
     | Some operation \<Rightarrow>
         collect_results (effect_from_row X st installation operation)
           (List.enumerate 0 (operation_effects st operation_id)))"

definition effect_unfinished :: "ControlEffectRecord \<Rightarrow> bool" where
  "effect_unfinished row =
     ((ei_required (er_intent row) \<or> er_status row \<noteq> EffectRejected) \<and> er_status row \<noteq> EffectApplied)"

definition read_next_unfinished_effect ::
  "('v, 'r, 'x) control_store_externals_scheme \<Rightarrow> control_store \<Rightarrow> InstallationId \<Rightarrow> string \<Rightarrow> ControlEffectRecord option use_result" where
  "read_next_unfinished_effect X st installation operation_id =
     and_then (read_effects_from X st installation operation_id) (\<lambda>effects. Inr (List.find effect_unfinished effects))"

definition read_effect_by_key ::
  "('v, 'r, 'x) control_store_externals_scheme \<Rightarrow> control_store \<Rightarrow> InstallationId \<Rightarrow> string \<Rightarrow> ControlEffectRecord option use_result" where
  "read_effect_by_key X st installation idempotency_key =
     (case List.find (\<lambda>row. ei_idempotency_key (er_intent row) = idempotency_key) (cs_effects st) of
        None \<Rightarrow> Inr None
      | Some located \<Rightarrow>
          and_then (read_effects_from X st installation (er_operation_id located)) (\<lambda>effects.
            Inr (List.find (\<lambda>row. ei_idempotency_key (er_intent row) = idempotency_key) effects)))"

section \<open>Transitions\<close>

definition transition_identity_valid :: "ControlTransition \<Rightarrow> InstallationId \<Rightarrow> ReviewedControlOperation \<Rightarrow> u64 \<Rightarrow> bool" where
  "transition_identity_valid self installation operation target = (\<not>
     (tr_operation_id self \<noteq> ReviewedControlOperation_operation_id operation
      \<or> tr_plan_digest self \<noteq> ReviewedControlOperation_plan_digest operation
      \<or> is_installation (tr_snapshot self) \<noteq> installation
      \<or> is_generation (tr_snapshot self) \<noteq> target))"

definition transition_bounds_valid :: "ControlTransition \<Rightarrow> ReviewedControlOperation \<Rightarrow> u64 \<Rightarrow> bool" where
  "transition_bounds_valid self operation capability_target = (\<not>
     (cc_generation (tr_capability self) \<noteq> capability_target
      \<or> \<not> valid_sha256 (cc_descriptor_digest (tr_capability self))
      \<or> tr_committed_at_ms self < ro_reviewed_at_ms operation
      \<or> length (tr_grants self) > MAX_CONTROL_GRANTS
      \<or> length (tr_provider_selections self) > MAX_CONTROL_PROVIDER_SELECTIONS
      \<or> length (tr_effects self) > MAX_CONTROL_EFFECTS))"

definition transition_lifecycles_valid :: "ControlTransition \<Rightarrow> bool" where
  "transition_lifecycles_valid self = (\<not>
     (length (tr_package_lifecycles self) \<noteq> length (is_packages (tr_snapshot self))
      \<or> windows2_any (\<lambda>a b. cl_package_id a \<ge> cl_package_id b) (tr_package_lifecycles self)
      \<or> (\<exists>(lifecycle, package) \<in> set (zip (tr_package_lifecycles self) (is_packages (tr_snapshot self))).
           cl_package_id lifecycle \<noteq> InstallationPackageSelection_package_id package \<or> cl_lifecycle_generation lifecycle = 0)))"

text \<open>The loop over the effects carries the keys it has seen and the byte count, a \<open>usize\<close>.\<close>

definition admit_effect ::
  "('v, 'r, 'x) control_externals_scheme \<Rightarrow> ControlTransition \<Rightarrow> InstallationId \<Rightarrow> ReviewedControlOperation
     \<Rightarrow> string btree_set \<times> nat \<Rightarrow> nat \<times> ControlEffectIntent \<Rightarrow> (string btree_set \<times> nat) use_result" where
  "admit_effect X self installation operation = (\<lambda>(keys, payload_bytes) (index, effect).
     and_then (ControlEffectIntent_canonical_bytes X effect) (\<lambda>bytes.
     if payload_bytes + length bytes \<ge> 2 ^ 64 then Inl ControlInputInvalid
     else
     and_then (ControlEffectIntent_validate_binding X effect installation (tr_plan_digest self)
       (ReviewedControlOperation_action operation)) (\<lambda>_.
     if unat (ei_sequence effect) \<noteq> index
        \<or> ei_idempotency_key effect \<in> set keys
        \<or> (ei_installation_generation effect \<noteq> is_generation (tr_snapshot self)
            \<and> (ro_expected_generation operation = 0
                \<or> ei_installation_generation effect \<noteq> ro_expected_generation operation))
     then Inl ControlInputInvalid
     else Inr (ei_idempotency_key effect # keys, payload_bytes + length bytes))))"

definition ControlTransition_validate ::
  "('v, 'r, 'x) control_externals_scheme \<Rightarrow> ControlTransition \<Rightarrow> InstallationId \<Rightarrow> ReviewedControlOperation
     \<Rightarrow> unit use_result" where
  "ControlTransition_validate X self installation operation =
     and_then (ReviewedControlOperation_validate X operation) (\<lambda>_.
     and_then (InstallationSnapshot_validate X (tr_snapshot self)) (\<lambda>_.
     and_then (target_generation operation) (\<lambda>target.
     if \<not> transition_identity_valid self installation operation target then Inl ControlInputInvalid
     else
     and_then (target_capability_generation operation) (\<lambda>capability_target.
     if \<not> transition_bounds_valid self operation capability_target then Inl ControlInputInvalid
     else if \<not> transition_lifecycles_valid self then Inl ControlInputInvalid
     else
     and_then (validate_grant_selections X (tr_grants self) (tr_snapshot self)) (\<lambda>_.
     and_then (validate_provider_selections X (tr_provider_selections self) (tr_snapshot self)) (\<lambda>_.
     and_then (fold_result (admit_effect X self installation operation) ([], 0) (List.enumerate 0 (tr_effects self)))
       (\<lambda>(_, payload_bytes).
     if payload_bytes > MAX_CONTROL_EFFECT_PAYLOAD_TOTAL_BYTES then Inl ControlInputInvalid else Inr ())))))))"

definition transition_matches_projection :: "ControlTransition \<Rightarrow> ProjectedControlGeneration \<Rightarrow> bool" where
  "transition_matches_projection self projected = (\<not>
     (tr_snapshot self \<noteq> pg_snapshot projected
      \<or> tr_package_lifecycles self \<noteq> pg_package_lifecycles projected
      \<or> tr_grants self \<noteq> pg_grants projected
      \<or> tr_provider_selections self \<noteq> pg_provider_selections projected
      \<or> tr_capability self \<noteq> pg_capability projected
      \<or> tr_effects self \<noteq> pg_effects projected))"

definition ControlTransition_validate_projection ::
  "('v, 'r, 'x) control_externals_scheme \<Rightarrow> ControlTransition \<Rightarrow> ReviewedControlOperation \<Rightarrow> ControlGeneration option
     \<Rightarrow> ControlProjectionHistory \<Rightarrow> unit use_result" where
  "ControlTransition_validate_projection X self operation prior history =
     and_then (project_generation X operation prior history (tr_committed_at_ms self)) (\<lambda>projected.
     if \<not> transition_matches_projection self projected then Inl ControlInputInvalid else Inr ())"

definition effect_reference_valid :: "ControlTransition \<Rightarrow> ControlGeneration option \<Rightarrow> ControlEffectIntent \<Rightarrow> unit use_result" where
  "effect_reference_valid self prior effect =
     (let is_target = (ei_installation_generation effect = is_generation (tr_snapshot self));
          bound = \<lambda>snapshot lifecycles providers capability.
            if \<not> ControlEffectSubject_matches_generation (ei_subject effect) snapshot lifecycles capability is_target
                  (ei_operation_action effect)
               \<or> \<not> ControlEffectOwner_matches_generation (ei_owner effect) (ei_subject effect) (ei_kind effect) providers
            then Inl ControlInputInvalid else Inr () in
      if is_target then
        bound (tr_snapshot self) (tr_package_lifecycles self) (tr_provider_selections self) (tr_capability self)
      else
        (case prior of
           None \<Rightarrow> Inl ControlInputInvalid
         | Some generation \<Rightarrow>
             if ControlGeneration_number generation \<noteq> ei_installation_generation effect then Inl ControlInputInvalid
             else bound (gn_snapshot generation) (gn_package_lifecycles generation) (gn_provider_selections generation)
               (gn_capability generation)))"

definition ControlTransition_validate_effect_references ::
  "ControlTransition \<Rightarrow> ControlGeneration option \<Rightarrow> unit use_result" where
  "ControlTransition_validate_effect_references self prior = for_each (effect_reference_valid self prior) (tr_effects self)"

end
