(* ===== verification/Control_Authority.thy ===== *)
theory Control_Authority
  imports Control_Read
begin

text \<open>
  The authority a claimed effect carries, \<open>src/control_store/aggregate/effect_authority.rs\<close> with the data of
  \<open>src/control_store/model/effect_authority.rs\<close>: one committed package incarnation for the owners of packages and
  surfaces, with the exact provider selection for the runtime, and for the capability index the candidate
  generation with the terminal preparation of every enabled surface.
\<close>

section \<open>Data\<close>

record ControlPackageEffectAuthority =
  ax_generation_operation_id :: string
  ax_installation_generation :: u64
  ax_snapshot_digest :: string
  ax_committed_at_ms :: u64
  ax_host :: PluginPackageLockHost
  ax_package :: InstallationPackageSelection
  ax_lifecycle_generation :: u64
  ax_grant :: "ControlGrantSelection option"

record ControlRuntimeEffectAuthority =
  rx_package :: ControlPackageEffectAuthority
  rx_provider_selection :: ControlProviderSelection
  rx_grant_proposal_digest :: "string option"

datatype ControlCapabilitySurfaceState =
    PreparedSurface ControlAppliedEffect (st_observed_at_ms: u64)
  | DegradedSurface string string (st_observed_at_ms: u64)

record ControlCapabilitySurfaceAuthority =
  sx_intent :: ControlEffectIntent
  sx_state :: ControlCapabilitySurfaceState

record ControlCapabilityEffectAuthority =
  ix_generation :: ControlGeneration
  ix_materializations :: "ControlCapabilitySurfaceAuthority list"

datatype ControlEffectAuthority =
    CapabilityIndexAuthority ControlCapabilityEffectAuthority
  | InvocationLeasesAuthority ControlPackageEffectAuthority
  | RuntimeProviderAuthority ControlRuntimeEffectAuthority
  | FlowHostAuthority ControlPackageEffectAuthority
  | KnowledgeHostAuthority ControlPackageEffectAuthority
  | SkillHostAuthority ControlPackageEffectAuthority
  | UiHostAuthority ControlPackageEffectAuthority

text \<open>\<open>SurfaceIncarnation\<close>, whose derived order is the lexicographic one.\<close>

type_synonym SurfaceIncarnation = "string \<times> u64 \<times> PluginSurfaceRef"

record ControlStoreAuthority =
  sy_generations :: "ControlGeneration list"
  sy_operations :: "ControlOperationRecord list"
  sy_effects :: "ControlEffectRecord list"

section \<open>Inventory\<close>

definition authority_from ::
  "('v, 'r, 'x) control_store_externals_scheme \<Rightarrow> control_store \<Rightarrow> InstallationId \<Rightarrow> ControlStoreAuthority use_result" where
  "authority_from X st installation =
     (let generation_ids = sort (map ControlGeneration_number (cs_generations st));
          operation_ids = sort (map ControlOperationRecord_id (cs_operations st)) in
      and_then (collect_results (\<lambda>generation.
        and_then (read_generation_from X st installation generation) (ok_or ControlCorrupt)) generation_ids) (\<lambda>generations.
      and_then (collect_results (\<lambda>operation_id.
        and_then (read_operation_from X st installation operation_id) (ok_or ControlCorrupt)) operation_ids) (\<lambda>operations.
      and_then (collect_results (read_effects_from X st installation) operation_ids) (\<lambda>effects.
        Inr \<lparr>sy_generations = generations, sy_operations = operations, sy_effects = concat effects\<rparr>))))"

section \<open>Package authority\<close>

definition selection_grant_required ::
  "('v, 'r, 'x) control_externals_scheme \<Rightarrow> InstallationPackageSelection \<Rightarrow> bool use_result" where
  "selection_grant_required X package =
     and_then (map_err (\<lambda>_. ControlCorrupt) (selected_state X (lp_catalog (ip_package package)) (ip_selected_surfaces package)))
       (\<lambda>selected. Inr (ip_enabled package \<and> pc_surfaces (ps_permissions selected) \<noteq> []))"

definition authority_grant_matches ::
  "('v, 'r, 'x) control_externals_scheme \<Rightarrow> ControlPackageEffectAuthority \<Rightarrow> string \<Rightarrow> string \<Rightarrow> bool" where
  "authority_grant_matches X authority package_id package_digest =
     is_none_or (\<lambda>selection.
       ControlGrantSelection_package_id selection = package_id
       \<and> gr_package_digest (cg_grant selection) = package_digest
       \<and> PluginWorkspaceGrant_descriptor_digest X (cg_grant selection) = Inr (cg_grant_digest selection)
       \<and> is_ok (PluginWorkspaceGrant_validate_against X (cg_grant selection)
           (cr_permission_ceiling (vr_record (lp_catalog (ip_package (ax_package authority))))))) (ax_grant authority)"

definition authority_binds ::
  "('v, 'r, 'x) control_externals_scheme \<Rightarrow> ControlPackageEffectAuthority \<Rightarrow> ControlEffectIntent \<Rightarrow> string \<Rightarrow> u64 \<Rightarrow> string
     \<Rightarrow> string \<Rightarrow> PluginSurfaceRef option \<Rightarrow> bool" where
  "authority_binds X authority intent package_id lifecycle_generation package_digest manifest_digest surface =
     (let catalog_package = cr_package (vr_record (lp_catalog (ip_package (ax_package authority)))) in \<not>
     (\<not> valid_machine_id (ax_generation_operation_id authority)
      \<or> ax_installation_generation authority \<noteq> ei_installation_generation intent
      \<or> \<not> valid_sha256 (ax_snapshot_digest authority)
      \<or> ax_committed_at_ms authority = 0
      \<or> \<not> is_ok (PluginPackageLockHost_validate X (ax_host authority))
      \<or> \<not> is_ok (InstallationPackageSelection_validate X (ax_package authority))
      \<or> InstallationPackageSelection_package_id (ax_package authority) \<noteq> package_id
      \<or> ax_lifecycle_generation authority \<noteq> lifecycle_generation
      \<or> cp_sha256 catalog_package \<noteq> Some package_digest
      \<or> cp_manifest_sha256 catalog_package \<noteq> Some manifest_digest
      \<or> is_some_and (\<lambda>surface. surface \<notin> set (ip_selected_surfaces (ax_package authority))) surface
      \<or> \<not> authority_grant_matches X authority package_id package_digest))"

definition validate_package_authority ::
  "('v, 'r, 'x) control_externals_scheme \<Rightarrow> ControlPackageEffectAuthority \<Rightarrow> ControlEffectIntent \<Rightarrow> unit use_result" where
  "validate_package_authority X authority intent =
     (case ei_subject intent of
        InstallationSubject _ _ _ \<Rightarrow> Inl ControlCorrupt
      | PackageSubject package_id lifecycle_generation package_digest manifest_digest _ \<Rightarrow>
          if authority_binds X authority intent package_id lifecycle_generation package_digest manifest_digest None
          then Inr () else Inl ControlCorrupt
      | SurfaceSubject package_id lifecycle_generation package_digest manifest_digest _ surface \<Rightarrow>
          if authority_binds X authority intent package_id lifecycle_generation package_digest manifest_digest (Some surface)
          then Inr () else Inl ControlCorrupt)"

definition package_authority ::
  "('v, 'r, 'x) control_externals_scheme \<Rightarrow> ControlGeneration \<Rightarrow> ControlEffectIntent
     \<Rightarrow> ControlPackageEffectAuthority use_result" where
  "package_authority X generation intent =
     and_then (ok_or ControlCorrupt (ControlEffectSubject_package_identity (ei_subject intent)))
       (\<lambda>(package_id, lifecycle_generation).
     and_then (ok_or ControlCorrupt (InstallationSnapshot_package_selection (gn_snapshot generation) package_id)) (\<lambda>package.
     and_then (ok_or ControlCorrupt (find_lifecycle (gn_package_lifecycles generation) package_id)) (\<lambda>committed_lifecycle.
     if cl_lifecycle_generation committed_lifecycle \<noteq> lifecycle_generation
        \<or> (ei_kind intent = SurfacePrepare \<and> \<not> ip_enabled package)
     then Inl ControlCorrupt
     else
     let grant = map_option (\<lambda>index. gn_grants generation ! index)
           (binary_search_by ControlGrantSelection_package_id package_id (gn_grants generation)) in
     and_then (selection_grant_required X package) (\<lambda>required.
     if required \<noteq> (grant \<noteq> None) then Inl ControlCorrupt
     else
     let authority = \<lparr>ax_generation_operation_id = gn_operation_id generation,
           ax_installation_generation = is_generation (gn_snapshot generation),
           ax_snapshot_digest = gn_snapshot_digest generation, ax_committed_at_ms = gn_committed_at_ms generation,
           ax_host = is_host (gn_snapshot generation), ax_package = package,
           ax_lifecycle_generation = lifecycle_generation, ax_grant = grant\<rparr> in
     and_then (validate_package_authority X authority intent) (\<lambda>_. Inr authority)))))"

section \<open>Runtime authority\<close>

definition generation_has_grant :: "ControlGeneration \<Rightarrow> string \<Rightarrow> ControlGrantSelection \<Rightarrow> bool" where
  "generation_has_grant candidate package_id grant =
     (\<exists>selection \<in> set (gn_grants candidate).
        ControlGrantSelection_package_id selection = package_id
        \<and> cg_grant_digest selection = cg_grant_digest grant
        \<and> gr_package_digest (cg_grant selection) = gr_package_digest (cg_grant grant))"

definition reviewed_proposal ::
  "ReviewedControlOperation \<Rightarrow> string \<Rightarrow> ControlGrantSelection \<Rightarrow> PluginWorkspaceGrantProposal option" where
  "reviewed_proposal reviewed package_id grant =
     Option.bind (az_grant_transition (ro_authorization reviewed)) (\<lambda>transition.
       List.find (\<lambda>proposal. gp_package_id proposal = package_id
           \<and> gp_package_digest proposal = gr_package_digest (cg_grant grant))
         (List.map_filter wg_after (wc_changes (za_change_set transition))))"

fun grant_history_digest ::
  "('v, 'r, 'x) control_store_externals_scheme \<Rightarrow> control_store \<Rightarrow> InstallationId \<Rightarrow> string \<Rightarrow> ControlGrantSelection \<Rightarrow> u64 list
     \<Rightarrow> string option use_result" where
  "grant_history_digest X st installation package_id grant [] = Inl ControlCorrupt"
| "grant_history_digest X st installation package_id grant (generation_id # generation_ids) =
     and_then (read_generation_from X st installation generation_id) (\<lambda>found.
     and_then (ok_or ControlCorrupt found) (\<lambda>candidate.
     if \<not> generation_has_grant candidate package_id grant
     then grant_history_digest X st installation package_id grant generation_ids
     else
     and_then (read_operation_from X st installation (gn_operation_id candidate)) (\<lambda>found.
     and_then (ok_or ControlCorrupt found) (\<lambda>operation.
     case reviewed_proposal (co_reviewed operation) package_id grant of
       Some proposal \<Rightarrow>
         and_then (map_err (\<lambda>_. ControlCorrupt) (PluginWorkspaceGrantProposal_descriptor_digest X proposal)) (\<lambda>digest.
           Inr (Some digest))
     | None \<Rightarrow> grant_history_digest X st installation package_id grant generation_ids))))"

definition runtime_grant_proposal_digest ::
  "('v, 'r, 'x) control_store_externals_scheme \<Rightarrow> control_store \<Rightarrow> InstallationId \<Rightarrow> ControlGeneration \<Rightarrow> string
     \<Rightarrow> ControlGrantSelection option \<Rightarrow> string option use_result" where
  "runtime_grant_proposal_digest X st installation generation package_id grant =
     (case grant of
        None \<Rightarrow> Inr None
      | Some grant \<Rightarrow>
          and_then (to_i64 (is_generation (gn_snapshot generation))) (\<lambda>bound.
            grant_history_digest X st installation package_id grant
              (rev (sort (filter (\<lambda>id. id \<le> bound) (map ControlGeneration_number (cs_generations st)))))))"

definition runtime_authority ::
  "('v, 'r, 'x) control_store_externals_scheme \<Rightarrow> control_store \<Rightarrow> InstallationId \<Rightarrow> ControlGeneration \<Rightarrow> ControlEffectIntent
     \<Rightarrow> ControlRuntimeEffectAuthority use_result" where
  "runtime_authority X st installation generation intent =
     and_then (package_authority X generation intent) (\<lambda>package.
     and_then (ok_or ControlCorrupt (ControlEffectSubject_surface (ei_subject intent))) (\<lambda>surface.
     let package_id = InstallationPackageSelection_package_id (ax_package package) in
     and_then (ok_or ControlCorrupt (List.find (\<lambda>selection. ControlProviderSelection_package_id selection = package_id
         \<and> ControlProviderSelection_surface selection = surface) (gn_provider_selections generation))) (\<lambda>selection.
     if \<not> ControlEffectOwner_matches_generation (ei_owner intent) (ei_subject intent) (ei_kind intent) [selection]
     then Inl ControlCorrupt
     else
     and_then (runtime_grant_proposal_digest X st installation generation package_id (ax_grant package)) (\<lambda>digest.
       Inr \<lparr>rx_package = package, rx_provider_selection = selection, rx_grant_proposal_digest = digest\<rparr>))))"

section \<open>Capability index authority\<close>

definition validate_generation_grant_coverage ::
  "('v, 'r, 'x) control_externals_scheme \<Rightarrow> ControlGeneration \<Rightarrow> unit use_result" where
  "validate_generation_grant_coverage X generation =
     and_then (collect_results (\<lambda>package.
       and_then (selection_grant_required X package) (\<lambda>required.
         Inr (InstallationPackageSelection_package_id package, required))) (is_packages (gn_snapshot generation))) (\<lambda>rows.
     let expected = bs_collect (map fst (filter snd rows));
         actual = bs_collect (map ControlGrantSelection_package_id (gn_grants generation)) in
     if expected \<noteq> actual \<or> length actual \<noteq> length (gn_grants generation) then Inl ControlCorrupt else Inr ())"

definition lifecycle_index :: "ControlGeneration \<Rightarrow> (string, u64) btree_map" where
  "lifecycle_index generation =
     bt_collect (map (\<lambda>lifecycle. (cl_package_id lifecycle, cl_lifecycle_generation lifecycle)) (gn_package_lifecycles generation))"

definition expect_surface :: "string \<Rightarrow> u64 \<Rightarrow> SurfaceIncarnation btree_set \<Rightarrow> PluginSurfaceRef \<Rightarrow> SurfaceIncarnation btree_set use_result" where
  "expect_surface package_id lifecycle_generation expected surface =
     (let key = (package_id, lifecycle_generation, surface) in
      if key \<in> set expected then Inl ControlCorrupt else Inr (bs_collect (key # expected)))"

definition expect_package ::
  "(string, u64) btree_map \<Rightarrow> SurfaceIncarnation btree_set \<Rightarrow> InstallationPackageSelection \<Rightarrow> SurfaceIncarnation btree_set use_result" where
  "expect_package lifecycles expected package =
     and_then (ok_or ControlCorrupt (bt_get lifecycles (InstallationPackageSelection_package_id package))) (\<lambda>lifecycle_generation.
       fold_result (expect_surface (InstallationPackageSelection_package_id package) lifecycle_generation) expected
         (ip_selected_surfaces package))"

definition expected_surfaces :: "ControlGeneration \<Rightarrow> SurfaceIncarnation btree_set use_result" where
  "expected_surfaces generation =
     fold_result (expect_package (lifecycle_index generation)) []
       (filter ip_enabled (is_packages (gn_snapshot generation)))"

definition operation_targets :: "ControlOperationRecord list \<Rightarrow> (string, u64) btree_map use_result" where
  "operation_targets operations =
     and_then (collect_results (\<lambda>candidate.
       and_then (target_generation (co_reviewed candidate)) (\<lambda>target. Inr (ControlOperationRecord_id candidate, target)))
       (filter (\<lambda>candidate. co_committed_at_ms candidate \<noteq> None) operations)) (\<lambda>targets. Inr (bt_collect targets))"

type_synonym latest_surfaces = "(SurfaceIncarnation, u64 \<times> u32 \<times> ControlEffectRecord) btree_map"

definition observe_surface ::
  "SurfaceIncarnation btree_set \<Rightarrow> (string, u64) btree_map \<Rightarrow> u64 \<Rightarrow> ControlEffectRecord \<Rightarrow> latest_surfaces \<Rightarrow> ControlEffectRecord
     \<Rightarrow> latest_surfaces use_result" where
  "observe_surface expected targets current_target cutover latest candidate =
     (case ei_subject (er_intent candidate) of
        SurfaceSubject package_id lifecycle_generation _ _ _ surface \<Rightarrow>
          (let key = (package_id, lifecycle_generation, surface); sequence = ei_sequence (er_intent candidate) in
           if key \<notin> set expected then Inr latest
           else
           and_then (ok_or ControlCorrupt (bt_get targets (er_operation_id candidate))) (\<lambda>target.
           if target > current_target
              \<or> (er_operation_id candidate = er_operation_id cutover \<and> sequence \<ge> ei_sequence (er_intent cutover))
           then Inr latest
           else if is_none_or (\<lambda>(prior_target, prior_sequence, _). (target, sequence) > (prior_target, prior_sequence))
             (bt_get latest key)
           then Inr (bt_insert key (target, sequence, candidate) latest)
           else Inr latest))
      | _ \<Rightarrow> Inr latest)"

definition surface_state ::
  "('v, 'r, 'x) control_externals_scheme \<Rightarrow> ControlEffectRecord \<Rightarrow> u64 \<Rightarrow> ControlCapabilitySurfaceState use_result" where
  "surface_state X row observed_at_ms =
     (case er_status row of
        EffectApplied \<Rightarrow>
          and_then (ok_or ControlCorrupt (er_application row)) (\<lambda>application.
          and_then (map_err (\<lambda>_. ControlCorrupt) (ControlAppliedEffect_validate_for X application (er_intent row))) (\<lambda>_.
            Inr (PreparedSurface application observed_at_ms)))
      | EffectRejected \<Rightarrow>
          if \<not> ei_required (er_intent row) then
            and_then (ok_or ControlCorrupt (er_evidence_digest row)) (\<lambda>evidence_digest.
            and_then (ok_or ControlCorrupt (er_error_code row)) (\<lambda>code.
              Inr (DegradedSurface evidence_digest code observed_at_ms)))
          else Inl ControlCorrupt
      | _ \<Rightarrow> Inl ControlCorrupt)"

definition surface_state_valid :: "ControlEffectRecord \<Rightarrow> ControlCapabilitySurfaceState \<Rightarrow> bool" where
  "surface_state_valid row state =
     (case state of
        PreparedSurface _ observed_at_ms \<Rightarrow> observed_at_ms > 0
      | DegradedSurface evidence_digest code observed_at_ms \<Rightarrow>
          \<not> ei_required (er_intent row) \<and> valid_sha256 evidence_digest \<and> valid_error_code code \<and> observed_at_ms > 0)"

definition validate_materialization ::
  "ControlGeneration \<Rightarrow> SurfaceIncarnation \<Rightarrow> ControlEffectRecord \<Rightarrow> ControlCapabilitySurfaceState \<Rightarrow> unit use_result" where
  "validate_materialization generation = (\<lambda>(package_id, lifecycle_generation, surface) row state.
     (case ei_subject (er_intent row) of
        SurfaceSubject _ _ package_digest manifest_digest _ _ \<Rightarrow>
          and_then (ok_or ControlCorrupt (InstallationSnapshot_package_selection (gn_snapshot generation) package_id)) (\<lambda>package.
          let catalog_package = cr_package (vr_record (lp_catalog (ip_package package))); intent = er_intent row in
          if ei_installation intent \<noteq> is_installation (gn_snapshot generation)
             \<or> ei_kind intent \<noteq> SurfacePrepare
             \<or> ControlEffectSubject_package_identity (ei_subject intent) \<noteq> Some (package_id, lifecycle_generation)
             \<or> ControlEffectSubject_surface (ei_subject intent) \<noteq> Some surface
             \<or> cp_sha256 catalog_package \<noteq> Some package_digest
             \<or> cp_manifest_sha256 catalog_package \<noteq> Some manifest_digest
             \<or> \<not> ControlEffectOwner_matches_generation (ei_owner intent) (ei_subject intent) (ei_kind intent)
                 (gn_provider_selections generation)
             \<or> \<not> surface_state_valid row state
          then Inl ControlCorrupt else Inr ())
      | _ \<Rightarrow> Inl ControlCorrupt))"

definition materialize_surface ::
  "('v, 'r, 'x) control_externals_scheme \<Rightarrow> ControlGeneration \<Rightarrow> latest_surfaces \<Rightarrow> SurfaceIncarnation
     \<Rightarrow> ControlCapabilitySurfaceAuthority use_result" where
  "materialize_surface X generation latest key =
     and_then (ok_or ControlCorrupt (bt_get latest key)) (\<lambda>(_, _, row).
     if ei_kind (er_intent row) \<noteq> SurfacePrepare then Inl ControlCorrupt
     else
     and_then (ok_or ControlCorrupt (er_observed_at_ms row)) (\<lambda>observed_at_ms.
     and_then (surface_state X row observed_at_ms) (\<lambda>state.
     and_then (validate_materialization generation key row state) (\<lambda>_.
       Inr \<lparr>sx_intent = er_intent row, sx_state = state\<rparr>))))"

definition materializations_for ::
  "('v, 'r, 'x) control_externals_scheme \<Rightarrow> ControlGeneration \<Rightarrow> ControlOperationRecord \<Rightarrow> ControlEffectRecord
     \<Rightarrow> ControlOperationRecord list \<Rightarrow> ControlEffectRecord list \<Rightarrow> ControlCapabilitySurfaceAuthority list use_result" where
  "materializations_for X generation operation cutover operations effects =
     and_then (expected_surfaces generation) (\<lambda>expected.
     if expected = [] then Inr []
     else
     and_then (operation_targets operations) (\<lambda>targets.
     and_then (target_generation (co_reviewed operation)) (\<lambda>current_target.
     and_then (fold_result (observe_surface expected targets current_target cutover) [] effects) (\<lambda>latest.
       collect_results (materialize_surface X generation latest) expected))))"

definition capability_authority ::
  "('v, 'r, 'x) control_store_externals_scheme \<Rightarrow> control_store \<Rightarrow> InstallationId \<Rightarrow> ControlOperationRecord \<Rightarrow> ControlEffectRecord
     \<Rightarrow> ControlGeneration \<Rightarrow> ControlCapabilityEffectAuthority use_result" where
  "capability_authority X st installation operation effect generation =
     (if gn_operation_id generation \<noteq> ControlOperationRecord_id operation then Inl ControlCorrupt
      else
      and_then (target_generation (co_reviewed operation)) (\<lambda>target.
      if is_generation (gn_snapshot generation) \<noteq> target \<or> gn_capability_status generation \<noteq> Candidate
      then Inl ControlCorrupt
      else
      and_then (validate_generation_grant_coverage X generation) (\<lambda>_.
      and_then (authority_from X st installation) (\<lambda>history.
      and_then (materializations_for X generation operation effect (sy_operations history) (sy_effects history))
        (\<lambda>materializations. Inr \<lparr>ix_generation = generation, ix_materializations = materializations\<rparr>)))))"

section \<open>The claim\<close>

definition derive_claim_authority ::
  "('v, 'r, 'x) control_store_externals_scheme \<Rightarrow> control_store \<Rightarrow> InstallationId \<Rightarrow> ControlOperationRecord \<Rightarrow> ControlEffectRecord
     \<Rightarrow> ControlEffectAuthority use_result" where
  "derive_claim_authority X st installation operation effect =
     (let intent = er_intent effect in
      and_then (read_generation_from X st installation (ei_installation_generation intent)) (\<lambda>found.
      and_then (ok_or ControlCorrupt found) (\<lambda>generation.
      let for_package = \<lambda>wrap. and_then (package_authority X generation intent) (\<lambda>authority. Inr (wrap authority)) in
      case ei_owner intent of
        CapabilityIndex \<Rightarrow>
          and_then (capability_authority X st installation operation effect generation) (\<lambda>authority.
            Inr (CapabilityIndexAuthority authority))
      | InvocationLeases \<Rightarrow> for_package InvocationLeasesAuthority
      | RuntimeProvider _ _ \<Rightarrow>
          and_then (runtime_authority X st installation generation intent) (\<lambda>authority.
            Inr (RuntimeProviderAuthority authority))
      | FlowHost \<Rightarrow> for_package FlowHostAuthority
      | KnowledgeHost \<Rightarrow> for_package KnowledgeHostAuthority
      | SkillHost \<Rightarrow> for_package SkillHostAuthority
      | UiHost \<Rightarrow> for_package UiHostAuthority)))"

end
