(* ===== verification/Control_Store.thy ===== *)
theory Control_Store
  imports Control_Authority Machine
begin

text \<open>
  The mutations of the control store, \<open>src/control_store/aggregate.rs\<close>, \<open>aggregate/generation.rs\<close> and
  \<open>aggregate/dispatch.rs\<close>. Every mutation is one immediate transaction: it returns the next state with its result,
  or an error, and then the state before it is the state after it. The uniqueness constraints of the schema and the
  bound of a package row are the conflicts an insertion can meet; its other constraints repeat checks the code has
  made before it writes.
\<close>

section \<open>Rows\<close>

record ClaimedControlEffect =
  cz_intent :: ControlEffectIntent
  cz_authority :: ControlEffectAuthority
  cz_attempt :: u32
  cz_claim_token :: string
  cz_lease_until_ms :: u64

definition MAX_SELECTED_PACKAGE_BYTES :: nat where
  "MAX_SELECTED_PACKAGE_BYTES = 1048576"

definition update_operations ::
  "(ControlOperationRecord \<Rightarrow> bool) \<Rightarrow> (ControlOperationRecord \<Rightarrow> ControlOperationRecord) \<Rightarrow> control_store \<Rightarrow> control_store" where
  "update_operations P f st = st\<lparr>cs_operations := map (\<lambda>row. if P row then f row else row) (cs_operations st)\<rparr>"

definition update_generations ::
  "(ControlGeneration \<Rightarrow> bool) \<Rightarrow> (ControlGeneration \<Rightarrow> ControlGeneration) \<Rightarrow> control_store \<Rightarrow> control_store" where
  "update_generations P f st = st\<lparr>cs_generations := map (\<lambda>row. if P row then f row else row) (cs_generations st)\<rparr>"

definition update_effects ::
  "(ControlEffectRecord \<Rightarrow> bool) \<Rightarrow> (ControlEffectRecord \<Rightarrow> ControlEffectRecord) \<Rightarrow> control_store \<Rightarrow> control_store" where
  "update_effects P f st = st\<lparr>cs_effects := map (\<lambda>row. if P row then f row else row) (cs_effects st)\<rparr>"

section \<open>Registration and cancellation\<close>

definition reviewed_row :: "ReviewedControlOperation \<Rightarrow> ControlOperationRecord" where
  "reviewed_row reviewed =
     \<lparr>co_reviewed = reviewed, co_status = Reviewed, co_committed_at_ms = None, co_completed_at_ms = None,
      co_result_digest = None\<rparr>"

definition register_operation ::
  "('v, 'r, 'x) control_store_externals_scheme \<Rightarrow> control_store \<Rightarrow> InstallationId \<Rightarrow> ReviewedControlOperation
     \<Rightarrow> (control_store \<times> ControlOperationRecord) use_result" where
  "register_operation X st installation reviewed =
     (let operation_id = ReviewedControlOperation_operation_id reviewed in
      and_then (ReviewedControlOperation_validate_for_installation X reviewed installation) (\<lambda>_.
      and_then (ReviewedControlOperation_canonical_plan_bytes X reviewed) (\<lambda>_.
      and_then (ControlAuthorizationEvidence_descriptor_digest X (ro_authorization reviewed)) (\<lambda>_.
      and_then (open_verified st installation) (\<lambda>_.
      and_then (read_operation_from X st installation operation_id) (\<lambda>found.
      case found of
        Some existing \<Rightarrow> if co_reviewed existing = reviewed then Inr (st, existing) else Inl ControlConflict
      | None \<Rightarrow>
          if cs_current_generation st \<noteq> ro_expected_generation reviewed
             \<or> cs_published_capability_generation st \<noteq> ro_expected_capability_generation reviewed
          then Inl ControlGenerationChanged
          else
          and_then (to_i64 (ro_expected_generation reviewed)) (\<lambda>_.
          and_then (and_then (target_generation reviewed) to_i64) (\<lambda>_.
          and_then (to_i64 (ro_expected_capability_generation reviewed)) (\<lambda>_.
          and_then (and_then (target_capability_generation reviewed) to_i64) (\<lambda>_.
          and_then (to_i64 (ro_reviewed_at_ms reviewed)) (\<lambda>_.
          let st' = st\<lparr>cs_operations := cs_operations st @ [reviewed_row reviewed]\<rparr> in
          and_then (read_operation_from X st' installation operation_id) (\<lambda>found.
          and_then (ok_or ControlCorrupt found) (\<lambda>record. Inr (st', record))))))))))))))"

definition validate_terminal_request :: "string \<Rightarrow> string \<Rightarrow> string \<Rightarrow> u64 \<Rightarrow> unit use_result" where
  "validate_terminal_request operation_id plan_digest result_digest completed_at_ms =
     (if \<not> valid_machine_id operation_id \<or> \<not> valid_sha256 plan_digest \<or> \<not> valid_sha256 result_digest \<or> completed_at_ms = 0
      then Inl ControlInputInvalid else Inr ())"

definition read_required_operation ::
  "('v, 'r, 'x) control_store_externals_scheme \<Rightarrow> control_store \<Rightarrow> InstallationId \<Rightarrow> use_error \<Rightarrow> string
     \<Rightarrow> ControlOperationRecord use_result" where
  "read_required_operation X st installation missing operation_id =
     and_then (read_operation_from X st installation operation_id) (ok_or missing)"

definition operation_in_state :: "string \<Rightarrow> ControlOperationStatus \<Rightarrow> ControlOperationRecord \<Rightarrow> bool" where
  "operation_in_state operation_id status row = (ControlOperationRecord_id row = operation_id \<and> co_status row = status)"

definition finish_operation ::
  "ControlOperationStatus \<Rightarrow> u64 \<Rightarrow> string \<Rightarrow> ControlOperationRecord \<Rightarrow> ControlOperationRecord" where
  "finish_operation status completed_at_ms result_digest row =
     row\<lparr>co_status := status, co_completed_at_ms := Some completed_at_ms, co_result_digest := Some result_digest\<rparr>"

definition cancel_operation ::
  "('v, 'r, 'x) control_store_externals_scheme \<Rightarrow> control_store \<Rightarrow> InstallationId \<Rightarrow> string \<Rightarrow> string \<Rightarrow> string \<Rightarrow> u64
     \<Rightarrow> (control_store \<times> ControlOperationRecord) use_result" where
  "cancel_operation X st installation operation_id plan_digest result_digest cancelled_at_ms =
     and_then (validate_terminal_request operation_id plan_digest result_digest cancelled_at_ms) (\<lambda>_.
     and_then (open_verified st installation) (\<lambda>_.
     and_then (read_required_operation X st installation ControlConflict operation_id) (\<lambda>current.
     if ReviewedControlOperation_plan_digest (co_reviewed current) \<noteq> plan_digest then Inl ControlConflict
     else if co_status current = OperationCancelled then
       (if co_completed_at_ms current = Some cancelled_at_ms \<and> co_result_digest current = Some result_digest
        then Inr (st, current) else Inl ControlConflict)
     else if co_status current \<noteq> Reviewed \<or> cancelled_at_ms < ro_reviewed_at_ms (co_reviewed current) then Inl ControlConflict
     else
     and_then (to_i64 cancelled_at_ms) (\<lambda>_.
     let st' = update_operations (operation_in_state operation_id Reviewed)
           (finish_operation OperationCancelled cancelled_at_ms result_digest) st in
     and_then (read_required_operation X st' installation ControlCorrupt operation_id) (\<lambda>record. Inr (st', record))))))"

section \<open>Commit\<close>

definition generation_row :: "ControlTransition \<Rightarrow> string \<Rightarrow> ControlGeneration" where
  "generation_row transition snapshot_digest =
     \<lparr>gn_operation_id = tr_operation_id transition, gn_snapshot = tr_snapshot transition,
      gn_snapshot_digest = snapshot_digest, gn_package_lifecycles = tr_package_lifecycles transition,
      gn_grants = tr_grants transition, gn_provider_selections = tr_provider_selections transition,
      gn_capability = tr_capability transition, gn_capability_status = Candidate,
      gn_capability_published_at_ms = None, gn_committed_at_ms = tr_committed_at_ms transition\<rparr>"

definition effect_row :: "string \<Rightarrow> ControlEffectIntent \<Rightarrow> string \<Rightarrow> ControlEffectRecord" where
  "effect_row operation_id intent payload_digest =
     \<lparr>er_operation_id = operation_id, er_intent = intent, er_payload_digest = payload_digest, er_status = EffectPending,
      er_attempt = 0, er_claim_owner = None, er_claim_token = None, er_lease_until_ms = None, er_application = None,
      er_evidence_digest = None, er_error_code = None, er_observed_at_ms = None, er_retry_not_before_ms = None\<rparr>"

definition insert_selected_package ::
  "('v, 'r, 'x) control_store_externals_scheme \<Rightarrow> InstallationPackageSelection \<times> ControlPackageLifecycle \<Rightarrow> unit use_result" where
  "insert_selected_package X = (\<lambda>(package, lifecycle).
     and_then (ok_or ControlInputInvalid (locked_package_json X (ip_package package))) (\<lambda>package_json.
     and_then (to_i64 (cl_lifecycle_generation lifecycle)) (\<lambda>_.
     and_then (to_i64 (ip_state_generation package)) (\<lambda>_.
     if package_json = [] \<or> length package_json > MAX_SELECTED_PACKAGE_BYTES then Inl ControlConflict else Inr ()))))"

definition insert_effect ::
  "('v, 'r, 'x) control_store_externals_scheme \<Rightarrow> string \<Rightarrow> control_store \<Rightarrow> ControlEffectIntent \<Rightarrow> control_store use_result" where
  "insert_effect X operation_id st effect =
     and_then (ControlEffectIntent_canonical_bytes X effect) (\<lambda>_.
     and_then (ControlEffectIntent_descriptor_digest X effect) (\<lambda>payload_digest.
     and_then (to_i64 (ei_installation_generation effect)) (\<lambda>_.
     and_then (case ControlEffectSubject_package_identity (ei_subject effect) of
         None \<Rightarrow> Inr 0 | Some (_, lifecycle_generation) \<Rightarrow> to_i64 lifecycle_generation) (\<lambda>_.
     if \<exists>row \<in> set (cs_effects st). ei_idempotency_key (er_intent row) = ei_idempotency_key effect
          \<or> er_operation_id row = operation_id \<and> ei_sequence (er_intent row) = ei_sequence effect
     then Inl ControlConflict
     else Inr (st\<lparr>cs_effects := cs_effects st @ [effect_row operation_id effect payload_digest]\<rparr>)))))"

definition insert_generation ::
  "('v, 'r, 'x) control_store_externals_scheme \<Rightarrow> control_store \<Rightarrow> ControlTransition \<Rightarrow> control_store use_result" where
  "insert_generation X st transition =
     (let snapshot = tr_snapshot transition in
      and_then (InstallationSnapshot_canonical_bytes X (control_snapshot_codec X) snapshot) (\<lambda>_.
      and_then (InstallationSnapshot_descriptor_digest X (control_snapshot_codec X) snapshot) (\<lambda>snapshot_digest.
      and_then (to_i64 (is_generation snapshot)) (\<lambda>_.
      and_then (to_i64 (tr_committed_at_ms transition)) (\<lambda>_.
      if \<exists>row \<in> set (cs_generations st). ControlGeneration_number row = is_generation snapshot
           \<or> gn_operation_id row = tr_operation_id transition
      then Inl ControlConflict
      else
      and_then (for_each (insert_selected_package X) (zip (is_packages snapshot) (tr_package_lifecycles transition))) (\<lambda>_.
      and_then (for_each (\<lambda>root. and_then (to_i64 (ir_installed_at_ms root)) (\<lambda>_. Inr ())) (is_roots snapshot)) (\<lambda>_.
      and_then (for_each (\<lambda>grant.
        and_then (PluginWorkspaceGrant_canonical_bytes X (cg_grant grant)) (\<lambda>_.
        and_then (to_i64 (cg_receipt_revision grant)) (\<lambda>_. Inr ()))) (tr_grants transition)) (\<lambda>_.
      and_then (to_i64 (cc_generation (tr_capability transition))) (\<lambda>_.
        fold_result (insert_effect X (tr_operation_id transition))
          (st\<lparr>cs_generations := cs_generations st @ [generation_row transition snapshot_digest]\<rparr>)
          (tr_effects transition))))))))))"

definition generation_matches_transition :: "ControlGeneration \<Rightarrow> ControlTransition \<Rightarrow> bool" where
  "generation_matches_transition generation transition =
     (gn_operation_id generation = tr_operation_id transition
      \<and> gn_snapshot generation = tr_snapshot transition
      \<and> gn_package_lifecycles generation = tr_package_lifecycles transition
      \<and> gn_grants generation = tr_grants transition
      \<and> gn_provider_selections generation = tr_provider_selections transition
      \<and> gn_capability generation = tr_capability transition
      \<and> gn_committed_at_ms generation = tr_committed_at_ms transition)"

definition read_prior ::
  "('v, 'r, 'x) control_store_externals_scheme \<Rightarrow> control_store \<Rightarrow> InstallationId \<Rightarrow> u64 \<Rightarrow> ControlGeneration option use_result" where
  "read_prior X st installation expected_generation =
     (if expected_generation = 0 then Inr None
      else
      and_then (read_generation_from X st installation expected_generation) (\<lambda>found.
      and_then (ok_or ControlCorrupt found) (\<lambda>generation. Inr (Some generation))))"

text \<open>The replay of a transition that has been committed.\<close>

definition replay_transition ::
  "('v, 'r, 'x) control_store_externals_scheme \<Rightarrow> control_store \<Rightarrow> InstallationId \<Rightarrow> ControlOperationRecord \<Rightarrow> ControlTransition
     \<Rightarrow> (control_store \<times> ControlGeneration) use_result" where
  "replay_transition X st installation operation transition =
     (if co_status operation \<in> {EffectsPending, OperationCompleted, OperationRejected} then
        and_then (target_generation (co_reviewed operation)) (\<lambda>target.
        and_then (read_generation_from X st installation target) (\<lambda>found.
        and_then (ok_or ControlCorrupt found) (\<lambda>existing.
        and_then (read_effects_from X st installation (tr_operation_id transition)) (\<lambda>effects.
        if generation_matches_transition existing transition \<and> map er_intent effects = tr_effects transition
        then Inr (st, existing) else Inl ControlConflict))))
      else Inl ControlConflict)"

text \<open>The writes of a transition that commits: rows, compare-and-swap of the cursor, status.\<close>

definition admit_transition ::
  "('v, 'r, 'x) control_store_externals_scheme \<Rightarrow> control_store \<Rightarrow> InstallationId \<Rightarrow> ControlOperationRecord \<Rightarrow> ControlTransition
     \<Rightarrow> (control_store \<times> ControlGeneration) use_result" where
  "admit_transition X st installation operation transition =
     (let reviewed = co_reviewed operation in
      if cs_current_generation st \<noteq> ro_expected_generation reviewed
         \<or> cs_published_capability_generation st \<noteq> ro_expected_capability_generation reviewed
      then Inl ControlGenerationChanged
      else if \<exists>row \<in> set (cs_operations st). co_status row = EffectsPending
           \<and> ControlOperationRecord_id row \<noteq> tr_operation_id transition
      then Inl ControlConflict
      else
      and_then (insert_generation X st transition) (\<lambda>st.
      and_then (to_i64 (ro_expected_generation reviewed)) (\<lambda>expected.
      and_then (to_i64 (ro_expected_capability_generation reviewed)) (\<lambda>expected_capability.
      and_then (and_then (target_generation reviewed) to_i64) (\<lambda>target.
      if \<not> (cs_current_generation st = expected \<and> cs_published_capability_generation st = expected_capability)
      then Inl ControlGenerationChanged
      else
      and_then (to_i64 (tr_committed_at_ms transition)) (\<lambda>_.
      let st' = update_operations (operation_in_state (tr_operation_id transition) Reviewed)
            (\<lambda>row. row\<lparr>co_status := EffectsPending, co_committed_at_ms := Some (tr_committed_at_ms transition)\<rparr>)
            (st\<lparr>cs_current_generation := target\<rparr>) in
      and_then (read_generation_from X st' installation target) (\<lambda>found.
      and_then (ok_or ControlCorrupt found) (\<lambda>generation. Inr (st', generation)))))))))"

definition commit_transition ::
  "('v, 'r, 'x) control_store_externals_scheme \<Rightarrow> control_store \<Rightarrow> InstallationId \<Rightarrow> ControlTransition
     \<Rightarrow> (control_store \<times> ControlGeneration) use_result" where
  "commit_transition X st installation transition =
     and_then (open_verified st installation) (\<lambda>_.
     and_then (read_required_operation X st installation ControlConflict (tr_operation_id transition)) (\<lambda>operation.
     and_then (ControlTransition_validate X transition installation (co_reviewed operation)) (\<lambda>_.
     and_then (read_prior X st installation (ro_expected_generation (co_reviewed operation))) (\<lambda>prior.
     and_then (read_projection_history st (ro_expected_generation (co_reviewed operation))) (\<lambda>projection_history.
     and_then (ControlTransition_validate_projection X transition (co_reviewed operation) prior projection_history) (\<lambda>_.
     and_then (validate_snapshot_transition X (co_reviewed operation) (map_option gn_snapshot prior) (tr_snapshot transition)) (\<lambda>_.
     and_then (ControlTransition_validate_effect_references transition prior) (\<lambda>_.
     if co_status operation \<noteq> Reviewed then replay_transition X st installation operation transition
     else admit_transition X st installation operation transition))))))))"

definition project_transition ::
  "('v, 'r, 'x) control_store_externals_scheme \<Rightarrow> control_store \<Rightarrow> InstallationId \<Rightarrow> string \<Rightarrow> u64
     \<Rightarrow> (ReviewedControlOperation \<times> ControlTransition) use_result" where
  "project_transition X st installation operation_id committed_at_ms =
     (if \<not> valid_machine_id operation_id \<or> committed_at_ms = 0 then Inl ControlInputInvalid
      else
      and_then (open_verified st installation) (\<lambda>_.
      and_then (read_required_operation X st installation ControlConflict operation_id) (\<lambda>operation.
      let reviewed = co_reviewed operation in
      if co_status operation \<noteq> Reviewed then Inl ControlConflict
      else if cs_current_generation st \<noteq> ro_expected_generation reviewed
         \<or> cs_published_capability_generation st \<noteq> ro_expected_capability_generation reviewed
      then Inl ControlGenerationChanged
      else
      and_then (read_prior X st installation (ro_expected_generation reviewed)) (\<lambda>prior.
      and_then (read_projection_history st (ro_expected_generation reviewed)) (\<lambda>history.
      and_then (project_generation X reviewed prior history committed_at_ms) (\<lambda>projected.
        Inr (reviewed,
          \<lparr>tr_operation_id = ReviewedControlOperation_operation_id reviewed,
           tr_plan_digest = ReviewedControlOperation_plan_digest reviewed, tr_snapshot = pg_snapshot projected,
           tr_package_lifecycles = pg_package_lifecycles projected, tr_grants = pg_grants projected,
           tr_provider_selections = pg_provider_selections projected, tr_capability = pg_capability projected,
           tr_effects = pg_effects projected, tr_committed_at_ms = committed_at_ms\<rparr>)))))))"

section \<open>Claims\<close>

definition effect_with_key :: "string \<Rightarrow> ControlEffectRecord \<Rightarrow> bool" where
  "effect_with_key key row = (ei_idempotency_key (er_intent row) = key)"

text \<open>The match on the status of the next unfinished effect: whether it may be claimed now.\<close>

definition claim_admission :: "ControlEffectRecord \<Rightarrow> ControlEffectClaim \<Rightarrow> bool use_result" where
  "claim_admission effect claim =
     (case er_status effect of
        EffectDeferred \<Rightarrow> Inr (\<not> is_some_and (\<lambda>not_before. ec_now_ms claim < not_before) (er_retry_not_before_ms effect))
      | EffectClaimed \<Rightarrow>
          if is_some_and (\<lambda>lease. lease \<ge> ec_now_ms claim) (er_lease_until_ms effect) then Inr False
          else if \<not> ec_explicit_reconciliation claim then Inl ControlReconciliationRequired
          else Inr True
      | EffectUnknown \<Rightarrow> if \<not> ec_explicit_reconciliation claim then Inl ControlReconciliationRequired else Inr True
      | EffectRejected \<Rightarrow> if \<not> ec_explicit_reconciliation claim then Inl ControlReconciliationRequired else Inr True
      | EffectPending \<Rightarrow> Inr True
      | EffectApplied \<Rightarrow> Inl ControlCorrupt)"

definition claimed_row :: "ControlEffectClaim \<Rightarrow> u32 \<Rightarrow> ControlEffectRecord \<Rightarrow> ControlEffectRecord" where
  "claimed_row claim attempt row =
     row\<lparr>er_status := EffectClaimed, er_attempt := attempt, er_claim_owner := Some (ec_worker_id claim),
         er_claim_token := Some (ec_claim_token claim), er_lease_until_ms := Some (ec_lease_until_ms claim),
         er_application := None, er_evidence_digest := None, er_error_code := None, er_observed_at_ms := None,
         er_retry_not_before_ms := None\<rparr>"

text \<open>The claim of the admitted effect.\<close>

definition claim_effect ::
  "('v, 'r, 'x) control_store_externals_scheme \<Rightarrow> control_store \<Rightarrow> InstallationId \<Rightarrow> ControlEffectClaim \<Rightarrow> ControlOperationRecord
     \<Rightarrow> ControlEffectRecord \<Rightarrow> (control_store \<times> ClaimedControlEffect) use_result" where
  "claim_effect X st installation claim operation effect =
     and_then (ok_or ControlConflict (checked_add (er_attempt effect) 1)) (\<lambda>attempt.
     and_then (derive_claim_authority X st installation operation effect) (\<lambda>authority.
     and_then (to_i64 (ec_lease_until_ms claim)) (\<lambda>_.
     let key = ei_idempotency_key (er_intent effect) in
     if \<exists>row \<in> set (cs_effects st). \<not> effect_with_key key row \<and> er_claim_token row = Some (ec_claim_token claim)
     then Inl ControlConflict
     else Inr (update_effects (effect_with_key key) (claimed_row claim attempt) st,
       \<lparr>cz_intent = er_intent effect, cz_authority = authority, cz_attempt = attempt,
        cz_claim_token = ec_claim_token claim, cz_lease_until_ms = ec_lease_until_ms claim\<rparr>))))"

definition claim_next_effect ::
  "('v, 'r, 'x) control_store_externals_scheme \<Rightarrow> control_store \<Rightarrow> InstallationId \<Rightarrow> ControlEffectClaim
     \<Rightarrow> (control_store \<times> ClaimedControlEffect option) use_result" where
  "claim_next_effect X st installation claim =
     and_then (ControlEffectClaim_validate claim) (\<lambda>_.
     and_then (open_verified st installation) (\<lambda>_.
     and_then (read_required_operation X st installation ControlConflict (ec_operation_id claim)) (\<lambda>operation.
     if co_status operation \<noteq> EffectsPending then Inl ControlConflict
     else
     and_then (read_next_unfinished_effect X st installation (ec_operation_id claim)) (\<lambda>next.
     case next of
       None \<Rightarrow> Inr (st, None)
     | Some effect \<Rightarrow>
         and_then (claim_admission effect claim) (\<lambda>admitted.
         if \<not> admitted then Inr (st, None)
         else
         and_then (claim_effect X st installation claim operation effect) (\<lambda>(st', claimed). Inr (st', Some claimed)))))))"

section \<open>Observations\<close>

text \<open>The three updates of \<open>publish_capability_cutover\<close>: retire, publish, advance the cursor.\<close>

definition retire_published :: "control_store \<Rightarrow> u64 \<Rightarrow> control_store use_result" where
  "retire_published st expected_capability_generation =
     (let to_retire = \<lambda>row. cc_generation (gn_capability row) = expected_capability_generation
            \<and> gn_capability_status row = Published in
      if expected_capability_generation > 0 then
        and_then (to_i64 expected_capability_generation) (\<lambda>_.
        if length (filter to_retire (cs_generations st)) \<noteq> 1 then Inl ControlConflict
        else Inr (update_generations to_retire (\<lambda>row. row\<lparr>gn_capability_status := Retired\<rparr>) st))
      else Inr st)"

definition is_candidate_row :: "u64 \<Rightarrow> u64 \<Rightarrow> string \<Rightarrow> ControlGeneration \<Rightarrow> bool" where
  "is_candidate_row capability_generation installation_generation descriptor_digest row =
     (cc_generation (gn_capability row) = capability_generation
      \<and> ControlGeneration_number row = installation_generation
      \<and> cc_descriptor_digest (gn_capability row) = descriptor_digest
      \<and> gn_capability_status row = Candidate)"

definition publish_candidate :: "control_store \<Rightarrow> u64 \<Rightarrow> u64 \<Rightarrow> string \<Rightarrow> u64 \<Rightarrow> control_store use_result" where
  "publish_candidate st capability_generation installation_generation descriptor_digest published_at_ms =
     and_then (to_i64 capability_generation) (\<lambda>_.
     and_then (to_i64 installation_generation) (\<lambda>_.
     and_then (to_i64 published_at_ms) (\<lambda>_.
     if length (filter (is_candidate_row capability_generation installation_generation descriptor_digest) (cs_generations st)) \<noteq> 1
     then Inl ControlConflict
     else Inr (update_generations (is_candidate_row capability_generation installation_generation descriptor_digest)
       (\<lambda>row. row\<lparr>gn_capability_status := Published, gn_capability_published_at_ms := Some published_at_ms\<rparr>) st))))"

definition publish_capability_cutover ::
  "control_store \<Rightarrow> ControlEffectIntent \<Rightarrow> u64 \<Rightarrow> control_store use_result" where
  "publish_capability_cutover st intent published_at_ms =
     (case ei_subject intent of
        InstallationSubject expected_capability_generation capability_generation descriptor_digest \<Rightarrow>
          and_then (retire_published st expected_capability_generation) (\<lambda>st.
          and_then (publish_candidate st capability_generation (ei_installation_generation intent) descriptor_digest
            published_at_ms) (\<lambda>st.
          and_then (to_i64 expected_capability_generation) (\<lambda>_.
          if \<not> (cs_current_generation st = ei_installation_generation intent
                \<and> cs_published_capability_generation st = expected_capability_generation)
          then Inl ControlGenerationChanged
          else Inr (st\<lparr>cs_published_capability_generation := capability_generation\<rparr>))))
      | _ \<Rightarrow> Inl ControlCorrupt)"

definition capability_cutover_applied :: "control_store \<Rightarrow> string \<Rightarrow> bool" where
  "capability_cutover_applied st operation_id =
     (\<exists>row \<in> set (cs_effects st). er_operation_id row = operation_id
        \<and> ei_kind (er_intent row) = CapabilityCutover \<and> er_status row = EffectApplied)"

definition earliest_observation_ms :: "control_store \<Rightarrow> string \<Rightarrow> u32 \<Rightarrow> u64 \<Rightarrow> u64" where
  "earliest_observation_ms st operation_id sequence committed_at_ms =
     fold max (List.map_filter er_observed_at_ms (filter (\<lambda>row. er_operation_id row = operation_id
       \<and> ei_sequence (er_intent row) < sequence) (cs_effects st))) committed_at_ms"

definition observation_replays :: "ControlEffectRecord \<Rightarrow> ControlEffectObservation \<Rightarrow> string \<Rightarrow> bool" where
  "observation_replays current observation evidence_digest =
     (er_status current = ControlEffectOutcome_status (eo_outcome observation)
      \<and> er_claim_token current = Some (eo_claim_token observation)
      \<and> er_application current = eo_application observation
      \<and> er_evidence_digest current = Some evidence_digest
      \<and> er_error_code current = eo_error_code observation
      \<and> er_observed_at_ms current = Some (eo_observed_at_ms observation)
      \<and> er_retry_not_before_ms current = eo_retry_not_before_ms observation)"

definition observed_row :: "ControlEffectObservation \<Rightarrow> string \<Rightarrow> ControlEffectRecord \<Rightarrow> ControlEffectRecord" where
  "observed_row observation evidence_digest row =
     row\<lparr>er_status := ControlEffectOutcome_status (eo_outcome observation), er_application := eo_application observation,
         er_evidence_digest := Some evidence_digest, er_error_code := eo_error_code observation,
         er_observed_at_ms := Some (eo_observed_at_ms observation),
         er_retry_not_before_ms := eo_retry_not_before_ms observation\<rparr>"

text \<open>The consequences of an observation: publication of the cutover, rejection of the operation before it.\<close>

definition settle_cutover ::
  "ControlEffectIntent \<Rightarrow> ControlEffectObservation \<Rightarrow> control_store \<Rightarrow> control_store use_result" where
  "settle_cutover intent observation st =
     (if eo_outcome observation = OutcomeApplied \<and> ei_kind intent = CapabilityCutover
      then publish_capability_cutover st intent (eo_observed_at_ms observation) else Inr st)"

definition operation_target_is :: "string \<Rightarrow> control_store \<Rightarrow> u64 \<Rightarrow> bool" where
  "operation_target_is operation_id st generation =
     (\<exists>row \<in> set (cs_operations st). ControlOperationRecord_id row = operation_id
        \<and> target_generation (co_reviewed row) = Inr generation)"

definition settle_rejection ::
  "ControlEffectIntent \<Rightarrow> ControlEffectObservation \<Rightarrow> string \<Rightarrow> control_store \<Rightarrow> control_store use_result" where
  "settle_rejection intent observation evidence_digest st =
     (let operation_id = eo_operation_id observation in
      if eo_outcome observation = OutcomeRejected \<and> ei_required intent \<and> \<not> capability_cutover_applied st operation_id
      then
        and_then (to_i64 (eo_observed_at_ms observation)) (\<lambda>_.
          Inr (update_generations (\<lambda>row. operation_target_is operation_id st (ControlGeneration_number row)
                 \<and> gn_capability_status row = Candidate) (\<lambda>row. row\<lparr>gn_capability_status := Abandoned\<rparr>)
            (update_operations (operation_in_state operation_id EffectsPending)
              (finish_operation OperationRejected (eo_observed_at_ms observation) evidence_digest) st)))
      else Inr st)"

definition owns_active_claim :: "ControlEffectRecord \<Rightarrow> ControlEffectObservation \<Rightarrow> bool" where
  "owns_active_claim current observation = (\<not>
     (er_status current \<noteq> EffectClaimed
      \<or> er_claim_token current \<noteq> Some (eo_claim_token observation)
      \<or> is_none_or (\<lambda>lease. eo_observed_at_ms observation > lease) (er_lease_until_ms current)))"

definition optional_to_i64 :: "u64 option \<Rightarrow> u64 option use_result" where
  "optional_to_i64 value = map_transpose to_i64 value"

text \<open>The writes of an observation that owns the active claim.\<close>

definition settle_observation ::
  "control_store \<Rightarrow> ControlEffectRecord \<Rightarrow> ControlEffectObservation \<Rightarrow> string \<Rightarrow> control_store use_result" where
  "settle_observation st current observation evidence_digest =
     and_then (to_i64 (eo_observed_at_ms observation)) (\<lambda>_.
     and_then (optional_to_i64 (eo_retry_not_before_ms observation)) (\<lambda>_.
     and_then (settle_cutover (er_intent current) observation
       (update_effects (\<lambda>row. effect_with_key (eo_idempotency_key observation) row \<and> er_status row = EffectClaimed)
         (observed_row observation evidence_digest) st)) (\<lambda>st.
       settle_rejection (er_intent current) observation evidence_digest st)))"

definition record_effect_observation ::
  "('v, 'r, 'x) control_store_externals_scheme \<Rightarrow> control_store \<Rightarrow> InstallationId \<Rightarrow> ControlEffectObservation
     \<Rightarrow> (control_store \<times> bool) use_result" where
  "record_effect_observation X st installation observation =
     and_then (ControlEffectObservation_validate X observation) (\<lambda>_.
     and_then (open_verified st installation) (\<lambda>_.
     and_then (read_effect_by_key X st installation (eo_idempotency_key observation)) (\<lambda>found.
     and_then (ok_or ControlConflict found) (\<lambda>current.
     if er_operation_id current \<noteq> eo_operation_id observation then Inl ControlConflict
     else
     and_then (read_operation_from X st installation (eo_operation_id observation)) (\<lambda>operation.
     and_then (ok_or ControlCorrupt (Option.bind operation co_committed_at_ms)) (\<lambda>committed_at_ms.
     if eo_observed_at_ms observation
          < earliest_observation_ms st (eo_operation_id observation) (ei_sequence (er_intent current)) committed_at_ms
     then Inl ControlConflict
     else
     and_then (ControlEffectObservation_evidence_for X observation (er_intent current)) (\<lambda>(_, evidence_digest).
     if er_status current \<in> {EffectDeferred, EffectApplied, EffectRejected, EffectUnknown} then
       (if observation_replays current observation evidence_digest then Inr (st, False) else Inl ControlConflict)
     else if \<not> owns_active_claim current observation then Inl ControlConflict
     else and_then (settle_observation st current observation evidence_digest) (\<lambda>st. Inr (st, True)))))))))"

section \<open>Completion\<close>

text \<open>The completion of an operation whose effects are pending: every effect settled, the cutover published.\<close>

definition complete_pending ::
  "('v, 'r, 'x) control_store_externals_scheme \<Rightarrow> control_store \<Rightarrow> InstallationId \<Rightarrow> string \<Rightarrow> ControlOperationRecord \<Rightarrow> string \<Rightarrow> u64
     \<Rightarrow> (control_store \<times> ControlOperationRecord) use_result" where
  "complete_pending X st installation operation_id current result_digest completed_at_ms =
     and_then (read_effects_from X st installation operation_id) (\<lambda>effects.
     if \<exists>effect \<in> set effects. effect_unfinished effect then Inl ControlConflict
     else if \<exists>observed_at_ms \<in> set (List.map_filter er_observed_at_ms effects). observed_at_ms > completed_at_ms
     then Inl ControlConflict
     else
     and_then (target_generation (co_reviewed current)) (\<lambda>target_generation.
     and_then (target_capability_generation (co_reviewed current)) (\<lambda>target_capability_generation.
     and_then (to_i64 completed_at_ms) (\<lambda>_.
     and_then (to_i64 target_generation) (\<lambda>_.
     and_then (to_i64 target_capability_generation) (\<lambda>_.
     and_then (ok_or ControlIo (List.find (\<lambda>row. ControlGeneration_number row = target_generation
         \<and> cc_generation (gn_capability row) = target_capability_generation) (cs_generations st))) (\<lambda>published.
     if gn_capability_status published \<noteq> Published
        \<or> cs_published_capability_generation st \<noteq> target_capability_generation
        \<or> is_none_or (\<lambda>time. time = 0 \<or> time > completed_at_ms) (gn_capability_published_at_ms published)
     then Inl ControlConflict
     else
     let st' = update_operations (operation_in_state operation_id EffectsPending)
           (finish_operation OperationCompleted completed_at_ms result_digest) st in
     and_then (read_required_operation X st' installation ControlCorrupt operation_id) (\<lambda>completed.
       Inr (st', completed)))))))))"

definition complete_operation ::
  "('v, 'r, 'x) control_store_externals_scheme \<Rightarrow> control_store \<Rightarrow> InstallationId \<Rightarrow> string \<Rightarrow> string \<Rightarrow> string \<Rightarrow> u64
     \<Rightarrow> (control_store \<times> ControlOperationRecord) use_result" where
  "complete_operation X st installation operation_id plan_digest result_digest completed_at_ms =
     and_then (validate_terminal_request operation_id plan_digest result_digest completed_at_ms) (\<lambda>_.
     and_then (open_verified st installation) (\<lambda>_.
     and_then (read_required_operation X st installation ControlConflict operation_id) (\<lambda>current.
     if ReviewedControlOperation_plan_digest (co_reviewed current) \<noteq> plan_digest then Inl ControlConflict
     else if co_status current = OperationCompleted then
       (if co_completed_at_ms current = Some completed_at_ms \<and> co_result_digest current = Some result_digest
        then Inr (st, current) else Inl ControlConflict)
     else if co_status current \<noteq> EffectsPending
        \<or> completed_at_ms < (case co_committed_at_ms current of None \<Rightarrow> - 1 | Some time \<Rightarrow> time)
     then Inl ControlConflict
     else complete_pending X st installation operation_id current result_digest completed_at_ms)))"

section \<open>Reads of the published state\<close>

definition operation_read ::
  "('v, 'r, 'x) control_store_externals_scheme \<Rightarrow> control_store \<Rightarrow> InstallationId \<Rightarrow> string \<Rightarrow> ControlOperationRecord option use_result" where
  "operation_read X st installation operation_id =
     (if \<not> valid_machine_id operation_id then Inl ControlInputInvalid
      else and_then (open_verified st installation) (\<lambda>_. read_operation_from X st installation operation_id))"

definition effects_pending_operation ::
  "('v, 'r, 'x) control_store_externals_scheme \<Rightarrow> control_store \<Rightarrow> InstallationId \<Rightarrow> ControlOperationRecord option use_result" where
  "effects_pending_operation X st installation =
     and_then (open_verified st installation) (\<lambda>_.
     case sort (map ControlOperationRecord_id (filter (\<lambda>row. co_status row = EffectsPending) (cs_operations st))) of
       [] \<Rightarrow> Inr None
     | operation_id # rest \<Rightarrow>
         if rest \<noteq> [] then Inl ControlCorrupt else read_operation_from X st installation operation_id)"

definition current_generation ::
  "('v, 'r, 'x) control_store_externals_scheme \<Rightarrow> control_store \<Rightarrow> InstallationId \<Rightarrow> ControlGeneration option use_result" where
  "current_generation X st installation =
     and_then (open_verified st installation) (\<lambda>_.
     if cs_current_generation st = 0 then Inr None
     else read_generation_from X st installation (cs_current_generation st))"

definition effects_read ::
  "('v, 'r, 'x) control_store_externals_scheme \<Rightarrow> control_store \<Rightarrow> InstallationId \<Rightarrow> string \<Rightarrow> ControlEffectRecord list use_result" where
  "effects_read X st installation operation_id =
     (if \<not> valid_machine_id operation_id then Inl ControlInputInvalid
      else and_then (open_verified st installation) (\<lambda>_. read_effects_from X st installation operation_id))"

end
