(* ===== verification/Control_Invariant.thy ===== *)
theory Control_Invariant
  imports Control_Store
begin

text \<open>
  The invariant of the control store over every sequence of its mutations, and what it gives: generations are
  consecutive, one operation at a time owns external effects, effects settle strictly in sequence, and the published
  capability cursor always names the one published generation.
\<close>

section \<open>Reads return stored rows\<close>

lemma operation_from_row_Inr: "operation_from_row X row installation = Inr r \<Longrightarrow> r = row"
  by (auto simp: operation_from_row_def and_then_Inr map_err_Inr)

lemma read_operation_stored:
  assumes "read_operation_from X st installation operation_id = Inr (Some r)"
  shows "r \<in> set (cs_operations st)" "ControlOperationRecord_id r = operation_id"
proof -
  from assms obtain rows where "filter (\<lambda>row. ControlOperationRecord_id row = operation_id) (cs_operations st) = r # rows"
    by (auto simp: read_operation_from_def and_then_Inr if_Inl_Inr split: list.splits dest: operation_from_row_Inr)
  then have "r \<in> set (filter (\<lambda>row. ControlOperationRecord_id row = operation_id) (cs_operations st))" by simp
  then show "r \<in> set (cs_operations st)" "ControlOperationRecord_id r = operation_id" by auto
qed

lemma read_operation_missing:
  "read_operation_from X st installation operation_id = Inr None \<longleftrightarrow>
     operation_id \<notin> ControlOperationRecord_id ` set (cs_operations st)"
proof -
  have "read_operation_from X st installation operation_id = Inr None \<longleftrightarrow>
      filter (\<lambda>row. ControlOperationRecord_id row = operation_id) (cs_operations st) = []"
    by (auto simp: read_operation_from_def and_then_Inr if_Inl_Inr split: list.splits)
  then show ?thesis by (auto simp: filter_empty_conv)
qed

lemma read_required_stored:
  assumes "read_required_operation X st installation e operation_id = Inr r"
  shows "r \<in> set (cs_operations st)" "ControlOperationRecord_id r = operation_id"
  using assms read_operation_stored [of X st installation operation_id r]
  by (auto simp: read_required_operation_def and_then_Inr ok_or_Inr)

lemma generation_from_row_Inr: "generation_from_row X installation row = Inr g \<Longrightarrow> g = row"
  by (auto simp: generation_from_row_def and_then_Inr if_Inl_Inr Let_def)

lemma find_Some_iff_first: "List.find P xs = Some x \<Longrightarrow> x \<in> set xs \<and> P x"
  by (induction xs) (auto split: if_splits)

lemma read_generation_stored:
  assumes "read_generation_from X st installation n = Inr (Some g)"
  shows "g \<in> set (cs_generations st)" "ControlGeneration_number g = n"
  using assms by (auto simp: read_generation_from_def and_then_Inr split: option.splits
      dest!: generation_from_row_Inr find_Some_iff_first)

lemma effect_from_row_Inr: "effect_from_row X st installation operation entry = Inr e \<Longrightarrow> e = snd entry"
  by (cases entry) (auto simp: effect_from_row_def and_then_Inr if_Inl_Inr Let_def)

text \<open>A successful read returns exactly the rows of the operation, in the order of their sequence.\<close>

lemma read_effects_rows:
  assumes "read_effects_from X st installation operation_id = Inr effects"
    and "operation_id \<in> ControlOperationRecord_id ` set (cs_operations st)"
  shows "effects = operation_effects st operation_id"
    and "\<And>i. i < length effects \<Longrightarrow> unat (ei_sequence (er_intent (effects ! i))) = i"
proof -
  from assms(2) have "List.find (\<lambda>row. ControlOperationRecord_id row = operation_id) (cs_operations st) \<noteq> None"
    by (auto simp: find_None_iff)
  with assms(1) obtain operation where rows: "list_all2 (\<lambda>entry e. effect_from_row X st installation operation entry = Inr e)
      (List.enumerate 0 (operation_effects st operation_id)) effects"
    by (auto simp: read_effects_from_def and_then_Inr collect_results_Inr split: option.splits)
  then have "list_all2 (\<lambda>entry e. e = snd entry) (List.enumerate 0 (operation_effects st operation_id)) effects"
    by (rule list_all2_mono) (rule effect_from_row_Inr)
  then have "effects = map snd (List.enumerate 0 (operation_effects st operation_id))"
    by (auto simp: list_all2_conv_all_nth nth_enumerate_eq intro!: nth_equalityI)
  then show eq: "effects = operation_effects st operation_id" by simp
  show "unat (ei_sequence (er_intent (effects ! i))) = i" if "i < length effects" for i
  proof -
    from rows that have "effect_from_row X st installation operation (i, operation_effects st operation_id ! i) = Inr (effects ! i)"
      by (auto simp: list_all2_conv_all_nth nth_enumerate_eq)
    then show ?thesis using eq by (auto simp: effect_from_row_def and_then_Inr if_Inl_Inr Let_def)
  qed
qed

lemma set_operation_effects: "set (operation_effects st operation_id) = {e \<in> set (cs_effects st). er_operation_id e = operation_id}"
  by (auto simp: operation_effects_def)

lemma read_effects_subset:
  assumes "read_effects_from X st installation operation_id = Inr effects"
  shows "set effects \<subseteq> {e \<in> set (cs_effects st). er_operation_id e = operation_id}"
proof (cases "List.find (\<lambda>row. ControlOperationRecord_id row = operation_id) (cs_operations st)")
  case None
  with assms show ?thesis by (auto simp: read_effects_from_def and_then_Inr)
next
  case (Some operation)
  then have "operation_id \<in> ControlOperationRecord_id ` set (cs_operations st)" by (auto dest: find_Some_iff_first)
  with read_effects_rows(1) [OF assms] show ?thesis by (simp add: set_operation_effects)
qed

lemma read_effect_by_key_stored:
  assumes "read_effect_by_key X st installation key = Inr (Some e)"
  shows "e \<in> set (cs_effects st)" "ei_idempotency_key (er_intent e) = key"
  using assms by (auto simp: read_effect_by_key_def and_then_Inr split: option.splits
      dest!: find_Some_iff_first dest: read_effects_subset)

section \<open>The invariant\<close>

definition committed :: "ControlOperationRecord \<Rightarrow> bool" where
  "committed r = (co_status r \<in> {EffectsPending, OperationCompleted, OperationRejected})"

text \<open>The publication states a committed operation leaves its generation in.\<close>

primrec publication_fits :: "ControlOperationStatus \<Rightarrow> ControlCapabilityStatus \<Rightarrow> bool" where
  "publication_fits Reviewed s = False"
| "publication_fits EffectsPending s = (s \<in> {Candidate, Published})"
| "publication_fits OperationCompleted s = (s \<in> {Published, Retired})"
| "publication_fits OperationRejected s = (s = Abandoned)"
| "publication_fits OperationCancelled s = False"

definition operations_inv :: "control_store \<Rightarrow> bool" where
  "operations_inv st =
     (distinct (map ControlOperationRecord_id (cs_operations st))
      \<and> (\<forall>r \<in> set (cs_operations st). co_status r = EffectsPending \<longrightarrow>
           target_generation (co_reviewed r) = Inr (cs_current_generation st)))"

definition generations_inv :: "control_store \<Rightarrow> bool" where
  "generations_inv st =
     (map (unat \<circ> ControlGeneration_number) (cs_generations st) = [1..<Suc (unat (cs_current_generation st))]
      \<and> distinct (map gn_operation_id (cs_generations st)))"

definition links_inv :: "control_store \<Rightarrow> bool" where
  "links_inv st =
     ((\<forall>r \<in> set (cs_operations st). committed r \<longrightarrow>
        (\<exists>g \<in> set (cs_generations st). gn_operation_id g = ControlOperationRecord_id r
           \<and> target_generation (co_reviewed r) = Inr (ControlGeneration_number g)
           \<and> publication_fits (co_status r) (gn_capability_status g)))
      \<and> (\<forall>g \<in> set (cs_generations st). \<exists>r \<in> set (cs_operations st).
           committed r \<and> ControlOperationRecord_id r = gn_operation_id g))"

definition publication_inv :: "control_store \<Rightarrow> bool" where
  "publication_inv st =
     (map (cc_generation \<circ> gn_capability) (filter (\<lambda>g. gn_capability_status g = Published) (cs_generations st))
        = (if cs_published_capability_generation st = 0 then [] else [cs_published_capability_generation st])
      \<and> (\<forall>g \<in> set (cs_generations st). gn_capability_status g \<in> {Published, Retired} \<longrightarrow>
           capability_cutover_applied st (gn_operation_id g)))"

definition effect_position :: "ControlEffectRecord \<Rightarrow> string \<times> u32" where
  "effect_position e = (er_operation_id e, ei_sequence (er_intent e))"

definition effects_inv :: "control_store \<Rightarrow> bool" where
  "effects_inv st =
     (distinct (map (ei_idempotency_key \<circ> er_intent) (cs_effects st))
      \<and> distinct (map effect_position (cs_effects st))
      \<and> (\<forall>e \<in> set (cs_effects st). \<exists>r \<in> set (cs_operations st). ControlOperationRecord_id r = er_operation_id e
           \<and> committed r \<and> (er_status e = EffectClaimed \<longrightarrow> co_status r = EffectsPending)
           \<and> (co_status r = OperationCompleted \<longrightarrow> \<not> effect_unfinished e))
      \<and> (\<forall>e \<in> set (cs_effects st). \<forall>e' \<in> set (cs_effects st). er_operation_id e = er_operation_id e'
           \<and> ei_sequence (er_intent e) < ei_sequence (er_intent e') \<and> effect_unfinished e
           \<longrightarrow> er_status e' = EffectPending))"

definition store_inv :: "control_store \<Rightarrow> bool" where
  "store_inv st = (operations_inv st \<and> generations_inv st \<and> links_inv st \<and> publication_inv st \<and> effects_inv st)"

lemma initialize_empty_inv: "store_inv (initialize_empty installation)"
  by (simp add: store_inv_def operations_inv_def generations_inv_def links_inv_def publication_inv_def effects_inv_def
      initialize_empty_def)

lemma unique_by_key:
  assumes "distinct (map f xs)" "x \<in> set xs" "y \<in> set xs" "f x = f y"
  shows "x = y"
  using assms by (meson distinct_map inj_onD)

section \<open>Registration, cancellation, completion\<close>

lemma register_writes:
  assumes run: "register_operation X st installation reviewed = Inr (st', r)" and "st' \<noteq> st"
  shows "st' = st\<lparr>cs_operations := cs_operations st @ [reviewed_row reviewed]\<rparr>"
    "read_operation_from X st installation (ReviewedControlOperation_operation_id reviewed) = Inr None"
proof -
  from run obtain found where found: "read_operation_from X st installation (ReviewedControlOperation_operation_id reviewed) = Inr found"
    by (auto simp: register_operation_def and_then_Inr Let_def)
  with assms have "found = None"
    by (cases found) (auto simp: register_operation_def and_then_Inr Let_def split: if_splits)
  with run found show "st' = st\<lparr>cs_operations := cs_operations st @ [reviewed_row reviewed]\<rparr>"
    "read_operation_from X st installation (ReviewedControlOperation_operation_id reviewed) = Inr None"
    by (auto simp: register_operation_def and_then_Inr if_Inl_Inr Let_def)
qed

lemma register_inv:
  assumes inv: "store_inv st" and run: "register_operation X st installation reviewed = Inr (st', r)"
  shows "store_inv st'"
proof (cases "st' = st")
  case False
  note st' = register_writes(1) [OF run False]
  have "ControlOperationRecord_id (reviewed_row reviewed) \<notin> ControlOperationRecord_id ` set (cs_operations st)"
    using register_writes(2) [OF run False] by (simp add: read_operation_missing ControlOperationRecord_id_def reviewed_row_def)
  then show ?thesis
    using inv unfolding st' store_inv_def operations_inv_def generations_inv_def links_inv_def publication_inv_def effects_inv_def
    by (auto simp: capability_cutover_applied_def reviewed_row_def committed_def)
qed (use inv in simp)

text \<open>
  An update of operation rows that keeps their evidence keeps the invariant when it neither enters nor leaves
  the committed states except to settle a pending operation.
\<close>

definition settles :: "control_store \<Rightarrow> ControlOperationRecord \<Rightarrow> ControlOperationRecord \<Rightarrow> bool" where
  "settles st r r' =
     (co_reviewed r' = co_reviewed r \<and> co_status r' \<noteq> EffectsPending \<and>
      (\<not> committed r \<and> \<not> committed r' \<or>
       co_status r = EffectsPending \<and> committed r'
       \<and> (\<forall>e \<in> set (cs_effects st). er_operation_id e = ControlOperationRecord_id r \<longrightarrow> er_status e \<noteq> EffectClaimed
            \<and> (co_status r' = OperationCompleted \<longrightarrow> \<not> effect_unfinished e))
       \<and> (\<forall>g \<in> set (cs_generations st). gn_operation_id g = ControlOperationRecord_id r \<longrightarrow>
            publication_fits (co_status r') (gn_capability_status g))))"

lemma settle_operations_inv:
  assumes inv: "store_inv st"
    and settles: "\<And>r. r \<in> set (cs_operations st) \<Longrightarrow> P r \<Longrightarrow> settles st r (f r)"
  shows "store_inv (update_operations P f st)"
proof -
  let ?h = "\<lambda>r. if P r then f r else r"
  have id: "ControlOperationRecord_id (?h r) = ControlOperationRecord_id r" "co_reviewed (?h r) = co_reviewed r"
    if "r \<in> set (cs_operations st)" for r
    using settles [OF that] by (auto simp: settles_def ControlOperationRecord_id_def)
  have committed: "committed (?h r) = committed r" if "r \<in> set (cs_operations st)" for r
    using settles [OF that] by (auto simp: settles_def) (simp add: committed_def)
  have pending: "co_status r = EffectsPending" "?h r = r"
    if "r \<in> set (cs_operations st)" "co_status (?h r) = EffectsPending" for r
    using settles [OF that(1)] that(2) by (auto simp: settles_def split: if_splits)
  have "map ControlOperationRecord_id (cs_operations (update_operations P f st)) = map ControlOperationRecord_id (cs_operations st)"
    using id(1) by (simp add: update_operations_def)
  moreover have "target_generation (co_reviewed (?h r)) = Inr (cs_current_generation st)"
    if "r \<in> set (cs_operations st)" "co_status (?h r) = EffectsPending" for r
    using inv pending [OF that] that(1) by (simp add: store_inv_def operations_inv_def)
  then have "\<forall>r' \<in> ?h ` set (cs_operations st). co_status r' = EffectsPending \<longrightarrow>
      target_generation (co_reviewed r') = Inr (cs_current_generation st)" by blast
  ultimately have ops: "operations_inv (update_operations P f st)"
    using inv unfolding store_inv_def operations_inv_def by (simp only: simp_thms) (simp add: update_operations_def del: if_image_distrib)
  have gens: "generations_inv (update_operations P f st)" "publication_inv (update_operations P f st)"
    using inv by (simp_all add: store_inv_def generations_inv_def publication_inv_def update_operations_def capability_cutover_applied_def)
  have links: "links_inv (update_operations P f st)"
    unfolding links_inv_def update_operations_def
  proof (intro conjI ballI impI)
    fix r'
    assume r': "r' \<in> set (cs_operations (st\<lparr>cs_operations := map ?h (cs_operations st)\<rparr>))" "committed r'"
    then obtain r where r: "r \<in> set (cs_operations st)" "r' = ?h r" by auto
    with r'(2) committed [OF r(1)] have "committed r" by simp
    with r(1) inv obtain g where g: "g \<in> set (cs_generations st)" "gn_operation_id g = ControlOperationRecord_id r"
      "target_generation (co_reviewed r) = Inr (ControlGeneration_number g)" "publication_fits (co_status r) (gn_capability_status g)"
      by (auto simp: store_inv_def links_inv_def)
    have "publication_fits (co_status r') (gn_capability_status g)"
      using settles [OF r(1)] g r r'(2) by (auto simp: settles_def committed [OF r(1)] split: if_splits)
    with g r id show "\<exists>g \<in> set (cs_generations (st\<lparr>cs_operations := map ?h (cs_operations st)\<rparr>)).
        gn_operation_id g = ControlOperationRecord_id r' \<and> target_generation (co_reviewed r') = Inr (ControlGeneration_number g)
        \<and> publication_fits (co_status r') (gn_capability_status g)" by auto
  next
    fix g
    assume "g \<in> set (cs_generations (st\<lparr>cs_operations := map ?h (cs_operations st)\<rparr>))"
    with inv obtain r where "r \<in> set (cs_operations st)" "committed r" "ControlOperationRecord_id r = gn_operation_id g"
      by (auto simp: store_inv_def links_inv_def)
    then show "\<exists>r \<in> set (cs_operations (st\<lparr>cs_operations := map ?h (cs_operations st)\<rparr>)). committed r
        \<and> ControlOperationRecord_id r = gn_operation_id g"
      using id committed by (intro bexI [of _ "?h r"]) auto
  qed
  have "\<exists>r \<in> set (map ?h (cs_operations st)). ControlOperationRecord_id r = er_operation_id e \<and> committed r
      \<and> (er_status e = EffectClaimed \<longrightarrow> co_status r = EffectsPending)
      \<and> (co_status r = OperationCompleted \<longrightarrow> \<not> effect_unfinished e)" if e: "e \<in> set (cs_effects st)" for e
  proof -
    from inv e obtain r where r: "r \<in> set (cs_operations st)" "ControlOperationRecord_id r = er_operation_id e" "committed r"
      "er_status e = EffectClaimed \<longrightarrow> co_status r = EffectsPending" "co_status r = OperationCompleted \<longrightarrow> \<not> effect_unfinished e"
      by (auto simp: store_inv_def effects_inv_def)
    have "er_status e = EffectClaimed \<longrightarrow> ?h r = r" "co_status (?h r) = OperationCompleted \<longrightarrow> \<not> effect_unfinished e"
      using settles [OF r(1)] r e by (auto simp: settles_def committed_def)
    with r id committed show ?thesis by (intro bexI [of _ "?h r"]) auto
  qed
  then have "effects_inv (update_operations P f st)"
    using inv by (auto simp: store_inv_def effects_inv_def update_operations_def)
  with ops gens links show ?thesis by (simp add: store_inv_def)
qed

lemma cancel_inv:
  assumes inv: "store_inv st"
    and run: "cancel_operation X st installation operation_id plan_digest result_digest t = Inr (st', r)"
  shows "store_inv st'"
proof (cases "st' = st")
  case False
  with run have "st' = update_operations (operation_in_state operation_id Reviewed)
      (finish_operation OperationCancelled t result_digest) st"
    by (auto simp: cancel_operation_def and_then_Inr if_Inl_Inr Let_def split: if_splits)
  moreover have "store_inv (update_operations (operation_in_state operation_id Reviewed)
      (finish_operation OperationCancelled t result_digest) st)"
    by (rule settle_operations_inv [OF inv]) (simp add: settles_def operation_in_state_def finish_operation_def committed_def)
  ultimately show ?thesis by simp
qed (use inv in simp)

lemma generation_unique:
  assumes "store_inv st" "g \<in> set (cs_generations st)" "g' \<in> set (cs_generations st)"
    and "ControlGeneration_number g = ControlGeneration_number g' \<or> gn_operation_id g = gn_operation_id g'"
  shows "g = g'"
proof -
  from assms(1) have "distinct (map (unat \<circ> ControlGeneration_number) (cs_generations st))"
    "distinct (map gn_operation_id (cs_generations st))" by (simp_all add: store_inv_def generations_inv_def)
  with assms(2-4) unique_by_key [of "unat \<circ> ControlGeneration_number"] unique_by_key [of gn_operation_id] show ?thesis by fastforce
qed

lemma operation_unique:
  assumes "store_inv st" "r \<in> set (cs_operations st)" "r' \<in> set (cs_operations st)"
    and "ControlOperationRecord_id r = ControlOperationRecord_id r'"
  shows "r = r'"
  using assms unique_by_key by (fastforce simp: store_inv_def operations_inv_def)

text \<open>The generation of a committed operation.\<close>

lemma committed_generation:
  assumes "store_inv st" "r \<in> set (cs_operations st)" "committed r"
  obtains g where "g \<in> set (cs_generations st)" "gn_operation_id g = ControlOperationRecord_id r"
    "target_generation (co_reviewed r) = Inr (ControlGeneration_number g)" "publication_fits (co_status r) (gn_capability_status g)"
  using assms by (auto simp: store_inv_def links_inv_def)

lemma complete_writes:
  assumes "complete_operation X st installation operation_id plan_digest result_digest t = Inr (st', r')" "st' \<noteq> st"
  obtains r effects g where "r \<in> set (cs_operations st)" "ControlOperationRecord_id r = operation_id" "co_status r = EffectsPending"
    "read_effects_from X st installation operation_id = Inr effects" "\<forall>e \<in> set effects. \<not> effect_unfinished e"
    "g \<in> set (cs_generations st)" "target_generation (co_reviewed r) = Inr (ControlGeneration_number g)"
    "target_capability_generation (co_reviewed r) = Inr (cc_generation (gn_capability g))"
    "gn_capability_status g = Published" "cs_published_capability_generation st = cc_generation (gn_capability g)"
    "st' = update_operations (operation_in_state operation_id EffectsPending) (finish_operation OperationCompleted t result_digest) st"
proof -
  from assms obtain r where read: "read_required_operation X st installation ControlConflict operation_id = Inr r"
    and pending: "co_status r = EffectsPending"
    and body: "complete_pending X st installation operation_id r result_digest t = Inr (st', r')"
    by (auto simp: complete_operation_def and_then_Inr split: if_splits)
  note r = read_required_stored [OF read]
  from body [unfolded complete_pending_def and_then_Inr if_Inl_Inr Let_def ok_or_Inr de_Morgan_disj not_not]
  show thesis
    by (elim exE conjE) (rule that [OF r pending], auto dest: find_Some_iff_first)
qed

lemma complete_inv:
  assumes inv: "store_inv st"
    and run: "complete_operation X st installation operation_id plan_digest result_digest t = Inr (st', r')"
  shows "store_inv st'"
proof (cases "st' = st")
  case False
  from complete_writes [OF run False] obtain r effects g where r: "r \<in> set (cs_operations st)"
    "ControlOperationRecord_id r = operation_id" "co_status r = EffectsPending"
    and effects: "read_effects_from X st installation operation_id = Inr effects" "\<forall>e \<in> set effects. \<not> effect_unfinished e"
    and g: "g \<in> set (cs_generations st)" "target_generation (co_reviewed r) = Inr (ControlGeneration_number g)"
      "gn_capability_status g = Published"
    and st': "st' = update_operations (operation_in_state operation_id EffectsPending)
      (finish_operation OperationCompleted t result_digest) st" by metis
  have "effects = operation_effects st operation_id" using read_effects_rows(1) [OF effects(1)] r by blast
  with effects(2) have settled: "\<forall>e \<in> set (cs_effects st). er_operation_id e = operation_id \<longrightarrow>
      er_status e \<noteq> EffectClaimed \<and> \<not> effect_unfinished e"
    by (auto simp: set_operation_effects effect_unfinished_def)
  have "r' = r" if "r' \<in> set (cs_operations st)" "operation_in_state operation_id EffectsPending r'" for r'
    using operation_unique [OF inv that(1) r(1)] that(2) r(2) by (simp add: operation_in_state_def)
  moreover from committed_generation [OF inv r(1)] r(3) obtain g' where g': "g' \<in> set (cs_generations st)"
    "gn_operation_id g' = ControlOperationRecord_id r" "target_generation (co_reviewed r) = Inr (ControlGeneration_number g')"
    by (auto simp: committed_def)
  from g'(3) g(2) have "ControlGeneration_number g' = ControlGeneration_number g" by simp
  then have "g' = g" by (intro generation_unique [OF inv g'(1) g(1)] disjI1)
  then have "\<forall>x \<in> set (cs_generations st). gn_operation_id x = ControlOperationRecord_id r \<longrightarrow> x = g"
    using generation_unique [OF inv _ g(1)] g'(2) by auto
  then have fits: "\<forall>x \<in> set (cs_generations st). gn_operation_id x = ControlOperationRecord_id r \<longrightarrow>
      publication_fits OperationCompleted (gn_capability_status x)" using g(3) by auto
  have "settles st r (finish_operation OperationCompleted t result_digest r)"
    using settled r fits by (simp add: settles_def finish_operation_def committed_def)
  ultimately show ?thesis unfolding st' by (intro settle_operations_inv [OF inv]) simp
qed (use inv in simp)

section \<open>Claims and observations\<close>

text \<open>Rewriting the first unfinished effect of an operation keeps the invariant.\<close>

lemma update_effect_inv:
  assumes inv: "store_inv st" and e: "e \<in> set (cs_effects st)" "effect_unfinished e"
    and first: "\<And>x. x \<in> set (cs_effects st) \<Longrightarrow> er_operation_id x = er_operation_id e \<Longrightarrow>
        ei_sequence (er_intent x) < ei_sequence (er_intent e) \<Longrightarrow> \<not> effect_unfinished x"
    and only: "\<And>x. x \<in> set (cs_effects st) \<Longrightarrow> P x \<longleftrightarrow> x = e"
    and same: "er_intent (f e) = er_intent e" "er_operation_id (f e) = er_operation_id e"
    and owner: "r \<in> set (cs_operations st)" "ControlOperationRecord_id r = er_operation_id e" "co_status r = EffectsPending"
  shows "store_inv (update_effects P f st)"
proof -
  let ?h = "\<lambda>x. if P x then f x else x"
  have h: "er_intent (?h x) = er_intent x" "er_operation_id (?h x) = er_operation_id x" if "x \<in> set (cs_effects st)" for x
    using only [OF that] same by auto
  have eff: "effects_inv st" and links: "operations_inv st" "generations_inv st" "links_inv st" and pub: "publication_inv st"
    using inv by (simp_all add: store_inv_def)
  have keys: "map (ei_idempotency_key \<circ> er_intent) (cs_effects (update_effects P f st)) = map (ei_idempotency_key \<circ> er_intent) (cs_effects st)"
    "map effect_position (cs_effects (update_effects P f st)) = map effect_position (cs_effects st)"
    using h by (simp_all add: update_effects_def effect_position_def)
  have owners: "\<exists>r \<in> set (cs_operations st). ControlOperationRecord_id r = er_operation_id (?h x) \<and> committed r
      \<and> (er_status (?h x) = EffectClaimed \<longrightarrow> co_status r = EffectsPending)
      \<and> (co_status r = OperationCompleted \<longrightarrow> \<not> effect_unfinished (?h x))" if x: "x \<in> set (cs_effects st)" for x
  proof (cases "x = e")
    case True
    with owner h [OF x] show ?thesis by (intro bexI [of _ r]) (auto simp: committed_def)
  next
    case False
    with only [OF x] x eff show ?thesis by (auto simp: effects_inv_def)
  qed
  have order: "er_status (?h y) = EffectPending" if "x \<in> set (cs_effects st)" "y \<in> set (cs_effects st)"
    "er_operation_id x = er_operation_id y" "ei_sequence (er_intent x) < ei_sequence (er_intent y)" "effect_unfinished (?h x)" for x y
  proof -
    have "y \<noteq> e"
      using first [OF that(1)] only [OF that(1)] that(3-5) by auto
    moreover have "effect_unfinished x" using only [OF that(1)] that(5) e(2) by auto
    then have "er_status y = EffectPending" using eff that(1-4) unfolding effects_inv_def by blast
    ultimately show ?thesis using only [OF that(2)] by simp
  qed
  have sets: "set (cs_effects (update_effects P f st)) = ?h ` set (cs_effects st)" "cs_operations (update_effects P f st) = cs_operations st"
    by (simp_all add: update_effects_def del: if_image_distrib)
  have "effects_inv (update_effects P f st)"
    unfolding effects_inv_def keys sets
  proof (intro conjI)
    show "\<forall>x' \<in> ?h ` set (cs_effects st). \<forall>y' \<in> ?h ` set (cs_effects st). er_operation_id x' = er_operation_id y'
        \<and> ei_sequence (er_intent x') < ei_sequence (er_intent y') \<and> effect_unfinished x' \<longrightarrow> er_status y' = EffectPending"
    proof (intro ballI impI, elim imageE conjE)
      fix x' y' x y
      assume "x' = ?h x" "y' = ?h y" "x \<in> set (cs_effects st)" "y \<in> set (cs_effects st)" "er_operation_id x' = er_operation_id y'"
        "ei_sequence (er_intent x') < ei_sequence (er_intent y')" "effect_unfinished x'"
      with h order [of x y] show "er_status y' = EffectPending" by simp
    qed
  qed (use eff owners in \<open>auto simp: effects_inv_def simp del: if_image_distrib\<close>)
  moreover have applied: "capability_cutover_applied (update_effects P f st) n" if "capability_cutover_applied st n" for n
  proof -
    from that obtain x where x: "x \<in> set (cs_effects st)" "er_operation_id x = n" "ei_kind (er_intent x) = CapabilityCutover"
      "er_status x = EffectApplied" by (auto simp: capability_cutover_applied_def)
    then have "\<not> P x" using only e(2) by (auto simp: effect_unfinished_def)
    with x show ?thesis by (auto simp: capability_cutover_applied_def update_effects_def)
  qed
  then have "publication_inv (update_effects P f st)"
    using pub unfolding publication_inv_def by (simp add: update_effects_def)
  moreover have "operations_inv (update_effects P f st)" "generations_inv (update_effects P f st)" "links_inv (update_effects P f st)"
    using links by (simp_all add: operations_inv_def generations_inv_def links_inv_def update_effects_def)
  ultimately show ?thesis by (simp add: store_inv_def)
qed

lemma effect_unique:
  assumes "store_inv st" "e \<in> set (cs_effects st)" "e' \<in> set (cs_effects st)"
    and "ei_idempotency_key (er_intent e) = ei_idempotency_key (er_intent e') \<or> effect_position e = effect_position e'"
  shows "e = e'"
proof -
  from assms(1) have "distinct (map (ei_idempotency_key \<circ> er_intent) (cs_effects st))" "distinct (map effect_position (cs_effects st))"
    by (simp_all add: store_inv_def effects_inv_def)
  with assms(2-4) unique_by_key [of "ei_idempotency_key \<circ> er_intent"] unique_by_key [of effect_position] show ?thesis by fastforce
qed

text \<open>The next unfinished effect is the first of its operation that has not settled.\<close>

lemma find_first:
  assumes "List.find P xs = Some x"
  obtains i where "i < length xs" "xs ! i = x" "P x" "\<And>j. j < i \<Longrightarrow> \<not> P (xs ! j)"
  using assms by (auto simp: find_Some_iff)

lemma next_unfinished_first:
  assumes "read_next_unfinished_effect X st installation operation_id = Inr (Some e)"
    and "operation_id \<in> ControlOperationRecord_id ` set (cs_operations st)"
  shows "e \<in> set (cs_effects st)" "er_operation_id e = operation_id" "effect_unfinished e"
    and "\<And>x. x \<in> set (cs_effects st) \<Longrightarrow> er_operation_id x = operation_id \<Longrightarrow>
        ei_sequence (er_intent x) < ei_sequence (er_intent e) \<Longrightarrow> \<not> effect_unfinished x"
proof -
  from assms(1) obtain effects where read: "read_effects_from X st installation operation_id = Inr effects"
    and found: "List.find effect_unfinished effects = Some e"
    by (auto simp: read_next_unfinished_effect_def and_then_Inr)
  from find_first [OF found] obtain i where i: "i < length effects" "effects ! i = e" "effect_unfinished e"
    "\<And>j. j < i \<Longrightarrow> \<not> effect_unfinished (effects ! j)" by blast
  note rows = read_effects_rows [OF read assms(2)]
  have set: "set effects = {e \<in> set (cs_effects st). er_operation_id e = operation_id}"
    by (simp add: rows(1) set_operation_effects)
  with i show "e \<in> set (cs_effects st)" "er_operation_id e = operation_id" "effect_unfinished e"
    using nth_mem [OF i(1)] by auto
  fix x
  assume x: "x \<in> set (cs_effects st)" "er_operation_id x = operation_id" "ei_sequence (er_intent x) < ei_sequence (er_intent e)"
  with set have "x \<in> set effects" by simp
  then obtain j where j: "j < length effects" "effects ! j = x" by (auto simp: in_set_conv_nth)
  with x(3) i(1,2) rows(2) have "j < i" by (metis word_less_nat_alt)
  with i(4) j show "\<not> effect_unfinished x" by auto
qed

lemma claim_writes:
  assumes "claim_next_effect X st installation claim = Inr (st', claimed)"
  obtains "st' = st" "claimed = None"
  | r e attempt authority where "r \<in> set (cs_operations st)" "ControlOperationRecord_id r = ec_operation_id claim"
    "co_status r = EffectsPending" "read_next_unfinished_effect X st installation (ec_operation_id claim) = Inr (Some e)"
    "claim_admission e claim = Inr True" "derive_claim_authority X st installation r e = Inr authority"
    "checked_add (er_attempt e) 1 = Some attempt"
    "\<forall>row \<in> set (cs_effects st). er_claim_token row = Some (ec_claim_token claim) \<longrightarrow> effect_with_key (ei_idempotency_key (er_intent e)) row"
    "st' = update_effects (effect_with_key (ei_idempotency_key (er_intent e))) (claimed_row claim attempt) st"
    "claimed = Some \<lparr>cz_intent = er_intent e, cz_authority = authority, cz_attempt = attempt,
        cz_claim_token = ec_claim_token claim, cz_lease_until_ms = ec_lease_until_ms claim\<rparr>"
proof -
  from assms obtain r found where read: "read_required_operation X st installation ControlConflict (ec_operation_id claim) = Inr r"
    and pending: "co_status r = EffectsPending"
    and found: "read_next_unfinished_effect X st installation (ec_operation_id claim) = Inr found"
    and body: "(case found of None \<Rightarrow> Inr (st, None)
     | Some effect \<Rightarrow>
         and_then (claim_admission effect claim) (\<lambda>admitted.
         if \<not> admitted then Inr (st, None)
         else and_then (claim_effect X st installation claim r effect) (\<lambda>(st', claimed). Inr (st', Some claimed)))) = Inr (st', claimed)"
    unfolding claim_next_effect_def and_then_Inr if_Inl_Inr not_not by (elim exE conjE) (rule that(1); assumption)
  note r = read_required_stored [OF read]
  show thesis
  proof (cases found)
    case None
    with body show thesis using that(1) by simp
  next
    case (Some e)
    from body obtain admitted where admitted: "claim_admission e claim = Inr admitted" by (auto simp: Some and_then_Inr)
    show thesis
    proof (cases admitted)
      case False
      with body admitted Some show thesis using that(1) by simp
    next
      case True
      with body admitted Some obtain c where c: "claim_effect X st installation claim r e = Inr (st', c)" "claimed = Some c"
        by (auto simp: and_then_Inr)
      from c(1) obtain attempt authority where a: "checked_add (er_attempt e) 1 = Some attempt"
        "derive_claim_authority X st installation r e = Inr authority"
        and token: "\<not> (\<exists>row \<in> set (cs_effects st). \<not> effect_with_key (ei_idempotency_key (er_intent e)) row
            \<and> er_claim_token row = Some (ec_claim_token claim))"
        and out: "Inr (update_effects (effect_with_key (ei_idempotency_key (er_intent e))) (claimed_row claim attempt) st,
             \<lparr>cz_intent = er_intent e, cz_authority = authority, cz_attempt = attempt,
              cz_claim_token = ec_claim_token claim, cz_lease_until_ms = ec_lease_until_ms claim\<rparr>) = (Inr (st', c) :: (control_store \<times> ClaimedControlEffect) use_result)"
        unfolding claim_effect_def and_then_Inr Let_def if_Inl_Inr ok_or_Inr by (elim exE conjE) (rule that; assumption)
      show thesis
      proof (rule that(2) [OF r pending _ _ a(2,1)])
        show "read_next_unfinished_effect X st installation (ec_operation_id claim) = Inr (Some e)" using found Some by simp
        show "claim_admission e claim = Inr True" using admitted True by simp
        show "\<forall>row \<in> set (cs_effects st). er_claim_token row = Some (ec_claim_token claim) \<longrightarrow>
            effect_with_key (ei_idempotency_key (er_intent e)) row" using token by blast
      qed (use out c(2) in simp_all)
    qed
  qed
qed

lemma claim_inv:
  assumes inv: "store_inv st" and run: "claim_next_effect X st installation claim = Inr (st', claimed)"
  shows "store_inv st'"
  using run
proof (cases rule: claim_writes)
  case (2 r e attempt authority)
  then have op: "ec_operation_id claim \<in> ControlOperationRecord_id ` set (cs_operations st)" by force
  note next_e = next_unfinished_first [OF 2(4) op]
  show ?thesis unfolding 2(9)
  proof (rule update_effect_inv [OF inv next_e(1,3)])
    show "effect_with_key (ei_idempotency_key (er_intent e)) x \<longleftrightarrow> x = e" if "x \<in> set (cs_effects st)" for x
      using effect_unique [OF inv that next_e(1)] by (auto simp: effect_with_key_def)
  qed (use 2 next_e in \<open>auto simp: claimed_row_def\<close>)
qed (use inv in simp)

text \<open>What a publication writes, in one map over the generations.\<close>

definition retire_row :: "u64 \<Rightarrow> ControlGeneration \<Rightarrow> ControlGeneration" where
  "retire_row expected row =
     (if expected > 0 \<and> cc_generation (gn_capability row) = expected \<and> gn_capability_status row = Published
      then row\<lparr>gn_capability_status := Retired\<rparr> else row)"

definition republish :: "u64 \<Rightarrow> u64 \<Rightarrow> u64 \<Rightarrow> string \<Rightarrow> u64 \<Rightarrow> ControlGeneration \<Rightarrow> ControlGeneration" where
  "republish expected capability generation digest t row =
     (if is_candidate_row capability generation digest row
      then row\<lparr>gn_capability_status := Published, gn_capability_published_at_ms := Some t\<rparr>
      else retire_row expected row)"

lemma retire_published_writes:
  "retire_published st expected = Inr mid \<Longrightarrow> mid = st\<lparr>cs_generations := map (retire_row expected) (cs_generations st)\<rparr>"
  by (cases "expected > 0") (auto simp: retire_published_def retire_row_def [abs_def] Let_def and_then_Inr if_Inl_Inr update_generations_def)

lemma retire_row_candidate:
  "is_candidate_row capability generation digest (retire_row expected row) = is_candidate_row capability generation digest row"
  by (simp add: retire_row_def is_candidate_row_def ControlGeneration_number_def)

lemma publish_writes:
  assumes "publish_capability_cutover st intent t = Inr st'"
  obtains expected capability digest where "ei_subject intent = InstallationSubject expected capability digest"
    "cs_current_generation st = ei_installation_generation intent" "cs_published_capability_generation st = expected"
    "length (filter (is_candidate_row capability (ei_installation_generation intent) digest) (cs_generations st)) = 1"
    "st' = st\<lparr>cs_generations := map (republish expected capability (ei_installation_generation intent) digest t) (cs_generations st),
       cs_published_capability_generation := capability\<rparr>"
proof (cases "ei_subject intent")
  case (InstallationSubject expected capability digest)
  let ?Q = "is_candidate_row capability (ei_installation_generation intent) digest"
  let ?mid = "st\<lparr>cs_generations := map (retire_row expected) (cs_generations st)\<rparr>"
  let ?pub = "\<lambda>row. row\<lparr>gn_capability_status := Published, gn_capability_published_at_ms := Some t\<rparr>"
  from assms InstallationSubject obtain mid st2 where mid: "retire_published st expected = Inr mid"
    and st2: "publish_candidate mid capability (ei_installation_generation intent) digest t = Inr st2"
    and cursors: "cs_current_generation st2 = ei_installation_generation intent" "cs_published_capability_generation st2 = expected"
    and out: "st' = st2\<lparr>cs_published_capability_generation := capability\<rparr>"
    by (auto simp: publish_capability_cutover_def and_then_Inr if_Inl_Inr)
  note eq = retire_published_writes [OF mid]
  from st2 [unfolded eq] have one: "length (filter ?Q (cs_generations ?mid)) = 1" and st2': "st2 = update_generations ?Q ?pub ?mid"
    by (simp_all add: publish_candidate_def and_then_Inr if_Inl_Inr)
  have "(\<lambda>row. if ?Q (retire_row expected row) then ?pub (retire_row expected row) else retire_row expected row)
      = republish expected capability (ei_installation_generation intent) digest t"
    by (rule ext) (auto simp: republish_def retire_row_candidate, auto simp: retire_row_def is_candidate_row_def)
  with out st2' have "st' = st\<lparr>cs_generations := map (republish expected capability (ei_installation_generation intent) digest t) (cs_generations st),
       cs_published_capability_generation := capability\<rparr>"
    by (simp add: update_generations_def o_def)
  moreover have "length (filter ?Q (cs_generations st)) = 1" using one by (simp add: filter_map o_def retire_row_candidate)
  ultimately show thesis using InstallationSubject cursors st2' by (intro that) (simp_all add: update_generations_def)
qed (use assms in \<open>simp_all add: publish_capability_cutover_def\<close>)

lemma filter_published_map:
  assumes "\<And>x. x \<in> set xs \<Longrightarrow> Q (f x) \<longleftrightarrow> P x"
  shows "filter Q (map f xs) = map f (filter P xs)"
  using assms by (induction xs) auto

lemma publish_inv:
  assumes inv: "store_inv st" and run: "publish_capability_cutover st intent t = Inr st'"
    and nonzero: "su_capability_generation (ei_subject intent) \<noteq> 0"
    and e: "e \<in> set (cs_effects st)" "er_status e = EffectApplied" "ei_kind (er_intent e) = CapabilityCutover"
    and r: "r \<in> set (cs_operations st)" "ControlOperationRecord_id r = er_operation_id e" "co_status r = EffectsPending"
  shows "store_inv st'"
  using run
proof (cases rule: publish_writes)
  case (1 expected capability digest)
  let ?n = "ei_installation_generation intent"
  let ?h = "republish expected capability ?n digest t"
  let ?publish = "is_candidate_row capability ?n digest"
  have fixed [simp]: "gn_operation_id (?h g) = gn_operation_id g" "gn_snapshot (?h g) = gn_snapshot g"
    "gn_capability (?h g) = gn_capability g" "ControlGeneration_number (?h g) = ControlGeneration_number g" for g
    by (simp_all add: republish_def retire_row_def ControlGeneration_number_def)
  from committed_generation [OF inv r(1)] r(3) obtain g where g: "g \<in> set (cs_generations st)"
    "gn_operation_id g = ControlOperationRecord_id r" "target_generation (co_reviewed r) = Inr (ControlGeneration_number g)"
    by (auto simp: committed_def)
  from inv r have "target_generation (co_reviewed r) = Inr (cs_current_generation st)"
    by (simp add: store_inv_def operations_inv_def)
  with g(3) 1(2) have number: "ControlGeneration_number g = ?n" by simp
  have candidate: "?publish x \<Longrightarrow> x = g" if "x \<in> set (cs_generations st)" for x
    using generation_unique [OF inv that g(1)] number by (simp add: is_candidate_row_def)
  have "filter ?publish (cs_generations st) \<noteq> []" using 1(4) by auto
  then obtain x where "x \<in> set (cs_generations st)" "?publish x" by (auto simp: filter_empty_conv)
  with candidate have pub_g: "?publish g" by blast
  have published: "cc_generation (gn_capability x) = expected \<and> expected > 0"
    if "x \<in> set (cs_generations st)" "gn_capability_status x = Published" for x
  proof -
    from that have "cc_generation (gn_capability x) \<in>
        set (map (cc_generation \<circ> gn_capability) (filter (\<lambda>g. gn_capability_status g = Published) (cs_generations st)))" by auto
    with inv 1(3) show ?thesis by (auto simp: store_inv_def publication_inv_def word_gt_0 split: if_splits)
  qed
  have status: "gn_capability_status (?h x) = Published \<longleftrightarrow> ?publish x" if "x \<in> set (cs_generations st)" for x
    using published [OF that] by (auto simp: republish_def retire_row_def is_candidate_row_def)
  have "map (cc_generation \<circ> gn_capability) (filter (\<lambda>g. gn_capability_status g = Published) (map ?h (cs_generations st)))
      = map (cc_generation \<circ> gn_capability) (filter ?publish (cs_generations st))"
    using filter_published_map [of "cs_generations st" "\<lambda>g. gn_capability_status g = Published" ?h ?publish, OF status] by (simp add: o_def)
  moreover from 1(4) obtain y where "filter ?publish (cs_generations st) = [y]" by (auto simp: length_Suc_conv)
  moreover from this have "y \<in> set (filter ?publish (cs_generations st))" by simp
  then have "cc_generation (gn_capability y) = capability" by (simp add: is_candidate_row_def)
  ultimately have cursor: "map (cc_generation \<circ> gn_capability) (filter (\<lambda>g. gn_capability_status g = Published) (map ?h (cs_generations st))) = [capability]"
    by simp
  have "capability_cutover_applied st (gn_operation_id x)"
    if "x \<in> set (cs_generations st)" "gn_capability_status (?h x) \<in> {Published, Retired}" for x
  proof (cases "?publish x")
    case True
    with candidate [OF that(1)] g(2) r(2) e show ?thesis by (auto simp: capability_cutover_applied_def)
  next
    case False
    with that(2) have "gn_capability_status x \<in> {Published, Retired}" by (auto simp: republish_def retire_row_def split: if_splits)
    with inv that(1) show ?thesis by (auto simp: store_inv_def publication_inv_def)
  qed
  then have "publication_inv st'"
    using cursor nonzero 1(1) unfolding publication_inv_def 1(5) by (simp add: capability_cutover_applied_def)
  moreover have "publication_fits (co_status q) (gn_capability_status (?h x))"
    if "q \<in> set (cs_operations st)" "x \<in> set (cs_generations st)" "gn_operation_id x = ControlOperationRecord_id q"
      "publication_fits (co_status q) (gn_capability_status x)" for q x
  proof (cases "x = g")
    case True
    with that(3) g(2) have "ControlOperationRecord_id q = ControlOperationRecord_id r" by simp
    then have "q = r" by (rule operation_unique [OF inv that(1) r(1)])
    with r(3) pub_g True show ?thesis by (simp add: republish_def)
  next
    case False
    with candidate [OF that(2)] have "\<not> ?publish x" by blast
    moreover have "co_status q \<noteq> EffectsPending"
    proof
      assume "co_status q = EffectsPending"
      with inv that(1) 1(2) have "target_generation (co_reviewed q) = Inr ?n" by (simp add: store_inv_def operations_inv_def)
      moreover from committed_generation [OF inv that(1)] \<open>co_status q = EffectsPending\<close> obtain y where
        "y \<in> set (cs_generations st)" "gn_operation_id y = ControlOperationRecord_id q"
        "target_generation (co_reviewed q) = Inr (ControlGeneration_number y)" by (auto simp: committed_def)
      ultimately have "y = x" "ControlGeneration_number y = ?n" using generation_unique [OF inv _ that(2)] that(3) by auto
      with number False generation_unique [OF inv that(2) g(1)] show False by simp
    qed
    ultimately show ?thesis using that(4) by (cases "co_status q") (auto simp: republish_def retire_row_def)
  qed
  then have "links_inv st'"
    using inv unfolding store_inv_def links_inv_def 1(5) by (simp add: image_iff) blast
  moreover have "operations_inv st'" "effects_inv st'" "generations_inv st'"
    using inv unfolding store_inv_def operations_inv_def effects_inv_def generations_inv_def 1(5) by (simp_all add: o_def)
  ultimately show ?thesis by (simp add: store_inv_def)
qed

lemma reject_inv:
  assumes inv: "store_inv st" and r: "r \<in> set (cs_operations st)" "ControlOperationRecord_id r = operation_id" "co_status r = EffectsPending"
    and before: "\<not> capability_cutover_applied st operation_id"
    and idle: "\<forall>e \<in> set (cs_effects st). er_operation_id e = operation_id \<longrightarrow> er_status e \<noteq> EffectClaimed"
  shows "store_inv (update_generations (\<lambda>row. operation_target_is operation_id st (ControlGeneration_number row)
           \<and> gn_capability_status row = Candidate) (\<lambda>row. row\<lparr>gn_capability_status := Abandoned\<rparr>)
      (update_operations (operation_in_state operation_id EffectsPending) (finish_operation OperationRejected t digest) st))"
    (is "store_inv (update_generations ?P ?f (update_operations ?Q ?s st))")
proof -
  from committed_generation [OF inv r(1)] r(3) obtain g where g: "g \<in> set (cs_generations st)"
    "gn_operation_id g = ControlOperationRecord_id r" "target_generation (co_reviewed r) = Inr (ControlGeneration_number g)"
    "publication_fits EffectsPending (gn_capability_status g)"
    by (auto simp: committed_def)
  have "gn_capability_status g \<noteq> Published" using inv g(1,2) r(2) before by (auto simp: store_inv_def publication_inv_def)
  with g(4) have candidate: "gn_capability_status g = Candidate" by simp
  have target: "operation_target_is operation_id st n \<longleftrightarrow> n = ControlGeneration_number g" for n
  proof
    assume "operation_target_is operation_id st n"
    then obtain q where q: "q \<in> set (cs_operations st)" "ControlOperationRecord_id q = operation_id"
      "target_generation (co_reviewed q) = Inr n" by (auto simp: operation_target_is_def)
    then have "q = r" using r(2) by (intro operation_unique [OF inv q(1) r(1)]) simp
    with q(3) g(3) show "n = ControlGeneration_number g" by simp
  qed (use r g(3) in \<open>auto simp: operation_target_is_def\<close>)
  have P: "?P x \<longleftrightarrow> x = g" if "x \<in> set (cs_generations st)" for x
    unfolding target using generation_unique [OF inv that g(1)] candidate by blast
  have Q: "?Q q \<longleftrightarrow> q = r" if "q \<in> set (cs_operations st)" for q
    using operation_unique [OF inv that r(1)] r by (auto simp: operation_in_state_def)
  let ?hg = "\<lambda>row. if ?P row then ?f row else row" and ?hq = "\<lambda>row. if ?Q row then ?s row else row"
  let ?st = "update_generations ?P ?f (update_operations ?Q ?s st)"
  have hg: "gn_operation_id (?hg x) = gn_operation_id x" "ControlGeneration_number (?hg x) = ControlGeneration_number x"
    "gn_capability (?hg x) = gn_capability x"
    "gn_capability_status (?hg x) = Published \<longleftrightarrow> gn_capability_status x = Published"
    "gn_capability_status (?hg x) = Retired \<longleftrightarrow> gn_capability_status x = Retired" for x
    by (auto simp: ControlGeneration_number_def)
  have hq: "ControlOperationRecord_id (?hq q) = ControlOperationRecord_id q" "co_reviewed (?hq q) = co_reviewed q"
    "committed (?hq q) = committed q" "co_status (?hq q) = EffectsPending \<longleftrightarrow> co_status q = EffectsPending \<and> q \<noteq> r"
    if "q \<in> set (cs_operations st)" for q
    using Q [OF that] r(3) by (auto simp: finish_operation_def ControlOperationRecord_id_def committed_def)
  have st: "cs_operations ?st = map ?hq (cs_operations st)" "cs_generations ?st = map ?hg (cs_generations st)"
    "cs_effects ?st = cs_effects st" "cs_current_generation ?st = cs_current_generation st"
    "cs_published_capability_generation ?st = cs_published_capability_generation st"
    by (simp_all add: update_generations_def update_operations_def)
  have maps: "map ControlOperationRecord_id (cs_operations ?st) = map ControlOperationRecord_id (cs_operations st)"
    "map (unat \<circ> ControlGeneration_number) (cs_generations ?st) = map (unat \<circ> ControlGeneration_number) (cs_generations st)"
    "map gn_operation_id (cs_generations ?st) = map gn_operation_id (cs_generations st)"
    unfolding st using hq(1) hg by simp_all
  have sets: "set (cs_operations ?st) = ?hq ` set (cs_operations st)" "set (cs_generations ?st) = ?hg ` set (cs_generations st)"
    unfolding st by simp_all
  have "operations_inv ?st"
    unfolding operations_inv_def maps sets using inv hq by (auto simp: store_inv_def operations_inv_def st simp del: if_image_distrib)
  moreover have "generations_inv ?st"
    unfolding generations_inv_def maps st(4) using inv by (simp add: store_inv_def generations_inv_def)
  moreover have "publication_inv ?st"
  proof -
    have "filter (\<lambda>g. gn_capability_status g = Published) (map ?hg (cs_generations st))
        = map ?hg (filter (\<lambda>g. gn_capability_status g = Published) (cs_generations st))"
      by (rule filter_published_map) (rule hg(4))
    then have "map (cc_generation \<circ> gn_capability) (filter (\<lambda>g. gn_capability_status g = Published) (map ?hg (cs_generations st)))
        = map (cc_generation \<circ> gn_capability) (filter (\<lambda>g. gn_capability_status g = Published) (cs_generations st))"
      using hg(3) by (simp add: o_def)
    moreover have "capability_cutover_applied ?st = capability_cutover_applied st"
      by (rule ext) (simp add: capability_cutover_applied_def st)
    moreover have "capability_cutover_applied st (gn_operation_id (?hg x))"
      if "x \<in> set (cs_generations st)" "gn_capability_status (?hg x) \<in> {Published, Retired}" for x
      using inv that hg(1) [of x] hg(4,5) [of x] by (auto simp: store_inv_def publication_inv_def simp del: if_image_distrib)
    ultimately show ?thesis
      using inv unfolding store_inv_def publication_inv_def sets st(5) by (simp add: st(2) del: if_image_distrib)
  qed
  moreover have "links_inv ?st"
    unfolding links_inv_def sets
  proof (intro conjI ballI impI; elim imageE)
    fix q' q
    assume q: "committed q'" "q' = ?hq q" "q \<in> set (cs_operations st)"
    with hq(3) have "committed q" by simp
    with committed_generation [OF inv q(3)] obtain x where x: "x \<in> set (cs_generations st)" "gn_operation_id x = ControlOperationRecord_id q"
      "target_generation (co_reviewed q) = Inr (ControlGeneration_number x)" "publication_fits (co_status q) (gn_capability_status x)" .
    have "publication_fits (co_status (?hq q)) (gn_capability_status (?hg x))"
    proof (cases "q = r")
      case True
      with x(2) g(2) have "gn_operation_id x = gn_operation_id g" by simp
      then have "x = g" by (intro generation_unique [OF inv x(1) g(1)] disjI2)
      with True P [OF x(1)] Q [OF q(3)] show ?thesis by (simp add: finish_operation_def)
    next
      case False
      have "x \<noteq> g"
      proof
        assume "x = g"
        with x(2) g(2) have "ControlOperationRecord_id q = ControlOperationRecord_id r" by simp
        with False operation_unique [OF inv q(3) r(1)] show False by simp
      qed
      with False P [OF x(1)] Q [OF q(3)] x(4) show ?thesis by auto
    qed
    with x hg(1,2) [of x] hq(1,2) [OF q(3)] q(2)
    show "\<exists>g \<in> ?hg ` set (cs_generations st). gn_operation_id g = ControlOperationRecord_id q'
        \<and> target_generation (co_reviewed q') = Inr (ControlGeneration_number g) \<and> publication_fits (co_status q') (gn_capability_status g)"
      by (intro bexI [of _ "?hg x"]) (auto simp del: if_image_distrib)
  next
    fix x' x
    assume x: "x' = ?hg x" "x \<in> set (cs_generations st)"
    with inv obtain q where "q \<in> set (cs_operations st)" "committed q" "ControlOperationRecord_id q = gn_operation_id x"
      by (auto simp: store_inv_def links_inv_def)
    with hq [of q] hg(1) [of x] x show "\<exists>q \<in> ?hq ` set (cs_operations st). committed q \<and> ControlOperationRecord_id q = gn_operation_id x'"
      by (intro bexI [of _ "?hq q"]) (auto simp del: if_image_distrib)
  qed
  moreover have "effects_inv ?st"
  proof -
    have "\<exists>q \<in> ?hq ` set (cs_operations st). ControlOperationRecord_id q = er_operation_id e \<and> committed q
        \<and> (er_status e = EffectClaimed \<longrightarrow> co_status q = EffectsPending)
        \<and> (co_status q = OperationCompleted \<longrightarrow> \<not> effect_unfinished e)" if e: "e \<in> set (cs_effects st)" for e
    proof -
      from inv e obtain q where q: "q \<in> set (cs_operations st)" "ControlOperationRecord_id q = er_operation_id e" "committed q"
        "er_status e = EffectClaimed \<longrightarrow> co_status q = EffectsPending" "co_status q = OperationCompleted \<longrightarrow> \<not> effect_unfinished e"
        by (auto simp: store_inv_def effects_inv_def)
      have "er_status e = EffectClaimed \<longrightarrow> q \<noteq> r" "co_status (?hq q) = OperationCompleted \<longrightarrow> co_status q = OperationCompleted"
        using idle e q(2) r(2) by (auto simp: finish_operation_def)
      with q hq [OF q(1)] show ?thesis by (intro bexI [of _ "?hq q"]) (auto simp del: if_image_distrib)
    qed
    with inv show ?thesis unfolding store_inv_def effects_inv_def sets st(3) by simp
  qed
  ultimately show ?thesis by (simp add: store_inv_def)
qed

text \<open>The effect an observation reads, with what its row was checked against.\<close>

lemma read_effect_binding:
  assumes "read_effect_by_key X st installation key = Inr (Some e)"
    and "er_operation_id e \<in> ControlOperationRecord_id ` set (cs_operations st)"
  shows "ControlEffectSubject_validate_identity (ei_subject (er_intent e))"
proof -
  from assms(1) obtain n effects where read: "read_effects_from X st installation n = Inr effects"
    and found: "List.find (\<lambda>row. ei_idempotency_key (er_intent row) = key) effects = Some e"
    by (auto simp: read_effect_by_key_def and_then_Inr split: option.splits)
  from find_Some_iff_first [OF found] have e: "e \<in> set effects" by blast
  from read_effects_subset [OF read] e have op: "er_operation_id e = n" by auto
  with assms(2) have "List.find (\<lambda>row. ControlOperationRecord_id row = n) (cs_operations st) \<noteq> None"
    by (auto simp: find_None_iff)
  with read obtain operation where rows: "list_all2 (\<lambda>entry e. effect_from_row X st installation operation entry = Inr e)
      (List.enumerate 0 (operation_effects st n)) effects"
    by (auto simp: read_effects_from_def and_then_Inr collect_results_Inr split: option.splits)
  from e obtain i where "i < length effects" "effects ! i = e" by (auto simp: in_set_conv_nth)
  with list_all2_nthD2 [OF rows, of i] obtain entry where "effect_from_row X st installation operation entry = Inr e" by auto
  then show ?thesis
    by (cases entry) (auto simp: effect_from_row_def and_then_Inr map_err_Inr if_Inl_Inr Let_def ControlEffectIntent_validate_binding_def)
qed

lemma observation_writes:
  assumes "record_effect_observation X st installation observation = Inr (st', fresh)"
  obtains "st' = st" "\<not> fresh"
  | e digest where "fresh" "read_effect_by_key X st installation (eo_idempotency_key observation) = Inr (Some e)"
    "er_operation_id e = eo_operation_id observation" "owns_active_claim e observation"
    "settle_observation st e observation digest = Inr st'"
proof -
  from assms obtain e digest where e: "read_effect_by_key X st installation (eo_idempotency_key observation) = Inr (Some e)"
    "er_operation_id e = eo_operation_id observation"
    and body: "(if er_status e \<in> {EffectDeferred, EffectApplied, EffectRejected, EffectUnknown} then
       (if observation_replays e observation digest then Inr (st, False) else Inl ControlConflict)
     else if \<not> owns_active_claim e observation then Inl ControlConflict
     else and_then (settle_observation st e observation digest) (\<lambda>st. Inr (st, True))) = (Inr (st', fresh) :: (control_store \<times> bool) use_result)"
    unfolding record_effect_observation_def and_then_Inr if_Inl_Inr not_not ok_or_Inr case_prod_unfold
    by (elim exE conjE) (rule that(1); (assumption | simp))
  then show thesis using that by (auto simp: and_then_Inr split: if_splits)
qed

lemma observe_inv:
  assumes inv: "store_inv st" and run: "record_effect_observation X st installation observation = Inr (st', fresh)"
  shows "store_inv st'"
  using run
proof (cases rule: observation_writes)
  case (2 e digest)
  let ?P = "\<lambda>row. effect_with_key (eo_idempotency_key observation) row \<and> er_status row = EffectClaimed"
  let ?f = "observed_row observation digest"
  let ?mid = "update_effects ?P ?f st"
  note e = read_effect_by_key_stored [OF 2(2)]
  from 2(4) have claimed: "er_status e = EffectClaimed" by (simp add: owns_active_claim_def)
  from inv e(1) claimed obtain r where r: "r \<in> set (cs_operations st)" "ControlOperationRecord_id r = er_operation_id e"
    "co_status r = EffectsPending" by (auto simp: store_inv_def effects_inv_def)
  have only: "?P x \<longleftrightarrow> x = e" if "x \<in> set (cs_effects st)" for x
    using effect_unique [OF inv that e(1)] e(2) claimed by (auto simp: effect_with_key_def)
  have others: "er_status x \<noteq> EffectClaimed \<and> (ei_sequence (er_intent x) < ei_sequence (er_intent e) \<longrightarrow> \<not> effect_unfinished x)"
    if x: "x \<in> set (cs_effects st)" "er_operation_id x = er_operation_id e" "x \<noteq> e" for x
  proof -
    have order: "er_status b = EffectPending" if "a \<in> set (cs_effects st)" "b \<in> set (cs_effects st)" "er_operation_id a = er_operation_id b"
      "ei_sequence (er_intent a) < ei_sequence (er_intent b)" "effect_unfinished a" for a b
      using inv that unfolding store_inv_def effects_inv_def by blast
    have "effect_position x \<noteq> effect_position e" using effect_unique [OF inv x(1) e(1)] x(3) by blast
    then have "ei_sequence (er_intent x) < ei_sequence (er_intent e) \<or> ei_sequence (er_intent e) < ei_sequence (er_intent x)"
      using x(2) by (auto simp: effect_position_def)
    then show ?thesis using order [OF x(1) e(1) x(2)] order [OF e(1) x(1) x(2) [symmetric]] claimed
      by (auto simp: effect_unfinished_def)
  qed
  have mid: "store_inv ?mid"
    by (rule update_effect_inv [OF inv e(1) _ _ only _ _ r])
      (use claimed others in \<open>auto simp: effect_unfinished_def observed_row_def\<close>)
  have "?f e \<in> set (cs_effects ?mid)" using only [OF e(1)] e(1) by (force simp: update_effects_def)
  have mid_ops: "cs_operations ?mid = cs_operations st" by (simp add: update_effects_def)
  from 2(5) obtain st2 where cut: "settle_cutover (er_intent e) observation ?mid = Inr st2"
    and rej: "settle_rejection (er_intent e) observation digest st2 = Inr st'"
    by (auto simp: settle_observation_def and_then_Inr)
  show ?thesis
  proof (cases "eo_outcome observation = OutcomeApplied \<and> ei_kind (er_intent e) = CapabilityCutover")
    case True
    with cut have pub: "publish_capability_cutover ?mid (er_intent e) (eo_observed_at_ms observation) = Inr st2"
      by (simp add: settle_cutover_def)
    have "er_operation_id e \<in> ControlOperationRecord_id ` set (cs_operations st)" using r by force
    from read_effect_binding [OF 2(2) this] pub have "su_capability_generation (ei_subject (er_intent e)) \<noteq> 0"
      by (elim publish_writes) (auto simp: ControlEffectSubject_validate_identity_def dest: checked_add_Some)
    then have "store_inv st2"
      by (rule publish_inv [OF mid pub _ \<open>?f e \<in> set (cs_effects ?mid)\<close>])
        (use True r mid_ops in \<open>auto simp: observed_row_def\<close>)
    moreover have "st' = st2" using rej True by (simp add: settle_rejection_def)
    ultimately show ?thesis by simp
  next
    case False
    with cut have st2: "st2 = ?mid" by (auto simp: settle_cutover_def)
    show ?thesis
    proof (cases "st' = st2")
      case False
      with rej st2 have "\<not> capability_cutover_applied ?mid (eo_operation_id observation)"
        "st' = update_generations (\<lambda>row. operation_target_is (eo_operation_id observation) ?mid (ControlGeneration_number row)
           \<and> gn_capability_status row = Candidate) (\<lambda>row. row\<lparr>gn_capability_status := Abandoned\<rparr>)
          (update_operations (operation_in_state (eo_operation_id observation) EffectsPending)
            (finish_operation OperationRejected (eo_observed_at_ms observation) digest) ?mid)"
        and rejected: "eo_outcome observation = OutcomeRejected"
        by (auto simp: settle_rejection_def Let_def and_then_Inr split: if_splits)
      moreover have "\<forall>x \<in> set (cs_effects ?mid). er_operation_id x = eo_operation_id observation \<longrightarrow> er_status x \<noteq> EffectClaimed"
        using others only 2(3) rejected by (auto simp: update_effects_def observed_row_def)
      ultimately show ?thesis using reject_inv [OF mid, of r "eo_operation_id observation"] r 2(3) mid_ops by simp
    qed (use mid st2 in simp)
  qed
qed (use inv in simp)

section \<open>Commit\<close>

lemma insert_effects_writes:
  assumes "fold_result (insert_effect X operation_id) st intents = Inr st'"
  obtains rows where "st' = st\<lparr>cs_effects := cs_effects st @ rows\<rparr>" "map er_intent rows = intents"
    "\<forall>e \<in> set rows. er_operation_id e = operation_id \<and> er_status e = EffectPending"
    "distinct (map (ei_idempotency_key \<circ> er_intent) (cs_effects st)) \<longrightarrow> distinct (map (ei_idempotency_key \<circ> er_intent) (cs_effects st @ rows))"
    "distinct (map effect_position (cs_effects st)) \<longrightarrow> distinct (map effect_position (cs_effects st @ rows))"
proof -
  let ?I = "\<lambda>seen s. \<exists>rows. s = st\<lparr>cs_effects := cs_effects st @ rows\<rparr> \<and> map er_intent rows = seen
    \<and> (\<forall>e \<in> set rows. er_operation_id e = operation_id \<and> er_status e = EffectPending)
    \<and> (distinct (map (ei_idempotency_key \<circ> er_intent) (cs_effects st)) \<longrightarrow> distinct (map (ei_idempotency_key \<circ> er_intent) (cs_effects st @ rows)))
    \<and> (distinct (map effect_position (cs_effects st)) \<longrightarrow> distinct (map effect_position (cs_effects st @ rows)))"
  have "?I ([] @ intents) st'"
  proof (rule fold_result_invariant [OF assms, where I = ?I])
    show "?I [] st" by (intro exI [of _ "[]"]) simp
    fix seen s x s'
    assume "?I seen s" and ins: "insert_effect X operation_id s x = Inr s'"
    then obtain rows where rows: "s = st\<lparr>cs_effects := cs_effects st @ rows\<rparr>" "map er_intent rows = seen"
      "\<forall>e \<in> set rows. er_operation_id e = operation_id \<and> er_status e = EffectPending"
      "distinct (map (ei_idempotency_key \<circ> er_intent) (cs_effects st)) \<longrightarrow> distinct (map (ei_idempotency_key \<circ> er_intent) (cs_effects st @ rows))"
      "distinct (map effect_position (cs_effects st)) \<longrightarrow> distinct (map effect_position (cs_effects st @ rows))" by blast
    from ins obtain digest where s': "s' = s\<lparr>cs_effects := cs_effects s @ [effect_row operation_id x digest]\<rparr>"
      and free: "\<forall>row \<in> set (cs_effects s). ei_idempotency_key (er_intent row) \<noteq> ei_idempotency_key x
        \<and> \<not> (er_operation_id row = operation_id \<and> ei_sequence (er_intent row) = ei_sequence x)"
      by (auto simp: insert_effect_def and_then_Inr if_Inl_Inr)
    show "?I (seen @ [x]) s'"
      using rows free unfolding s'
      by (intro exI [of _ "rows @ [effect_row operation_id x digest]"])
        (auto simp: effect_row_def effect_position_def)
  qed
  then show thesis using that by auto
qed

lemma insert_generation_writes:
  assumes "insert_generation X st transition = Inr st'"
  obtains digest rows where "st' = st\<lparr>cs_generations := cs_generations st @ [generation_row transition digest], cs_effects := cs_effects st @ rows\<rparr>"
    "map er_intent rows = tr_effects transition"
    "\<forall>e \<in> set rows. er_operation_id e = tr_operation_id transition \<and> er_status e = EffectPending"
    "distinct (map (ei_idempotency_key \<circ> er_intent) (cs_effects st)) \<longrightarrow> distinct (map (ei_idempotency_key \<circ> er_intent) (cs_effects st @ rows))"
    "distinct (map effect_position (cs_effects st)) \<longrightarrow> distinct (map effect_position (cs_effects st @ rows))"
    "\<forall>g \<in> set (cs_generations st). gn_operation_id g \<noteq> tr_operation_id transition"
proof -
  from assms obtain digest where unused: "\<not> (\<exists>row \<in> set (cs_generations st). ControlGeneration_number row = is_generation (tr_snapshot transition)
           \<or> gn_operation_id row = tr_operation_id transition)"
    and fold: "fold_result (insert_effect X (tr_operation_id transition))
          (st\<lparr>cs_generations := cs_generations st @ [generation_row transition digest]\<rparr>) (tr_effects transition) = Inr st'"
    unfolding insert_generation_def Let_def and_then_Inr if_Inl_Inr by (elim exE conjE) (rule that; assumption)
  from fold show thesis
  proof (rule insert_effects_writes)
    fix rows
    assume "st' = st\<lparr>cs_generations := cs_generations st @ [generation_row transition digest]\<rparr>
        \<lparr>cs_effects := cs_effects (st\<lparr>cs_generations := cs_generations st @ [generation_row transition digest]\<rparr>) @ rows\<rparr>"
      "map er_intent rows = tr_effects transition"
      "\<forall>e \<in> set rows. er_operation_id e = tr_operation_id transition \<and> er_status e = EffectPending"
      "distinct (map (ei_idempotency_key \<circ> er_intent) (cs_effects (st\<lparr>cs_generations := cs_generations st @ [generation_row transition digest]\<rparr>))) \<longrightarrow>
        distinct (map (ei_idempotency_key \<circ> er_intent) (cs_effects (st\<lparr>cs_generations := cs_generations st @ [generation_row transition digest]\<rparr>) @ rows))"
      "distinct (map effect_position (cs_effects (st\<lparr>cs_generations := cs_generations st @ [generation_row transition digest]\<rparr>))) \<longrightarrow>
        distinct (map effect_position (cs_effects (st\<lparr>cs_generations := cs_generations st @ [generation_row transition digest]\<rparr>) @ rows))"
    with unused show thesis by (intro that [where digest = digest and rows = rows]) auto
  qed
qed

text \<open>What an admitted transition writes.\<close>

lemma admit_writes:
  assumes "admit_transition X st installation operation transition = Inr (st', generation)"
  obtains digest rows target where "target_generation (co_reviewed operation) = Inr target"
    "cs_current_generation st = ro_expected_generation (co_reviewed operation)"
    "cs_published_capability_generation st = ro_expected_capability_generation (co_reviewed operation)"
    "\<forall>r \<in> set (cs_operations st). co_status r = EffectsPending \<longrightarrow> ControlOperationRecord_id r = tr_operation_id transition"
    "st' = update_operations (operation_in_state (tr_operation_id transition) Reviewed)
            (\<lambda>row. row\<lparr>co_status := EffectsPending, co_committed_at_ms := Some (tr_committed_at_ms transition)\<rparr>)
            (st\<lparr>cs_generations := cs_generations st @ [generation_row transition digest],
               cs_effects := cs_effects st @ rows, cs_current_generation := target\<rparr>)"
    "map er_intent rows = tr_effects transition"
    "\<forall>e \<in> set rows. er_operation_id e = tr_operation_id transition \<and> er_status e = EffectPending"
    "distinct (map (ei_idempotency_key \<circ> er_intent) (cs_effects st)) \<longrightarrow> distinct (map (ei_idempotency_key \<circ> er_intent) (cs_effects st @ rows))"
    "distinct (map effect_position (cs_effects st)) \<longrightarrow> distinct (map effect_position (cs_effects st @ rows))"
    "\<forall>g \<in> set (cs_generations st). gn_operation_id g \<noteq> tr_operation_id transition"
proof -
  let ?up = "update_operations (operation_in_state (tr_operation_id transition) Reviewed)
            (\<lambda>row. row\<lparr>co_status := EffectsPending, co_committed_at_ms := Some (tr_committed_at_ms transition)\<rparr>)"
  from assms obtain mid target target' where
    guards: "\<not> (cs_current_generation st \<noteq> ro_expected_generation (co_reviewed operation)
         \<or> cs_published_capability_generation st \<noteq> ro_expected_capability_generation (co_reviewed operation))"
      "\<not> (\<exists>row \<in> set (cs_operations st). co_status row = EffectsPending \<and> ControlOperationRecord_id row \<noteq> tr_operation_id transition)"
    and mid: "insert_generation X st transition = Inr mid"
    and target: "target_generation (co_reviewed operation) = Inr target'" "to_i64 target' = Inr target"
    and "Inr (?up (mid\<lparr>cs_current_generation := target\<rparr>), generation) = (Inr (st', generation) :: (control_store \<times> ControlGeneration) use_result)"
    unfolding admit_transition_def Let_def if_Inl_Inr and_then_Inr
    by (elim exE conjE) (rule that, assumption, assumption, assumption, assumption, assumption, simp)
  from this(6) have out: "st' = ?up (mid\<lparr>cs_current_generation := target\<rparr>)" by simp
  from target have target: "target_generation (co_reviewed operation) = Inr target" by (simp add: to_i64_def split: if_splits)
  from mid show thesis
  proof (rule insert_generation_writes)
    fix digest rows
    assume w: "mid = st\<lparr>cs_generations := cs_generations st @ [generation_row transition digest], cs_effects := cs_effects st @ rows\<rparr>"
      "map er_intent rows = tr_effects transition"
      "\<forall>e \<in> set rows. er_operation_id e = tr_operation_id transition \<and> er_status e = EffectPending"
      "distinct (map (ei_idempotency_key \<circ> er_intent) (cs_effects st)) \<longrightarrow> distinct (map (ei_idempotency_key \<circ> er_intent) (cs_effects st @ rows))"
      "distinct (map effect_position (cs_effects st)) \<longrightarrow> distinct (map effect_position (cs_effects st @ rows))"
      "\<forall>g \<in> set (cs_generations st). gn_operation_id g \<noteq> tr_operation_id transition"
    show thesis
      by (rule that [where digest = digest, OF target _ _ _ _ w(2-6)]) (use guards out w(1) in auto)
  qed
qed

lemma admit_inv:
  assumes inv: "store_inv st" and run: "admit_transition X st installation operation transition = Inr (st', generation)"
    and op: "operation \<in> set (cs_operations st)" "ControlOperationRecord_id operation = tr_operation_id transition"
      "co_status operation = Reviewed"
    and number: "target_generation (co_reviewed operation) = Inr (is_generation (tr_snapshot transition))"
  shows "store_inv st'"
  using run
proof (cases rule: admit_writes)
  case (1 digest rows target)
  let ?id = "tr_operation_id transition" and ?g = "generation_row transition digest"
  let ?f = "\<lambda>row. row\<lparr>co_status := EffectsPending, co_committed_at_ms := Some (tr_committed_at_ms transition)\<rparr>"
  let ?h = "\<lambda>row. if operation_in_state ?id Reviewed row then ?f row else row"
  have st': "cs_operations st' = map ?h (cs_operations st)" "cs_generations st' = cs_generations st @ [?g]"
    "cs_effects st' = cs_effects st @ rows" "cs_current_generation st' = target"
    "cs_published_capability_generation st' = cs_published_capability_generation st"
    unfolding 1(5) by (simp_all add: update_operations_def)
  have target: "target = is_generation (tr_snapshot transition)" "unat target = Suc (unat (cs_current_generation st))"
    using 1(1,2) number by (auto simp: target_generation_def ok_or_Inr dest: checked_add_Some)
  have only: "operation_in_state ?id Reviewed r \<longleftrightarrow> r = operation" if "r \<in> set (cs_operations st)" for r
    using operation_unique [OF inv that op(1)] op(2,3) by (auto simp: operation_in_state_def)
  have idle: "co_status r \<noteq> EffectsPending" if "r \<in> set (cs_operations st)" for r
  proof
    assume "co_status r = EffectsPending"
    with 1(4) that op(2) have "r = operation" by (intro operation_unique [OF inv that op(1)]) simp
    with op(3) \<open>co_status r = EffectsPending\<close> show False by simp
  qed
  have h: "ControlOperationRecord_id (?h r) = ControlOperationRecord_id r" "co_reviewed (?h r) = co_reviewed r"
    "co_status (?h r) = EffectsPending \<longleftrightarrow> r = operation" "committed r \<Longrightarrow> ?h r = r" "committed (?h r) \<longleftrightarrow> committed r \<or> r = operation"
    if "r \<in> set (cs_operations st)" for r
    using only [OF that] idle [OF that] op(3) by (auto simp: ControlOperationRecord_id_def committed_def)
  have sets: "set (cs_operations st') = ?h ` set (cs_operations st)" unfolding st' by simp
  have "map ControlOperationRecord_id (cs_operations st') = map ControlOperationRecord_id (cs_operations st)"
    unfolding st' using h(1) by simp
  then have "operations_inv st'"
    using inv h 1(1) unfolding operations_inv_def sets st'(4) store_inv_def by (auto simp del: if_image_distrib)
  moreover have "generations_inv st'"
    using inv 1(10) target unfolding store_inv_def generations_inv_def st'
    by (auto simp: generation_row_def ControlGeneration_number_def)
  moreover have links: "links_inv st'"
    unfolding links_inv_def sets
  proof (intro conjI ballI impI)
    fix r'
    assume r': "r' \<in> ?h ` set (cs_operations st)" "committed r'"
    then obtain r where r: "r' = ?h r" "r \<in> set (cs_operations st)" by blast
    show "\<exists>g \<in> set (cs_generations st'). gn_operation_id g = ControlOperationRecord_id r'
        \<and> target_generation (co_reviewed r') = Inr (ControlGeneration_number g) \<and> publication_fits (co_status r') (gn_capability_status g)"
    proof (cases "r = operation")
      case True
      with h [OF op(1)] r(1) op(2) number show ?thesis unfolding st'
        by (intro bexI [of _ ?g]) (auto simp: generation_row_def ControlGeneration_number_def simp del: if_image_distrib)
    next
      case False
      with h [OF r(2)] r r'(2) have "committed r" "r' = r" by auto
      with inv r(2) show ?thesis unfolding st' by (auto simp: store_inv_def links_inv_def)
    qed
  next
    fix g
    assume "g \<in> set (cs_generations st')"
    then consider "g = ?g" | "g \<in> set (cs_generations st)" unfolding st' by auto
    then show "\<exists>r \<in> ?h ` set (cs_operations st). committed r \<and> ControlOperationRecord_id r = gn_operation_id g"
    proof cases
      case 1
      with h [OF op(1)] op show ?thesis by (intro bexI [of _ "?h operation"]) (auto simp: generation_row_def simp del: if_image_distrib)
    next
      case 2
      with inv obtain r where r: "r \<in> set (cs_operations st)" "committed r" "ControlOperationRecord_id r = gn_operation_id g"
        by (auto simp: store_inv_def links_inv_def)
      with h(4) [OF r(1)] show ?thesis by (intro bexI [of _ r]) (auto intro!: image_eqI [of _ _ r] simp del: if_image_distrib)
    qed
  qed
  moreover have "publication_inv st'"
    using inv unfolding store_inv_def publication_inv_def st' capability_cutover_applied_def
    by (auto simp: generation_row_def)
  moreover have "effects_inv st'"
  proof -
    have none: "er_operation_id e \<noteq> ?id" if e: "e \<in> set (cs_effects st)" for e
    proof
      assume "er_operation_id e = ?id"
      with inv e obtain r where "r \<in> set (cs_operations st)" "ControlOperationRecord_id r = ?id" "committed r"
        by (auto simp: store_inv_def effects_inv_def)
      moreover from this have "r = operation" using op(2) by (intro operation_unique [OF inv _ op(1)]) simp_all
      ultimately show False using op(3) by (simp add: committed_def)
    qed
    have "\<exists>r \<in> ?h ` set (cs_operations st). ControlOperationRecord_id r = er_operation_id e \<and> committed r
        \<and> (er_status e = EffectClaimed \<longrightarrow> co_status r = EffectsPending)
        \<and> (co_status r = OperationCompleted \<longrightarrow> \<not> effect_unfinished e)" if e: "e \<in> set (cs_effects st) \<union> set rows" for e
    proof (cases "e \<in> set rows")
      case True
      with 1(7) h [OF op(1)] op show ?thesis by (intro bexI [of _ "?h operation"]) (auto simp del: if_image_distrib)
    next
      case False
      with e inv obtain r where r: "r \<in> set (cs_operations st)" "ControlOperationRecord_id r = er_operation_id e" "committed r"
        "er_status e = EffectClaimed \<longrightarrow> co_status r = EffectsPending" "co_status r = OperationCompleted \<longrightarrow> \<not> effect_unfinished e"
        by (auto simp: store_inv_def effects_inv_def)
      with h(4) [OF r(1)] show ?thesis by (intro bexI [of _ r]) (auto intro!: image_eqI [of _ _ r] simp del: if_image_distrib)
    qed
    moreover have "er_status b = EffectPending" if "a \<in> set (cs_effects st) \<union> set rows" "b \<in> set (cs_effects st) \<union> set rows"
      "er_operation_id a = er_operation_id b" "ei_sequence (er_intent a) < ei_sequence (er_intent b)" "effect_unfinished a" for a b
    proof (cases "b \<in> set rows")
      case False
      with that(2) have b: "b \<in> set (cs_effects st)" by simp
      with none [OF this] that(1,3) 1(7) have "a \<in> set (cs_effects st)" by auto
      with inv b that(3-5) show ?thesis unfolding store_inv_def effects_inv_def by blast
    qed (use 1(7) in simp)
    moreover have "distinct (map (ei_idempotency_key \<circ> er_intent) (cs_effects st @ rows))" "distinct (map effect_position (cs_effects st @ rows))"
      using inv 1(8,9) by (simp_all add: store_inv_def effects_inv_def)
    ultimately show ?thesis unfolding effects_inv_def sets st'(3) by (auto simp del: if_image_distrib)
  qed
  ultimately show ?thesis by (simp add: store_inv_def)
qed

lemma commit_cases:
  assumes "commit_transition X st installation transition = Inr (st', generation)"
  obtains operation where "operation \<in> set (cs_operations st)" "ControlOperationRecord_id operation = tr_operation_id transition"
    "co_status operation \<noteq> Reviewed" "replay_transition X st installation operation transition = Inr (st', generation)"
  | operation prior history where "operation \<in> set (cs_operations st)" "ControlOperationRecord_id operation = tr_operation_id transition"
    "co_status operation = Reviewed"
    "target_generation (co_reviewed operation) = Inr (is_generation (tr_snapshot transition))"
    "read_prior X st installation (ro_expected_generation (co_reviewed operation)) = Inr prior"
    "read_projection_history st (ro_expected_generation (co_reviewed operation)) = Inr history"
    "ControlTransition_validate_projection X transition (co_reviewed operation) prior history = Inr ()"
    "admit_transition X st installation operation transition = Inr (st', generation)"
proof -
  from assms obtain operation prior history where
    read: "read_required_operation X st installation ControlConflict (tr_operation_id transition) = Inr operation"
    and valid: "ControlTransition_validate X transition installation (co_reviewed operation) = Inr ()"
    and prior: "read_prior X st installation (ro_expected_generation (co_reviewed operation)) = Inr prior"
      "read_projection_history st (ro_expected_generation (co_reviewed operation)) = Inr history"
      "ControlTransition_validate_projection X transition (co_reviewed operation) prior history = Inr ()"
    and body: "(if co_status operation \<noteq> Reviewed then replay_transition X st installation operation transition
       else admit_transition X st installation operation transition) = Inr (st', generation)"
    unfolding commit_transition_def and_then_Inr by (elim exE conjE) (rule that(1); (assumption | simp))
  note op = read_required_stored [OF read]
  from valid have "target_generation (co_reviewed operation) = Inr (is_generation (tr_snapshot transition))"
    unfolding ControlTransition_validate_def and_then_Inr if_Inl_Inr
    by (elim exE conjE) (simp add: transition_identity_valid_def)
  with op prior body that show thesis by (cases "co_status operation = Reviewed") auto
qed

lemma replay_unchanged: "replay_transition X st installation operation transition = Inr (st', generation) \<Longrightarrow> st' = st"
  by (auto simp: replay_transition_def and_then_Inr split: if_splits)

lemma commit_inv:
  assumes inv: "store_inv st" and run: "commit_transition X st installation transition = Inr (st', generation)"
  shows "store_inv st'"
  using run
proof (cases rule: commit_cases)
  case (1 operation)
  with inv replay_unchanged show ?thesis by blast
next
  case (2 operation prior history)
  show ?thesis by (rule admit_inv [OF inv 2(8,1-4)])
qed

section \<open>The machine\<close>

inductive control_step ::
  "('v, 'r, 'x) control_store_externals_scheme \<Rightarrow> InstallationId \<Rightarrow> control_store \<Rightarrow> control_store \<Rightarrow> bool"
  for X :: "('v, 'r, 'x) control_store_externals_scheme" and installation :: InstallationId where
  register: "register_operation X st installation reviewed = Inr (st', r) \<Longrightarrow> control_step X installation st st'"
| cancel: "cancel_operation X st installation operation_id plan_digest result_digest t = Inr (st', r)
    \<Longrightarrow> control_step X installation st st'"
| commit: "commit_transition X st installation transition = Inr (st', g) \<Longrightarrow> control_step X installation st st'"
| claim: "claim_next_effect X st installation request = Inr (st', claimed) \<Longrightarrow> control_step X installation st st'"
| observe: "record_effect_observation X st installation observation = Inr (st', fresh) \<Longrightarrow> control_step X installation st st'"
| complete: "complete_operation X st installation operation_id plan_digest result_digest t = Inr (st', r)
    \<Longrightarrow> control_step X installation st st'"

inductive_cases control_step_cases: "control_step X installation st st'"

abbreviation control_reachable ::
  "('v, 'r, 'x) control_store_externals_scheme \<Rightarrow> InstallationId \<Rightarrow> control_store \<Rightarrow> bool" where
  "control_reachable X installation \<equiv>
     machine_reachable (\<lambda>st. st = initialize_empty installation) (control_step X installation)"

interpretation control_machine: invariant_machine "\<lambda>st. st = initialize_empty installation" "control_step X installation" store_inv
proof unfold_locales
  show "store_inv st" if "st = initialize_empty installation" for st
    using that initialize_empty_inv by simp
  show "store_inv st'" if "store_inv st" "control_step X installation st st'" for st st'
    using that(2,1)
    by (cases rule: control_step.cases)
      (blast intro: register_inv cancel_inv commit_inv claim_inv observe_inv complete_inv)+
qed

end
