(* ===== verification/Control_Witness.thy ===== *)
theory Control_Witness
  imports Control_Invariant
begin

text \<open>
  A concrete run of the control store used by the witnesses: the first installation of one package with a
  skill, reviewed, committed, its two effects claimed and observed, and the operation completed.
\<close>

section \<open>Stand-ins for the external functions\<close>

text \<open>
  Every encoding is a fixed string but that of an effect identity, which shows whether the effect is the first;
  the digest shows the last byte, so that the two effects have different keys.
\<close>

definition one_digest :: string where
  "one_digest = ''sha256:'' @ replicate 64 (CHR ''1'')"

definition control_witness_externals :: "(string, string) control_store_externals" where
  "control_witness_externals =
     (witness_externals_with (lock_externals_ext (\<lambda>_. Some ''l'') (plan_externals_ext (\<lambda>_. Some ''p'') (\<lambda>_. None)
       (binding_externals_ext (\<lambda>_. None) (\<lambda>_. Some ''f'') (\<lambda>_. None) (\<lambda>_. None) (\<lambda>_. None)
         (grant_externals_ext (\<lambda>_. Some ''g'') (\<lambda>_. None) (\<lambda>_. Some ''q'') (\<lambda>_. None) (\<lambda>_. Some ''k'') (\<lambda>_. None)
            (\<lambda>_. Some ''n'') (\<lambda>_. None) (\<lambda>_. Some ''d'') (\<lambda>_. None) (\<lambda>_. None)
         (effect_externals_ext (\<lambda>_. Some ''e'') (\<lambda>identity. Some (if en_sequence identity = 0 then ''x'' else ''y'')) (\<lambda>_. Some ''a'')
            (\<lambda>_. Some ''v'')
         (control_externals_ext (\<lambda>_. Some ''w'') (\<lambda>_. Some ''z'') (\<lambda>_. Some ''h'')
            \<lparr>snapshot_to_json = (\<lambda>_. Some ''s''), snapshot_from_json = (\<lambda>_. None)\<rparr>
         (control_store_externals_ext (\<lambda>_. Some ''o'') ()))))))))
     \<lparr>sha256_hex := (\<lambda>bytes. replicate 64 (if last bytes = CHR ''y'' then CHR ''1'' else CHR ''0''))\<rparr>"

abbreviation witness_installation :: InstallationId where
  "witness_installation \<equiv> \<lparr>inst_kind = User, inst_id = ''u''\<rparr>"

definition witness_first_plan :: PluginOperationPlan where
  "witness_first_plan = witness_install_plan
     \<lparr>po_authority := \<lparr>au_actor = UserActor, au_decision = Allow, au_policy_digest = zero_digest, au_confirmation_required = False\<rparr>,
      po_state := \<lparr>es_state_revision = 1, es_capability_generation = 0, es_receipt_digest = None\<rparr>\<rparr>"

definition witness_reviewed :: ReviewedControlOperation where
  "witness_reviewed =
     \<lparr>ro_envelope = witness_envelope witness_first_plan (Some (witness_single_lock ''1'')) None,
      ro_authorization = \<lparr>az_schema = CONTROL_AUTHORIZATION_EVIDENCE_SCHEMA, az_plan_digest = zero_digest,
        az_authority = \<lparr>au_actor = UserActor, au_decision = Allow, au_policy_digest = zero_digest, au_confirmation_required = False\<rparr>,
        az_operation_confirmation = None, az_grant_transition = None, az_grant_confirmations = []\<rparr>,
      ro_expected_generation = 0, ro_expected_capability_generation = 0, ro_reviewed_at_ms = 7\<rparr>"

definition witness_selection :: InstallationPackageSelection where
  "witness_selection = \<lparr>ip_package = \<lparr>lp_catalog = witness_verified ''a'' ''1'' [], lp_dependencies = []\<rparr>,
     ip_state_generation = 1, ip_enabled = True, ip_selected_surfaces = [SurfaceRef KSkill ''help'']\<rparr>"

definition witness_first_snapshot :: InstallationSnapshot where
  "witness_first_snapshot = \<lparr>is_schema = INSTALLATION_SNAPSHOT_SCHEMA, is_installation = witness_installation,
     is_generation = 1, is_host = \<lparr>plh_target = ''linux'', plh_use_version = ''1.0.0''\<rparr>,
     is_roots = [\<lparr>ir_package_id = ''acme/a'', ir_installed_at_ms = 8\<rparr>], is_packages = [witness_selection]\<rparr>"

abbreviation witness_lifecycles :: "ControlPackageLifecycle list" where
  "witness_lifecycles \<equiv> [\<lparr>cl_package_id = ''acme/a'', cl_lifecycle_generation = 1\<rparr>]"

abbreviation witness_capability :: ControlCapabilitySelection where
  "witness_capability \<equiv> \<lparr>cc_generation = 1, cc_descriptor_digest = zero_digest\<rparr>"

definition witness_prepare :: ControlEffectIntent where
  "witness_prepare =
     \<lparr>ei_schema = CONTROL_EFFECT_INTENT_SCHEMA, ei_sequence = 0, ei_idempotency_key = zero_digest,
      ei_installation = witness_installation, ei_plan_digest = zero_digest, ei_operation_action = Install,
      ei_installation_generation = 1,
      ei_subject = SurfaceSubject ''acme/a'' 1 zero_digest zero_digest LInstall (SurfaceRef KSkill ''help''),
      ei_owner = SkillHost, ei_kind = SurfacePrepare, ei_required = True\<rparr>"

definition witness_cutover :: ControlEffectIntent where
  "witness_cutover =
     \<lparr>ei_schema = CONTROL_EFFECT_INTENT_SCHEMA, ei_sequence = 1, ei_idempotency_key = one_digest,
      ei_installation = witness_installation, ei_plan_digest = zero_digest, ei_operation_action = Install,
      ei_installation_generation = 1, ei_subject = InstallationSubject 0 1 zero_digest,
      ei_owner = CapabilityIndex, ei_kind = CapabilityCutover, ei_required = True\<rparr>"

definition witness_transition :: ControlTransition where
  "witness_transition =
     \<lparr>tr_operation_id = ''op1'', tr_plan_digest = zero_digest, tr_snapshot = witness_first_snapshot,
      tr_package_lifecycles = witness_lifecycles, tr_grants = [], tr_provider_selections = [],
      tr_capability = witness_capability, tr_effects = [witness_prepare, witness_cutover], tr_committed_at_ms = 8\<rparr>"

section \<open>Valid evidence\<close>

text \<open>Fields of the concrete operation.\<close>

lemma witness_reviewed_fields:
  "ro_expected_generation witness_reviewed = 0" "ro_expected_capability_generation witness_reviewed = 0"
  "ro_reviewed_at_ms witness_reviewed = 7" "ReviewedControlOperation_operation_id witness_reviewed = ''op1''"
  "ReviewedControlOperation_plan_digest witness_reviewed = zero_digest" "ReviewedControlOperation_action witness_reviewed = Install"
  "ReviewedControlOperation_root_package_id witness_reviewed = ''acme/a''"
  "po_scope (pe_plan (ro_envelope witness_reviewed)) = witness_installation"
  "target_generation witness_reviewed = Inr 1" "target_capability_generation witness_reviewed = Inr 1"
  by (simp_all add: witness_reviewed_def witness_envelope_def witness_first_plan_def witness_install_plan_def witness_plan_def
      ReviewedControlOperation_operation_id_def ReviewedControlOperation_plan_digest_def ReviewedControlOperation_action_def
      ReviewedControlOperation_root_package_id_def target_generation_def target_capability_generation_def checked_add_def)

lemma witness_first_plan_fields:
  "po_operation_id witness_first_plan = ''op1''" "po_created_at_ms witness_first_plan = 5" "po_expires_at_ms witness_first_plan = 9"
  "po_authority witness_first_plan = \<lparr>au_actor = UserActor, au_decision = Allow, au_policy_digest = zero_digest, au_confirmation_required = False\<rparr>"
  "po_state witness_first_plan = \<lparr>es_state_revision = 1, es_capability_generation = 0, es_receipt_digest = None\<rparr>"
  "po_action witness_first_plan = Install" "po_package_lock_digest witness_first_plan = Some zero_digest"
  "po_prior_package_lock_digest witness_first_plan = None"
  by (simp_all add: witness_first_plan_def witness_install_plan_def witness_plan_def)

lemma witness_first_plan_valid: "PluginOperationPlan_validate control_witness_externals witness_first_plan = Inr ()"
  by code_simp

lemma witness_first_lock_valid:
  "PluginPackageLock_validate control_witness_externals (witness_single_lock ''1'') = Inr ()"
  by code_simp

lemma witness_first_lock_for_plan:
  "PluginPackageLock_validate_for_plan control_witness_externals (witness_single_lock ''1'') witness_first_plan = Inr ()"
  by code_simp

lemma witness_first_digests:
  "PluginOperationPlan_descriptor_digest control_witness_externals witness_first_plan = Inr zero_digest"
  "PluginPackageLock_descriptor_digest control_witness_externals (witness_single_lock ''1'') = Inr zero_digest"
  using witness_first_plan_valid witness_first_lock_valid
  by (simp_all add: PluginOperationPlan_descriptor_digest_def PluginOperationPlan_canonical_bytes_def
      PluginPackageLock_descriptor_digest_def canonical_json_def canonical_digest_def control_witness_externals_def
      witness_externals_with_def zero_digest_def MAX_PLUGIN_CONTRACT_BYTES_def)

lemma witness_first_envelope_valid:
  "PluginOperationPlanEnvelope_validate control_witness_externals (ro_envelope witness_reviewed) = Inr ()"
  using witness_first_plan_valid witness_first_digests witness_first_lock_for_plan
  by (simp add: PluginOperationPlanEnvelope_validate_def witness_reviewed_def witness_envelope_def witness_first_plan_fields)

lemma witness_grants_unneeded: "workspace_grant_changes_required control_witness_externals witness_first_plan = Inr False"
  by code_simp

lemma witness_encodings:
  "ControlAuthorizationEvidence_canonical_bytes control_witness_externals a = Inr ''z''"
  "ReviewedControlOperation_canonical_plan_bytes control_witness_externals q = Inr ''w''"
  "ControlEffectIntent_canonical_bytes control_witness_externals e = Inr ''e''"
  "ControlEffectIntent_descriptor_digest control_witness_externals e = Inr zero_digest"
  "ControlAppliedEffect_canonical_bytes control_witness_externals f = Inr ''a''"
  "ControlAppliedEffect_descriptor_digest control_witness_externals f = Inr zero_digest"
  "locked_package_json control_witness_externals p = Some ''o''"
  by (simp_all add: ControlAuthorizationEvidence_canonical_bytes_def ReviewedControlOperation_canonical_plan_bytes_def
      ControlEffectIntent_canonical_bytes_def ControlEffectIntent_descriptor_digest_def ControlAppliedEffect_canonical_bytes_def
      ControlAppliedEffect_descriptor_digest_def bounded_bytes_def control_witness_externals_def witness_externals_with_def
      MAX_CONTROL_AUTHORIZATION_BYTES_def MAX_CONTROL_OPERATION_PLAN_BYTES_def MAX_CONTROL_EFFECT_PAYLOAD_BYTES_def
      MAX_CONTROL_APPLIED_EFFECT_BYTES_def canonical_digest_def zero_digest_def)

lemma witness_reviewed_valid: "ReviewedControlOperation_validate control_witness_externals witness_reviewed = Inr ()"
proof -
  have "verify_plan_apply control_witness_externals witness_first_plan zero_digest ''op1'' zero_digest 7 = Inr ()"
    using witness_first_plan_valid witness_first_digests
    by (simp add: verify_plan_apply_def witness_first_plan_fields)
  then have "PluginOperationPlanEnvelope_verify_confirmed_apply control_witness_externals (ro_envelope witness_reviewed)
      ''op1'' zero_digest None 7 = Inr ()"
    using witness_first_envelope_valid
    by (simp add: PluginOperationPlanEnvelope_verify_confirmed_apply_def verify_plan_confirmed_apply_def witness_first_plan_fields
        witness_reviewed_def witness_envelope_def)
  then have "ControlAuthorizationEvidence_validate control_witness_externals (ro_authorization witness_reviewed)
      (ro_envelope witness_reviewed) 7 = Inr ()"
    using witness_first_envelope_valid witness_grants_unneeded
    by (simp add: ControlAuthorizationEvidence_validate_def authorization_header_valid_def validate_grant_transition_def
        witness_reviewed_def witness_envelope_def witness_first_plan_fields MAX_CONTROL_GRANTS_def witness_encodings)
  then show ?thesis
    using witness_first_envelope_valid
    by (simp add: ReviewedControlOperation_validate_def witness_reviewed_fields witness_encodings)
     (simp add: witness_reviewed_def witness_envelope_def witness_first_plan_fields)
qed

section \<open>Registration\<close>

lemma witness_valid_installation: "InstallationId_validate witness_installation = Inr ()"
  by code_simp

lemma witness_open: "open_verified st witness_installation = Inr ()" if "cs_installation st = witness_installation"
  using that witness_valid_installation by (simp add: open_verified_def)

lemma witness_operation_row:
  assumes "co_reviewed r = witness_reviewed" "operation_times_valid r" "co_result_digest r \<in> {None, Some zero_digest}"
  shows "operation_from_row control_witness_externals r witness_installation = Inr r"
proof -
  have "valid_sha256 zero_digest" by code_simp
  with assms witness_reviewed_valid show ?thesis
    by (auto simp: operation_from_row_def validate_operation_record_def ReviewedControlOperation_validate_for_installation_def
        witness_reviewed_fields)
qed

lemma witness_operation_read:
  assumes "cs_operations st = [r]" "co_reviewed r = witness_reviewed" "operation_times_valid r" "co_result_digest r \<in> {None, Some zero_digest}"
  shows "read_operation_from control_witness_externals st witness_installation ''op1'' = Inr (Some r)"
    and "read_required_operation control_witness_externals st witness_installation e ''op1'' = Inr r"
  using assms witness_operation_row [OF assms(2-4)]
  by (simp_all add: read_required_operation_def read_operation_from_def ControlOperationRecord_id_def witness_reviewed_fields)

definition witness_registered :: control_store where
  "witness_registered = (initialize_empty witness_installation)\<lparr>cs_operations := [reviewed_row witness_reviewed]\<rparr>"

lemma witness_i64: "to_i64 0 = Inr 0" "to_i64 1 = Inr 1" "to_i64 7 = Inr 7" "to_i64 8 = Inr 8" "to_i64 9 = Inr 9" "to_i64 20 = Inr 20"
  by (simp_all add: to_i64_def word_le_nat_alt)

lemma witness_register:
  "register_operation control_witness_externals (initialize_empty witness_installation) witness_installation witness_reviewed
     = Inr (witness_registered, reviewed_row witness_reviewed)"
proof -
  let ?st = "initialize_empty witness_installation"
  have "operation_times_valid (reviewed_row witness_reviewed)" by (simp add: operation_times_valid_def reviewed_row_def)
  then have reread: "read_operation_from control_witness_externals witness_registered witness_installation ''op1'' = Inr (Some (reviewed_row witness_reviewed))"
    by (intro witness_operation_read(1)) (simp_all add: witness_registered_def reviewed_row_def)
  have st: "cs_operations ?st = []" "cs_current_generation ?st = 0" "cs_published_capability_generation ?st = 0"
    "?st\<lparr>cs_operations := [reviewed_row witness_reviewed]\<rparr> = witness_registered" "open_verified ?st witness_installation = Inr ()"
    by (simp_all add: initialize_empty_def witness_registered_def witness_open)
  have "read_operation_from control_witness_externals ?st witness_installation ''op1'' = Inr None"
    by (simp add: read_operation_from_def st)
  with reread witness_reviewed_valid st show ?thesis
    by (simp add: register_operation_def ReviewedControlOperation_validate_for_installation_def witness_reviewed_fields witness_encodings
        ControlAuthorizationEvidence_descriptor_digest_def witness_i64)
qed

lemma witness_registered_reachable: "control_reachable control_witness_externals witness_installation witness_registered"
  by (rule machine_reachable.move [where s = "initialize_empty witness_installation"])
    (auto intro: machine_reachable.start control_step.register [OF witness_register])

end
