(* ===== verification/Control_Run.thy ===== *)
theory Control_Run
  imports Control_Witness
begin

text \<open>
  The registered operation of the concrete run is projected and committed: the evaluation of every check of the commit
  and the store it leaves, which is reachable.
\<close>

section \<open>Commit\<close>

abbreviation witness_locked :: LockedPluginPackage where
  "witness_locked \<equiv> \<lparr>lp_catalog = witness_verified ''a'' ''1'' [], lp_dependencies = []\<rparr>"

abbreviation witness_lock_host :: PluginPackageLockHost where
  "witness_lock_host \<equiv> \<lparr>plh_target = ''linux'', plh_use_version = ''1.0.0''\<rparr>"

abbreviation witness_roots :: root_locks where
  "witness_roots \<equiv> [(\<lparr>ir_package_id = ''acme/a'', ir_installed_at_ms = 8\<rparr>, witness_single_lock ''1'')]"

abbreviation witness_history :: ControlProjectionHistory where
  "witness_history \<equiv> \<lparr>hi_last_lifecycle_generation = 0, hi_package_state_generations = []\<rparr>"

lemma witness_install_order:
  "PluginPackageLock_install_order control_witness_externals (witness_single_lock ''1'') = Inr [witness_locked]"
  by code_simp

lemma witness_roots_after: "graph_roots_after witness_reviewed None [] 8 = Inr (witness_roots, witness_lock_host)"
  by code_simp

lemma witness_target_packages: "packages_from_roots witness_roots = Inr [(''acme/a'', witness_locked)]"
  by code_simp

lemma witness_from_roots:
  "InstallationSnapshot_from_root_locks control_witness_externals witness_installation 1 witness_lock_host witness_roots
     [witness_selection] = Inr witness_first_snapshot"
  by code_simp

lemma witness_selection_valid: "InstallationPackageSelection_validate control_witness_externals witness_selection = Inr ()"
  by code_simp

lemma witness_selection_new:
  "InstallationPackageSelection_new control_witness_externals witness_locked 1 True [SurfaceRef KSkill ''help''] = Inr witness_selection"
  using witness_selection_valid
  by (simp add: InstallationPackageSelection_new_def witness_selection_def [symmetric])

lemma witness_transition_map:
  "transition_map (ro_envelope witness_reviewed) = Inr [(''acme/a'', hd (po_packages witness_first_plan))]"
  by code_simp

lemma witness_package_added:
  "pt_change (hd (po_packages witness_first_plan)) = Add"
  "map_option state_surfaces (pt_after (hd (po_packages witness_first_plan))) = Some [SurfaceRef KSkill ''help'']"
  by code_simp+

lemma witness_reviewed_lock: "pe_package_lock (ro_envelope witness_reviewed) = Some (witness_single_lock ''1'')"
  "pe_plan (ro_envelope witness_reviewed) = witness_first_plan"
  by (simp_all only: witness_reviewed_def witness_envelope_def ReviewedControlOperation.select_convs
      PluginOperationPlanEnvelope.select_convs)

lemma witness_locked_id: "LockedPluginPackage_package_id witness_locked = ''acme/a''"
  by code_simp

lemma witness_graph:
  "project_graph control_witness_externals witness_reviewed None witness_history 8
     = Inr (witness_first_snapshot, witness_lifecycles, 1)"
proof -
  obtain state where after: "pt_after (hd (po_packages witness_first_plan)) = Some state" "state_surfaces state = [SurfaceRef KSkill ''help'']"
    using witness_package_added(2) by auto
  have allocated: "allocate_lifecycles control_witness_externals witness_reviewed [(''acme/a'', hd (po_packages witness_first_plan))] 0
      = Inr (1, [(''acme/a'', 1)])"
    by (simp add: allocate_lifecycles_def witness_reviewed_lock witness_reviewed_fields witness_install_order allocate_lifecycle_def
        witness_locked_id bt_get_def is_change_def witness_package_added checked_add_def)
  have "project_package control_witness_externals witness_history [(''acme/a'', hd (po_packages witness_first_plan))]
      [(''acme/a'', 1)] [] [] (''acme/a'', witness_locked) = Inr (witness_selection, \<lparr>cl_package_id = ''acme/a'', cl_lifecycle_generation = 1\<rparr>)"
    by (simp add: project_package_def bt_get_def is_change_def witness_package_added changed_package_def after state_generation_def
        checked_add_def witness_selection_new)
  then show ?thesis
    using witness_roots_after witness_target_packages witness_transition_map witness_from_roots allocated
    by (simp add: project_graph_def prior_root_locks_def prior_selection_index_def prior_lifecycle_index_def witness_reviewed_fields)
qed

lemma witness_snapshot_valid: "InstallationSnapshot_validate control_witness_externals witness_first_snapshot = Inr ()"
  by code_simp

lemma witness_snapshot_fields:
  "is_generation witness_first_snapshot = 1" "is_installation witness_first_snapshot = witness_installation"
  "is_packages witness_first_snapshot = [witness_selection]"
  "is_roots witness_first_snapshot = [\<lparr>ir_package_id = ''acme/a'', ir_installed_at_ms = 8\<rparr>]"
  by (simp_all only: witness_first_snapshot_def InstallationSnapshot.select_convs)

lemma witness_selection_id: "InstallationPackageSelection_package_id witness_selection = ''acme/a''"
  by code_simp

lemma witness_is_root: "is_root witness_first_snapshot ''acme/a''"
  by code_simp

lemma witness_snapshot_transition:
  "validate_snapshot_transition control_witness_externals witness_reviewed None witness_first_snapshot = Inr ()"
  using witness_reviewed_valid
  by (simp add: validate_snapshot_transition_def ReviewedControlOperation_validate_for_installation_def witness_reviewed_fields
      witness_snapshot_fields prior_matches_def action_matches_def witness_is_root)

lemma witness_plan_states:
  "validate_plan_states control_witness_externals (ro_envelope witness_reviewed) None witness_first_snapshot = Inr ()"
  by code_simp

lemma witness_no_grants: "project_grants control_witness_externals witness_reviewed None witness_first_snapshot = Inr []"
  by code_simp

lemma witness_no_providers:
  "project_provider_selections control_witness_externals witness_reviewed None witness_first_snapshot = Inr []"
  by code_simp

lemma witness_project_capability:
  "project_capability control_witness_externals witness_reviewed witness_first_snapshot witness_lifecycles [] [] = Inr witness_capability"
  by code_simp

lemma witness_project_effects:
  "project_effects control_witness_externals witness_reviewed None witness_first_snapshot witness_lifecycles [] witness_capability
     = Inr [witness_prepare, witness_cutover]"
  by code_simp

lemma witness_history_after:
  "fold_result advance_history \<lparr>hi_last_lifecycle_generation = 1, hi_package_state_generations = []\<rparr> [witness_selection]
     = Inr \<lparr>hi_last_lifecycle_generation = 1, hi_package_state_generations = [(''acme/a'', 1)]\<rparr>"
proof -
  have "valid_machine_id ''acme/a''" by code_simp
  moreover have "ip_state_generation witness_selection = 1"
    by (simp only: witness_selection_def InstallationPackageSelection.select_convs)
  ultimately show ?thesis
    by (simp add: advance_history_def state_generation_def observe_state_generation_def witness_selection_id bt_get_def
        MAX_CONTROL_HISTORY_PACKAGES_def)
qed

lemma witness_projected:
  "project_generation control_witness_externals witness_reviewed None witness_history 8
     = Inr \<lparr>pg_snapshot = witness_first_snapshot, pg_package_lifecycles = witness_lifecycles, pg_grants = [],
         pg_provider_selections = [], pg_capability = witness_capability, pg_effects = [witness_prepare, witness_cutover],
         pg_history_after = \<lparr>hi_last_lifecycle_generation = 1, hi_package_state_generations = [(''acme/a'', 1)]\<rparr>\<rparr>"
  using witness_reviewed_valid witness_graph witness_snapshot_transition witness_plan_states witness_no_grants
    witness_no_providers witness_project_capability witness_project_effects witness_history_after
  by (simp add: project_generation_def witness_reviewed_fields validate_prior_def project_next_graph_def witness_snapshot_fields)

lemma witness_bindings:
  "ControlEffectIntent_validate_binding control_witness_externals witness_prepare witness_installation zero_digest Install = Inr ()"
  "ControlEffectIntent_validate_binding control_witness_externals witness_cutover witness_installation zero_digest Install = Inr ()"
  by code_simp+

lemma witness_intent_fields:
  "ei_sequence witness_prepare = 0" "ei_sequence witness_cutover = 1"
  "ei_idempotency_key witness_prepare = zero_digest" "ei_idempotency_key witness_cutover = one_digest"
  "ei_installation_generation witness_prepare = 1" "ei_installation_generation witness_cutover = 1"
  "ei_installation witness_prepare = witness_installation" "ei_installation witness_cutover = witness_installation"
  "ei_plan_digest witness_prepare = zero_digest" "ei_plan_digest witness_cutover = zero_digest"
  "ei_subject witness_prepare = SurfaceSubject ''acme/a'' 1 zero_digest zero_digest LInstall (SurfaceRef KSkill ''help'')"
  "ei_subject witness_cutover = InstallationSubject 0 1 zero_digest"
  "ei_kind witness_prepare = SurfacePrepare" "ei_kind witness_cutover = CapabilityCutover"
  "ei_owner witness_prepare = SkillHost" "ei_owner witness_cutover = CapabilityIndex"
  "ei_required witness_prepare" "ei_required witness_cutover"
  "ei_operation_action witness_prepare = Install" "ei_operation_action witness_cutover = Install"
  by (simp_all only: witness_prepare_def witness_cutover_def ControlEffectIntent.select_convs)

lemma witness_digests_differ: "zero_digest \<noteq> one_digest" "one_digest \<noteq> zero_digest" "valid_sha256 zero_digest"
  "valid_sha256 one_digest"
  by code_simp+

lemma witness_effects_match:
  "ControlEffectSubject_matches_generation (ei_subject witness_prepare) witness_first_snapshot witness_lifecycles witness_capability True Install"
  "ControlEffectSubject_matches_generation (ei_subject witness_cutover) witness_first_snapshot witness_lifecycles witness_capability True Install"
  "ControlEffectOwner_matches_generation (ei_owner witness_prepare) (ei_subject witness_prepare) (ei_kind witness_prepare) []"
  "ControlEffectOwner_matches_generation (ei_owner witness_cutover) (ei_subject witness_cutover) (ei_kind witness_cutover) []"
  by code_simp+

lemma witness_no_selections:
  "validate_grant_selections control_witness_externals [] witness_first_snapshot = Inr ()"
  "validate_provider_selections control_witness_externals [] witness_first_snapshot = Inr ()"
  by code_simp+

lemma witness_transition_fields:
  "tr_operation_id witness_transition = ''op1''" "tr_plan_digest witness_transition = zero_digest"
  "tr_snapshot witness_transition = witness_first_snapshot" "tr_package_lifecycles witness_transition = witness_lifecycles"
  "tr_grants witness_transition = []" "tr_provider_selections witness_transition = []"
  "tr_capability witness_transition = witness_capability" "tr_effects witness_transition = [witness_prepare, witness_cutover]"
  "tr_committed_at_ms witness_transition = 8"
  by (simp_all only: witness_transition_def ControlTransition.select_convs)

lemma witness_transition_valid:
  "ControlTransition_validate control_witness_externals witness_transition witness_installation witness_reviewed = Inr ()"
proof -
  have "transition_lifecycles_valid witness_transition"
    by (simp add: transition_lifecycles_valid_def witness_transition_fields witness_snapshot_fields witness_selection_id)
  moreover have "fold_result (admit_effect control_witness_externals witness_transition witness_installation witness_reviewed) ([], 0)
      (List.enumerate 0 [witness_prepare, witness_cutover]) = Inr ([one_digest, zero_digest], 2)"
    using witness_bindings witness_digests_differ
    by (simp add: admit_effect_def witness_encodings witness_transition_fields witness_reviewed_fields witness_intent_fields
        witness_snapshot_fields)
  ultimately show ?thesis
    using witness_reviewed_valid witness_snapshot_valid witness_no_selections witness_digests_differ
    by (simp add: ControlTransition_validate_def witness_transition_fields witness_reviewed_fields witness_snapshot_fields
        transition_identity_valid_def transition_bounds_valid_def MAX_CONTROL_GRANTS_def MAX_CONTROL_PROVIDER_SELECTIONS_def
        MAX_CONTROL_EFFECTS_def MAX_CONTROL_EFFECT_PAYLOAD_TOTAL_BYTES_def)
qed

lemma witness_transition_projected:
  "ControlTransition_validate_projection control_witness_externals witness_transition witness_reviewed None witness_history = Inr ()"
  by (simp add: ControlTransition_validate_projection_def witness_transition_fields witness_projected transition_matches_projection_def)

lemma witness_references_valid: "ControlTransition_validate_effect_references witness_transition None = Inr ()"
  using witness_effects_match
  by (simp add: ControlTransition_validate_effect_references_def effect_reference_valid_def witness_transition_fields
      witness_intent_fields witness_snapshot_fields)

definition witness_generation :: ControlGeneration where
  "witness_generation = generation_row witness_transition zero_digest"

lemma witness_snapshot_encoding:
  "InstallationSnapshot_canonical_bytes control_witness_externals (control_snapshot_codec control_witness_externals) witness_first_snapshot = Inr ''s''"
  "InstallationSnapshot_descriptor_digest control_witness_externals (control_snapshot_codec control_witness_externals) witness_first_snapshot = Inr zero_digest"
  using witness_snapshot_valid
  by (simp_all add: InstallationSnapshot_canonical_bytes_def InstallationSnapshot_descriptor_digest_def canonical_digest_def zero_digest_def
      control_witness_externals_def witness_externals_with_def MAX_INSTALLATION_SNAPSHOT_BYTES_def)

lemma witness_registered_fields:
  "cs_generations witness_registered = []" "cs_effects witness_registered = []" "cs_current_generation witness_registered = 0"
  "cs_published_capability_generation witness_registered = 0" "cs_operations witness_registered = [reviewed_row witness_reviewed]"
  "cs_installation witness_registered = witness_installation"
  by (simp_all add: witness_registered_def initialize_empty_def)

lemma witness_insert_effects:
  assumes "cs_effects st = []"
  shows "fold_result (insert_effect control_witness_externals ''op1'') st [witness_prepare, witness_cutover]
    = Inr (st\<lparr>cs_effects := [effect_row ''op1'' witness_prepare zero_digest, effect_row ''op1'' witness_cutover zero_digest]\<rparr>)"
proof -
  have first: "insert_effect control_witness_externals ''op1'' st witness_prepare
      = Inr (st\<lparr>cs_effects := [effect_row ''op1'' witness_prepare zero_digest]\<rparr>)"
    using assms by (simp add: insert_effect_def witness_encodings witness_intent_fields witness_i64 ControlEffectSubject_package_identity_def)
  have "insert_effect control_witness_externals ''op1'' (st\<lparr>cs_effects := [effect_row ''op1'' witness_prepare zero_digest]\<rparr>) witness_cutover
      = Inr (st\<lparr>cs_effects := [effect_row ''op1'' witness_prepare zero_digest, effect_row ''op1'' witness_cutover zero_digest]\<rparr>)"
    using witness_digests_differ
    by (simp add: insert_effect_def witness_encodings witness_intent_fields witness_i64 ControlEffectSubject_package_identity_def effect_row_def)
  with first show ?thesis by simp
qed

lemma witness_insert:
  "insert_generation control_witness_externals witness_registered witness_transition
     = Inr (witness_registered\<lparr>cs_generations := [witness_generation],
         cs_effects := [effect_row ''op1'' witness_prepare zero_digest, effect_row ''op1'' witness_cutover zero_digest]\<rparr>)"
proof -
  have packages: "insert_selected_package control_witness_externals (witness_selection, \<lparr>cl_package_id = ''acme/a'', cl_lifecycle_generation = 1\<rparr>) = Inr ()"
    by (simp add: insert_selected_package_def witness_encodings witness_i64 MAX_SELECTED_PACKAGE_BYTES_def witness_selection_def)
  show ?thesis
    by (simp add: insert_generation_def witness_transition_fields witness_snapshot_fields witness_snapshot_encoding witness_i64
        witness_registered_fields packages witness_insert_effects
        del: fold_result.simps flip: witness_generation_def)
qed

text \<open>Reads of a store that holds the committed generation, in any publication state.\<close>

definition witness_generation_row :: "ControlGeneration \<Rightarrow> bool" where
  "witness_generation_row g =
     (gn_snapshot g = witness_first_snapshot \<and> gn_snapshot_digest g = zero_digest \<and> gn_package_lifecycles g = witness_lifecycles
      \<and> gn_grants g = [] \<and> gn_provider_selections g = [] \<and> gn_capability g = witness_capability \<and> gn_operation_id g = ''op1''
      \<and> capability_row_valid g)"

lemma witness_generation_read:
  assumes "cs_generations st = [g]" "witness_generation_row g"
  shows "read_generation_from control_witness_externals st witness_installation 1 = Inr (Some g)"
proof -
  have "validate_snapshot_relations control_witness_externals witness_first_snapshot witness_lifecycles = Inr witness_lifecycles"
    by (simp add: validate_snapshot_relations_def witness_snapshot_fields witness_i64 witness_encodings witness_selection_id)
  with assms have "generation_from_row control_witness_externals witness_installation g = Inr g"
    using witness_snapshot_valid witness_no_selections
    by (simp add: generation_from_row_def witness_generation_row_def witness_snapshot_fields witness_snapshot_encoding
        read_grants_def read_provider_selections_def)
  with assms show ?thesis
    by (simp add: read_generation_from_def witness_i64 ControlGeneration_number_def witness_generation_row_def witness_snapshot_fields)
qed

definition witness_pending :: ControlOperationRecord where
  "witness_pending = (reviewed_row witness_reviewed)\<lparr>co_status := EffectsPending, co_committed_at_ms := Some 8\<rparr>"

definition witness_store :: "ControlOperationRecord \<Rightarrow> ControlGeneration \<Rightarrow> ControlEffectRecord \<Rightarrow> ControlEffectRecord \<Rightarrow> u64 \<Rightarrow> control_store" where
  "witness_store r g e e' published =
     \<lparr>cs_installation = witness_installation, cs_current_generation = 1, cs_published_capability_generation = published,
      cs_operations = [r], cs_generations = [g], cs_effects = [e, e']\<rparr>"

definition witness_committed :: control_store where
  "witness_committed = witness_store witness_pending witness_generation (effect_row ''op1'' witness_prepare zero_digest)
     (effect_row ''op1'' witness_cutover zero_digest) 0"

lemma witness_store_fields [simp]:
  "cs_installation (witness_store r g e e' n) = witness_installation" "cs_current_generation (witness_store r g e e' n) = 1"
  "cs_published_capability_generation (witness_store r g e e' n) = n" "cs_operations (witness_store r g e e' n) = [r]"
  "cs_generations (witness_store r g e e' n) = [g]" "cs_effects (witness_store r g e e' n) = [e, e']"
  by (simp_all add: witness_store_def)

lemma witness_row_fields:
  "ControlOperationRecord_id (reviewed_row witness_reviewed) = ''op1''" "co_status (reviewed_row witness_reviewed) = Reviewed"
  "co_reviewed (reviewed_row witness_reviewed) = witness_reviewed" "ControlOperationRecord_id witness_pending = ''op1''"
  "co_reviewed witness_pending = witness_reviewed" "co_status witness_pending = EffectsPending"
  by (simp_all add: witness_pending_def reviewed_row_def ControlOperationRecord_id_def witness_reviewed_fields)

lemma witness_generation_row_candidate: "witness_generation_row witness_generation"
  using witness_digests_differ
  by (simp add: witness_generation_row_def witness_generation_def generation_row_def witness_transition_fields capability_row_valid_def)

lemma witness_admit:
  "admit_transition control_witness_externals witness_registered witness_installation (reviewed_row witness_reviewed) witness_transition
     = Inr (witness_committed, witness_generation)"
proof -
  have writes: "update_operations (operation_in_state ''op1'' Reviewed)
        (\<lambda>row. row\<lparr>co_status := EffectsPending, co_committed_at_ms := Some 8\<rparr>)
        (witness_registered\<lparr>cs_generations := [witness_generation],
           cs_effects := [effect_row ''op1'' witness_prepare zero_digest, effect_row ''op1'' witness_cutover zero_digest],
           cs_current_generation := 1\<rparr>) = witness_committed"
    by (simp add: update_operations_def operation_in_state_def witness_row_fields witness_registered_def initialize_empty_def
        witness_committed_def witness_store_def witness_pending_def)
  have "read_generation_from control_witness_externals witness_committed witness_installation 1 = Inr (Some witness_generation)"
    by (rule witness_generation_read [OF _ witness_generation_row_candidate]) (simp add: witness_committed_def)
  then show ?thesis
    by (simp add: admit_transition_def witness_row_fields witness_reviewed_fields witness_registered_fields witness_transition_fields
        witness_insert witness_i64 writes)
qed

lemma witness_commit:
  "commit_transition control_witness_externals witness_registered witness_installation witness_transition
     = Inr (witness_committed, witness_generation)"
proof -
  have "operation_times_valid (reviewed_row witness_reviewed)" by (simp add: operation_times_valid_def reviewed_row_def)
  then have read: "read_required_operation control_witness_externals witness_registered witness_installation ControlConflict ''op1''
      = Inr (reviewed_row witness_reviewed)"
    by (intro witness_operation_read(2)) (simp_all add: witness_registered_fields reviewed_row_def)
  have history: "read_projection_history witness_registered 0 = Inr witness_history"
    by (simp add: read_projection_history_def witness_i64 selected_packages_through_def witness_registered_fields group_max_def
        MAX_CONTROL_HISTORY_PACKAGES_def ControlProjectionHistory_new_def)
  show ?thesis
    using witness_transition_valid witness_transition_projected witness_snapshot_transition witness_references_valid witness_admit
    by (simp add: commit_transition_def witness_open witness_registered_fields witness_transition_fields read witness_row_fields
        witness_reviewed_fields read_prior_def history)
qed

lemma witness_committed_reachable: "control_reachable control_witness_externals witness_installation witness_committed"
  by (rule machine_reachable.move [OF witness_registered_reachable control_step.commit [OF witness_commit]])

end
