(* ===== verification/Control_Settlement.thy ===== *)
theory Control_Settlement
  imports Control_Run
begin

text \<open>
  The rest of the concrete run: the effects of the committed operation are claimed and observed in sequence, which
  publishes its capabilities, and the operation is completed.
\<close>

section \<open>Claims and observations\<close>

definition witness_skill_ready :: ControlAppliedEffect where
  "witness_skill_ready = \<lparr>ae_schema = CONTROL_APPLIED_EFFECT_SCHEMA, ae_idempotency_key = zero_digest,
     ae_evidence = SkillHostEvidence ObservedPrepared zero_digest (Some zero_digest)\<rparr>"

definition witness_index_published :: ControlAppliedEffect where
  "witness_index_published = \<lparr>ae_schema = CONTROL_APPLIED_EFFECT_SCHEMA, ae_idempotency_key = one_digest,
     ae_evidence = CapabilityIndexEvidence 1 zero_digest
       \<lparr>cb_schema = CONTROL_CAPABILITY_CATALOG_BINDING_SCHEMA, cb_installation = witness_installation, cb_generation = 1,
        cb_digest = zero_digest, cb_revision = zero_digest\<rparr> zero_digest\<rparr>"

lemma witness_applications_valid:
  "ControlAppliedEffect_validate_for control_witness_externals witness_skill_ready witness_prepare = Inr ()"
  "ControlAppliedEffect_validate_for control_witness_externals witness_index_published witness_cutover = Inr ()"
  using witness_digests_differ witness_valid_installation
  by (simp_all add: ControlAppliedEffect_validate_for_def witness_skill_ready_def witness_index_published_def witness_intent_fields
      witness_encodings ControlAppliedEffectEvidence_matches_def host_evidence_matches_def ControlEffectSubject_surface_def
      ControlSurfaceObservationState_matches_def preparation_digest_matches_def ControlCapabilityCatalogBinding_validate_def
      ControlCapabilityCatalogBinding_matches_generation_def)

text \<open>The rows the run writes: an intent of the run, no evidence or the evidence of its application.\<close>

definition witness_effect :: "ControlEffectIntent \<Rightarrow> ControlAppliedEffect \<Rightarrow> ControlEffectRecord \<Rightarrow> bool" where
  "witness_effect intent application e =
     (er_operation_id e = ''op1'' \<and> er_intent e = intent \<and> er_payload_digest e = zero_digest
      \<and> (er_application e = None \<or> er_application e = Some application \<and> er_evidence_digest e = Some zero_digest))"

lemma witness_effect_read:
  assumes "witness_generation_row g" "co_reviewed r = witness_reviewed" "index = unat (ei_sequence intent)"
    and "intent = witness_prepare \<and> application = witness_skill_ready \<or> intent = witness_cutover \<and> application = witness_index_published"
    and e: "witness_effect intent application e"
  shows "effect_from_row control_witness_externals (witness_store r' g a b n) witness_installation r (index, e) = Inr e"
proof -
  have gen: "read_generation_from control_witness_externals (witness_store r' g a b n) witness_installation 1 = Inr (Some g)"
    using assms(1) by (intro witness_generation_read) simp_all
  have "application_from_row control_witness_externals e = Inr ()"
    using e assms(4) witness_applications_valid
    by (auto simp: application_from_row_def witness_effect_def witness_encodings)
  then show ?thesis
    using assms(4)
  proof (elim disjE conjE)
    assume "application_from_row control_witness_externals e = Inr ()" "intent = witness_prepare"
    with assms gen e witness_bindings(1) witness_effects_match(1,3) show ?thesis
      by (simp add: effect_from_row_def witness_effect_def witness_reviewed_fields checked_add_def witness_encodings
          witness_intent_fields witness_generation_row_def)
  next
    assume "application_from_row control_witness_externals e = Inr ()" "intent = witness_cutover"
    with assms gen e witness_bindings(2) witness_effects_match(2,4) show ?thesis
      by (simp add: effect_from_row_def witness_effect_def witness_reviewed_fields checked_add_def witness_encodings
          witness_intent_fields witness_generation_row_def)
  qed
qed

definition witness_rows :: "ControlOperationRecord \<Rightarrow> ControlGeneration \<Rightarrow> ControlEffectRecord \<Rightarrow> ControlEffectRecord \<Rightarrow> bool" where
  "witness_rows r g e e' =
     (co_reviewed r = witness_reviewed \<and> operation_times_valid r \<and> co_result_digest r \<in> {None, Some zero_digest}
      \<and> witness_generation_row g \<and> witness_effect witness_prepare witness_skill_ready e
      \<and> witness_effect witness_cutover witness_index_published e')"

lemma witness_operation_effects:
  assumes "witness_rows r g e e'"
  shows "operation_effects (witness_store r g e e' n) ''op1'' = [e, e']"
proof -
  have "sort_key (\<lambda>row. ei_sequence (er_intent row)) [e, e'] = [e, e']"
    using assms by (intro sort_key_id_if_sorted) (simp add: witness_rows_def witness_effect_def witness_intent_fields)
  with assms show ?thesis by (simp add: operation_effects_def witness_rows_def witness_effect_def)
qed

lemma witness_effects_read:
  assumes rows: "witness_rows r g e e'"
  shows "read_effects_from control_witness_externals (witness_store r g e e' n) witness_installation ''op1'' = Inr [e, e']"
proof -
  have "effect_from_row control_witness_externals (witness_store r g e e' n) witness_installation r (0, e) = Inr e"
    "effect_from_row control_witness_externals (witness_store r g e e' n) witness_installation r (1, e') = Inr e'"
    using rows
      witness_effect_read [of g r 0 witness_prepare witness_skill_ready] witness_effect_read [of g r 1 witness_cutover witness_index_published]
    by (simp_all add: witness_rows_def witness_intent_fields)
  moreover have "validate_effect_inventory control_witness_externals [e, e'] = Inr ()"
    by (simp add: validate_effect_inventory_def payload_length_def witness_encodings MAX_CONTROL_EFFECTS_def
        MAX_CONTROL_EFFECT_PAYLOAD_TOTAL_BYTES_def)
  moreover have "ControlOperationRecord_id r = ''op1''"
    using rows by (simp add: ControlOperationRecord_id_def witness_rows_def witness_reviewed_fields)
  ultimately show ?thesis
    using witness_operation_effects [OF rows] by (simp add: read_effects_from_def)
qed

lemma witness_rows_read:
  assumes "witness_rows r g e e'"
  shows "read_operation_from control_witness_externals (witness_store r g e e' n) witness_installation ''op1'' = Inr (Some r)"
    "read_required_operation control_witness_externals (witness_store r g e e' n) witness_installation x ''op1'' = Inr r"
  using assms by (auto intro!: witness_operation_read simp: witness_rows_def)

abbreviation witness_effect_row :: "ControlEffectIntent \<Rightarrow> ControlEffectRecord" where
  "witness_effect_row intent \<equiv> effect_row ''op1'' intent zero_digest"

definition witness_claim :: "string \<Rightarrow> ControlEffectClaim" where
  "witness_claim token = \<lparr>ec_operation_id = ''op1'', ec_worker_id = ''w1'', ec_claim_token = token, ec_now_ms = 9,
     ec_lease_until_ms = 20, ec_explicit_reconciliation = False\<rparr>"

abbreviation witness_claimed :: "string \<Rightarrow> ControlEffectIntent \<Rightarrow> ControlEffectRecord" where
  "witness_claimed token intent \<equiv> claimed_row (witness_claim token) 1 (witness_effect_row intent)"

definition witness_observation :: "string \<Rightarrow> ControlAppliedEffect \<Rightarrow> ControlEffectObservation" where
  "witness_observation token application = \<lparr>eo_operation_id = ''op1'', eo_idempotency_key = ae_idempotency_key application,
     eo_claim_token = token, eo_outcome = OutcomeApplied, eo_application = Some application, eo_failure_evidence_digest = None,
     eo_error_code = None, eo_observed_at_ms = 9, eo_retry_not_before_ms = None\<rparr>"

abbreviation witness_applied :: "string \<Rightarrow> ControlEffectIntent \<Rightarrow> ControlAppliedEffect \<Rightarrow> ControlEffectRecord" where
  "witness_applied token intent application \<equiv>
     observed_row (witness_observation token application) zero_digest (witness_claimed token intent)"

lemma witness_claims_valid:
  "ControlEffectClaim_validate (witness_claim ''c1'') = Inr ()" "ControlEffectClaim_validate (witness_claim ''c2'') = Inr ()"
proof -
  have "valid_machine_id ''op1''" "valid_machine_id ''w1''" "valid_machine_id ''c1''" "valid_machine_id ''c2''" by code_simp+
  then show "ControlEffectClaim_validate (witness_claim ''c1'') = Inr ()" "ControlEffectClaim_validate (witness_claim ''c2'') = Inr ()"
    by (simp_all add: ControlEffectClaim_validate_def witness_claim_def MAX_EFFECT_LEASE_MS_def)
qed

lemma witness_package_found:
  "InstallationSnapshot_package_selection witness_first_snapshot ''acme/a'' = Some witness_selection"
  by code_simp

lemma witness_grant_unneeded: "selection_grant_required control_witness_externals witness_selection = Inr False"
  by code_simp

lemma witness_lock_host_valid: "PluginPackageLockHost_validate control_witness_externals witness_lock_host = Inr ()"
  by code_simp

lemma witness_package_digests:
  "cp_sha256 (cr_package (vr_record (lp_catalog (ip_package witness_selection)))) = Some zero_digest"
  "cp_manifest_sha256 (cr_package (vr_record (lp_catalog (ip_package witness_selection)))) = Some zero_digest"
  "ip_enabled witness_selection" "ip_selected_surfaces witness_selection = [SurfaceRef KSkill ''help'']"
  by code_simp+

lemma witness_generation_fields:
  "gn_operation_id witness_generation = ''op1''" "gn_snapshot witness_generation = witness_first_snapshot"
  "gn_snapshot_digest witness_generation = zero_digest" "gn_package_lifecycles witness_generation = witness_lifecycles"
  "gn_grants witness_generation = []" "gn_provider_selections witness_generation = []"
  "gn_capability witness_generation = witness_capability" "gn_capability_status witness_generation = Candidate"
  "gn_committed_at_ms witness_generation = 8" "gn_capability_published_at_ms witness_generation = None"
  by (simp_all add: witness_generation_def generation_row_def witness_transition_fields)

lemma witness_lifecycle_found:
  "find_lifecycle witness_lifecycles ''acme/a'' = Some \<lparr>cl_package_id = ''acme/a'', cl_lifecycle_generation = 1\<rparr>"
  "binary_search_by ControlGrantSelection_package_id ''acme/a'' [] = None"
  by code_simp+

lemma witness_package_authority:
  "\<exists>authority. package_authority control_witness_externals witness_generation witness_prepare = Inr authority"
proof -
  have "valid_machine_id ''op1''" by code_simp
  moreover have "is_host witness_first_snapshot = witness_lock_host" by (simp add: witness_first_snapshot_def)
  ultimately show ?thesis
    using witness_digests_differ witness_package_digests witness_selection_valid witness_lock_host_valid
    by (simp add: package_authority_def witness_intent_fields ControlEffectSubject_package_identity_def witness_generation_fields
        witness_package_found witness_lifecycle_found witness_grant_unneeded validate_package_authority_def
        authority_binds_def authority_grant_matches_def witness_snapshot_fields witness_selection_id is_none_or_def)
qed

lemma witness_pending_rows:
  assumes "witness_effect witness_prepare witness_skill_ready e" "witness_effect witness_cutover witness_index_published e'"
  shows "witness_rows witness_pending witness_generation e e'"
  using assms witness_generation_row_candidate
  by (simp add: witness_rows_def witness_row_fields operation_times_valid_def witness_pending_def reviewed_row_def witness_reviewed_fields)

lemma witness_effect_rows [simp]:
  "witness_effect intent application (witness_effect_row intent)"
  "witness_effect intent application (witness_claimed token intent)"
  "witness_effect intent application (witness_applied token intent application)"
  by (simp_all add: witness_effect_def effect_row_def claimed_row_def observed_row_def witness_observation_def)

definition witness_first_claimed :: control_store where
  "witness_first_claimed =
     witness_store witness_pending witness_generation (witness_claimed ''c1'' witness_prepare) (witness_effect_row witness_cutover) 0"

lemma witness_first_claim:
  "\<exists>claimed. claim_next_effect control_witness_externals witness_committed witness_installation (witness_claim ''c1'')
     = Inr (witness_first_claimed, Some claimed)"
proof -
  have rows: "witness_rows witness_pending witness_generation (witness_effect_row witness_prepare) (witness_effect_row witness_cutover)"
    by (simp add: witness_pending_rows)
  obtain authority where auth: "package_authority control_witness_externals witness_generation witness_prepare = Inr authority"
    using witness_package_authority by blast
  have unfinished: "effect_unfinished (witness_effect_row witness_prepare)" "er_intent (witness_effect_row witness_prepare) = witness_prepare"
    "er_status (witness_effect_row witness_prepare) = EffectPending" "er_attempt (witness_effect_row witness_prepare) = 0"
    by (simp_all add: effect_unfinished_def effect_row_def witness_intent_fields)
  have "derive_claim_authority control_witness_externals witness_committed witness_installation witness_pending
      (witness_effect_row witness_prepare) = Inr (SkillHostAuthority authority)"
    using witness_generation_read [of witness_committed witness_generation, OF _ witness_generation_row_candidate] auth
    by (simp add: derive_claim_authority_def unfinished witness_intent_fields witness_committed_def)
  moreover have "update_effects (effect_with_key zero_digest) (claimed_row (witness_claim ''c1'') 1) witness_committed = witness_first_claimed"
    using witness_digests_differ
    by (simp add: update_effects_def effect_with_key_def effect_row_def witness_committed_def witness_first_claimed_def witness_store_def
        witness_intent_fields)
  moreover have "\<not> (\<exists>row \<in> set (cs_effects witness_committed). \<not> effect_with_key zero_digest row \<and> er_claim_token row = Some ''c1'')"
    by (simp add: witness_committed_def effect_row_def)
  ultimately have "\<exists>claimed. claim_effect control_witness_externals witness_committed witness_installation (witness_claim ''c1'') witness_pending
      (witness_effect_row witness_prepare) = Inr (witness_first_claimed, claimed)"
    by (simp add: claim_effect_def unfinished checked_add_def witness_claim_def witness_i64 witness_intent_fields)
  then show ?thesis
    using witness_claims_valid witness_rows_read(2) [OF rows] witness_effects_read [OF rows] unfinished
    by (auto simp: claim_next_effect_def witness_open witness_committed_def witness_row_fields read_next_unfinished_effect_def
        claim_admission_def witness_claim_def)
qed

lemma witness_first_claimed_reachable: "control_reachable control_witness_externals witness_installation witness_first_claimed"
  using witness_first_claim machine_reachable.move [OF witness_committed_reachable control_step.claim] by blast

lemma witness_observations_valid:
  "ControlEffectObservation_validate control_witness_externals (witness_observation ''c1'' witness_skill_ready) = Inr ()"
  "ControlEffectObservation_validate control_witness_externals (witness_observation ''c2'' witness_index_published) = Inr ()"
proof -
  have "valid_machine_id ''op1''" "valid_machine_id ''c1''" "valid_machine_id ''c2''" by code_simp+
  then show "ControlEffectObservation_validate control_witness_externals (witness_observation ''c1'' witness_skill_ready) = Inr ()"
    "ControlEffectObservation_validate control_witness_externals (witness_observation ''c2'' witness_index_published) = Inr ()"
    using witness_digests_differ
    by (simp_all add: ControlEffectObservation_validate_def witness_observation_def evidence_matches_outcome_def witness_encodings
        witness_skill_ready_def witness_index_published_def)
qed

lemma witness_evidence:
  "ControlEffectObservation_evidence_for control_witness_externals (witness_observation ''c1'' witness_skill_ready) witness_prepare
     = Inr (Some ''a'', zero_digest)"
  "ControlEffectObservation_evidence_for control_witness_externals (witness_observation ''c2'' witness_index_published) witness_cutover
     = Inr (Some ''a'', zero_digest)"
  using witness_observations_valid witness_applications_valid
  by (simp_all add: ControlEffectObservation_evidence_for_def witness_encodings) (simp_all add: witness_observation_def witness_encodings)

definition witness_first_observed :: control_store where
  "witness_first_observed = witness_store witness_pending witness_generation
     (witness_applied ''c1'' witness_prepare witness_skill_ready) (witness_effect_row witness_cutover) 0"

lemma witness_claimed_fields:
  "er_status (witness_claimed token intent) = EffectClaimed" "er_intent (witness_claimed token intent) = intent"
  "er_operation_id (witness_claimed token intent) = ''op1''" "er_claim_token (witness_claimed token intent) = Some token"
  "er_lease_until_ms (witness_claimed token intent) = Some 20" "er_observed_at_ms (witness_claimed token intent) = None"
  by (simp_all add: claimed_row_def effect_row_def witness_claim_def)

lemma witness_pending_fields:
  "er_status (witness_effect_row intent) = EffectPending" "er_intent (witness_effect_row intent) = intent"
  "er_operation_id (witness_effect_row intent) = ''op1''" "er_attempt (witness_effect_row intent) = 0"
  by (simp_all add: effect_row_def)

lemma witness_applied_fields:
  "er_status (witness_applied token intent application) = EffectApplied"
  "er_intent (witness_applied token intent application) = intent" "er_operation_id (witness_applied token intent application) = ''op1''"
  "er_claim_token (witness_applied token intent application) = Some token"
  "er_application (witness_applied token intent application) = Some application"
  "er_observed_at_ms (witness_applied token intent application) = Some 9"
  by (simp_all add: observed_row_def claimed_row_def effect_row_def witness_claim_def witness_observation_def)

lemma witness_update_effects:
  "update_effects P f (witness_store r g e e' n) = witness_store r g (if P e then f e else e) (if P e' then f e' else e') n"
  by (simp add: update_effects_def witness_store_def)

lemma witness_first_observe:
  "record_effect_observation control_witness_externals witness_first_claimed witness_installation
     (witness_observation ''c1'' witness_skill_ready) = Inr (witness_first_observed, True)"
proof -
  let ?o = "witness_observation ''c1'' witness_skill_ready"
  have rows: "witness_rows witness_pending witness_generation (witness_claimed ''c1'' witness_prepare) (witness_effect_row witness_cutover)"
    by (simp add: witness_pending_rows)
  have o: "eo_operation_id ?o = ''op1''" "eo_idempotency_key ?o = zero_digest" "eo_observed_at_ms ?o = 9"
    "eo_outcome ?o = OutcomeApplied" "eo_retry_not_before_ms ?o = None" "eo_claim_token ?o = ''c1''"
    by (simp_all add: witness_observation_def witness_skill_ready_def)
  have found: "read_effect_by_key control_witness_externals witness_first_claimed witness_installation zero_digest
      = Inr (Some (witness_claimed ''c1'' witness_prepare))"
    using witness_effects_read [OF rows]
    by (simp add: read_effect_by_key_def witness_first_claimed_def witness_claimed_fields witness_intent_fields)
  have earliest: "earliest_observation_ms witness_first_claimed ''op1'' 0 8 = 8"
    by (simp add: earliest_observation_ms_def)
  have settled: "settle_observation witness_first_claimed (witness_claimed ''c1'' witness_prepare) ?o zero_digest = Inr witness_first_observed"
    using witness_digests_differ
    by (simp add: settle_observation_def o witness_i64 optional_to_i64_def map_transpose_def settle_cutover_def settle_rejection_def
        witness_claimed_fields witness_intent_fields witness_update_effects effect_with_key_def witness_first_claimed_def
        witness_first_observed_def witness_pending_fields)
  have "co_committed_at_ms witness_pending = Some 8" by (simp add: witness_pending_def)
  then show ?thesis
    using witness_observations_valid(1) witness_rows_read(1) [OF rows] witness_evidence(1) found earliest settled
    by (simp add: record_effect_observation_def o witness_open witness_first_claimed_def witness_claimed_fields witness_intent_fields
        owns_active_claim_def is_none_or_def)
qed

lemma witness_first_observed_reachable: "control_reachable control_witness_externals witness_installation witness_first_observed"
  by (rule machine_reachable.move [OF witness_first_claimed_reachable control_step.observe [OF witness_first_observe]])

definition witness_second_claimed :: control_store where
  "witness_second_claimed = witness_store witness_pending witness_generation
     (witness_applied ''c1'' witness_prepare witness_skill_ready) (witness_claimed ''c2'' witness_cutover) 0"

lemma witness_materialized:
  "\<exists>materializations. materializations_for control_witness_externals witness_generation witness_pending (witness_effect_row witness_cutover)
     [witness_pending] [witness_applied ''c1'' witness_prepare witness_skill_ready, witness_effect_row witness_cutover]
     = Inr materializations"
proof -
  let ?key = "(''acme/a'', 1 :: u64, SurfaceRef KSkill ''help'')"
  let ?e = "witness_applied ''c1'' witness_prepare witness_skill_ready"
  have "lifecycle_index witness_generation = [(''acme/a'', 1)]"
    by (simp add: lifecycle_index_def witness_generation_fields bt_collect_def)
  then have expected: "expected_surfaces witness_generation = Inr [?key]"
    by (simp add: expected_surfaces_def witness_generation_fields witness_snapshot_fields witness_package_digests expect_package_def
        witness_selection_id bt_get_def expect_surface_def bs_collect_def bs_extend_def)
  have targets: "operation_targets [witness_pending] = Inr [(''op1'', 1)]"
    by (simp add: operation_targets_def witness_row_fields witness_reviewed_fields bt_collect_def) (simp add: witness_pending_def)
  have observed: "fold_result (observe_surface [?key] [(''op1'', 1)] 1 (witness_effect_row witness_cutover)) []
      [?e, witness_effect_row witness_cutover] = Inr [(?key, 1, 0, ?e)]"
    by (simp add: observe_surface_def witness_applied_fields witness_pending_fields witness_intent_fields bt_get_def is_none_or_def)
  have "validate_materialization witness_generation ?key ?e (PreparedSurface witness_skill_ready 9) = Inr ()"
    using witness_effects_match(3) witness_package_digests
    by (simp add: validate_materialization_def witness_applied_fields witness_intent_fields witness_generation_fields witness_package_found
        witness_snapshot_fields ControlEffectSubject_package_identity_def ControlEffectSubject_surface_def surface_state_valid_def)
  then have "materialize_surface control_witness_externals witness_generation [(?key, 1, 0, ?e)] ?key
      = Inr \<lparr>sx_intent = witness_prepare, sx_state = PreparedSurface witness_skill_ready 9\<rparr>"
    using witness_applications_valid(1)
    by (simp add: materialize_surface_def bt_get_def witness_applied_fields witness_intent_fields surface_state_def)
  with expected targets observed show ?thesis
    by (simp add: materializations_for_def witness_row_fields witness_reviewed_fields)
qed

lemma witness_authority:
  assumes "witness_rows r g e e'"
  shows "authority_from control_witness_externals (witness_store r g e e' n) witness_installation
    = Inr \<lparr>sy_generations = [g], sy_operations = [r], sy_effects = [e, e']\<rparr>"
proof -
  have "ControlOperationRecord_id r = ''op1''" "ControlGeneration_number g = 1"
    using assms by (simp_all add: ControlOperationRecord_id_def ControlGeneration_number_def witness_rows_def witness_generation_row_def
        witness_reviewed_fields witness_snapshot_fields)
  moreover have "read_generation_from control_witness_externals (witness_store r g e e' n) witness_installation 1 = Inr (Some g)"
    using assms by (intro witness_generation_read) (simp_all add: witness_rows_def)
  ultimately show ?thesis
    using witness_rows_read(1) [OF assms] witness_effects_read [OF assms] by (simp add: authority_from_def)
qed

lemma witness_second_claim:
  "\<exists>claimed. claim_next_effect control_witness_externals witness_first_observed witness_installation (witness_claim ''c2'')
     = Inr (witness_second_claimed, Some claimed)"
proof -
  let ?e = "witness_applied ''c1'' witness_prepare witness_skill_ready" and ?e' = "witness_effect_row witness_cutover"
  have rows: "witness_rows witness_pending witness_generation ?e ?e'"
    by (simp add: witness_pending_rows)
  obtain materializations where mat: "materializations_for control_witness_externals witness_generation witness_pending ?e'
      [witness_pending] [?e, ?e'] = Inr materializations"
    using witness_materialized by blast
  have coverage: "validate_generation_grant_coverage control_witness_externals witness_generation = Inr ()"
    by (simp add: validate_generation_grant_coverage_def witness_generation_fields witness_snapshot_fields witness_grant_unneeded
        bs_collect_def bs_extend_def)
  have gen: "read_generation_from control_witness_externals witness_first_observed witness_installation 1 = Inr (Some witness_generation)"
    by (rule witness_generation_read [OF _ witness_generation_row_candidate]) (simp add: witness_first_observed_def)
  have "capability_authority control_witness_externals witness_first_observed witness_installation witness_pending ?e' witness_generation
      = Inr \<lparr>ix_generation = witness_generation, ix_materializations = materializations\<rparr>"
    using coverage mat witness_authority [OF rows]
    by (simp add: capability_authority_def witness_generation_fields witness_row_fields witness_reviewed_fields witness_snapshot_fields
        witness_first_observed_def)
  with gen have "\<exists>authority. derive_claim_authority control_witness_externals witness_first_observed witness_installation witness_pending ?e'
      = Inr authority"
    by (simp add: derive_claim_authority_def witness_pending_fields witness_intent_fields)
  moreover have "update_effects (effect_with_key one_digest) (claimed_row (witness_claim ''c2'') 1) witness_first_observed = witness_second_claimed"
    using witness_digests_differ
    by (simp add: witness_update_effects effect_with_key_def witness_first_observed_def witness_second_claimed_def witness_intent_fields
        witness_applied_fields witness_pending_fields)
  moreover have "\<not> (\<exists>row \<in> set (cs_effects witness_first_observed). \<not> effect_with_key one_digest row \<and> er_claim_token row = Some ''c2'')"
    by (simp add: witness_first_observed_def witness_applied_fields effect_with_key_def witness_pending_fields witness_intent_fields)
  ultimately have "\<exists>claimed. claim_effect control_witness_externals witness_first_observed witness_installation (witness_claim ''c2'')
      witness_pending ?e' = Inr (witness_second_claimed, claimed)"
    by (auto simp: claim_effect_def witness_pending_fields checked_add_def witness_claim_def witness_i64 witness_intent_fields)
  moreover have "effect_unfinished ?e'" "\<not> effect_unfinished ?e"
    by (simp_all add: effect_unfinished_def witness_pending_fields witness_applied_fields witness_intent_fields)
  ultimately show ?thesis
    using witness_claims_valid witness_rows_read(2) [OF rows] witness_effects_read [OF rows]
    by (auto simp: claim_next_effect_def witness_open witness_first_observed_def witness_row_fields read_next_unfinished_effect_def
        claim_admission_def witness_claim_def witness_pending_fields)
qed

lemma witness_second_claimed_reachable: "control_reachable control_witness_externals witness_installation witness_second_claimed"
  using witness_second_claim machine_reachable.move [OF witness_first_observed_reachable control_step.claim] by blast

definition witness_published :: ControlGeneration where
  "witness_published = witness_generation\<lparr>gn_capability_status := Published, gn_capability_published_at_ms := Some 9\<rparr>"

definition witness_settled :: control_store where
  "witness_settled = witness_store witness_pending witness_published (witness_applied ''c1'' witness_prepare witness_skill_ready)
     (witness_applied ''c2'' witness_cutover witness_index_published) 1"

lemma witness_published_row: "witness_generation_row witness_published"
  using witness_generation_row_candidate witness_digests_differ
  by (simp add: witness_generation_row_def witness_published_def capability_row_valid_def is_none_or_def)

lemma witness_publish:
  "publish_capability_cutover (witness_store r witness_generation e e' 0) witness_cutover 9 = Inr (witness_store r witness_published e e' 1)"
proof -
  have "is_candidate_row 1 1 zero_digest witness_generation"
    by (simp add: is_candidate_row_def witness_generation_fields ControlGeneration_number_def witness_snapshot_fields)
  then have "publish_candidate (witness_store r witness_generation e e' 0) 1 1 zero_digest 9 = Inr (witness_store r witness_published e e' 0)"
    by (simp add: publish_candidate_def witness_i64 update_generations_def witness_published_def witness_store_def)
  then show ?thesis
    by (simp add: publish_capability_cutover_def witness_intent_fields retire_published_def witness_i64 witness_store_def)
qed

lemma witness_second_observe:
  "record_effect_observation control_witness_externals witness_second_claimed witness_installation
     (witness_observation ''c2'' witness_index_published) = Inr (witness_settled, True)"
proof -
  let ?o = "witness_observation ''c2'' witness_index_published" and ?e = "witness_applied ''c1'' witness_prepare witness_skill_ready"
    and ?e' = "witness_claimed ''c2'' witness_cutover"
  have rows: "witness_rows witness_pending witness_generation ?e ?e'" by (simp add: witness_pending_rows)
  have o: "eo_operation_id ?o = ''op1''" "eo_idempotency_key ?o = one_digest" "eo_observed_at_ms ?o = 9"
    "eo_outcome ?o = OutcomeApplied" "eo_retry_not_before_ms ?o = None" "eo_claim_token ?o = ''c2''"
    by (simp_all add: witness_observation_def witness_index_published_def)
  have found: "read_effect_by_key control_witness_externals witness_second_claimed witness_installation one_digest = Inr (Some ?e')"
    using witness_effects_read [OF rows] witness_digests_differ
    by (simp add: read_effect_by_key_def witness_second_claimed_def witness_claimed_fields witness_applied_fields witness_intent_fields)
  have earliest: "earliest_observation_ms witness_second_claimed ''op1'' 1 8 = 9"
    by (simp add: earliest_observation_ms_def witness_second_claimed_def witness_claimed_fields witness_applied_fields
        witness_intent_fields List.map_filter_def)
  have settled: "settle_observation witness_second_claimed ?e' ?o zero_digest = Inr witness_settled"
    using witness_digests_differ witness_publish
    by (simp add: settle_observation_def o witness_i64 optional_to_i64_def map_transpose_def settle_cutover_def settle_rejection_def
        witness_claimed_fields witness_applied_fields witness_intent_fields witness_update_effects effect_with_key_def
        witness_second_claimed_def witness_settled_def)
  have "co_committed_at_ms witness_pending = Some 8" by (simp add: witness_pending_def)
  then show ?thesis
    using witness_observations_valid(2) witness_rows_read(1) [OF rows] witness_evidence(2) found earliest settled
    by (simp add: record_effect_observation_def o witness_open witness_second_claimed_def witness_claimed_fields witness_intent_fields
        owns_active_claim_def is_none_or_def)
qed

lemma witness_settled_reachable: "control_reachable control_witness_externals witness_installation witness_settled"
  by (rule machine_reachable.move [OF witness_second_claimed_reachable control_step.observe [OF witness_second_observe]])

section \<open>Completion\<close>

definition witness_completed_row :: ControlOperationRecord where
  "witness_completed_row = finish_operation OperationCompleted 9 zero_digest witness_pending"

definition witness_completed :: control_store where
  "witness_completed = witness_store witness_completed_row witness_published (witness_applied ''c1'' witness_prepare witness_skill_ready)
     (witness_applied ''c2'' witness_cutover witness_index_published) 1"

lemma witness_completed_rows:
  "witness_rows witness_completed_row witness_published (witness_applied ''c1'' witness_prepare witness_skill_ready)
     (witness_applied ''c2'' witness_cutover witness_index_published)"
  using witness_published_row
  by (simp add: witness_rows_def witness_completed_row_def finish_operation_def operation_times_valid_def witness_pending_def reviewed_row_def
      witness_reviewed_fields)

lemma witness_complete:
  "complete_operation control_witness_externals witness_settled witness_installation ''op1'' zero_digest zero_digest 9
     = Inr (witness_completed, witness_completed_row)"
proof -
  let ?e = "witness_applied ''c1'' witness_prepare witness_skill_ready" and ?e' = "witness_applied ''c2'' witness_cutover witness_index_published"
  have rows: "witness_rows witness_pending witness_published ?e ?e'"
    using witness_pending_rows [of ?e ?e'] witness_published_row by (simp add: witness_rows_def)
  have "valid_machine_id ''op1''" by code_simp
  then have valid: "validate_terminal_request ''op1'' zero_digest zero_digest 9 = Inr ()"
    using witness_digests_differ by (simp add: validate_terminal_request_def)
  have settled: "\<not> effect_unfinished ?e" "\<not> effect_unfinished ?e'"
    by (simp_all add: effect_unfinished_def witness_applied_fields)
  have g: "ControlGeneration_number witness_published = 1" "cc_generation (gn_capability witness_published) = 1"
    "gn_capability_status witness_published = Published" "gn_capability_published_at_ms witness_published = Some 9"
    by (simp_all add: witness_published_def ControlGeneration_number_def witness_generation_fields witness_snapshot_fields)
  have writes: "update_operations (operation_in_state ''op1'' EffectsPending) (finish_operation OperationCompleted 9 zero_digest) witness_settled
      = witness_completed"
    by (simp add: update_operations_def operation_in_state_def witness_row_fields witness_settled_def witness_completed_def witness_store_def
        witness_completed_row_def)
  have observed: "List.map_filter er_observed_at_ms [?e, ?e'] = [9, 9]"
    by (simp add: List.map_filter_def witness_applied_fields)
  have effects: "read_effects_from control_witness_externals witness_settled witness_installation ''op1'' = Inr [?e, ?e']"
    using witness_effects_read [OF rows] by (simp add: witness_settled_def)
  have reread: "read_required_operation control_witness_externals witness_completed witness_installation ControlCorrupt ''op1''
      = Inr witness_completed_row"
    using witness_rows_read(2) [OF witness_completed_rows] by (simp add: witness_completed_def)
  have store: "cs_generations witness_settled = [witness_published]" "cs_published_capability_generation witness_settled = 1"
    by (simp_all add: witness_settled_def)
  have "complete_pending control_witness_externals witness_settled witness_installation ''op1'' witness_pending zero_digest 9
      = Inr (witness_completed, witness_completed_row)"
    by (simp add: complete_pending_def effects settled observed witness_row_fields witness_reviewed_fields witness_i64 store g
        is_none_or_def writes reread del: map_filter_simps)
  with valid witness_rows_read(2) [OF rows, of 1] show ?thesis
    by (simp add: complete_operation_def witness_open witness_settled_def witness_row_fields witness_reviewed_fields)
      (simp add: witness_pending_def)
qed

lemma witness_completed_reachable: "control_reachable control_witness_externals witness_installation witness_completed"
  by (rule machine_reachable.move [OF witness_settled_reachable control_step.complete [OF witness_complete]])

end
