(* ===== verification/Control_Publication.thy ===== *)
theory Control_Publication
  imports Control_Invariant
begin

text \<open>
  The published capabilities of an installation: the cursor read from the one published generation and the applied
  effect of the capability index, \<open>src/control_store/model/capability_publication.rs\<close> and
  \<open>read_published_capability_from\<close> in \<open>src/control_store/aggregate.rs\<close>, with the keys of the package-graph cutover,
  \<open>src/plugin_lifecycle/graph.rs\<close> and \<open>graph/validation.rs\<close>.
\<close>

section \<open>The cursor\<close>

record ControlPublishedCapabilityPackage =
  pq_package_id :: string
  pq_lifecycle_generation :: u64
  pq_package_digest :: string
  pq_manifest_digest :: string

record ControlPublishedCapabilityCursor =
  pu_schema :: string
  pu_installation :: InstallationId
  pu_installation_generation :: u64
  pu_capability_generation :: u64
  pu_descriptor_digest :: string
  pu_catalog :: ControlCapabilityCatalogBinding
  pu_receipt_digest :: string
  pu_packages :: "ControlPublishedCapabilityPackage list"

record ControlPublishedCapabilityCutover =
  pk_cursor :: ControlPublishedCapabilityCursor
  pk_graph_cutover_key :: "string option"

definition CONTROL_PUBLISHED_CAPABILITY_CURSOR_SCHEMA :: string where
  "CONTROL_PUBLISHED_CAPABILITY_CURSOR_SCHEMA = ''a3s.use.control-published-capability-cursor.v2''"

definition published_package_valid :: "ControlPublishedCapabilityPackage \<Rightarrow> bool" where
  "published_package_valid package = (\<not>
     (\<not> is_ok (PluginPackageId_parse (pq_package_id package))
      \<or> pq_lifecycle_generation package = 0
      \<or> \<not> valid_sha256 (pq_package_digest package)
      \<or> \<not> valid_sha256 (pq_manifest_digest package)))"

definition ControlPublishedCapabilityCursor_validate ::
  "ControlPublishedCapabilityCursor \<Rightarrow> unit use_result" where
  "ControlPublishedCapabilityCursor_validate self =
     (if pu_schema self \<noteq> CONTROL_PUBLISHED_CAPABILITY_CURSOR_SCHEMA
         \<or> \<not> is_ok (InstallationId_validate (pu_installation self))
         \<or> pu_installation_generation self = 0
         \<or> pu_capability_generation self = 0
         \<or> \<not> valid_sha256 (pu_descriptor_digest self)
         \<or> \<not> is_ok (ControlCapabilityCatalogBinding_validate (pu_catalog self))
         \<or> \<not> ControlCapabilityCatalogBinding_matches_generation (pu_catalog self) (pu_installation self)
               (pu_capability_generation self)
         \<or> \<not> valid_sha256 (pu_receipt_digest self)
         \<or> length (pu_packages self) > MAX_PLUGIN_PLAN_ITEMS
         \<or> windows2_any (\<lambda>a b. pq_package_id a \<ge> pq_package_id b) (pu_packages self)
         \<or> (\<exists>package \<in> set (pu_packages self). \<not> published_package_valid package)
      then Inl ControlInputInvalid else Inr ())"

definition published_package ::
  "(string, u64) btree_map \<Rightarrow> InstallationPackageSelection \<Rightarrow> ControlPublishedCapabilityPackage use_result" where
  "published_package lifecycles package =
     (let package_id = InstallationPackageSelection_package_id package;
          catalog_package = cr_package (vr_record (lp_catalog (ip_package package))) in
      and_then (ok_or ControlInputInvalid (bt_get lifecycles package_id)) (\<lambda>lifecycle_generation.
      and_then (ok_or ControlInputInvalid (cp_sha256 catalog_package)) (\<lambda>package_digest.
      and_then (ok_or ControlInputInvalid (cp_manifest_sha256 catalog_package)) (\<lambda>manifest_digest.
        Inr \<lparr>pq_package_id = package_id, pq_lifecycle_generation = lifecycle_generation,
          pq_package_digest = package_digest, pq_manifest_digest = manifest_digest\<rparr>))))"

definition ControlPublishedCapabilityCursor_from_generation ::
  "ControlGeneration \<Rightarrow> string \<Rightarrow> ControlCapabilityCatalogBinding
     \<Rightarrow> ControlPublishedCapabilityCursor use_result" where
  "ControlPublishedCapabilityCursor_from_generation generation receipt_digest catalog =
     and_then (collect_results (published_package (lifecycle_index generation))
       (filter ip_enabled (is_packages (gn_snapshot generation)))) (\<lambda>packages.
     let cursor = \<lparr>pu_schema = CONTROL_PUBLISHED_CAPABILITY_CURSOR_SCHEMA,
           pu_installation = is_installation (gn_snapshot generation),
           pu_installation_generation = is_generation (gn_snapshot generation),
           pu_capability_generation = cc_generation (gn_capability generation),
           pu_descriptor_digest = cc_descriptor_digest (gn_capability generation), pu_catalog = catalog,
           pu_receipt_digest = receipt_digest, pu_packages = packages\<rparr> in
     and_then (ControlPublishedCapabilityCursor_validate cursor) (\<lambda>_.
     if gn_capability_status generation \<noteq> Published \<or> gn_capability_published_at_ms generation = None
     then Inl ControlInputInvalid else Inr cursor))"

definition contains_incarnation :: "ControlPublishedCapabilityCursor \<Rightarrow> string \<Rightarrow> u64 \<Rightarrow> bool" where
  "contains_incarnation self package_id lifecycle_generation =
     is_some_and (\<lambda>index. is_some_and (\<lambda>package. pq_lifecycle_generation package = lifecycle_generation)
         (if index < length (pu_packages self) then Some (pu_packages self ! index) else None))
       (binary_search_by pq_package_id package_id (pu_packages self))"

section \<open>The read\<close>

text \<open>One turn of the loop over the effects of the generation; the state is \<open>publication\<close>.\<close>

definition index_publication ::
  "('v, 'r, 'x) effect_externals_scheme \<Rightarrow> ControlGeneration \<Rightarrow> u64 \<Rightarrow> (string \<times> ControlCapabilityCatalogBinding) option
     \<Rightarrow> ControlEffectRecord \<Rightarrow> (string \<times> ControlCapabilityCatalogBinding) option use_result" where
  "index_publication X generation capability_generation publication effect =
     (if ei_owner (er_intent effect) \<noteq> CapabilityIndex then Inr publication
      else
      (case ei_subject (er_intent effect) of
         InstallationSubject _ effect_generation descriptor_digest \<Rightarrow>
           if effect_generation \<noteq> capability_generation
              \<or> descriptor_digest \<noteq> cc_descriptor_digest (gn_capability generation)
              \<or> er_status effect \<noteq> EffectApplied
           then Inl ControlCorrupt
           else
           and_then (ok_or ControlCorrupt (er_application effect)) (\<lambda>application.
           and_then (map_err (\<lambda>_. ControlCorrupt) (ControlAppliedEffect_validate_for X application (er_intent effect))) (\<lambda>_.
           (case ae_evidence application of
              CapabilityIndexEvidence _ _ catalog receipt_digest \<Rightarrow>
                if publication \<noteq> None then Inl ControlCorrupt else Inr (Some (receipt_digest, catalog))
            | _ \<Rightarrow> Inl ControlCorrupt)))
       | _ \<Rightarrow> Inl ControlCorrupt))"

definition read_published_capability_from ::
  "('v, 'r, 'x) control_store_externals_scheme \<Rightarrow> control_store \<Rightarrow> InstallationId
     \<Rightarrow> ControlPublishedCapabilityCursor option use_result" where
  "read_published_capability_from X st installation =
     (let capability_generation = snd (read_cursors st) in
      if capability_generation = 0 then Inr None
      else
      and_then (to_i64 capability_generation) (\<lambda>_.
      and_then (ok_or ControlCorrupt (List.find (\<lambda>row. cc_generation (gn_capability row) = capability_generation
          \<and> gn_capability_status row = Published) (cs_generations st))) (\<lambda>row.
      and_then (read_generation_from X st installation (ControlGeneration_number row)) (\<lambda>found.
      and_then (ok_or ControlCorrupt found) (\<lambda>generation.
      if cc_generation (gn_capability generation) \<noteq> capability_generation \<or> gn_capability_status generation \<noteq> Published
      then Inl ControlCorrupt
      else
      and_then (read_effects_from X st installation (gn_operation_id generation)) (\<lambda>effects.
      and_then (fold_result (index_publication X generation capability_generation) None effects) (\<lambda>publication.
      and_then (ok_or ControlCorrupt publication) (\<lambda>(receipt, catalog).
        map_err (\<lambda>_. ControlCorrupt) (and_then
          (ControlPublishedCapabilityCursor_from_generation generation receipt catalog) (\<lambda>cursor. Inr (Some cursor)))))))))))"

definition published_capability ::
  "('v, 'r, 'x) control_store_externals_scheme \<Rightarrow> control_store \<Rightarrow> InstallationId
     \<Rightarrow> ControlPublishedCapabilityCursor option use_result" where
  "published_capability X st installation =
     and_then (open_verified st installation) (\<lambda>_. read_published_capability_from X st installation)"

section \<open>The cutover key\<close>

definition graph_key :: "('v, 'r, 'x) externals_scheme \<Rightarrow> string \<Rightarrow> PluginOperationPlanEnvelope \<Rightarrow> string use_result" where
  "graph_key X purpose envelope =
     and_then (ok_or PackageGraphInvalid (po_package_lock_digest (pe_plan envelope))) (\<lambda>lock_digest.
       Inr (canonical_digest X (pe_plan_digest envelope @ newline # lock_digest @ newline # purpose)))"

definition publication_key :: "('v, 'r, 'x) externals_scheme \<Rightarrow> PluginOperationPlanEnvelope \<Rightarrow> string use_result" where
  "publication_key X envelope = graph_key X ''package-graph-publish'' envelope"

definition hide_key :: "('v, 'r, 'x) externals_scheme \<Rightarrow> PluginOperationPlanEnvelope \<Rightarrow> string use_result" where
  "hide_key X envelope = graph_key X ''package-graph-hide'' envelope"

definition operation_cutover_key :: "('v, 'r, 'x) externals_scheme \<Rightarrow> PluginOperationPlanEnvelope \<Rightarrow> string use_result" where
  "operation_cutover_key X envelope =
     (case po_action (pe_plan envelope) of
        Install \<Rightarrow> publication_key X envelope
      | Upgrade \<Rightarrow> publication_key X envelope
      | Uninstall \<Rightarrow> hide_key X envelope
      | Enable \<Rightarrow> Inl PackageGraphInvalid
      | Disable \<Rightarrow> Inl PackageGraphInvalid)"

definition published_capability_cutover ::
  "('v, 'r, 'x) control_store_externals_scheme \<Rightarrow> control_store \<Rightarrow> InstallationId
     \<Rightarrow> ControlPublishedCapabilityCutover option use_result" where
  "published_capability_cutover X st installation =
     and_then (open_verified st installation) (\<lambda>_.
     and_then (read_published_capability_from X st installation) (\<lambda>found.
     case found of
       None \<Rightarrow> Inr None
     | Some cursor \<Rightarrow>
         and_then (to_i64 (pu_installation_generation cursor)) (\<lambda>_.
         and_then (ok_or ControlCorrupt (List.find (\<lambda>row. ControlGeneration_number row = pu_installation_generation cursor)
           (cs_generations st))) (\<lambda>row.
         and_then (read_required_operation X st installation ControlCorrupt (gn_operation_id row)) (\<lambda>operation.
         and_then (target_generation (co_reviewed operation)) (\<lambda>generation.
         and_then (target_capability_generation (co_reviewed operation)) (\<lambda>capability_generation.
         if generation \<noteq> pu_installation_generation cursor \<or> capability_generation \<noteq> pu_capability_generation cursor
         then Inl ControlCorrupt
         else
         and_then (if ReviewedControlOperation_action (co_reviewed operation) \<in> {Enable, Disable} then Inr None
           else map_err (\<lambda>_. ControlCorrupt) (and_then (operation_cutover_key X (ro_envelope (co_reviewed operation)))
             (\<lambda>key. Inr (Some key)))) (\<lambda>graph_cutover_key.
           Inr (Some \<lparr>pk_cursor = cursor, pk_graph_cutover_key = graph_cutover_key\<rparr>)))))))))"

definition published_capability_cutover_key ::
  "('v, 'r, 'x) control_store_externals_scheme \<Rightarrow> control_store \<Rightarrow> InstallationId \<Rightarrow> string option use_result" where
  "published_capability_cutover_key X st installation =
     and_then (published_capability_cutover X st installation) (\<lambda>cutover.
       Inr (Option.bind cutover pk_graph_cutover_key))"

section \<open>What the cursor shows\<close>

lemma index_publication_Inr:
  assumes "index_publication X g n publication e = Inr publication'"
  shows "publication' = publication \<or> (\<exists>application generation digest receipt catalog. publication' = Some (receipt, catalog)
    \<and> ei_owner (er_intent e) = CapabilityIndex \<and> er_status e = EffectApplied \<and> er_application e = Some application
    \<and> ae_evidence application = CapabilityIndexEvidence generation digest catalog receipt)"
proof (cases "ei_owner (er_intent e) = CapabilityIndex")
  case True
  with assms obtain application where e: "er_status e = EffectApplied" "er_application e = Some application"
    and evidence: "(case ae_evidence application of
        CapabilityIndexEvidence _ _ catalog receipt_digest \<Rightarrow>
          if publication \<noteq> None then Inl ControlCorrupt else Inr (Some (receipt_digest, catalog))
      | _ \<Rightarrow> Inl ControlCorrupt) = Inr publication'"
    unfolding index_publication_def and_then_Inr ok_or_Inr if_Inl_Inr
    by (auto split: ControlEffectSubject.split_asm if_splits simp: and_then_Inr ok_or_Inr simp del: not_None_eq)
  from evidence True e show ?thesis by (cases "ae_evidence application") (auto split: if_splits)
qed (use assms in \<open>simp add: index_publication_def\<close>)

lemma index_publication_fold:
  assumes "fold_result (index_publication X g n) publication es = Inr publication'"
  shows "publication' = publication \<or> (\<exists>e \<in> set es. \<exists>application generation digest receipt catalog. publication' = Some (receipt, catalog)
    \<and> ei_owner (er_intent e) = CapabilityIndex \<and> er_status e = EffectApplied \<and> er_application e = Some application
    \<and> ae_evidence application = CapabilityIndexEvidence generation digest catalog receipt)"
  using assms
proof (induction es arbitrary: publication)
  case (Cons e es)
  from Cons.prems obtain p where p: "index_publication X g n publication e = Inr p"
    "fold_result (index_publication X g n) p es = Inr publication'" by (auto simp: and_then_Inr)
  from index_publication_Inr [OF p(1)] Cons.IH [OF p(2)] show ?case by auto
qed simp

lemma published_package_Inr:
  assumes "published_package lifecycles p = Inr q"
  shows "pq_package_id q = InstallationPackageSelection_package_id p"
    and "bt_get lifecycles (InstallationPackageSelection_package_id p) = Some (pq_lifecycle_generation q)"
    and "cp_sha256 (cr_package (vr_record (lp_catalog (ip_package p)))) = Some (pq_package_digest q)"
  using assms by (auto simp: published_package_def Let_def and_then_Inr ok_or_Inr)

lemma contains_incarnation_iff:
  assumes "sorted_wrt (<) (map pq_package_id (pu_packages cursor))"
  shows "contains_incarnation cursor package_id n \<longleftrightarrow>
    (\<exists>q \<in> set (pu_packages cursor). pq_package_id q = package_id \<and> pq_lifecycle_generation q = n)"
proof -
  note found = binary_search_by_Some [OF assms]
  show ?thesis
  proof (cases "binary_search_by pq_package_id package_id (pu_packages cursor)")
    case None
    then have "\<not> (\<exists>i < length (pu_packages cursor). pq_package_id (pu_packages cursor ! i) = package_id)"
      using found by (metis option.distinct(1))
    with None show ?thesis by (auto simp: contains_incarnation_def in_set_conv_nth)
  next
    case (Some i)
    then have i: "i < length (pu_packages cursor)" "pq_package_id (pu_packages cursor ! i) = package_id" using found by auto
    have "q = pu_packages cursor ! i" if "q \<in> set (pu_packages cursor)" "pq_package_id q = package_id" for q
    proof -
      from that obtain j where "j < length (pu_packages cursor)" "q = pu_packages cursor ! j" by (auto simp: in_set_conv_nth)
      with that(2) Some found [of package_id j] show ?thesis by simp
    qed
    with Some i show ?thesis by (auto simp: contains_incarnation_def)
  qed
qed

lemma from_generation_Inr:
  assumes "ControlPublishedCapabilityCursor_from_generation g receipt catalog = Inr cursor"
  shows "pu_installation_generation cursor = ControlGeneration_number g" "pu_capability_generation cursor = cc_generation (gn_capability g)"
    "pu_descriptor_digest cursor = cc_descriptor_digest (gn_capability g)" "pu_receipt_digest cursor = receipt" "pu_catalog cursor = catalog"
    "gn_capability_status g = Published"
    and "contains_incarnation cursor package_id n \<longleftrightarrow> (\<exists>p \<in> set (is_packages (gn_snapshot g)). ip_enabled p
      \<and> InstallationPackageSelection_package_id p = package_id \<and> bt_get (lifecycle_index g) package_id = Some n)"
proof -
  from assms obtain packages where ps: "list_all2 (\<lambda>p q. published_package (lifecycle_index g) p = Inr q)
      (filter ip_enabled (is_packages (gn_snapshot g))) packages"
    and cursor: "pu_packages cursor = packages" "ControlPublishedCapabilityCursor_validate cursor = Inr ()"
    and fields: "pu_installation_generation cursor = is_generation (gn_snapshot g)"
      "pu_capability_generation cursor = cc_generation (gn_capability g)"
      "pu_descriptor_digest cursor = cc_descriptor_digest (gn_capability g)" "pu_receipt_digest cursor = receipt"
      "pu_catalog cursor = catalog" "gn_capability_status g = Published"
    by (auto simp: ControlPublishedCapabilityCursor_from_generation_def and_then_Inr collect_results_Inr Let_def if_Inl_Inr)
  from fields show "pu_installation_generation cursor = ControlGeneration_number g"
    "pu_capability_generation cursor = cc_generation (gn_capability g)"
    "pu_descriptor_digest cursor = cc_descriptor_digest (gn_capability g)" "pu_receipt_digest cursor = receipt" "pu_catalog cursor = catalog"
    "gn_capability_status g = Published" by (simp_all add: ControlGeneration_number_def)
  have "sorted_wrt (<) (map pq_package_id (pu_packages cursor))"
    using cursor(2) by (simp add: ControlPublishedCapabilityCursor_validate_def split: if_splits)
  note contains = contains_incarnation_iff [OF this, of package_id n]
  show "contains_incarnation cursor package_id n \<longleftrightarrow> (\<exists>p \<in> set (is_packages (gn_snapshot g)). ip_enabled p
      \<and> InstallationPackageSelection_package_id p = package_id \<and> bt_get (lifecycle_index g) package_id = Some n)" (is "?l \<longleftrightarrow> ?r")
  proof
    assume ?l
    with contains cursor(1) obtain q where q: "q \<in> set packages" "pq_package_id q = package_id" "pq_lifecycle_generation q = n" by auto
    from list_all2_set [OF ps] q(1) obtain p where "p \<in> set (is_packages (gn_snapshot g))" "ip_enabled p"
      "published_package (lifecycle_index g) p = Inr q" by auto
    with q published_package_Inr [OF this(3)] show ?r by auto
  next
    assume ?r
    then obtain p where p: "p \<in> set (filter ip_enabled (is_packages (gn_snapshot g)))" "InstallationPackageSelection_package_id p = package_id"
      "bt_get (lifecycle_index g) package_id = Some n" by auto
    from list_all2_set [OF ps] p(1) obtain q where "q \<in> set packages" "published_package (lifecycle_index g) p = Inr q" by auto
    with p(2,3) published_package_Inr [OF this(2)] contains cursor(1) show ?l by auto
  qed
qed

lemma published_generation_unique:
  assumes inv: "store_inv st" and "g \<in> set (cs_generations st)" "gn_capability_status g = Published"
    and "g' \<in> set (cs_generations st)" "gn_capability_status g' = Published"
  shows "g = g'"
proof -
  let ?ps = "filter (\<lambda>g. gn_capability_status g = Published) (cs_generations st)"
  from inv have "length (map (cc_generation \<circ> gn_capability) ?ps) \<le> 1"
    by (simp add: store_inv_def publication_inv_def)
  then have "length ?ps \<le> 1" by simp
  moreover have "g \<in> set ?ps" "g' \<in> set ?ps" using assms by auto
  ultimately show ?thesis by (cases ?ps) auto
qed

end
