(* ===== verification/Control_Safety.thy ===== *)
theory Control_Safety
  imports Control_Settlement Control_Publication
begin

text \<open>
  What the invariant of the control store gives: the consistency of every reachable store, the settlement of completed
  operations, the sequence of claims, the fencing of observations and the immutability of committed history.
\<close>

section \<open>Properties of every reachable store\<close>

lemma pending_unique:
  assumes inv: "store_inv st" and r: "r \<in> set (cs_operations st)" "co_status r = EffectsPending"
    and r': "r' \<in> set (cs_operations st)" "co_status r' = EffectsPending"
  shows "r = r'"
proof -
  have target: "target_generation (co_reviewed q) = Inr (cs_current_generation st)"
    if "q \<in> set (cs_operations st)" "co_status q = EffectsPending" for q
    using inv that by (simp add: store_inv_def operations_inv_def)
  obtain g where g: "g \<in> set (cs_generations st)" "gn_operation_id g = ControlOperationRecord_id r"
    "target_generation (co_reviewed r) = Inr (ControlGeneration_number g)"
    using committed_generation [OF inv r(1)] r(2) by (auto simp: committed_def)
  obtain g' where g': "g' \<in> set (cs_generations st)" "gn_operation_id g' = ControlOperationRecord_id r'"
    "target_generation (co_reviewed r') = Inr (ControlGeneration_number g')"
    using committed_generation [OF inv r'(1)] r'(2) by (auto simp: committed_def)
  have "ControlGeneration_number g = ControlGeneration_number g'" using g(3) g'(3) target r r' by simp
  then have "g = g'" by (intro generation_unique [OF inv g(1) g'(1)] disjI1)
  with g(2) g'(2) show ?thesis by (intro operation_unique [OF inv r(1) r'(1)]) simp
qed

text \<open>The effects of a completed operation.\<close>

lemma completed_settled:
  assumes inv: "store_inv st" and r: "r \<in> set (cs_operations st)" "co_status r = OperationCompleted"
  shows "capability_cutover_applied st (ControlOperationRecord_id r)"
    and "e \<in> set (cs_effects st) \<Longrightarrow> er_operation_id e = ControlOperationRecord_id r \<Longrightarrow>
      er_status e = EffectApplied \<or> \<not> ei_required (er_intent e) \<and> er_status e = EffectRejected"
proof -
  obtain g where "g \<in> set (cs_generations st)" "gn_operation_id g = ControlOperationRecord_id r"
    "publication_fits (co_status r) (gn_capability_status g)"
    using committed_generation [OF inv r(1)] r(2) by (auto simp: committed_def)
  with inv r(2) show "capability_cutover_applied st (ControlOperationRecord_id r)"
    by (auto simp: store_inv_def publication_inv_def)
  assume e: "e \<in> set (cs_effects st)" "er_operation_id e = ControlOperationRecord_id r"
  from inv e obtain q where q: "q \<in> set (cs_operations st)" "ControlOperationRecord_id q = er_operation_id e"
    "co_status q = OperationCompleted \<longrightarrow> \<not> effect_unfinished e" by (auto simp: store_inv_def effects_inv_def)
  with e(2) have "q = r" by (intro operation_unique [OF inv q(1) r(1)]) simp
  with q(3) r(2) show "er_status e = EffectApplied \<or> \<not> ei_required (er_intent e) \<and> er_status e = EffectRejected"
    by (auto simp: effect_unfinished_def)
qed

text \<open>
  C5: In every reachable control store the generations are numbered consecutively up to the current one, at most
  one operation owns pending effects, the published cursor is the capability of the one published generation, every
  committed operation has exactly one generation, in a publication state that fits the status of the operation, and a
  completed operation has its capability cutover applied, its required effects applied and its optional ones applied or
  rejected.
\<close>

theorem control_store_consistent:
  assumes "control_reachable X installation st"
  shows "map (unat \<circ> ControlGeneration_number) (cs_generations st) = [1..<Suc (unat (cs_current_generation st))]
    \<and> (\<forall>r \<in> set (cs_operations st). \<forall>r' \<in> set (cs_operations st).
         co_status r = EffectsPending \<and> co_status r' = EffectsPending \<longrightarrow> r = r')
    \<and> map (cc_generation \<circ> gn_capability) (filter (\<lambda>g. gn_capability_status g = Published) (cs_generations st))
      = (if cs_published_capability_generation st = 0 then [] else [cs_published_capability_generation st])
    \<and> (\<forall>r \<in> set (cs_operations st). committed r \<longrightarrow> (\<exists>!g. g \<in> set (cs_generations st)
      \<and> gn_operation_id g = ControlOperationRecord_id r \<and> target_generation (co_reviewed r) = Inr (ControlGeneration_number g)
      \<and> publication_fits (co_status r) (gn_capability_status g)))
    \<and> (\<forall>r \<in> set (cs_operations st). co_status r = OperationCompleted \<longrightarrow>
         capability_cutover_applied st (ControlOperationRecord_id r)
         \<and> (\<forall>e \<in> set (cs_effects st). er_operation_id e = ControlOperationRecord_id r \<longrightarrow>
              er_status e = EffectApplied \<or> \<not> ei_required (er_intent e) \<and> er_status e = EffectRejected))"
proof (intro conjI)
  note inv = control_machine.reachable_inv [OF assms]
  from inv show "map (unat \<circ> ControlGeneration_number) (cs_generations st) = [1..<Suc (unat (cs_current_generation st))]"
    by (simp add: store_inv_def generations_inv_def)
  from inv show "map (cc_generation \<circ> gn_capability) (filter (\<lambda>g. gn_capability_status g = Published) (cs_generations st))
      = (if cs_published_capability_generation st = 0 then [] else [cs_published_capability_generation st])"
    by (simp add: store_inv_def publication_inv_def)
  show "\<forall>r \<in> set (cs_operations st). \<forall>r' \<in> set (cs_operations st).
      co_status r = EffectsPending \<and> co_status r' = EffectsPending \<longrightarrow> r = r'"
    using pending_unique [OF inv] by blast
  show "\<forall>r \<in> set (cs_operations st). committed r \<longrightarrow> (\<exists>!g. g \<in> set (cs_generations st)
      \<and> gn_operation_id g = ControlOperationRecord_id r \<and> target_generation (co_reviewed r) = Inr (ControlGeneration_number g)
      \<and> publication_fits (co_status r) (gn_capability_status g))"
    using committed_generation [OF inv] generation_unique [OF inv] by metis
  show "\<forall>r \<in> set (cs_operations st). co_status r = OperationCompleted \<longrightarrow>
         capability_cutover_applied st (ControlOperationRecord_id r)
         \<and> (\<forall>e \<in> set (cs_effects st). er_operation_id e = ControlOperationRecord_id r \<longrightarrow>
              er_status e = EffectApplied \<or> \<not> ei_required (er_intent e) \<and> er_status e = EffectRejected)"
    using completed_settled [OF inv] by blast
qed

theorem control_store_consistent_witness:
  "capability_cutover_applied witness_completed ''op1''
    \<and> map (unat \<circ> ControlGeneration_number) (cs_generations witness_completed) = [1..<2]"
proof -
  have "witness_completed_row \<in> set (cs_operations witness_completed)" "co_status witness_completed_row = OperationCompleted"
    "ControlOperationRecord_id witness_completed_row = ''op1''" "unat (cs_current_generation witness_completed) = 1"
    by (simp_all add: witness_completed_def witness_completed_row_def finish_operation_def ControlOperationRecord_id_def
        witness_row_fields witness_reviewed_fields)
  with control_store_consistent [OF witness_completed_reachable] show ?thesis
    by (metis One_nat_def Suc_1)
qed

text \<open>
  C8: A claim hands out the effects of an operation strictly in sequence: every earlier effect has settled, no later
  one has ever been claimed, no other effect of the store holds the claim token, and the attempt count grows by one.
\<close>

theorem claims_follow_sequence:
  assumes "control_reachable X installation st" and "claim_next_effect X st installation request = Inr (st', Some claimed)"
  shows "\<exists>e \<in> set (cs_effects st). er_intent e = cz_intent claimed \<and> er_operation_id e = ec_operation_id request
    \<and> unat (cz_attempt claimed) = Suc (unat (er_attempt e))
    \<and> (\<forall>x \<in> set (cs_effects st). er_operation_id x = er_operation_id e \<longrightarrow>
         (ei_sequence (er_intent x) < ei_sequence (er_intent e) \<longrightarrow> \<not> effect_unfinished x)
         \<and> (ei_sequence (er_intent e) < ei_sequence (er_intent x) \<longrightarrow> er_status x = EffectPending))
    \<and> (\<forall>x \<in> set (cs_effects st'). er_claim_token x = Some (ec_claim_token request) \<longrightarrow> er_intent x = er_intent e)"
  using assms(2)
proof (cases rule: claim_writes)
  case (2 r e attempt authority)
  note inv = control_machine.reachable_inv [OF assms(1)]
  from 2(1,2) have op: "ec_operation_id request \<in> ControlOperationRecord_id ` set (cs_operations st)" by force
  note e = next_unfinished_first [OF 2(4) op]
  have later: "er_status x = EffectPending" if "x \<in> set (cs_effects st)" "er_operation_id x = er_operation_id e"
    "ei_sequence (er_intent e) < ei_sequence (er_intent x)" for x
    using inv e(1,3) that unfolding store_inv_def effects_inv_def by metis
  have token: "er_intent x = er_intent e"
    if x: "x \<in> set (cs_effects st')" "er_claim_token x = Some (ec_claim_token request)" for x
  proof -
    from x(1) obtain y where y: "y \<in> set (cs_effects st)"
      "x = (if effect_with_key (ei_idempotency_key (er_intent e)) y then claimed_row request attempt y else y)"
      unfolding 2(9) by (auto simp: update_effects_def)
    with x(2) 2(8) have "effect_with_key (ei_idempotency_key (er_intent e)) y" by (auto split: if_splits)
    with y effect_unique [OF inv y(1) e(1)] show ?thesis by (simp add: effect_with_key_def claimed_row_def)
  qed
  have "unat attempt = Suc (unat (er_attempt e))" using checked_add_Some [OF 2(7)] by simp
  with 2(10) e later token show ?thesis by (intro bexI [of _ e]) auto
qed simp

theorem claims_follow_sequence_witness:
  "\<exists>claimed. claim_next_effect control_witness_externals witness_committed witness_installation (witness_claim ''c1'')
     = Inr (witness_first_claimed, Some claimed) \<and> unat (cz_attempt claimed) = 1"
proof -
  obtain claimed where claimed: "claim_next_effect control_witness_externals witness_committed witness_installation (witness_claim ''c1'')
     = Inr (witness_first_claimed, Some claimed)" using witness_first_claim by blast
  have "\<forall>e \<in> set (cs_effects witness_committed). er_attempt e = 0" by (simp add: witness_committed_def effect_row_def)
  with claims_follow_sequence [OF witness_committed_reachable claimed] have "unat (cz_attempt claimed) = 1" by fastforce
  with claimed show ?thesis by blast
qed

text \<open>
  C7: A fresh observation is fenced by the claim: the effect is claimed, under the very token of the observation and
  within its lease, and its operation is the one that owns the pending effects. An observation under any other token,
  after the lease or of an effect that is not claimed changes nothing.
\<close>

theorem observation_fenced:
  assumes "control_reachable X installation st" and "record_effect_observation X st installation observation = Inr (st', fresh)"
  shows "if fresh then \<exists>e \<in> set (cs_effects st). \<exists>lease. \<exists>r \<in> set (cs_operations st).
      ei_idempotency_key (er_intent e) = eo_idempotency_key observation \<and> er_operation_id e = eo_operation_id observation
      \<and> er_status e = EffectClaimed \<and> er_claim_token e = Some (eo_claim_token observation)
      \<and> er_lease_until_ms e = Some lease \<and> eo_observed_at_ms observation \<le> lease
      \<and> ControlOperationRecord_id r = eo_operation_id observation \<and> co_status r = EffectsPending
    else st' = st"
  using assms(2)
proof (cases rule: observation_writes)
  case (2 e digest)
  note e = read_effect_by_key_stored [OF 2(2)]
  from 2(4) obtain lease where l: "er_status e = EffectClaimed" "er_claim_token e = Some (eo_claim_token observation)"
    "er_lease_until_ms e = Some lease" "eo_observed_at_ms observation \<le> lease"
    by (cases "er_lease_until_ms e") (auto simp: owns_active_claim_def is_none_or_def)
  from control_machine.reachable_inv [OF assms(1)] e(1) l(1) obtain r where "r \<in> set (cs_operations st)" "ControlOperationRecord_id r = er_operation_id e"
    "co_status r = EffectsPending" by (auto simp: store_inv_def effects_inv_def)
  with 2(1,3) e l show ?thesis by auto
qed simp

theorem observation_fenced_witness:
  "\<exists>e \<in> set (cs_effects witness_first_claimed). er_status e = EffectClaimed \<and> er_claim_token e = Some ''c1''"
  using observation_fenced [OF witness_first_claimed_reachable witness_first_observe]
  by (auto simp: witness_observation_def)

section \<open>Committed history\<close>


text \<open>The part of a generation that no later step changes.\<close>

definition committed_part :: "ControlGeneration \<Rightarrow> ControlGeneration" where
  "committed_part g = g\<lparr>gn_capability_status := Candidate, gn_capability_published_at_ms := None\<rparr>"

definition same_history :: "control_store \<Rightarrow> control_store \<Rightarrow> bool" where
  "same_history st' st =
     (map committed_part (cs_generations st') = map committed_part (cs_generations st)
      \<and> cs_current_generation st' = cs_current_generation st
      \<and> map co_reviewed (cs_operations st') = map co_reviewed (cs_operations st)
      \<and> map er_intent (cs_effects st') = map er_intent (cs_effects st))"

lemma same_history_refl: "same_history st st"
  by (simp add: same_history_def)

lemma same_history_trans: "same_history c b \<Longrightarrow> same_history b a \<Longrightarrow> same_history c a"
  by (simp add: same_history_def)

lemma update_operations_history: "(\<And>r. co_reviewed (f r) = co_reviewed r) \<Longrightarrow> same_history (update_operations P f st) st"
  by (simp add: same_history_def update_operations_def)

lemma update_generations_history:
  "(\<And>g. committed_part (f g) = committed_part g) \<Longrightarrow> same_history (update_generations P f st) st"
  by (simp add: same_history_def update_generations_def)

lemma update_effects_history: "(\<And>e. er_intent (f e) = er_intent e) \<Longrightarrow> same_history (update_effects P f st) st"
  by (simp add: same_history_def update_effects_def)

lemma settle_cutover_history: "settle_cutover intent observation st = Inr st' \<Longrightarrow> same_history st' st"
proof (cases "st' = st")
  case False
  assume "settle_cutover intent observation st = Inr st'"
  with False have "publish_capability_cutover st intent (eo_observed_at_ms observation) = Inr st'"
    by (simp add: settle_cutover_def split: if_splits)
  then show ?thesis
    by (rule publish_writes) (simp add: same_history_def republish_def retire_row_def committed_part_def)
qed (simp add: same_history_refl)

lemma settle_rejection_history: "settle_rejection intent observation digest st = Inr st' \<Longrightarrow> same_history st' st"
  by (auto simp: settle_rejection_def Let_def and_then_Inr finish_operation_def committed_part_def split: if_splits
      intro: same_history_refl same_history_trans [OF update_generations_history update_operations_history])

lemma observe_history:
  assumes "record_effect_observation X st installation observation = Inr (st', fresh)"
  shows "same_history st' st"
  using assms
proof (cases rule: observation_writes)
  case (2 e digest)
  let ?mid = "update_effects (\<lambda>row. effect_with_key (eo_idempotency_key observation) row \<and> er_status row = EffectClaimed)
         (observed_row observation digest) st"
  from 2(5) obtain st2 where "settle_cutover (er_intent e) observation ?mid = Inr st2"
    "settle_rejection (er_intent e) observation digest st2 = Inr st'"
    by (auto simp: settle_observation_def and_then_Inr)
  then have "same_history st2 ?mid" "same_history st' st2" by (auto intro: settle_cutover_history settle_rejection_history)
  moreover have "same_history ?mid st" by (rule update_effects_history) (simp add: observed_row_def)
  ultimately show ?thesis by (blast intro: same_history_trans)
qed (simp add: same_history_refl)

lemma claim_history: "claim_next_effect X st installation request = Inr (st', claimed) \<Longrightarrow> same_history st' st"
  by (erule claim_writes) (simp_all add: same_history_refl update_effects_history claimed_row_def)

lemma complete_history:
  "complete_operation X st installation operation_id plan_digest result_digest t = Inr (st', r) \<Longrightarrow> same_history st' st"
  by (cases "st' = st") (auto elim!: complete_writes intro!: update_operations_history simp: same_history_refl finish_operation_def)

lemma cancel_history:
  "cancel_operation X st installation operation_id plan_digest result_digest t = Inr (st', r) \<Longrightarrow> same_history st' st"
  by (auto simp: cancel_operation_def and_then_Inr if_Inl_Inr Let_def finish_operation_def split: if_splits
      intro: same_history_refl update_operations_history)

text \<open>
  C9: No step of the store rewrites history: every step keeps the reviewed evidence of all operations, the intents of all
  effects and everything of the committed generations but their publication state, and appends at most one operation, or
  one generation, which advances the generation cursor by one, with the intents of its effects.
\<close>

theorem committed_history_immutable:
  assumes "control_step X installation st st'"
  shows "\<exists>generations operations intents.
    map committed_part (cs_generations st') = map committed_part (cs_generations st) @ generations
    \<and> map co_reviewed (cs_operations st') = map co_reviewed (cs_operations st) @ operations
    \<and> map er_intent (cs_effects st') = map er_intent (cs_effects st) @ intents
    \<and> length generations + length operations \<le> 1 \<and> (intents \<noteq> [] \<longrightarrow> generations \<noteq> [])
    \<and> unat (cs_current_generation st') = unat (cs_current_generation st) + length generations"
proof -
  have kept: ?thesis if "same_history st' st"
    using that by (intro exI [of _ "[]"]) (simp add: same_history_def)
  from assms show ?thesis
  proof (cases rule: control_step.cases)
    case (register reviewed r)
    show ?thesis
    proof (cases "st' = st")
      case False
      with register have "st' = st\<lparr>cs_operations := cs_operations st @ [reviewed_row reviewed]\<rparr>" by (rule register_writes)
      then show ?thesis by (intro exI [of _ "[]"] exI [of _ "[co_reviewed (reviewed_row reviewed)]"]) simp
    qed (intro kept, simp add: same_history_refl)
  next
    case (commit transition g)
    then show ?thesis
    proof (cases rule: commit_cases)
      case (1 operation)
      from replay_unchanged [OF 1(4)] same_history_refl show ?thesis by (intro kept) simp
    next
      case (2 operation prior history)
      from 2(8) show ?thesis
      proof (rule admit_writes)
        fix digest rows target
        assume w: "target_generation (co_reviewed operation) = Inr target"
          "cs_current_generation st = ro_expected_generation (co_reviewed operation)"
          "st' = update_operations (operation_in_state (tr_operation_id transition) Reviewed)
            (\<lambda>row. row\<lparr>co_status := EffectsPending, co_committed_at_ms := Some (tr_committed_at_ms transition)\<rparr>)
            (st\<lparr>cs_generations := cs_generations st @ [generation_row transition digest],
               cs_effects := cs_effects st @ rows, cs_current_generation := target\<rparr>)"
        have "unat target = Suc (unat (cs_current_generation st))"
          using w(1,2) checked_add_Some [of "ro_expected_generation (co_reviewed operation)" 1 target]
          by (simp add: target_generation_def ok_or_Inr)
        with w(3) show ?thesis
          by (intro exI [of _ "[committed_part (generation_row transition digest)]"] exI [of _ "[]"] exI [of _ "map er_intent rows"])
            (simp add: update_operations_def)
      qed
    qed
  qed (rule kept, erule cancel_history claim_history observe_history complete_history)+
qed

theorem committed_history_immutable_witness:
  "\<exists>generations. map committed_part (cs_generations witness_committed) = generations \<and> length generations = 1"
proof -
  note step = control_step.commit [OF witness_commit]
  have "unat (cs_current_generation witness_committed) = 1" "unat (cs_current_generation witness_registered) = 0"
    "cs_generations witness_registered = []"
    by (simp_all add: witness_committed_def witness_registered_fields)
  with committed_history_immutable [OF step] show ?thesis by auto
qed



section \<open>Published capabilities\<close>

text \<open>
  C10: The published capabilities a reader sees are those of the one published generation: its numbers and descriptor, the
  receipt and catalog of the applied capability-index effect of its operation, and it contains a package incarnation
  exactly when the package is enabled in the snapshot of that generation under that lifecycle generation.
\<close>

theorem published_capability_exact:
  assumes "control_reachable X installation st" and "published_capability X st installation = Inr (Some cursor)"
  shows "\<exists>g \<in> set (cs_generations st). gn_capability_status g = Published
    \<and> (\<forall>g' \<in> set (cs_generations st). gn_capability_status g' = Published \<longrightarrow> g' = g)
    \<and> pu_installation_generation cursor = ControlGeneration_number g
    \<and> pu_capability_generation cursor = cs_published_capability_generation st
    \<and> pu_descriptor_digest cursor = cc_descriptor_digest (gn_capability g)
    \<and> (\<exists>e \<in> set (cs_effects st). er_operation_id e = gn_operation_id g \<and> ei_owner (er_intent e) = CapabilityIndex
        \<and> er_status e = EffectApplied \<and> (\<exists>application generation digest. er_application e = Some application
          \<and> ae_evidence application = CapabilityIndexEvidence generation digest (pu_catalog cursor) (pu_receipt_digest cursor)))
    \<and> (\<forall>package_id n. contains_incarnation cursor package_id n \<longleftrightarrow>
         (\<exists>p \<in> set (is_packages (gn_snapshot g)). ip_enabled p \<and> InstallationPackageSelection_package_id p = package_id
            \<and> bt_get (lifecycle_index g) package_id = Some n))"
proof -
  note inv = control_machine.reachable_inv [OF assms(1)]
  from assms(2) obtain row g effects receipt catalog where
    read: "read_generation_from X st installation (ControlGeneration_number row) = Inr (Some g)"
    and g: "cc_generation (gn_capability g) = cs_published_capability_generation st" "gn_capability_status g = Published"
    and effects: "read_effects_from X st installation (gn_operation_id g) = Inr effects"
    and fold: "fold_result (index_publication X g (cs_published_capability_generation st)) None effects = Inr (Some (receipt, catalog))"
    and cursor: "ControlPublishedCapabilityCursor_from_generation g receipt catalog = Inr cursor"
    by (auto simp: published_capability_def read_published_capability_from_def read_cursors_def Let_def and_then_Inr ok_or_Inr
        if_Inl_Inr map_err_Inr split: if_splits)
  note stored = read_generation_stored [OF read] and fields = from_generation_Inr [OF cursor]
  from index_publication_fold [OF fold] obtain e where e: "e \<in> set effects" "ei_owner (er_intent e) = CapabilityIndex"
    "er_status e = EffectApplied" "\<exists>application generation digest. er_application e = Some application
      \<and> ae_evidence application = CapabilityIndexEvidence generation digest catalog receipt" by auto
  have "e \<in> set (cs_effects st)" "er_operation_id e = gn_operation_id g"
    using read_effects_subset [OF effects] e(1) by auto
  with e(2-4) have receipt: "\<exists>e \<in> set (cs_effects st). er_operation_id e = gn_operation_id g \<and> ei_owner (er_intent e) = CapabilityIndex
        \<and> er_status e = EffectApplied \<and> (\<exists>application generation digest. er_application e = Some application
          \<and> ae_evidence application = CapabilityIndexEvidence generation digest (pu_catalog cursor) (pu_receipt_digest cursor))"
    unfolding fields(4,5) by blast
  have unique: "\<forall>g' \<in> set (cs_generations st). gn_capability_status g' = Published \<longrightarrow> g' = g"
    using published_generation_unique [OF inv _ _ stored(1) g(2)] by blast
  show ?thesis
    by (intro bexI [OF _ stored(1)] conjI allI g(2) unique fields(1) fields(3) fields(7) receipt) (simp add: fields(2) g(1))
qed

lemma witness_publication:
  "\<exists>cursor. published_capability control_witness_externals witness_completed witness_installation = Inr (Some cursor)"
proof -
  let ?e = "witness_applied ''c1'' witness_prepare witness_skill_ready" and ?e' = "witness_applied ''c2'' witness_cutover witness_index_published"
  have g: "gn_snapshot witness_published = witness_first_snapshot" "gn_capability witness_published = witness_capability"
    "gn_capability_status witness_published = Published" "gn_capability_published_at_ms witness_published = Some 9"
    "gn_operation_id witness_published = ''op1''" "ControlGeneration_number witness_published = 1"
    "gn_package_lifecycles witness_published = witness_lifecycles"
    by (simp_all add: witness_published_def witness_generation_fields ControlGeneration_number_def witness_snapshot_fields)
  have gen: "read_generation_from control_witness_externals witness_completed witness_installation 1 = Inr (Some witness_published)"
    by (rule witness_generation_read [OF _ witness_published_row]) (simp add: witness_completed_def)
  have effects: "read_effects_from control_witness_externals witness_completed witness_installation ''op1'' = Inr [?e, ?e']"
    using witness_effects_read [OF witness_completed_rows] by (simp add: witness_completed_def)
  obtain catalog where catalog: "ae_evidence witness_index_published = CapabilityIndexEvidence 1 zero_digest catalog zero_digest"
    "catalog = \<lparr>cb_schema = CONTROL_CAPABILITY_CATALOG_BINDING_SCHEMA, cb_installation = witness_installation, cb_generation = 1,
        cb_digest = zero_digest, cb_revision = zero_digest\<rparr>"
    by (simp add: witness_index_published_def)
  have fold: "fold_result (index_publication control_witness_externals witness_published 1) None [?e, ?e'] = Inr (Some (zero_digest, catalog))"
    using witness_applications_valid(2)
    by (simp add: index_publication_def witness_applied_fields witness_intent_fields g catalog(1))
  have "PluginPackageId_parse ''acme/a'' = Inr ''acme/a''" by code_simp
  then have cursor: "\<exists>cursor. ControlPublishedCapabilityCursor_from_generation witness_published zero_digest catalog = Inr cursor"
    using witness_digests_differ witness_valid_installation
    by (simp add: ControlPublishedCapabilityCursor_from_generation_def g witness_snapshot_fields witness_package_digests published_package_def
        witness_selection_id lifecycle_index_def bt_collect_def bt_get_def ControlPublishedCapabilityCursor_validate_def catalog(2)
        ControlCapabilityCatalogBinding_validate_def ControlCapabilityCatalogBinding_matches_generation_def published_package_valid_def
        MAX_PLUGIN_PLAN_ITEMS_def)
  have store: "cs_published_capability_generation witness_completed = 1" "cs_generations witness_completed = [witness_published]"
    "cs_installation witness_completed = witness_installation"
    by (simp_all add: witness_completed_def)
  from cursor show ?thesis
    by (auto simp: published_capability_def read_published_capability_from_def read_cursors_def store witness_open witness_i64 g gen effects fold
        simp del: fold_result.simps)
qed

theorem published_capability_exact_witness:
  "\<exists>cursor. published_capability control_witness_externals witness_completed witness_installation = Inr (Some cursor)
     \<and> contains_incarnation cursor ''acme/a'' 1 \<and> \<not> contains_incarnation cursor ''acme/a'' 2"
proof -
  obtain cursor where cursor: "published_capability control_witness_externals witness_completed witness_installation = Inr (Some cursor)"
    using witness_publication by blast
  have "cs_generations witness_completed = [witness_published]" "is_packages (gn_snapshot witness_published) = [witness_selection]"
    "lifecycle_index witness_published = [(''acme/a'', 1)]"
    by (simp_all add: witness_completed_def witness_published_def witness_generation_fields witness_snapshot_fields lifecycle_index_def bt_collect_def)
  with published_capability_exact [OF witness_completed_reachable cursor]
  have "contains_incarnation cursor ''acme/a'' 1" "\<not> contains_incarnation cursor ''acme/a'' 2"
    by (simp_all add: witness_package_digests witness_selection_id bt_get_def)
  with cursor show ?thesis by blast
qed

end
