(* ===== verification/Spec2Isabelle.thy ===== *)
theory Spec2Isabelle
  imports Package_Resolution Lifecycle_Journal Plan_Binding Installation_Snapshot Grant Control_Safety
begin

text \<open>
  A verification library for A3S Use, a package manager for cognitive packages: it resolves an exact graph of
  signed packages, plans a change of one installation, has the plan reviewed, and applies it through one
  atomic cutover of the published capabilities.

  \<^bold>\<open>The program and how its parts interact.\<close> A registry delivers verified catalog records. The resolver selects one
  version per package and produces a package lock. A planner derives package transitions from the records and
  binds them, with permissions, secrets, providers and impacts, into an operation plan; an envelope ties the plan to
  its digest and its locks, and a user may have to confirm it. Workspace grants give packages the reviewed part of
  their permission ceilings. The desired state is one installation snapshot per installation. The control store holds
  its history: a reviewed operation is registered, the next generation is projected from it and committed
  together with an outbox of external effects, workers claim the effects in order and report what their owners did,
  the capability cutover publishes the generation, and the operation completes. The older per-package journal runs the
  checkpoints of one lifecycle intent with resumption and rollback.

  \<^bold>\<open>Theories and sources\<close> (paths under \<open>src/\<close>; \<open>core\<close> is \<open>crates/core/src/plugin\<close>, \<open>store\<close> is
  \<open>src/control_store\<close>).

  \<^item> \<open>Prelude\<close>: results and fallible loops, \<open>BTreeMap\<close> as sorted association lists behind the locale \<open>ordered_map\<close>,
    binary search. \<open>Graph\<close>: \<open>BTreeSet\<close>, the worklist loop, acyclic graphs. \<open>Machine\<close>: reachability and the locales
    \<open>invariant_machine\<close> and \<open>progress_machine\<close>, interpreted by the journal, the snapshot and the control store.
  \<^item> \<open>Contract\<close> (\<open>core/mod.rs\<close>, \<open>crates/core/src/lib.rs\<close>): errors, bounded decoding, canonical digests, and the record
    \<open>externals\<close> of third-party functions. \<open>Validation\<close> (\<open>core/validation.rs\<close>), \<open>Identity\<close> (\<open>core/identity.rs\<close>,
    \<open>installation.rs\<close>, \<open>package_dependency.rs\<close>), \<open>Okf\<close> (\<open>crates/core/src/okf/{mod,path}.rs\<close>).
  \<^item> \<open>Permission\<close> (\<open>core/permission.rs\<close>): comparison of permission ceilings is inclusion of the admitted requests.
  \<^item> \<open>Catalog\<close> (\<open>core/catalog.rs\<close>, \<open>catalog_selection.rs\<close>, \<open>catalog_trust.rs\<close>): validation of records, exact
    acceptance of dependency graphs, selection as dependency closure, the ceiling of each executable surface.
  \<^item> \<open>Package_Lock\<close> (\<open>core/package_lock.rs\<close>) and \<open>Package_Resolution\<close> (\<open>core/package_resolution.rs\<close>): a lock is accepted
    exactly when it is consistent, the orders respect dependencies, the search is sound, complete up to its
    bounds and reports only the documented errors.
  \<^item> \<open>Plan_Package\<close>, \<open>Plan\<close>, \<open>Plan_Binding\<close> (\<open>core/plan.rs\<close>, \<open>plan_validation.rs\<close>, \<open>plan_package_validation.rs\<close>,
    \<open>catalog_plan.rs\<close>, \<open>plan_draft.rs\<close>, \<open>plan_confirmation.rs\<close>, \<open>installed_plan.rs\<close>): what a valid plan covers, enforces
    and discloses, which drafts bind, and who may apply a plan when.
  \<^item> \<open>Grant\<close> (\<open>core/grant.rs\<close>, \<open>grant_resolution.rs\<close>, \<open>grant_changes.rs\<close>, \<open>resolved_grant_changes.rs\<close>,
    \<open>mcp_endpoint_grant.rs\<close>): finalized grants are attenuated, confirmed and exactly those the plan needs.
  \<^item> \<open>Installation_Snapshot\<close> (\<open>core/installation_snapshot.rs\<close>): compare-and-swap enablement, its invariant over all runs,
    and the round trip between snapshots and root locks.
  \<^item> \<open>Surface_Graph\<close> (\<open>src/surface_graph.rs\<close>), \<open>Lifecycle\<close> (\<open>src/plugin_lifecycle/model.rs\<close>, \<open>schedule.rs\<close>),
    \<open>Lifecycle_Journal\<close> (\<open>journal.rs\<close>, \<open>store.rs\<close>): schedules, checkpoint sequences and keys, the operation record as a
    state machine with its invariant and progress, and the file store as its refinement.
  \<^item> \<open>Control_Effect\<close> (\<open>store/model/effect.rs\<close>, \<open>effect_application.rs\<close>, \<open>effect_state.rs\<close>, \<open>provider.rs\<close>),
    \<open>Control_Operation\<close> (\<open>store/model/operation.rs\<close>, \<open>store/model.rs\<close>), \<open>Control_Projection\<close>
    (\<open>store/model/projection.rs\<close> and its submodules): effects and their evidence, reviewed operations, and the deterministic
    projection of the next generation with its phased effects.
  \<^item> \<open>Control_Read\<close>, \<open>Control_Authority\<close>, \<open>Control_Store\<close>, \<open>Control_Publication\<close> (\<open>store/aggregate.rs\<close> and
    \<open>store/aggregate/\<close>, \<open>store/model/capability_publication.rs\<close>): the tables and their reads, the authority of a claim, every
    transaction, and the published cursor. \<open>Control_Invariant\<close> proves the invariant of the store over all sequences of
    transactions; \<open>Control_Safety\<close> draws the properties from it; \<open>Control_Witness\<close>, \<open>Control_Run\<close> and
    \<open>Control_Settlement\<close> evaluate one concrete operation from registration to completion.

  \<^bold>\<open>Modelling conventions.\<close> Structs are records and enums datatypes; fields carry a short prefix of their type. A
  \<open>Result\<close> is a sum with \<open>Inl\<close> the error code. Integers keep their width (\<open>u64\<close>, \<open>u32\<close>, \<open>u16\<close> are words) and \<open>checked_add\<close>
  is written out; a \<open>usize\<close> that counts elements is a natural number. Strings are their UTF-8 bytes. A method on \<open>&mut self\<close>
  returns the new state. A database transaction is a function from the store to an error, which leaves the store
  as it was, or the next store. Third-party code, namely SHA-256, serde encodings, the \<open>semver\<close> and \<open>url\<close> crates and
  percent decoding, is an argument; the hypotheses on it, such as that decoding inverts encoding, are written in the
  theorems that need them and are met by the concrete functions of the witnesses.

  \<^bold>\<open>Bounds and fuel.\<close> No definition uses fuel: loops of the source are structural recursions or functions with a
  termination proof, by the number of unprocessed nodes for the graph loops and by the number of packages that may still
  be selected, at most 512, for the resolver. Bounds such as 256 surfaces, 512 plan items, 4096 effects or a plan
  lifetime of one hour are those of the source.

  \<^bold>\<open>Not modelled.\<close> Command line, network and MCP transport, the capability gateway and its registries, asynchronous
  coordinators and workers, host drivers, backup and restore, archive and TUF handling, tool acquisition, release descriptors and
  document inspection: they are I/O or scheduling around the modelled operations, or contracts left for later work. Of the
  modelled parts the messages and details of errors, failing system calls, SQLite itself and the columns that repeat a field
  of a decoded row are left out.
\<close>

end
